(* ===== verification/Prelude.thy ===== *)
theory Prelude
  imports Main
begin

text \<open>
  Shared vocabulary of the development.

  \<^item> Programs: an asynchronous service method becomes a function from the state to an
    error or a result, together with the state it leaves (\<open>('e, 's, 'a) prog\<close>). A thrown
    error keeps the writes made before it, as autocommitted statements do;
    \<open>transaction\<close> undoes them, as a database transaction does.
  \<^item> Tables: a database table is the list of its rows; the SQL statements the code issues
    are \<open>find\<close>, \<open>filter\<close>, \<open>update_where\<close> and appending a row.
  \<^item> Hints: \<open>run_simps\<close> evaluates programs, \<open>keeps_rules\<close> proves that a program keeps an
    invariant of the state, whatever it returns.
  \<^item> The locale \<open>invariant_system\<close> lifts an inductive invariant from single steps to
    all reachable states.
\<close>

named_theorems run_simps "equations that evaluate programs"
named_theorems keeps_rules "rules that prove a program keeps an invariant"
named_theorems returns_iff "when a program returns, and with which state"
named_theorems leaves_rules "rules that prove a program leaves a part of the state alone"

section \<open>Scalars\<close>

text \<open>
  A UUID is the 128-bit number its canonical lower-case text writes. The order of numbers is the
  order of those texts and PostgreSQL's order of the \<open>uuid\<close> type. A \<open>Date\<close> is its number of
  milliseconds since the epoch.
\<close>

type_synonym uuid = nat
type_synonym instant = int

text \<open>A JavaScript text whose characters matter is the list of its UTF-16 code units.\<close>

type_synonym code_unit = int
type_synonym js_text = "code_unit list"

section \<open>Programs over a state, with errors\<close>

type_synonym ('e, 's, 'a) prog = "'s \<Rightarrow> ('e + 'a) \<times> 's"

definition ret :: "'a \<Rightarrow> ('e, 's, 'a) prog" where
  [run_simps]: "ret x s = (Inr x, s)"

definition throw :: "'e \<Rightarrow> ('e, 's, 'a) prog" where
  [run_simps]: "throw e s = (Inl e, s)"

definition andThen :: "('e, 's, 'a) prog \<Rightarrow> ('a \<Rightarrow> ('e, 's, 'b) prog) \<Rightarrow> ('e, 's, 'b) prog" where
  "andThen m f s = (case m s of (Inl e, t) \<Rightarrow> (Inl e, t) | (Inr x, t) \<Rightarrow> f x t)"

definition gets :: "('s \<Rightarrow> 'a) \<Rightarrow> ('e, 's, 'a) prog" where
  [run_simps]: "gets f s = (Inr (f s), s)"

definition modify :: "('s \<Rightarrow> 's) \<Rightarrow> ('e, 's, unit) prog" where
  [run_simps]: "modify f s = (Inr (), f s)"

definition ensure :: "bool \<Rightarrow> 'e \<Rightarrow> ('e, 's, unit) prog" where
  [run_simps]: "ensure c e s = (if c then (Inr (), s) else (Inl e, s))"

definition from_option :: "'a option \<Rightarrow> 'e \<Rightarrow> ('e, 's, 'a) prog" where
  "from_option v e s = (case v of None \<Rightarrow> (Inl e, s) | Some x \<Rightarrow> (Inr x, s))"

definition from_sum :: "'e + 'a \<Rightarrow> ('e, 's, 'a) prog" where
  [run_simps]: "from_sum r s = (r, s)"

definition doWhen :: "bool \<Rightarrow> ('e, 's, unit) prog \<Rightarrow> ('e, 's, unit) prog" where
  [run_simps]: "doWhen c m s = (if c then m s else (Inr (), s))"

text \<open>\<open>sequelize.transaction\<close>: an error rolls every write back.\<close>

definition transaction :: "('e, 's, 'a) prog \<Rightarrow> ('e, 's, 'a) prog" where
  "transaction m s = (case m s of (Inl e, t) \<Rightarrow> (Inl e, s) | (Inr x, t) \<Rightarrow> (Inr x, t))"

definition tryCatch :: "('e, 's, 'a) prog \<Rightarrow> ('e \<Rightarrow> ('e, 's, 'a) prog) \<Rightarrow> ('e, 's, 'a) prog" where
  "tryCatch m h s = (case m s of (Inl e, t) \<Rightarrow> h e t | (Inr x, t) \<Rightarrow> (Inr x, t))"

fun each :: "('x \<Rightarrow> ('e, 's, unit) prog) \<Rightarrow> 'x list \<Rightarrow> ('e, 's, unit) prog" where
  "each f [] = ret ()"
| "each f (x # xs) = andThen (f x) (\<lambda>_. each f xs)"

lemma andThen_ret [simp, run_simps]: "andThen (ret x) f = f x"
  by (simp add: andThen_def ret_def fun_eq_iff)

lemma andThen_throw [simp, run_simps]: "andThen (throw e) f = throw e"
  by (simp add: andThen_def throw_def fun_eq_iff)

lemma andThen_assoc: "andThen (andThen m f) g = andThen m (\<lambda>x. andThen (f x) g)"
  by (auto simp: andThen_def fun_eq_iff split: prod.splits sum.splits)

lemma andThen_gets [simp, run_simps]: "andThen (gets f) g s = g (f s) s"
  by (simp add: andThen_def gets_def)

lemma andThen_modify [simp, run_simps]: "andThen (modify f) g s = g () (f s)"
  by (simp add: andThen_def modify_def)

lemma andThen_ensure [run_simps]:
  "andThen (ensure c e) g s = (if c then g () s else (Inl e, s))"
  by (simp add: andThen_def ensure_def)

lemma andThen_from_option [run_simps]:
  "andThen (from_option v e) g s = (case v of None \<Rightarrow> (Inl e, s) | Some x \<Rightarrow> g x s)"
  by (simp add: andThen_def from_option_def split: option.split)

lemma from_option_run [run_simps]:
  "from_option None e s = (Inl e, s)" "from_option (Some x) e s = (Inr x, s)"
  by (simp_all add: from_option_def)

lemma andThen_from_sum [run_simps]:
  "andThen (from_sum r) g s = (case r of Inl e \<Rightarrow> (Inl e, s) | Inr x \<Rightarrow> g x s)"
  by (simp add: andThen_def from_sum_def split: sum.split)

lemma andThen_doWhen [run_simps]:
  "andThen (doWhen c m) g s = (if c then andThen m g s else g () s)"
  by (simp add: andThen_def doWhen_def)

lemma andThen_andThen [run_simps]: "andThen (andThen m f) g s = andThen m (\<lambda>x. andThen (f x) g) s"
  by (simp add: andThen_assoc)

lemma andThen_run:
  "m s = (Inr x, t) \<Longrightarrow> andThen m f s = f x t"
  "m s = (Inl e, t) \<Longrightarrow> andThen m f s = (Inl e, t)"
  by (simp_all add: andThen_def)

lemma andThen_Inr_E:
  assumes "andThen m f s = (Inr y, u)"
  obtains x t where "m s = (Inr x, t)" "f x t = (Inr y, u)"
  using assms by (auto simp: andThen_def split: prod.splits sum.splits)

lemma transaction_Inr_iff [simp]: "transaction m s = (Inr x, t) \<longleftrightarrow> m s = (Inr x, t)"
  by (auto simp: transaction_def split: prod.splits sum.splits)

lemma transaction_Inl_state: "transaction m s = (Inl e, t) \<Longrightarrow> t = s"
  by (auto simp: transaction_def split: prod.splits sum.splits)

lemma transaction_run:
  "m s = (Inr x, t) \<Longrightarrow> transaction m s = (Inr x, t)"
  "m s = (Inl e, t) \<Longrightarrow> transaction m s = (Inl e, s)"
  by (simp_all add: transaction_def)

text \<open>When a program returns: used to take a run of a method apart into its steps.\<close>

lemma andThen_Inr_iff [returns_iff]:
  "andThen m f s = (Inr y, u) \<longleftrightarrow> (\<exists>x t. m s = (Inr x, t) \<and> f x t = (Inr y, u))"
  by (auto simp: andThen_def split: prod.splits sum.splits)

lemma simple_Inr_iff [returns_iff]:
  "ret x s = (Inr y, t) \<longleftrightarrow> y = x \<and> t = s"
  "throw e s = (Inr y, t) \<longleftrightarrow> False"
  "gets f s = (Inr y, t) \<longleftrightarrow> y = f s \<and> t = s"
  "modify g s = (Inr u, t) \<longleftrightarrow> t = g s"
  "ensure c e s = (Inr u, t) \<longleftrightarrow> c \<and> t = s"
  "from_option v e s = (Inr y, t) \<longleftrightarrow> v = Some y \<and> t = s"
  "from_sum r s = (Inr y, t) \<longleftrightarrow> r = Inr y \<and> t = s"
  "doWhen c m s = (Inr u, t) \<longleftrightarrow> (if c then m s = (Inr u, t) else t = s)"
  by (auto simp: ret_def throw_def gets_def modify_def ensure_def from_option_def from_sum_def
      doWhen_def split: option.splits)

section \<open>Keeping an invariant\<close>

text \<open>
  \<open>keeps I m\<close>: from a state that satisfies \<open>I\<close>, the program \<open>m\<close> leaves one that does, whether
  it returns or throws. A transaction may break the invariant on the way: only a run that
  commits has to restore it.
\<close>

definition keeps :: "('s \<Rightarrow> bool) \<Rightarrow> ('e, 's, 'a) prog \<Rightarrow> bool" where
  "keeps I m \<longleftrightarrow> (\<forall>s. I s \<longrightarrow> I (snd (m s)))"

lemma keepsI: "(\<And>s r t. I s \<Longrightarrow> m s = (r, t) \<Longrightarrow> I t) \<Longrightarrow> keeps I m"
  unfolding keeps_def by (metis prod.collapse)

lemma keepsD: "keeps I m \<Longrightarrow> m s = (r, t) \<Longrightarrow> I s \<Longrightarrow> I t"
  unfolding keeps_def by (metis snd_conv)

lemma keeps_ret [keeps_rules]: "keeps I (ret x)"
  by (simp add: keeps_def ret_def)

lemma keeps_throw [keeps_rules]: "keeps I (throw e)"
  by (simp add: keeps_def throw_def)

lemma keeps_gets [keeps_rules]: "keeps I (gets f)"
  by (simp add: keeps_def gets_def)

lemma keeps_ensure [keeps_rules]: "keeps I (ensure c e)"
  by (simp add: keeps_def ensure_def)

lemma keeps_from_option [keeps_rules]: "keeps I (from_option v e)"
  by (simp add: keeps_def from_option_def split: option.split)

lemma keeps_from_sum [keeps_rules]: "keeps I (from_sum r)"
  by (simp add: keeps_def from_sum_def)

lemma keeps_modify: "(\<And>s. I s \<Longrightarrow> I (f s)) \<Longrightarrow> keeps I (modify f)"
  by (simp add: keeps_def modify_def)

lemma keeps_andThen [keeps_rules]:
  "keeps I m \<Longrightarrow> (\<And>x. keeps I (f x)) \<Longrightarrow> keeps I (andThen m f)"
  by (force simp: keeps_def andThen_def split: prod.splits sum.splits)

lemma keeps_doWhen [keeps_rules]: "keeps I m \<Longrightarrow> keeps I (doWhen c m)"
  by (simp add: keeps_def doWhen_def)

lemma keeps_if [keeps_rules]:
  "(c \<Longrightarrow> keeps I m) \<Longrightarrow> (\<not> c \<Longrightarrow> keeps I n) \<Longrightarrow> keeps I (if c then m else n)"
  by simp

lemma keeps_case_option [keeps_rules]:
  "keeps I m \<Longrightarrow> (\<And>x. keeps I (f x)) \<Longrightarrow> keeps I (case v of None \<Rightarrow> m | Some x \<Rightarrow> f x)"
  by (simp split: option.split)

lemma keeps_case_prod [keeps_rules]:
  "(\<And>a b. keeps I (f a b)) \<Longrightarrow> keeps I (case v of (a, b) \<Rightarrow> f a b)"
  by (simp split: prod.split)

lemma keeps_case_sum [keeps_rules]:
  "(\<And>e. keeps I (f e)) \<Longrightarrow> (\<And>x. keeps I (g x)) \<Longrightarrow> keeps I (case v of Inl e \<Rightarrow> f e | Inr x \<Rightarrow> g x)"
  by (simp split: sum.split)

lemma keeps_tryCatch [keeps_rules]:
  "keeps I m \<Longrightarrow> (\<And>e. keeps I (h e)) \<Longrightarrow> keeps I (tryCatch m h)"
  by (force simp: keeps_def tryCatch_def split: prod.splits sum.splits)

lemma keeps_transaction [keeps_rules]: "keeps I m \<Longrightarrow> keeps I (transaction m)"
  by (force simp: keeps_def transaction_def split: prod.splits sum.splits)

lemma keeps_transaction_commit:
  "(\<And>s x t. I s \<Longrightarrow> m s = (Inr x, t) \<Longrightarrow> I t) \<Longrightarrow> keeps I (transaction m)"
  by (auto simp: keeps_def transaction_def split: prod.splits sum.splits)

lemma keeps_committed:
  "T = transaction m \<Longrightarrow> (\<And>s x t. I s \<Longrightarrow> T s = (Inr x, t) \<Longrightarrow> I t) \<Longrightarrow> keeps I T"
  by (simp add: keeps_transaction_commit)

lemma keeps_each [keeps_rules]: "(\<And>x. keeps I (f x)) \<Longrightarrow> keeps I (each f xs)"
  by (induction xs) (auto intro: keeps_rules)

section \<open>Leaving a part of the state alone\<close>

text \<open>\<open>leaves v m\<close>: the program never changes the view \<open>v\<close> of the state.\<close>

definition leaves :: "('s \<Rightarrow> 'v) \<Rightarrow> ('e, 's, 'a) prog \<Rightarrow> bool" where
  "leaves v m \<longleftrightarrow> (\<forall>s. v (snd (m s)) = v s)"

lemma leavesD: "leaves v m \<Longrightarrow> m s = (r, t) \<Longrightarrow> v t = v s"
  unfolding leaves_def by (metis snd_conv)

lemma leavesI: "(\<And>s r t. m s = (r, t) \<Longrightarrow> v t = v s) \<Longrightarrow> leaves v m"
  unfolding leaves_def by (metis prod.collapse)

lemma leaves_keeps: "leaves v m \<longleftrightarrow> (\<forall>c. keeps (\<lambda>s. v s = c) m)"
  by (auto simp: leaves_def keeps_def)

lemma leaves_simple [leaves_rules]:
  "leaves v (ret x)" "leaves v (throw e)" "leaves v (gets f)" "leaves v (ensure b e)"
  "leaves v (from_option a e)" "leaves v (from_sum r)"
  by (simp_all add: leaves_keeps keeps_rules)

lemma leaves_modify: "(\<And>s. v (f s) = v s) \<Longrightarrow> leaves v (modify f)"
  by (simp add: leaves_def modify_def)

lemma leaves_andThen [leaves_rules]:
  "leaves v m \<Longrightarrow> (\<And>x. leaves v (f x)) \<Longrightarrow> leaves v (andThen m f)"
  by (simp add: leaves_keeps keeps_andThen)

lemma leaves_doWhen [leaves_rules]: "leaves v m \<Longrightarrow> leaves v (doWhen c m)"
  by (simp add: leaves_keeps keeps_doWhen)

lemma leaves_tryCatch [leaves_rules]:
  "leaves v m \<Longrightarrow> (\<And>e. leaves v (h e)) \<Longrightarrow> leaves v (tryCatch m h)"
  by (simp add: leaves_keeps keeps_tryCatch)

lemma leaves_transaction [leaves_rules]: "leaves v m \<Longrightarrow> leaves v (transaction m)"
  by (simp add: leaves_keeps keeps_transaction)

lemma leaves_each [leaves_rules]: "(\<And>x. leaves v (f x)) \<Longrightarrow> leaves v (each f xs)"
  by (simp add: leaves_keeps keeps_each)

lemma leaves_if [leaves_rules]:
  "(c \<Longrightarrow> leaves v m) \<Longrightarrow> (\<not> c \<Longrightarrow> leaves v n) \<Longrightarrow> leaves v (if c then m else n)"
  by simp

lemma leaves_case_option [leaves_rules]:
  "leaves v m \<Longrightarrow> (\<And>x. leaves v (f x)) \<Longrightarrow> leaves v (case a of None \<Rightarrow> m | Some x \<Rightarrow> f x)"
  by (simp split: option.split)

lemma leaves_case_prod [leaves_rules]:
  "(\<And>a b. leaves v (f a b)) \<Longrightarrow> leaves v (case p of (a, b) \<Rightarrow> f a b)"
  by (simp split: prod.split)

text \<open>An invariant that only reads a view is kept by a program that leaves the view alone.\<close>

lemma keeps_view: "leaves v m \<Longrightarrow> (\<And>s t. v s = v t \<Longrightarrow> I s \<Longrightarrow> I t) \<Longrightarrow> keeps I m"
  unfolding leaves_def keeps_def by metis

section \<open>Tables as lists of rows\<close>

definition update_where :: "('r \<Rightarrow> bool) \<Rightarrow> ('r \<Rightarrow> 'r) \<Rightarrow> 'r list \<Rightarrow> 'r list" where
  "update_where P f rows = map (\<lambda>r. if P r then f r else r) rows"

definition count_where :: "('r \<Rightarrow> bool) \<Rightarrow> 'r list \<Rightarrow> nat" where
  "count_where P rows = length (filter P rows)"

definition total_where :: "('r \<Rightarrow> bool) \<Rightarrow> ('r \<Rightarrow> int) \<Rightarrow> 'r list \<Rightarrow> int" where
  "total_where P q rows = sum_list (map q (filter P rows))"

lemma update_where_Nil [simp]: "update_where P f [] = []"
  by (simp add: update_where_def)

lemma update_where_Cons [simp]:
  "update_where P f (r # rows) = (if P r then f r else r) # update_where P f rows"
  by (simp add: update_where_def)

lemma update_where_append [simp]:
  "update_where P f (xs @ ys) = update_where P f xs @ update_where P f ys"
  by (simp add: update_where_def)

lemma set_update_where: "set (update_where P f rows) = (\<lambda>r. if P r then f r else r) ` set rows"
  by (simp add: update_where_def)

lemma in_update_whereE:
  assumes "r \<in> set (update_where P f rows)"
  obtains r0 where "r0 \<in> set rows" "r = (if P r0 then f r0 else r0)"
  using assms by (auto simp: set_update_where)

lemma in_update_whereI: "r \<in> set rows \<Longrightarrow> (if P r then f r else r) \<in> set (update_where P f rows)"
  by (simp add: set_update_where)

lemma map_update_where:
  "(\<And>r. r \<in> set rows \<Longrightarrow> P r \<Longrightarrow> g (f r) = g r) \<Longrightarrow> map g (update_where P f rows) = map g rows"
  by (induction rows) auto

lemma update_where_none: "(\<And>r. r \<in> set rows \<Longrightarrow> \<not> P r) \<Longrightarrow> update_where P f rows = rows"
  by (induction rows) auto

lemma filter_update_where: "(\<And>r. \<not> P (f r)) \<Longrightarrow> filter P (update_where P f rows) = []"
  by (induction rows) auto

lemma length_update_where [simp]: "length (update_where P f rows) = length rows"
  by (simp add: update_where_def)

lemma total_where_Nil [simp]: "total_where P q [] = 0"
  by (simp add: total_where_def)

lemma total_where_Cons [simp]:
  "total_where P q (r # rows) = (if P r then q r else 0) + total_where P q rows"
  by (simp add: total_where_def)

lemma total_where_append [simp]:
  "total_where P q (xs @ ys) = total_where P q xs + total_where P q ys"
  by (simp add: total_where_def)

lemma total_where_mono:
  "(\<And>r. r \<in> set rows \<Longrightarrow> 0 \<le> q r) \<Longrightarrow> (\<And>r. r \<in> set rows \<Longrightarrow> P r \<Longrightarrow> Q r) \<Longrightarrow>
    total_where P q rows \<le> total_where Q q rows"
proof (induction rows)
  case (Cons r rows)
  then have "total_where P q rows \<le> total_where Q q rows" by simp
  with Cons.prems show ?case by (auto simp: add_increasing)
qed simp

lemma total_where_nonneg: "(\<And>r. r \<in> set rows \<Longrightarrow> 0 \<le> q r) \<Longrightarrow> 0 \<le> total_where P q rows"
  by (induction rows) auto

lemma total_where_cong:
  "(\<And>r. r \<in> set rows \<Longrightarrow> P r = Q r) \<Longrightarrow> total_where P q rows = total_where Q q rows"
  by (induction rows) auto

lemma find_Some_in: "find P xs = Some x \<Longrightarrow> x \<in> set xs \<and> P x"
  by (induction xs) (auto split: if_splits)

lemma find_None_notin: "find P xs = None \<Longrightarrow> x \<in> set xs \<Longrightarrow> \<not> P x"
  by (auto simp: find_None_iff)

lemma find_append: "find P (xs @ ys) = (case find P xs of None \<Rightarrow> find P ys | Some x \<Rightarrow> Some x)"
  by (induction xs) auto

text \<open>Rows with one key: a primary key or a unique index over the table.\<close>

lemma find_key:
  "distinct (map k rows) \<Longrightarrow> r \<in> set rows \<Longrightarrow> find (\<lambda>x. k x = k r) rows = Some r"
  by (induction rows) (auto simp: image_iff)

lemma distinct_key_eq:
  "distinct (map k rows) \<Longrightarrow> r \<in> set rows \<Longrightarrow> r' \<in> set rows \<Longrightarrow> k r = k r' \<Longrightarrow> r = r'"
  by (metis find_key option.inject)

lemma find_update_where_key:
  "(\<And>x. k (f x) = k x) \<Longrightarrow>
    find (\<lambda>x. k x = i) (update_where (\<lambda>x. k x = j) f rows) =
      (if i = j then map_option f (find (\<lambda>x. k x = i) rows) else find (\<lambda>x. k x = i) rows)"
  by (induction rows) auto

lemma total_where_update_key:
  assumes "distinct (map k rows)" "find (\<lambda>x. k x = i) rows = Some r"
  shows "total_where P q (update_where (\<lambda>x. k x = i) f rows) =
    total_where P q rows - (if P r then q r else 0) + (if P (f r) then q (f r) else 0)"
  using assms
proof (induction rows)
  case (Cons x rows)
  show ?case
  proof (cases "k x = i")
    case True
    with Cons.prems have "r = x" and "update_where (\<lambda>x. k x = i) f rows = rows"
      by (auto intro!: update_where_none simp: image_iff)
    with True show ?thesis by simp
  next
    case False
    with Cons show ?thesis by simp
  qed
qed simp

lemma count_where_pos_iff: "0 < count_where P rows \<longleftrightarrow> (\<exists>r \<in> set rows. P r)"
  by (induction rows) (auto simp: count_where_def)

lemma count_where_zero_iff: "count_where P rows = 0 \<longleftrightarrow> (\<forall>r \<in> set rows. \<not> P r)"
  by (induction rows) (auto simp: count_where_def)

lemma count_where_append: "count_where P (xs @ ys) = count_where P xs + count_where P ys"
  by (simp add: count_where_def)

lemma count_where_mono: "(\<And>x. x \<in> set xs \<Longrightarrow> P x \<Longrightarrow> Q x) \<Longrightarrow> count_where P xs \<le> count_where Q xs"
  by (induction xs) (auto simp: count_where_def intro: le_SucI)

text \<open>A search for the only row that satisfies a condition.\<close>

lemma find_only:
  assumes "x \<in> set xs" "P x" "\<And>y. y \<in> set xs \<Longrightarrow> P y \<Longrightarrow> y = x"
  shows "find P xs = Some x"
proof (cases "find P xs")
  case None
  with assms(1,2) show ?thesis by (simp add: find_None_iff)
next
  case (Some y)
  with find_Some_in[OF Some] assms(3) show ?thesis by blast
qed

section \<open>Interfaces\<close>

text \<open>
  A transition system with an inductive invariant: the provider shows that the start states
  satisfy it and that every step keeps it; the client gets it for every reachable state.
\<close>

locale invariant_system =
  fixes start :: "'s \<Rightarrow> bool"
    and step :: "'s \<Rightarrow> 's \<Rightarrow> bool"
    and inv :: "'s \<Rightarrow> bool"
  assumes start_inv: "start s \<Longrightarrow> inv s"
    and step_inv: "inv s \<Longrightarrow> step s t \<Longrightarrow> inv t"
begin

lemma steps_inv: "step\<^sup>*\<^sup>* s t \<Longrightarrow> inv s \<Longrightarrow> inv t"
  by (induction rule: rtranclp_induct) (auto intro: step_inv)

lemma reachable_inv: "start s \<Longrightarrow> step\<^sup>*\<^sup>* s t \<Longrightarrow> inv t"
  by (rule steps_inv) (auto intro: start_inv)

text \<open>A property of the state that the invariant gives holds along every run.\<close>

lemma reachable_gives: "start s \<Longrightarrow> step\<^sup>*\<^sup>* s t \<Longrightarrow> (\<And>u. inv u \<Longrightarrow> P u) \<Longrightarrow> P t"
  using reachable_inv by blast

end

end
