(* ===== verification/Enums.thy ===== *)
theory Enums
  imports Prelude
begin

text \<open>
  The enumerations, error codes, roles and limits shared by the API and the web apps
  (\<open>packages/shared/src/constants\<close> and \<open>packages/shared/src/errors\<close>). A constructor carries
  the prefix of its enumeration, since the source uses one literal in several of them.
\<close>

section \<open>Accounts and profiles\<close>

datatype user_status = U_active | U_suspended | U_banned | U_pending_deletion
datatype hidden_reason = Hidden_p0_report | Hidden_report_threshold | Hidden_no_visible_photo
  | Hidden_suspicious_activity
datatype gender = Woman | Man | Non_binary
datatype partner_gender_preference = Women | Men | Everyone
datatype garba_level = Beginner | Intermediate | Advanced
datatype profile_status = Profile_not_started | Profile_incomplete | Profile_complete

section \<open>Sessions, roles and permissions\<close>

datatype verification_type = Photo_check | Government_id
datatype verification_status = V_initiated | V_pending | V_approved | V_rejected | V_expired | V_revoked
datatype session_revoke_reason = Rev_logout | Rev_logout_all | Rev_reuse_detected | Rev_sanction
  | Rev_deletion
datatype admin_session_revoke_reason = ARev_logout | ARev_reuse_detected | ARev_idle_timeout
  | ARev_disabled
datatype admin_role = Super_admin | Moderator | Event_manager
datatype admin_status = Ad_active | Ad_disabled
datatype admin_permission = Dashboard_view | Users_view | Users_sanction | Users_reveal_phone
  | Users_unban | Reports_manage | Verifications_review | Photos_review | Events_view
  | Events_manage | Locations_manage | Payments_view | Payments_refund | Audit_view
  | Safety_logs_view | Admins_manage

definition ADMIN_PERMISSIONS :: "admin_permission list" where
  "ADMIN_PERMISSIONS = [Dashboard_view, Users_view, Users_sanction, Users_reveal_phone, Users_unban,
    Reports_manage, Verifications_review, Photos_review, Events_view, Events_manage,
    Locations_manage, Payments_view, Payments_refund, Audit_view, Safety_logs_view, Admins_manage]"

primrec ROLE_PERMISSIONS :: "admin_role \<Rightarrow> admin_permission list" where
  "ROLE_PERMISSIONS Super_admin = ADMIN_PERMISSIONS"
| "ROLE_PERMISSIONS Moderator = [Dashboard_view, Users_view, Users_sanction, Reports_manage,
    Safety_logs_view, Verifications_review, Photos_review, Events_view]"
| "ROLE_PERMISSIONS Event_manager = [Dashboard_view, Events_view, Events_manage, Locations_manage,
    Payments_view]"

definition roleHasPermission :: "admin_role \<Rightarrow> admin_permission \<Rightarrow> bool" where
  "roleHasPermission r p = List.member (ROLE_PERMISSIONS r) p"

section \<open>Safety\<close>

datatype report_reason = Fake_profile | Harassment | Spam | Asking_for_money
  | Inappropriate_behavior | Threatening_behavior | Impersonation | Underage | Other
datatype report_status = R_open | R_in_review | R_resolved | R_dismissed
datatype report_source = Member_source | System_source
datatype report_resolution_action = Act_dismiss | Act_warn | Act_restrict_chat | Act_suspend | Act_ban
datatype safety_severity = Sev_info | Sev_warning | Sev_critical
datatype safety_event_type = Auth_otp_rate_limited | Auth_otp_attempts_exceeded
  | Auth_refresh_token_reuse | Admin_account_locked | Rate_limit_exceeded | Safety_block_created
  | Safety_block_removed | Safety_report_created | Safety_report_limit_reached
  | Safety_auto_hidden | Interest_limit_reached | Verification_start_limit_reached
  | Verification_webhook_rejected | Verification_underage_detected | Suspicious_money_requests
  | Suspicious_repeated_messages | Suspicious_frequently_blocked | Sanction_expired
datatype suspicious_trigger = Money_requests | Repeated_messages | Frequently_blocked
datatype sanction_type = Warning | Chat_restriction | Suspension | Ban

primrec REPORT_PRIORITY_BY_REASON :: "report_reason \<Rightarrow> nat" where
  "REPORT_PRIORITY_BY_REASON Threatening_behavior = 0"
| "REPORT_PRIORITY_BY_REASON Underage = 0"
| "REPORT_PRIORITY_BY_REASON Harassment = 1"
| "REPORT_PRIORITY_BY_REASON Asking_for_money = 1"
| "REPORT_PRIORITY_BY_REASON Inappropriate_behavior = 1"
| "REPORT_PRIORITY_BY_REASON Impersonation = 1"
| "REPORT_PRIORITY_BY_REASON Fake_profile = 2"
| "REPORT_PRIORITY_BY_REASON Spam = 2"
| "REPORT_PRIORITY_BY_REASON Other = 2"

definition SANCTION_DURATION_DAYS :: "int list" where
  "SANCTION_DURATION_DAYS = [1, 3, 7, 30]"

section \<open>Events, discovery, interests and matches\<close>

datatype event_status = E_draft | E_published | E_archived
datatype organizer_status = Org_active | Org_archived
datatype attendance_status = Going | Interested
datatype match_highlight = Same_event | Shared_dates | Same_city | Similar_age | Same_level
  | Verified_highlight
datatype interest_status = I_pending | I_accepted | I_declined | I_withdrawn | I_cancelled | I_expired
datatype match_status = M_active | M_unmatched | M_blocked | M_closed
datatype connection_status = Conn_none | Conn_interest_sent | Conn_interest_received | Conn_matched

section \<open>Notifications and payments\<close>

datatype notification_type = Interest_received | Interest_accepted | Match_created | New_message
  | Verification_completed | Event_reminder | Safety_notice | Booking_notice
datatype safety_notification_kind = Warning_issued | Chat_restricted | Account_suspended
  | Restriction_lifted | Report_reviewed
datatype booking_notification_kind = Bk_confirmed | Bk_cancelled | Bk_refund_processed
  | Bk_refund_failed

definition CONFIGURABLE_NOTIFICATION_TYPES :: "notification_type list" where
  "CONFIGURABLE_NOTIFICATION_TYPES = [Interest_received, Interest_accepted, Match_created,
    New_message, Verification_completed, Event_reminder]"

datatype order_status = O_created | O_paid | O_expired | O_failed
datatype payment_status = P_created | P_authorized | P_captured | P_failed | P_refunded
datatype booking_status = B_confirmed | B_cancelled
datatype refund_status = Rf_none | Rf_pending | Rf_processed | Rf_failed
datatype booking_cancel_reason = Admin_refund | Sold_out | Event_unavailable

section \<open>Error codes\<close>

datatype error_code = VALIDATION_ERROR | UNAUTHENTICATED | FORBIDDEN | NOT_FOUND | CONFLICT
  | PAYLOAD_TOO_LARGE | RATE_LIMITED | INTERNAL_ERROR | SERVICE_UNAVAILABLE
  | PHONE_VERIFICATION_FAILED | REFRESH_INVALID | INVALID_CREDENTIALS | ACCOUNT_LOCKED
  | ACCOUNT_SUSPENDED | ACCOUNT_BANNED | ACCOUNT_PENDING_DELETION | UNDERAGE | ONBOARDING_REQUIRED
  | PROFILE_NOT_STARTED | VERIFICATION_UNAVAILABLE | INVALID_IMAGE | EVENT_NOT_OPEN
  | PARTNER_TOGGLE_REQUIRED | USER_UNAVAILABLE | DISCOVERY_DISABLED | INTERACTIONS_RESTRICTED
  | INTEREST_LIMIT_REACHED | INTEREST_NOT_PENDING | ALREADY_MATCHED | MATCH_NOT_ACTIVE
  | CHAT_RESTRICTED | PAYMENTS_UNAVAILABLE | PASSES_NOT_ON_SALE | SOLD_OUT | ORDER_EXPIRED
  | IDEMPOTENCY_CONFLICT | PAYMENT_VERIFICATION_FAILED | PAYMENT_PROVIDER_ERROR

primrec http_status :: "error_code \<Rightarrow> nat" where
  "http_status VALIDATION_ERROR = 400"
| "http_status UNAUTHENTICATED = 401"
| "http_status FORBIDDEN = 403"
| "http_status NOT_FOUND = 404"
| "http_status CONFLICT = 409"
| "http_status PAYLOAD_TOO_LARGE = 413"
| "http_status RATE_LIMITED = 429"
| "http_status INTERNAL_ERROR = 500"
| "http_status SERVICE_UNAVAILABLE = 503"
| "http_status PHONE_VERIFICATION_FAILED = 401"
| "http_status REFRESH_INVALID = 401"
| "http_status INVALID_CREDENTIALS = 401"
| "http_status ACCOUNT_LOCKED = 423"
| "http_status ACCOUNT_SUSPENDED = 403"
| "http_status ACCOUNT_BANNED = 403"
| "http_status ACCOUNT_PENDING_DELETION = 403"
| "http_status UNDERAGE = 403"
| "http_status ONBOARDING_REQUIRED = 403"
| "http_status PROFILE_NOT_STARTED = 409"
| "http_status VERIFICATION_UNAVAILABLE = 503"
| "http_status INVALID_IMAGE = 400"
| "http_status EVENT_NOT_OPEN = 409"
| "http_status PARTNER_TOGGLE_REQUIRED = 409"
| "http_status USER_UNAVAILABLE = 404"
| "http_status DISCOVERY_DISABLED = 403"
| "http_status INTERACTIONS_RESTRICTED = 403"
| "http_status INTEREST_LIMIT_REACHED = 429"
| "http_status INTEREST_NOT_PENDING = 409"
| "http_status ALREADY_MATCHED = 409"
| "http_status MATCH_NOT_ACTIVE = 409"
| "http_status CHAT_RESTRICTED = 403"
| "http_status PAYMENTS_UNAVAILABLE = 503"
| "http_status PASSES_NOT_ON_SALE = 409"
| "http_status SOLD_OUT = 409"
| "http_status ORDER_EXPIRED = 409"
| "http_status IDEMPOTENCY_CONFLICT = 409"
| "http_status PAYMENT_VERIFICATION_FAILED = 400"
| "http_status PAYMENT_PROVIDER_ERROR = 502"

text \<open>
  What a call can throw: an \<open>AppError\<close> with its code (the message and details are not modelled),
  or a database error that the service does not turn into one.
\<close>

datatype failure = App error_code | Check_violation | Unique_violation | Unexpected_error

section \<open>Limits\<close>

named_theorems limits "the business limits"

definition MS_PER_SECOND :: int where [limits]: "MS_PER_SECOND = 1000"
definition MINUTE_MS :: int where [limits]: "MINUTE_MS = 60 * 1000"
definition HOUR_MS :: int where [limits]: "HOUR_MS = 60 * 60 * 1000"
definition DAY_MS :: int where [limits]: "DAY_MS = 24 * 60 * 60 * 1000"

definition MIN_AGE :: int where [limits]: "MIN_AGE = 18"
definition MAX_AGE :: int where [limits]: "MAX_AGE = 100"
definition PREF_AGE_MIN :: int where [limits]: "PREF_AGE_MIN = 18"
definition PREF_AGE_MAX :: int where [limits]: "PREF_AGE_MAX = 80"
definition AVAILABLE_DATES_MAX :: nat where [limits]: "AVAILABLE_DATES_MAX = 30"
definition REFRESH_REUSE_GRACE_SECONDS :: int where [limits]: "REFRESH_REUSE_GRACE_SECONDS = 15"
definition ADMIN_MAX_FAILED_LOGINS :: int where [limits]: "ADMIN_MAX_FAILED_LOGINS = 5"
definition ADMIN_LOCKOUT_MINUTES :: int where [limits]: "ADMIN_LOCKOUT_MINUTES = 15"
definition REPORTS_PER_DAY :: nat where [limits]: "REPORTS_PER_DAY = 10"
definition AUTO_HIDE_REPORT_THRESHOLD :: nat where [limits]: "AUTO_HIDE_REPORT_THRESHOLD = 3"
definition AUTO_HIDE_WINDOW_DAYS :: int where [limits]: "AUTO_HIDE_WINDOW_DAYS = 7"
definition SUSPICIOUS_MONEY_MESSAGES :: nat where [limits]: "SUSPICIOUS_MONEY_MESSAGES = 3"
definition SUSPICIOUS_MONEY_WINDOW_HOURS :: int where [limits]: "SUSPICIOUS_MONEY_WINDOW_HOURS = 24"
definition SUSPICIOUS_REPEATED_MESSAGE_CHATS :: nat where [limits]: "SUSPICIOUS_REPEATED_MESSAGE_CHATS = 4"
definition SUSPICIOUS_REPEATED_WINDOW_HOURS :: int where [limits]: "SUSPICIOUS_REPEATED_WINDOW_HOURS = 1"
definition SUSPICIOUS_REPEATED_MIN_LENGTH :: nat where [limits]: "SUSPICIOUS_REPEATED_MIN_LENGTH = 20"
definition SUSPICIOUS_BLOCKED_BY_MEMBERS :: nat where [limits]: "SUSPICIOUS_BLOCKED_BY_MEMBERS = 5"
definition SUSPICIOUS_BLOCKED_WINDOW_DAYS :: int where [limits]: "SUSPICIOUS_BLOCKED_WINDOW_DAYS = 7"
definition SIMILAR_AGE_YEARS :: int where [limits]: "SIMILAR_AGE_YEARS = 5"
definition DISCOVERY_PAGE_SIZE_DEFAULT :: nat where [limits]: "DISCOVERY_PAGE_SIZE_DEFAULT = 20"
definition INTERESTS_PER_DAY :: nat where [limits]: "INTERESTS_PER_DAY = 25"
definition INTEREST_EXPIRY_DAYS :: int where [limits]: "INTEREST_EXPIRY_DAYS = 14"
definition INTEREST_DECLINE_COOLDOWN_DAYS :: int where [limits]: "INTEREST_DECLINE_COOLDOWN_DAYS = 30"
definition INTERESTS_PAGE_SIZE_DEFAULT :: nat where [limits]: "INTERESTS_PAGE_SIZE_DEFAULT = 20"
definition MESSAGES_PER_MINUTE :: nat where [limits]: "MESSAGES_PER_MINUTE = 30"
definition MESSAGES_PAGE_SIZE_DEFAULT :: nat where [limits]: "MESSAGES_PAGE_SIZE_DEFAULT = 30"
definition CHATS_PAGE_SIZE :: nat where [limits]: "CHATS_PAGE_SIZE = 30"
definition REPORT_MESSAGE_CONTEXT :: nat where [limits]: "REPORT_MESSAGE_CONTEXT = 10"
definition NOTIFICATIONS_PAGE_SIZE_DEFAULT :: nat where [limits]: "NOTIFICATIONS_PAGE_SIZE_DEFAULT = 20"
definition NOTIFICATION_RETENTION_DAYS :: int where [limits]: "NOTIFICATION_RETENTION_DAYS = 90"
definition EVENT_REMINDER_HOURS_BEFORE :: int where [limits]: "EVENT_REMINDER_HOURS_BEFORE = 24"
definition EVENT_MAX_DAYS_AHEAD :: nat where [limits]: "EVENT_MAX_DAYS_AHEAD = 730"
definition PASS_MAX_PER_ORDER :: int where [limits]: "PASS_MAX_PER_ORDER = 6"
definition ORDER_EXPIRY_MINUTES :: int where [limits]: "ORDER_EXPIRY_MINUTES = 15"
definition BOOKINGS_PAGE_SIZE :: nat where [limits]: "BOOKINGS_PAGE_SIZE = 20"
definition AVAILABLE_DATES_HORIZON_DAYS :: nat where [limits]: "AVAILABLE_DATES_HORIZON_DAYS = 365"
definition INTERESTS_PAGE_SIZE_MAX :: nat where [limits]: "INTERESTS_PAGE_SIZE_MAX = 50"
definition DISCOVERY_PAGE_SIZE_MAX :: nat where [limits]: "DISCOVERY_PAGE_SIZE_MAX = 50"
definition SHARED_EVENTS_SHOWN :: nat where [limits]: "SHARED_EVENTS_SHOWN = 3"
definition MESSAGES_PAGE_SIZE_MAX :: nat where [limits]: "MESSAGES_PAGE_SIZE_MAX = 100"
definition ADMIN_SANCTIONS_SHOWN :: nat where [limits]: "ADMIN_SANCTIONS_SHOWN = 50"
definition ADMIN_PAGE_SIZE_DEFAULT :: nat where [limits]: "ADMIN_PAGE_SIZE_DEFAULT = 20"
definition ADMIN_PAGE_SIZE_MAX :: nat where [limits]: "ADMIN_PAGE_SIZE_MAX = 50"
definition ADMIN_MATCHES_SHOWN :: nat where [limits]: "ADMIN_MATCHES_SHOWN = 50"
definition ADMIN_CONVERSATION_WINDOW :: nat where [limits]: "ADMIN_CONVERSATION_WINDOW = 25"
definition EVENT_PAGE_SIZE_DEFAULT :: nat where [limits]: "EVENT_PAGE_SIZE_DEFAULT = 12"
definition EVENT_PAGE_SIZE_MAX :: nat where [limits]: "EVENT_PAGE_SIZE_MAX = 50"

end
