(* ===== verification/Dates.thy ===== *)
theory Dates
  imports Enums "HOL-Library.Product_Lexorder"
begin

text \<open>
  Calendar dates and India Standard Time (\<open>packages/shared/src/utils/dates.ts\<close>). A date is
  (year, month, day); its lexicographic order is the order of the texts \<open>YYYY-MM-DD\<close>. The
  arithmetic of JavaScript's \<open>Date\<close> on whole UTC days is the proleptic Gregorian calendar,
  written here as the successor \<open>next_date\<close>; \<open>day_number\<close> counts the days since the epoch.
\<close>

section \<open>The Gregorian calendar\<close>

type_synonym date = "int \<times> int \<times> int"

definition leap_year :: "int \<Rightarrow> bool" where
  "leap_year y \<longleftrightarrow> y mod 4 = 0 \<and> (y mod 100 \<noteq> 0 \<or> y mod 400 = 0)"

definition days_in_month :: "int \<Rightarrow> int \<Rightarrow> int" where
  "days_in_month y m =
    (if m = 2 then (if leap_year y then 29 else 28)
     else if m = 4 \<or> m = 6 \<or> m = 9 \<or> m = 11 then 30 else 31)"

fun valid_date :: "date \<Rightarrow> bool" where
  "valid_date (y, m, d) \<longleftrightarrow> 1 \<le> m \<and> m \<le> 12 \<and> 1 \<le> d \<and> d \<le> days_in_month y m"

fun next_date :: "date \<Rightarrow> date" where
  "next_date (y, m, d) =
    (if d < days_in_month y m then (y, m, d + 1)
     else if m < 12 then (y, m + 1, 1)
     else (y + 1, 1, 1))"

text \<open>Days before a month in a year that is not a leap year, and the day count since 1970-01-01.\<close>

definition month_offset :: "int \<Rightarrow> int" where
  "month_offset m =
    (if m = 1 then 0 else if m = 2 then 31 else if m = 3 then 59 else if m = 4 then 90
     else if m = 5 then 120 else if m = 6 then 151 else if m = 7 then 181 else if m = 8 then 212
     else if m = 9 then 243 else if m = 10 then 273 else if m = 11 then 304 else 334)"

definition year_start :: "int \<Rightarrow> int" where
  "year_start y = 365 * (y - 1970) + ((y - 1) div 4 - (y - 1) div 100 + (y - 1) div 400 - 477)"

fun day_number :: "date \<Rightarrow> int" where
  "day_number (y, m, d) =
    year_start y + month_offset m + (if 2 < m \<and> leap_year y then 1 else 0) + (d - 1)"

lemma day_number_epoch: "day_number (1970, 1, 1) = 0"
  by (simp add: year_start_def month_offset_def)

lemma year_start_Suc: "year_start (y + 1) = year_start y + (if leap_year y then 366 else 365)"
proof -
  have quot: "y div k - (y - 1) div k = (if y mod k = 0 then 1 else 0)" if "0 < k" for k :: int
  proof (cases "y mod k = 0")
    case True
    then obtain q where "y = k * q" by (auto simp: mod_eq_0_iff_dvd)
    moreover have "(k * q - 1) div k = q - 1"
      using that by (intro int_div_pos_eq[where r = "k - 1"]) (auto simp: algebra_simps)
    ultimately show ?thesis using that by simp
  next
    case False
    have "(y - 1) div k = y div k"
    proof (rule int_div_pos_eq[where r = "y mod k - 1"])
      show "y - 1 = k * (y div k) + (y mod k - 1)" by simp
      show "0 \<le> y mod k - 1" using False that pos_mod_sign[of k y] by linarith
      show "y mod k - 1 < k" using that pos_mod_bound[of k y] by linarith
    qed
    with False show ?thesis by simp
  qed
  have nested: "y mod 100 = 0 \<Longrightarrow> y mod 4 = 0" "y mod 400 = 0 \<Longrightarrow> y mod 100 = 0"
    using mod_mod_cancel[of 4 100 y] mod_mod_cancel[of 100 400 y] by simp_all
  have start: "year_start (y + 1) - year_start y =
      365 + (y div 4 - (y - 1) div 4) - (y div 100 - (y - 1) div 100) + (y div 400 - (y - 1) div 400)"
    by (simp add: year_start_def)
  have count: "365 + (if a then 1 else 0) - (if b then 1 else 0) + (if c then 1 else 0)
      = (if a \<and> (\<not> b \<or> c) then 366 else (365 :: int))"
    if "b \<Longrightarrow> a" "c \<Longrightarrow> b" for a b c
    using that by (cases a; cases b; cases c) simp_all
  note steps = quot[of 4, OF zero_less_numeral] quot[of 100, OF zero_less_numeral]
    quot[of 400, OF zero_less_numeral]
  have "year_start (y + 1) - year_start y = (if leap_year y then 366 else 365)"
    unfolding start steps leap_year_def by (rule count) (rule nested, assumption)+
  then show ?thesis by linarith
qed

lemma month_cases:
  assumes "1 \<le> m" "m \<le> (12 :: int)"
  obtains "m = 1" | "m = 2" | "m = 3" | "m = 4" | "m = 5" | "m = 6" | "m = 7" | "m = 8" | "m = 9"
    | "m = 10" | "m = 11" | "m = 12"
proof -
  have "m = 1 \<or> m = 2 \<or> m = 3 \<or> m = 4 \<or> m = 5 \<or> m = 6 \<or> m = 7 \<or> m = 8 \<or> m = 9
    \<or> m = 10 \<or> m = 11 \<or> m = 12"
    using assms by presburger
  then show thesis using that by blast
qed

lemma days_in_month_bounds: "28 \<le> days_in_month y m" "days_in_month y m \<le> 31"
  by (auto simp: days_in_month_def)

lemma next_date_valid: "valid_date d \<Longrightarrow> valid_date (next_date d)"
proof (cases d)
  case (fields y m k)
  assume "valid_date d"
  then show ?thesis
    using fields days_in_month_bounds(1)[of y "m + 1"] days_in_month_bounds(1)[of "y + 1" 1] by auto
qed

lemma day_number_next: "valid_date d \<Longrightarrow> day_number (next_date d) = day_number d + 1"
proof (cases d)
  case (fields y m k)
  assume "valid_date d"
  with fields have m: "1 \<le> m" "m \<le> 12" and k: "1 \<le> k" "k \<le> days_in_month y m" by auto
  show ?thesis
  proof (cases "k < days_in_month y m")
    case True
    with fields show ?thesis by simp
  next
    case False
    with k have "k = days_in_month y m" by simp
    with fields show ?thesis
      by (cases rule: month_cases[OF m])
        (auto simp: days_in_month_def month_offset_def year_start_Suc)
  qed
qed

text \<open>
  \<open>addDays(isoDate, days)\<close>: \<open>setUTCDate\<close> moves the date forward by whole days (the source only
  calls it with a positive number, apart from the dashboard, whose \<open>subDays\<close> is in \<open>Calendar\<close>).
\<close>

fun addDays :: "date \<Rightarrow> nat \<Rightarrow> date" where
  "addDays d 0 = d"
| "addDays d (Suc n) = addDays (next_date d) n"

lemma addDays_valid: "valid_date d \<Longrightarrow> valid_date (addDays d n)"
  by (induction n arbitrary: d) (auto simp: next_date_valid simp del: next_date.simps)

lemma addDays_day_number: "valid_date d \<Longrightarrow> day_number (addDays d n) = day_number d + int n"
  by (induction n arbitrary: d) (auto simp: next_date_valid day_number_next simp del: next_date.simps)

section \<open>Ages\<close>

fun calculateAge :: "date \<Rightarrow> date \<Rightarrow> int" where
  "calculateAge (by, bm, bd) (ty, tm, td) =
    (let age = ty - by in if tm < bm \<or> tm = bm \<and> td < bd then age - 1 else age)"

definition isAdult :: "date \<Rightarrow> date \<Rightarrow> bool" where
  "isAdult dob today \<longleftrightarrow> MIN_AGE \<le> calculateAge dob today"

section \<open>India Standard Time\<close>

text \<open>India keeps one offset, UTC+05:30, the year round.\<close>

definition IST_OFFSET_MS :: int where
  "IST_OFFSET_MS = (5 * 60 + 30) * 60 * 1000"

definition todayInIndia :: "instant \<Rightarrow> date" where
  "todayInIndia now = addDays (1970, 1, 1) (nat ((now + IST_OFFSET_MS) div DAY_MS))"

text \<open>The instant of a local date and time of day (in seconds): \<open>AT TIME ZONE 'Asia/Kolkata'\<close>.\<close>

definition ist_instant :: "date \<Rightarrow> int \<Rightarrow> instant" where
  "ist_instant d secs = day_number d * DAY_MS + secs * 1000 - IST_OFFSET_MS"

definition istStartOfDay :: "date \<Rightarrow> instant" where
  "istStartOfDay d = ist_instant d 0"

lemma todayInIndia_valid: "valid_date (todayInIndia now)"
  by (simp add: todayInIndia_def addDays_valid days_in_month_def)

lemma todayInIndia_day_number:
  "- IST_OFFSET_MS \<le> now \<Longrightarrow> day_number (todayInIndia now) = (now + IST_OFFSET_MS) div DAY_MS"
  unfolding todayInIndia_def
  by (subst addDays_day_number)
    (auto simp: days_in_month_def day_number_epoch pos_imp_zdiv_nonneg_iff limits
      simp del: day_number.simps)

lemma todayInIndia_start:
  "- IST_OFFSET_MS \<le> now \<Longrightarrow>
    istStartOfDay (todayInIndia now) \<le> now \<and> now < istStartOfDay (todayInIndia now) + DAY_MS"
proof -
  assume "- IST_OFFSET_MS \<le> now"
  note today = todayInIndia_day_number[OF this]
  have "(now + IST_OFFSET_MS) div DAY_MS * DAY_MS + (now + IST_OFFSET_MS) mod DAY_MS = now + IST_OFFSET_MS"
    by (rule div_mult_mod_eq)
  moreover have "0 \<le> (now + IST_OFFSET_MS) mod DAY_MS" "(now + IST_OFFSET_MS) mod DAY_MS < DAY_MS"
    by (simp_all add: DAY_MS_def)
  ultimately show ?thesis
    unfolding istStartOfDay_def ist_instant_def today by linarith
qed

end
