(* ===== verification/Rows.thy ===== *)
theory Rows
  imports Dates
begin

text \<open>
  One record per database table the model keeps (\<open>src/apps/api/src/models\<close>), with the columns of
  the model class. A nullable column is an option. The column \<open>updatedAt\<close>, which no service
  reads, is left out; a JSON column is a list of named values or a record of its own.
\<close>

text \<open>The JSON values the services store in metadata columns.\<close>

datatype meta = Meta_null | Meta_text string | Meta_num int | Meta_bool bool | Meta_id uuid
  | Meta_at instant | Meta_list "meta list" | Meta_status user_status | Meta_sanction sanction_type
  | Meta_reason report_reason | Meta_trigger suspicious_trigger

type_synonym metadata = "(string \<times> meta) list"

section \<open>Members\<close>

record user =
  u_id :: uuid
  u_phoneHash :: "string option"
  u_phoneEncrypted :: "string option"
  u_phoneKeyVersion :: "int option"
  u_status :: user_status
  u_onboardingCompletedAt :: "instant option"
  u_underageRejectedAt :: "instant option"
  u_photoVerifiedAt :: "instant option"
  u_identityVerifiedAt :: "instant option"
  u_hiddenFromDiscovery :: bool
  u_hiddenReason :: "hidden_reason option"
  u_interactionsRestrictedAt :: "instant option"
  u_chatRestrictedAt :: "instant option"
  u_termsVersion :: "string option"
  u_termsAcceptedAt :: "instant option"
  u_lastActiveAt :: "instant option"
  u_deletionRequestedAt :: "instant option"
  u_createdAt :: instant
  u_deletedAt :: "instant option"

record user_session =
  s_id :: uuid
  s_userId :: uuid
  s_refreshTokenHash :: string
  s_previousRefreshTokenHash :: "string option"
  s_rotatedAt :: "instant option"
  s_userAgent :: "string option"
  s_ipHash :: "string option"
  s_lastUsedAt :: instant
  s_expiresAt :: instant
  s_revokedAt :: "instant option"
  s_revokedReason :: "session_revoke_reason option"
  s_createdAt :: instant

record user_profile =
  pf_id :: uuid
  pf_userId :: uuid
  pf_displayName :: string
  pf_dateOfBirth :: date
  pf_gender :: gender
  pf_cityId :: uuid
  pf_areaId :: "uuid option"
  pf_bio :: "string option"
  pf_instagramHandle :: "string option"
  pf_garbaLevel :: garba_level
  pf_availableDates :: "date list"
  pf_imagePublicId :: "string option"
  pf_imageWidth :: "int option"
  pf_imageHeight :: "int option"
  pf_imageUploadedAt :: "instant option"
  pf_createdAt :: instant

record user_preference =
  pr_id :: uuid
  pr_userId :: uuid
  pr_partnerGenderPreference :: partner_gender_preference
  pr_ageMin :: int
  pr_ageMax :: int
  pr_verifiedOnly :: bool
  pr_discoveryEnabled :: bool
  pr_showArea :: bool
  pr_createdAt :: instant

text \<open>A verification attempt, as far as the services read and write it.\<close>

record user_verification =
  uv_id :: uuid
  uv_userId :: uuid
  uv_type :: verification_type
  uv_status :: verification_status
  uv_decidedAt :: "instant option"
  uv_verifiedAt :: "instant option"
  uv_createdAt :: instant

section \<open>Interests, matches and messages\<close>

record partner_interest =
  i_id :: uuid
  i_senderId :: uuid
  i_receiverId :: uuid
  i_eventId :: "uuid option"
  i_status :: interest_status
  i_expiresAt :: instant
  i_respondedAt :: "instant option"
  i_createdAt :: instant

record match_row =
  m_id :: uuid
  m_userAId :: uuid
  m_userBId :: uuid
  m_interestId :: "uuid option"
  m_eventId :: "uuid option"
  m_status :: match_status
  m_endedAt :: "instant option"
  m_endedByUserId :: "uuid option"
  m_endedByAdminId :: "uuid option"
  m_lastMessageAt :: "instant option"
  m_userALastReadAt :: "instant option"
  m_userBLastReadAt :: "instant option"
  m_createdAt :: instant

record message =
  ms_id :: uuid
  ms_matchId :: uuid
  ms_senderId :: uuid
  ms_clientMessageId :: uuid
  ms_body :: js_text
  ms_containsContactInfo :: bool
  ms_containsMoneyRequest :: bool
  ms_createdAt :: instant

section \<open>Safety\<close>

record block =
  bl_id :: uuid
  bl_blockerId :: uuid
  bl_blockedId :: uuid
  bl_createdAt :: instant

record evidence_message =
  em_id :: uuid
  em_fromReporter :: bool
  em_body :: js_text
  em_createdAt :: instant
  em_reported :: bool
  em_containsContactInfo :: bool

record report_evidence =
  re_profile :: "(string \<times> string option \<times> string option) option"
  re_trigger :: "suspicious_trigger option"
  re_signals :: metadata
  re_messages :: "evidence_message list"

record report =
  rp_id :: uuid
  rp_source :: report_source
  rp_reporterId :: "uuid option"
  rp_reportedUserId :: uuid
  rp_reason :: report_reason
  rp_priority :: nat
  rp_details :: "string option"
  rp_evidence :: report_evidence
  rp_status :: report_status
  rp_assignedAdminId :: "uuid option"
  rp_resolutionAction :: "report_resolution_action option"
  rp_resolutionNote :: "string option"
  rp_resolvedByAdminId :: "uuid option"
  rp_resolvedAt :: "instant option"
  rp_messageId :: "uuid option"
  rp_matchId :: "uuid option"
  rp_createdAt :: instant

record user_sanction =
  sn_id :: uuid
  sn_userId :: uuid
  sn_type :: sanction_type
  sn_reasonCode :: report_reason
  sn_note :: string
  sn_reportId :: "uuid option"
  sn_startsAt :: instant
  sn_endsAt :: "instant option"
  sn_createdByAdminId :: uuid
  sn_acknowledgedAt :: "instant option"
  sn_revokedAt :: "instant option"
  sn_revokedByAdminId :: "uuid option"
  sn_revokeReason :: "string option"
  sn_expiredAt :: "instant option"
  sn_createdAt :: instant

record safety_log =
  sl_id :: uuid
  sl_eventType :: safety_event_type
  sl_severity :: safety_severity
  sl_userId :: "uuid option"
  sl_adminId :: "uuid option"
  sl_ipHash :: "string option"
  sl_metadata :: metadata
  sl_createdAt :: instant

section \<open>Notifications\<close>

record notification_data =
  nd_safetyKind :: "safety_notification_kind option"
  nd_bookingKind :: "booking_notification_kind option"

record notification =
  n_id :: uuid
  n_userId :: uuid
  n_type :: notification_type
  n_actorUserId :: "uuid option"
  n_matchId :: "uuid option"
  n_interestId :: "uuid option"
  n_eventId :: "uuid option"
  n_bookingId :: "uuid option"
  n_data :: notification_data
  n_count :: nat
  n_occurredAt :: instant
  n_readAt :: "instant option"

record notification_preference =
  np_userId :: uuid
  np_interestReceived :: bool
  np_interestAccepted :: bool
  np_matchCreated :: bool
  np_newMessage :: bool
  np_verificationCompleted :: bool
  np_eventReminder :: bool
  np_whatsappOptIn :: bool
  np_whatsappOptInAt :: "instant option"

section \<open>Locations and organizers\<close>

record city =
  ci_id :: uuid
  ci_name :: string
  ci_state :: string
  ci_slug :: string
  ci_isActive :: bool
  ci_sortOrder :: int

record area =
  ar_id :: uuid
  ar_cityId :: uuid
  ar_name :: string
  ar_slug :: string
  ar_isActive :: bool
  ar_sortOrder :: int

record event_organizer =
  og_id :: uuid
  og_name :: string
  og_description :: "string option"
  og_websiteUrl :: "string option"
  og_instagramHandle :: "string option"
  og_contactName :: "string option"
  og_contactEmail :: "string option"
  og_contactPhone :: "string option"
  og_notes :: "string option"
  og_status :: organizer_status
  og_isVerified :: bool
  og_verifiedAt :: "instant option"
  og_archivedAt :: "instant option"
  og_createdByAdminId :: uuid
  og_updatedByAdminId :: uuid
  og_createdAt :: instant

section \<open>Events, passes and payments\<close>

text \<open>
  \<open>starts_at\<close> and \<open>ends_at\<close> are generated columns: functions of the date and the two times of
  day (in seconds), the end on the next day when it is not after the start.
\<close>

record event =
  ev_id :: uuid
  ev_slug :: string
  ev_name :: string
  ev_description :: string
  ev_organizerId :: uuid
  ev_cityId :: uuid
  ev_areaId :: "uuid option"
  ev_venueName :: string
  ev_venueAddress :: string
  ev_eventDate :: date
  ev_startTime :: int
  ev_endTime :: int
  ev_imagePublicId :: "string option"
  ev_ticketUrl :: "string option"
  ev_passPricePaise :: "int option"
  ev_passCapacity :: "int option"
  ev_status :: event_status
  ev_isVerified :: bool
  ev_verifiedAt :: "instant option"
  ev_publishedAt :: "instant option"
  ev_firstPublishedAt :: "instant option"
  ev_archivedAt :: "instant option"
  ev_createdByAdminId :: uuid
  ev_updatedByAdminId :: uuid
  ev_createdAt :: instant

definition ev_startsAt :: "event \<Rightarrow> instant" where
  "ev_startsAt e = ist_instant (ev_eventDate e) (ev_startTime e)"

definition ev_endsAt :: "event \<Rightarrow> instant" where
  "ev_endsAt e =
    ist_instant
      (if ev_endTime e \<le> ev_startTime e then next_date (ev_eventDate e) else ev_eventDate e)
      (ev_endTime e)"

record event_attendance =
  at_id :: uuid
  at_eventId :: uuid
  at_userId :: uuid
  at_status :: attendance_status
  at_lookingForPartner :: bool
  at_createdAt :: instant

record order =
  o_id :: uuid
  o_userId :: uuid
  o_eventId :: uuid
  o_idempotencyKey :: uuid
  o_quantity :: int
  o_unitPricePaise :: int
  o_amountPaise :: int
  o_status :: order_status
  o_razorpayOrderId :: "string option"
  o_expiresAt :: instant
  o_paidAt :: "instant option"
  o_createdAt :: instant

record payment =
  p_id :: uuid
  p_orderId :: uuid
  p_razorpayPaymentId :: string
  p_status :: payment_status
  p_amountPaise :: int
  p_currency :: string
  p_method :: "string option"
  p_errorCode :: "string option"
  p_errorReason :: "string option"
  p_capturedAt :: "instant option"
  p_refundStatus :: refund_status
  p_razorpayRefundId :: "string option"
  p_amountRefundedPaise :: int
  p_refundedAt :: "instant option"
  p_createdAt :: instant

record event_booking =
  b_id :: uuid
  b_code :: string
  b_orderId :: uuid
  b_paymentId :: uuid
  b_userId :: uuid
  b_eventId :: uuid
  b_quantity :: int
  b_amountPaise :: int
  b_status :: booking_status
  b_refundStatus :: refund_status
  b_cancelReason :: "booking_cancel_reason option"
  b_cancelledAt :: "instant option"
  b_createdAt :: instant

record payment_webhook_event =
  w_eventId :: string
  w_event :: string
  w_razorpayPaymentId :: "string option"
  w_razorpayOrderId :: "string option"
  w_receivedAt :: instant
  w_processedAt :: "instant option"

section \<open>Administration\<close>

record admin_user =
  ad_id :: uuid
  ad_email :: string
  ad_name :: string
  ad_role :: admin_role
  ad_passwordHash :: string
  ad_status :: admin_status
  ad_failedLoginCount :: int
  ad_lockedUntil :: "instant option"
  ad_lastLoginAt :: "instant option"
  ad_createdAt :: instant

record admin_session =
  as_id :: uuid
  as_adminId :: uuid
  as_refreshTokenHash :: string
  as_previousRefreshTokenHash :: "string option"
  as_rotatedAt :: "instant option"
  as_userAgent :: "string option"
  as_ipHash :: "string option"
  as_lastUsedAt :: instant
  as_expiresAt :: instant
  as_revokedAt :: "instant option"
  as_revokedReason :: "admin_session_revoke_reason option"
  as_createdAt :: instant

datatype audit_target = Target_user | Target_admin | Target_report | Target_event
  | Target_verification | Target_photo | Target_city | Target_area | Target_sanction
  | Target_organizer | Target_match | Target_booking

record admin_audit_log =
  al_id :: uuid
  al_adminId :: uuid
  al_action :: string
  al_targetType :: audit_target
  al_targetId :: "uuid option"
  al_metadata :: metadata
  al_ipHash :: "string option"
  al_createdAt :: instant

end
