(* ===== verification/Tables.thy ===== *)
theory Tables
  imports Enums
begin

text \<open>
  Database tables with their constraints. A \<open>table\<close> says where the rows of one table live in a
  larger state, what the primary key is, which rows the CHECK constraints accept
  (\<open>tb_ok\<close>) and which two rows violate a UNIQUE constraint together (\<open>tb_clash\<close>).
  \<open>insert_row\<close> and \<open>update_rows\<close> are INSERT and UPDATE \<dots> WHERE: they fail, and write nothing,
  when a constraint would be violated. \<open>save\<close> is the ORM's \<open>instance.update(values)\<close>, which
  writes only the values that differ from the loaded instance.

  The locale \<open>stored_table\<close> is the interface every table of the state satisfies: lookups after
  a write, and the table invariant that every write keeps.
\<close>

text \<open>SQL's equality of two nullable columns, as unique indexes use it: NULL equals nothing.\<close>

definition sql_eq :: "'a option \<Rightarrow> 'a option \<Rightarrow> bool" where
  "sql_eq a b \<longleftrightarrow> a \<noteq> None \<and> a = b"

lemma sql_eq_sym: "sql_eq a b \<Longrightarrow> sql_eq b a"
  unfolding sql_eq_def by metis

record ('s, 'r) table =
  tb_rows :: "'s \<Rightarrow> 'r list"
  tb_put :: "'r list \<Rightarrow> 's \<Rightarrow> 's"
  tb_key :: "'r \<Rightarrow> uuid"
  tb_ok :: "'r \<Rightarrow> bool"
  tb_clash :: "'r \<Rightarrow> 'r \<Rightarrow> bool"

section \<open>Reading\<close>

definition find_row :: "('s, 'r) table \<Rightarrow> ('r \<Rightarrow> bool) \<Rightarrow> 's \<Rightarrow> 'r option" where
  "find_row T P s = find P (tb_rows T s)"

definition by_key :: "('s, 'r) table \<Rightarrow> uuid \<Rightarrow> 's \<Rightarrow> 'r option" where
  "by_key T i s = find (\<lambda>r. tb_key T r = i) (tb_rows T s)"

definition rows_where :: "('s, 'r) table \<Rightarrow> ('r \<Rightarrow> bool) \<Rightarrow> 's \<Rightarrow> 'r list" where
  "rows_where T P s = filter P (tb_rows T s)"

section \<open>Writing\<close>

definition conflicts :: "('s, 'r) table \<Rightarrow> 'r list \<Rightarrow> 'r \<Rightarrow> bool" where
  "conflicts T rows r \<longleftrightarrow> list_ex (\<lambda>q. tb_key T q \<noteq> tb_key T r \<and> tb_clash T q r) rows"

definition insert_row :: "('s, 'r) table \<Rightarrow> 'r \<Rightarrow> (failure, 's, unit) prog" where
  "insert_row T r s =
    (if \<not> tb_ok T r then (Inl Check_violation, s)
     else if list_ex (\<lambda>q. tb_key T q = tb_key T r \<or> tb_clash T q r) (tb_rows T s)
       then (Inl Unique_violation, s)
     else (Inr (), tb_put T (tb_rows T s @ [r]) s))"

definition update_rows ::
    "('s, 'r) table \<Rightarrow> ('r \<Rightarrow> bool) \<Rightarrow> ('r \<Rightarrow> 'r) \<Rightarrow> (failure, 's, unit) prog" where
  "update_rows T P f s =
    (let new = update_where P f (tb_rows T s);
         changed = map f (filter P (tb_rows T s))
     in if \<not> list_all (tb_ok T) changed then (Inl Check_violation, s)
        else if list_ex (conflicts T new) changed then (Inl Unique_violation, s)
        else (Inr (), tb_put T new s))"

definition delete_rows :: "('s, 'r) table \<Rightarrow> ('r \<Rightarrow> bool) \<Rightarrow> (failure, 's, unit) prog" where
  "delete_rows T P s = (Inr (), tb_put T (filter (\<lambda>r. \<not> P r) (tb_rows T s)) s)"

text \<open>
  \<open>setting get upd v\<close> is one entry of the values given to \<open>instance.update\<close>: it changes a row
  only where the loaded instance has another value.
\<close>

type_synonym 'r setting = "'r \<Rightarrow> 'r \<Rightarrow> 'r"

definition setting :: "('r \<Rightarrow> 'a) \<Rightarrow> (('a \<Rightarrow> 'a) \<Rightarrow> 'r \<Rightarrow> 'r) \<Rightarrow> 'a \<Rightarrow> 'r setting" where
  "setting get upd v inst row = (if get inst = v then row else upd (\<lambda>_. v) row)"

definition apply_settings :: "'r setting list \<Rightarrow> 'r \<Rightarrow> 'r \<Rightarrow> 'r" where
  "apply_settings cs inst row = fold (\<lambda>c. c inst) cs row"

text \<open>The instance after the update holds the written values and its older ones.\<close>

definition save ::
    "('s, 'r) table \<Rightarrow> 'r setting list \<Rightarrow> 'r \<Rightarrow> (failure, 's, 'r) prog" where
  "save T cs inst = andThen
    (update_rows T (\<lambda>r. tb_key T r = tb_key T inst) (apply_settings cs inst))
    (\<lambda>_. ret (apply_settings cs inst inst))"

text \<open>A view that does not read a table is left alone by every write to it.\<close>

lemma leaves_writes [leaves_rules]:
  assumes "\<And>rs s. v (tb_put T rs s) = v s"
  shows "leaves v (insert_row T r)" and "leaves v (update_rows T P f)"
    and "leaves v (delete_rows T P)" and "leaves v (save T cs inst)"
  using assms
  by (auto simp: leaves_def insert_row_def update_rows_def delete_rows_def save_def andThen_def
      ret_def Let_def split: prod.splits sum.splits if_splits)

section \<open>Well-formed tables\<close>

definition table_ok :: "('s, 'r) table \<Rightarrow> 's \<Rightarrow> bool" where
  "table_ok T s \<longleftrightarrow> distinct (map (tb_key T) (tb_rows T s)) \<and>
    (\<forall>r \<in> set (tb_rows T s). tb_ok T r \<and> \<not> conflicts T (tb_rows T s) r)"

lemma insert_row_Inr_iff:
  "insert_row T r s = (Inr x, t) \<longleftrightarrow> tb_ok T r \<and>
    (\<forall>q \<in> set (tb_rows T s). tb_key T q \<noteq> tb_key T r \<and> \<not> tb_clash T q r) \<and>
    t = tb_put T (tb_rows T s @ [r]) s"
  by (auto simp: insert_row_def list_ex_iff)

lemma update_rows_Inr_iff:
  "update_rows T P f s = (Inr x, t) \<longleftrightarrow>
    (\<forall>r \<in> set (tb_rows T s). P r \<longrightarrow>
      tb_ok T (f r) \<and> \<not> conflicts T (update_where P f (tb_rows T s)) (f r)) \<and>
    t = tb_put T (update_where P f (tb_rows T s)) s"
  by (auto simp: update_rows_def Let_def list_ex_iff list_all_iff)

lemma write_failed_state:
  "insert_row T r s = (Inl e, t) \<Longrightarrow> t = s"
  "update_rows T P f s = (Inl e, t) \<Longrightarrow> t = s"
  by (auto simp: insert_row_def update_rows_def Let_def split: if_splits)

lemma apply_settings_Nil [simp]: "apply_settings [] inst row = row"
  by (simp add: apply_settings_def)

lemma apply_settings_Cons [simp]:
  "apply_settings (c # cs) inst row = apply_settings cs inst (c inst row)"
  by (simp add: apply_settings_def)

lemma save_Inr_iff:
  "save T cs inst s = (Inr x, t) \<longleftrightarrow> x = apply_settings cs inst inst \<and>
    update_rows T (\<lambda>r. tb_key T r = tb_key T inst) (apply_settings cs inst) s = (Inr (), t)"
  by (auto simp: save_def andThen_def ret_def split: prod.splits sum.splits)

text \<open>What a saved value does to the fields of a row, without a case split per value.\<close>

lemma setting_keeps: "(\<And>v r. g (upd (\<lambda>_. v) r) = g r) \<Longrightarrow> g (setting get upd v inst row) = g row"
  by (simp add: setting_def)

lemma setting_sets:
  "(\<And>v r. get (upd (\<lambda>_. v) r) = v) \<Longrightarrow> get inst = get row \<Longrightarrow> get (setting get upd v inst row) = v"
  by (simp add: setting_def)

section \<open>The interface of a table\<close>

locale stored_table =
  fixes T :: "('s, 'r) table"
  assumes rows_put: "tb_rows T (tb_put T rs s) = rs"
    and put_put: "tb_put T rs (tb_put T rs' s) = tb_put T rs s"
    and clash_sym: "tb_clash T r q \<Longrightarrow> tb_clash T q r"
begin

text \<open>What a lookup returns after a write.\<close>

lemma lookup_inserted:
  "insert_row T r s = (Inr x, t) \<Longrightarrow>
    by_key T i t = (if tb_key T r = i then Some r else by_key T i s)"
  by (auto simp: insert_row_Inr_iff by_key_def rows_put find_append split: option.split
      dest: find_Some_in)

lemma rows_inserted: "insert_row T r s = (Inr x, t) \<Longrightarrow> tb_rows T t = tb_rows T s @ [r]"
  by (auto simp: insert_row_Inr_iff rows_put)

lemma rows_updated:
  "update_rows T P f s = (Inr x, t) \<Longrightarrow> tb_rows T t = update_where P f (tb_rows T s)"
  by (auto simp: update_rows_Inr_iff rows_put)

lemma lookup_updated:
  "update_rows T (\<lambda>r. tb_key T r = j) f s = (Inr x, t) \<Longrightarrow> (\<And>r. tb_key T (f r) = tb_key T r) \<Longrightarrow>
    by_key T i t = (if i = j then map_option f (by_key T i s) else by_key T i s)"
  by (simp add: by_key_def rows_updated find_update_where_key)

text \<open>A write that returns leaves a table that satisfies its constraints.\<close>

lemma insert_row_ok: "insert_row T r s = (Inr x, t) \<Longrightarrow> table_ok T s \<Longrightarrow> table_ok T t"
  by (auto simp: insert_row_Inr_iff table_ok_def rows_put conflicts_def list_ex_iff image_iff
      dest: clash_sym)

lemma update_rows_ok:
  assumes "update_rows T P f s = (Inr x, t)" "table_ok T s" "\<And>r. tb_key T (f r) = tb_key T r"
  shows "table_ok T t"
proof -
  let ?new = "update_where P f (tb_rows T s)"
  have new: "tb_rows T t = ?new" using assms(1) by (rule rows_updated)
  have changed: "tb_ok T (f r) \<and> \<not> conflicts T ?new (f r)" if "r \<in> set (tb_rows T s)" "P r" for r
    using assms(1) that by (auto simp: update_rows_Inr_iff)
  have kept: "\<not> conflicts T ?new r" if r: "r \<in> set (tb_rows T s)" "\<not> P r" for r
  proof
    assume "conflicts T ?new r"
    then obtain q where q: "q \<in> set (tb_rows T s)" "tb_key T q \<noteq> tb_key T r"
      "tb_clash T (if P q then f q else q) r"
      by (auto simp: conflicts_def list_ex_iff set_update_where assms(3) split: if_splits)
    show False
    proof (cases "P q")
      case True
      then have "conflicts T ?new (f q)"
        using q r by (auto simp: conflicts_def list_ex_iff set_update_where assms(3)
            intro!: bexI[of _ r] dest: clash_sym)
      with changed q True show False by blast
    next
      case False
      with q r assms(2) show False by (auto simp: table_ok_def conflicts_def list_ex_iff)
    qed
  qed
  show ?thesis
    using assms(2) changed kept
    by (auto simp: table_ok_def new set_update_where map_update_where assms(3))
qed

lemma delete_rows_ok: "delete_rows T P s = (x, t) \<Longrightarrow> table_ok T s \<Longrightarrow> table_ok T t"
  by (fastforce simp: delete_rows_def table_ok_def rows_put conflicts_def list_ex_iff distinct_map
      intro: inj_on_subset)

lemma keeps_insert_row: "keeps (table_ok T) (insert_row T r)"
  by (rule keepsI) (metis insert_row_ok sum.exhaust write_failed_state(1))

lemma keeps_update_rows: "(\<And>r. tb_key T (f r) = tb_key T r) \<Longrightarrow> keeps (table_ok T) (update_rows T P f)"
  by (rule keepsI) (metis update_rows_ok sum.exhaust write_failed_state(2))

text \<open>An update that touches neither the key nor the unique columns, and satisfies the CHECKs, goes through.\<close>

lemma update_rows_returns:
  assumes ok: "table_ok T s" and key: "\<And>r. tb_key T (f r) = tb_key T r"
    and clash: "\<And>r q. tb_clash T (f r) q \<longleftrightarrow> tb_clash T r q"
    and checks: "\<And>r. r \<in> set (tb_rows T s) \<Longrightarrow> P r \<Longrightarrow> tb_ok T (f r)"
  shows "update_rows T P f s = (Inr (), tb_put T (update_where P f (tb_rows T s)) s)"
proof -
  have clash': "tb_clash T r (f q) \<longleftrightarrow> tb_clash T r q" for r q
    using clash clash_sym by blast
  have "\<not> conflicts T (update_where P f (tb_rows T s)) (f r)" if "r \<in> set (tb_rows T s)" for r
  proof
    assume "conflicts T (update_where P f (tb_rows T s)) (f r)"
    then obtain q where "q \<in> set (tb_rows T s)" "tb_key T q \<noteq> tb_key T r" "tb_clash T q r"
      by (auto simp: conflicts_def list_ex_iff set_update_where key clash clash' split: if_splits)
    with ok that show False by (auto simp: table_ok_def conflicts_def list_ex_iff)
  qed
  with checks show ?thesis by (simp add: update_rows_Inr_iff)
qed

text \<open>Rows found by one key are one row; the UNIQUE constraints separate the rows.\<close>

lemma row_by_key: "table_ok T s \<Longrightarrow> r \<in> set (tb_rows T s) \<Longrightarrow> by_key T (tb_key T r) s = Some r"
  by (simp add: by_key_def table_ok_def find_key)

lemma key_eq: "table_ok T s \<Longrightarrow> r \<in> set (tb_rows T s) \<Longrightarrow> q \<in> set (tb_rows T s) \<Longrightarrow>
    tb_key T r = tb_key T q \<Longrightarrow> r = q"
  by (metis row_by_key option.inject)

lemma clash_eq: "table_ok T s \<Longrightarrow> r \<in> set (tb_rows T s) \<Longrightarrow> q \<in> set (tb_rows T s) \<Longrightarrow>
    tb_clash T r q \<Longrightarrow> r = q"
  by (auto simp: table_ok_def conflicts_def list_ex_iff intro: distinct_key_eq)

lemma row_ok: "table_ok T s \<Longrightarrow> r \<in> set (tb_rows T s) \<Longrightarrow> tb_ok T r"
  by (auto simp: table_ok_def)

lemma by_key_in: "by_key T i s = Some r \<Longrightarrow> r \<in> set (tb_rows T s) \<and> tb_key T r = i"
  by (auto simp: by_key_def dest: find_Some_in)

end

text \<open>A saved instance is what a lookup finds afterwards.\<close>

lemma lookup_saved:
  assumes "stored_table T" "save T cs inst s = (Inr x, t)" "by_key T i s = Some inst" "tb_key T inst = i"
    and "\<And>r. tb_key T (apply_settings cs inst r) = tb_key T r"
  shows "by_key T i t = Some x \<and> x = apply_settings cs inst inst"
proof -
  have run: "x = apply_settings cs inst inst"
    "update_rows T (\<lambda>r. tb_key T r = i) (apply_settings cs inst) s = (Inr (), t)"
    using assms(2,4) by (simp_all add: save_Inr_iff)
  show ?thesis
    using stored_table.lookup_updated[OF assms(1) run(2) assms(5), of i] assms(3) run(1) by simp
qed

end
