(* ===== verification/Domain.thy ===== *)
theory Domain
  imports Rows Tables
begin

text \<open>
  The state of the service: the database (one list of rows per table), the clock, the supply of
  random numbers, and what the service sent out (socket pushes, gateway calls). Every table has
  the CHECK and UNIQUE constraints of the migrations under \<open>src/apps/api/src/migrations\<close>; foreign
  keys and the format checks of hash columns (which every SHA-256 value passes) are not modelled.
\<close>

section \<open>What leaves the service\<close>

datatype disconnect_reason = Account_restricted | Session_revoked

datatype socket_event = Ev_message_new uuid | Ev_message_read uuid uuid instant
  | Ev_match_ended uuid | Ev_session_ended disconnect_reason | Ev_notification_new uuid nat

text \<open>
  \<open>To_user\<close> and \<open>Disconnect\<close> are the two emits of the realtime hub; \<open>Deliver\<close> hands stored
  notifications to the SMS and WhatsApp channels, which run on their own; the others are uploads to the folders of
  the media storage (photos of profiles and images of events), deletions from them, and deletions that failed and
  left the asset there.
\<close>

datatype effect = To_user uuid socket_event | Disconnect uuid disconnect_reason | Deliver "uuid list"
  | Asset_stored string | Asset_destroyed string | Asset_left string
  | Event_asset_stored string | Event_asset_destroyed string | Event_asset_left string

datatype gateway_call = Call_create_order int string uuid | Call_fetch_payment string
  | Call_fetch_order_payments string | Call_capture string int string
  | Call_refund string int uuid

section \<open>Constraints\<close>

text \<open>The largest value of a PostgreSQL \<open>integer\<close> column.\<close>

definition INT4_MAX :: int where "INT4_MAX = 2147483647"

definition user_ok :: "user \<Rightarrow> bool" where
  "user_ok u \<longleftrightarrow>
    (u_deletedAt u = None \<and> u_phoneHash u \<noteq> None \<and> u_phoneEncrypted u \<noteq> None \<and> u_phoneKeyVersion u \<noteq> None
      \<or> u_deletedAt u \<noteq> None \<and> u_phoneHash u = None \<and> u_phoneEncrypted u = None \<and> u_phoneKeyVersion u = None) \<and>
    u_hiddenFromDiscovery u = (u_hiddenReason u \<noteq> None) \<and>
    (u_termsVersion u = None) = (u_termsAcceptedAt u = None) \<and>
    (u_status u \<noteq> U_pending_deletion \<or> u_deletionRequestedAt u \<noteq> None)"

definition user_clash :: "user \<Rightarrow> user \<Rightarrow> bool" where
  "user_clash a b \<longleftrightarrow> sql_eq (u_phoneHash a) (u_phoneHash b)"

definition session_ok :: "user_session \<Rightarrow> bool" where
  "session_ok s \<longleftrightarrow> (s_previousRefreshTokenHash s = None) = (s_rotatedAt s = None) \<and>
    s_createdAt s < s_expiresAt s \<and> (s_revokedAt s = None) = (s_revokedReason s = None)"

definition session_clash :: "user_session \<Rightarrow> user_session \<Rightarrow> bool" where
  "session_clash a b \<longleftrightarrow> s_refreshTokenHash a = s_refreshTokenHash b"

definition profile_ok :: "user_profile \<Rightarrow> bool" where
  "profile_ok p \<longleftrightarrow> length (pf_availableDates p) \<le> 30 \<and>
    (pf_imagePublicId p = None \<and> pf_imageWidth p = None \<and> pf_imageHeight p = None \<and> pf_imageUploadedAt p = None
      \<or> pf_imagePublicId p \<noteq> None \<and> (\<exists>x \<in> set_option (pf_imageWidth p). 0 < x) \<and>
        (\<exists>x \<in> set_option (pf_imageHeight p). 0 < x) \<and> pf_imageUploadedAt p \<noteq> None)"

definition profile_clash :: "user_profile \<Rightarrow> user_profile \<Rightarrow> bool" where
  "profile_clash a b \<longleftrightarrow> pf_userId a = pf_userId b \<or>
    sql_eq (pf_imagePublicId a) (pf_imagePublicId b)"

definition preference_ok :: "user_preference \<Rightarrow> bool" where
  "preference_ok p \<longleftrightarrow> 18 \<le> pr_ageMin p \<and> pr_ageMax p \<le> 80 \<and> pr_ageMin p \<le> pr_ageMax p"

definition preference_clash :: "user_preference \<Rightarrow> user_preference \<Rightarrow> bool" where
  "preference_clash a b \<longleftrightarrow> pr_userId a = pr_userId b"

definition verification_ok :: "user_verification \<Rightarrow> bool" where
  "verification_ok v \<longleftrightarrow> (uv_status v = V_approved \<or> uv_status v = V_rejected \<longrightarrow> uv_decidedAt v \<noteq> None) \<and>
    (uv_status v = V_approved \<longrightarrow> uv_verifiedAt v \<noteq> None) \<and>
    (uv_verifiedAt v \<noteq> None \<longrightarrow> uv_status v = V_approved \<or> uv_status v = V_revoked)"

definition verification_is_open :: "user_verification \<Rightarrow> bool" where
  "verification_is_open v \<longleftrightarrow> uv_status v = V_initiated \<or> uv_status v = V_pending"

text \<open>One open request per member and type.\<close>

definition verification_clash :: "user_verification \<Rightarrow> user_verification \<Rightarrow> bool" where
  "verification_clash a b \<longleftrightarrow> verification_is_open a \<and> verification_is_open b \<and>
    uv_userId a = uv_userId b \<and> uv_type a = uv_type b"

definition interest_ok :: "partner_interest \<Rightarrow> bool" where
  "interest_ok i \<longleftrightarrow> i_senderId i \<noteq> i_receiverId i \<and> (i_status i = I_pending) = (i_respondedAt i = None) \<and>
    i_createdAt i < i_expiresAt i"

text \<open>One pending interest per unordered pair.\<close>

definition interest_clash :: "partner_interest \<Rightarrow> partner_interest \<Rightarrow> bool" where
  "interest_clash a b \<longleftrightarrow> i_status a = I_pending \<and> i_status b = I_pending \<and>
    min (i_senderId a) (i_receiverId a) = min (i_senderId b) (i_receiverId b) \<and>
    max (i_senderId a) (i_receiverId a) = max (i_senderId b) (i_receiverId b)"

definition match_ok :: "match_row \<Rightarrow> bool" where
  "match_ok m \<longleftrightarrow> m_userAId m < m_userBId m \<and> (m_status m = M_active) = (m_endedAt m = None)"

text \<open>One match per interest and one active match per pair.\<close>

definition match_clash :: "match_row \<Rightarrow> match_row \<Rightarrow> bool" where
  "match_clash a b \<longleftrightarrow>
    sql_eq (m_interestId a) (m_interestId b) \<or>
    m_status a = M_active \<and> m_status b = M_active \<and> m_userAId a = m_userAId b \<and> m_userBId a = m_userBId b"

text \<open>PostgreSQL counts characters: a surrogate pair is one.\<close>

definition char_length :: "js_text \<Rightarrow> nat" where
  "char_length s = length (filter (\<lambda>c. \<not> (56320 \<le> c \<and> c \<le> 57343)) s)"

definition message_ok :: "message \<Rightarrow> bool" where
  "message_ok m \<longleftrightarrow> list_ex (\<lambda>c. c \<noteq> 32) (ms_body m) \<and> char_length (ms_body m) \<le> 1000"

definition message_clash :: "message \<Rightarrow> message \<Rightarrow> bool" where
  "message_clash a b \<longleftrightarrow> ms_senderId a = ms_senderId b \<and> ms_clientMessageId a = ms_clientMessageId b"

definition block_ok :: "block \<Rightarrow> bool" where
  "block_ok b \<longleftrightarrow> bl_blockerId b \<noteq> bl_blockedId b"

definition block_clash :: "block \<Rightarrow> block \<Rightarrow> bool" where
  "block_clash a b \<longleftrightarrow> bl_blockerId a = bl_blockerId b \<and> bl_blockedId a = bl_blockedId b"

definition report_is_open :: "report \<Rightarrow> bool" where
  "report_is_open r \<longleftrightarrow> rp_status r = R_open \<or> rp_status r = R_in_review"

definition report_ok :: "report \<Rightarrow> bool" where
  "report_ok r \<longleftrightarrow> rp_reporterId r \<noteq> Some (rp_reportedUserId r) \<and> rp_priority r \<le> 2 \<and>
    (rp_status r = R_resolved \<or> rp_status r = R_dismissed) =
      (rp_resolutionAction r \<noteq> None \<and> rp_resolvedAt r \<noteq> None \<and> rp_resolvedByAdminId r \<noteq> None)"

text \<open>One open report per reporter and reported member, one open system flag per trigger.\<close>

definition report_clash :: "report \<Rightarrow> report \<Rightarrow> bool" where
  "report_clash a b \<longleftrightarrow> report_is_open a \<and> report_is_open b \<and> rp_reportedUserId a = rp_reportedUserId b \<and>
    (sql_eq (rp_reporterId a) (rp_reporterId b) \<or>
     rp_source a = System_source \<and> rp_source b = System_source \<and>
       sql_eq (re_trigger (rp_evidence a)) (re_trigger (rp_evidence b)))"

text \<open>A sanction is active until a moderator lifts it or it has run out.\<close>

definition sanction_is_active :: "user_sanction \<Rightarrow> bool" where
  "sanction_is_active s \<longleftrightarrow> sn_revokedAt s = None \<and> sn_expiredAt s = None"

definition sanction_ok :: "user_sanction \<Rightarrow> bool" where
  "sanction_ok s \<longleftrightarrow> dropWhile (\<lambda>c. c = CHR '' '') (sn_note s) \<noteq> [] \<and>
    (case sn_endsAt s of None \<Rightarrow> True | Some e \<Rightarrow> sn_startsAt s < e) \<and>
    (sn_endsAt s = None \<or> sn_type s = Suspension \<or> sn_type s = Chat_restriction) \<and>
    (sn_expiredAt s = None \<or> sn_endsAt s \<noteq> None) \<and>
    (sn_acknowledgedAt s = None \<or> sn_type s = Warning) \<and>
    (sn_revokedAt s = None) = (sn_revokedByAdminId s = None) \<and>
    (sn_revokedAt s = None) = (sn_revokeReason s = None)"

definition sanction_clash :: "user_sanction \<Rightarrow> user_sanction \<Rightarrow> bool" where
  "sanction_clash a b \<longleftrightarrow> sn_type a \<noteq> Warning \<and> sanction_is_active a \<and> sanction_is_active b \<and>
    sn_userId a = sn_userId b \<and> sn_type a = sn_type b"

definition notification_ok :: "notification \<Rightarrow> bool" where
  "notification_ok n \<longleftrightarrow> 1 \<le> n_count n \<and> n_actorUserId n \<noteq> Some (n_userId n) \<and>
    (n_type n = Match_created \<or> n_type n = New_message \<or> n_type n = Interest_accepted \<longrightarrow> n_matchId n \<noteq> None) \<and>
    (n_type n = Event_reminder \<longrightarrow> n_eventId n \<noteq> None) \<and>
    (n_type n = Booking_notice \<longrightarrow> n_bookingId n \<noteq> None)"

text \<open>One unread message notification per member and chat, one reminder per member and event.\<close>

definition notification_clash :: "notification \<Rightarrow> notification \<Rightarrow> bool" where
  "notification_clash a b \<longleftrightarrow> n_userId a = n_userId b \<and>
    (n_type a = New_message \<and> n_type b = New_message \<and> n_readAt a = None \<and> n_readAt b = None \<and>
       sql_eq (n_matchId a) (n_matchId b) \<or>
     n_type a = Event_reminder \<and> n_type b = Event_reminder \<and> sql_eq (n_eventId a) (n_eventId b))"

definition city_ok :: "city \<Rightarrow> bool" where
  "city_ok c \<longleftrightarrow> ci_slug c \<noteq> []"

definition city_clash :: "city \<Rightarrow> city \<Rightarrow> bool" where
  "city_clash a b \<longleftrightarrow> ci_slug a = ci_slug b \<or> ci_name a = ci_name b \<and> ci_state a = ci_state b"

definition area_ok :: "area \<Rightarrow> bool" where
  "area_ok a \<longleftrightarrow> ar_slug a \<noteq> []"

definition area_clash :: "area \<Rightarrow> area \<Rightarrow> bool" where
  "area_clash a b \<longleftrightarrow> ar_cityId a = ar_cityId b \<and> ar_slug a = ar_slug b"

definition organizer_ok :: "event_organizer \<Rightarrow> bool" where
  "organizer_ok g \<longleftrightarrow> (og_status g = Org_archived) = (og_archivedAt g \<noteq> None) \<and>
    og_isVerified g = (og_verifiedAt g \<noteq> None)"

text \<open>\<open>UNIQUE (lower(name))\<close>\<close>

definition lower_char :: "char \<Rightarrow> char" where
  "lower_char c = (let n = of_char c :: nat in if 65 \<le> n \<and> n \<le> 90 then char_of (n + 32) else c)"

definition organizer_clash :: "event_organizer \<Rightarrow> event_organizer \<Rightarrow> bool" where
  "organizer_clash a b \<longleftrightarrow> map lower_char (og_name a) = map lower_char (og_name b)"

definition event_ok :: "event \<Rightarrow> bool" where
  "event_ok e \<longleftrightarrow> ev_endTime e \<noteq> ev_startTime e \<and>
    (ev_status e = E_published) = (ev_publishedAt e \<noteq> None) \<and>
    (ev_publishedAt e = None \<or> ev_firstPublishedAt e \<noteq> None) \<and>
    (ev_status e = E_archived) = (ev_archivedAt e \<noteq> None) \<and>
    ev_isVerified e = (ev_verifiedAt e \<noteq> None) \<and>
    (case ev_passPricePaise e of None \<Rightarrow> True | Some p \<Rightarrow> 100 \<le> p \<and> p \<le> 1000000) \<and>
    (case ev_passCapacity e of None \<Rightarrow> True | Some c \<Rightarrow> 1 \<le> c \<and> c \<le> 100000)"

definition event_clash :: "event \<Rightarrow> event \<Rightarrow> bool" where
  "event_clash a b \<longleftrightarrow> ev_slug a = ev_slug b"

definition attendance_clash :: "event_attendance \<Rightarrow> event_attendance \<Rightarrow> bool" where
  "attendance_clash a b \<longleftrightarrow> at_eventId a = at_eventId b \<and> at_userId a = at_userId b"

definition order_ok :: "order \<Rightarrow> bool" where
  "order_ok q \<longleftrightarrow> 1 \<le> o_quantity q \<and> o_quantity q \<le> 6 \<and> 0 < o_unitPricePaise q \<and>
    o_amountPaise q = o_unitPricePaise q * o_quantity q \<and> o_amountPaise q \<le> INT4_MAX \<and>
    (o_status q = O_paid) = (o_paidAt q \<noteq> None) \<and>
    (case o_razorpayOrderId q of None \<Rightarrow> True | Some r \<Rightarrow> length r \<le> 40)"

definition order_clash :: "order \<Rightarrow> order \<Rightarrow> bool" where
  "order_clash a b \<longleftrightarrow> o_userId a = o_userId b \<and> o_idempotencyKey a = o_idempotencyKey b \<or>
    sql_eq (o_razorpayOrderId a) (o_razorpayOrderId b)"

definition payment_ok :: "payment \<Rightarrow> bool" where
  "payment_ok p \<longleftrightarrow> 0 < p_amountPaise p \<and> p_amountPaise p \<le> INT4_MAX \<and>
    0 \<le> p_amountRefundedPaise p \<and> p_amountRefundedPaise p \<le> p_amountPaise p \<and>
    length (p_razorpayPaymentId p) \<le> 40 \<and> length (p_currency p) \<le> 3 \<and>
    (case p_razorpayRefundId p of None \<Rightarrow> True | Some r \<Rightarrow> length r \<le> 40)"

definition payment_clash :: "payment \<Rightarrow> payment \<Rightarrow> bool" where
  "payment_clash a b \<longleftrightarrow> p_razorpayPaymentId a = p_razorpayPaymentId b \<or>
    sql_eq (p_razorpayRefundId a) (p_razorpayRefundId b)"

definition booking_ok :: "event_booking \<Rightarrow> bool" where
  "booking_ok b \<longleftrightarrow> 1 \<le> b_quantity b \<and> b_quantity b \<le> 6 \<and>
    (b_status b = B_cancelled) = (b_cancelledAt b \<noteq> None \<and> b_cancelReason b \<noteq> None)"

text \<open>One booking per code, per order and per payment.\<close>

definition booking_clash :: "event_booking \<Rightarrow> event_booking \<Rightarrow> bool" where
  "booking_clash a b \<longleftrightarrow> b_code a = b_code b \<or> b_orderId a = b_orderId b \<or> b_paymentId a = b_paymentId b"

definition admin_ok :: "admin_user \<Rightarrow> bool" where
  "admin_ok a \<longleftrightarrow> 0 \<le> ad_failedLoginCount a"

definition admin_clash :: "admin_user \<Rightarrow> admin_user \<Rightarrow> bool" where
  "admin_clash a b \<longleftrightarrow> ad_email a = ad_email b"

definition admin_session_ok :: "admin_session \<Rightarrow> bool" where
  "admin_session_ok s \<longleftrightarrow> (as_previousRefreshTokenHash s = None) = (as_rotatedAt s = None) \<and>
    as_createdAt s < as_expiresAt s \<and> (as_revokedAt s = None) = (as_revokedReason s = None)"

definition admin_session_clash :: "admin_session \<Rightarrow> admin_session \<Rightarrow> bool" where
  "admin_session_clash a b \<longleftrightarrow> as_refreshTokenHash a = as_refreshTokenHash b"

section \<open>The state\<close>

text \<open>
  \<open>t_webhooks\<close> is keyed by a text and handled in the payments theory; the other tables have a
  \<open>table\<close> below. \<open>rng n\<close> is the \<open>n\<close>-th random number the service draws.
\<close>

record db =
  t_users :: "user list"
  t_sessions :: "user_session list"
  t_profiles :: "user_profile list"
  t_preferences :: "user_preference list"
  t_verifications :: "user_verification list"
  t_interests :: "partner_interest list"
  t_matches :: "match_row list"
  t_messages :: "message list"
  t_blocks :: "block list"
  t_reports :: "report list"
  t_sanctions :: "user_sanction list"
  t_safety_logs :: "safety_log list"
  t_notifications :: "notification list"
  t_notif_prefs :: "notification_preference list"
  t_cities :: "city list"
  t_areas :: "area list"
  t_organizers :: "event_organizer list"
  t_events :: "event list"
  t_attendances :: "event_attendance list"
  t_orders :: "order list"
  t_payments :: "payment list"
  t_bookings :: "event_booking list"
  t_admins :: "admin_user list"
  t_admin_sessions :: "admin_session list"
  t_audit_logs :: "admin_audit_log list"
  t_webhooks :: "payment_webhook_event list"
  clock :: instant
  rng :: "nat \<Rightarrow> nat"
  drawn :: nat
  outbox :: "effect list"
  gateway_log :: "gateway_call list"

type_synonym 'a op = "(failure, db, 'a) prog"

section \<open>The tables\<close>

definition users_table :: "(db, user) table" where
  "users_table = \<lparr>tb_rows = t_users, tb_put = (\<lambda>rs s. s\<lparr>t_users := rs\<rparr>), tb_key = u_id,
    tb_ok = user_ok, tb_clash = user_clash\<rparr>"

definition sessions_table :: "(db, user_session) table" where
  "sessions_table = \<lparr>tb_rows = t_sessions, tb_put = (\<lambda>rs s. s\<lparr>t_sessions := rs\<rparr>), tb_key = s_id,
    tb_ok = session_ok, tb_clash = session_clash\<rparr>"

definition profiles_table :: "(db, user_profile) table" where
  "profiles_table = \<lparr>tb_rows = t_profiles, tb_put = (\<lambda>rs s. s\<lparr>t_profiles := rs\<rparr>), tb_key = pf_id,
    tb_ok = profile_ok, tb_clash = profile_clash\<rparr>"

definition preferences_table :: "(db, user_preference) table" where
  "preferences_table = \<lparr>tb_rows = t_preferences, tb_put = (\<lambda>rs s. s\<lparr>t_preferences := rs\<rparr>), tb_key = pr_id,
    tb_ok = preference_ok, tb_clash = preference_clash\<rparr>"

definition verifications_table :: "(db, user_verification) table" where
  "verifications_table = \<lparr>tb_rows = t_verifications, tb_put = (\<lambda>rs s. s\<lparr>t_verifications := rs\<rparr>), tb_key = uv_id,
    tb_ok = verification_ok, tb_clash = verification_clash\<rparr>"

definition interests_table :: "(db, partner_interest) table" where
  "interests_table = \<lparr>tb_rows = t_interests, tb_put = (\<lambda>rs s. s\<lparr>t_interests := rs\<rparr>), tb_key = i_id,
    tb_ok = interest_ok, tb_clash = interest_clash\<rparr>"

definition matches_table :: "(db, match_row) table" where
  "matches_table = \<lparr>tb_rows = t_matches, tb_put = (\<lambda>rs s. s\<lparr>t_matches := rs\<rparr>), tb_key = m_id,
    tb_ok = match_ok, tb_clash = match_clash\<rparr>"

definition messages_table :: "(db, message) table" where
  "messages_table = \<lparr>tb_rows = t_messages, tb_put = (\<lambda>rs s. s\<lparr>t_messages := rs\<rparr>), tb_key = ms_id,
    tb_ok = message_ok, tb_clash = message_clash\<rparr>"

definition blocks_table :: "(db, block) table" where
  "blocks_table = \<lparr>tb_rows = t_blocks, tb_put = (\<lambda>rs s. s\<lparr>t_blocks := rs\<rparr>), tb_key = bl_id,
    tb_ok = block_ok, tb_clash = block_clash\<rparr>"

definition reports_table :: "(db, report) table" where
  "reports_table = \<lparr>tb_rows = t_reports, tb_put = (\<lambda>rs s. s\<lparr>t_reports := rs\<rparr>), tb_key = rp_id,
    tb_ok = report_ok, tb_clash = report_clash\<rparr>"

definition sanctions_table :: "(db, user_sanction) table" where
  "sanctions_table = \<lparr>tb_rows = t_sanctions, tb_put = (\<lambda>rs s. s\<lparr>t_sanctions := rs\<rparr>), tb_key = sn_id,
    tb_ok = sanction_ok, tb_clash = sanction_clash\<rparr>"

definition safety_logs_table :: "(db, safety_log) table" where
  "safety_logs_table = \<lparr>tb_rows = t_safety_logs, tb_put = (\<lambda>rs s. s\<lparr>t_safety_logs := rs\<rparr>), tb_key = sl_id,
    tb_ok = (\<lambda>_. True), tb_clash = (\<lambda>_ _. False)\<rparr>"

definition notifications_table :: "(db, notification) table" where
  "notifications_table = \<lparr>tb_rows = t_notifications, tb_put = (\<lambda>rs s. s\<lparr>t_notifications := rs\<rparr>), tb_key = n_id,
    tb_ok = notification_ok, tb_clash = notification_clash\<rparr>"

definition notif_prefs_table :: "(db, notification_preference) table" where
  "notif_prefs_table = \<lparr>tb_rows = t_notif_prefs, tb_put = (\<lambda>rs s. s\<lparr>t_notif_prefs := rs\<rparr>), tb_key = np_userId,
    tb_ok = (\<lambda>_. True), tb_clash = (\<lambda>_ _. False)\<rparr>"

definition cities_table :: "(db, city) table" where
  "cities_table = \<lparr>tb_rows = t_cities, tb_put = (\<lambda>rs s. s\<lparr>t_cities := rs\<rparr>), tb_key = ci_id,
    tb_ok = city_ok, tb_clash = city_clash\<rparr>"

definition areas_table :: "(db, area) table" where
  "areas_table = \<lparr>tb_rows = t_areas, tb_put = (\<lambda>rs s. s\<lparr>t_areas := rs\<rparr>), tb_key = ar_id,
    tb_ok = area_ok, tb_clash = area_clash\<rparr>"

definition organizers_table :: "(db, event_organizer) table" where
  "organizers_table = \<lparr>tb_rows = t_organizers, tb_put = (\<lambda>rs s. s\<lparr>t_organizers := rs\<rparr>), tb_key = og_id,
    tb_ok = organizer_ok, tb_clash = organizer_clash\<rparr>"

definition events_table :: "(db, event) table" where
  "events_table = \<lparr>tb_rows = t_events, tb_put = (\<lambda>rs s. s\<lparr>t_events := rs\<rparr>), tb_key = ev_id,
    tb_ok = event_ok, tb_clash = event_clash\<rparr>"

definition attendances_table :: "(db, event_attendance) table" where
  "attendances_table = \<lparr>tb_rows = t_attendances, tb_put = (\<lambda>rs s. s\<lparr>t_attendances := rs\<rparr>), tb_key = at_id,
    tb_ok = (\<lambda>_. True), tb_clash = attendance_clash\<rparr>"

definition orders_table :: "(db, order) table" where
  "orders_table = \<lparr>tb_rows = t_orders, tb_put = (\<lambda>rs s. s\<lparr>t_orders := rs\<rparr>), tb_key = o_id,
    tb_ok = order_ok, tb_clash = order_clash\<rparr>"

definition payments_table :: "(db, payment) table" where
  "payments_table = \<lparr>tb_rows = t_payments, tb_put = (\<lambda>rs s. s\<lparr>t_payments := rs\<rparr>), tb_key = p_id,
    tb_ok = payment_ok, tb_clash = payment_clash\<rparr>"

definition bookings_table :: "(db, event_booking) table" where
  "bookings_table = \<lparr>tb_rows = t_bookings, tb_put = (\<lambda>rs s. s\<lparr>t_bookings := rs\<rparr>), tb_key = b_id,
    tb_ok = booking_ok, tb_clash = booking_clash\<rparr>"

definition admins_table :: "(db, admin_user) table" where
  "admins_table = \<lparr>tb_rows = t_admins, tb_put = (\<lambda>rs s. s\<lparr>t_admins := rs\<rparr>), tb_key = ad_id,
    tb_ok = admin_ok, tb_clash = admin_clash\<rparr>"

definition admin_sessions_table :: "(db, admin_session) table" where
  "admin_sessions_table = \<lparr>tb_rows = t_admin_sessions, tb_put = (\<lambda>rs s. s\<lparr>t_admin_sessions := rs\<rparr>), tb_key = as_id,
    tb_ok = admin_session_ok, tb_clash = admin_session_clash\<rparr>"

definition audit_logs_table :: "(db, admin_audit_log) table" where
  "audit_logs_table = \<lparr>tb_rows = t_audit_logs, tb_put = (\<lambda>rs s. s\<lparr>t_audit_logs := rs\<rparr>), tb_key = al_id,
    tb_ok = (\<lambda>_. True), tb_clash = (\<lambda>_ _. False)\<rparr>"

lemmas table_defs =
  users_table_def sessions_table_def profiles_table_def
  preferences_table_def verifications_table_def interests_table_def matches_table_def
  messages_table_def blocks_table_def reports_table_def
  sanctions_table_def safety_logs_table_def notifications_table_def
  notif_prefs_table_def cities_table_def areas_table_def
  organizers_table_def events_table_def attendances_table_def
  orders_table_def payments_table_def bookings_table_def
  admins_table_def admin_sessions_table_def audit_logs_table_def

text \<open>How each table reads and writes the state, for the simplifier.\<close>

lemma users_table_simps [simp]:
  "tb_rows users_table = t_users" "tb_put users_table rs s = s\<lparr>t_users := rs\<rparr>" "tb_key users_table = u_id"
  "tb_ok users_table = user_ok" "tb_clash users_table = user_clash"
  by (simp_all add: users_table_def)

lemma sessions_table_simps [simp]:
  "tb_rows sessions_table = t_sessions" "tb_put sessions_table rs s = s\<lparr>t_sessions := rs\<rparr>" "tb_key sessions_table = s_id"
  "tb_ok sessions_table = session_ok" "tb_clash sessions_table = session_clash"
  by (simp_all add: sessions_table_def)

lemma profiles_table_simps [simp]:
  "tb_rows profiles_table = t_profiles" "tb_put profiles_table rs s = s\<lparr>t_profiles := rs\<rparr>" "tb_key profiles_table = pf_id"
  "tb_ok profiles_table = profile_ok" "tb_clash profiles_table = profile_clash"
  by (simp_all add: profiles_table_def)

lemma preferences_table_simps [simp]:
  "tb_rows preferences_table = t_preferences" "tb_put preferences_table rs s = s\<lparr>t_preferences := rs\<rparr>" "tb_key preferences_table = pr_id"
  "tb_ok preferences_table = preference_ok" "tb_clash preferences_table = preference_clash"
  by (simp_all add: preferences_table_def)

lemma verifications_table_simps [simp]:
  "tb_rows verifications_table = t_verifications" "tb_put verifications_table rs s = s\<lparr>t_verifications := rs\<rparr>" "tb_key verifications_table = uv_id"
  "tb_ok verifications_table = verification_ok" "tb_clash verifications_table = verification_clash"
  by (simp_all add: verifications_table_def)

lemma interests_table_simps [simp]:
  "tb_rows interests_table = t_interests" "tb_put interests_table rs s = s\<lparr>t_interests := rs\<rparr>" "tb_key interests_table = i_id"
  "tb_ok interests_table = interest_ok" "tb_clash interests_table = interest_clash"
  by (simp_all add: interests_table_def)

lemma matches_table_simps [simp]:
  "tb_rows matches_table = t_matches" "tb_put matches_table rs s = s\<lparr>t_matches := rs\<rparr>" "tb_key matches_table = m_id"
  "tb_ok matches_table = match_ok" "tb_clash matches_table = match_clash"
  by (simp_all add: matches_table_def)

lemma messages_table_simps [simp]:
  "tb_rows messages_table = t_messages" "tb_put messages_table rs s = s\<lparr>t_messages := rs\<rparr>" "tb_key messages_table = ms_id"
  "tb_ok messages_table = message_ok" "tb_clash messages_table = message_clash"
  by (simp_all add: messages_table_def)

lemma blocks_table_simps [simp]:
  "tb_rows blocks_table = t_blocks" "tb_put blocks_table rs s = s\<lparr>t_blocks := rs\<rparr>" "tb_key blocks_table = bl_id"
  "tb_ok blocks_table = block_ok" "tb_clash blocks_table = block_clash"
  by (simp_all add: blocks_table_def)

lemma reports_table_simps [simp]:
  "tb_rows reports_table = t_reports" "tb_put reports_table rs s = s\<lparr>t_reports := rs\<rparr>" "tb_key reports_table = rp_id"
  "tb_ok reports_table = report_ok" "tb_clash reports_table = report_clash"
  by (simp_all add: reports_table_def)

lemma sanctions_table_simps [simp]:
  "tb_rows sanctions_table = t_sanctions" "tb_put sanctions_table rs s = s\<lparr>t_sanctions := rs\<rparr>" "tb_key sanctions_table = sn_id"
  "tb_ok sanctions_table = sanction_ok" "tb_clash sanctions_table = sanction_clash"
  by (simp_all add: sanctions_table_def)

lemma safety_logs_table_simps [simp]:
  "tb_rows safety_logs_table = t_safety_logs" "tb_put safety_logs_table rs s = s\<lparr>t_safety_logs := rs\<rparr>" "tb_key safety_logs_table = sl_id"
  "tb_ok safety_logs_table = (\<lambda>_. True)" "tb_clash safety_logs_table = (\<lambda>_ _. False)"
  by (simp_all add: safety_logs_table_def)

lemma notifications_table_simps [simp]:
  "tb_rows notifications_table = t_notifications" "tb_put notifications_table rs s = s\<lparr>t_notifications := rs\<rparr>" "tb_key notifications_table = n_id"
  "tb_ok notifications_table = notification_ok" "tb_clash notifications_table = notification_clash"
  by (simp_all add: notifications_table_def)

lemma notif_prefs_table_simps [simp]:
  "tb_rows notif_prefs_table = t_notif_prefs" "tb_put notif_prefs_table rs s = s\<lparr>t_notif_prefs := rs\<rparr>" "tb_key notif_prefs_table = np_userId"
  "tb_ok notif_prefs_table = (\<lambda>_. True)" "tb_clash notif_prefs_table = (\<lambda>_ _. False)"
  by (simp_all add: notif_prefs_table_def)

lemma cities_table_simps [simp]:
  "tb_rows cities_table = t_cities" "tb_put cities_table rs s = s\<lparr>t_cities := rs\<rparr>" "tb_key cities_table = ci_id"
  "tb_ok cities_table = city_ok" "tb_clash cities_table = city_clash"
  by (simp_all add: cities_table_def)

lemma areas_table_simps [simp]:
  "tb_rows areas_table = t_areas" "tb_put areas_table rs s = s\<lparr>t_areas := rs\<rparr>" "tb_key areas_table = ar_id"
  "tb_ok areas_table = area_ok" "tb_clash areas_table = area_clash"
  by (simp_all add: areas_table_def)

lemma organizers_table_simps [simp]:
  "tb_rows organizers_table = t_organizers" "tb_put organizers_table rs s = s\<lparr>t_organizers := rs\<rparr>" "tb_key organizers_table = og_id"
  "tb_ok organizers_table = organizer_ok" "tb_clash organizers_table = organizer_clash"
  by (simp_all add: organizers_table_def)

lemma events_table_simps [simp]:
  "tb_rows events_table = t_events" "tb_put events_table rs s = s\<lparr>t_events := rs\<rparr>" "tb_key events_table = ev_id"
  "tb_ok events_table = event_ok" "tb_clash events_table = event_clash"
  by (simp_all add: events_table_def)

lemma attendances_table_simps [simp]:
  "tb_rows attendances_table = t_attendances" "tb_put attendances_table rs s = s\<lparr>t_attendances := rs\<rparr>" "tb_key attendances_table = at_id"
  "tb_ok attendances_table = (\<lambda>_. True)" "tb_clash attendances_table = attendance_clash"
  by (simp_all add: attendances_table_def)

lemma orders_table_simps [simp]:
  "tb_rows orders_table = t_orders" "tb_put orders_table rs s = s\<lparr>t_orders := rs\<rparr>" "tb_key orders_table = o_id"
  "tb_ok orders_table = order_ok" "tb_clash orders_table = order_clash"
  by (simp_all add: orders_table_def)

lemma payments_table_simps [simp]:
  "tb_rows payments_table = t_payments" "tb_put payments_table rs s = s\<lparr>t_payments := rs\<rparr>" "tb_key payments_table = p_id"
  "tb_ok payments_table = payment_ok" "tb_clash payments_table = payment_clash"
  by (simp_all add: payments_table_def)

lemma bookings_table_simps [simp]:
  "tb_rows bookings_table = t_bookings" "tb_put bookings_table rs s = s\<lparr>t_bookings := rs\<rparr>" "tb_key bookings_table = b_id"
  "tb_ok bookings_table = booking_ok" "tb_clash bookings_table = booking_clash"
  by (simp_all add: bookings_table_def)

lemma admins_table_simps [simp]:
  "tb_rows admins_table = t_admins" "tb_put admins_table rs s = s\<lparr>t_admins := rs\<rparr>" "tb_key admins_table = ad_id"
  "tb_ok admins_table = admin_ok" "tb_clash admins_table = admin_clash"
  by (simp_all add: admins_table_def)

lemma admin_sessions_table_simps [simp]:
  "tb_rows admin_sessions_table = t_admin_sessions" "tb_put admin_sessions_table rs s = s\<lparr>t_admin_sessions := rs\<rparr>" "tb_key admin_sessions_table = as_id"
  "tb_ok admin_sessions_table = admin_session_ok" "tb_clash admin_sessions_table = admin_session_clash"
  by (simp_all add: admin_sessions_table_def)

lemma audit_logs_table_simps [simp]:
  "tb_rows audit_logs_table = t_audit_logs" "tb_put audit_logs_table rs s = s\<lparr>t_audit_logs := rs\<rparr>" "tb_key audit_logs_table = al_id"
  "tb_ok audit_logs_table = (\<lambda>_. True)" "tb_clash audit_logs_table = (\<lambda>_ _. False)"
  by (simp_all add: audit_logs_table_def)

text \<open>Every table of the state provides the interface.\<close>

interpretation users: stored_table users_table
  by unfold_locales (auto simp: user_clash_def dest: sql_eq_sym)

interpretation sessions: stored_table sessions_table
  by unfold_locales (auto simp: session_clash_def dest: sql_eq_sym)

interpretation profiles: stored_table profiles_table
  by unfold_locales (auto simp: profile_clash_def dest: sql_eq_sym)

interpretation preferences: stored_table preferences_table
  by unfold_locales (auto simp: preference_clash_def dest: sql_eq_sym)

interpretation verifications: stored_table verifications_table
  by unfold_locales (auto simp: verification_clash_def)

interpretation interests: stored_table interests_table
  by unfold_locales (auto simp: interest_clash_def dest: sql_eq_sym)

interpretation matches: stored_table matches_table
  by unfold_locales (auto simp: match_clash_def dest: sql_eq_sym)

interpretation messages: stored_table messages_table
  by unfold_locales (auto simp: message_clash_def dest: sql_eq_sym)

interpretation blocks: stored_table blocks_table
  by unfold_locales (auto simp: block_clash_def dest: sql_eq_sym)

interpretation reports: stored_table reports_table
  by unfold_locales (auto simp: report_clash_def report_is_open_def dest: sql_eq_sym)

interpretation sanctions: stored_table sanctions_table
  by unfold_locales (auto simp: sanction_clash_def dest: sql_eq_sym)

interpretation safety_logs: stored_table safety_logs_table
  by unfold_locales auto

interpretation notifications: stored_table notifications_table
  by unfold_locales (auto simp: notification_clash_def dest: sql_eq_sym)

interpretation notif_prefs: stored_table notif_prefs_table
  by unfold_locales auto

interpretation cities: stored_table cities_table
  by unfold_locales (auto simp: city_clash_def dest: sql_eq_sym)

interpretation areas: stored_table areas_table
  by unfold_locales (auto simp: area_clash_def dest: sql_eq_sym)

interpretation organizers: stored_table organizers_table
  by unfold_locales (auto simp: organizer_clash_def dest: sql_eq_sym)

interpretation events: stored_table events_table
  by unfold_locales (auto simp: event_clash_def dest: sql_eq_sym)

interpretation attendances: stored_table attendances_table
  by unfold_locales (auto simp: attendance_clash_def dest: sql_eq_sym)

interpretation orders: stored_table orders_table
  by unfold_locales (auto simp: order_clash_def dest: sql_eq_sym)

interpretation payments: stored_table payments_table
  by unfold_locales (auto simp: payment_clash_def dest: sql_eq_sym)

interpretation bookings: stored_table bookings_table
  by unfold_locales (auto simp: booking_clash_def dest: sql_eq_sym)

interpretation admins: stored_table admins_table
  by unfold_locales (auto simp: admin_clash_def dest: sql_eq_sym)

interpretation admin_sessions: stored_table admin_sessions_table
  by unfold_locales (auto simp: admin_session_clash_def dest: sql_eq_sym)

interpretation audit_logs: stored_table audit_logs_table
  by unfold_locales auto

section \<open>The whole database\<close>

definition db_ok :: "db \<Rightarrow> bool" where
  "db_ok s \<longleftrightarrow>
    table_ok users_table s \<and>
    table_ok sessions_table s \<and>
    table_ok profiles_table s \<and>
    table_ok preferences_table s \<and>
    table_ok verifications_table s \<and>
    table_ok interests_table s \<and>
    table_ok matches_table s \<and>
    table_ok messages_table s \<and>
    table_ok blocks_table s \<and>
    table_ok reports_table s \<and>
    table_ok sanctions_table s \<and>
    table_ok safety_logs_table s \<and>
    table_ok notifications_table s \<and>
    table_ok notif_prefs_table s \<and>
    table_ok cities_table s \<and>
    table_ok areas_table s \<and>
    table_ok organizers_table s \<and>
    table_ok events_table s \<and>
    table_ok attendances_table s \<and>
    table_ok orders_table s \<and>
    table_ok payments_table s \<and>
    table_ok bookings_table s \<and>
    table_ok admins_table s \<and>
    table_ok admin_sessions_table s \<and>
    table_ok audit_logs_table s"

section \<open>Clock, randomness and effects\<close>

definition now :: "instant op" where
  [run_simps]: "now = gets clock"

text \<open>\<open>gen_random_uuid()\<close> and \<open>UUIDV4\<close>: never the nil UUID (0).\<close>

definition fresh_uuid :: "uuid op" where
  [run_simps]: "fresh_uuid s = (Inr (Suc (rng s (drawn s))), s\<lparr>drawn := Suc (drawn s)\<rparr>)"

text \<open>\<open>randomInt(n)\<close>: a number below \<open>n\<close>.\<close>

definition randomInt :: "nat \<Rightarrow> nat op" where
  [run_simps]: "randomInt n s = (Inr (rng s (drawn s) mod n), s\<lparr>drawn := Suc (drawn s)\<rparr>)"

definition emit :: "effect \<Rightarrow> unit op" where
  [run_simps]: "emit e = modify (\<lambda>s. s\<lparr>outbox := outbox s @ [e]\<rparr>)"

lemma andThen_now [run_simps]: "andThen now f s = f (clock s) s"
  by (simp add: now_def)

lemma andThen_fresh_uuid [run_simps]:
  "andThen fresh_uuid f s = f (Suc (rng s (drawn s))) (s\<lparr>drawn := Suc (drawn s)\<rparr>)"
  by (simp add: andThen_def fresh_uuid_def)

lemma andThen_randomInt [run_simps]:
  "andThen (randomInt n) f s = f (rng s (drawn s) mod n) (s\<lparr>drawn := Suc (drawn s)\<rparr>)"
  by (simp add: andThen_def randomInt_def)

lemma andThen_emit [run_simps]:
  "andThen (emit e) f s = f () (s\<lparr>outbox := outbox s @ [e]\<rparr>)"
  by (simp add: emit_def)

lemma world_Inr_iff [returns_iff]:
  "now s = (Inr x, t) \<longleftrightarrow> x = clock s \<and> t = s"
  "fresh_uuid s = (Inr i, t) \<longleftrightarrow> i = Suc (rng s (drawn s)) \<and> t = s\<lparr>drawn := Suc (drawn s)\<rparr>"
  "emit e s = (Inr u, t) \<longleftrightarrow> t = s\<lparr>outbox := outbox s @ [e]\<rparr>"
  by (auto simp: now_def gets_def fresh_uuid_def emit_def modify_def)

lemma leaves_now [leaves_rules]: "leaves v now"
  by (simp add: now_def leaves_rules)

lemma leaves_random [leaves_rules]:
  assumes "\<And>n s. v (s\<lparr>drawn := n\<rparr>) = v s"
  shows "leaves v fresh_uuid" and "leaves v (randomInt k)"
  using assms by (simp_all add: leaves_def fresh_uuid_def randomInt_def)

lemma leaves_emit [leaves_rules]: "(\<And>es s. v (s\<lparr>outbox := es\<rparr>) = v s) \<Longrightarrow> leaves v (emit e)"
  by (simp add: leaves_def emit_def modify_def)

text \<open>The keys and secrets of the environment, with the digests of \<open>node:crypto\<close> as parameters.\<close>

record env =
  hmacSha256Hex :: "string \<Rightarrow> string \<Rightarrow> string"
  sha256Hex :: "string \<Rightarrow> string"
  OTP_HMAC_SECRET :: string
  channelsOn :: bool

definition ip_hash :: "env \<Rightarrow> string \<Rightarrow> string" where
  "ip_hash env ip = hmacSha256Hex env (OTP_HMAC_SECRET env) (''ip:'' @ ip)"

section \<open>Logs\<close>

record admin_actor =
  ac_adminId :: uuid
  ac_ip :: string

text \<open>\<open>recordAdminAction\<close> (\<open>modules/admin/audit/audit.service.ts\<close>).\<close>

definition recordAdminAction ::
    "env \<Rightarrow> uuid \<Rightarrow> string \<Rightarrow> audit_target \<Rightarrow> uuid option \<Rightarrow> metadata \<Rightarrow> string \<Rightarrow> unit op" where
  "recordAdminAction env adminId action targetType targetId metadata ip =
    andThen fresh_uuid (\<lambda>i.
    andThen now (\<lambda>t.
    insert_row audit_logs_table
      \<lparr>al_id = i, al_adminId = adminId, al_action = action, al_targetType = targetType,
        al_targetId = targetId, al_metadata = metadata, al_ipHash = Some (ip_hash env ip),
        al_createdAt = t\<rparr>))"

text \<open>
  \<open>SafetyLogger.record\<close> (\<open>modules/safety/safety-log.service.ts\<close>) writes an entry outside any
  transaction and never throws.
\<close>

definition recordSafety ::
    "env \<Rightarrow> safety_event_type \<Rightarrow> safety_severity \<Rightarrow> uuid option \<Rightarrow> uuid option \<Rightarrow> string option \<Rightarrow>
      metadata \<Rightarrow> unit op" where
  "recordSafety env eventType severity userId adminId ip metadata =
    tryCatch
      (andThen fresh_uuid (\<lambda>i.
       andThen now (\<lambda>t.
       insert_row safety_logs_table
         \<lparr>sl_id = i, sl_eventType = eventType, sl_severity = severity, sl_userId = userId,
           sl_adminId = adminId, sl_ipHash = map_option (ip_hash env) ip, sl_metadata = metadata,
           sl_createdAt = t\<rparr>)))
      (\<lambda>_. ret ())"

lemma leaves_logs [leaves_rules]:
  assumes "\<And>n s. v (s\<lparr>drawn := n\<rparr>) = v s"
  shows "(\<And>rs s. v (s\<lparr>t_audit_logs := rs\<rparr>) = v s) \<Longrightarrow>
      leaves v (recordAdminAction env adminId action targetType targetId metadata ip)"
    and "(\<And>rs s. v (s\<lparr>t_safety_logs := rs\<rparr>) = v s) \<Longrightarrow>
      leaves v (recordSafety env eventType severity userId adminId' ip' metadata)"
  unfolding recordAdminAction_def recordSafety_def
  by (intro leaves_rules; simp add: assms)+

end
