(* ===== verification/Pagination.thy ===== *)
theory Pagination
  imports Domain
begin

text \<open>
  Keyset pagination over (time DESC, id DESC) (\<open>src/apps/api/src/lib/pagination.ts\<close> and the list
  methods that use it). A cursor is the pair (time, id) of the last row of a page; its text
  is in \<open>Cursors\<close>. The locale \<open>keyset_list\<close> is the contract of a list: a key
  that identifies its rows; inside it, walking the pages gives every row exactly once, in order.
\<close>

type_synonym cursor = "instant \<times> uuid"

text \<open>\<open>keysetCondition\<close>: the rows strictly after the cursor in descending order.\<close>

definition keysetCondition :: "('r \<Rightarrow> 'k::linorder) \<Rightarrow> 'k option \<Rightarrow> 'r \<Rightarrow> bool" where
  "keysetCondition key c r = (case c of None \<Rightarrow> True | Some k \<Rightarrow> key r < k)"

text \<open>\<open>ORDER BY time DESC, id DESC\<close>.\<close>

definition sort_desc :: "('r \<Rightarrow> 'k::linorder) \<Rightarrow> 'r list \<Rightarrow> 'r list" where
  "sort_desc key rows = rev (sort_key key rows)"

definition fetch_rows :: "('r \<Rightarrow> 'k::linorder) \<Rightarrow> 'k option \<Rightarrow> nat \<Rightarrow> 'r list \<Rightarrow> 'r list" where
  "fetch_rows key c limit rows = take (Suc limit) (sort_desc key (filter (keysetCondition key c) rows))"

text \<open>One row more than the page is fetched, to know whether another page follows.\<close>

definition page_of ::
    "('r \<Rightarrow> 'k::linorder) \<Rightarrow> 'k option \<Rightarrow> nat \<Rightarrow> 'r list \<Rightarrow> 'r list \<times> 'k option" where
  "page_of key c limit rows =
    (let fetched = fetch_rows key c limit rows; page = take limit fetched
     in (page, if limit < length fetched \<and> page \<noteq> [] then Some (key (last page)) else None))"

text \<open>A client that follows the cursors, at most \<open>n\<close> pages.\<close>

fun walk_pages ::
    "nat \<Rightarrow> ('r \<Rightarrow> 'k::linorder) \<Rightarrow> 'k option \<Rightarrow> nat \<Rightarrow> 'r list \<Rightarrow> 'r list" where
  "walk_pages 0 key c limit rows = []"
| "walk_pages (Suc n) key c limit rows =
    (case page_of key c limit rows of
       (page, None) \<Rightarrow> page
     | (page, Some k) \<Rightarrow> page @ walk_pages n key (Some k) limit rows)"

lemma set_sort_desc [simp]: "set (sort_desc key rows) = set rows"
  by (simp add: sort_desc_def)

lemma length_sort_desc [simp]: "length (sort_desc key rows) = length rows"
  by (simp add: sort_desc_def)

lemma sort_desc_filter: "sort_desc key (filter P rows) = filter P (sort_desc key rows)"
  by (simp add: sort_desc_def rev_filter flip: filter_sort)

lemma sorted_sort_desc: "sorted_wrt (\<lambda>a b. key b \<le> key a) (sort_desc key rows)"
  using sorted_sort_key[of key rows] by (simp add: sort_desc_def sorted_wrt_rev sorted_map)

lemma strictly_descending:
  fixes key :: "'r \<Rightarrow> 'k::linorder"
  shows "sorted_wrt (\<lambda>a b. key b \<le> key a) xs \<Longrightarrow> distinct (map key xs) \<Longrightarrow>
    sorted_wrt (\<lambda>a b. key b < key a) xs"
  by (induction xs) (fastforce simp: le_less image_iff)+

lemma keysetCondition_simps [simp]:
  "keysetCondition key None = (\<lambda>_. True)" "keysetCondition key (Some k) = (\<lambda>r. key r < k)"
  by (simp_all add: keysetCondition_def fun_eq_iff)

text \<open>Taking the rows before an element of a strictly descending list drops the elements up to it.\<close>

lemma filter_below_nth:
  fixes key :: "'r \<Rightarrow> 'k::linorder"
  assumes "sorted_wrt (\<lambda>a b. key b < key a) xs" "n < length xs"
  shows "filter (\<lambda>r. key r < key (xs ! n)) xs = drop (Suc n) xs"
  using assms
proof (induction xs arbitrary: n)
  case (Cons x xs)
  show ?case
  proof (cases n)
    case 0
    with Cons.prems show ?thesis by (auto simp: filter_id_conv)
  next
    case (Suc k)
    with Cons.prems have "key (xs ! k) < key x" by auto
    then have "\<not> key x < key (xs ! k)" by simp
    with Cons Suc show ?thesis by simp
  qed
qed simp

locale keyset_list =
  fixes key :: "'r \<Rightarrow> 'k::linorder" and valid :: "'r list \<Rightarrow> bool"
  assumes keys_distinct: "valid rows \<Longrightarrow> distinct (map key rows)"
begin

lemma strictly_sorted:
  assumes "valid rows"
  shows "sorted_wrt (\<lambda>a b. key b < key a) (sort_desc key rows)"
proof -
  have "distinct (map key (sort_desc key rows))"
    using keys_distinct[OF assms] by (simp add: sort_desc_def distinct_map)
  with sorted_sort_desc show ?thesis by (rule strictly_descending)
qed

text \<open>From a cursor on, the walk gives the rest of the sorted list.\<close>

lemma walk_from:
  assumes "valid rows" "0 < limit"
    and "filter (keysetCondition key c) (sort_desc key rows) = drop m (sort_desc key rows)"
    and "length rows - m < n"
  shows "walk_pages n key c limit rows = drop m (sort_desc key rows)"
  using assms(3,4)
proof (induction n arbitrary: c m)
  case (Suc n)
  let ?xs = "sort_desc key rows"
  have fetched: "fetch_rows key c limit rows = take (Suc limit) (drop m ?xs)"
    by (simp add: fetch_rows_def sort_desc_filter Suc.prems(1))
  show ?case
  proof (cases "limit < length (drop m ?xs)")
    case False
    then show ?thesis by (simp add: page_of_def Let_def fetched min_def)
  next
    case True
    then have k: "m + limit - 1 < length ?xs" "limit \<le> length ?xs - m" using assms(2) by auto
    have page: "take limit (take (Suc limit) (drop m ?xs)) = take limit (drop m ?xs)" by (simp add: min_def)
    have last: "last (take limit (drop m ?xs)) = ?xs ! (m + limit - 1)"
      using assms(2) True by (simp add: last_conv_nth)
    have step: "page_of key c limit rows = (take limit (drop m ?xs), Some (key (?xs ! (m + limit - 1))))"
      using True assms(2) by (auto simp: page_of_def Let_def fetched page last)
    have "filter (keysetCondition key (Some (key (?xs ! (m + limit - 1))))) ?xs = drop (m + limit) ?xs"
      using filter_below_nth[OF strictly_sorted[OF assms(1)] k(1)] assms(2) by simp
    moreover have "length rows - (m + limit) < n" using Suc.prems(2) assms(2) True by auto
    ultimately have "walk_pages n key (Some (key (?xs ! (m + limit - 1)))) limit rows = drop (m + limit) ?xs"
      by (rule Suc.IH)
    then show ?thesis by (simp add: step add.commute[of m limit] flip: drop_drop)
  qed
qed simp

lemma walk_all:
  assumes "valid rows" "0 < limit" "length rows < n"
  shows "walk_pages n key None limit rows = sort_desc key rows"
proof -
  have "filter (keysetCondition key None) (sort_desc key rows) = drop 0 (sort_desc key rows)"
    by simp
  then show ?thesis using walk_from[OF assms(1,2), of None 0 n] assms(3) by simp
qed

end

text \<open>Rows keyed by (time, id): distinct ids make the keys distinct.\<close>

lemma distinct_stamp: "distinct (map f rows) \<Longrightarrow> distinct (map (\<lambda>r. (g r, f r)) rows)"
  by (auto simp: distinct_map inj_on_def)

end
