(* ===== verification/Discovery.thy ===== *)
theory Discovery
  imports Pagination
begin

text \<open>
  Partner discovery: mutual preferences and scores (\<open>modules/discovery/matching.ts\<close>), the SQL query
  of eligible candidates (\<open>candidate-query.ts\<close>) and the service (\<open>discovery.service.ts\<close>). The rows
  of the query are those of the joined tables that satisfy its WHERE clause. A cursor is its three
  keys (its text is in \<open>Cursors\<close>), an image its stored id.
\<close>

section \<open>Mutual gender preference\<close>

definition GENDERS :: "gender list" where "GENDERS = [Woman, Man, Non_binary]"

definition PARTNER_GENDER_PREFERENCES :: "partner_gender_preference list" where
  "PARTNER_GENDER_PREFERENCES = [Women, Men, Everyone]"

primrec PREFERENCE_GENDERS :: "partner_gender_preference \<Rightarrow> gender list" where
  "PREFERENCE_GENDERS Women = [Woman]"
| "PREFERENCE_GENDERS Men = [Man]"
| "PREFERENCE_GENDERS Everyone = GENDERS"

definition gendersAcceptedBy :: "partner_gender_preference \<Rightarrow> gender list" where
  "gendersAcceptedBy = PREFERENCE_GENDERS"

definition preferencesAccepting :: "gender \<Rightarrow> partner_gender_preference list" where
  "preferencesAccepting g = filter (\<lambda>p. List.member (PREFERENCE_GENDERS p) g) PARTNER_GENDER_PREFERENCES"

definition genderPreferencesMatch ::
    "gender \<times> partner_gender_preference \<Rightarrow> gender \<times> partner_gender_preference \<Rightarrow> bool" where
  "genderPreferencesMatch a b \<longleftrightarrow>
    List.member (gendersAcceptedBy (snd a)) (fst b) \<and> List.member (gendersAcceptedBy (snd b)) (fst a)"

lemma preferencesAccepting_iff [simp]:
  "p \<in> set (preferencesAccepting g) \<longleftrightarrow> g \<in> set (gendersAcceptedBy p)"
  by (cases p; cases g)
    (simp_all add: preferencesAccepting_def gendersAcceptedBy_def PARTNER_GENDER_PREFERENCES_def GENDERS_def)

section \<open>Score and highlights\<close>

datatype match_signal = SameEvent | SharedDates | SameCity | SimilarAge | SameLevel | Verified

type_synonym match_signals = "match_signal \<Rightarrow> bool"

primrec MATCH_WEIGHTS :: "match_signal \<Rightarrow> int" where
  "MATCH_WEIGHTS SameEvent = 30"
| "MATCH_WEIGHTS SharedDates = 25"
| "MATCH_WEIGHTS SameCity = 20"
| "MATCH_WEIGHTS SimilarAge = 10"
| "MATCH_WEIGHTS SameLevel = 10"
| "MATCH_WEIGHTS Verified = 5"

definition SIGNALS :: "(match_signal \<times> match_highlight) list" where
  "SIGNALS = [(SameEvent, Same_event), (SharedDates, Shared_dates), (SameCity, Same_city),
    (SimilarAge, Similar_age), (SameLevel, Same_level), (Verified, Verified_highlight)]"

definition matchScore :: "match_signals \<Rightarrow> int" where
  "matchScore signals =
    fold (\<lambda>(signal, _) total. total + (if signals signal then MATCH_WEIGHTS signal else 0)) SIGNALS 0"

definition matchHighlights :: "match_signals \<Rightarrow> match_highlight list" where
  "matchHighlights signals = map snd (filter (\<lambda>(signal, _). signals signal) SIGNALS)"

text \<open>The value of the SQL sum of CASE expressions over the boolean columns.\<close>

definition scoreSql :: "match_signals \<Rightarrow> int" where
  "scoreSql column = sum_list (map (\<lambda>(signal, _). if column signal then MATCH_WEIGHTS signal else 0) SIGNALS)"

definition sharedUpcomingDates :: "date list \<Rightarrow> date list \<Rightarrow> date \<Rightarrow> date list" where
  "sharedUpcomingDates a b today =
    sort (filter (\<lambda>d. today \<le> d \<and> List.member b d) (remdups a))"

section \<open>The candidate query\<close>

record viewer =
  vw_id :: uuid
  vw_gender :: gender
  vw_age :: int
  vw_cityId :: uuid
  vw_garbaLevel :: garba_level
  vw_availableDates :: "date list"
  vw_preference :: partner_gender_preference

text \<open>A cursor: score, day of the last activity, id.\<close>

type_synonym partner_cursor = "int \<times> int \<times> uuid"

record candidate_query =
  cq_viewer :: viewer
  cq_today :: date
  cq_minAge :: int
  cq_maxAge :: int
  cq_verifiedOnly :: bool
  cq_eventId :: "uuid option"
  cq_cityId :: "uuid option"
  cq_garbaLevels :: "garba_level list"
  cq_date :: "date option"
  cq_targetId :: "uuid option"
  cq_excludeConnected :: bool
  cq_cursor :: "partner_cursor option"
  cq_limit :: nat

record candidate_row =
  cr_id :: uuid
  cr_score :: int
  cr_active_day :: int
  cr_signals :: match_signals

definition blocked_between :: "uuid \<Rightarrow> uuid \<Rightarrow> db \<Rightarrow> bool" where
  "blocked_between a b s \<longleftrightarrow>
    (\<exists>x \<in> set (t_blocks s). bl_blockerId x = a \<and> bl_blockedId x = b \<or> bl_blockerId x = b \<and> bl_blockedId x = a)"

definition reported_between :: "uuid \<Rightarrow> uuid \<Rightarrow> db \<Rightarrow> bool" where
  "reported_between a b s \<longleftrightarrow>
    (\<exists>x \<in> set (t_reports s). rp_reporterId x = Some a \<and> rp_reportedUserId x = b \<or>
      rp_reporterId x = Some b \<and> rp_reportedUserId x = a)"

definition declined_recently :: "uuid \<Rightarrow> uuid \<Rightarrow> db \<Rightarrow> bool" where
  "declined_recently viewerId targetId s \<longleftrightarrow>
    (\<exists>x \<in> set (t_interests s). i_senderId x = viewerId \<and> i_receiverId x = targetId \<and> i_status x = I_declined \<and>
      (case i_respondedAt x of None \<Rightarrow> False
       | Some r \<Rightarrow> clock s - INTEREST_DECLINE_COOLDOWN_DAYS * DAY_MS < r))"

text \<open>
  \<open>(today - make_interval(years => n))::date\<close>: the same day n years earlier; PostgreSQL gives the last
  day of the month where that day does not exist (February 29).
\<close>

fun years_before :: "date \<Rightarrow> int \<Rightarrow> date" where
  "years_before (y, m, d) n = (y - n, m, min d (days_in_month (y - n) m))"

definition has_badge :: "user \<Rightarrow> bool" where
  "has_badge u \<longleftrightarrow> u_photoVerifiedAt u \<noteq> None \<or> u_identityVerifiedAt u \<noteq> None"

definition looking_at :: "uuid \<Rightarrow> uuid \<Rightarrow> db \<Rightarrow> bool" where
  "looking_at userId eventId s \<longleftrightarrow>
    (\<exists>a \<in> set (t_attendances s). at_eventId a = eventId \<and> at_userId a = userId \<and> at_lookingForPartner a)"

text \<open>The hard rules: account, visibility, separation of the two, mutual preferences.\<close>

definition account_rules :: "user \<Rightarrow> user_profile \<Rightarrow> user_preference \<Rightarrow> bool" where
  "account_rules u p pr \<longleftrightarrow>
    u_status u = U_active \<and> u_deletedAt u = None \<and> u_onboardingCompletedAt u \<noteq> None \<and>
    \<not> u_hiddenFromDiscovery u \<and> pr_discoveryEnabled pr \<and> pf_imagePublicId p \<noteq> None \<and>
    u_interactionsRestrictedAt u = None"

definition separation_rules :: "uuid \<Rightarrow> uuid \<Rightarrow> db \<Rightarrow> bool" where
  "separation_rules viewerId targetId s \<longleftrightarrow>
    viewerId \<noteq> targetId \<and> \<not> blocked_between viewerId targetId s \<and> \<not> reported_between viewerId targetId s \<and>
    \<not> declined_recently viewerId targetId s"

definition preference_rules :: "candidate_query \<Rightarrow> user_profile \<Rightarrow> user_preference \<Rightarrow> bool" where
  "preference_rules q p pr \<longleftrightarrow>
    List.member (gendersAcceptedBy (vw_preference (cq_viewer q))) (pf_gender p) \<and>
    List.member (preferencesAccepting (vw_gender (cq_viewer q))) (pr_partnerGenderPreference pr) \<and>
    pf_dateOfBirth p \<le> years_before (cq_today q) (cq_minAge q) \<and>
    years_before (cq_today q) (cq_maxAge q + 1) < pf_dateOfBirth p \<and>
    pr_ageMin pr \<le> vw_age (cq_viewer q) \<and> vw_age (cq_viewer q) \<le> pr_ageMax pr"

text \<open>The optional filters.\<close>

definition connected_to :: "uuid \<Rightarrow> uuid \<Rightarrow> db \<Rightarrow> bool" where
  "connected_to viewerId targetId s \<longleftrightarrow>
    (\<exists>m \<in> set (t_matches s). m_status m = M_active \<and> m_userAId m = min viewerId targetId \<and>
      m_userBId m = max viewerId targetId) \<or>
    (\<exists>i \<in> set (t_interests s). i_senderId i = viewerId \<and> i_receiverId i = targetId \<and>
      i_status i = I_pending \<and> clock s < i_expiresAt i)"

definition filter_rules :: "candidate_query \<Rightarrow> db \<Rightarrow> user \<Rightarrow> user_profile \<Rightarrow> bool" where
  "filter_rules q s u p \<longleftrightarrow>
    (cq_verifiedOnly q \<longrightarrow> has_badge u) \<and>
    (case cq_cityId q of None \<Rightarrow> True | Some c \<Rightarrow> pf_cityId p = c) \<and>
    (cq_garbaLevels q \<noteq> [] \<longrightarrow> List.member (cq_garbaLevels q) (pf_garbaLevel p)) \<and>
    (case cq_date q of None \<Rightarrow> True | Some d \<Rightarrow> List.member (pf_availableDates p) d) \<and>
    (case cq_eventId q of None \<Rightarrow> True | Some e \<Rightarrow> looking_at (u_id u) e s) \<and>
    (cq_excludeConnected q \<longrightarrow> \<not> connected_to (vw_id (cq_viewer q)) (u_id u) s) \<and>
    (case cq_targetId q of None \<Rightarrow> True | Some i \<Rightarrow> u_id u = i)"

definition eligible :: "candidate_query \<Rightarrow> db \<Rightarrow> user \<times> user_profile \<times> user_preference \<Rightarrow> bool" where
  "eligible q s = (\<lambda>(u, p, pr). account_rules u p pr \<and> separation_rules (vw_id (cq_viewer q)) (u_id u) s \<and>
    preference_rules q p pr \<and> filter_rules q s u p)"

text \<open>\<open>(last_active_at AT TIME ZONE 'Asia/Kolkata')::date - DATE '2000-01-01'\<close>: 2000-01-01 is day 10957.\<close>

definition active_day :: "user \<Rightarrow> int" where
  "active_day u = (case u_lastActiveAt u of None \<Rightarrow> 0 | Some t \<Rightarrow> (t + IST_OFFSET_MS) div DAY_MS - 10957)"

definition event_open :: "uuid \<Rightarrow> db \<Rightarrow> bool" where
  "event_open i s \<longleftrightarrow> (\<exists>e \<in> set (t_events s). ev_id e = i \<and> ev_status e = E_published \<and> clock s < ev_endsAt e)"

text \<open>
  The boolean columns. \<open>date_part('year', age(today, dob))\<close> counts the completed years, as
  \<open>calculateAge\<close> does.
\<close>

definition signal_columns ::
    "candidate_query \<Rightarrow> db \<Rightarrow> user \<times> user_profile \<times> user_preference \<Rightarrow> match_signals" where
  "signal_columns q s = (\<lambda>(u, p, pr) signal.
    (case signal of
       SameEvent \<Rightarrow> \<exists>a \<in> set (t_attendances s). at_userId a = u_id u \<and> at_lookingForPartner a \<and>
         looking_at (vw_id (cq_viewer q)) (at_eventId a) s \<and> event_open (at_eventId a) s
     | SharedDates \<Rightarrow> \<exists>d \<in> set (pf_availableDates p). List.member (vw_availableDates (cq_viewer q)) d
     | SameCity \<Rightarrow> pf_cityId p = vw_cityId (cq_viewer q)
     | SimilarAge \<Rightarrow> \<bar>calculateAge (pf_dateOfBirth p) (cq_today q) - vw_age (cq_viewer q)\<bar> \<le> SIMILAR_AGE_YEARS
     | SameLevel \<Rightarrow> pf_garbaLevel p = vw_garbaLevel (cq_viewer q)
     | Verified \<Rightarrow> has_badge u))"

definition candidate_of ::
    "candidate_query \<Rightarrow> db \<Rightarrow> user \<times> user_profile \<times> user_preference \<Rightarrow> candidate_row" where
  "candidate_of q s c = \<lparr>cr_id = u_id (fst c), cr_score = scoreSql (signal_columns q s c),
    cr_active_day = active_day (fst c), cr_signals = signal_columns q s c\<rparr>"

text \<open>The JOIN of users, profiles and preferences.\<close>

definition joined :: "db \<Rightarrow> (user \<times> user_profile \<times> user_preference) list" where
  "joined s = concat (map (\<lambda>u.
    concat (map (\<lambda>p. map (\<lambda>pr. (u, p, pr)) (filter (\<lambda>pr. pr_userId pr = u_id u) (t_preferences s)))
      (filter (\<lambda>p. pf_userId p = u_id u) (t_profiles s)))) (t_users s))"

definition candidates :: "candidate_query \<Rightarrow> db \<Rightarrow> candidate_row list" where
  "candidates q s = map (candidate_of q s) (filter (eligible q s) (joined s))"

text \<open>
  \<open>ORDER BY score DESC, active_day DESC, id ASC\<close> is the descending order of this key, and the row
  comparison of the cursor is its order too.
\<close>

definition rank_key :: "candidate_row \<Rightarrow> int \<times> int \<times> int" where
  "rank_key r = (cr_score r, cr_active_day r, - int (cr_id r))"

fun cursor_key :: "partner_cursor \<Rightarrow> int \<times> int \<times> int" where
  "cursor_key (score, day, i) = (score, day, - int i)"

definition runQuery :: "candidate_query \<Rightarrow> db \<Rightarrow> candidate_row list" where
  "runQuery q s = take (cq_limit q)
    (sort_desc rank_key (filter (keysetCondition rank_key (map_option cursor_key (cq_cursor q))) (candidates q s)))"

end
