(* ===== verification/Discovery_Service.thy ===== *)
theory Discovery_Service
  imports Discovery
begin

text \<open>
  The discovery service (\<open>modules/discovery/discovery.service.ts\<close>) and the public profiles it returns
  (\<open>modules/profiles/public-profiles.ts\<close>, \<open>profile.mapper.ts\<close>).
\<close>

section \<open>Public profiles\<close>

record public_profile =
  pp_id :: uuid
  pp_name :: string
  pp_age :: int
  pp_gender :: gender
  pp_city :: "uuid \<times> string"
  pp_area :: "(uuid \<times> string) option"
  pp_bio :: "string option"
  pp_garbaLevel :: garba_level
  pp_availableDates :: "date list"
  pp_image :: "string option"
  pp_identityVerified :: bool
  pp_photoVerified :: bool

definition upcomingDates :: "date list \<Rightarrow> date \<Rightarrow> date list" where
  "upcomingDates dates today = filter (\<lambda>d. today \<le> d) dates"

text \<open>The photo, by its id in the storage; an empty id is no photo.\<close>

definition toImageDto :: "user_profile \<Rightarrow> string option" where
  "toImageDto p = (if pf_imagePublicId p = Some [] then None else pf_imagePublicId p)"

text \<open>An allow-list: the area only when the member shows it, only upcoming dates.\<close>

definition toPublicProfileDto ::
    "user \<Rightarrow> user_profile \<Rightarrow> city option \<Rightarrow> area option \<Rightarrow> user_preference option \<Rightarrow> date \<Rightarrow>
      failure + public_profile" where
  "toPublicProfileDto u p city area pref today =
    (case city of
       None \<Rightarrow> Inl Unexpected_error
     | Some c \<Rightarrow> Inr
         \<lparr>pp_id = u_id u, pp_name = pf_displayName p, pp_age = calculateAge (pf_dateOfBirth p) today,
           pp_gender = pf_gender p, pp_city = (ci_id c, ci_name c),
           pp_area = (if (case pref of None \<Rightarrow> False | Some x \<Rightarrow> pr_showArea x)
             then map_option (\<lambda>a. (ar_id a, ar_name a)) area else None),
           pp_bio = pf_bio p, pp_garbaLevel = pf_garbaLevel p,
           pp_availableDates = upcomingDates (pf_availableDates p) today,
           pp_image = toImageDto p,
           pp_identityVerified = (u_identityVerifiedAt u \<noteq> None),
           pp_photoVerified = (u_photoVerifiedAt u \<noteq> None)\<rparr>)"

definition live_account :: "uuid \<Rightarrow> db \<Rightarrow> user option" where
  "live_account i s = find_row users_table (\<lambda>u. u_id u = i \<and> u_deletedAt u = None) s"

definition profile_of :: "uuid \<Rightarrow> db \<Rightarrow> user_profile option" where
  "profile_of userId s = find_row profiles_table (\<lambda>p. pf_userId p = userId) s"

definition preference_of :: "uuid \<Rightarrow> db \<Rightarrow> user_preference option" where
  "preference_of userId s = find_row preferences_table (\<lambda>p. pr_userId p = userId) s"

text \<open>One member of \<open>loadPublicProfiles\<close>: absent without an account or a profile.\<close>

definition public_profile_of :: "db \<Rightarrow> date \<Rightarrow> uuid \<Rightarrow> failure + public_profile option" where
  "public_profile_of s today i =
    (case (live_account i s, profile_of i s) of
       (Some u, Some p) \<Rightarrow>
         (case toPublicProfileDto u p (by_key cities_table (pf_cityId p) s)
             (case pf_areaId p of None \<Rightarrow> None | Some a \<Rightarrow> by_key areas_table a s) (preference_of i s) today of
            Inl e \<Rightarrow> Inl e
          | Inr dto \<Rightarrow> Inr (Some dto))
     | _ \<Rightarrow> Inr None)"

fun loadPublicProfiles :: "uuid list \<Rightarrow> db \<Rightarrow> date \<Rightarrow> failure + (uuid \<times> public_profile) list" where
  "loadPublicProfiles [] s today = Inr []"
| "loadPublicProfiles (i # ids) s today =
    (case public_profile_of s today i of
       Inl e \<Rightarrow> Inl e
     | Inr found \<Rightarrow>
         (case loadPublicProfiles ids s today of
            Inl e \<Rightarrow> Inl e
          | Inr rest \<Rightarrow> Inr ((case found of None \<Rightarrow> [] | Some dto \<Rightarrow> [(i, dto)]) @ rest)))"

section \<open>The viewer\<close>

definition loadViewer :: "uuid \<Rightarrow> date \<Rightarrow> db \<Rightarrow> failure + viewer \<times> user_preference" where
  "loadViewer viewerId today s =
    (case (profile_of viewerId s, preference_of viewerId s) of
       (Some p, Some pr) \<Rightarrow> Inr
         (\<lparr>vw_id = viewerId, vw_gender = pf_gender p, vw_age = calculateAge (pf_dateOfBirth p) today,
            vw_cityId = pf_cityId p, vw_garbaLevel = pf_garbaLevel p,
            vw_availableDates = upcomingDates (pf_availableDates p) today,
            vw_preference = pr_partnerGenderPreference pr\<rparr>, pr)
     | _ \<Rightarrow> Inl (App ONBOARDING_REQUIRED))"

definition assertEventMode :: "uuid \<Rightarrow> uuid \<Rightarrow> db \<Rightarrow> failure + unit" where
  "assertEventMode viewerId eventId s =
    (case find_row events_table (\<lambda>e. ev_id e = eventId \<and> ev_status e = E_published) s of
       None \<Rightarrow> Inl (App NOT_FOUND)
     | Some e \<Rightarrow>
         if ev_endsAt e \<le> clock s then Inl (App EVENT_NOT_OPEN)
         else if \<not> looking_at viewerId eventId s then Inl (App PARTNER_TOGGLE_REQUIRED)
         else Inr ())"

text \<open>The query for one member, against the saved preferences only.\<close>

definition target_query :: "viewer \<Rightarrow> user_preference \<Rightarrow> date \<Rightarrow> uuid \<Rightarrow> candidate_query" where
  "target_query v pr today targetId =
    \<lparr>cq_viewer = v, cq_today = today, cq_minAge = pr_ageMin pr, cq_maxAge = pr_ageMax pr,
      cq_verifiedOnly = False, cq_eventId = None, cq_cityId = None, cq_garbaLevels = [], cq_date = None,
      cq_targetId = Some targetId, cq_excludeConnected = False, cq_cursor = None, cq_limit = 1\<rparr>"

definition findEligible :: "uuid \<Rightarrow> uuid \<Rightarrow> date \<Rightarrow> db \<Rightarrow> failure + viewer \<times> candidate_row option" where
  "findEligible viewerId targetId today s =
    (case loadViewer viewerId today s of
       Inl e \<Rightarrow> Inl e
     | Inr (v, pr) \<Rightarrow> Inr (v,
         case runQuery (target_query v pr today targetId) s of [] \<Rightarrow> None | row # _ \<Rightarrow> Some row))"

definition isEligible :: "uuid \<Rightarrow> uuid \<Rightarrow> db \<Rightarrow> failure + bool" where
  "isEligible viewerId targetId s =
    (if viewerId = targetId then Inr False
     else case findEligible viewerId targetId (todayInIndia (clock s)) s of
       Inl e \<Rightarrow> Inl e
     | Inr (_, row) \<Rightarrow> Inr (row \<noteq> None))"

section \<open>What is shown with a partner\<close>

text \<open>Events both look for a partner at, soonest first, at most three.\<close>

definition sharedEvents :: "uuid \<Rightarrow> uuid \<Rightarrow> db \<Rightarrow> event list" where
  "sharedEvents viewerId i s =
    take SHARED_EVENTS_SHOWN (sort_key (\<lambda>e. (ev_startsAt e, ev_id e))
      (filter (\<lambda>e. ev_status e = E_published \<and> clock s < ev_endsAt e \<and>
          looking_at i (ev_id e) s \<and> looking_at viewerId (ev_id e) s) (t_events s)))"

record connection =
  cn_status :: connection_status
  cn_interestId :: "uuid option"
  cn_matchId :: "uuid option"

definition NO_CONNECTION :: connection where
  "NO_CONNECTION = \<lparr>cn_status = Conn_none, cn_interestId = None, cn_matchId = None\<rparr>"

text \<open>A later row overrides an earlier one, and a match every interest.\<close>

definition connection_with :: "uuid \<Rightarrow> uuid \<Rightarrow> db \<Rightarrow> connection" where
  "connection_with viewerId i s =
    (let interests = rows_where interests_table (\<lambda>x. i_status x = I_pending \<and> clock s < i_expiresAt x \<and>
           (i_senderId x = viewerId \<and> i_receiverId x = i \<or> i_receiverId x = viewerId \<and> i_senderId x = i)) s;
         matches = rows_where matches_table (\<lambda>m. m_status m = M_active \<and>
           (m_userAId m = viewerId \<and> m_userBId m = i \<or> m_userBId m = viewerId \<and> m_userAId m = i)) s
     in fold (\<lambda>m _. \<lparr>cn_status = Conn_matched, cn_interestId = None, cn_matchId = Some (m_id m)\<rparr>) matches
       (fold (\<lambda>x _. \<lparr>cn_status = (if i_senderId x = viewerId then Conn_interest_sent else Conn_interest_received),
           cn_interestId = Some (i_id x), cn_matchId = None\<rparr>) interests NO_CONNECTION))"

record partner_dto =
  pd_profile :: public_profile
  pd_highlights :: "match_highlight list"
  pd_sharedDates :: "date list"
  pd_sharedEvents :: "uuid list"
  pd_connection :: connection

definition hydrate :: "viewer \<Rightarrow> candidate_row list \<Rightarrow> date \<Rightarrow> db \<Rightarrow> failure + partner_dto list" where
  "hydrate v rows today s =
    (case loadPublicProfiles (map cr_id rows) s today of
       Inl e \<Rightarrow> Inl e
     | Inr profiles \<Rightarrow> Inr (concat (map (\<lambda>row.
         case map_of profiles (cr_id row) of
           None \<Rightarrow> []
         | Some profile \<Rightarrow>
             [\<lparr>pd_profile = profile, pd_highlights = matchHighlights (cr_signals row),
                pd_sharedDates = sharedUpcomingDates (pp_availableDates profile) (vw_availableDates v) today,
                pd_sharedEvents = map ev_id (sharedEvents (vw_id v) (cr_id row) s),
                pd_connection = connection_with (vw_id v) (cr_id row) s\<rparr>]) rows)))"

section \<open>The methods\<close>

record partner_list_query =
  lq_minAge :: "int option"
  lq_maxAge :: "int option"
  lq_verifiedOnly :: "bool option"
  lq_eventId :: "uuid option"
  lq_cityId :: "uuid option"
  lq_garbaLevels :: "garba_level list"
  lq_date :: "date option"
  lq_cursor :: "partner_cursor option"
  lq_limit :: "nat option"

definition value_or :: "'a option \<Rightarrow> 'a \<Rightarrow> 'a" where
  "value_or v otherwise = (case v of None \<Rightarrow> otherwise | Some x \<Rightarrow> x)"

text \<open>Filters can only narrow the saved age range.\<close>

definition list_minAge :: "user_preference \<Rightarrow> partner_list_query \<Rightarrow> int" where
  "list_minAge pr q = max (pr_ageMin pr) (value_or (lq_minAge q) PREF_AGE_MIN)"

definition list_maxAge :: "user_preference \<Rightarrow> partner_list_query \<Rightarrow> int" where
  "list_maxAge pr q = min (pr_ageMax pr) (value_or (lq_maxAge q) MAX_AGE)"

definition page_limit :: "nat option \<Rightarrow> nat \<Rightarrow> nat \<Rightarrow> nat" where
  "page_limit limit otherwise most = min (max (value_or limit otherwise) 1) most"

definition list_query :: "viewer \<Rightarrow> user_preference \<Rightarrow> date \<Rightarrow> partner_list_query \<Rightarrow> candidate_query" where
  "list_query v pr today q =
    \<lparr>cq_viewer = v, cq_today = today, cq_minAge = list_minAge pr q, cq_maxAge = list_maxAge pr q,
      cq_verifiedOnly = value_or (lq_verifiedOnly q) (pr_verifiedOnly pr), cq_eventId = lq_eventId q,
      cq_cityId = lq_cityId q, cq_garbaLevels = lq_garbaLevels q, cq_date = lq_date q, cq_targetId = None,
      cq_excludeConnected = True, cq_cursor = lq_cursor q,
      cq_limit = Suc (page_limit (lq_limit q) DISCOVERY_PAGE_SIZE_DEFAULT DISCOVERY_PAGE_SIZE_MAX)\<rparr>"

definition encodePartnerCursor :: "candidate_row \<Rightarrow> partner_cursor" where
  "encodePartnerCursor r = (cr_score r, cr_active_day r, cr_id r)"

text \<open>The rows of a page and the cursor of the next one.\<close>

definition partner_page :: "viewer \<Rightarrow> user_preference \<Rightarrow> date \<Rightarrow> partner_list_query \<Rightarrow> db \<Rightarrow>
    candidate_row list \<times> partner_cursor option" where
  "partner_page v pr today q s =
    (if list_maxAge pr q < list_minAge pr q then ([], None)
     else let limit = page_limit (lq_limit q) DISCOVERY_PAGE_SIZE_DEFAULT DISCOVERY_PAGE_SIZE_MAX;
              rows = runQuery (list_query v pr today q) s;
              page = take limit rows
          in (page, if limit < length rows \<and> page \<noteq> [] then Some (encodePartnerCursor (last page)) else None))"

definition list_partners ::
    "uuid \<Rightarrow> partner_list_query \<Rightarrow> db \<Rightarrow> failure + partner_dto list \<times> partner_cursor option" where
  "list_partners viewerId q s =
    (let today = todayInIndia (clock s)
     in case loadViewer viewerId today s of
       Inl e \<Rightarrow> Inl e
     | Inr (v, pr) \<Rightarrow>
         (case (case lq_eventId q of None \<Rightarrow> Inr () | Some e \<Rightarrow> assertEventMode viewerId e s) of
            Inl e \<Rightarrow> Inl e
          | Inr _ \<Rightarrow>
              let (page, cursor) = partner_page v pr today q s
              in case hydrate v page today s of Inl e \<Rightarrow> Inl e | Inr items \<Rightarrow> Inr (items, cursor)))"

definition get_partner :: "uuid \<Rightarrow> uuid \<Rightarrow> db \<Rightarrow> failure + partner_dto" where
  "get_partner viewerId partnerId s =
    (let today = todayInIndia (clock s)
     in if viewerId = partnerId then Inl (App NOT_FOUND)
        else case findEligible viewerId partnerId today s of
          Inl e \<Rightarrow> Inl e
        | Inr (v, row) \<Rightarrow>
            (case hydrate v (case row of None \<Rightarrow> [] | Some r \<Rightarrow> [r]) today s of
               Inl e \<Rightarrow> Inl e
             | Inr [] \<Rightarrow> Inl (App NOT_FOUND)
             | Inr (partner # _) \<Rightarrow> Inr partner))"

end
