(* ===== verification/Notifications.thy ===== *)
theory Notifications
  imports Pagination
begin

text \<open>
  In-app notifications (\<open>modules/notifications/notifications.service.ts\<close>, \<open>notification-jobs.ts\<close>).
  \<open>notify\<close> runs after the transaction that caused it and never throws. The media URL of the actor's
  photo is the stored public id; \<open>Deliver\<close> stands for the call of the channel notifier.
\<close>

record notify_input =
  ni_userId :: uuid
  ni_type :: notification_type
  ni_actorUserId :: "uuid option"
  ni_matchId :: "uuid option"
  ni_interestId :: "uuid option"
  ni_eventId :: "uuid option"
  ni_bookingId :: "uuid option"
  ni_data :: notification_data

definition no_data :: notification_data where
  "no_data = \<lparr>nd_safetyKind = None, nd_bookingKind = None\<rparr>"

definition isConfigurable :: "notification_type \<Rightarrow> bool" where
  "isConfigurable t = List.member CONFIGURABLE_NOTIFICATION_TYPES t"

text \<open>The preference column of a configurable type; a missing row means on.\<close>

primrec preference_attribute :: "notification_type \<Rightarrow> notification_preference \<Rightarrow> bool" where
  "preference_attribute Interest_received = np_interestReceived"
| "preference_attribute Interest_accepted = np_interestAccepted"
| "preference_attribute Match_created = np_matchCreated"
| "preference_attribute New_message = np_newMessage"
| "preference_attribute Verification_completed = np_verificationCompleted"
| "preference_attribute Event_reminder = np_eventReminder"
| "preference_attribute Safety_notice = (\<lambda>_. True)"
| "preference_attribute Booking_notice = (\<lambda>_. True)"

definition isEnabled :: "uuid \<Rightarrow> notification_type \<Rightarrow> db \<Rightarrow> bool" where
  "isEnabled userId t s =
    (if \<not> isConfigurable t then True
     else case by_key notif_prefs_table userId s of
       None \<Rightarrow> True
     | Some p \<Rightarrow> preference_attribute t p)"

definition countUnread :: "uuid \<Rightarrow> db \<Rightarrow> nat" where
  "countUnread userId s = count_where (\<lambda>n. n_userId n = userId \<and> n_readAt n = None) (t_notifications s)"

section \<open>Storing and pushing\<close>

definition usable_account :: "uuid \<Rightarrow> db \<Rightarrow> bool" where
  "usable_account userId s \<longleftrightarrow>
    find_row users_table (\<lambda>u. u_id u = userId \<and> u_deletedAt u = None \<and>
      (u_status u = U_active \<or> u_status u = U_suspended)) s \<noteq> None"

definition new_notification :: "uuid \<Rightarrow> instant \<Rightarrow> notify_input \<Rightarrow> notification" where
  "new_notification i t input =
    \<lparr>n_id = i, n_userId = ni_userId input, n_type = ni_type input,
      n_actorUserId = ni_actorUserId input, n_matchId = ni_matchId input,
      n_interestId = ni_interestId input, n_eventId = ni_eventId input,
      n_bookingId = ni_bookingId input, n_data = ni_data input, n_count = 1,
      n_occurredAt = t, n_readAt = None\<rparr>"

text \<open>The atomic upsert: one unread notification per chat, later messages bump its count.\<close>

definition upsert_message_notification :: "notify_input \<Rightarrow> uuid \<Rightarrow> uuid op" where
  "upsert_message_notification input matchId =
    andThen fresh_uuid (\<lambda>i.
    andThen now (\<lambda>t.
    andThen (gets (find_row notifications_table
        (\<lambda>n. n_userId n = ni_userId input \<and> n_matchId n = Some matchId \<and>
          n_type n = New_message \<and> n_readAt n = None))) (\<lambda>existing.
    case existing of
      Some n \<Rightarrow> andThen
        (update_rows notifications_table (\<lambda>r. n_id r = n_id n)
          (\<lambda>r. r\<lparr>n_count := Suc (n_count r), n_occurredAt := t, n_actorUserId := ni_actorUserId input\<rparr>))
        (\<lambda>_. ret (n_id n))
    | None \<Rightarrow> andThen
        (insert_row notifications_table
          ((new_notification i t input)\<lparr>n_matchId := Some matchId, n_interestId := None,
            n_eventId := None, n_bookingId := None, n_data := no_data\<rparr>))
        (\<lambda>_. ret i))))"

definition store :: "notify_input \<Rightarrow> uuid option op" where
  "store input =
    andThen (gets (usable_account (ni_userId input))) (\<lambda>usable.
    if \<not> usable then ret None
    else andThen (gets (isEnabled (ni_userId input) (ni_type input))) (\<lambda>enabled.
    if \<not> enabled then ret None
    else case (if ni_type input = New_message then ni_matchId input else None) of
      Some matchId \<Rightarrow>
        andThen (upsert_message_notification input matchId) (\<lambda>i. ret (Some i))
    | None \<Rightarrow>
        andThen fresh_uuid (\<lambda>i.
        andThen now (\<lambda>t.
        andThen (insert_row notifications_table (new_notification i t input)) (\<lambda>_. ret (Some i))))))"

text \<open>Each stored notification goes to the sockets of its member with the unread total.\<close>

definition push_rows :: "env \<Rightarrow> uuid list \<Rightarrow> db \<Rightarrow> db" where
  "push_rows env ids s =
    (let rows = rows_where notifications_table (\<lambda>n. List.member ids (n_id n)) s
     in s\<lparr>outbox := outbox s @
            map (\<lambda>n. To_user (n_userId n) (Ev_notification_new (n_id n) (countUnread (n_userId n) s))) rows @
            (if channelsOn env then [Deliver (map n_id rows)] else [])\<rparr>)"

definition push :: "env \<Rightarrow> uuid list \<Rightarrow> unit op" where
  "push env ids = (if ids = [] then ret () else modify (push_rows env ids))"

definition notify :: "env \<Rightarrow> notify_input \<Rightarrow> unit op" where
  "notify env input =
    tryCatch
      (andThen (store input) (\<lambda>i. case i of None \<Rightarrow> ret () | Some i \<Rightarrow> push env [i]))
      (\<lambda>_. ret ())"

section \<open>Between two members, and reading a chat\<close>

definition removeNotificationsBetween :: "uuid \<Rightarrow> uuid \<Rightarrow> unit op" where
  "removeNotificationsBetween a b =
    delete_rows notifications_table
      (\<lambda>n. n_userId n = a \<and> n_actorUserId n = Some b \<or> n_userId n = b \<and> n_actorUserId n = Some a)"

definition markChatNotificationsRead :: "uuid \<Rightarrow> uuid \<Rightarrow> bool op" where
  "markChatNotificationsRead userId matchId =
    (let P = (\<lambda>n. n_userId n = userId \<and> n_matchId n = Some matchId \<and> n_type n = New_message \<and>
               n_readAt n = None)
     in andThen now (\<lambda>t.
        andThen (gets (\<lambda>s. count_where P (t_notifications s))) (\<lambda>changed.
        andThen (update_rows notifications_table P (\<lambda>n. n\<lparr>n_readAt := Some t\<rparr>)) (\<lambda>_.
        ret (0 < changed)))))"

section \<open>Member endpoints\<close>

definition load_notification :: "uuid \<Rightarrow> uuid \<Rightarrow> notification op" where
  "load_notification userId i =
    andThen (gets (find_row notifications_table (\<lambda>n. n_id n = i \<and> n_userId n = userId)))
      (\<lambda>row. from_option row (App NOT_FOUND))"

definition markRead :: "uuid \<Rightarrow> uuid \<Rightarrow> notification op" where
  "markRead userId i =
    andThen (load_notification userId i) (\<lambda>row.
    if n_readAt row = None
    then andThen now (\<lambda>t. save notifications_table [setting n_readAt n_readAt_update (Some t)] row)
    else ret row)"

definition markAllRead :: "uuid \<Rightarrow> nat op" where
  "markAllRead userId =
    (let P = (\<lambda>n. n_userId n = userId \<and> n_readAt n = None)
     in andThen now (\<lambda>t.
        andThen (gets (\<lambda>s. count_where P (t_notifications s))) (\<lambda>updated.
        andThen (update_rows notifications_table P (\<lambda>n. n\<lparr>n_readAt := Some t\<rparr>)) (\<lambda>_.
        ret updated))))"

definition list_notifications ::
    "uuid \<Rightarrow> bool \<Rightarrow> cursor option \<Rightarrow> nat option \<Rightarrow> db \<Rightarrow> notification list \<times> cursor option" where
  "list_notifications userId unread c limit s =
    page_of (\<lambda>n. (n_occurredAt n, n_id n)) c
      (case limit of None \<Rightarrow> NOTIFICATIONS_PAGE_SIZE_DEFAULT | Some l \<Rightarrow> l)
      (rows_where notifications_table (\<lambda>n. n_userId n = userId \<and> (unread \<longrightarrow> n_readAt n = None)) s)"

definition default_preferences :: "uuid \<Rightarrow> notification_preference" where
  "default_preferences userId =
    \<lparr>np_userId = userId, np_interestReceived = True, np_interestAccepted = True,
      np_matchCreated = True, np_newMessage = True, np_verificationCompleted = True,
      np_eventReminder = True, np_whatsappOptIn = False, np_whatsappOptInAt = None\<rparr>"

definition preferences :: "uuid \<Rightarrow> db \<Rightarrow> notification_preference" where
  "preferences userId s =
    (case by_key notif_prefs_table userId s of None \<Rightarrow> default_preferences userId | Some p \<Rightarrow> p)"

definition overwrite :: "bool option \<Rightarrow> bool \<Rightarrow> bool" where
  "overwrite v old = (case v of None \<Rightarrow> old | Some b \<Rightarrow> b)"

text \<open>
  \<open>input t\<close> is the switch sent for a type, if any; \<open>whatsapp\<close> the consent sent, if any. The row is
  found or created with every type on and no consent.
\<close>

definition updatePreferences ::
    "uuid \<Rightarrow> (notification_type \<Rightarrow> bool option) \<Rightarrow> bool option \<Rightarrow> notification_preference op" where
  "updatePreferences userId input whatsapp =
    andThen (gets (by_key notif_prefs_table userId)) (\<lambda>found.
    andThen (doWhen (found = None) (insert_row notif_prefs_table (default_preferences userId))) (\<lambda>_.
    andThen now (\<lambda>t.
    andThen (update_rows notif_prefs_table (\<lambda>p. np_userId p = userId) (\<lambda>p.
      p\<lparr>np_interestReceived := overwrite (input Interest_received) (np_interestReceived p),
        np_interestAccepted := overwrite (input Interest_accepted) (np_interestAccepted p),
        np_matchCreated := overwrite (input Match_created) (np_matchCreated p),
        np_newMessage := overwrite (input New_message) (np_newMessage p),
        np_verificationCompleted := overwrite (input Verification_completed) (np_verificationCompleted p),
        np_eventReminder := overwrite (input Event_reminder) (np_eventReminder p),
        np_whatsappOptIn := overwrite whatsapp (np_whatsappOptIn p),
        np_whatsappOptInAt :=
          (case whatsapp of
             None \<Rightarrow> np_whatsappOptInAt p
           | Some True \<Rightarrow> (case np_whatsappOptInAt p of None \<Rightarrow> Some t | Some at \<Rightarrow> Some at)
           | Some False \<Rightarrow> None)\<rparr>)) (\<lambda>_.
    gets (preferences userId)))))"

section \<open>Jobs\<close>

text \<open>
  \<open>createEventReminders\<close>: one INSERT \<dots> SELECT with ON CONFLICT DO NOTHING. \<open>remind\<close> adds the
  reminder of one attendance unless there is one already.
\<close>

definition reminder_due :: "instant \<Rightarrow> db \<Rightarrow> event_attendance \<Rightarrow> bool" where
  "reminder_due t s a \<longleftrightarrow>
    (\<exists>e \<in> set (t_events s). ev_id e = at_eventId a \<and> ev_status e = E_published \<and>
       t < ev_startsAt e \<and> ev_startsAt e \<le> t + EVENT_REMINDER_HOURS_BEFORE * HOUR_MS) \<and>
    (\<exists>u \<in> set (t_users s). u_id u = at_userId a \<and> u_status u = U_active \<and> u_deletedAt u = None) \<and>
    (case by_key notif_prefs_table (at_userId a) s of None \<Rightarrow> True | Some p \<Rightarrow> np_eventReminder p)"

definition reminder_sent :: "uuid \<Rightarrow> uuid \<Rightarrow> db \<Rightarrow> bool" where
  "reminder_sent userId eventId s \<longleftrightarrow>
    (\<exists>n \<in> set (t_notifications s). n_userId n = userId \<and> n_type n = Event_reminder \<and>
       n_eventId n = Some eventId)"

definition reminder_input :: "event_attendance \<Rightarrow> notify_input" where
  "reminder_input a = \<lparr>ni_userId = at_userId a, ni_type = Event_reminder, ni_actorUserId = None,
     ni_matchId = None, ni_interestId = None, ni_eventId = Some (at_eventId a), ni_bookingId = None,
     ni_data = no_data\<rparr>"

fun remind_all :: "instant \<Rightarrow> event_attendance list \<Rightarrow> uuid list op" where
  "remind_all t [] = ret []"
| "remind_all t (a # rest) =
    andThen (gets (reminder_sent (at_userId a) (at_eventId a))) (\<lambda>sent.
    if sent then remind_all t rest
    else andThen fresh_uuid (\<lambda>i.
      andThen (insert_row notifications_table (new_notification i t (reminder_input a))) (\<lambda>_.
      andThen (remind_all t rest) (\<lambda>ids. ret (i # ids)))))"

definition createEventReminders :: "instant \<Rightarrow> uuid list op" where
  "createEventReminders t =
    transaction
      (andThen (gets (\<lambda>s. filter (reminder_due t s) (t_attendances s))) (\<lambda>due. remind_all t due))"

definition purgeOldNotifications :: "instant \<Rightarrow> nat op" where
  "purgeOldNotifications t =
    (let P = (\<lambda>n. n_occurredAt n < t - NOTIFICATION_RETENTION_DAYS * DAY_MS)
     in andThen (gets (\<lambda>s. count_where P (t_notifications s))) (\<lambda>purged.
        andThen (delete_rows notifications_table P) (\<lambda>_. ret purged)))"

section \<open>What notifications touch\<close>

text \<open>A view of the state that does not read the notifications, the random supply and the outbox.\<close>

definition ignores_notifications :: "(db \<Rightarrow> 'v) \<Rightarrow> bool" where
  "ignores_notifications v \<longleftrightarrow>
    (\<forall>s x. v (s\<lparr>t_notifications := x\<rparr>) = v s) \<and> (\<forall>s x. v (s\<lparr>drawn := x\<rparr>) = v s) \<and>
    (\<forall>s x. v (s\<lparr>outbox := x\<rparr>) = v s)"

lemma ignores_notificationsD:
  assumes "ignores_notifications v"
  shows "v (s\<lparr>t_notifications := x\<rparr>) = v s" "v (s\<lparr>drawn := d\<rparr>) = v s" "v (s\<lparr>outbox := es\<rparr>) = v s"
  using assms by (simp_all add: ignores_notifications_def)

lemma store_leaves: "ignores_notifications v \<Longrightarrow> leaves v (store input)"
  unfolding store_def upsert_message_notification_def
  by (intro leaves_rules) (simp_all add: ignores_notificationsD)

lemma push_leaves: "ignores_notifications v \<Longrightarrow> leaves v (push env ids)"
  unfolding push_def push_rows_def Let_def
  by (intro leaves_rules leaves_modify) (simp_all add: ignores_notificationsD)

lemma notify_leaves [leaves_rules]: "ignores_notifications v \<Longrightarrow> leaves v (notify env input)"
  unfolding notify_def by (intro leaves_rules store_leaves push_leaves)

lemma notify_returns: "notify env input s = (Inr (), snd (notify env input s))"
  by (cases "andThen (store input) (case_option (ret ()) (\<lambda>i. push env [i])) s" rule: prod.exhaust)
    (auto simp: notify_def tryCatch_def ret_def split: sum.splits)

end
