(* ===== verification/Connections.thy ===== *)
theory Connections
  imports Discovery_Service Notifications
begin

text \<open>
  What connects two members: pending interests and active matches
  (\<open>modules/interests/connections.ts\<close>), and the matches service (\<open>matches.service.ts\<close>).
  \<open>lockPair\<close> serialises the transactions of one pair; here every transaction is one atomic step, so
  it has no counterpart.
\<close>

section \<open>Pairs\<close>

definition canonicalPair :: "uuid \<Rightarrow> uuid \<Rightarrow> uuid \<times> uuid" where
  "canonicalPair a b = (if a < b then (a, b) else (b, a))"

definition of_pair :: "uuid \<Rightarrow> uuid \<Rightarrow> match_row \<Rightarrow> bool" where
  "of_pair a b m \<longleftrightarrow> (m_userAId m, m_userBId m) = canonicalPair a b"

definition pendingBetween :: "uuid \<Rightarrow> uuid \<Rightarrow> partner_interest \<Rightarrow> bool" where
  "pendingBetween a b x \<longleftrightarrow> i_status x = I_pending \<and>
    (i_senderId x = a \<and> i_receiverId x = b \<or> i_senderId x = b \<and> i_receiverId x = a)"

definition answer :: "interest_status \<Rightarrow> instant \<Rightarrow> partner_interest \<Rightarrow> partner_interest" where
  "answer status t x = x\<lparr>i_status := status, i_respondedAt := Some t\<rparr>"

definition active_match :: "uuid \<Rightarrow> uuid \<Rightarrow> db \<Rightarrow> match_row option" where
  "active_match a b s = find_row matches_table (\<lambda>m. of_pair a b m \<and> m_status m = M_active) s"

definition end_match ::
    "match_status \<Rightarrow> instant \<Rightarrow> uuid option \<Rightarrow> uuid option \<Rightarrow> match_row \<Rightarrow> match_row" where
  "end_match status t byUser byAdmin m =
    m\<lparr>m_status := status, m_endedAt := Some t, m_endedByUserId := byUser, m_endedByAdminId := byAdmin\<rparr>"

section \<open>Ending what connects them\<close>

definition endConnections ::
    "uuid \<Rightarrow> uuid \<Rightarrow> match_status \<Rightarrow> uuid option \<Rightarrow> uuid option \<Rightarrow> uuid option op" where
  "endConnections a b matchStatus byUser byAdmin =
    andThen now (\<lambda>t.
    andThen (update_rows interests_table (pendingBetween a b) (answer I_cancelled t)) (\<lambda>_.
    andThen (gets (active_match a b)) (\<lambda>active.
    case active of
      None \<Rightarrow> ret None
    | Some m \<Rightarrow>
        andThen (update_rows matches_table (\<lambda>r. m_id r = m_id m) (end_match matchStatus t byUser byAdmin)) (\<lambda>_.
        ret (Some (m_id m))))))"

definition emitMatchEnded :: "uuid option \<Rightarrow> uuid \<Rightarrow> uuid \<Rightarrow> unit op" where
  "emitMatchEnded matchId a b =
    (case matchId of
       None \<Rightarrow> ret ()
     | Some m \<Rightarrow> andThen (emit (To_user a (Ev_match_ended m))) (\<lambda>_. emit (To_user b (Ev_match_ended m))))"

text \<open>Returns how many were cancelled.\<close>

definition cancelPendingInterestsOf :: "uuid \<Rightarrow> nat op" where
  "cancelPendingInterestsOf userId =
    (let P = (\<lambda>x. i_status x = I_pending \<and> (i_senderId x = userId \<or> i_receiverId x = userId))
     in andThen now (\<lambda>t.
        andThen (gets (\<lambda>s. count_where P (t_interests s))) (\<lambda>n.
        andThen (update_rows interests_table P (answer I_cancelled t)) (\<lambda>_. ret n))))"

definition partner_in :: "uuid \<Rightarrow> match_row \<Rightarrow> uuid" where
  "partner_in userId m = (if m_userAId m = userId then m_userBId m else m_userAId m)"

definition of_member :: "uuid \<Rightarrow> match_row \<Rightarrow> bool" where
  "of_member userId m \<longleftrightarrow> m_userAId m = userId \<or> m_userBId m = userId"

text \<open>The ended matches with the other member of each.\<close>

definition endAllMatchesOf :: "uuid \<Rightarrow> uuid \<Rightarrow> (uuid \<times> uuid) list op" where
  "endAllMatchesOf userId adminId =
    andThen (gets (rows_where matches_table (\<lambda>m. m_status m = M_active \<and> of_member userId m))) (\<lambda>found.
    if found = [] then ret []
    else andThen now (\<lambda>t.
      andThen (update_rows matches_table (\<lambda>m. List.member (map m_id found) (m_id m))
        (\<lambda>m. m\<lparr>m_status := M_closed, m_endedAt := Some t, m_endedByAdminId := Some adminId\<rparr>)) (\<lambda>_.
      ret (map (\<lambda>m. (m_id m, partner_in userId m)) found))))"

section \<open>The matches service\<close>

record shared_event =
  se_id :: uuid
  se_slug :: string
  se_name :: string
  se_eventDate :: date

text \<open>An event of any status names the context of a match or an interest.\<close>

definition loadEvent :: "uuid option \<Rightarrow> db \<Rightarrow> shared_event option" where
  "loadEvent i s =
    (case i of
       None \<Rightarrow> None
     | Some i \<Rightarrow> map_option
         (\<lambda>e. \<lparr>se_id = ev_id e, se_slug = ev_slug e, se_name = ev_name e, se_eventDate = ev_eventDate e\<rparr>)
         (by_key events_table i s))"

definition account_active :: "uuid \<Rightarrow> db \<Rightarrow> bool" where
  "account_active i s \<longleftrightarrow> (\<exists>u \<in> set (t_users s). u_id u = i \<and> u_status u = U_active \<and> u_deletedAt u = None)"

text \<open>The matches of a member that are shown: active, with an active account on the other side.\<close>

definition match_rows :: "uuid \<Rightarrow> db \<Rightarrow> match_row list" where
  "match_rows userId s = rows_where matches_table
    (\<lambda>m. of_member userId m \<and> m_status m = M_active \<and> account_active (partner_in userId m) s) s"

record match_dto =
  md_id :: uuid
  md_status :: match_status
  md_createdAt :: instant
  md_event :: "shared_event option"
  md_partner :: public_profile

definition match_dtos :: "uuid \<Rightarrow> match_row list \<Rightarrow> db \<Rightarrow> failure + match_dto list" where
  "match_dtos userId rows s =
    (case loadPublicProfiles (map (partner_in userId) rows) s (todayInIndia (clock s)) of
       Inl e \<Rightarrow> Inl e
     | Inr profiles \<Rightarrow> Inr (concat (map (\<lambda>m.
         case map_of profiles (partner_in userId m) of
           None \<Rightarrow> []
         | Some partner \<Rightarrow> [\<lparr>md_id = m_id m, md_status = m_status m, md_createdAt = m_createdAt m,
             md_event = loadEvent (m_eventId m) s, md_partner = partner\<rparr>]) rows)))"

definition match_stamp :: "match_row \<Rightarrow> cursor" where
  "match_stamp m = (m_createdAt m, m_id m)"

definition list_matches ::
    "uuid \<Rightarrow> cursor option \<Rightarrow> nat option \<Rightarrow> db \<Rightarrow> failure + match_dto list \<times> cursor option" where
  "list_matches userId c limit s =
    (let (page, next) = page_of match_stamp c
           (page_limit limit INTERESTS_PAGE_SIZE_DEFAULT INTERESTS_PAGE_SIZE_MAX) (match_rows userId s)
     in case match_dtos userId page s of Inl e \<Rightarrow> Inl e | Inr items \<Rightarrow> Inr (items, next))"

definition get_match :: "uuid \<Rightarrow> uuid \<Rightarrow> db \<Rightarrow> failure + match_dto" where
  "get_match userId matchId s =
    (case match_dtos userId (take 1 (filter (\<lambda>m. m_id m = matchId) (match_rows userId s))) s of
       Inl e \<Rightarrow> Inl e
     | Inr [] \<Rightarrow> Inl (App NOT_FOUND)
     | Inr (m # _) \<Rightarrow> Inr m)"

text \<open>Unmatching twice is no error; a match that ended in another way cannot be unmatched.\<close>

definition unmatch_tx :: "uuid \<Rightarrow> uuid \<Rightarrow> bool op" where
  "unmatch_tx userId matchId = transaction
    (andThen now (\<lambda>t.
     andThen (gets (\<lambda>s. count_where (\<lambda>m. m_id m = matchId \<and> m_status m = M_active) (t_matches s))) (\<lambda>ended.
     andThen (update_rows matches_table (\<lambda>m. m_id m = matchId \<and> m_status m = M_active)
       (\<lambda>m. m\<lparr>m_status := M_unmatched, m_endedAt := Some t, m_endedByUserId := Some userId\<rparr>)) (\<lambda>_.
     andThen (gets (by_key matches_table matchId)) (\<lambda>current.
     andThen (ensure (ended \<noteq> 0 \<or> (case current of None \<Rightarrow> False | Some m \<Rightarrow> m_status m = M_unmatched))
       (App NOT_FOUND)) (\<lambda>_.
     ret (0 < ended)))))))"

definition unmatch :: "uuid \<Rightarrow> uuid \<Rightarrow> unit op" where
  "unmatch userId matchId =
    andThen (gets (find_row matches_table (\<lambda>m. m_id m = matchId \<and> of_member userId m))) (\<lambda>found.
    andThen (from_option found (App NOT_FOUND)) (\<lambda>m.
    andThen (unmatch_tx userId matchId) (\<lambda>endedNow.
    doWhen endedNow (emitMatchEnded (Some matchId) (m_userAId m) (m_userBId m)))))"

end
