(* ===== verification/Interests.thy ===== *)
theory Interests
  imports Connections
begin

text \<open>
  Interests between members: request and accept (\<open>modules/interests/interests.service.ts\<close>). The
  transactions are atomic; the checks before them read the state at that time.
\<close>

section \<open>Checks\<close>

text \<open>Members under review or restriction can't create connections.\<close>

definition assertCanInteract :: "uuid \<Rightarrow> db \<Rightarrow> failure + unit" where
  "assertCanInteract userId s =
    (case live_account userId s of
       None \<Rightarrow> Inl (App UNAUTHENTICATED)
     | Some u \<Rightarrow>
         if u_hiddenFromDiscovery u \<or> u_interactionsRestrictedAt u \<noteq> None
         then Inl (App INTERACTIONS_RESTRICTED) else Inr ())"

definition assertSharedEvent :: "uuid \<Rightarrow> uuid \<Rightarrow> uuid \<Rightarrow> db \<Rightarrow> failure + unit" where
  "assertSharedEvent a b eventId s =
    (let both = count_where (\<lambda>x. at_eventId x = eventId \<and> (at_userId x = a \<or> at_userId x = b) \<and> at_lookingForPartner x)
       (t_attendances s)
     in if \<not> event_open eventId s \<or> both < 2 then Inl (App VALIDATION_ERROR) else Inr ())"

definition expireStale :: "uuid \<Rightarrow> uuid \<Rightarrow> unit op" where
  "expireStale a b =
    andThen now (\<lambda>t.
    update_rows interests_table (\<lambda>x. pendingBetween a b x \<and> i_expiresAt x \<le> t) (answer I_expired t))"

section \<open>Lists\<close>

definition interest_list_row :: "uuid \<Rightarrow> bool \<Rightarrow> db \<Rightarrow> partner_interest \<Rightarrow> bool" where
  "interest_list_row userId received s x \<longleftrightarrow>
    (let (mine, other) = (if received then (i_receiverId x, i_senderId x) else (i_senderId x, i_receiverId x))
     in mine = userId \<and> i_status x = I_pending \<and> clock s < i_expiresAt x \<and>
        (\<exists>u \<in> set (t_users s). u_id u = other \<and> u_status u = U_active \<and> u_deletedAt u = None \<and>
          \<not> u_hiddenFromDiscovery u \<and> u_interactionsRestrictedAt u = None) \<and>
        \<not> blocked_between (i_senderId x) (i_receiverId x) s \<and>
        \<not> reported_between (i_senderId x) (i_receiverId x) s)"

record interest_dto =
  id_id :: uuid
  id_status :: interest_status
  id_createdAt :: instant
  id_expiresAt :: instant
  id_event :: "shared_event option"
  id_member :: public_profile

definition other_member :: "bool \<Rightarrow> partner_interest \<Rightarrow> uuid" where
  "other_member received x = (if received then i_senderId x else i_receiverId x)"

definition interest_dtos :: "bool \<Rightarrow> partner_interest list \<Rightarrow> db \<Rightarrow> failure + interest_dto list" where
  "interest_dtos received rows s =
    (case loadPublicProfiles (map (other_member received) rows) s (todayInIndia (clock s)) of
       Inl e \<Rightarrow> Inl e
     | Inr profiles \<Rightarrow> Inr (concat (map (\<lambda>x.
         case map_of profiles (other_member received x) of
           None \<Rightarrow> []
         | Some member \<Rightarrow> [\<lparr>id_id = i_id x, id_status = i_status x, id_createdAt = i_createdAt x,
             id_expiresAt = i_expiresAt x, id_event = loadEvent (i_eventId x) s, id_member = member\<rparr>]) rows)))"

definition list_interests ::
    "uuid \<Rightarrow> bool \<Rightarrow> cursor option \<Rightarrow> nat option \<Rightarrow> db \<Rightarrow> failure + interest_dto list \<times> cursor option" where
  "list_interests userId received c limit s =
    (let (page, next) = page_of (\<lambda>x. (i_createdAt x, i_id x)) c
           (page_limit limit INTERESTS_PAGE_SIZE_DEFAULT INTERESTS_PAGE_SIZE_MAX)
           (rows_where interests_table (interest_list_row userId received s) s)
     in case interest_dtos received page s of Inl e \<Rightarrow> Inl e | Inr items \<Rightarrow> Inr (items, next))"

section \<open>Answers\<close>

text \<open>
  \<open>respond\<close>: the receiver rejects, the sender withdraws. One conditional UPDATE decides; a foreign
  interest looks like a missing one.
\<close>

definition answer_pending :: "(partner_interest \<Rightarrow> bool) \<Rightarrow> uuid \<Rightarrow> interest_status \<Rightarrow> nat op" where
  "answer_pending mine interestId status =
    andThen now (\<lambda>t.
    let P = (\<lambda>x. i_id x = interestId \<and> mine x \<and> i_status x = I_pending \<and> t < i_expiresAt x)
    in andThen (gets (\<lambda>s. count_where P (t_interests s))) (\<lambda>changed.
       andThen (update_rows interests_table P (answer status t)) (\<lambda>_. ret changed)))"

definition respond :: "(partner_interest \<Rightarrow> bool) \<Rightarrow> uuid \<Rightarrow> interest_status \<Rightarrow> unit op" where
  "respond mine interestId status =
    andThen (gets (find_row interests_table (\<lambda>x. i_id x = interestId \<and> mine x))) (\<lambda>found.
    andThen (ensure (found \<noteq> None) (App NOT_FOUND)) (\<lambda>_.
    andThen (answer_pending mine interestId status) (\<lambda>changed.
    ensure (changed \<noteq> 0) (App INTEREST_NOT_PENDING))))"

definition reject :: "uuid \<Rightarrow> uuid \<Rightarrow> unit op" where
  "reject userId interestId = respond (\<lambda>x. i_receiverId x = userId) interestId I_declined"

definition withdraw :: "uuid \<Rightarrow> uuid \<Rightarrow> unit op" where
  "withdraw userId interestId = respond (\<lambda>x. i_senderId x = userId) interestId I_withdrawn"

section \<open>Sending\<close>

definition new_interest :: "uuid \<Rightarrow> uuid \<Rightarrow> uuid \<Rightarrow> uuid option \<Rightarrow> instant \<Rightarrow> partner_interest" where
  "new_interest i senderId receiverId eventId t =
    \<lparr>i_id = i, i_senderId = senderId, i_receiverId = receiverId, i_eventId = eventId, i_status = I_pending,
      i_expiresAt = t + INTEREST_EXPIRY_DAYS * DAY_MS, i_respondedAt = None, i_createdAt = t\<rparr>"

definition new_match :: "uuid \<Rightarrow> uuid \<Rightarrow> uuid \<Rightarrow> uuid \<Rightarrow> uuid option \<Rightarrow> instant \<Rightarrow> match_row" where
  "new_match i a b interestId eventId t =
    \<lparr>m_id = i, m_userAId = fst (canonicalPair a b), m_userBId = snd (canonicalPair a b),
      m_interestId = Some interestId, m_eventId = eventId, m_status = M_active, m_endedAt = None,
      m_endedByUserId = None, m_endedByAdminId = None, m_lastMessageAt = None, m_userALastReadAt = None,
      m_userBLastReadAt = None, m_createdAt = t\<rparr>"

definition create_match :: "uuid \<Rightarrow> uuid \<Rightarrow> uuid \<Rightarrow> uuid option \<Rightarrow> uuid op" where
  "create_match a b interestId eventId =
    andThen fresh_uuid (\<lambda>i.
    andThen now (\<lambda>t.
    andThen (insert_row matches_table (new_match i a b interestId eventId t)) (\<lambda>_. ret i)))"

definition accept_row :: "instant \<Rightarrow> partner_interest \<Rightarrow> partner_interest op" where
  "accept_row t x = save interests_table
    [setting i_status i_status_update I_accepted, setting i_respondedAt i_respondedAt_update (Some t)] x"

text \<open>The interest, the match if one was made, and whether it had been sent before.\<close>

definition send_tx :: "uuid \<Rightarrow> uuid \<Rightarrow> uuid option \<Rightarrow> (uuid \<times> uuid option \<times> bool) op" where
  "send_tx senderId receiverId eventId = transaction
    (andThen (expireStale senderId receiverId) (\<lambda>_.
     andThen (gets (active_match senderId receiverId)) (\<lambda>active.
     andThen (ensure (active = None) (App ALREADY_MATCHED)) (\<lambda>_.
     andThen (gets (find_row interests_table (pendingBetween senderId receiverId))) (\<lambda>pending.
     andThen now (\<lambda>t.
     case pending of
       Some x \<Rightarrow>
         if i_senderId x = senderId then ret (i_id x, None, True)
         else andThen (accept_row t x) (\<lambda>_.
           andThen (create_match senderId receiverId (i_id x) (case i_eventId x of None \<Rightarrow> eventId | Some e \<Rightarrow> Some e)) (\<lambda>m.
           ret (i_id x, Some m, False)))
     | None \<Rightarrow>
         andThen fresh_uuid (\<lambda>i.
         andThen (insert_row interests_table (new_interest i senderId receiverId eventId t)) (\<lambda>_.
         ret (i, None, False)))))))))"

record send_outcome =
  so_interestId :: uuid
  so_match :: "match_dto option"
  so_alreadySent :: bool

definition notice :: "uuid \<Rightarrow> notification_type \<Rightarrow> uuid \<Rightarrow> uuid option \<Rightarrow> uuid option \<Rightarrow> notify_input" where
  "notice userId type actor interestId matchId =
    \<lparr>ni_userId = userId, ni_type = type, ni_actorUserId = Some actor, ni_matchId = matchId,
      ni_interestId = interestId, ni_eventId = None, ni_bookingId = None, ni_data = no_data\<rparr>"

text \<open>After the commit: both hear of a match, the receiver of an interest, nobody of a repeat.\<close>

definition notify_sent :: "env \<Rightarrow> uuid \<Rightarrow> uuid \<Rightarrow> uuid \<times> uuid option \<times> bool \<Rightarrow> unit op" where
  "notify_sent env senderId receiverId = (\<lambda>(interestId, matchId, alreadySent).
    if alreadySent then ret ()
    else case matchId of
      Some m \<Rightarrow> andThen (notify env (notice receiverId Match_created senderId None (Some m))) (\<lambda>_.
        notify env (notice senderId Match_created receiverId None (Some m)))
    | None \<Rightarrow> notify env (notice receiverId Interest_received senderId (Some interestId) None))"

definition sent_today :: "uuid \<Rightarrow> db \<Rightarrow> nat" where
  "sent_today senderId s = count_where (\<lambda>x. i_senderId x = senderId \<and> clock s - DAY_MS < i_createdAt x) (t_interests s)"

definition shown_photo :: "user_profile option \<Rightarrow> bool" where
  "shown_photo p = (case p of None \<Rightarrow> False | Some p \<Rightarrow> pf_imagePublicId p \<noteq> None \<and> pf_imagePublicId p \<noteq> Some [])"

definition assertMaySend :: "env \<Rightarrow> uuid \<Rightarrow> uuid \<Rightarrow> uuid option \<Rightarrow> string \<Rightarrow> unit op" where
  "assertMaySend env senderId receiverId eventId ip =
    andThen (ensure (receiverId \<noteq> senderId) (App VALIDATION_ERROR)) (\<lambda>_.
    andThen (andThen (gets (assertCanInteract senderId)) from_sum) (\<lambda>_.
    andThen (gets (profile_of senderId)) (\<lambda>profile.
    andThen (gets (preference_of senderId)) (\<lambda>preferences.
    andThen (ensure (shown_photo profile) (App ONBOARDING_REQUIRED)) (\<lambda>_.
    andThen (ensure (case preferences of None \<Rightarrow> False | Some p \<Rightarrow> pr_discoveryEnabled p) (App DISCOVERY_DISABLED)) (\<lambda>_.
    andThen (gets (sent_today senderId)) (\<lambda>sentToday.
    andThen (doWhen (INTERESTS_PER_DAY \<le> sentToday)
      (andThen (recordSafety env Interest_limit_reached Sev_warning (Some senderId) None (Some ip)
          [(''sentLast24h'', Meta_num (int sentToday))])
        (\<lambda>_. throw (App INTEREST_LIMIT_REACHED)))) (\<lambda>_.
    andThen (andThen (gets (isEligible senderId receiverId)) from_sum) (\<lambda>eligible.
    andThen (ensure eligible (App USER_UNAVAILABLE)) (\<lambda>_.
    case eventId of
      None \<Rightarrow> ret ()
    | Some e \<Rightarrow> andThen (gets (assertSharedEvent senderId receiverId e)) from_sum))))))))))"

definition send :: "env \<Rightarrow> uuid \<Rightarrow> uuid \<Rightarrow> uuid option \<Rightarrow> string \<Rightarrow> send_outcome op" where
  "send env senderId receiverId eventId ip =
    andThen (assertMaySend env senderId receiverId eventId ip) (\<lambda>_.
    andThen (tryCatch (send_tx senderId receiverId eventId)
      (\<lambda>e. throw (if e = Unique_violation then App CONFLICT else e))) (\<lambda>outcome.
    andThen (notify_sent env senderId receiverId outcome) (\<lambda>_.
    case outcome of (interestId, matchId, alreadySent) \<Rightarrow>
      andThen (case matchId of
          None \<Rightarrow> ret None
        | Some m \<Rightarrow> andThen (andThen (gets (get_match senderId m)) from_sum) (\<lambda>dto. ret (Some dto))) (\<lambda>m.
      ret \<lparr>so_interestId = interestId, so_match = m, so_alreadySent = alreadySent\<rparr>))))"

section \<open>Accepting\<close>

definition accept_tx :: "uuid \<Rightarrow> uuid \<Rightarrow> uuid \<Rightarrow> (uuid \<times> bool) op" where
  "accept_tx userId senderId interestId = transaction
    (andThen (gets (by_key interests_table interestId)) (\<lambda>found.
     andThen (from_option found (App INTEREST_NOT_PENDING)) (\<lambda>locked.
     andThen (ensure (i_status locked = I_pending) (App INTEREST_NOT_PENDING)) (\<lambda>_.
     andThen now (\<lambda>t.
     andThen (accept_row t locked) (\<lambda>_.
     andThen (gets (active_match userId senderId)) (\<lambda>existing.
     case existing of
       Some m \<Rightarrow> ret (m_id m, False)
     | None \<Rightarrow> andThen (create_match userId senderId interestId (i_eventId locked)) (\<lambda>m. ret (m, True)))))))))"

text \<open>An expired or no longer possible interest gets its final status before the error is thrown.\<close>

definition close_pending :: "uuid \<Rightarrow> interest_status \<Rightarrow> unit op" where
  "close_pending interestId status =
    andThen now (\<lambda>t.
    update_rows interests_table (\<lambda>x. i_id x = interestId \<and> i_status x = I_pending) (answer status t))"

definition accept :: "env \<Rightarrow> uuid \<Rightarrow> uuid \<Rightarrow> match_dto op" where
  "accept env userId interestId =
    andThen (gets (find_row interests_table (\<lambda>x. i_id x = interestId \<and> i_receiverId x = userId))) (\<lambda>found.
    andThen (from_option found (App NOT_FOUND)) (\<lambda>interest.
    andThen (ensure (i_status interest = I_pending) (App INTEREST_NOT_PENDING)) (\<lambda>_.
    andThen (andThen (gets (assertCanInteract userId)) from_sum) (\<lambda>_.
    andThen now (\<lambda>t.
    andThen (doWhen (i_expiresAt interest \<le> t)
      (andThen (close_pending interestId I_expired) (\<lambda>_. throw (App INTEREST_NOT_PENDING)))) (\<lambda>_.
    andThen (andThen (gets (isEligible userId (i_senderId interest))) from_sum) (\<lambda>eligible.
    andThen (doWhen (\<not> eligible)
      (andThen (close_pending interestId I_cancelled) (\<lambda>_. throw (App USER_UNAVAILABLE)))) (\<lambda>_.
    andThen (accept_tx userId (i_senderId interest) interestId) (\<lambda>(matchId, created).
    andThen (doWhen created
      (notify env (notice (i_senderId interest) Interest_accepted userId (Some interestId) (Some matchId)))) (\<lambda>_.
    andThen (gets (get_match userId matchId)) from_sum))))))))))"

end
