(* ===== verification/Sanctions.thy ===== *)
theory Sanctions
  imports Connections
begin

text \<open>
  Moderator sanctions (\<open>modules/safety/sanctions.ts\<close>), their expiry job
  (\<open>sanction-expiry.job.ts\<close>) and what a member sees of them (\<open>member-safety.service.ts\<close>). The
  operations run inside the transaction of their caller, where the code says so.
\<close>

section \<open>Account state\<close>

text \<open>Suspensions and bans end every session. Deleted accounts are not updated.\<close>

definition setAccountStatus :: "uuid \<Rightarrow> user_status \<Rightarrow> unit op" where
  "setAccountStatus userId status =
    andThen now (\<lambda>t.
    andThen (update_rows users_table (\<lambda>u. u_id u = userId \<and> u_deletedAt u = None) (\<lambda>u. u\<lparr>u_status := status\<rparr>)) (\<lambda>_.
    doWhen (status \<noteq> U_active)
      (update_rows sessions_table (\<lambda>x. s_userId x = userId \<and> s_revokedAt x = None)
        (\<lambda>x. x\<lparr>s_revokedAt := Some t, s_revokedReason := Some Rev_sanction\<rparr>))))"

text \<open>True if the flag changed.\<close>

definition hideFromDiscovery :: "uuid \<Rightarrow> hidden_reason \<Rightarrow> bool op" where
  "hideFromDiscovery userId reason =
    (let P = (\<lambda>u. u_id u = userId \<and> u_deletedAt u = None \<and> \<not> u_hiddenFromDiscovery u)
     in andThen (gets (\<lambda>s. count_where P (t_users s))) (\<lambda>changed.
        andThen (update_rows users_table P (\<lambda>u. u\<lparr>u_hiddenFromDiscovery := True, u_hiddenReason := Some reason\<rparr>)) (\<lambda>_.
        ret (0 < changed))))"

section \<open>Applying\<close>

record sanction_input =
  si_userId :: uuid
  si_type :: sanction_type
  si_reasonCode :: report_reason
  si_note :: string
  si_reportId :: "uuid option"
  si_durationDays :: "int option"
  si_reuseActive :: bool

record sanction_effects =
  ef_userId :: uuid
  ef_disconnect :: bool
  ef_endedMatches :: "(uuid \<times> uuid) list"
  ef_notify :: "safety_notification_kind option"

record applied_sanction =
  ap_sanction :: "user_sanction option"
  ap_created :: bool
  ap_effects :: sanction_effects

primrec AUDIT_ACTION :: "sanction_type \<Rightarrow> string" where
  "AUDIT_ACTION Warning = ''user.warn''"
| "AUDIT_ACTION Chat_restriction = ''user.restrict_chat''"
| "AUDIT_ACTION Suspension = ''user.suspend''"
| "AUDIT_ACTION Ban = ''user.ban''"

definition noEffects :: "uuid \<Rightarrow> sanction_effects" where
  "noEffects userId = \<lparr>ef_userId = userId, ef_disconnect = False, ef_endedMatches = [], ef_notify = None\<rparr>"

definition active_sanction :: "uuid \<Rightarrow> sanction_type \<Rightarrow> db \<Rightarrow> user_sanction option" where
  "active_sanction userId type s =
    find_row sanctions_table (\<lambda>x. sn_userId x = userId \<and> sn_type x = type \<and> sanction_is_active x) s"

text \<open>Also covers restrictions older than the sanction records.\<close>

definition in_effect :: "user \<Rightarrow> sanction_type \<Rightarrow> user_sanction option \<Rightarrow> bool" where
  "in_effect u type existing \<longleftrightarrow> existing \<noteq> None \<or> type = Suspension \<and> u_status u = U_suspended \<or>
    type = Chat_restriction \<and> u_chatRestrictedAt u \<noteq> None \<or> type = Ban \<and> u_status u = U_banned"

definition new_sanction :: "uuid \<Rightarrow> uuid \<Rightarrow> sanction_input \<Rightarrow> instant \<Rightarrow> user_sanction" where
  "new_sanction i adminId input t =
    \<lparr>sn_id = i, sn_userId = si_userId input, sn_type = si_type input, sn_reasonCode = si_reasonCode input,
      sn_note = si_note input, sn_reportId = si_reportId input, sn_startsAt = t,
      sn_endsAt = map_option (\<lambda>d. t + d * DAY_MS) (si_durationDays input), sn_createdByAdminId = adminId,
      sn_acknowledgedAt = None, sn_revokedAt = None, sn_revokedByAdminId = None, sn_revokeReason = None,
      sn_expiredAt = None, sn_createdAt = t\<rparr>"

definition revoke_sanctions :: "uuid \<Rightarrow> sanction_type \<Rightarrow> uuid \<Rightarrow> string \<Rightarrow> uuid list op" where
  "revoke_sanctions userId type adminId reason =
    (let P = (\<lambda>x. sn_userId x = userId \<and> sn_type x = type \<and> sanction_is_active x)
     in andThen now (\<lambda>t.
        andThen (gets (rows_where sanctions_table P)) (\<lambda>revoked.
        andThen (update_rows sanctions_table P
          (\<lambda>x. x\<lparr>sn_revokedAt := Some t, sn_revokedByAdminId := Some adminId, sn_revokeReason := Some reason\<rparr>)) (\<lambda>_.
        ret (map sn_id revoked)))))"

text \<open>The change of the account, with what follows the commit and how many interests were cancelled.\<close>

definition enforce :: "uuid \<Rightarrow> user \<Rightarrow> sanction_type \<Rightarrow> instant \<Rightarrow> (sanction_effects \<times> nat) op" where
  "enforce adminId u type t =
    (let none = noEffects (u_id u)
     in case type of
       Warning \<Rightarrow> ret (none\<lparr>ef_notify := Some Warning_issued\<rparr>, 0)
     | Chat_restriction \<Rightarrow>
         andThen (save users_table [setting u_chatRestrictedAt u_chatRestrictedAt_update (Some t)] u) (\<lambda>_.
         ret (none\<lparr>ef_notify := Some Chat_restricted\<rparr>, 0))
     | Suspension \<Rightarrow>
         andThen (setAccountStatus (u_id u) U_suspended) (\<lambda>_.
         ret (none\<lparr>ef_disconnect := True, ef_notify := Some Account_suspended\<rparr>, 0))
     | Ban \<Rightarrow>
         andThen (revoke_sanctions (u_id u) Suspension adminId ''Superseded by a ban.'') (\<lambda>_.
         andThen (setAccountStatus (u_id u) U_banned) (\<lambda>_.
         andThen (endAllMatchesOf (u_id u) adminId) (\<lambda>ended.
         andThen (cancelPendingInterestsOf (u_id u)) (\<lambda>cancelled.
         ret (none\<lparr>ef_endedMatches := ended, ef_disconnect := True\<rparr>, cancelled))))))"

definition meta_opt :: "('a \<Rightarrow> meta) \<Rightarrow> 'a option \<Rightarrow> meta" where
  "meta_opt f v = (case v of None \<Rightarrow> Meta_null | Some x \<Rightarrow> f x)"

definition sanction_metadata :: "user_sanction \<Rightarrow> sanction_input \<Rightarrow> user_status \<Rightarrow> sanction_effects \<Rightarrow> nat \<Rightarrow> metadata" where
  "sanction_metadata x input from' ef cancelled =
    [(''sanctionId'', Meta_id (sn_id x)), (''reason'', Meta_text (si_note input)),
     (''reasonCode'', Meta_reason (si_reasonCode input)), (''reportId'', meta_opt Meta_id (si_reportId input)),
     (''durationDays'', meta_opt Meta_num (si_durationDays input)), (''from'', Meta_status from')] @
    (if si_type input = Suspension then [(''to'', Meta_status U_suspended)] else []) @
    (if si_type input = Ban
     then [(''to'', Meta_status U_banned), (''matchesEnded'', Meta_num (int (length (ef_endedMatches ef)))),
       (''cancelledInterests'', Meta_num (int cancelled))] else [])"

definition impose :: "env \<Rightarrow> admin_actor \<Rightarrow> sanction_input \<Rightarrow> user \<Rightarrow> applied_sanction op" where
  "impose env actor input u =
    andThen now (\<lambda>t.
    andThen fresh_uuid (\<lambda>i.
    let x = new_sanction i (ac_adminId actor) input t
    in andThen (insert_row sanctions_table x) (\<lambda>_.
       andThen (enforce (ac_adminId actor) u (si_type input) t) (\<lambda>(ef, cancelled).
       andThen (recordAdminAction env (ac_adminId actor) (AUDIT_ACTION (si_type input)) Target_user
         (Some (si_userId input)) (sanction_metadata x input (u_status u) ef cancelled) (ac_ip actor)) (\<lambda>_.
       ret \<lparr>ap_sanction = Some x, ap_created = True, ap_effects = ef\<rparr>)))))"

definition applySanction :: "env \<Rightarrow> admin_actor \<Rightarrow> sanction_input \<Rightarrow> applied_sanction op" where
  "applySanction env actor input =
    (let userId = si_userId input; type = si_type input
     in andThen (ensure (si_durationDays input = None \<or> type = Suspension \<or> type = Chat_restriction)
          (App VALIDATION_ERROR)) (\<lambda>_.
        andThen (gets (live_account userId)) (\<lambda>found.
        andThen (from_option found (App NOT_FOUND)) (\<lambda>u.
        andThen (ensure (u_status u \<noteq> U_pending_deletion) (App CONFLICT)) (\<lambda>_.
        andThen (ensure (u_status u \<noteq> U_banned \<or> type = Ban) (App CONFLICT)) (\<lambda>_.
        andThen (gets (active_sanction userId type)) (\<lambda>existing.
        if type \<noteq> Warning \<and> in_effect u type existing
        then andThen (ensure (si_reuseActive input) (App CONFLICT)) (\<lambda>_.
          ret \<lparr>ap_sanction = existing, ap_created = False, ap_effects = noEffects userId\<rparr>)
        else impose env actor input u)))))))"

section \<open>Lifting\<close>

primrec LIFT_AUDIT_ACTION :: "sanction_type \<Rightarrow> string" where
  "LIFT_AUDIT_ACTION Chat_restriction = ''user.lift_chat_restriction''"
| "LIFT_AUDIT_ACTION Suspension = ''user.reactivate''"
| "LIFT_AUDIT_ACTION Ban = ''user.unban''"
| "LIFT_AUDIT_ACTION Warning = []"

text \<open>\<open>type\<close> is never a warning: the type of the source excludes it.\<close>

definition liftSanction :: "env \<Rightarrow> admin_actor \<Rightarrow> uuid \<Rightarrow> sanction_type \<Rightarrow> string \<Rightarrow> unit op" where
  "liftSanction env actor userId type reason =
    andThen (gets (live_account userId)) (\<lambda>found.
    andThen (from_option found (App NOT_FOUND)) (\<lambda>u.
    andThen (if type = Chat_restriction
        then andThen (ensure (u_chatRestrictedAt u \<noteq> None) (App CONFLICT)) (\<lambda>_.
          andThen (save users_table [setting u_chatRestrictedAt u_chatRestrictedAt_update None] u) (\<lambda>_. ret ()))
        else andThen (ensure (u_status u = (if type = Suspension then U_suspended else U_banned)) (App CONFLICT)) (\<lambda>_.
          setAccountStatus userId U_active)) (\<lambda>_.
    andThen (revoke_sanctions userId type (ac_adminId actor) reason) (\<lambda>revoked.
    recordAdminAction env (ac_adminId actor) (LIFT_AUDIT_ACTION type) Target_user (Some userId)
      ([(''reason'', Meta_text reason), (''revokedSanctionIds'', Meta_list (map Meta_id revoked)),
        (''from'', Meta_status (u_status u))] @
       (if type = Chat_restriction then [] else [(''to'', Meta_status U_active)])) (ac_ip actor)))))"

section \<open>After the commit\<close>

definition disconnectUser :: "uuid \<Rightarrow> disconnect_reason \<Rightarrow> unit op" where
  "disconnectUser userId reason =
    andThen (emit (To_user userId (Ev_session_ended reason))) (\<lambda>_. emit (Disconnect userId reason))"

definition safety_notice :: "uuid \<Rightarrow> safety_notification_kind \<Rightarrow> notify_input" where
  "safety_notice userId kind =
    \<lparr>ni_userId = userId, ni_type = Safety_notice, ni_actorUserId = None, ni_matchId = None,
      ni_interestId = None, ni_eventId = None, ni_bookingId = None,
      ni_data = \<lparr>nd_safetyKind = Some kind, nd_bookingKind = None\<rparr>\<rparr>"

definition applySanctionEffects :: "env \<Rightarrow> sanction_effects \<Rightarrow> unit op" where
  "applySanctionEffects env ef =
    andThen (each (\<lambda>(matchId, partnerId). emitMatchEnded (Some matchId) (ef_userId ef) partnerId) (ef_endedMatches ef)) (\<lambda>_.
    andThen (doWhen (ef_disconnect ef) (disconnectUser (ef_userId ef) Account_restricted)) (\<lambda>_.
    case ef_notify ef of None \<Rightarrow> ret () | Some kind \<Rightarrow> notify env (safety_notice (ef_userId ef) kind)))"

section \<open>Expiry\<close>

definition due_sanctions :: "instant \<Rightarrow> db \<Rightarrow> user_sanction list" where
  "due_sanctions t s =
    take 200 (sort_key (\<lambda>x. case sn_endsAt x of None \<Rightarrow> 0 | Some e \<Rightarrow> e)
      (rows_where sanctions_table
        (\<lambda>x. (case sn_endsAt x of None \<Rightarrow> False | Some e \<Rightarrow> e \<le> t) \<and> sanction_is_active x) s))"

text \<open>A suspended account only becomes active again if it is still suspended.\<close>

definition expire_sanction :: "instant \<Rightarrow> user_sanction \<Rightarrow> unit op" where
  "expire_sanction t x =
    andThen (save sanctions_table [setting sn_expiredAt sn_expiredAt_update (Some t)] x) (\<lambda>_.
    if sn_type x = Suspension
    then update_rows users_table (\<lambda>u. u_id u = sn_userId x \<and> u_deletedAt u = None \<and> u_status u = U_suspended)
      (\<lambda>u. u\<lparr>u_status := U_active\<rparr>)
    else if sn_type x = Chat_restriction
    then update_rows users_table (\<lambda>u. u_id u = sn_userId x \<and> u_deletedAt u = None) (\<lambda>u. u\<lparr>u_chatRestrictedAt := None\<rparr>)
    else ret ())"

definition expireSanctions :: "instant \<Rightarrow> (uuid \<times> uuid \<times> sanction_type) list op" where
  "expireSanctions t = transaction
    (andThen (gets (due_sanctions t)) (\<lambda>due.
     andThen (each (expire_sanction t) due) (\<lambda>_.
     ret (map (\<lambda>x. (sn_id x, sn_userId x, sn_type x)) due))))"

text \<open>One tick of the job: failures are logged and the job runs again a minute later.\<close>

definition expiry_tick :: "env \<Rightarrow> unit op" where
  "expiry_tick env = tryCatch
    (andThen now (\<lambda>t.
     andThen (expireSanctions t) (\<lambda>expired.
     each (\<lambda>(i, userId, type). recordSafety env Sanction_expired Sev_info (Some userId) None None
       [(''sanctionId'', Meta_id i), (''type'', Meta_sanction type)]) expired)))
    (\<lambda>_. ret ())"

section \<open>The member's view\<close>

definition loadSanctionHistory :: "uuid \<Rightarrow> db \<Rightarrow> user_sanction list" where
  "loadSanctionHistory userId s =
    take ADMIN_SANCTIONS_SHOWN (sort_desc (\<lambda>x. (sn_createdAt x, sn_id x))
      (rows_where sanctions_table (\<lambda>x. sn_userId x = userId) s))"

record safety_status =
  ss_accountStatus :: user_status
  ss_suspendedUntil :: "instant option"
  ss_chatRestricted :: bool
  ss_chatRestrictedUntil :: "instant option"
  ss_warnings :: "user_sanction list"

definition safety_status_of :: "uuid \<Rightarrow> db \<Rightarrow> failure + safety_status" where
  "safety_status_of userId s =
    (case live_account userId s of
       None \<Rightarrow> Inl (App UNAUTHENTICATED)
     | Some u \<Rightarrow>
         let endOf = (\<lambda>type. case active_sanction userId type s of None \<Rightarrow> None | Some x \<Rightarrow> sn_endsAt x)
         in Inr \<lparr>ss_accountStatus = u_status u,
              ss_suspendedUntil = (if u_status u = U_suspended then endOf Suspension else None),
              ss_chatRestricted = (u_chatRestrictedAt u \<noteq> None),
              ss_chatRestrictedUntil = (if u_chatRestrictedAt u \<noteq> None then endOf Chat_restriction else None),
              ss_warnings = take 10 (sort_desc (\<lambda>x. (sn_createdAt x, sn_id x))
                (rows_where sanctions_table (\<lambda>x. sn_userId x = userId \<and> sn_type x = Warning \<and>
                  sn_acknowledgedAt x = None \<and> sn_revokedAt x = None) s))\<rparr>)"

definition acknowledgeWarning :: "uuid \<Rightarrow> uuid \<Rightarrow> user_sanction op" where
  "acknowledgeWarning userId warningId =
    andThen (gets (find_row sanctions_table (\<lambda>x. sn_id x = warningId \<and> sn_userId x = userId \<and>
      sn_type x = Warning \<and> sn_revokedAt x = None))) (\<lambda>found.
    andThen (from_option found (App NOT_FOUND)) (\<lambda>x.
    if sn_acknowledgedAt x = None
    then andThen now (\<lambda>t. save sanctions_table [setting sn_acknowledgedAt sn_acknowledgedAt_update (Some t)] x)
    else ret x))"

end
