(* ===== verification/Suspicious.thy ===== *)
theory Suspicious
  imports Sanctions
begin

text \<open>
  Detection of suspicious activity (\<open>modules/safety/suspicious-activity.service.ts\<close>). It opens one
  system report per member and trigger; the strongest thing it does on its own is to hide a member.
\<close>

record detection =
  dt_userId :: uuid
  dt_trigger :: suspicious_trigger
  dt_reason :: report_reason
  dt_signals :: metadata
  dt_hide :: bool
  dt_messages :: "evidence_message list"

primrec suspicious_event :: "suspicious_trigger \<Rightarrow> safety_event_type" where
  "suspicious_event Money_requests = Suspicious_money_requests"
| "suspicious_event Repeated_messages = Suspicious_repeated_messages"
| "suspicious_event Frequently_blocked = Suspicious_frequently_blocked"

text \<open>What the evidence keeps of a profile: its name, bio and photo at that time.\<close>

definition profile_evidence :: "uuid \<Rightarrow> db \<Rightarrow> (string \<times> string option \<times> string option) option" where
  "profile_evidence userId s =
    map_option (\<lambda>p. (pf_displayName p, pf_bio p, pf_imagePublicId p)) (profile_of userId s)"

text \<open>A new report is open and unassigned; its priority follows from its reason.\<close>

definition new_report :: "uuid \<Rightarrow> report_source \<Rightarrow> uuid option \<Rightarrow> uuid \<Rightarrow> report_reason \<Rightarrow> string option \<Rightarrow>
    report_evidence \<Rightarrow> uuid option \<Rightarrow> uuid option \<Rightarrow> instant \<Rightarrow> report" where
  "new_report i source reporter reported reason details evidence messageId matchId t =
    \<lparr>rp_id = i, rp_source = source, rp_reporterId = reporter, rp_reportedUserId = reported, rp_reason = reason,
      rp_priority = REPORT_PRIORITY_BY_REASON reason, rp_details = details, rp_evidence = evidence,
      rp_status = R_open, rp_assignedAdminId = None, rp_resolutionAction = None, rp_resolutionNote = None,
      rp_resolvedByAdminId = None, rp_resolvedAt = None, rp_messageId = messageId, rp_matchId = matchId,
      rp_createdAt = t\<rparr>"

section \<open>Flagging\<close>

definition open_flag :: "uuid \<Rightarrow> suspicious_trigger \<Rightarrow> db \<Rightarrow> report option" where
  "open_flag userId trigger s = find_row reports_table
    (\<lambda>r. rp_reportedUserId r = userId \<and> rp_source r = System_source \<and> report_is_open r \<and>
      re_trigger (rp_evidence r) = Some trigger) s"

definition detected_signals :: "detection \<Rightarrow> instant \<Rightarrow> metadata" where
  "detected_signals d t = dt_signals d @ [(''lastDetectedAt'', Meta_at t)]"

text \<open>An open flag only gets the new signals; otherwise the new report, and whether it hid the member.\<close>

definition flag_tx :: "detection \<Rightarrow> (uuid \<times> bool) option op" where
  "flag_tx d = transaction
    (andThen (gets (open_flag (dt_userId d) (dt_trigger d))) (\<lambda>existing.
     andThen now (\<lambda>t.
     case existing of
       Some r \<Rightarrow>
         andThen (save reports_table [setting rp_evidence rp_evidence_update
           ((rp_evidence r)\<lparr>re_signals := detected_signals d t\<rparr>)] r) (\<lambda>_. ret None)
     | None \<Rightarrow>
         andThen (gets (profile_evidence (dt_userId d))) (\<lambda>profile.
         andThen fresh_uuid (\<lambda>i.
         andThen (insert_row reports_table (new_report i System_source None (dt_userId d) (dt_reason d) None
           \<lparr>re_profile = profile, re_trigger = Some (dt_trigger d), re_signals = detected_signals d t,
             re_messages = dt_messages d\<rparr> None None t)) (\<lambda>_.
         andThen (if dt_hide d then hideFromDiscovery (dt_userId d) Hidden_suspicious_activity else ret False) (\<lambda>hidden.
         ret (Some (i, hidden)))))))))"

definition flag :: "env \<Rightarrow> detection \<Rightarrow> unit op" where
  "flag env d =
    andThen (flag_tx d) (\<lambda>outcome.
    case outcome of
      None \<Rightarrow> ret ()
    | Some (reportId, hidden) \<Rightarrow>
        andThen (recordSafety env (suspicious_event (dt_trigger d)) Sev_warning (Some (dt_userId d)) None None
          ([(''reportId'', Meta_id reportId), (''hidden'', Meta_bool hidden)] @ dt_signals d)) (\<lambda>_.
        doWhen hidden
          (recordSafety env Safety_auto_hidden Sev_warning (Some (dt_userId d)) None None
            [(''reason'', Meta_text ''suspicious_activity''), (''reportId'', Meta_id reportId),
             (''trigger'', Meta_trigger (dt_trigger d))])))"

text \<open>Detections never throw.\<close>

definition safely :: "unit op \<Rightarrow> unit op" where
  "safely run = tryCatch run (\<lambda>_. ret ())"

section \<open>Detections\<close>

text \<open>A flagged message in the evidence is one of the suspected member.\<close>

definition flagged_snapshot :: "message \<Rightarrow> evidence_message" where
  "flagged_snapshot m = \<lparr>em_id = ms_id m, em_fromReporter = False, em_body = ms_body m,
    em_createdAt = ms_createdAt m, em_reported = True, em_containsContactInfo = ms_containsContactInfo m\<rparr>"

definition EVIDENCE_MESSAGES :: nat where [limits]: "EVIDENCE_MESSAGES = 5"

definition money_messages :: "uuid \<Rightarrow> db \<Rightarrow> message list" where
  "money_messages senderId s = take 50 (sort_desc (\<lambda>m. (ms_createdAt m, ms_id m))
    (rows_where messages_table (\<lambda>m. ms_senderId m = senderId \<and> ms_containsMoneyRequest m \<and>
      clock s - SUSPICIOUS_MONEY_WINDOW_HOURS * HOUR_MS < ms_createdAt m) s))"

definition chats_of :: "message list \<Rightarrow> nat" where
  "chats_of ms = length (remdups (map ms_matchId ms))"

definition money_detection :: "uuid \<Rightarrow> message list \<Rightarrow> detection" where
  "money_detection senderId flagged =
    \<lparr>dt_userId = senderId, dt_trigger = Money_requests, dt_reason = Asking_for_money,
      dt_signals = [(''moneyRequestMessages'', Meta_num (int (length flagged))),
        (''chats'', Meta_num (int (chats_of flagged))), (''windowHours'', Meta_num SUSPICIOUS_MONEY_WINDOW_HOURS)],
      dt_hide = True, dt_messages = map flagged_snapshot (rev (take EVIDENCE_MESSAGES flagged))\<rparr>"

definition detect_money :: "env \<Rightarrow> message \<Rightarrow> unit op" where
  "detect_money env m =
    andThen (gets (money_messages (ms_senderId m))) (\<lambda>flagged.
    doWhen (SUSPICIOUS_MONEY_MESSAGES \<le> length flagged) (flag env (money_detection (ms_senderId m) flagged)))"

definition same_text_chats :: "message \<Rightarrow> db \<Rightarrow> nat" where
  "same_text_chats m s = chats_of (rows_where messages_table
    (\<lambda>x. ms_senderId x = ms_senderId m \<and> ms_body x = ms_body m \<and>
      clock s - SUSPICIOUS_REPEATED_WINDOW_HOURS * HOUR_MS < ms_createdAt x) s)"

definition repeated_detection :: "message \<Rightarrow> nat \<Rightarrow> detection" where
  "repeated_detection m chats =
    \<lparr>dt_userId = ms_senderId m, dt_trigger = Repeated_messages, dt_reason = Spam,
      dt_signals = [(''sameMessageChats'', Meta_num (int chats)),
        (''windowHours'', Meta_num SUSPICIOUS_REPEATED_WINDOW_HOURS)],
      dt_hide = True, dt_messages = [flagged_snapshot m]\<rparr>"

definition detect_repeated :: "env \<Rightarrow> message \<Rightarrow> unit op" where
  "detect_repeated env m =
    andThen (gets (same_text_chats m)) (\<lambda>chats.
    doWhen (SUSPICIOUS_REPEATED_MESSAGE_CHATS \<le> chats) (flag env (repeated_detection m chats)))"

definition afterMessage :: "env \<Rightarrow> message \<Rightarrow> unit op" where
  "afterMessage env m =
    andThen (doWhen (ms_containsMoneyRequest m) (safely (detect_money env m))) (\<lambda>_.
    doWhen (SUSPICIOUS_REPEATED_MIN_LENGTH \<le> length (ms_body m)) (safely (detect_repeated env m)))"

definition recent_blockers :: "uuid \<Rightarrow> db \<Rightarrow> nat" where
  "recent_blockers blockedUserId s = count_where
    (\<lambda>b. bl_blockedId b = blockedUserId \<and> clock s - SUSPICIOUS_BLOCKED_WINDOW_DAYS * DAY_MS < bl_createdAt b)
    (t_blocks s)"

definition blocked_detection :: "uuid \<Rightarrow> nat \<Rightarrow> detection" where
  "blocked_detection userId blockers =
    \<lparr>dt_userId = userId, dt_trigger = Frequently_blocked, dt_reason = Other,
      dt_signals = [(''blockedByMembers'', Meta_num (int blockers)),
        (''windowDays'', Meta_num SUSPICIOUS_BLOCKED_WINDOW_DAYS)],
      dt_hide = False, dt_messages = []\<rparr>"

definition afterBlock :: "env \<Rightarrow> uuid \<Rightarrow> unit op" where
  "afterBlock env blockedUserId = safely
    (andThen (gets (recent_blockers blockedUserId)) (\<lambda>blockers.
     doWhen (SUSPICIOUS_BLOCKED_BY_MEMBERS \<le> blockers) (flag env (blocked_detection blockedUserId blockers))))"

end
