(* ===== verification/Blocks.thy ===== *)
theory Blocks
  imports Suspicious
begin

text \<open>
  Blocking (\<open>modules/safety/blocks.service.ts\<close>) and reporting (\<open>reports.service.ts\<close>) a member. Both
  separate the two members: pending interests are cancelled, an active match ends and the notifications
  between them go. ISO texts of instants are the instants themselves.
\<close>

section \<open>Blocks\<close>

text \<open>\<open>Block.findOrCreate\<close>: true if the block is new.\<close>

definition find_or_create_block :: "uuid \<Rightarrow> uuid \<Rightarrow> bool op" where
  "find_or_create_block blockerId blockedId =
    andThen (gets (find_row blocks_table (\<lambda>b. bl_blockerId b = blockerId \<and> bl_blockedId b = blockedId))) (\<lambda>found.
    if found \<noteq> None then ret False
    else andThen fresh_uuid (\<lambda>i.
      andThen now (\<lambda>t.
      andThen (insert_row blocks_table
        \<lparr>bl_id = i, bl_blockerId = blockerId, bl_blockedId = blockedId, bl_createdAt = t\<rparr>) (\<lambda>_. ret True))))"

definition block_tx :: "uuid \<Rightarrow> uuid \<Rightarrow> (bool \<times> uuid option) op" where
  "block_tx blockerId targetUserId = transaction
    (andThen (find_or_create_block blockerId targetUserId) (\<lambda>isNew.
     andThen (endConnections blockerId targetUserId M_blocked (Some blockerId) None) (\<lambda>ended.
     andThen (removeNotificationsBetween blockerId targetUserId) (\<lambda>_. ret (isNew, ended)))))"

definition block_member :: "env \<Rightarrow> uuid \<Rightarrow> uuid \<Rightarrow> string \<Rightarrow> bool op" where
  "block_member env blockerId targetUserId ip =
    andThen (ensure (blockerId \<noteq> targetUserId) (App VALIDATION_ERROR)) (\<lambda>_.
    andThen (gets (live_account targetUserId)) (\<lambda>target.
    andThen (ensure (target \<noteq> None) (App NOT_FOUND)) (\<lambda>_.
    andThen (block_tx blockerId targetUserId) (\<lambda>(created, endedMatchId).
    andThen (emitMatchEnded endedMatchId blockerId targetUserId) (\<lambda>_.
    andThen (doWhen created
      (andThen (recordSafety env Safety_block_created Sev_info (Some blockerId) None (Some ip)
          [(''blockedUserId'', Meta_id targetUserId)])
        (\<lambda>_. afterBlock env targetUserId))) (\<lambda>_.
    ret created))))))"

definition unblock_member :: "env \<Rightarrow> uuid \<Rightarrow> uuid \<Rightarrow> string \<Rightarrow> bool op" where
  "unblock_member env blockerId targetUserId ip =
    (let P = (\<lambda>b. bl_blockerId b = blockerId \<and> bl_blockedId b = targetUserId)
     in andThen (gets (\<lambda>s. count_where P (t_blocks s))) (\<lambda>removed.
        andThen (delete_rows blocks_table P) (\<lambda>_.
        andThen (doWhen (0 < removed)
          (recordSafety env Safety_block_removed Sev_info (Some blockerId) None (Some ip)
            [(''unblockedUserId'', Meta_id targetUserId)])) (\<lambda>_.
        ret (0 < removed)))))"

record blocked_member_dto =
  bd_userId :: uuid
  bd_name :: "string option"
  bd_thumbnail :: "string option"
  bd_blockedAt :: instant

definition blocked_member_dto_of :: "db \<Rightarrow> block \<Rightarrow> blocked_member_dto" where
  "blocked_member_dto_of s b =
    (let profile = (if live_account (bl_blockedId b) s = None then None else profile_of (bl_blockedId b) s)
     in \<lparr>bd_userId = bl_blockedId b, bd_name = map_option pf_displayName profile,
          bd_thumbnail = (case profile of None \<Rightarrow> None | Some p \<Rightarrow> toImageDto p),
          bd_blockedAt = bl_createdAt b\<rparr>)"

definition list_blocks :: "uuid \<Rightarrow> db \<Rightarrow> blocked_member_dto list" where
  "list_blocks blockerId s = map (blocked_member_dto_of s)
    (sort_desc bl_createdAt (rows_where blocks_table (\<lambda>b. bl_blockerId b = blockerId) s))"

section \<open>Evidence\<close>

definition earlier_messages :: "message \<Rightarrow> db \<Rightarrow> message list" where
  "earlier_messages m s = take REPORT_MESSAGE_CONTEXT (sort_desc (\<lambda>x. (ms_createdAt x, ms_id x))
    (rows_where messages_table (\<lambda>x. ms_matchId x = ms_matchId m \<and>
      (ms_createdAt x < ms_createdAt m \<or> ms_createdAt x = ms_createdAt m \<and> ms_id x < ms_id m)) s))"

definition snapshot :: "uuid \<Rightarrow> bool \<Rightarrow> message \<Rightarrow> evidence_message" where
  "snapshot reporterId reported m = \<lparr>em_id = ms_id m, em_fromReporter = (ms_senderId m = reporterId),
    em_body = ms_body m, em_createdAt = ms_createdAt m, em_reported = reported,
    em_containsContactInfo = ms_containsContactInfo m\<rparr>"

text \<open>
  Only a message the reported member sent, in a chat of the reporter; a foreign message looks like a
  missing one. The snapshot has the message and those before it, oldest first.
\<close>

definition messageEvidence ::
    "uuid \<Rightarrow> uuid \<Rightarrow> uuid \<Rightarrow> db \<Rightarrow> failure + uuid \<times> evidence_message list" where
  "messageEvidence reporterId reportedUserId messageId s =
    (case by_key messages_table messageId s of
       None \<Rightarrow> Inl (App NOT_FOUND)
     | Some m \<Rightarrow>
         (case by_key matches_table (ms_matchId m) s of
            None \<Rightarrow> Inl (App NOT_FOUND)
          | Some x \<Rightarrow>
              if \<not> of_member reporterId x then Inl (App NOT_FOUND)
              else if ms_senderId m \<noteq> reportedUserId then Inl (App VALIDATION_ERROR)
              else Inr (m_id x, map (snapshot reporterId False) (rev (earlier_messages m s)) @
                [snapshot reporterId True m])))"

text \<open>A \<open>Map\<close> keyed by the id keeps its insertion order; the sort by time is stable.\<close>

fun merge_message :: "evidence_message \<Rightarrow> evidence_message list \<Rightarrow> evidence_message list" where
  "merge_message added [] = [added]"
| "merge_message added (x # xs) =
    (if em_id x = em_id added then x\<lparr>em_reported := em_reported x \<or> em_reported added\<rparr> # xs
     else x # merge_message added xs)"

definition mergeMessages :: "evidence_message list \<Rightarrow> evidence_message list \<Rightarrow> evidence_message list" where
  "mergeMessages current added = sort_key em_createdAt (fold merge_message added current)"

section \<open>Reports\<close>

record report_input =
  ri_reportedUserId :: uuid
  ri_reason :: report_reason
  ri_details :: "string option"
  ri_alsoBlock :: bool
  ri_messageId :: "uuid option"

definition open_report :: "uuid \<Rightarrow> uuid \<Rightarrow> db \<Rightarrow> report option" where
  "open_report reporterId reportedUserId s = find_row reports_table
    (\<lambda>r. rp_reporterId r = Some reporterId \<and> rp_reportedUserId r = reportedUserId \<and> report_is_open r) s"

definition chat_evidence ::
    "uuid \<Rightarrow> report_input \<Rightarrow> db \<Rightarrow> failure + (uuid \<times> evidence_message list) option" where
  "chat_evidence reporterId input s =
    (case ri_messageId input of
       None \<Rightarrow> Inr None
     | Some i \<Rightarrow> map_sum id Some (messageEvidence reporterId (ri_reportedUserId input) i s))"

definition create_report :: "uuid \<Rightarrow> report_input \<Rightarrow> (uuid \<times> evidence_message list) option \<Rightarrow> report op" where
  "create_report reporterId input chat =
    andThen (gets (profile_evidence (ri_reportedUserId input))) (\<lambda>profile.
    andThen fresh_uuid (\<lambda>i.
    andThen now (\<lambda>t.
    let r = new_report i Member_source (Some reporterId) (ri_reportedUserId input) (ri_reason input) (ri_details input)
      \<lparr>re_profile = profile, re_trigger = None, re_signals = [],
        re_messages = (case chat of None \<Rightarrow> [] | Some (_, ms) \<Rightarrow> ms)\<rparr>
      (ri_messageId input) (map_option fst chat) t
    in andThen (insert_row reports_table r) (\<lambda>_. ret r))))"

definition or_else_opt :: "'a option \<Rightarrow> 'a option \<Rightarrow> 'a option" where
  "or_else_opt a b = (case a of None \<Rightarrow> b | Some x \<Rightarrow> Some x)"

text \<open>An open report gets the newly reported message.\<close>

definition extend_report :: "report_input \<Rightarrow> uuid \<times> evidence_message list \<Rightarrow> report \<Rightarrow> report op" where
  "extend_report input chat r = save reports_table
    [setting rp_messageId rp_messageId_update (or_else_opt (rp_messageId r) (ri_messageId input)),
     setting rp_matchId rp_matchId_update (or_else_opt (rp_matchId r) (Some (fst chat))),
     setting rp_evidence rp_evidence_update
       ((rp_evidence r)\<lparr>re_messages := mergeMessages (re_messages (rp_evidence r)) (snd chat)\<rparr>)] r"

definition recent_reporters :: "uuid \<Rightarrow> db \<Rightarrow> nat" where
  "recent_reporters reportedUserId s = length (remdups (concat (map
    (\<lambda>r. case rp_reporterId r of None \<Rightarrow> [] | Some i \<Rightarrow> [i])
    (rows_where reports_table (\<lambda>r. rp_reportedUserId r = reportedUserId \<and> rp_source r = Member_source \<and>
      clock s - AUTO_HIDE_WINDOW_DAYS * DAY_MS < rp_createdAt r) s))))"

definition auto_hide :: "report_input \<Rightarrow> hidden_reason option op" where
  "auto_hide input =
    (if REPORT_PRIORITY_BY_REASON (ri_reason input) = 0
     then andThen (hideFromDiscovery (ri_reportedUserId input) Hidden_p0_report) (\<lambda>hidden.
       ret (if hidden then Some Hidden_p0_report else None))
     else andThen (gets (recent_reporters (ri_reportedUserId input))) (\<lambda>reporters.
       if AUTO_HIDE_REPORT_THRESHOLD \<le> reporters
       then andThen (hideFromDiscovery (ri_reportedUserId input) Hidden_report_threshold) (\<lambda>hidden.
         ret (if hidden then Some Hidden_report_threshold else None))
       else ret None))"

record report_outcome =
  ro_report :: report
  ro_alreadyReported :: bool
  ro_blocked :: bool
  ro_hiddenReason :: "hidden_reason option"
  ro_endedMatchId :: "uuid option"

definition separate_members :: "uuid \<Rightarrow> uuid \<Rightarrow> bool \<Rightarrow> uuid option op" where
  "separate_members reporterId reportedUserId alsoBlock =
    andThen (doWhen alsoBlock (andThen (find_or_create_block reporterId reportedUserId) (\<lambda>_. ret ()))) (\<lambda>_.
    andThen (endConnections reporterId reportedUserId (if alsoBlock then M_blocked else M_closed) (Some reporterId) None)
      (\<lambda>ended.
    andThen (removeNotificationsBetween reporterId reportedUserId) (\<lambda>_. ret ended)))"

definition report_tx :: "uuid \<Rightarrow> report_input \<Rightarrow> report_outcome op" where
  "report_tx reporterId input = transaction
    (andThen (andThen (gets (chat_evidence reporterId input)) from_sum) (\<lambda>chat.
     andThen (gets (open_report reporterId (ri_reportedUserId input))) (\<lambda>existing.
     andThen (case existing of
         None \<Rightarrow> create_report reporterId input chat
       | Some r \<Rightarrow> (case chat of None \<Rightarrow> ret r | Some c \<Rightarrow> extend_report input c r)) (\<lambda>report.
     andThen (separate_members reporterId (ri_reportedUserId input) (ri_alsoBlock input)) (\<lambda>ended.
     andThen (if existing = None then auto_hide input else ret None) (\<lambda>hidden.
     ret \<lparr>ro_report = report, ro_alreadyReported = (existing \<noteq> None), ro_blocked = ri_alsoBlock input,
       ro_hiddenReason = hidden, ro_endedMatchId = ended\<rparr>))))))"

definition reports_today :: "uuid \<Rightarrow> db \<Rightarrow> nat" where
  "reports_today reporterId s = count_where
    (\<lambda>r. rp_reporterId r = Some reporterId \<and> clock s - DAY_MS < rp_createdAt r) (t_reports s)"

definition report_severity :: "nat \<Rightarrow> safety_severity" where
  "report_severity priority = (if priority = 0 then Sev_critical else if priority = 1 then Sev_warning else Sev_info)"

definition hidden_text :: "hidden_reason \<Rightarrow> string" where
  "hidden_text r = (case r of Hidden_p0_report \<Rightarrow> ''p0_report'' | Hidden_report_threshold \<Rightarrow> ''report_threshold''
    | Hidden_no_visible_photo \<Rightarrow> ''no_visible_photo'' | Hidden_suspicious_activity \<Rightarrow> ''suspicious_activity'')"

definition log_report :: "env \<Rightarrow> uuid \<Rightarrow> report_input \<Rightarrow> string \<Rightarrow> report_outcome \<Rightarrow> unit op" where
  "log_report env reporterId input ip outcome =
    (let priority = REPORT_PRIORITY_BY_REASON (ri_reason input)
     in andThen (doWhen (\<not> ro_alreadyReported outcome)
          (recordSafety env Safety_report_created (report_severity priority) (Some (ri_reportedUserId input)) None (Some ip)
            [(''reportId'', Meta_id (rp_id (ro_report outcome))), (''reason'', Meta_reason (ri_reason input)),
             (''priority'', Meta_num (int priority)), (''reporterId'', Meta_id reporterId),
             (''involvesChat'', Meta_bool (ri_messageId input \<noteq> None))])) (\<lambda>_.
        case ro_hiddenReason outcome of
          None \<Rightarrow> ret ()
        | Some reason \<Rightarrow>
            recordSafety env Safety_auto_hidden Sev_warning (Some (ri_reportedUserId input)) None None
              [(''reason'', Meta_text (hidden_text reason)), (''reportId'', Meta_id (rp_id (ro_report outcome)))]))"

definition assertMayReport :: "env \<Rightarrow> uuid \<Rightarrow> report_input \<Rightarrow> string \<Rightarrow> unit op" where
  "assertMayReport env reporterId input ip =
    andThen (ensure (reporterId \<noteq> ri_reportedUserId input) (App VALIDATION_ERROR)) (\<lambda>_.
    andThen (gets (live_account (ri_reportedUserId input))) (\<lambda>reported.
    andThen (ensure (reported \<noteq> None) (App NOT_FOUND)) (\<lambda>_.
    andThen (gets (reports_today reporterId)) (\<lambda>recent.
    doWhen (REPORTS_PER_DAY \<le> recent)
      (andThen (recordSafety env Safety_report_limit_reached Sev_warning (Some reporterId) None (Some ip)
          [(''reportsLast24h'', Meta_num (int recent))])
        (\<lambda>_. throw (App RATE_LIMITED)))))))"

text \<open>The id of the report, whether it was open before, and whether the reporter blocked too.\<close>

definition report_member :: "env \<Rightarrow> uuid \<Rightarrow> report_input \<Rightarrow> string \<Rightarrow> (uuid \<times> bool \<times> bool) op" where
  "report_member env reporterId input ip =
    andThen (assertMayReport env reporterId input ip) (\<lambda>_.
    andThen (report_tx reporterId input) (\<lambda>outcome.
    andThen (emitMatchEnded (ro_endedMatchId outcome) reporterId (ri_reportedUserId input)) (\<lambda>_.
    andThen (log_report env reporterId input ip outcome) (\<lambda>_.
    ret (rp_id (ro_report outcome), ro_alreadyReported outcome, ro_blocked outcome)))))"

end
