(* ===== verification/Regex.thy ===== *)
theory Regex
  imports Prelude
begin

text \<open>
  The regular expressions of JavaScript that the program uses, as data. A text is a list of UTF-16
  code units. \<open>rx_ends\<close> computes where the matches of an expression that start at a position can end;
  \<open>rx_matches\<close> is the meaning it is checked against. Greediness does not matter for \<open>test\<close>, which
  only asks whether there is a match.
\<close>

definition units :: "string \<Rightarrow> js_text" where "units = map of_char"

datatype rx = One "code_unit \<Rightarrow> bool" | Empty | Word_boundary | At_start | At_end
  | Seq rx rx | Or rx rx | Many rx nat "nat option"

section \<open>Character classes\<close>

definition is_digit :: "code_unit \<Rightarrow> bool" where "is_digit c \<longleftrightarrow> 48 \<le> c \<and> c \<le> 57"

definition is_word :: "code_unit \<Rightarrow> bool" where
  "is_word c \<longleftrightarrow> is_digit c \<or> 65 \<le> c \<and> c \<le> 90 \<or> 97 \<le> c \<and> c \<le> 122 \<or> c = 95"

text \<open>White space and line terminators, as \<open>\s\<close> and \<open>trim\<close> know them.\<close>

definition is_white :: "code_unit \<Rightarrow> bool" where
  "is_white c \<longleftrightarrow> 9 \<le> c \<and> c \<le> 13 \<or> List.member [32, 160, 5760, 8232, 8233, 8239, 8287, 12288, 65279] c \<or>
    8192 \<le> c \<and> c \<le> 8202"

definition any_of :: "string \<Rightarrow> code_unit \<Rightarrow> bool" where "any_of cs c \<longleftrightarrow> List.member (units cs) c"

text \<open>The \<open>i\<close> flag of an ASCII pattern: letters match in both cases.\<close>

definition lower_unit :: "code_unit \<Rightarrow> code_unit" where "lower_unit c = (if 65 \<le> c \<and> c \<le> 90 then c + 32 else c)"

section \<open>Building expressions\<close>

fun rx_seq :: "rx list \<Rightarrow> rx" where
  "rx_seq [] = Empty"
| "rx_seq [r] = r"
| "rx_seq (r # rs) = Seq r (rx_seq rs)"

fun rx_or :: "rx list \<Rightarrow> rx" where
  "rx_or [] = One (\<lambda>_. False)"
| "rx_or [r] = r"
| "rx_or (r # rs) = Or r (rx_or rs)"

definition rx_lit :: "string \<Rightarrow> rx" where "rx_lit w = rx_seq (map (\<lambda>c. One (\<lambda>x. x = c)) (units w))"

text \<open>A literal under the \<open>i\<close> flag.\<close>

definition rx_word :: "string \<Rightarrow> rx" where
  "rx_word w = rx_seq (map (\<lambda>c. One (\<lambda>x. lower_unit x = lower_unit c)) (units w))"

abbreviation rx_star :: "rx \<Rightarrow> rx" where "rx_star r \<equiv> Many r 0 None"
abbreviation rx_plus :: "rx \<Rightarrow> rx" where "rx_plus r \<equiv> Many r 1 None"
abbreviation rx_opt :: "rx \<Rightarrow> rx" where "rx_opt r \<equiv> Many r 0 (Some 1)"
abbreviation rx_white :: rx where "rx_white \<equiv> One is_white"
abbreviation rx_digit :: rx where "rx_digit \<equiv> One is_digit"

section \<open>Matching\<close>

definition word_at :: "js_text \<Rightarrow> nat \<Rightarrow> bool" where "word_at s i \<longleftrightarrow> i < length s \<and> is_word (s ! i)"

definition boundary_at :: "js_text \<Rightarrow> nat \<Rightarrow> bool" where
  "boundary_at s i \<longleftrightarrow> (0 < i \<and> word_at s (i - 1)) \<noteq> word_at s i"

fun rep_ends :: "(nat \<Rightarrow> nat list) \<Rightarrow> nat \<Rightarrow> nat list \<Rightarrow> nat list" where
  "rep_ends f 0 ps = ps"
| "rep_ends f (Suc n) ps = rep_ends f n (remdups (concat (map f ps)))"

definition most_reps :: "nat \<Rightarrow> nat option \<Rightarrow> nat \<Rightarrow> nat" where
  "most_reps lo hi n = (case hi of None \<Rightarrow> lo + n | Some h \<Rightarrow> h)"

primrec rx_ends :: "rx \<Rightarrow> js_text \<Rightarrow> nat \<Rightarrow> nat list" where
  "rx_ends (One P) s i = (if i < length s \<and> P (s ! i) then [Suc i] else [])"
| "rx_ends Empty s i = [i]"
| "rx_ends Word_boundary s i = (if boundary_at s i then [i] else [])"
| "rx_ends At_start s i = (if i = 0 then [i] else [])"
| "rx_ends At_end s i = (if i = length s then [i] else [])"
| "rx_ends (Seq a b) s i = remdups (concat (map (rx_ends b s) (rx_ends a s i)))"
| "rx_ends (Or a b) s i = remdups (rx_ends a s i @ rx_ends b s i)"
| "rx_ends (Many r lo hi) s i =
    remdups (concat (map (\<lambda>n. rep_ends (rx_ends r s) n [i]) [lo ..< Suc (most_reps lo hi (length s))]))"

definition rx_test :: "rx \<Rightarrow> js_text \<Rightarrow> bool" where
  "rx_test r s \<longleftrightarrow> list_ex (\<lambda>i. rx_ends r s i \<noteq> []) [0 ..< Suc (length s)]"

section \<open>The meaning\<close>

primrec rx_matches :: "rx \<Rightarrow> js_text \<Rightarrow> nat \<Rightarrow> nat \<Rightarrow> bool" where
  "rx_matches (One P) s = (\<lambda>i j. i < length s \<and> P (s ! i) \<and> j = Suc i)"
| "rx_matches Empty s = (=)"
| "rx_matches Word_boundary s = (\<lambda>i j. boundary_at s i \<and> j = i)"
| "rx_matches At_start s = (\<lambda>i j. i = 0 \<and> j = i)"
| "rx_matches At_end s = (\<lambda>i j. i = length s \<and> j = i)"
| "rx_matches (Seq a b) s = rx_matches a s OO rx_matches b s"
| "rx_matches (Or a b) s = (\<lambda>i j. rx_matches a s i j \<or> rx_matches b s i j)"
| "rx_matches (Many r lo hi) s =
    (\<lambda>i j. \<exists>n \<ge> lo. (case hi of None \<Rightarrow> True | Some h \<Rightarrow> n \<le> h) \<and> (rx_matches r s ^^ n) i j)"

text \<open>A match ends where it starts or further on in the text.\<close>

definition advances :: "nat \<Rightarrow> (nat \<Rightarrow> nat \<Rightarrow> bool) \<Rightarrow> bool" where
  "advances L R \<longleftrightarrow> (\<forall>i j. R i j \<longrightarrow> i = j \<or> i < j \<and> j \<le> L)"

lemma advances_chain: "advances L R \<Longrightarrow> advances L (R ^^ n)"
proof (induction n)
  case (Suc n)
  then show ?case unfolding advances_def by (auto elim!: relcomppE) (metis less_trans)+
qed (auto simp: advances_def)

lemma rx_matches_advances: "advances (length s) (rx_matches r s)"
proof (induction r)
  case (Seq a b)
  then show ?case unfolding advances_def by (auto elim!: relcomppE) (metis less_trans)+
next
  case (Many r lo hi)
  from advances_chain[OF this] show ?case unfolding advances_def by auto
qed (auto simp: advances_def)

lemma set_rep_ends:
  "(\<And>i. set (f i) = {j. R i j}) \<Longrightarrow> set (rep_ends f n ps) = {j. \<exists>i \<in> set ps. (R ^^ n) i j}"
proof (induction n arbitrary: ps)
  case (Suc n)
  have "(R ^^ Suc n) i j \<longleftrightarrow> (\<exists>k. R i k \<and> (R ^^ n) k j)" for i j
    by (metis relcomppE relcomppI relpowp_Suc_D2 relpowp_Suc_I2)
  with Suc show ?case by auto
qed auto

text \<open>A chain of more steps than the text has units has a step that stays in place.\<close>

lemma shorten_chain:
  assumes "advances L R"
  shows "(R ^^ n) i j \<Longrightarrow> i + n \<le> j \<or> (\<exists>m. n = Suc m \<and> (R ^^ m) i j)"
proof (induction n arbitrary: j)
  case (Suc n)
  then obtain k where k: "(R ^^ n) i k" "R k j" by auto
  show ?case
  proof (cases "k = j")
    case True
    with k(1) show ?thesis by blast
  next
    case False
    with assms k(2) have "k < j" by (auto simp: advances_def)
    from Suc.IH[OF k(1)] show ?thesis
    proof
      assume "i + n \<le> k"
      with \<open>k < j\<close> show ?thesis by simp
    next
      assume "\<exists>m. n = Suc m \<and> (R ^^ m) i k"
      with k(2) have "(R ^^ n) i j" by auto
      then show ?thesis by blast
    qed
  qed
qed simp

lemma bounded_chain:
  assumes "advances L R"
  shows "(R ^^ n) i j \<Longrightarrow> lo \<le> n \<Longrightarrow> \<exists>m \<ge> lo. m \<le> lo + L \<and> (R ^^ m) i j"
proof (induction n)
  case (Suc n)
  show ?case
  proof (cases "Suc n \<le> lo + L")
    case False
    have "i = j \<or> j \<le> L" using advances_chain[OF assms, of "Suc n"] Suc.prems(1) unfolding advances_def by blast
    then have "\<not> i + Suc n \<le> j" using False by auto
    with shorten_chain[OF assms Suc.prems(1)] have "(R ^^ n) i j" by blast
    moreover have "lo \<le> n" using False by simp
    ultimately show ?thesis using Suc.IH by blast
  qed (use Suc.prems in blast)
qed auto

theorem rx_ends_correct: "set (rx_ends r s i) = {j. rx_matches r s i j}"
proof (induction r arbitrary: i)
  case (Many r lo hi)
  have reps: "set (rep_ends (rx_ends r s) n [i]) = {j. (rx_matches r s ^^ n) i j}" for n
    using set_rep_ends[of "rx_ends r s" "rx_matches r s" n "[i]"] Many by simp
  show ?case
  proof (cases hi)
    case None
    have "(\<exists>n \<in> {lo ..< Suc (lo + length s)}. (rx_matches r s ^^ n) i j) \<longleftrightarrow> (\<exists>n \<ge> lo. (rx_matches r s ^^ n) i j)" for j
      using bounded_chain[OF rx_matches_advances[of s r], of _ i j lo] by (auto simp: less_Suc_eq_le Bex_def)
    then show ?thesis by (simp add: reps None most_reps_def del: upt_Suc) blast
  next
    case (Some h)
    then show ?thesis by (auto simp: reps most_reps_def less_Suc_eq_le simp del: upt_Suc)
  qed
qed auto

lemma rx_test_iff: "rx_test r s \<longleftrightarrow> (\<exists>i j. i \<le> length s \<and> rx_matches r s i j)"
proof -
  have "rx_ends r s i \<noteq> [] \<longleftrightarrow> (\<exists>j. rx_matches r s i j)" for i
    using rx_ends_correct[of r s i] by (metis Collect_empty_eq set_empty)
  then show ?thesis by (auto simp: rx_test_def list_ex_iff less_Suc_eq_le simp del: upt_Suc)
qed

end
