(* ===== verification/Text_Patterns.thy ===== *)
theory Text_Patterns
  imports Regex
begin

text \<open>
  Detection of contact details and money requests in free texts, and the cleaning of texts
  (\<open>packages/shared/src/utils/text.ts\<close>), with the phone numbers of \<open>utils/phone.ts\<close>. Unicode
  normalisation (NFKC) is a parameter; 8377 is the code unit of the rupee sign, 8226 of a bullet.
\<close>

section \<open>Contact details\<close>

definition separator :: "code_unit \<Rightarrow> bool" where "separator c \<longleftrightarrow> is_white c \<or> any_of ''-().'' c"

definition PHONE_LIKE :: rx where
  "PHONE_LIKE = Many (rx_seq [rx_opt (rx_lit ''+''), rx_digit, rx_star (One separator)]) 8 None"

definition EMAIL_LIKE :: rx where
  "EMAIL_LIKE = rx_seq [rx_plus (One (\<lambda>c. is_word c \<or> any_of ''.+-'' c)), rx_lit ''@'',
    rx_plus (One (\<lambda>c. is_word c \<or> any_of ''-'' c)), rx_lit ''.'', rx_plus (One (\<lambda>c. is_word c \<or> any_of ''.-'' c))]"

definition URL_LIKE :: rx where
  "URL_LIKE = Or
    (rx_seq [Word_boundary,
      rx_or [rx_seq [rx_word ''http'', rx_opt (rx_word ''s''), rx_word ''://''], rx_word ''www.''],
      rx_plus (One (\<lambda>c. \<not> is_white c))])
    (rx_seq [Word_boundary, rx_plus (One (\<lambda>c. is_word c \<or> any_of ''-'' c)), rx_lit ''.'',
      rx_or (map rx_word [''com'', ''in'', ''net'', ''org'', ''me'', ''io'', ''co'', ''app'', ''link'', ''ly'']), Word_boundary])"

definition looksLikeContactInfo :: "js_text \<Rightarrow> bool" where
  "looksLikeContactInfo s \<longleftrightarrow> rx_test PHONE_LIKE s \<or> rx_test EMAIL_LIKE s \<or> rx_test URL_LIKE s"

definition is_letter :: "code_unit \<Rightarrow> bool" where "is_letter c \<longleftrightarrow> 97 \<le> lower_unit c \<and> lower_unit c \<le> 122"

definition UPI_LIKE :: rx where
  "UPI_LIKE = rx_seq [Word_boundary, Many (One (\<lambda>c. is_word c \<or> any_of ''.-'' c)) 2 None, rx_lit ''@'',
    Many (One is_letter) 2 None, Word_boundary]"

definition looksLikeContactDetails :: "js_text \<Rightarrow> bool" where
  "looksLikeContactDetails s \<longleftrightarrow> looksLikeContactInfo s \<or> rx_test UPI_LIKE s"

section \<open>Money requests\<close>

abbreviation rx_words :: "string list \<Rightarrow> rx" where "rx_words ws \<equiv> rx_or (map rx_word ws)"
abbreviation rx_rupee :: rx where "rx_rupee \<equiv> One (\<lambda>c. c = 8377)"

text \<open>\<open>[^.?!\n]{0,n}\<close>: the rest of a sentence, up to \<open>n\<close> units.\<close>

definition within_sentence :: "nat \<Rightarrow> rx" where
  "within_sentence n = Many (One (\<lambda>c. \<not> any_of ''.?!'' c \<and> c \<noteq> 10)) 0 (Some n)"

definition MONEY_REQUEST_PATTERNS :: "rx list" where
  "MONEY_REQUEST_PATTERNS =
    [rx_seq [Word_boundary, rx_words [''send'', ''transfer'', ''lend'', ''give''], rx_plus rx_white, rx_words [''me'', ''us''],
       rx_plus rx_white, rx_opt (rx_or [rx_seq [rx_rupee, rx_opt rx_white],
         rx_seq [rx_word ''rs'', rx_opt (rx_lit ''.''), rx_opt rx_white]]), rx_digit],
     rx_seq [Word_boundary, rx_word ''pay'', rx_plus rx_white, rx_words [''me'', ''us''], Word_boundary],
     rx_seq [Word_boundary, rx_words [''send'', ''transfer'', ''lend'', ''borrow''], Word_boundary, within_sentence 40,
       rx_or [rx_seq [Word_boundary,
           rx_or [rx_word ''money'', rx_word ''cash'', rx_seq [rx_word ''rupee'', rx_opt (rx_word ''s'')], rx_word ''rs'',
             rx_word ''inr'', rx_seq [rx_word ''fund'', rx_opt (rx_word ''s'')], rx_word ''loan''], Word_boundary],
         rx_rupee]],
     rx_seq [Word_boundary, rx_word ''need'', Word_boundary, within_sentence 30, Word_boundary,
       rx_words [''money'', ''cash'', ''loan'', ''funds''], Word_boundary],
     rx_seq [Word_boundary, rx_or [rx_seq [rx_word ''g'', rx_opt rx_white, rx_word ''pay''],
         rx_seq [rx_word ''google'', rx_opt rx_white, rx_word ''pay''],
         rx_seq [rx_word ''phone'', rx_opt rx_white, rx_word ''pe''], rx_word ''paytm'', rx_word ''upi'', rx_word ''bhim''],
       Word_boundary],
     rx_seq [Word_boundary, rx_or [rx_word ''otp'', rx_word ''cvv'', rx_word ''ifsc'',
         rx_seq [rx_word ''atm'', rx_opt rx_white, rx_word ''pin''], rx_seq [rx_word ''card'', rx_opt rx_white, rx_word ''number''],
         rx_seq [rx_word ''account'', rx_opt rx_white, rx_word ''number''],
         rx_seq [rx_word ''bank'', rx_opt rx_white, rx_word ''details'']], Word_boundary],
     rx_seq [Word_boundary, rx_or [rx_seq [rx_word ''gift'', rx_opt rx_white, rx_word ''card'', rx_opt (rx_word ''s'')],
         rx_word ''crypto'', rx_word ''bitcoin'',
         rx_seq [rx_word ''investment'', rx_opt rx_white, rx_words [''plan'', ''scheme'', ''opportunity'']]], Word_boundary],
     rx_seq [Word_boundary, rx_words [''paise'', ''paisa'', ''paisay'', ''rupiya'', ''rupaye'', ''rupiye''], Word_boundary,
       within_sentence 20, Word_boundary,
       rx_or [rx_word ''bhej'', rx_word ''chahiye'', rx_seq [rx_word ''de'', rx_opt rx_white, rx_word ''do''], rx_word ''dedo'',
         rx_word ''do'', rx_word ''moklo'', rx_word ''mokal'', rx_word ''aapo'', rx_word ''apo'']],
     rx_seq [Word_boundary, rx_words [''udhaar'', ''udhar'', ''udhari''], Word_boundary]]"

definition looksLikeMoneyRequest :: "js_text \<Rightarrow> bool" where
  "looksLikeMoneyRequest s \<longleftrightarrow> list_ex (\<lambda>r. rx_test r s) MONEY_REQUEST_PATTERNS \<or>
    rx_test UPI_LIKE s \<and> \<not> rx_test EMAIL_LIKE s"

definition containsPhoneOrEmail :: "js_text \<Rightarrow> bool" where
  "containsPhoneOrEmail s \<longleftrightarrow> rx_test PHONE_LIKE s \<or> rx_test EMAIL_LIKE s"

section \<open>Cleaning\<close>

definition js_trim :: "js_text \<Rightarrow> js_text" where
  "js_trim s = rev (dropWhile is_white (rev (dropWhile is_white s)))"

text \<open>\<open>replace(/\s+/g, ' ')\<close>: every run of white space becomes one blank.\<close>

fun collapse_white :: "js_text \<Rightarrow> js_text" where
  "collapse_white [] = []"
| "collapse_white [c] = [if is_white c then 32 else c]"
| "collapse_white (c # d # s) =
    (if is_white c then (if is_white d then collapse_white (d # s) else 32 # collapse_white (d # s))
     else c # collapse_white (d # s))"

definition normalizeText :: "(js_text \<Rightarrow> js_text) \<Rightarrow> js_text \<Rightarrow> js_text" where
  "normalizeText nfkc value = collapse_white (js_trim (nfkc value))"

definition INVISIBLE_RANGES :: "(code_unit \<times> code_unit) list" where
  "INVISIBLE_RANGES = [(0, 8), (11, 12), (14, 31), (127, 127), (8203, 8207), (8232, 8238), (8288, 8303), (65279, 65279)]"

definition invisible :: "code_unit \<Rightarrow> bool" where
  "invisible c \<longleftrightarrow> list_ex (\<lambda>(first, last). first \<le> c \<and> c \<le> last) INVISIBLE_RANGES"

text \<open>\<open>Array.from\<close> splits a text into code points: a surrogate pair is one, above every range.\<close>

fun code_points :: "js_text \<Rightarrow> js_text list" where
  "code_points (h # l # s) =
    (if 55296 \<le> h \<and> h \<le> 56319 \<and> 56320 \<le> l \<and> l \<le> 57343 then [h, l] # code_points s else [h] # code_points (l # s))"
| "code_points [c] = [[c]]"
| "code_points [] = []"

fun code_point :: "js_text \<Rightarrow> code_unit" where
  "code_point [h, l] = (h - 55296) * 1024 + (l - 56320) + 65536"
| "code_point (c # _) = c"
| "code_point [] = 0"

definition stripInvisible :: "js_text \<Rightarrow> js_text" where
  "stripInvisible value = concat (filter (\<lambda>c. \<not> invisible (code_point c)) (code_points value))"

section \<open>Phone numbers\<close>

definition INDIAN_MOBILE :: rx where
  "INDIAN_MOBILE = rx_seq [At_start, rx_opt (rx_or (map rx_lit [''+91'', ''91'', ''0''])),
    One (\<lambda>c. 54 \<le> c \<and> c \<le> 57), Many rx_digit 9 (Some 9), At_end]"

text \<open>The captured group is the last ten units: the match ends at the end of the text.\<close>

definition last_units :: "nat \<Rightarrow> js_text \<Rightarrow> js_text" where "last_units n s = drop (length s - n) s"

definition normalizeIndianMobile :: "js_text \<Rightarrow> js_text option" where
  "normalizeIndianMobile input =
    (let compact = filter (\<lambda>c. \<not> separator c) input
     in if rx_test INDIAN_MOBILE compact then Some (units ''+91'' @ last_units 10 compact) else None)"

definition maskPhone :: "js_text \<Rightarrow> js_text" where
  "maskPhone e164 = take 3 e164 @ [32, 8226, 8226, 8226, 8226, 8226, 32, 8226, 8226] @ last_units 3 e164"

end
