(* ===== verification/Rate_Limit.thy ===== *)
theory Rate_Limit
  imports Prelude
begin

text \<open>
  The in-memory sliding-window rate limiter (\<open>lib/sliding-window.ts\<close>), used for chat messages on
  the REST and socket paths. \<open>hits\<close> is the JavaScript \<open>Map\<close> from keys to the times of the recorded
  hits, oldest first. The clock is read twice by \<open>take\<close>: once for the cutoff, once for the hit it
  records.
\<close>

section \<open>The limiter\<close>

type_synonym 'k hits = "'k \<Rightarrow> int list option"

record limiter =
  lim_limit :: nat
  lim_windowMs :: int

definition hits_of :: "'k hits \<Rightarrow> 'k \<Rightarrow> int list" where
  "hits_of hits key = (case hits key of None \<Rightarrow> [] | Some list \<Rightarrow> list)"

text \<open>\<open>recent\<close>: forgets the hits that left the window, and the key with its last one.\<close>

definition recent :: "limiter \<Rightarrow> int \<Rightarrow> 'k \<Rightarrow> 'k hits \<Rightarrow> int list \<times> 'k hits" where
  "recent lim t key hits =
    (let list = filter (\<lambda>time. t - lim_windowMs lim < time) (hits_of hits key)
     in (list, if list = [] then hits(key := None) else hits(key := Some list)))"

definition take_hit :: "limiter \<Rightarrow> int \<Rightarrow> int \<Rightarrow> 'k \<Rightarrow> 'k hits \<Rightarrow> bool \<times> 'k hits" where
  "take_hit lim t t' key hits =
    (let (list, hits') = recent lim t key hits
     in if lim_limit lim \<le> length list then (False, hits')
        else (True, hits'(key := Some (list @ [t']))))"

text \<open>\<open>Math.ceil (ms / 1000)\<close>\<close>

definition ceil_seconds :: "int \<Rightarrow> int" where
  "ceil_seconds ms = - ((- ms) div 1000)"

definition retryAfterSeconds :: "limiter \<Rightarrow> int \<Rightarrow> int \<Rightarrow> 'k \<Rightarrow> 'k hits \<Rightarrow> int \<times> 'k hits" where
  "retryAfterSeconds lim t t' key hits =
    (let (list, hits') = recent lim t key hits
     in (case list of
           [] \<Rightarrow> 0
         | oldest # _ \<Rightarrow> max 1 (ceil_seconds (oldest + lim_windowMs lim - t')), hits'))"

lemma ceil_seconds_le: "ceil_seconds ms \<le> n \<Longrightarrow> ms \<le> n * 1000"
  unfolding ceil_seconds_def by linarith

lemma hits_of_upd [simp]: "hits_of (hits(k := v)) key = (if key = k then (case v of None \<Rightarrow> [] | Some l \<Rightarrow> l) else hits_of hits key)"
  by (simp add: hits_of_def)

lemma recent_list: "fst (recent lim t key hits) = filter (\<lambda>time. t - lim_windowMs lim < time) (hits_of hits key)"
  by (simp add: recent_def Let_def)

lemma hits_of_recent:
  "hits_of (snd (recent lim t key hits)) k =
    (if k = key then filter (\<lambda>time. t - lim_windowMs lim < time) (hits_of hits key) else hits_of hits k)"
  by (simp add: recent_def Let_def)

lemma take_hit_accepts:
  "fst (take_hit lim t t' key hits) \<longleftrightarrow>
    length (filter (\<lambda>time. t - lim_windowMs lim < time) (hits_of hits key)) < lim_limit lim"
  by (auto simp: take_hit_def recent_list Let_def split: prod.split dest: arg_cong[of _ _ fst])

lemma hits_of_take_hit:
  "hits_of (snd (take_hit lim t t' key hits)) k =
    (if k = key then filter (\<lambda>time. t - lim_windowMs lim < time) (hits_of hits key) @
       (if fst (take_hit lim t t' key hits) then [t'] else [])
     else hits_of hits k)"
  by (simp add: take_hit_def recent_def Let_def)

section \<open>Runs of the limiter, and a reference\<close>

text \<open>A call: the key and the two readings of the clock. A run lists the answers.\<close>

type_synonym 'k call = "'k \<times> int \<times> int"

fun run_takes :: "limiter \<Rightarrow> 'k call list \<Rightarrow> 'k hits \<Rightarrow> bool list" where
  "run_takes lim [] hits = []"
| "run_takes lim ((key, t, t') # calls) hits =
    (let (ok, hits') = take_hit lim t t' key hits in ok # run_takes lim calls hits')"

text \<open>
  The reference forgets nothing: a hit is accepted when fewer than \<open>limit\<close> accepted hits of the key
  are younger than the window.
\<close>

definition in_window :: "limiter \<Rightarrow> int \<Rightarrow> 'k \<Rightarrow> ('k \<times> int) list \<Rightarrow> nat" where
  "in_window lim t key log = count_where (\<lambda>(k, time). k = key \<and> t - lim_windowMs lim < time) log"

fun reference_run :: "limiter \<Rightarrow> 'k call list \<Rightarrow> ('k \<times> int) list \<Rightarrow> bool list" where
  "reference_run lim [] log = []"
| "reference_run lim ((key, t, t') # calls) log =
    (if in_window lim t key log < lim_limit lim
     then True # reference_run lim calls (log @ [(key, t')])
     else False # reference_run lim calls log)"

fun accepted :: "'k call list \<Rightarrow> bool list \<Rightarrow> ('k \<times> int) list" where
  "accepted ((key, t, t') # calls) (ok # oks) = (if ok then [(key, t')] else []) @ accepted calls oks"
| "accepted _ _ = []"

text \<open>The clock does not run backwards.\<close>

fun in_order :: "int \<Rightarrow> 'k call list \<Rightarrow> bool" where
  "in_order t0 [] = True"
| "in_order t0 ((key, t, t') # calls) \<longleftrightarrow> t0 \<le> t \<and> t \<le> t' \<and> in_order t' calls"

text \<open>The map holds, for each key, the accepted hits that a call from now on can still see.\<close>

definition tracks :: "limiter \<Rightarrow> int \<Rightarrow> 'k hits \<Rightarrow> ('k \<times> int) list \<Rightarrow> bool" where
  "tracks lim t0 hits log \<longleftrightarrow> (\<forall>key t. t0 \<le> t \<longrightarrow>
    filter (\<lambda>time. t - lim_windowMs lim < time) (hits_of hits key) =
    map snd (filter (\<lambda>(k, time). k = key \<and> t - lim_windowMs lim < time) log))"

lemma tracks_count:
  "tracks lim t0 hits log \<Longrightarrow> t0 \<le> t \<Longrightarrow>
    length (filter (\<lambda>time. t - lim_windowMs lim < time) (hits_of hits key)) = in_window lim t key log"
  by (simp add: tracks_def in_window_def count_where_def)

lemma tracks_start: "tracks lim t0 (\<lambda>_. None) []"
  by (simp add: tracks_def hits_of_def)

lemma tracks_take:
  assumes tr: "tracks lim t0 hits log" and order: "t0 \<le> t" "t \<le> t'"
  shows "tracks lim t' (snd (take_hit lim t t' key hits))
    (if fst (take_hit lim t t' key hits) then log @ [(key, t')] else log)"
  unfolding tracks_def
proof (intro allI impI)
  fix k u assume u: "t' \<le> u"
  have "filter (\<lambda>time. u - lim_windowMs lim < time) (filter (\<lambda>time. t - lim_windowMs lim < time) xs) =
      filter (\<lambda>time. u - lim_windowMs lim < time) xs" for xs
    using u order by (auto simp: filter_filter intro!: filter_cong)
  moreover have "filter (\<lambda>time. u - lim_windowMs lim < time) (hits_of hits k) =
      map snd (filter (\<lambda>(k', time). k' = k \<and> u - lim_windowMs lim < time) log)"
    using tr u order by (simp add: tracks_def)
  ultimately show "filter (\<lambda>time. u - lim_windowMs lim < time) (hits_of (snd (take_hit lim t t' key hits)) k) =
      map snd (filter (\<lambda>(k', time). k' = k \<and> u - lim_windowMs lim < time)
        (if fst (take_hit lim t t' key hits) then log @ [(key, t')] else log))"
    by (auto simp: hits_of_take_hit)
qed

lemma run_is_reference:
  "tracks lim t0 hits log \<Longrightarrow> in_order t0 calls \<Longrightarrow> run_takes lim calls hits = reference_run lim calls log"
proof (induction lim calls log arbitrary: hits t0 rule: reference_run.induct)
  case (2 lim key t t' calls log)
  note tr = tracks_take[OF 2(3), of t t' key] and count = tracks_count[OF 2(3), of t key]
  show ?case
    using 2(1,2,4) tr count by (auto simp: split_beta Let_def take_hit_accepts)
qed simp

text \<open>
  C13. The limiter, which prunes its lists, answers every sequence of calls as the reference that
  remembers every accepted hit.
\<close>

theorem limiter_equals_reference:
  assumes "in_order t0 calls"
  shows "run_takes lim calls (\<lambda>_. None) = reference_run lim calls []"
  using tracks_start assms by (rule run_is_reference)

theorem limiter_equals_reference_witness:
  "run_takes \<lparr>lim_limit = 1, lim_windowMs = 10\<rparr> [(''u'', 0, 0), (''u'', 5, 5), (''v'', 5, 6), (''u'', 10, 11)] (\<lambda>_. None) =
    reference_run \<lparr>lim_limit = 1, lim_windowMs = 10\<rparr> [(''u'', 0, 0), (''u'', 5, 5), (''v'', 5, 6), (''u'', 10, 11)] [] \<and>
   reference_run \<lparr>lim_limit = 1, lim_windowMs = 10\<rparr> [(''u'', 0, 0), (''u'', 5, 5), (''v'', 5, 6), (''u'', 10, 11)] [] =
    [True, False, True, True]"
  using limiter_equals_reference[of 0 "[(''u'', 0, 0), (''u'', 5, 5), (''v'', 5, 6), (''u'', 10, 11)]"]
  by (auto simp: in_window_def count_where_def)

section \<open>Never over the limit, and never stuck\<close>

text \<open>In the log of accepted hits no window of the length \<open>windowMs\<close> holds more than the limit.\<close>

definition within_limit :: "limiter \<Rightarrow> ('k \<times> int) list \<Rightarrow> bool" where
  "within_limit lim log \<longleftrightarrow>
    (\<forall>key u. count_where (\<lambda>(k, time). k = key \<and> u - lim_windowMs lim < time \<and> time \<le> u) log \<le> lim_limit lim)"

lemma within_limit_snoc:
  fixes log :: "('k \<times> int) list"
  assumes "within_limit lim log" "in_window lim t key log < lim_limit lim" "t \<le> t'"
  shows "within_limit lim (log @ [(key, t')])"
  unfolding within_limit_def
proof (intro allI)
  fix k :: 'k and u
  let ?P = "\<lambda>(k', time). k' = k \<and> u - lim_windowMs lim < time \<and> time \<le> u"
  show "count_where ?P (log @ [(key, t')]) \<le> lim_limit lim"
  proof (cases "k = key \<and> u - lim_windowMs lim < t' \<and> t' \<le> u")
    case True
    with assms(3) have "count_where ?P log \<le> in_window lim t key log"
      unfolding in_window_def by (intro count_where_mono) auto
    with assms(2) True show ?thesis by (simp add: count_where_append count_where_def)
  next
    case False
    with assms(1) show ?thesis by (auto simp: count_where_append within_limit_def count_where_def)
  qed
qed

lemma reference_within_limit:
  "within_limit lim log \<Longrightarrow> in_order t0 calls \<Longrightarrow>
    within_limit lim (log @ accepted calls (reference_run lim calls log))"
proof (induction lim calls log arbitrary: t0 rule: reference_run.induct)
  case (2 lim key t t' calls log)
  show ?case
  proof (cases "in_window lim t key log < lim_limit lim")
    case True
    with 2(3,4) have "within_limit lim (log @ [(key, t')])" by (auto intro: within_limit_snoc)
    with 2(1)[OF True this, of t'] 2(4) True show ?thesis by simp
  next
    case False
    with 2(2)[OF False 2(3), of t'] 2(4) show ?thesis by simp
  qed
qed simp

text \<open>
  C14. However the calls are spread, the hits accepted for one key never exceed the limit within any span
  of the window's length.
\<close>

theorem limiter_bounds_hits:
  assumes "in_order t0 calls"
  shows "count_where (\<lambda>(k, time). k = key \<and> u - lim_windowMs lim < time \<and> time \<le> u)
    (accepted calls (run_takes lim calls (\<lambda>_. None))) \<le> lim_limit lim"
proof -
  have "within_limit lim []" by (simp add: within_limit_def count_where_def)
  from reference_within_limit[OF this assms] show ?thesis
    by (simp add: run_is_reference[OF tracks_start assms] within_limit_def)
qed

theorem limiter_bounds_hits_witness:
  "count_where (\<lambda>(k, time). k = ''u'' \<and> 12 - 10 < time \<and> time \<le> 12)
    (accepted [(''u'', 0, 0), (''u'', 5, 5), (''u'', 10, 11)]
      (run_takes \<lparr>lim_limit = 1, lim_windowMs = 10\<rparr> [(''u'', 0, 0), (''u'', 5, 5), (''u'', 10, 11)] (\<lambda>_. None))) \<le> 1"
  using limiter_bounds_hits[of 0 "[(''u'', 0, 0), (''u'', 5, 5), (''u'', 10, 11)]" "''u''" 12
      "\<lparr>lim_limit = 1, lim_windowMs = 10\<rparr>"]
  by simp

text \<open>
  A member who is refused, and waits for the seconds the limiter announced, is accepted.
\<close>

theorem retry_after_is_enough:
  assumes refused: "take_hit lim t t' key hits = (False, hits')"
    and sorted: "length (hits_of hits key) \<le> lim_limit lim" "0 < lim_limit lim"
    and wait: "retryAfterSeconds lim ta tb key hits' = (n, hits'')" "tb + n * 1000 \<le> tc"
  shows "fst (take_hit lim tc td key hits'')"
proof -
  let ?w = "\<lambda>t. filter (\<lambda>time. t - lim_windowMs lim < time)"
  have hits': "hits_of hits' key = ?w t (hits_of hits key)"
    using refused hits_of_take_hit[of lim t t' key hits key] by simp
  have hits'': "hits_of hits'' key = ?w ta (hits_of hits' key)"
    and n: "n = (case ?w ta (hits_of hits' key) of [] \<Rightarrow> 0
      | oldest # _ \<Rightarrow> max 1 (ceil_seconds (oldest + lim_windowMs lim - tb)))"
    using wait(1) hits_of_recent[of lim ta key hits' key] recent_list[of lim ta key hits']
    by (auto simp: retryAfterSeconds_def Let_def split: prod.splits)
  have len: "length (hits_of hits'' key) \<le> lim_limit lim"
    using sorted(1) unfolding hits'' hits'
    by (meson length_filter_le order_trans)
  show ?thesis
  proof (cases "hits_of hits'' key")
    case Nil
    with sorted(2) show ?thesis by (simp add: take_hit_accepts)
  next
    case (Cons oldest rest)
    have young: "?w ta (hits_of hits' key) = oldest # rest" using hits'' Cons by simp
    have "ceil_seconds (oldest + lim_windowMs lim - tb) \<le> n" unfolding n young by simp
    then have "oldest + lim_windowMs lim - tb \<le> n * 1000"
      by (rule ceil_seconds_le)
    with wait(2) have "\<not> tc - lim_windowMs lim < oldest" by simp
    then have "length (?w tc (hits_of hits'' key)) \<le> length rest"
      using Cons by simp
    with len Cons show ?thesis by (simp add: take_hit_accepts)
  qed
qed

theorem retry_after_is_enough_witness:
  "fst (take_hit \<lparr>lim_limit = 1, lim_windowMs = 10\<rparr> 1006 1006 ''u''
    (snd (retryAfterSeconds \<lparr>lim_limit = 1, lim_windowMs = 10\<rparr> 6 6 ''u''
      (snd (take_hit \<lparr>lim_limit = 1, lim_windowMs = 10\<rparr> 5 5 ''u'' [''u'' \<mapsto> [0]])))))"
proof (rule retry_after_is_enough)
  let ?l = "\<lparr>lim_limit = 1, lim_windowMs = 10\<rparr>" and ?h = "[''u'' \<mapsto> [0]]"
  have "fst (take_hit ?l 5 5 ''u'' ?h) = False" "fst (retryAfterSeconds ?l 6 6 ''u'' (snd (take_hit ?l 5 5 ''u'' ?h))) = 1"
    by code_simp+
  then show "take_hit ?l 5 5 ''u'' ?h = (False, snd (take_hit ?l 5 5 ''u'' ?h))"
    "retryAfterSeconds ?l 6 6 ''u'' (snd (take_hit ?l 5 5 ''u'' ?h)) = (1, snd (retryAfterSeconds ?l 6 6 ''u'' (snd (take_hit ?l 5 5 ''u'' ?h))))"
    by (simp_all add: prod_eq_iff)
qed (simp_all add: hits_of_def)

end
