(* ===== verification/Chat.thy ===== *)
theory Chat
  imports Interests Blocks Text_Patterns Rate_Limit
begin

text \<open>
  Chat (\<open>modules/chat/chat.service.ts\<close>). The rules are checked on every call: the match is active, the
  caller is one of its two members, the account of the other is active and no block is between them. The
  limiter of the realtime hub is state of one process: sending takes its hits and returns them.
\<close>

section \<open>Rules\<close>

record message_dto =
  mo_id :: uuid
  mo_matchId :: uuid
  mo_senderId :: uuid
  mo_clientMessageId :: uuid
  mo_body :: js_text
  mo_createdAt :: instant

text \<open>What members see of a message: not the moderation flags.\<close>

definition toMessageDto :: "message \<Rightarrow> message_dto" where
  "toMessageDto m = \<lparr>mo_id = ms_id m, mo_matchId = ms_matchId m, mo_senderId = ms_senderId m,
    mo_clientMessageId = ms_clientMessageId m, mo_body = ms_body m, mo_createdAt = ms_createdAt m\<rparr>"

definition assertCanSend :: "uuid \<Rightarrow> db \<Rightarrow> failure + unit" where
  "assertCanSend userId s =
    (case live_account userId s of
       None \<Rightarrow> Inr ()
     | Some u \<Rightarrow> if u_chatRestrictedAt u \<noteq> None then Inl (App CHAT_RESTRICTED) else Inr ())"

record chat_access =
  ca_match :: match_row
  ca_partnerId :: uuid
  ca_isUserA :: bool

definition authorize :: "uuid \<Rightarrow> uuid \<Rightarrow> db \<Rightarrow> failure + chat_access" where
  "authorize userId matchId s =
    (case find_row matches_table (\<lambda>m. m_id m = matchId \<and> of_member userId m) s of
       None \<Rightarrow> Inl (App NOT_FOUND)
     | Some m \<Rightarrow>
         (let partnerId = partner_in userId m
          in if m_status m \<noteq> M_active then Inl (App MATCH_NOT_ACTIVE)
             else if \<not> account_active partnerId s \<or>
               0 < count_where (\<lambda>b. (bl_blockerId b = userId \<or> bl_blockerId b = partnerId) \<and>
                 (bl_blockedId b = userId \<or> bl_blockedId b = partnerId)) (t_blocks s)
             then Inl (App MATCH_NOT_ACTIVE)
             else Inr \<lparr>ca_match = m, ca_partnerId = partnerId, ca_isUserA = (m_userAId m = userId)\<rparr>))"

section \<open>The list of chats\<close>

definition my_read_at :: "uuid \<Rightarrow> match_row \<Rightarrow> instant option" where
  "my_read_at userId m = (if m_userAId m = userId then m_userALastReadAt m else m_userBLastReadAt m)"

definition partner_read_at :: "uuid \<Rightarrow> match_row \<Rightarrow> instant option" where
  "partner_read_at userId m = (if m_userAId m = userId then m_userBLastReadAt m else m_userALastReadAt m)"

text \<open>\<open>created_at > COALESCE(read_at, '-infinity')\<close>\<close>

definition unread_since :: "instant option \<Rightarrow> message \<Rightarrow> bool" where
  "unread_since r m = (case r of None \<Rightarrow> True | Some t \<Rightarrow> t < ms_createdAt m)"

definition activity_at :: "match_row \<Rightarrow> instant" where
  "activity_at m = (case m_lastMessageAt m of None \<Rightarrow> m_createdAt m | Some t \<Rightarrow> t)"

definition chat_key :: "match_row \<Rightarrow> cursor" where
  "chat_key m = (activity_at m, m_id m)"

definition chat_open :: "uuid \<Rightarrow> db \<Rightarrow> match_row \<Rightarrow> bool" where
  "chat_open userId s m \<longleftrightarrow> of_member userId m \<and> m_status m = M_active \<and>
    account_active (partner_in userId m) s \<and> \<not> blocked_between userId (partner_in userId m) s"

record chat_row =
  cr_matchId :: uuid
  cr_partnerId :: uuid
  cr_eventId :: "uuid option"
  cr_partnerReadAt :: "instant option"
  cr_activityAt :: instant
  cr_last :: "message option"
  cr_unread :: nat

definition message_key :: "message \<Rightarrow> cursor" where
  "message_key m = (ms_createdAt m, ms_id m)"

definition last_message :: "uuid \<Rightarrow> db \<Rightarrow> message option" where
  "last_message matchId s =
    (case sort_desc message_key (rows_where messages_table (\<lambda>m. ms_matchId m = matchId) s) of
       [] \<Rightarrow> None
     | m # _ \<Rightarrow> Some m)"

definition unread_count :: "uuid \<Rightarrow> match_row \<Rightarrow> db \<Rightarrow> nat" where
  "unread_count userId m s = count_where
    (\<lambda>x. ms_matchId x = m_id m \<and> ms_senderId x \<noteq> userId \<and> unread_since (my_read_at userId m) x) (t_messages s)"

definition chat_row_of :: "uuid \<Rightarrow> db \<Rightarrow> match_row \<Rightarrow> chat_row" where
  "chat_row_of userId s m =
    \<lparr>cr_matchId = m_id m, cr_partnerId = partner_in userId m, cr_eventId = m_eventId m,
      cr_partnerReadAt = partner_read_at userId m, cr_activityAt = activity_at m,
      cr_last = last_message (m_id m) s, cr_unread = unread_count userId m s\<rparr>"

definition chatRows :: "uuid \<Rightarrow> uuid option \<Rightarrow> cursor option \<Rightarrow> nat \<Rightarrow> db \<Rightarrow> chat_row list" where
  "chatRows userId matchId c limit s = map (chat_row_of userId s)
    (take limit (sort_desc chat_key (rows_where matches_table
      (\<lambda>m. chat_open userId s m \<and> (matchId = None \<or> matchId = Some (m_id m)) \<and> keysetCondition chat_key c m) s)))"

definition PREVIEW_LENGTH :: nat where [limits]: "PREVIEW_LENGTH = 120"

text \<open>A longer text is cut and gets an ellipsis (code unit 8230).\<close>

definition preview :: "js_text \<Rightarrow> js_text" where
  "preview body = (if PREVIEW_LENGTH < length body then take PREVIEW_LENGTH body @ [8230] else body)"

record chat_summary =
  su_matchId :: uuid
  su_partner :: public_profile
  su_event :: "shared_event option"
  su_lastMessage :: "(uuid \<times> js_text \<times> instant) option"
  su_unreadCount :: nat
  su_partnerLastReadAt :: "instant option"
  su_lastActivityAt :: instant

definition toSummaries :: "chat_row list \<Rightarrow> db \<Rightarrow> failure + chat_summary list" where
  "toSummaries rows s =
    (case loadPublicProfiles (map cr_partnerId rows) s (todayInIndia (clock s)) of
       Inl e \<Rightarrow> Inl e
     | Inr profiles \<Rightarrow> Inr (concat (map (\<lambda>r.
         case map_of profiles (cr_partnerId r) of
           None \<Rightarrow> []
         | Some partner \<Rightarrow> [\<lparr>su_matchId = cr_matchId r, su_partner = partner, su_event = loadEvent (cr_eventId r) s,
             su_lastMessage = (case cr_last r of
                 None \<Rightarrow> None
               | Some m \<Rightarrow> if ms_body m = [] then None else Some (ms_senderId m, preview (ms_body m), ms_createdAt m)),
             su_unreadCount = cr_unread r, su_partnerLastReadAt = cr_partnerReadAt r,
             su_lastActivityAt = cr_activityAt r\<rparr>]) rows)))"

definition list_chats :: "uuid \<Rightarrow> cursor option \<Rightarrow> db \<Rightarrow> failure + chat_summary list \<times> cursor option" where
  "list_chats userId c s =
    (let rows = chatRows userId None c (Suc CHATS_PAGE_SIZE) s; page = take CHATS_PAGE_SIZE rows
     in map_sum id (\<lambda>items. (items,
          if CHATS_PAGE_SIZE < length rows \<and> page \<noteq> []
          then Some (cr_activityAt (last page), cr_matchId (last page)) else None)) (toSummaries page s))"

definition get_chat :: "uuid \<Rightarrow> uuid \<Rightarrow> db \<Rightarrow> failure + chat_summary" where
  "get_chat userId matchId s =
    (case authorize userId matchId s of
       Inl e \<Rightarrow> Inl e
     | Inr _ \<Rightarrow>
         (case toSummaries (chatRows userId (Some matchId) None 1 s) s of
            Inl e \<Rightarrow> Inl e
          | Inr [] \<Rightarrow> Inl (App MATCH_NOT_ACTIVE)
          | Inr (chat # _) \<Rightarrow> Inr chat))"

definition counts_as_unread :: "uuid \<Rightarrow> db \<Rightarrow> message \<Rightarrow> match_row \<Rightarrow> bool" where
  "counts_as_unread userId s x m \<longleftrightarrow> m_id m = ms_matchId x \<and> of_member userId m \<and> m_status m = M_active \<and>
    account_active (ms_senderId x) s \<and> ms_senderId x \<noteq> userId \<and> unread_since (my_read_at userId m) x \<and>
    \<not> blocked_between userId (ms_senderId x) s"

definition unreadTotal :: "uuid \<Rightarrow> db \<Rightarrow> nat" where
  "unreadTotal userId s = sum_list (map (\<lambda>x. count_where (counts_as_unread userId s x) (t_matches s)) (t_messages s))"

section \<open>The messages of a chat\<close>

definition list_messages ::
    "uuid \<Rightarrow> uuid \<Rightarrow> cursor option \<Rightarrow> nat option \<Rightarrow> db \<Rightarrow> failure + message_dto list \<times> cursor option" where
  "list_messages userId matchId c limit s =
    (case authorize userId matchId s of
       Inl e \<Rightarrow> Inl e
     | Inr _ \<Rightarrow>
         (let (page, next) = page_of message_key c
                (page_limit limit MESSAGES_PAGE_SIZE_DEFAULT MESSAGES_PAGE_SIZE_MAX)
                (rows_where messages_table (\<lambda>m. ms_matchId m = matchId) s)
          in Inr (map toMessageDto page, next)))"

section \<open>Sending\<close>

record message_input =
  mi_clientMessageId :: uuid
  mi_body :: js_text

definition stored_message :: "uuid \<Rightarrow> message_input \<Rightarrow> db \<Rightarrow> message option" where
  "stored_message userId input s =
    find_row messages_table (\<lambda>m. ms_senderId m = userId \<and> ms_clientMessageId m = mi_clientMessageId input) s"

definition new_message :: "uuid \<Rightarrow> uuid \<Rightarrow> uuid \<Rightarrow> message_input \<Rightarrow> instant \<Rightarrow> message" where
  "new_message i matchId userId input t =
    \<lparr>ms_id = i, ms_matchId = matchId, ms_senderId = userId, ms_clientMessageId = mi_clientMessageId input,
      ms_body = mi_body input, ms_containsContactInfo = looksLikeContactDetails (mi_body input),
      ms_containsMoneyRequest = looksLikeMoneyRequest (mi_body input), ms_createdAt = t\<rparr>"

text \<open>\<open>Message.findOrCreate\<close>: the row and whether it is new.\<close>

definition find_or_create_message :: "uuid \<Rightarrow> uuid \<Rightarrow> message_input \<Rightarrow> (message \<times> bool) op" where
  "find_or_create_message matchId userId input =
    andThen (gets (stored_message userId input)) (\<lambda>found.
    case found of
      Some m \<Rightarrow> ret (m, False)
    | None \<Rightarrow>
        andThen fresh_uuid (\<lambda>i.
        andThen now (\<lambda>t.
        andThen (insert_row messages_table (new_message i matchId userId input t)) (\<lambda>_.
        ret (new_message i matchId userId input t, True)))))"

text \<open>Every rule is checked again inside the transaction.\<close>

definition store_message_tx :: "uuid \<Rightarrow> uuid \<Rightarrow> message_input \<Rightarrow> (message \<times> uuid \<times> bool) op" where
  "store_message_tx userId matchId input = transaction
    (andThen (andThen (gets (authorize userId matchId)) from_sum) (\<lambda>access.
     andThen (andThen (gets (assertCanSend userId)) from_sum) (\<lambda>_.
     andThen (find_or_create_message matchId userId input) (\<lambda>(m, isNew).
     andThen (ensure (ms_matchId m = matchId) (App CONFLICT)) (\<lambda>_.
     andThen (if isNew then andThen (save matches_table
         [setting m_lastMessageAt m_lastMessageAt_update (Some (ms_createdAt m))] (ca_match access)) (\<lambda>_. ret ())
       else ret ()) (\<lambda>_.
     ret (m, ca_partnerId access, isNew)))))))"

text \<open>After the commit: both members' sockets, one notification per chat, then the detections.\<close>

definition deliver_message :: "env \<Rightarrow> uuid \<Rightarrow> uuid \<Rightarrow> uuid \<Rightarrow> message \<Rightarrow> unit op" where
  "deliver_message env userId partnerId matchId m =
    andThen (emit (To_user partnerId (Ev_message_new (ms_id m)))) (\<lambda>_.
    andThen (emit (To_user userId (Ev_message_new (ms_id m)))) (\<lambda>_.
    andThen (notify env (notice partnerId New_message userId None (Some matchId))) (\<lambda>_.
    afterMessage env m)))"

definition send_allowed :: "env \<Rightarrow> uuid \<Rightarrow> uuid \<Rightarrow> message_input \<Rightarrow> (message_dto \<times> bool) op" where
  "send_allowed env userId matchId input =
    andThen (andThen (gets (authorize userId matchId)) from_sum) (\<lambda>_.
    andThen (store_message_tx userId matchId input) (\<lambda>(m, partnerId, created).
    andThen (doWhen created (deliver_message env userId partnerId matchId m)) (\<lambda>_.
    ret (toMessageDto m, created))))"

definition messageLimiter :: limiter where
  "messageLimiter = \<lparr>lim_limit = MESSAGES_PER_MINUTE, lim_windowMs = 60 * 1000\<rparr>"

definition retry_answer :: "uuid \<Rightarrow> message \<Rightarrow> failure + message_dto \<times> bool" where
  "retry_answer matchId m =
    (if ms_matchId m \<noteq> matchId then Inl (App CONFLICT) else Inr (toMessageDto m, False))"

text \<open>
  \<open>send\<close>: the hits of the limiter are threaded beside the database. A refused sender is told how long to
  wait, which reads the limiter once more.
\<close>

definition send_message :: "env \<Rightarrow> uuid \<Rightarrow> uuid \<Rightarrow> message_input \<Rightarrow> uuid hits \<Rightarrow> db \<Rightarrow>
    (failure + message_dto \<times> bool) \<times> uuid hits \<times> db" where
  "send_message env userId matchId input hits s =
    (case stored_message userId input s of
       Some m \<Rightarrow> (retry_answer matchId m, hits, s)
     | None \<Rightarrow>
         (case assertCanSend userId s of
            Inl e \<Rightarrow> (Inl e, hits, s)
          | Inr _ \<Rightarrow>
              (let (ok, hits') = take_hit messageLimiter (clock s) (clock s) userId hits
               in if \<not> ok
                  then (Inl (App RATE_LIMITED), snd (retryAfterSeconds messageLimiter (clock s) (clock s) userId hits'), s)
                  else (let (r, t) = send_allowed env userId matchId input s in (r, hits', t)))))"

section \<open>Reading\<close>

text \<open>\<open>GREATEST(COALESCE(column, '-infinity'), readAt)\<close>: read positions only move forward.\<close>

definition later_read :: "instant option \<Rightarrow> instant \<Rightarrow> instant option" where
  "later_read old t = Some (case old of None \<Rightarrow> t | Some r \<Rightarrow> max r t)"

definition move_read :: "bool \<Rightarrow> instant \<Rightarrow> match_row \<Rightarrow> match_row" where
  "move_read isUserA t m =
    (if isUserA then m\<lparr>m_userALastReadAt := later_read (m_userALastReadAt m) t\<rparr>
     else m\<lparr>m_userBLastReadAt := later_read (m_userBLastReadAt m) t\<rparr>)"

definition read_position :: "bool \<Rightarrow> uuid \<Rightarrow> db \<Rightarrow> instant option" where
  "read_position isUserA matchId s =
    (case by_key matches_table matchId s of
       None \<Rightarrow> None
     | Some m \<Rightarrow> if isUserA then m_userALastReadAt m else m_userBLastReadAt m)"

definition mark_chat_read :: "uuid \<Rightarrow> uuid \<Rightarrow> uuid \<Rightarrow> instant op" where
  "mark_chat_read userId matchId lastReadMessageId =
    andThen (andThen (gets (authorize userId matchId)) from_sum) (\<lambda>access.
    andThen (gets (find_row messages_table (\<lambda>m. ms_id m = lastReadMessageId \<and> ms_matchId m = matchId))) (\<lambda>found.
    andThen (from_option found (App NOT_FOUND)) (\<lambda>m.
    andThen (update_rows matches_table (\<lambda>x. m_id x = matchId) (move_read (ca_isUserA access) (ms_createdAt m))) (\<lambda>_.
    andThen (gets (read_position (ca_isUserA access) matchId)) (\<lambda>updated.
    let lastReadAt = (case updated of None \<Rightarrow> ms_createdAt m | Some t \<Rightarrow> t)
    in andThen (emit (To_user (ca_partnerId access) (Ev_message_read matchId userId lastReadAt))) (\<lambda>_.
       andThen (markChatNotificationsRead userId matchId) (\<lambda>_.
       ret lastReadAt)))))))"

end
