(* ===== verification/Connections_Steps.thy ===== *)
theory Connections_Steps
  imports Interests
begin

text \<open>
  The life of interests and matches as a transition system. A step is one transaction or statement of
  any service that writes them, or a change elsewhere; so a run is any interleaving of requests. The
  invariant: every match rests on an accepted interest of its two members. The history relation
  \<open>settled\<close>: an answered interest and an ended match stay as they are.
\<close>

section \<open>Steps\<close>

text \<open>What the steps may never change of a match; the chat only moves the other fields.\<close>

definition match_core :: "match_row \<Rightarrow> uuid \<times> uuid \<times> uuid \<times> uuid option \<times> match_status \<times> instant option" where
  "match_core m = (m_id m, m_userAId m, m_userBId m, m_interestId m, m_status m, m_endedAt m)"

text \<open>The interest that is accepted is one of its sender and the accepting receiver.\<close>

definition sent_between :: "uuid \<Rightarrow> uuid \<Rightarrow> uuid \<Rightarrow> db \<Rightarrow> bool" where
  "sent_between a b i s \<longleftrightarrow> (\<forall>x \<in> set (t_interests s). i_id x = i \<longrightarrow> i_receiverId x = a \<and> i_senderId x = b)"

inductive conn_step :: "db \<Rightarrow> db \<Rightarrow> bool" where
  send: "conn_step s (snd (send_tx a b e s))"
| accept: "sent_between a b i s \<Longrightarrow> conn_step s (snd (accept_tx a b i s))"
| answer: "status \<in> {I_declined, I_withdrawn} \<Longrightarrow> conn_step s (snd (answer_pending mine i status s))"
| close: "status \<in> {I_expired, I_cancelled} \<Longrightarrow> conn_step s (snd (close_pending i status s))"
| unmatch: "conn_step s (snd (unmatch_tx a m s))"
| separate: "status \<in> {M_blocked, M_closed} \<Longrightarrow> conn_step s (snd (endConnections a b status x y s))"
| cancel_all: "conn_step s (snd (cancelPendingInterestsOf a s))"
| end_all: "conn_step s (snd (endAllMatchesOf a admin s))"
| elsewhere: "t_interests t = t_interests s \<Longrightarrow> map match_core (t_matches t) = map match_core (t_matches s) \<Longrightarrow> conn_step s t"

section \<open>The invariant and the history\<close>

definition rests_on_interest :: "db \<Rightarrow> bool" where
  "rests_on_interest s \<longleftrightarrow> (\<forall>m \<in> set (t_matches s). \<forall>i. m_interestId m = Some i \<longrightarrow>
    (\<exists>x \<in> set (t_interests s). i_id x = i \<and> i_status x = I_accepted \<and> of_pair (i_senderId x) (i_receiverId x) m))"

definition conn_inv :: "db \<Rightarrow> bool" where
  "conn_inv s \<longleftrightarrow> table_ok interests_table s \<and> table_ok matches_table s \<and> rests_on_interest s"

definition settled :: "db \<Rightarrow> db \<Rightarrow> bool" where
  "settled s t \<longleftrightarrow> (\<forall>x \<in> set (t_interests s). i_status x \<noteq> I_pending \<longrightarrow> x \<in> set (t_interests t)) \<and>
    (\<forall>m \<in> set (t_matches s). m_status m \<noteq> M_active \<longrightarrow> match_core m \<in> match_core ` set (t_matches t))"

lemma settled_refl: "settled s s"
  by (auto simp: settled_def)

text \<open>Both at once, for the calculus of \<open>keeps\<close>.\<close>

definition conn_track :: "db \<Rightarrow> db \<Rightarrow> bool" where
  "conn_track s0 s \<longleftrightarrow> conn_inv s \<and> settled s0 s"

lemma conn_track_view:
  assumes "t_interests t = t_interests s" "map match_core (t_matches t) = map match_core (t_matches s)" "conn_track s0 s"
  shows "conn_track s0 t"
proof -
  have cores: "match_core ` set (t_matches t) = match_core ` set (t_matches s)"
    using assms(2) by (metis list.set_map)
  have same: "\<exists>m' \<in> set (t_matches s). match_core m' = match_core m" if "m \<in> set (t_matches t)" for m
    using cores that by (metis image_iff)
  have ids: "map m_id (t_matches t) = map m_id (t_matches s)"
    using arg_cong[OF assms(2), of "map fst"] by (simp add: match_core_def comp_def)
  have "table_ok matches_table t"
    unfolding table_ok_def
  proof (intro conjI ballI)
    show "distinct (map (tb_key matches_table) (tb_rows matches_table t))"
      using assms(3) by (simp add: conn_track_def conn_inv_def table_ok_def ids)
    fix m assume "m \<in> set (tb_rows matches_table t)"
    then obtain m' where m': "m' \<in> set (t_matches s)" "match_core m' = match_core m" using same by auto
    then have ok: "match_ok m'" "\<not> conflicts matches_table (t_matches s) m'"
      using assms(3) by (auto simp: conn_track_def conn_inv_def table_ok_def)
    show "tb_ok matches_table m" using ok(1) m'(2) by (simp add: match_ok_def match_core_def)
    show "\<not> conflicts matches_table (tb_rows matches_table t) m"
    proof
      assume "conflicts matches_table (tb_rows matches_table t) m"
      then obtain q where q: "q \<in> set (t_matches t)" "m_id q \<noteq> m_id m" "match_clash q m"
        by (auto simp: conflicts_def list_ex_iff)
      then obtain q' where "q' \<in> set (t_matches s)" "match_core q' = match_core q" using same by auto
      with q m' ok(2) show False by (auto simp: conflicts_def list_ex_iff match_clash_def match_core_def)
    qed
  qed
  moreover have "rests_on_interest t"
    unfolding rests_on_interest_def
  proof (intro ballI allI impI)
    fix m i assume m: "m \<in> set (t_matches t)" "m_interestId m = Some i"
    then obtain m' where "m' \<in> set (t_matches s)" "match_core m' = match_core m" using same by auto
    with m(2) assms(3) show "\<exists>x \<in> set (t_interests t). i_id x = i \<and> i_status x = I_accepted \<and>
        of_pair (i_senderId x) (i_receiverId x) m"
      unfolding assms(1) by (fastforce simp: conn_track_def conn_inv_def rests_on_interest_def match_core_def of_pair_def)
  qed
  ultimately show ?thesis
    using assms(1,3) cores by (simp add: conn_track_def conn_inv_def settled_def table_ok_def)
qed

section \<open>Writes that keep both\<close>

lemma track_interests:
  assumes tr: "conn_track s0 s" and run: "update_rows interests_table P f s = (r, t)"
    and pending: "\<And>x. x \<in> set (t_interests s) \<Longrightarrow> P x \<Longrightarrow> i_status x = I_pending"
    and same: "\<And>x. i_id (f x) = i_id x \<and> i_senderId (f x) = i_senderId x \<and> i_receiverId (f x) = i_receiverId x"
  shows "conn_track s0 t"
proof (cases r)
  case (Inl e)
  have "t = s" using run unfolding Inl by (rule write_failed_state(2))
  with tr show ?thesis by simp
next
  case (Inr u)
  with run have run: "update_rows interests_table P f s = (Inr u, t)" by simp
  have rows: "t_interests t = update_where P f (t_interests s)" "t_matches t = t_matches s"
    using run by (auto simp: update_rows_Inr_iff)
  have kept: "x \<in> set (t_interests t)" if "x \<in> set (t_interests s)" "i_status x \<noteq> I_pending" for x
  proof -
    have "\<not> P x" using pending that by auto
    with in_update_whereI[of x "t_interests s" P f] that(1) show ?thesis by (simp add: rows(1))
  qed
  have "table_ok interests_table t"
    using interests.update_rows_ok[OF run] tr same by (simp add: conn_track_def conn_inv_def)
  moreover have "rests_on_interest t"
    using tr kept rows(2) by (fastforce simp: conn_track_def conn_inv_def rests_on_interest_def)
  ultimately show ?thesis
    using tr kept rows(2) by (auto simp: conn_track_def conn_inv_def settled_def table_ok_def)
qed

lemma track_new_interest:
  "conn_track s0 s \<Longrightarrow> insert_row interests_table x s = (r, t) \<Longrightarrow> conn_track s0 t"
  using interests.insert_row_ok[of x s _ t]
  by (cases r) (fastforce dest: write_failed_state(1)
      simp: conn_track_def conn_inv_def settled_def rests_on_interest_def insert_row_Inr_iff table_ok_def)+

lemma track_matches:
  assumes tr: "conn_track s0 s" and run: "update_rows matches_table P f s = (r, t)"
    and live: "\<And>m. m \<in> set (t_matches s) \<Longrightarrow> P m \<Longrightarrow> m_status m = M_active"
    and same: "\<And>m. m_id (f m) = m_id m \<and> m_userAId (f m) = m_userAId m \<and> m_userBId (f m) = m_userBId m \<and>
      m_interestId (f m) = m_interestId m"
  shows "conn_track s0 t"
proof (cases r)
  case (Inl e)
  have "t = s" using run unfolding Inl by (rule write_failed_state(2))
  with tr show ?thesis by simp
next
  case (Inr u)
  with run have run: "update_rows matches_table P f s = (Inr u, t)" by simp
  have rows: "t_matches t = update_where P f (t_matches s)" "t_interests t = t_interests s"
    using run by (auto simp: update_rows_Inr_iff)
  have kept: "m \<in> set (t_matches t)" if "m \<in> set (t_matches s)" "m_status m \<noteq> M_active" for m
  proof -
    have "\<not> P m" using live that by auto
    with in_update_whereI[of m "t_matches s" P f] that(1) show ?thesis by (simp add: rows(1))
  qed
  have "table_ok matches_table t"
    using matches.update_rows_ok[OF run] tr same by (simp add: conn_track_def conn_inv_def)
  moreover have "rests_on_interest t"
    unfolding rests_on_interest_def
  proof (intro ballI allI impI)
    fix m i assume m: "m \<in> set (t_matches t)" "m_interestId m = Some i"
    obtain m' where m': "m' \<in> set (t_matches s)" "m = (if P m' then f m' else m')"
      using m(1) unfolding rows(1) by (elim in_update_whereE)
    then have "m_interestId m' = Some i" "of_pair a b m = of_pair a b m'" for a b
      using m(2) same[of m'] by (cases "P m'"; simp add: of_pair_def)+
    then show "\<exists>x \<in> set (t_interests t). i_id x = i \<and> i_status x = I_accepted \<and> of_pair (i_senderId x) (i_receiverId x) m"
      using tr m'(1) by (auto simp: conn_track_def conn_inv_def rests_on_interest_def rows(2))
  qed
  moreover have "settled s0 t"
    unfolding settled_def
  proof (intro conjI ballI impI)
    fix m assume "m \<in> set (t_matches s0)" "m_status m \<noteq> M_active"
    then obtain m' where m': "m' \<in> set (t_matches s)" "match_core m = match_core m'" "m_status m' \<noteq> M_active"
      using tr by (force simp: conn_track_def settled_def match_core_def)
    with kept show "match_core m \<in> match_core ` set (t_matches t)" by blast
  qed (use tr in \<open>simp add: conn_track_def settled_def rows(2)\<close>)
  ultimately show ?thesis
    using tr by (simp add: conn_track_def conn_inv_def rows(2) table_ok_def)
qed

lemma track_new_match:
  assumes tr: "conn_track s0 s" and run: "insert_row matches_table (new_match m a b i e now') s = (r, t)"
    and x: "x \<in> set (t_interests s)" "i_id x = i" "i_status x = I_accepted"
      "{i_senderId x, i_receiverId x} = {a, b}"
  shows "conn_track s0 t"
proof (cases r)
  case (Inl e)
  have "t = s" using run unfolding Inl by (rule write_failed_state(1))
  with tr show ?thesis by simp
next
  case (Inr u)
  with run have run: "insert_row matches_table (new_match m a b i e now') s = (Inr u, t)" by simp
  have rows: "t_matches t = t_matches s @ [new_match m a b i e now']" "t_interests t = t_interests s"
    using run by (auto simp: insert_row_Inr_iff)
  have "table_ok matches_table t"
    using matches.insert_row_ok[OF run] tr by (simp add: conn_track_def conn_inv_def)
  moreover have "of_pair (i_senderId x) (i_receiverId x) (new_match m a b i e now')"
    using x(4) by (auto simp: of_pair_def new_match_def canonicalPair_def doubleton_eq_iff)
  then have "rests_on_interest t"
    using tr x by (auto simp: conn_track_def conn_inv_def rests_on_interest_def rows new_match_def)
  ultimately show ?thesis
    using tr by (auto simp: conn_track_def conn_inv_def settled_def rows table_ok_def)
qed


section \<open>The operations\<close>

lemma track_other [intro]: "conn_track s0 s \<Longrightarrow> conn_track s0 (s\<lparr>drawn := n\<rparr>)"
  by (rule conn_track_view[where s = s]) simp_all

lemma track_keeps_interests:
  assumes "\<And>x. P x \<Longrightarrow> i_status x = I_pending"
    and "\<And>x. i_id (f x) = i_id x \<and> i_senderId (f x) = i_senderId x \<and> i_receiverId (f x) = i_receiverId x"
  shows "keeps (conn_track s0) (update_rows interests_table P f)"
  by (rule keepsI) (erule (1) track_interests, use assms in auto)

lemma answer_same [simp]:
  "i_id (answer st now' x) = i_id x" "i_senderId (answer st now' x) = i_senderId x"
  "i_receiverId (answer st now' x) = i_receiverId x"
  by (simp_all add: answer_def)

lemma keeps_now: "keeps I now"
  by (simp add: now_def keeps_rules)

lemma track_answers:
  "keeps (conn_track s0) (answer_pending mine i st)"
  "keeps (conn_track s0) (close_pending i st)"
  "keeps (conn_track s0) (expireStale a b)"
  "keeps (conn_track s0) (cancelPendingInterestsOf a)"
  unfolding answer_pending_def close_pending_def expireStale_def cancelPendingInterestsOf_def Let_def
  by (intro keeps_rules keeps_now track_keeps_interests; simp add: pendingBetween_def)+

lemma active_match_Some:
  "active_match a b s = Some m \<Longrightarrow> m \<in> set (t_matches s) \<and> m_status m = M_active \<and> of_pair a b m"
  by (auto simp: active_match_def find_row_def dest: find_Some_in)

lemma end_match_same [simp]:
  "m_id (end_match st now' x y m) = m_id m" "m_userAId (end_match st now' x y m) = m_userAId m"
  "m_userBId (end_match st now' x y m) = m_userBId m" "m_interestId (end_match st now' x y m) = m_interestId m"
  by (simp_all add: end_match_def)

text \<open>Ids of active matches name active matches only.\<close>

lemma track_end_ids:
  assumes tr: "conn_track s0 s" and run: "update_rows matches_table P f s = (r, t)"
    and ids: "\<And>m. P m \<Longrightarrow> \<exists>q \<in> set (t_matches s). m_status q = M_active \<and> m_id q = m_id m"
    and same: "\<And>m. m_id (f m) = m_id m \<and> m_userAId (f m) = m_userAId m \<and> m_userBId (f m) = m_userBId m \<and>
      m_interestId (f m) = m_interestId m"
  shows "conn_track s0 t"
proof (rule track_matches[OF tr run _ same])
  fix m assume m: "m \<in> set (t_matches s)" "P m"
  then obtain q where "q \<in> set (t_matches s)" "m_status q = M_active" "m_id q = m_id m" using ids by blast
  moreover have "table_ok matches_table s" using tr by (simp add: conn_track_def conn_inv_def)
  ultimately show "m_status m = M_active" using m(1) matches.key_eq[of s m q] by auto
qed

lemma track_endConnections: "keeps (conn_track s0) (endConnections a b st x y)"
proof -
  have ended: "keeps (conn_track s0) (andThen (gets (active_match a b)) (\<lambda>active. case active of None \<Rightarrow> ret None
    | Some m \<Rightarrow> andThen (update_rows matches_table (\<lambda>r. m_id r = m_id m) (end_match st now' x y)) (\<lambda>_. ret (Some (m_id m)))))"
    for now'
  proof (rule keepsI)
    fix s r t
    assume tr: "conn_track s0 s"
      and run: "andThen (gets (active_match a b)) (\<lambda>active. case active of None \<Rightarrow> ret None
        | Some m \<Rightarrow> andThen (update_rows matches_table (\<lambda>r. m_id r = m_id m) (end_match st now' x y)) (\<lambda>_. ret (Some (m_id m)))) s = (r, t)"
    show "conn_track s0 t"
    proof (cases "active_match a b s")
      case None
      with run tr show ?thesis by (auto simp: ret_def)
    next
      case (Some m)
      obtain r' u where upd: "update_rows matches_table (\<lambda>r. m_id r = m_id m) (end_match st now' x y) s = (r', u)"
        by (rule prod.exhaust)
      have "conn_track s0 u"
        using active_match_Some[OF Some] by (intro track_end_ids[OF tr upd]) auto
      moreover have "t = u" using run upd by (auto simp: Some andThen_def gets_def ret_def split: sum.splits)
      ultimately show ?thesis by simp
    qed
  qed
  show ?thesis
    unfolding endConnections_def
    by (intro keeps_andThen keeps_now track_keeps_interests ended) (simp_all add: pendingBetween_def)
qed

lemma track_endAllMatchesOf: "keeps (conn_track s0) (endAllMatchesOf a admin)"
proof (rule keepsI)
  fix s r t assume tr: "conn_track s0 s" and run: "endAllMatchesOf a admin s = (r, t)"
  let ?found = "rows_where matches_table (\<lambda>m. m_status m = M_active \<and> of_member a m) s"
  let ?f = "\<lambda>m. m\<lparr>m_status := M_closed, m_endedAt := Some (clock s), m_endedByAdminId := Some admin\<rparr>"
  obtain r' u where upd: "update_rows matches_table (\<lambda>m. List.member (map m_id ?found) (m_id m)) ?f s = (r', u)"
    by (rule prod.exhaust)
  have "conn_track s0 u"
    by (rule track_end_ids[OF tr upd]) (auto simp: rows_where_def)
  moreover have "t = u \<or> t = s"
    using run upd by (auto simp: endAllMatchesOf_def run_simps andThen_def split: sum.splits if_splits)
  ultimately show "conn_track s0 t" using tr by auto
qed

lemma track_unmatch_tx: "keeps (conn_track s0) (unmatch_tx a i)"
  unfolding unmatch_tx_def
proof (intro keeps_transaction keeps_andThen keeps_rules keeps_now keepsI)
  fix now' s r t
  assume tr: "conn_track s0 s" and run: "update_rows matches_table (\<lambda>m. m_id m = i \<and> m_status m = M_active)
    (\<lambda>m. m\<lparr>m_status := M_unmatched, m_endedAt := Some now', m_endedByUserId := Some a\<rparr>) s = (r, t)"
  show "conn_track s0 t" by (rule track_matches[OF tr run]) auto
qed

text \<open>Accepting a pending interest: it becomes accepted, and a match of its pair may rest on it.\<close>

lemma accept_row_track:
  assumes tr: "conn_track s0 s" and x: "x \<in> set (t_interests s)" "i_status x = I_pending"
    and run: "accept_row now' x s = (Inr x', t)"
  shows "conn_track s0 t \<and> x' \<in> set (t_interests t) \<and> i_status x' = I_accepted \<and> i_id x' = i_id x \<and>
    i_senderId x' = i_senderId x \<and> i_receiverId x' = i_receiverId x \<and> t_matches t = t_matches s"
proof -
  define f where "f = apply_settings [setting i_status i_status_update I_accepted,
    setting i_respondedAt i_respondedAt_update (Some now')] x"
  have f: "i_id (f y) = i_id y" "i_senderId (f y) = i_senderId y" "i_receiverId (f y) = i_receiverId y" for y
    by (simp_all add: f_def setting_def)
  have upd: "update_rows interests_table (\<lambda>r. i_id r = i_id x) f s = (Inr (), t)" and x': "x' = f x"
    using run by (simp_all add: accept_row_def save_Inr_iff f_def del: apply_settings_Cons)
  have ok: "table_ok interests_table s" using tr by (simp add: conn_track_def conn_inv_def)
  have only: "y = x" if "y \<in> set (t_interests s)" "i_id y = i_id x" for y
    using interests.key_eq[OF ok, of y x] that x(1) by auto
  have "conn_track s0 t"
    by (rule track_interests[OF tr upd]) (use only x(2) f in auto)
  moreover have "x' \<in> set (t_interests t)"
    using upd in_update_whereI[OF x(1), of "\<lambda>r. i_id r = i_id x" f] by (auto simp: update_rows_Inr_iff x')
  moreover have "i_status x' = I_accepted" using x(2) by (simp add: x' f_def setting_def)
  moreover have "t_matches t = t_matches s" using upd by (simp add: update_rows_Inr_iff)
  ultimately show ?thesis using f x' by simp
qed

lemma create_match_track:
  assumes tr: "conn_track s0 s" and run: "create_match a b i e s = (r, t)"
    and x: "x \<in> set (t_interests s)" "i_id x = i" "i_status x = I_accepted" "{i_senderId x, i_receiverId x} = {a, b}"
  shows "conn_track s0 t"
proof -
  let ?s = "s\<lparr>drawn := Suc (drawn s)\<rparr>"
  obtain r' u where ins: "insert_row matches_table (new_match (Suc (rng s (drawn s))) a b i e (clock s)) ?s = (r', u)"
    by (rule prod.exhaust)
  have "conn_track s0 u"
    by (rule track_new_match[OF track_other[OF tr] ins]) (use x in simp_all)
  moreover have "t = u"
    using run ins by (auto simp: create_match_def run_simps andThen_def split: sum.splits)
  ultimately show ?thesis by simp
qed


section \<open>The transactions\<close>

lemma pending_row:
  "find_row interests_table (pendingBetween a b) s = Some x \<Longrightarrow>
    x \<in> set (t_interests s) \<and> i_status x = I_pending \<and> {i_senderId x, i_receiverId x} = {a, b}"
  by (auto simp: find_row_def pendingBetween_def dest!: find_Some_in)

lemma track_accept_and_match:
  assumes tr: "conn_track s0 s" and x: "x \<in> set (t_interests s)" "i_status x = I_pending"
    and pair: "{i_senderId x, i_receiverId x} = {a, b}"
    and run: "andThen (accept_row now' x) (\<lambda>_. andThen (create_match a b (i_id x) e) g) s = (Inr v, t)"
    and g: "\<And>m. keeps (conn_track s0) (g m)"
  shows "conn_track s0 t"
proof -
  obtain x' s1 m s2 where acc: "accept_row now' x s = (Inr x', s1)" and cr: "create_match a b (i_id x) e s1 = (Inr m, s2)"
    and last: "g m s2 = (Inr v, t)"
    using run by (auto simp: returns_iff)
  note a = accept_row_track[OF tr x acc]
  have "conn_track s0 s2" by (rule create_match_track[OF _ cr, of s0 x']) (use a pair in auto)
  with g last show ?thesis by (rule keepsD)
qed

lemma track_send_tx: "keeps (conn_track s0) (send_tx a b e)"
proof (rule keeps_committed[OF send_tx_def])
  fix s v t assume tr: "conn_track s0 s" and run: "send_tx a b e s = (Inr v, t)"
  obtain s1 where stale: "expireStale a b s = (Inr (), s1)"
    and rest: "(case find_row interests_table (pendingBetween a b) s1 of
       Some x \<Rightarrow>
         if i_senderId x = a then ret (i_id x, None, True)
         else andThen (accept_row (clock s1) x) (\<lambda>_.
           andThen (create_match a b (i_id x) (case i_eventId x of None \<Rightarrow> e | Some e \<Rightarrow> Some e)) (\<lambda>m.
           ret (i_id x, Some m, False)))
     | None \<Rightarrow>
         andThen fresh_uuid (\<lambda>i.
         andThen (insert_row interests_table (new_interest i a b e (clock s1))) (\<lambda>_.
         ret (i, None, False)))) s1 = (Inr v, t)"
    using run unfolding send_tx_def transaction_Inr_iff by (auto simp: returns_iff)
  have tr1: "conn_track s0 s1" using keepsD[OF track_answers(3) stale tr] .
  show "conn_track s0 t"
  proof (cases "find_row interests_table (pendingBetween a b) s1")
    case None
    with rest obtain s2 i where "insert_row interests_table (new_interest i a b e (clock s1)) (s1\<lparr>drawn := Suc (drawn s1)\<rparr>) = (Inr (), s2)"
      "t = s2" by (auto simp: returns_iff)
    then show ?thesis using track_new_interest[OF track_other[OF tr1]] by blast
  next
    case (Some x)
    note x = pending_row[OF Some]
    show ?thesis
    proof (cases "i_senderId x = a")
      case True
      with rest Some tr1 show ?thesis by (simp add: ret_def)
    next
      case False
      from rest have "andThen (accept_row (clock s1) x) (\<lambda>_.
           andThen (create_match a b (i_id x) (case i_eventId x of None \<Rightarrow> e | Some e \<Rightarrow> Some e)) (\<lambda>m.
           ret (i_id x, Some m, False))) s1 = (Inr v, t)"
        unfolding Some by (simp add: False)
      then show ?thesis
        using x by (intro track_accept_and_match[OF tr1, of x]) (auto intro: keeps_rules)
    qed
  qed
qed

lemma track_accept_tx:
  assumes tr: "conn_track s0 s" and mine: "sent_between a b i s" and run: "accept_tx a b i s = (r, t)"
  shows "conn_track s0 t"
proof (cases r)
  case (Inl e)
  have "t = s" using run unfolding Inl accept_tx_def by (rule transaction_Inl_state)
  with tr show ?thesis by simp
next
  case (Inr v)
  obtain x where x: "by_key interests_table i s = Some x" "i_status x = I_pending"
    and rest: "andThen (accept_row (clock s) x) (\<lambda>_. andThen (gets (active_match a b)) (\<lambda>existing. case existing of
       Some m \<Rightarrow> ret (m_id m, False)
     | None \<Rightarrow> andThen (create_match a b i (i_eventId x)) (\<lambda>m. ret (m, True)))) s = (Inr v, t)"
    using run unfolding Inr accept_tx_def transaction_Inr_iff by (auto simp: returns_iff)
  have x_in: "x \<in> set (t_interests s)" "i_id x = i" using interests.by_key_in[OF x(1)] by simp_all
  have pair: "{i_senderId x, i_receiverId x} = {a, b}" using mine x_in by (auto simp: sent_between_def)
  obtain x' s1 where acc: "accept_row (clock s) x s = (Inr x', s1)"
    and rest: "(case active_match a b s1 of Some m \<Rightarrow> ret (m_id m, False)
     | None \<Rightarrow> andThen (create_match a b i (i_eventId x)) (\<lambda>m. ret (m, True))) s1 = (Inr v, t)"
    using rest by (auto simp: returns_iff)
  note a = accept_row_track[OF tr x_in(1) x(2) acc]
  show ?thesis
  proof (cases "active_match a b s1")
    case (Some m)
    with rest a show ?thesis by (simp add: ret_def)
  next
    case None
    obtain m where cr: "create_match a b i (i_eventId x) s1 = (Inr m, t)"
      using rest unfolding None by (auto simp: returns_iff)
    show ?thesis by (rule create_match_track[OF _ cr, of s0 x']) (use a pair x_in in auto)
  qed
qed


section \<open>Reachable states\<close>

lemma keeps_snd: "keeps I m \<Longrightarrow> I s \<Longrightarrow> I (snd (m s))"
  by (simp add: keeps_def)

lemma track_step: "conn_step s t \<Longrightarrow> conn_track s0 s \<Longrightarrow> conn_track s0 t"
proof (induction rule: conn_step.induct)
  case (accept a b i s)
  show ?case by (rule track_accept_tx[OF accept(2,1) surjective_pairing])
next
  case (elsewhere t s)
  show ?case by (rule conn_track_view[OF elsewhere])
qed (auto intro: keeps_snd track_send_tx track_answers track_unmatch_tx track_endConnections track_endAllMatchesOf)

definition conn_start :: "db \<Rightarrow> bool" where
  "conn_start s \<longleftrightarrow> t_interests s = [] \<and> t_matches s = []"

interpretation conns: invariant_system conn_start conn_step conn_inv
proof
  show "conn_inv s" if "conn_start s" for s
    using that by (simp add: conn_start_def conn_inv_def table_ok_def rests_on_interest_def)
  show "conn_inv t" if "conn_inv s" "conn_step s t" for s t
    using track_step[OF that(2), of s] that(1) settled_refl by (simp add: conn_track_def)
qed

lemma steps_track: "conn_step\<^sup>*\<^sup>* s t \<Longrightarrow> conn_track s0 s \<Longrightarrow> conn_track s0 t"
  by (induction rule: rtranclp_induct) (auto intro: track_step)

section \<open>Methods are sequences of steps\<close>

definition conn_reached :: "db \<Rightarrow> db \<Rightarrow> bool" where
  "conn_reached s0 s \<longleftrightarrow> conn_step\<^sup>*\<^sup>* s0 s"

definition conn_view :: "db \<Rightarrow> partner_interest list \<times> (uuid \<times> uuid \<times> uuid \<times> uuid option \<times> match_status \<times> instant option) list" where
  "conn_view s = (t_interests s, map match_core (t_matches s))"

lemma reached_by_step: "(\<And>s. conn_step s (snd (m s))) \<Longrightarrow> keeps (conn_reached s0) m"
  unfolding keeps_def conn_reached_def by (meson rtranclp.rtrancl_into_rtrancl)

lemma reached_elsewhere: "leaves conn_view m \<Longrightarrow> keeps (conn_reached s0) m"
  by (rule reached_by_step) (simp add: leaves_def conn_view_def conn_step.elsewhere)

lemma ignores_conn_view: "ignores_notifications conn_view"
  by (simp add: ignores_notifications_def conn_view_def)

lemma reached_small:
  "keeps (conn_reached s0) (notify env input)"
  "keeps (conn_reached s0) (recordSafety env et sev u adm ip md)"
  "keeps (conn_reached s0) (emitMatchEnded i a b)"
  "keeps (conn_reached s0) now"
  unfolding emitMatchEnded_def
  by (intro reached_elsewhere leaves_rules ignores_conn_view; simp add: conn_view_def)+

lemma reached_respond:
  "st \<in> {I_declined, I_withdrawn} \<Longrightarrow> keeps (conn_reached s0) (respond mine i st)"
  unfolding respond_def
  by (intro keeps_rules reached_by_step conn_step.answer) auto

lemma reached_send: "keeps (conn_reached s0) (send env a b e ip)"
  unfolding send_def assertMaySend_def notify_sent_def
  by (intro keeps_rules reached_small reached_by_step[OF conn_step.send])

lemma reached_unmatch: "keeps (conn_reached s0) (unmatch a i)"
  unfolding unmatch_def
  by (intro keeps_rules reached_small reached_by_step[OF conn_step.unmatch])


lemma andThen_keeps_at: "I (snd (m s)) \<Longrightarrow> (\<And>v. keeps I (f v)) \<Longrightarrow> I (snd (andThen m f s))"
  by (simp add: andThen_def keeps_def split: sum.split prod.split) (metis snd_conv)

lemma reached_accept:
  assumes s: "conn_reached s0 s" and ok: "table_ok interests_table s"
  shows "conn_reached s0 (snd (accept env a i s))"
proof (cases "find_row interests_table (\<lambda>x. i_id x = i \<and> i_receiverId x = a) s")
  case None
  then show ?thesis using s by (simp add: accept_def run_simps)
next
  case (Some x)
  then have x: "x \<in> set (t_interests s)" "i_id x = i" "i_receiverId x = a"
    by (auto simp: find_row_def dest: find_Some_in)
  have "sent_between a (i_senderId x) i s"
    unfolding sent_between_def
  proof (intro ballI impI)
    fix y assume "y \<in> set (t_interests s)" "i_id y = i"
    then have "y = x" using interests.key_eq[OF ok, of y x] x by simp
    then show "i_receiverId y = a \<and> i_senderId y = i_senderId x" using x by simp
  qed
  then have "conn_reached s0 (snd (accept_tx a (i_senderId x) i s))"
    using rtranclp.rtrancl_into_rtrancl[OF s[unfolded conn_reached_def] conn_step.accept] by (simp add: conn_reached_def)
  then have last: "conn_reached s0 (snd (andThen (accept_tx a (i_senderId x) i) (\<lambda>(matchId, created).
      andThen (doWhen created (notify env (notice (i_senderId x) Interest_accepted a (Some i) (Some matchId)))) (\<lambda>_.
      andThen (gets (get_match a matchId)) from_sum)) s))"
    by (rule andThen_keeps_at) (intro keeps_rules reached_small)
  have closed: "conn_reached s0 (snd (andThen (close_pending i st) (\<lambda>_. throw e :: match_dto op) s))" if "st \<in> {I_expired, I_cancelled}" for st e
  proof -
    have "keeps (conn_reached s0) (andThen (close_pending i st) (\<lambda>_. throw e :: match_dto op))"
      by (intro keeps_rules reached_by_step conn_step.close that)
    then show ?thesis using s by (simp add: keeps_def)
  qed
  show ?thesis
    using s last closed unfolding accept_def
    by (auto simp: Some run_simps split: sum.splits)
qed

end
