(* ===== verification/Sanctions_Steps.thy ===== *)
theory Sanctions_Steps
  imports Sanctions Connections_Steps
begin

text \<open>
  Sanction records and the account state they cache. A step is one transaction that applies, lifts or
  expires sanctions, or a change elsewhere that leaves both alone. The invariant: an account is suspended,
  banned or restricted exactly while a sanction of that type is active for it.
\<close>

section \<open>The invariant\<close>

definition holds_sanction :: "user_sanction list \<Rightarrow> uuid \<Rightarrow> sanction_type \<Rightarrow> bool" where
  "holds_sanction rows i type \<longleftrightarrow> (\<exists>x \<in> set rows. sn_userId x = i \<and> sn_type x = type \<and> sanction_is_active x)"

definition account_agrees :: "user_sanction list \<Rightarrow> user \<Rightarrow> bool" where
  "account_agrees rows u \<longleftrightarrow>
    (u_status u = U_suspended) = holds_sanction rows (u_id u) Suspension \<and>
    (u_status u = U_banned) = holds_sanction rows (u_id u) Ban \<and>
    (u_chatRestrictedAt u \<noteq> None) = holds_sanction rows (u_id u) Chat_restriction"

definition sanctions_agree :: "db \<Rightarrow> bool" where
  "sanctions_agree s \<longleftrightarrow> table_ok users_table s \<and> table_ok sanctions_table s \<and>
    (\<forall>u \<in> set (t_users s). u_deletedAt u = None \<longrightarrow> account_agrees (t_sanctions s) u)"

definition sanction_core :: "user_sanction \<Rightarrow> uuid \<times> uuid \<times> sanction_type \<times> bool" where
  "sanction_core x = (sn_id x, sn_userId x, sn_type x, sanction_is_active x)"

definition account_core :: "user \<Rightarrow> uuid \<times> user_status \<times> instant option" where
  "account_core u = (u_id u, u_status u, u_chatRestrictedAt u)"

text \<open>A new account is active and nothing is recorded for it.\<close>

definition new_account :: "user_sanction list \<Rightarrow> user \<Rightarrow> bool" where
  "new_account rows u \<longleftrightarrow> u_status u = U_active \<and> u_chatRestrictedAt u = None \<and> (\<forall>x \<in> set rows. sn_userId x \<noteq> u_id u)"

inductive sanction_step :: "db \<Rightarrow> db \<Rightarrow> bool" where
  sanction: "sanction_step s (snd (transaction (applySanction env actor input) s))"
| lift: "type \<noteq> Warning \<Longrightarrow> sanction_step s (snd (transaction (liftSanction env actor userId type reason) s))"
| expire: "sanction_step s (snd (expireSanctions t0 s))"
| elsewhere: "table_ok users_table t \<Longrightarrow> table_ok sanctions_table t \<Longrightarrow>
    map sanction_core (t_sanctions t) = map sanction_core (t_sanctions s) \<Longrightarrow>
    (\<And>u. u \<in> set (t_users t) \<Longrightarrow> u_deletedAt u = None \<Longrightarrow> new_account (t_sanctions s) u \<or>
      (\<exists>u0 \<in> set (t_users s). u_deletedAt u0 = None \<and> account_core u0 = account_core u)) \<Longrightarrow>
    sanction_step s t"

lemma holds_core:
  assumes "map sanction_core rows = map sanction_core rows'"
  shows "holds_sanction rows = holds_sanction rows'"
proof -
  have "holds_sanction rows i ty \<longleftrightarrow> (\<exists>c \<in> set (map sanction_core rows). \<exists>j. c = (j, i, ty, True))" for rows i ty
    by (auto simp: holds_sanction_def sanction_core_def)
  then show ?thesis by (simp add: fun_eq_iff assms del: set_map)
qed

lemma agrees_core: "account_core u = account_core v \<Longrightarrow> account_agrees rows u = account_agrees rows v"
  by (simp add: account_core_def account_agrees_def)

lemma agrees_elsewhere:
  assumes "sanctions_agree s" "table_ok users_table t" "table_ok sanctions_table t"
    "map sanction_core (t_sanctions t) = map sanction_core (t_sanctions s)"
    "\<And>u. u \<in> set (t_users t) \<Longrightarrow> u_deletedAt u = None \<Longrightarrow> new_account (t_sanctions s) u \<or>
      (\<exists>u0 \<in> set (t_users s). u_deletedAt u0 = None \<and> account_core u0 = account_core u)"
  shows "sanctions_agree t"
proof -
  have "account_agrees (t_sanctions t) u" if u: "u \<in> set (t_users t)" "u_deletedAt u = None" for u
  proof -
    have "account_agrees (t_sanctions s) u"
      using assms(5)[OF u]
    proof
      assume "new_account (t_sanctions s) u"
      then show ?thesis by (auto simp: new_account_def account_agrees_def holds_sanction_def)
    next
      assume "\<exists>u0 \<in> set (t_users s). u_deletedAt u0 = None \<and> account_core u0 = account_core u"
      then obtain u0 where "u0 \<in> set (t_users s)" "u_deletedAt u0 = None" "account_core u0 = account_core u" by blast
      with assms(1) agrees_core[of u u0] show ?thesis by (simp add: sanctions_agree_def)
    qed
    then show ?thesis by (simp add: account_agrees_def holds_core[OF assms(4)])
  qed
  with assms(2,3) show ?thesis by (simp add: sanctions_agree_def)
qed

lemma agrees_view:
  "sanctions_agree s \<Longrightarrow> t_users t = t_users s \<Longrightarrow> t_sanctions t = t_sanctions s \<Longrightarrow> sanctions_agree t"
  by (simp add: sanctions_agree_def table_ok_def)

section \<open>What the writes do to the records\<close>

lemma holds_append: "holds_sanction (rows @ [x]) i ty \<longleftrightarrow>
    holds_sanction rows i ty \<or> sn_userId x = i \<and> sn_type x = ty \<and> sanction_is_active x"
  by (auto simp: holds_sanction_def)

lemma revoke_sanctions_Inr:
  assumes "revoke_sanctions i ty adm reason s = (Inr ids, t)"
  shows "holds_sanction (t_sanctions t) j ty' = (holds_sanction (t_sanctions s) j ty' \<and> \<not> (j = i \<and> ty' = ty))"
    and "t_users t = t_users s" and "table_ok sanctions_table s \<Longrightarrow> table_ok sanctions_table t"
proof -
  let ?P = "\<lambda>x. sn_userId x = i \<and> sn_type x = ty \<and> sanction_is_active x"
  let ?f = "\<lambda>x. x\<lparr>sn_revokedAt := Some (clock s), sn_revokedByAdminId := Some adm, sn_revokeReason := Some reason\<rparr>"
  have run: "update_rows sanctions_table ?P ?f s = (Inr (), t)"
    using assms by (auto simp: revoke_sanctions_def Let_def returns_iff)
  then have rows: "t_sanctions t = update_where ?P ?f (t_sanctions s)" and "t_users t = t_users s"
    by (auto simp: update_rows_Inr_iff)
  then show "t_users t = t_users s" by simp
  show "holds_sanction (t_sanctions t) j ty' = (holds_sanction (t_sanctions s) j ty' \<and> \<not> (j = i \<and> ty' = ty))"
    by (auto simp: holds_sanction_def rows set_update_where sanction_is_active_def)
  show "table_ok sanctions_table s \<Longrightarrow> table_ok sanctions_table t"
    using sanctions.update_rows_ok[OF run] by simp
qed

lemma setAccountStatus_Inr:
  assumes "setAccountStatus i st s = (Inr (), t)"
  shows "t_users t = update_where (\<lambda>u. u_id u = i \<and> u_deletedAt u = None) (\<lambda>u. u\<lparr>u_status := st\<rparr>) (t_users s)"
    and "t_sanctions t = t_sanctions s" and "table_ok users_table s \<Longrightarrow> table_ok users_table t"
proof -
  obtain s1 where upd: "update_rows users_table (\<lambda>u. u_id u = i \<and> u_deletedAt u = None) (\<lambda>u. u\<lparr>u_status := st\<rparr>) s = (Inr (), s1)"
    and rest: "doWhen (st \<noteq> U_active)
      (update_rows sessions_table (\<lambda>x. s_userId x = i \<and> s_revokedAt x = None)
        (\<lambda>x. x\<lparr>s_revokedAt := Some (clock s), s_revokedReason := Some Rev_sanction\<rparr>)) s1 = (Inr (), t)"
    using assms by (auto simp: setAccountStatus_def returns_iff)
  have "leaves (\<lambda>s. (t_users s, t_sanctions s)) (doWhen (st \<noteq> U_active)
      (update_rows sessions_table (\<lambda>x. s_userId x = i \<and> s_revokedAt x = None)
        (\<lambda>x. x\<lparr>s_revokedAt := Some (clock s), s_revokedReason := Some Rev_sanction\<rparr>)))"
    by (intro leaves_rules) simp_all
  from leavesD[OF this rest] have same: "t_users t = t_users s1" "t_sanctions t = t_sanctions s1" by simp_all
  show "t_users t = update_where (\<lambda>u. u_id u = i \<and> u_deletedAt u = None) (\<lambda>u. u\<lparr>u_status := st\<rparr>) (t_users s)"
    and "t_sanctions t = t_sanctions s"
    using upd same by (auto simp: update_rows_Inr_iff)
  show "table_ok users_table s \<Longrightarrow> table_ok users_table t"
    using users.update_rows_ok[OF upd] same(1) by (simp add: table_ok_def)
qed

lemma audit_Inr:
  assumes "recordAdminAction env adm act tgt i md ip s = (Inr (), t)"
  shows "t_users t = t_users s \<and> t_sanctions t = t_sanctions s"
proof -
  have "leaves (\<lambda>s. (t_users s, t_sanctions s)) (recordAdminAction env adm act tgt i md ip)"
    by (intro leaves_rules) simp_all
  from leavesD[OF this assms] show ?thesis by simp
qed

section \<open>The transactions\<close>

lemma live_account_in:
  "live_account i s = Some u \<Longrightarrow> u \<in> set (t_users s) \<and> u_id u = i \<and> u_deletedAt u = None"
  by (auto simp: live_account_def find_row_def dest: find_Some_in)

lemma active_sanction_None:
  "active_sanction i ty s = None \<Longrightarrow> \<not> holds_sanction (t_sanctions s) i ty"
  by (auto simp: active_sanction_def find_row_def holds_sanction_def dest: find_None_notin)

lemma apply_one: "apply_settings [c] inst = c inst"
  by (simp add: fun_eq_iff)

text \<open>Saving the restriction of an account touches that account alone.\<close>

lemma save_restriction:
  assumes ok: "table_ok users_table s" and u: "u \<in> set (t_users s)"
    and run: "save users_table [setting u_chatRestrictedAt u_chatRestrictedAt_update v] u s = (Inr u', t)"
  shows "set (t_users t) = (\<lambda>r. if u_id r = u_id u then r\<lparr>u_chatRestrictedAt := v\<rparr> else r) ` set (t_users s)"
    and "t_sanctions t = t_sanctions s" and "table_ok users_table t"
proof -
  let ?f = "setting u_chatRestrictedAt u_chatRestrictedAt_update v u"
  have upd: "update_rows users_table (\<lambda>r. u_id r = u_id u) ?f s = (Inr (), t)"
    using run by (simp add: save_Inr_iff apply_one)
  have "r = u" if "r \<in> set (t_users s)" "u_id r = u_id u" for r
    using users.key_eq[OF ok, of r u] that u by simp
  moreover have "?f u = u\<lparr>u_chatRestrictedAt := v\<rparr>" by (auto simp: setting_def)
  ultimately have "(if u_id r = u_id u then ?f r else r) = (if u_id r = u_id u then r\<lparr>u_chatRestrictedAt := v\<rparr> else r)"
    if "r \<in> set (t_users s)" for r
    using that by metis
  moreover have "t_users t = update_where (\<lambda>r. u_id r = u_id u) ?f (t_users s)"
    using upd by (auto simp: update_rows_Inr_iff)
  ultimately show "set (t_users t) = (\<lambda>r. if u_id r = u_id u then r\<lparr>u_chatRestrictedAt := v\<rparr> else r) ` set (t_users s)"
    by (simp add: set_update_where cong: image_cong_simp)
  show "t_sanctions t = t_sanctions s" using upd by (auto simp: update_rows_Inr_iff)
  show "table_ok users_table t" using users.update_rows_ok[OF upd] ok by (simp add: setting_keeps)
qed

text \<open>The accounts other than the one a write is about keep what they had.\<close>

lemma agreeI:
  assumes inv: "sanctions_agree s" and ok: "table_ok users_table t" "table_ok sanctions_table t"
    and u: "u \<in> set (t_users s)" "u_deletedAt u = None"
    and rows: "set (t_users t) = (\<lambda>r. if u_id r = u_id u \<and> (live \<longrightarrow> u_deletedAt r = None) then f r else r) ` set (t_users s)"
    and f: "\<And>r. u_id (f r) = u_id r" "\<And>r. u_deletedAt (f r) = u_deletedAt r"
    and holds: "\<And>j ty. j \<noteq> u_id u \<Longrightarrow> ty \<noteq> Warning \<Longrightarrow> holds_sanction (t_sanctions t) j ty = holds_sanction (t_sanctions s) j ty"
    and here: "account_agrees (t_sanctions t) (f u)"
  shows "sanctions_agree t"
proof -
  have users: "table_ok users_table s" using inv by (simp add: sanctions_agree_def)
  have "account_agrees (t_sanctions t) r" if r: "r \<in> set (t_users t)" "u_deletedAt r = None" for r
  proof -
    obtain r0 where r0: "r0 \<in> set (t_users s)" "r = (if u_id r0 = u_id u \<and> (live \<longrightarrow> u_deletedAt r0 = None) then f r0 else r0)"
      using r(1) unfolding rows by blast
    show ?thesis
    proof (cases "u_id r0 = u_id u")
      case True
      then have "r0 = u" using users.key_eq[OF users, of r0 u] r0(1) u(1) by simp
      with r0(2) here u(2) show ?thesis by simp
    next
      case False
      then have "r = r0" using r0(2) by simp
      moreover have "account_agrees (t_sanctions s) r0"
        using inv r0(1) r(2) \<open>r = r0\<close> by (simp add: sanctions_agree_def)
      ultimately show ?thesis using False by (simp add: account_agrees_def holds)
    qed
  qed
  with ok show ?thesis by (simp add: sanctions_agree_def)
qed

lemma enforce_agrees:
  assumes inv: "sanctions_agree s" and u: "u \<in> set (t_users s)" "u_deletedAt u = None"
    and free: "u_status u \<noteq> U_banned" "ty \<noteq> Warning \<longrightarrow> \<not> holds_sanction (t_sanctions s) (u_id u) ty"
      "ty = Suspension \<longrightarrow> u_status u \<noteq> U_suspended" "ty = Chat_restriction \<longrightarrow> u_chatRestrictedAt u = None"
    and x: "t_sanctions s1 = t_sanctions s @ [x]" "sn_userId x = u_id u" "sn_type x = ty" "sanction_is_active x"
    and s1: "t_users s1 = t_users s" "table_ok sanctions_table s1"
    and run: "enforce adm u ty t0 s1 = (Inr r, t)"
  shows "sanctions_agree t"
proof -
  have ok: "table_ok users_table s1" using inv s1(1) by (simp add: sanctions_agree_def table_ok_def)
  have agree: "account_agrees (t_sanctions s) u" using inv u by (simp add: sanctions_agree_def)
  have others: "holds_sanction (t_sanctions s1) j ty' = holds_sanction (t_sanctions s) j ty'" if "j \<noteq> u_id u" for j ty'
    using that x by (simp add: holds_append)
  show ?thesis
  proof (cases ty)
    case Warning
    then have "t = s1" using run by (simp add: enforce_def ret_def Let_def)
    moreover have "account_agrees (t_sanctions s1) u" using agree x Warning by (simp add: account_agrees_def x(1) holds_append)
    moreover have "set (t_users s1) = (\<lambda>r. if u_id r = u_id u \<and> (False \<longrightarrow> u_deletedAt r = None) then id r else r) ` set (t_users s)"
      by (auto simp: s1(1))
    then have "account_agrees (t_sanctions s1) (id u) \<Longrightarrow> sanctions_agree s1"
      using others by (intro agreeI[OF inv ok s1(2) u, where f = id and live = False]) simp_all
    ultimately show ?thesis by simp
  next
    case Chat_restriction
    then obtain u' where sv: "save users_table [setting u_chatRestrictedAt u_chatRestrictedAt_update (Some t0)] u s1 = (Inr u', t)"
      using run by (auto simp: enforce_def Let_def returns_iff)
    note w = save_restriction[OF ok _ sv]
    have "table_ok sanctions_table t" using w(2) s1 u(1) by (simp add: table_ok_def)
    moreover have "account_agrees (t_sanctions t) (u\<lparr>u_chatRestrictedAt := Some t0\<rparr>)"
      using agree x Chat_restriction free w(2) u(1) s1(1) by (simp add: account_agrees_def x(1) holds_append)
    ultimately show ?thesis
      using w u(1) s1(1) others
      by (intro agreeI[OF inv _ _ u, where f = "u_chatRestrictedAt_update (\<lambda>_. Some t0)" and live = False]) simp_all
  next
    case Suspension
    then have st: "setAccountStatus (u_id u) U_suspended s1 = (Inr (), t)"
      using run by (auto simp: enforce_def Let_def returns_iff)
    note w = setAccountStatus_Inr[OF st]
    have "table_ok sanctions_table t" using w(2) s1 by (simp add: table_ok_def)
    moreover have "account_agrees (t_sanctions t) (u\<lparr>u_status := U_suspended\<rparr>)"
      using agree x Suspension free w(2) by (simp add: account_agrees_def x(1) holds_append)
    ultimately show ?thesis
      using w ok s1(1) others
      by (intro agreeI[OF inv _ _ u, where f = "u_status_update (\<lambda>_. U_suspended)" and live = True])
        (simp_all add: set_update_where)
  next
    case Ban
    then obtain ids s2 s3 ms s4 c where rev: "revoke_sanctions (u_id u) Suspension adm ''Superseded by a ban.'' s1 = (Inr ids, s2)"
      and st: "setAccountStatus (u_id u) U_banned s2 = (Inr (), s3)" and ms: "endAllMatchesOf (u_id u) adm s3 = (Inr ms, s4)"
      and cancelled: "cancelPendingInterestsOf (u_id u) s4 = (Inr c, t)"
      using run by (auto simp: enforce_def Let_def returns_iff)
    note w1 = revoke_sanctions_Inr[OF rev] and w2 = setAccountStatus_Inr[OF st]
    have "leaves (\<lambda>s. (t_users s, t_sanctions s)) (endAllMatchesOf (u_id u) adm)"
      unfolding endAllMatchesOf_def by (intro leaves_rules) simp_all
    from leavesD[OF this ms] have s4: "t_users s4 = t_users s3" "t_sanctions s4 = t_sanctions s3" by simp_all
    have "leaves (\<lambda>s. (t_users s, t_sanctions s)) (cancelPendingInterestsOf (u_id u))"
      unfolding cancelPendingInterestsOf_def Let_def by (intro leaves_rules) simp_all
    from leavesD[OF this cancelled] have t: "t_users t = t_users s3" "t_sanctions t = t_sanctions s3"
      using s4 by simp_all
    have "table_ok users_table t" "table_ok sanctions_table t"
      using w1 w2 t ok s1(2) by (simp_all add: table_ok_def)
    moreover have "account_agrees (t_sanctions t) (u\<lparr>u_status := U_banned\<rparr>)"
      using agree x Ban free t w1 w2(2) by (simp add: account_agrees_def x(1) holds_append)
    moreover have "set (t_users t) = (\<lambda>r. if u_id r = u_id u \<and> (True \<longrightarrow> u_deletedAt r = None)
        then u_status_update (\<lambda>_. U_banned) r else r) ` set (t_users s)"
      using w2(1) w1(2) t(1) s1(1) by (simp add: set_update_where)
    ultimately show ?thesis
      using w1(1) w2(2) t(2) others
      by (intro agreeI[OF inv _ _ u, where f = "u_status_update (\<lambda>_. U_banned)" and live = True]) simp_all
  qed
qed

lemma new_sanction_simps [simp]:
  "sn_id (new_sanction i adm input t0) = i" "sn_userId (new_sanction i adm input t0) = si_userId input"
  "sn_type (new_sanction i adm input t0) = si_type input" "sanction_is_active (new_sanction i adm input t0)"
  by (simp_all add: new_sanction_def sanction_is_active_def)

text \<open>A sanction that was created: the record, the enforcement and the audit entry, in this order.\<close>

lemma applied_sanction_E:
  assumes "applySanction env actor input s = (Inr ap, t)" "ap_created ap"
  obtains u s1 s2 c where "live_account (si_userId input) s = Some u" "u_status u \<noteq> U_pending_deletion"
    "u_status u = U_banned \<longrightarrow> si_type input = Ban"
    "si_type input \<noteq> Warning \<longrightarrow> \<not> in_effect u (si_type input) (active_sanction (si_userId input) (si_type input) s)"
    "insert_row sanctions_table (new_sanction (Suc (rng s (drawn s))) (ac_adminId actor) input (clock s))
       (s\<lparr>drawn := Suc (drawn s)\<rparr>) = (Inr (), s1)"
    "enforce (ac_adminId actor) u (si_type input) (clock s) s1 = (Inr (ap_effects ap, c), s2)"
    "recordAdminAction env (ac_adminId actor) (AUDIT_ACTION (si_type input)) Target_user (Some (si_userId input))
       (sanction_metadata (new_sanction (Suc (rng s (drawn s))) (ac_adminId actor) input (clock s)) input (u_status u) (ap_effects ap) c)
       (ac_ip actor) s2 = (Inr (), t)"
    "ap_sanction ap = Some (new_sanction (Suc (rng s (drawn s))) (ac_adminId actor) input (clock s))"
  using assms
  by (auto simp: applySanction_def impose_def Let_def returns_iff split: if_splits)

lemma applySanction_agrees:
  assumes inv: "sanctions_agree s" and run: "applySanction env actor input s = (Inr ap, t)"
  shows "sanctions_agree t"
proof (cases "ap_created ap")
  case False
  then have "t = s" using run by (auto simp: applySanction_def impose_def Let_def returns_iff split: if_splits)
  with inv show ?thesis by simp
next
  case True
  show ?thesis
  proof (rule applied_sanction_E[OF run True])
    let ?x = "new_sanction (Suc (rng s (drawn s))) (ac_adminId actor) input (clock s)"
    fix u s1 s2 c
    assume live: "live_account (si_userId input) s = Some u"
      and free: "u_status u = U_banned \<longrightarrow> si_type input = Ban"
        "si_type input \<noteq> Warning \<longrightarrow> \<not> in_effect u (si_type input) (active_sanction (si_userId input) (si_type input) s)"
      and ins: "insert_row sanctions_table ?x (s\<lparr>drawn := Suc (drawn s)\<rparr>) = (Inr (), s1)"
      and enf: "enforce (ac_adminId actor) u (si_type input) (clock s) s1 = (Inr (ap_effects ap, c), s2)"
      and audit: "recordAdminAction env (ac_adminId actor) (AUDIT_ACTION (si_type input)) Target_user (Some (si_userId input))
        (sanction_metadata ?x input (u_status u) (ap_effects ap) c) (ac_ip actor) s2 = (Inr (), t)"
    note u = live_account_in[OF live]
    have rows: "t_sanctions s1 = t_sanctions s @ [?x]" "t_users s1 = t_users s"
      using ins by (auto simp: insert_row_Inr_iff)
    have "table_ok sanctions_table (s\<lparr>drawn := Suc (drawn s)\<rparr>)" using inv by (simp add: sanctions_agree_def table_ok_def)
    from sanctions.insert_row_ok[OF ins this] have ok: "table_ok sanctions_table s1" .
    have calm: "si_type input \<noteq> Warning \<longrightarrow> active_sanction (si_userId input) (si_type input) s = None"
      "si_type input = Suspension \<longrightarrow> u_status u \<noteq> U_suspended" "si_type input = Chat_restriction \<longrightarrow> u_chatRestrictedAt u = None"
      "si_type input = Ban \<longrightarrow> u_status u \<noteq> U_banned"
      using free(2) by (simp_all add: in_effect_def)
    have none: "si_type input \<noteq> Warning \<longrightarrow> \<not> holds_sanction (t_sanctions s) (u_id u) (si_type input)"
      using calm(1) u active_sanction_None[of "si_userId input" "si_type input" s] by simp
    have "u_status u \<noteq> U_banned" using calm(4) free(1) by blast
    then have "sanctions_agree s2"
      using u by (intro enforce_agrees[OF inv _ _ _ none calm(2,3) rows(1) _ _ _ rows(2) ok enf]) simp_all
    then show "sanctions_agree t" by (rule agrees_view) (use audit_Inr[OF audit] in auto)
  qed
qed

lemma liftSanction_agrees:
  assumes inv: "sanctions_agree s" and ty: "type \<noteq> Warning"
    and run: "liftSanction env actor userId type reason s = (Inr x, t)"
  shows "sanctions_agree t"
proof -
  obtain u where live: "live_account userId s = Some u" using run by (auto simp: liftSanction_def returns_iff)
  note u = live_account_in[OF live]
  have agree: "account_agrees (t_sanctions s) u" and ok: "table_ok users_table s" "table_ok sanctions_table s"
    using inv u by (auto simp: sanctions_agree_def)
  obtain s1 ids s2 where change: "(if type = Chat_restriction
        then andThen (ensure (u_chatRestrictedAt u \<noteq> None) (App CONFLICT)) (\<lambda>_.
          andThen (save users_table [setting u_chatRestrictedAt u_chatRestrictedAt_update None] u) (\<lambda>_. ret ()))
        else andThen (ensure (u_status u = (if type = Suspension then U_suspended else U_banned)) (App CONFLICT)) (\<lambda>_.
          setAccountStatus userId U_active)) s = (Inr (), s1)"
    and rev: "revoke_sanctions userId type (ac_adminId actor) reason s1 = (Inr ids, s2)"
    and t: "t_users t = t_users s2" "t_sanctions t = t_sanctions s2"
    using run live by (auto simp: liftSanction_def returns_iff dest!: audit_Inr)
  note w = revoke_sanctions_Inr[OF rev]
  show ?thesis
  proof (cases "type = Chat_restriction")
    case True
    then obtain u' where sv: "save users_table [setting u_chatRestrictedAt u_chatRestrictedAt_update None] u s = (Inr u', s1)"
      using change by (auto simp: returns_iff)
    note c = save_restriction[OF ok(1) conjunct1[OF u] sv]
    have "table_ok users_table t" "table_ok sanctions_table t"
      using c w t ok by (simp_all add: table_ok_def)
    then show ?thesis
      using c w t u agree True
      by (intro agreeI[OF inv _ _ _ _, where u = u and f = "u_chatRestrictedAt_update (\<lambda>_. None)" and live = False])
        (auto simp: account_agrees_def)
  next
    case False
    then have st: "setAccountStatus (u_id u) U_active s = (Inr (), s1)"
      and was: "u_status u = (if type = Suspension then U_suspended else U_banned)"
      using change u by (auto simp: returns_iff)
    note c = setAccountStatus_Inr[OF st]
    have "table_ok users_table t" "table_ok sanctions_table t"
      using c w t ok by (simp_all add: table_ok_def)
    moreover have "type = Suspension \<or> type = Ban" using False ty by (cases type) auto
    then have "account_agrees (t_sanctions t) (u\<lparr>u_status := U_active\<rparr>)"
      using agree was c(2) w(1) t(2) u by (auto simp: account_agrees_def split: if_splits)
    ultimately show ?thesis
      using c w t u
      by (intro agreeI[OF inv _ _ _ _, where u = u and f = "u_status_update (\<lambda>_. U_active)" and live = True])
        (simp_all add: set_update_where)
  qed
qed

text \<open>The expiry of one sanction; the other due ones stay as they were loaded.\<close>

lemma expire_sanction_agrees:
  assumes inv: "sanctions_agree s" and x: "x \<in> set (t_sanctions s)" "sanction_is_active x"
    and timed: "sn_type x = Suspension \<or> sn_type x = Chat_restriction" and run: "expire_sanction t0 x s = (Inr (), t)"
  shows "sanctions_agree t \<and> (\<forall>y \<in> set (t_sanctions s). sn_id y \<noteq> sn_id x \<longrightarrow> y \<in> set (t_sanctions t))"
proof -
  let ?f = "setting sn_expiredAt sn_expiredAt_update (Some t0) x"
  have ok: "table_ok users_table s" "table_ok sanctions_table s" using inv by (simp_all add: sanctions_agree_def)
  obtain s1 x' where sv: "save sanctions_table [setting sn_expiredAt sn_expiredAt_update (Some t0)] x s = (Inr x', s1)"
    and rest: "(if sn_type x = Suspension
      then update_rows users_table (\<lambda>u. u_id u = sn_userId x \<and> u_deletedAt u = None \<and> u_status u = U_suspended)
        (\<lambda>u. u\<lparr>u_status := U_active\<rparr>)
      else if sn_type x = Chat_restriction
      then update_rows users_table (\<lambda>u. u_id u = sn_userId x \<and> u_deletedAt u = None) (\<lambda>u. u\<lparr>u_chatRestrictedAt := None\<rparr>)
      else ret ()) s1 = (Inr (), t)"
    using run by (auto simp: expire_sanction_def returns_iff)
  have upd: "update_rows sanctions_table (\<lambda>r. sn_id r = sn_id x) ?f s = (Inr (), s1)"
    using sv by (simp add: save_Inr_iff apply_one)
  then have s1: "t_sanctions s1 = update_where (\<lambda>r. sn_id r = sn_id x) ?f (t_sanctions s)" "t_users s1 = t_users s"
    by (auto simp: update_rows_Inr_iff)
  have ok1: "table_ok sanctions_table s1" using sanctions.update_rows_ok[OF upd] ok(2) by (simp add: setting_keeps)
  have kept: "y \<in> set (t_sanctions s1)" if "y \<in> set (t_sanctions s)" "sn_id y \<noteq> sn_id x" for y
    using in_update_whereI[OF that(1), of "\<lambda>r. sn_id r = sn_id x" ?f] that(2) by (simp add: s1(1))
  have x_row: "y = x" if "y \<in> set (t_sanctions s)" "sn_id y = sn_id x" for y
    using sanctions.key_eq[OF ok(2), of y x] that x(1) by simp
  have f_x: "\<not> sanction_is_active (?f x)" using x(2) by (simp add: setting_def sanction_is_active_def)
  have only: "y = x" if "y \<in> set (t_sanctions s)" "sn_userId y = sn_userId x" "sn_type y = sn_type x"
    "sanction_is_active y" "sn_type x \<noteq> Warning" for y
    using sanctions.clash_eq[OF ok(2), of y x] that x by (simp add: sanction_clash_def)
  have holds: "holds_sanction (t_sanctions s1) j ty =
      (holds_sanction (t_sanctions s) j ty \<and> \<not> (j = sn_userId x \<and> ty = sn_type x))" if "ty \<noteq> Warning" for j ty
  proof
    assume "holds_sanction (t_sanctions s1) j ty"
    then obtain y where y: "y \<in> set (t_sanctions s1)" "sn_userId y = j" "sn_type y = ty" "sanction_is_active y"
      by (auto simp: holds_sanction_def)
    then obtain y0 where y0: "y0 \<in> set (t_sanctions s)" "y = (if sn_id y0 = sn_id x then ?f y0 else y0)"
      unfolding s1(1) by (elim in_update_whereE)
    have "sn_id y0 \<noteq> sn_id x"
    proof
      assume same: "sn_id y0 = sn_id x"
      then have "y = ?f x" using y0 x_row by metis
      with y(4) f_x show False by simp
    qed
    then have y_old: "y \<in> set (t_sanctions s)" "y \<noteq> x" using y0 by auto
    then have "\<not> (j = sn_userId x \<and> ty = sn_type x)" using only y that by metis
    with y y_old show "holds_sanction (t_sanctions s) j ty \<and> \<not> (j = sn_userId x \<and> ty = sn_type x)"
      by (auto simp: holds_sanction_def)
  next
    assume h: "holds_sanction (t_sanctions s) j ty \<and> \<not> (j = sn_userId x \<and> ty = sn_type x)"
    then obtain y where y: "y \<in> set (t_sanctions s)" "sn_userId y = j" "sn_type y = ty" "sanction_is_active y"
      by (auto simp: holds_sanction_def)
    then have "sn_id y \<noteq> sn_id x" using h x_row by blast
    with y kept show "holds_sanction (t_sanctions s1) j ty" by (auto simp: holds_sanction_def)
  qed
  define f :: "user \<Rightarrow> user" where "f u = (if sn_type x = Chat_restriction then u\<lparr>u_chatRestrictedAt := None\<rparr>
    else if u_status u = U_suspended then u\<lparr>u_status := U_active\<rparr> else u)" for u
  have rows: "t_users t = update_where (\<lambda>u. u_id u = sn_userId x \<and> u_deletedAt u = None) f (t_users s)"
    and same: "t_sanctions t = t_sanctions s1" and ok_u: "table_ok users_table t"
  proof -
    have ok_s1: "table_ok users_table s1" using ok(1) by (simp add: table_ok_def s1(2))
    consider (suspension) "sn_type x = Suspension" | (restriction) "sn_type x = Chat_restriction" using timed by blast
    then have "t_users t = update_where (\<lambda>u. u_id u = sn_userId x \<and> u_deletedAt u = None) f (t_users s) \<and>
      t_sanctions t = t_sanctions s1 \<and> table_ok users_table t"
    proof cases
      case suspension
      then have run': "update_rows users_table (\<lambda>u. u_id u = sn_userId x \<and> u_deletedAt u = None \<and> u_status u = U_suspended)
        (\<lambda>u. u\<lparr>u_status := U_active\<rparr>) s1 = (Inr (), t)" using rest by simp
      with suspension users.update_rows_ok[OF run' ok_s1] show ?thesis
        by (auto simp: update_rows_Inr_iff update_where_def f_def s1(2))
    next
      case restriction
      then have run': "update_rows users_table (\<lambda>u. u_id u = sn_userId x \<and> u_deletedAt u = None)
        (\<lambda>u. u\<lparr>u_chatRestrictedAt := None\<rparr>) s1 = (Inr (), t)" using rest by simp
      with restriction users.update_rows_ok[OF run' ok_s1] show ?thesis
        by (auto simp: update_rows_Inr_iff update_where_def f_def s1(2))
    qed
    then show "t_users t = update_where (\<lambda>u. u_id u = sn_userId x \<and> u_deletedAt u = None) f (t_users s)"
      "t_sanctions t = t_sanctions s1" "table_ok users_table t" by simp_all
  qed
  have okt: "table_ok users_table t" "table_ok sanctions_table t" using ok_u ok1 by (simp_all add: table_ok_def same)
  have "sanctions_agree t"
  proof (cases "\<exists>u \<in> set (t_users s). u_id u = sn_userId x \<and> u_deletedAt u = None")
    case True
    then obtain u where u: "u \<in> set (t_users s)" "u_id u = sn_userId x" "u_deletedAt u = None" by blast
    have agree: "account_agrees (t_sanctions s) u" using inv u by (simp add: sanctions_agree_def)
    have mine: "holds_sanction (t_sanctions s) (u_id u) (sn_type x)" using x u(2) by (auto simp: holds_sanction_def)
    have "account_agrees (t_sanctions t) (f u)"
      using agree mine timed u(2) by (auto simp: account_agrees_def same holds f_def)
    then show ?thesis
      using u(2) by (intro agreeI[OF inv okt u(1,3), where f = f and live = True])
        (auto simp: rows set_update_where f_def same holds)
  next
    case False
    then have "t_users t = t_users s" unfolding rows by (intro update_where_none) blast
    with False inv okt show ?thesis
      by (auto simp: sanctions_agree_def account_agrees_def same holds)
  qed
  with kept same show ?thesis by simp
qed

lemma each_expire_agrees:
  "sanctions_agree s \<Longrightarrow> distinct (map sn_id xs) \<Longrightarrow>
    (\<And>x. x \<in> set xs \<Longrightarrow> x \<in> set (t_sanctions s) \<and> sanction_is_active x \<and> (sn_type x = Suspension \<or> sn_type x = Chat_restriction)) \<Longrightarrow>
    each (expire_sanction t0) xs s = (Inr (), t) \<Longrightarrow> sanctions_agree t"
proof (induction xs arbitrary: s)
  case Nil
  then show ?case by (simp add: ret_def)
next
  case (Cons x xs)
  obtain s1 where run: "expire_sanction t0 x s = (Inr (), s1)" "each (expire_sanction t0) xs s1 = (Inr (), t)"
    using Cons.prems(4) by (auto simp: returns_iff)
  have x: "x \<in> set (t_sanctions s)" "sanction_is_active x" "sn_type x = Suspension \<or> sn_type x = Chat_restriction"
    using Cons.prems(3)[of x] by simp_all
  note one = expire_sanction_agrees[OF Cons.prems(1) x run(1)]
  show ?case
  proof (rule Cons.IH[OF conjunct1[OF one] _ _ run(2)])
    show "distinct (map sn_id xs)" using Cons.prems(2) by simp
    fix y assume y: "y \<in> set xs"
    then have "sn_id y \<noteq> sn_id x" using Cons.prems(2) by (auto simp: image_iff)
    with one Cons.prems(3)[of y] y
    show "y \<in> set (t_sanctions s1) \<and> sanction_is_active y \<and> (sn_type y = Suspension \<or> sn_type y = Chat_restriction)"
      by auto
  qed
qed

lemma due_sanction:
  assumes "table_ok sanctions_table s" "x \<in> set (due_sanctions t0 s)"
  shows "x \<in> set (t_sanctions s) \<and> sanction_is_active x \<and> (sn_type x = Suspension \<or> sn_type x = Chat_restriction)"
proof -
  have x: "x \<in> set (t_sanctions s)" "sanction_is_active x" "sn_endsAt x \<noteq> None"
    using assms(2) by (auto simp: due_sanctions_def rows_where_def split: option.splits dest!: in_set_takeD)
  moreover have "sanction_ok x" using sanctions.row_ok[OF assms(1), of x] x(1) by simp
  ultimately show ?thesis by (auto simp: sanction_ok_def)
qed

lemma distinct_due:
  assumes "table_ok sanctions_table s"
  shows "distinct (map sn_id (due_sanctions t0 s))"
proof -
  have "distinct (map sn_id (t_sanctions s))" using assms by (simp add: table_ok_def)
  then have "distinct (map sn_id (filter P (t_sanctions s)))" for P by (rule distinct_map_filter)
  then show ?thesis
    by (simp add: due_sanctions_def rows_where_def take_map[symmetric] distinct_map inj_on_def)
qed

lemma expireSanctions_agrees:
  assumes inv: "sanctions_agree s" and run: "expireSanctions t0 s = (Inr xs, t)"
  shows "sanctions_agree t"
proof -
  have ok: "table_ok sanctions_table s" using inv by (simp add: sanctions_agree_def)
  have each_run: "each (expire_sanction t0) (due_sanctions t0 s) s = (Inr (), t)"
    using run by (auto simp: expireSanctions_def returns_iff)
  show ?thesis by (rule each_expire_agrees[OF inv distinct_due[OF ok] due_sanction[OF ok] each_run])
qed

section \<open>Reachable states\<close>

lemma committed_agrees:
  assumes "sanctions_agree s" "\<And>x t. m s = (Inr x, t) \<Longrightarrow> sanctions_agree t"
  shows "sanctions_agree (snd (transaction m s))"
proof (cases "transaction m s")
  case (Pair r t)
  show ?thesis
  proof (cases r)
    case (Inl e)
    have "t = s" using Pair unfolding Inl by (rule transaction_Inl_state)
    with assms(1) Pair show ?thesis by simp
  next
    case (Inr x)
    with Pair have "m s = (Inr x, t)" by simp
    from assms(2)[OF this] Pair show ?thesis by simp
  qed
qed

lemma sanction_step_agrees: "sanction_step s t \<Longrightarrow> sanctions_agree s \<Longrightarrow> sanctions_agree t"
proof (induction rule: sanction_step.induct)
  case (sanction s env actor input)
  then show ?case using applySanction_agrees by (intro committed_agrees) auto
next
  case (lift type s env actor userId reason)
  then show ?case using liftSanction_agrees by (intro committed_agrees) auto
next
  case (expire s t0)
  have "sanctions_agree (snd (transaction (andThen (gets (due_sanctions t0)) (\<lambda>due.
     andThen (each (expire_sanction t0) due) (\<lambda>_.
     ret (map (\<lambda>x. (sn_id x, sn_userId x, sn_type x)) due)))) s))"
    by (rule committed_agrees[OF expire])
      (rule expireSanctions_agrees[OF expire, of t0], simp add: expireSanctions_def)
  then show ?case by (simp add: expireSanctions_def)
next
  case (elsewhere t s)
  show ?case by (rule agrees_elsewhere[OF elsewhere(5) elsewhere(1-4)])
qed

definition sanction_start :: "db \<Rightarrow> bool" where
  "sanction_start s \<longleftrightarrow> t_users s = [] \<and> t_sanctions s = []"

interpretation sanctioning: invariant_system sanction_start sanction_step sanctions_agree
proof
  show "sanctions_agree s" if "sanction_start s" for s
    using that by (simp add: sanction_start_def sanctions_agree_def table_ok_def)
  show "sanctions_agree t" if "sanctions_agree s" "sanction_step s t" for s t
    using sanction_step_agrees that by blast
qed

end
