(* ===== verification/Samples.thy ===== *)
theory Samples
  imports Domain
begin

text \<open>
  Concrete rows and states: the inputs on which the witnesses of the development evaluate the
  definitions.
\<close>

definition empty_db :: db where
  "empty_db = \<lparr>
    t_users = [], t_sessions = [], t_profiles = [], t_preferences = [],
    t_verifications = [], t_interests = [], t_matches = [], t_messages = [], t_blocks = [],
    t_reports = [], t_sanctions = [], t_safety_logs = [], t_notifications = [],
    t_notif_prefs = [], t_cities = [], t_areas = [], t_organizers = [],
    t_events = [], t_attendances = [], t_orders = [], t_payments = [],
    t_bookings = [], t_admins = [], t_admin_sessions = [], t_audit_logs = [],
    t_webhooks = [],
    clock = 0, rng = (\<lambda>n. 1000 + n), drawn = 0, outbox = [], gateway_log = []\<rparr>"

definition sample_env :: env where
  "sample_env = \<lparr>hmacSha256Hex = (\<lambda>k v. k @ v), sha256Hex = (\<lambda>v. v), OTP_HMAC_SECRET = ''k'',
    channelsOn = False\<rparr>"

definition sample_user :: "uuid \<Rightarrow> string \<Rightarrow> user" where
  "sample_user i phone =
    \<lparr>u_id = i, u_phoneHash = Some phone, u_phoneEncrypted = Some phone, u_phoneKeyVersion = Some 1,
      u_status = U_active, u_onboardingCompletedAt = Some 0, u_underageRejectedAt = None,
      u_photoVerifiedAt = None, u_identityVerifiedAt = None, u_hiddenFromDiscovery = False,
      u_hiddenReason = None, u_interactionsRestrictedAt = None, u_chatRestrictedAt = None,
      u_termsVersion = None, u_termsAcceptedAt = None, u_lastActiveAt = None,
      u_deletionRequestedAt = None, u_createdAt = 0, u_deletedAt = None\<rparr>"

definition sample_event :: event where
  "sample_event =
    \<lparr>ev_id = 7, ev_slug = ''night'', ev_name = ''Night'', ev_description = ''A garba night'',
      ev_organizerId = 1, ev_cityId = 1, ev_areaId = None, ev_venueName = ''V'', ev_venueAddress = ''A'',
      ev_eventDate = (1970, 1, 2), ev_startTime = 72000, ev_endTime = 79200, ev_imagePublicId = None,
      ev_ticketUrl = None, ev_passPricePaise = Some 50000, ev_passCapacity = Some 2,
      ev_status = E_published, ev_isVerified = False, ev_verifiedAt = None, ev_publishedAt = Some 0,
      ev_firstPublishedAt = Some 0, ev_archivedAt = None, ev_createdByAdminId = 1,
      ev_updatedByAdminId = 1, ev_createdAt = 0\<rparr>"

end
