(* ===== verification/Discovery_Theorems.thy ===== *)
theory Discovery_Theorems
  imports Discovery_Service Samples
begin

text \<open>Properties of discovery: whom a member can see, in which order, and page by page.\<close>

section \<open>Ages\<close>

lemma calculateAge_ge:
  "n \<le> calculateAge (by, bm, bd) (ty, tm, td) \<longleftrightarrow> by < ty - n \<or> by = ty - n \<and> (bm < tm \<or> bm = tm \<and> bd \<le> td)"
  by (auto simp: Let_def)

lemma born_before_iff:
  assumes "valid_date dob"
  shows "dob \<le> years_before today n \<longleftrightarrow> n \<le> calculateAge dob today"
proof (cases dob; cases today)
  fix dy dm dd ty tm td assume "dob = (dy, dm, dd)" "today = (ty, tm, td)"
  then show ?thesis
    using assms unfolding calculateAge_ge by (auto simp: less_eq_prod_def calculateAge_ge simp del: calculateAge.simps)
qed

text \<open>
  The SQL bounds on the date of birth select exactly the members whose age, as the application
  computes it, lies in the range, on leap days too.
\<close>

theorem age_window_is_age:
  assumes "valid_date dob"
  shows "dob \<le> years_before today lo \<and> years_before today (hi + 1) < dob \<longleftrightarrow>
    lo \<le> calculateAge dob today \<and> calculateAge dob today \<le> hi"
  using born_before_iff[OF assms, of today lo] born_before_iff[OF assms, of today "hi + 1"]
  by (auto simp: not_le[symmetric])

theorem age_window_is_age_witness:
  "\<not> (2006, 3, 1) \<le> years_before (2024, 2, 29) 18 \<and> calculateAge (2006, 3, 1) (2024, 2, 29) = 17"
  using age_window_is_age[of "(2006, 3, 1)" "(2024, 2, 29)" 18 100]
  by (simp add: days_in_month_def)

section \<open>Eligibility\<close>

lemma in_joined:
  "(u, p, pr) \<in> set (joined s) \<longleftrightarrow> u \<in> set (t_users s) \<and> p \<in> set (t_profiles s) \<and> pf_userId p = u_id u \<and>
    pr \<in> set (t_preferences s) \<and> pr_userId pr = u_id u"
  by (auto simp: joined_def)

lemma runQuery_in:
  "r \<in> set (runQuery q s) \<Longrightarrow> \<exists>c \<in> set (joined s). eligible q s c \<and> r = candidate_of q s c"
  by (auto simp: runQuery_def candidates_def dest!: in_set_takeD)

lemma loadViewer_Inr:
  assumes "loadViewer viewerId today s = Inr (v, pr)"
  obtains p where "p \<in> set (t_profiles s)" "pf_userId p = viewerId" "pr \<in> set (t_preferences s)" "pr_userId pr = viewerId"
    "vw_id v = viewerId" "vw_gender v = pf_gender p" "vw_age v = calculateAge (pf_dateOfBirth p) today"
    "vw_preference v = pr_partnerGenderPreference pr"
  using assms
  by (auto simp: loadViewer_def profile_of_def preference_of_def find_row_def split: option.splits dest!: find_Some_in)

text \<open>
  C18. A member is eligible for another only while the account is active and visible, nothing separates the
  two, and gender and age preferences agree in both directions.
\<close>

theorem eligibility_is_mutual:
  assumes dates: "\<And>p. p \<in> set (t_profiles s) \<Longrightarrow> valid_date (pf_dateOfBirth p)"
    and run: "isEligible a b s = Inr True"
  shows "\<not> blocked_between a b s \<and> \<not> reported_between a b s \<and> \<not> declined_recently a b s \<and>
    (\<exists>u \<in> set (t_users s). \<exists>pa \<in> set (t_profiles s). \<exists>qa \<in> set (t_preferences s).
     \<exists>pb \<in> set (t_profiles s). \<exists>qb \<in> set (t_preferences s).
      u_id u = b \<and> u_status u = U_active \<and> u_deletedAt u = None \<and> \<not> u_hiddenFromDiscovery u \<and>
      u_interactionsRestrictedAt u = None \<and> pr_discoveryEnabled qb \<and>
      pf_userId pa = a \<and> pr_userId qa = a \<and> pf_userId pb = b \<and> pr_userId qb = b \<and>
      genderPreferencesMatch (pf_gender pa, pr_partnerGenderPreference qa) (pf_gender pb, pr_partnerGenderPreference qb) \<and>
      calculateAge (pf_dateOfBirth pb) (todayInIndia (clock s)) \<in> {pr_ageMin qa .. pr_ageMax qa} \<and>
      calculateAge (pf_dateOfBirth pa) (todayInIndia (clock s)) \<in> {pr_ageMin qb .. pr_ageMax qb})"
proof -
  let ?today = "todayInIndia (clock s)"
  obtain v qa row where v: "loadViewer a ?today s = Inr (v, qa)" "row \<in> set (runQuery (target_query v qa ?today b) s)"
    using run by (auto simp: isEligible_def findEligible_def split: if_splits sum.splits list.splits)
      (metis list.set_intros(1))
  obtain u pb qb where c: "(u, pb, qb) \<in> set (joined s)" "eligible (target_query v qa ?today b) s (u, pb, qb)"
    using runQuery_in[OF v(2)] by (metis prod.exhaust)
  obtain pa where pa: "pa \<in> set (t_profiles s)" "pf_userId pa = a" "qa \<in> set (t_preferences s)" "pr_userId qa = a"
    "vw_id v = a" "vw_gender v = pf_gender pa" "vw_age v = calculateAge (pf_dateOfBirth pa) ?today"
    "vw_preference v = pr_partnerGenderPreference qa"
    by (rule loadViewer_Inr[OF v(1)])
  have rules: "account_rules u pb qb" "separation_rules a (u_id u) s"
    "preference_rules (target_query v qa ?today b) pb qb" "u_id u = b"
    using c(2) pa(5) by (auto simp: eligible_def target_query_def filter_rules_def)
  have rows: "u \<in> set (t_users s)" "pb \<in> set (t_profiles s)" "qb \<in> set (t_preferences s)" "pf_userId pb = b" "pr_userId qb = b"
    using c(1) rules(4) by (auto simp: in_joined)
  have "calculateAge (pf_dateOfBirth pb) ?today \<in> {pr_ageMin qa .. pr_ageMax qa}"
    using rules(3) born_before_iff[OF dates[OF rows(2)], of ?today]
    by (auto simp: preference_rules_def target_query_def not_le[symmetric])
  moreover have "genderPreferencesMatch (pf_gender pa, pr_partnerGenderPreference qa) (pf_gender pb, pr_partnerGenderPreference qb)"
    "calculateAge (pf_dateOfBirth pa) ?today \<in> {pr_ageMin qb .. pr_ageMax qb}"
    using rules(3) by (auto simp: preference_rules_def target_query_def genderPreferencesMatch_def pa)
  ultimately show ?thesis
    using rules(1,2,4) rows pa(1-4) by (fastforce simp: account_rules_def separation_rules_def)
qed

section \<open>Samples\<close>

definition sample_profile :: "uuid \<Rightarrow> gender \<Rightarrow> user_profile" where
  "sample_profile i g =
    \<lparr>pf_id = i + 100, pf_userId = i, pf_displayName = ''N'', pf_dateOfBirth = (1945, 6, 15), pf_gender = g,
      pf_cityId = 1, pf_areaId = None, pf_bio = None, pf_instagramHandle = None, pf_garbaLevel = Beginner,
      pf_availableDates = [(1970, 10, 11)], pf_imagePublicId = Some (replicate i (CHR ''i'')), pf_imageWidth = Some 400,
      pf_imageHeight = Some 400, pf_imageUploadedAt = Some 0, pf_createdAt = 0\<rparr>"

definition sample_preference :: "uuid \<Rightarrow> partner_gender_preference \<Rightarrow> user_preference" where
  "sample_preference i g =
    \<lparr>pr_id = i + 200, pr_userId = i, pr_partnerGenderPreference = g, pr_ageMin = 18, pr_ageMax = 30,
      pr_verifiedOnly = False, pr_discoveryEnabled = True, pr_showArea = False, pr_createdAt = 0\<rparr>"

text \<open>Two members who are looking for each other, and a third.\<close>

definition pair_db :: db where
  "pair_db = empty_db\<lparr>t_users := [sample_user 1 ''a'', sample_user 2 ''b'', sample_user 3 ''c''],
    t_profiles := [sample_profile 1 Woman, sample_profile 2 Man, sample_profile 3 Man],
    t_preferences := [sample_preference 1 Men, sample_preference 2 Women, sample_preference 3 Everyone],
    t_cities := [\<lparr>ci_id = 1, ci_name = ''Surat'', ci_state = ''GJ'', ci_slug = ''surat'', ci_isActive = True, ci_sortOrder = 0\<rparr>]\<rparr>"

theorem eligibility_is_mutual_witness:
  "isEligible 1 2 pair_db = Inr True \<and> \<not> blocked_between 1 2 pair_db"
proof -
  have run: "isEligible 1 2 pair_db = Inr True" by code_simp
  have "valid_date (pf_dateOfBirth p)" if "p \<in> set (t_profiles pair_db)" for p
    using that by (auto simp: pair_db_def sample_profile_def days_in_month_def)
  from eligibility_is_mutual[OF this run] run show ?thesis by blast
qed

section \<open>Every candidate once, in ranking order\<close>

lemma length_filter_one:
  assumes "distinct xs" "\<And>x y. x \<in> set xs \<Longrightarrow> y \<in> set xs \<Longrightarrow> P x \<Longrightarrow> P y \<Longrightarrow> x = y"
  shows "length (filter P xs) \<le> 1"
proof -
  have "card (set (filter P xs)) \<le> 1"
    using assms(2) by (auto simp: card_le_Suc0_iff_eq)
  then show ?thesis using distinct_card[of "filter P xs"] assms(1) by simp
qed

lemma distinct_concat_map:
  assumes "distinct (map f xs)" "\<And>x c. c \<in> set (g x) \<Longrightarrow> h c = f x" "\<And>x. length (g x) \<le> 1"
  shows "distinct (map h (concat (map g xs)))"
  using assms(1)
proof (induction xs)
  case (Cons x xs)
  have "distinct (map h (g x))" using assms(3)[of x] by (cases "g x") auto
  moreover have "h c \<noteq> h d" if "c \<in> set (g x)" "y \<in> set xs" "d \<in> set (g y)" for c y d
    using that Cons.prems assms(2) by (metis distinct.simps(2) list.simps(9) image_eqI set_map)
  ultimately show ?case using Cons by auto
qed simp

lemma member_rows:
  assumes "table_ok profiles_table s" "table_ok preferences_table s"
  shows "length (filter (\<lambda>p. pf_userId p = i) (t_profiles s)) \<le> 1"
    and "length (filter (\<lambda>p. pr_userId p = i) (t_preferences s)) \<le> 1"
proof -
  have rows: "distinct (t_profiles s)" "distinct (t_preferences s)"
    using assms by (auto simp: table_ok_def distinct_map)
  show "length (filter (\<lambda>p. pf_userId p = i) (t_profiles s)) \<le> 1"
    by (rule length_filter_one[OF rows(1)])
      (use profiles.clash_eq[OF assms(1)] in \<open>auto simp: profile_clash_def\<close>)
  show "length (filter (\<lambda>p. pr_userId p = i) (t_preferences s)) \<le> 1"
    by (rule length_filter_one[OF rows(2)])
      (use preferences.clash_eq[OF assms(2)] in \<open>auto simp: preference_clash_def\<close>)
qed

lemma length_concat_one: "length xs \<le> 1 \<Longrightarrow> (\<And>x. length (g x) \<le> 1) \<Longrightarrow> length (concat (map g xs)) \<le> 1"
  by (cases xs) auto

lemma distinct_candidates:
  assumes "table_ok users_table s" "table_ok profiles_table s" "table_ok preferences_table s"
  shows "distinct (map cr_id (candidates q s))"
proof -
  have ids: "distinct (map u_id (t_users s))" using assms(1) by (simp add: table_ok_def)
  have "distinct (map (\<lambda>c. u_id (fst c)) (joined s))"
    unfolding joined_def
  proof (rule distinct_concat_map[OF ids])
    fix u c
    assume "c \<in> set (concat (map (\<lambda>p. map (\<lambda>pr. (u, p, pr)) (filter (\<lambda>pr. pr_userId pr = u_id u) (t_preferences s)))
      (filter (\<lambda>p. pf_userId p = u_id u) (t_profiles s))))"
    then show "u_id (fst c) = u_id u" by auto
  next
    fix u
    show "length (concat (map (\<lambda>p. map (\<lambda>pr. (u, p, pr)) (filter (\<lambda>pr. pr_userId pr = u_id u) (t_preferences s)))
      (filter (\<lambda>p. pf_userId p = u_id u) (t_profiles s)))) \<le> 1"
      using member_rows[OF assms(2,3)] by (intro length_concat_one) simp_all
  qed
  then show ?thesis
    by (auto simp: candidates_def candidate_of_def comp_def intro: distinct_map_filter)
qed

interpretation ranked: keyset_list rank_key "\<lambda>rows. distinct (map cr_id rows)"
  by unfold_locales (auto simp: rank_key_def distinct_map inj_on_def)

text \<open>A client that follows the cursors, at most \<open>n\<close> pages.\<close>

fun walk_partners :: "nat \<Rightarrow> viewer \<Rightarrow> user_preference \<Rightarrow> date \<Rightarrow> partner_list_query \<Rightarrow> partner_cursor option \<Rightarrow> db \<Rightarrow>
    candidate_row list" where
  "walk_partners 0 v pr today q c s = []"
| "walk_partners (Suc n) v pr today q c s =
    (case partner_page v pr today (q\<lparr>lq_cursor := c\<rparr>) s of
       (page, None) \<Rightarrow> page
     | (page, Some k) \<Rightarrow> page @ walk_partners n v pr today q (Some k) s)"

abbreviation partner_limit :: "partner_list_query \<Rightarrow> nat" where
  "partner_limit q \<equiv> page_limit (lq_limit q) DISCOVERY_PAGE_SIZE_DEFAULT DISCOVERY_PAGE_SIZE_MAX"

lemma candidates_any_page:
  "candidates (list_query v pr today (q\<lparr>lq_cursor := c\<rparr>)) s = candidates (list_query v pr today q) s"
  by (simp add: candidates_def candidate_of_def eligible_def filter_rules_def preference_rules_def
      signal_columns_def list_query_def list_minAge_def list_maxAge_def cong: map_cong)

lemma cursor_key_encode [simp]: "cursor_key (encodePartnerCursor r) = rank_key r"
  by (simp add: encodePartnerCursor_def rank_key_def)

lemma list_query_simps [simp]:
  "list_minAge pr (q\<lparr>lq_cursor := c\<rparr>) = list_minAge pr q" "list_maxAge pr (q\<lparr>lq_cursor := c\<rparr>) = list_maxAge pr q"
  "cq_cursor (list_query v pr today q) = lq_cursor q" "cq_limit (list_query v pr today q) = Suc (partner_limit q)"
  by (simp_all add: list_minAge_def list_maxAge_def list_query_def)

lemma partner_page_is_page:
  assumes "list_minAge pr q \<le> list_maxAge pr q"
  shows "fst (partner_page v pr today (q\<lparr>lq_cursor := c\<rparr>) s) =
      fst (page_of rank_key (map_option cursor_key c) (partner_limit q) (candidates (list_query v pr today q) s))"
    and "map_option cursor_key (snd (partner_page v pr today (q\<lparr>lq_cursor := c\<rparr>) s)) =
      snd (page_of rank_key (map_option cursor_key c) (partner_limit q) (candidates (list_query v pr today q) s))"
  using assms
  by (simp_all add: partner_page_def page_of_def fetch_rows_def runQuery_def candidates_any_page Let_def not_less)

lemma walk_partners_pages:
  assumes "list_minAge pr q \<le> list_maxAge pr q"
  shows "walk_partners n v pr today q c s =
    walk_pages n rank_key (map_option cursor_key c) (partner_limit q) (candidates (list_query v pr today q) s)"
proof (induction n arbitrary: c)
  case (Suc n)
  note page = partner_page_is_page[OF assms, of v today c s]
  show ?case
    using page Suc
    by (cases "partner_page v pr today (q\<lparr>lq_cursor := c\<rparr>) s" rule: prod.exhaust)
      (auto split: prod.splits option.splits)
qed simp

text \<open>
  C23. Following the cursors of the partner list gives every eligible candidate exactly once, by score, then
  last active day, then id, however many pages it takes.
\<close>

theorem partners_listed_once:
  assumes ok: "table_ok users_table s" "table_ok profiles_table s" "table_ok preferences_table s"
    and range: "list_minAge pr q \<le> list_maxAge pr q" and n: "length (candidates (list_query v pr today q) s) < n"
  shows "distinct (map cr_id (walk_partners n v pr today q None s)) \<and>
    set (walk_partners n v pr today q None s) =
      candidate_of (list_query v pr today q) s ` {c \<in> set (joined s). eligible (list_query v pr today q) s c} \<and>
    sorted_wrt (\<lambda>a b. cr_score b < cr_score a \<or> cr_score b = cr_score a \<and>
      (cr_active_day b < cr_active_day a \<or> cr_active_day b = cr_active_day a \<and> cr_id a < cr_id b))
      (walk_partners n v pr today q None s)"
proof -
  let ?rows = "candidates (list_query v pr today q) s"
  have distinct: "distinct (map cr_id ?rows)" by (rule distinct_candidates[OF ok])
  have "0 < partner_limit q" by (simp add: page_limit_def limits)
  from ranked.walk_all[OF distinct this n] have walk: "walk_partners n v pr today q None s = sort_desc rank_key ?rows"
    by (simp add: walk_partners_pages[OF range])
  have "sorted_wrt (\<lambda>a b. rank_key b < rank_key a) (sort_desc rank_key ?rows)"
    by (rule ranked.strictly_sorted[OF distinct])
  then have "sorted_wrt (\<lambda>a b. cr_score b < cr_score a \<or> cr_score b = cr_score a \<and>
      (cr_active_day b < cr_active_day a \<or> cr_active_day b = cr_active_day a \<and> cr_id a < cr_id b)) (sort_desc rank_key ?rows)"
    by (rule sorted_wrt_mono_rel[rotated]) (auto simp: rank_key_def)
  moreover have "distinct (map cr_id (sort_desc rank_key ?rows))"
    using distinct by (simp add: sort_desc_def distinct_map)
  ultimately show ?thesis by (auto simp: walk candidates_def)
qed

definition any_partner :: partner_list_query where
  "any_partner = \<lparr>lq_minAge = None, lq_maxAge = None, lq_verifiedOnly = None, lq_eventId = None, lq_cityId = None,
    lq_garbaLevels = [], lq_date = None, lq_cursor = None, lq_limit = Some 1\<rparr>"

definition viewer_1 :: viewer where
  "viewer_1 = \<lparr>vw_id = 1, vw_gender = Woman, vw_age = 24, vw_cityId = 1, vw_garbaLevel = Beginner,
    vw_availableDates = [], vw_preference = Men\<rparr>"

theorem partners_listed_once_witness:
  "map cr_id (walk_partners 3 viewer_1 (sample_preference 1 Men) (1970, 1, 1) any_partner None pair_db) = [2, 3] \<and>
   distinct (map cr_id (walk_partners 3 viewer_1 (sample_preference 1 Men) (1970, 1, 1) any_partner None pair_db))"
proof -
  have ok: "table_ok users_table pair_db" "table_ok profiles_table pair_db" "table_ok preferences_table pair_db"
    by code_simp+
  have range: "list_minAge (sample_preference 1 Men) any_partner \<le> list_maxAge (sample_preference 1 Men) any_partner"
    by code_simp
  have n: "length (candidates (list_query viewer_1 (sample_preference 1 Men) (1970, 1, 1) any_partner) pair_db) < 3"
    by code_simp
  have "map cr_id (walk_partners 3 viewer_1 (sample_preference 1 Men) (1970, 1, 1) any_partner None pair_db) = [2, 3]"
    by code_simp
  with partners_listed_once[OF ok range n] show ?thesis by blast
qed

section \<open>The score\<close>

text \<open>
  The score computed by the database is the score of \<open>matchScore\<close>, between 0 and 100, and 100 exactly
  with every highlight.
\<close>

theorem sql_score_is_score:
  "scoreSql signals = matchScore signals \<and> 0 \<le> matchScore signals \<and> matchScore signals \<le> 100 \<and>
    (matchScore signals = 100) = (length (matchHighlights signals) = 6)"
  by (simp add: scoreSql_def matchScore_def matchHighlights_def SIGNALS_def)

end
