(* ===== verification/Connections_Theorems.thy ===== *)
theory Connections_Theorems
  imports Connections_Steps Discovery_Theorems
begin

text \<open>Properties of interests and matches, each with a concrete instance.\<close>

section \<open>A sample run\<close>

text \<open>Member 1 sends an interest to member 2, who sends one back: a match.\<close>

definition asked_db :: db where "asked_db = snd (send_tx 1 2 None pair_db)"
definition matched_db :: db where "matched_db = snd (send_tx 2 1 None asked_db)"

lemma pair_db_start: "conn_start pair_db"
  by (simp add: conn_start_def pair_db_def empty_db_def)

lemma asked_reached: "conn_step\<^sup>*\<^sup>* pair_db asked_db"
  unfolding asked_db_def by (rule r_into_rtranclp, rule conn_step.send)

lemma matched_reached: "conn_step\<^sup>*\<^sup>* asked_db matched_db"
  unfolding matched_db_def by (rule r_into_rtranclp, rule conn_step.send)

definition asked_interest :: partner_interest where
  "asked_interest = new_interest 1001 1 2 None 0"

lemma asked_rows: "t_interests asked_db = [asked_interest]" "clock asked_db = 0" "t_matches asked_db = []"
  by code_simp+

lemma matched_rows:
  "t_interests matched_db = [answer I_accepted 0 asked_interest]" "t_matches matched_db = [new_match 1002 2 1 1001 None 0]"
  by code_simp+

section \<open>Matches\<close>

text \<open>
  C19. In every state that requests can reach, in any order, a match made from an interest joins that
  interest's two members and the interest is accepted; and a pair has at most one active match and at most
  one pending interest, in either direction.
\<close>

theorem match_rests_on_interest:
  assumes "conn_start s" "conn_step\<^sup>*\<^sup>* s t"
  shows "(\<forall>m \<in> set (t_matches t). \<forall>i. m_interestId m = Some i \<longrightarrow>
      (\<exists>x \<in> set (t_interests t). i_id x = i \<and> i_status x = I_accepted \<and> of_pair (i_senderId x) (i_receiverId x) m)) \<and>
    (\<forall>m \<in> set (t_matches t). \<forall>n \<in> set (t_matches t). \<forall>a b. m_status m = M_active \<and> m_status n = M_active \<and>
      of_pair a b m \<and> of_pair a b n \<longrightarrow> m = n) \<and>
    (\<forall>x \<in> set (t_interests t). \<forall>y \<in> set (t_interests t). \<forall>a b. pendingBetween a b x \<and> pendingBetween a b y \<longrightarrow> x = y)"
proof -
  have inv: "table_ok interests_table t" "table_ok matches_table t" "rests_on_interest t"
    using conns.reachable_inv[OF assms] by (simp_all add: conn_inv_def)
  have "m = n" if "m \<in> set (t_matches t)" "n \<in> set (t_matches t)" "m_status m = M_active" "m_status n = M_active"
    "of_pair a b m" "of_pair a b n" for m n a b
    using matches.clash_eq[OF inv(2), of m n] that by (simp add: match_clash_def of_pair_def canonicalPair_def split: if_splits)
  moreover have "x = y" if "x \<in> set (t_interests t)" "y \<in> set (t_interests t)" "pendingBetween a b x" "pendingBetween a b y" for x y a b
    using interests.clash_eq[OF inv(1), of x y] that by (auto simp: interest_clash_def pendingBetween_def min_def max_def)
  ultimately show ?thesis using inv(3) unfolding rests_on_interest_def by blast
qed

theorem match_rests_on_interest_witness:
  "\<exists>x \<in> set (t_interests matched_db). i_id x = 1001 \<and> i_status x = I_accepted \<and>
    of_pair (i_senderId x) (i_receiverId x) (new_match 1002 2 1 1001 None 0)"
proof -
  have "conn_step\<^sup>*\<^sup>* pair_db matched_db" using asked_reached matched_reached by (rule rtranclp_trans)
  from match_rests_on_interest[OF pair_db_start this] show ?thesis
    by (simp add: matched_rows new_match_def)
qed

text \<open>
  C20. An answered interest never changes again, and a match that has ended stays ended: no later request
  reopens it, moves it to other members or changes how it ended.
\<close>

theorem answered_stays_answered:
  assumes "conn_start s0" "conn_step\<^sup>*\<^sup>* s0 s" "conn_step\<^sup>*\<^sup>* s t"
  shows "(\<forall>x \<in> set (t_interests s). i_status x \<noteq> I_pending \<longrightarrow> x \<in> set (t_interests t)) \<and>
    (\<forall>m \<in> set (t_matches s). m_status m \<noteq> M_active \<longrightarrow> (\<exists>m' \<in> set (t_matches t). match_core m' = match_core m))"
proof -
  have "conn_track s s"
    using conns.reachable_inv[OF assms(1,2)] settled_refl by (simp add: conn_track_def)
  then have "settled s t" using steps_track[OF assms(3)] by (simp add: conn_track_def)
  then show ?thesis unfolding settled_def by (metis image_iff)
qed

theorem answered_stays_answered_witness:
  "answer I_accepted 0 asked_interest \<in> set (t_interests (snd (answer_pending (\<lambda>_. True) 1001 I_withdrawn matched_db)))"
proof -
  have reached: "conn_step\<^sup>*\<^sup>* pair_db matched_db" using asked_reached matched_reached by (rule rtranclp_trans)
  have step: "conn_step\<^sup>*\<^sup>* matched_db (snd (answer_pending (\<lambda>_. True) 1001 I_withdrawn matched_db))"
    by (rule r_into_rtranclp, rule conn_step.answer) simp
  have "answer I_accepted 0 asked_interest \<in> set (t_interests matched_db)" "i_status (answer I_accepted 0 asked_interest) \<noteq> I_pending"
    by (simp_all add: matched_rows answer_def)
  with answered_stays_answered[OF pair_db_start reached step] show ?thesis by blast
qed

section \<open>The methods\<close>

text \<open>
  C21. Sending, accepting, rejecting and withdrawing an interest and unmatching do to interests and matches
  what a sequence of steps does, on every path, errors included.
\<close>

theorem connection_methods_are_steps:
  assumes "table_ok interests_table s"
  shows "conn_step\<^sup>*\<^sup>* s (snd (send env a b e ip s)) \<and> conn_step\<^sup>*\<^sup>* s (snd (accept env a i s)) \<and>
    conn_step\<^sup>*\<^sup>* s (snd (reject a i s)) \<and> conn_step\<^sup>*\<^sup>* s (snd (withdraw a i s)) \<and>
    conn_step\<^sup>*\<^sup>* s (snd (unmatch a m s))"
proof -
  have here: "conn_reached s s" by (simp add: conn_reached_def)
  show ?thesis
    using keeps_snd[of "conn_reached s", OF reached_send here] reached_accept[OF here assms]
      keeps_snd[of "conn_reached s", OF reached_respond here] keeps_snd[of "conn_reached s", OF reached_unmatch here]
    by (simp add: conn_reached_def reject_def withdraw_def)
qed

theorem connection_methods_are_steps_witness:
  "conn_step\<^sup>*\<^sup>* asked_db (snd (accept sample_env 2 1001 asked_db))"
proof -
  have "table_ok interests_table asked_db"
    by (simp add: table_ok_def asked_rows conflicts_def asked_interest_def new_interest_def interest_ok_def limits)
  from connection_methods_are_steps[OF this] show ?thesis by blast
qed

section \<open>Mutual interest\<close>

text \<open>
  C22. When the other member has a pending interest that has not expired, sending one accepts it and makes
  the match of the two, with the event of the first interest if it names one.
\<close>

theorem mutual_interest_matches:
  assumes inv: "conn_inv s" and x: "x \<in> set (t_interests s)" "i_status x = I_pending" "i_senderId x = b" "i_receiverId x = a"
    and "a \<noteq> b" "clock s < i_expiresAt x" "active_match a b s = None"
    and fresh: "\<And>m. m \<in> set (t_matches s) \<Longrightarrow> m_id m \<noteq> Suc (rng s (drawn s))"
  shows "\<exists>m t. send_tx a b e s = (Inr (i_id x, Some m, False), t) \<and>
    t_matches t = t_matches s @ [new_match m a b (i_id x) (case i_eventId x of None \<Rightarrow> e | Some e' \<Rightarrow> Some e') (clock s)] \<and>
    active_match a b t \<noteq> None \<and>
    (\<exists>x' \<in> set (t_interests t). i_id x' = i_id x \<and> i_status x' = I_accepted)"
proof -
  have ok: "table_ok interests_table s" "table_ok matches_table s" "rests_on_interest s"
    using inv by (simp_all add: conn_inv_def)
  have pend: "pendingBetween a b x" using x by (simp add: pendingBetween_def)
  have only: "y = x" if "y \<in> set (t_interests s)" "pendingBetween a b y" for y
    using interests.clash_eq[OF ok(1), of y x] that x by (auto simp: interest_clash_def pendingBetween_def min_def max_def)
  have young: "\<not> (pendingBetween a b y \<and> i_expiresAt y \<le> clock s)" if "y \<in> set (t_interests s)" for y
    using only[OF that] assms(7) by auto
  have rows: "update_where (\<lambda>y. pendingBetween a b y \<and> i_expiresAt y \<le> clock s) (answer I_expired (clock s)) (t_interests s)
      = t_interests s"
    by (rule update_where_none) (rule young)
  have "update_rows interests_table (\<lambda>y. pendingBetween a b y \<and> i_expiresAt y \<le> clock s) (answer I_expired (clock s)) s
      = (Inr (), s)"
    unfolding update_rows_Inr_iff interests_table_simps rows using young by (intro conjI ballI impI) auto
  then have stale: "expireStale a b s = (Inr (), s)"
    by (simp add: expireStale_def run_simps)
  have found: "find_row interests_table (pendingBetween a b) s = Some x"
    unfolding find_row_def interests_table_simps by (rule find_only[where P = "pendingBetween a b", OF x(1) pend only])
  define f where "f = apply_settings [setting i_status i_status_update I_accepted,
    setting i_respondedAt i_respondedAt_update (Some (clock s))] x"
  let ?s1 = "s\<lparr>t_interests := update_where (\<lambda>y. i_id y = i_id x) f (t_interests s)\<rparr>"
  have fx: "i_id (f y) = i_id y" "i_status (f x) = I_accepted" "i_senderId (f y) = i_senderId y"
    "i_receiverId (f y) = i_receiverId y" "i_respondedAt (f x) = Some (clock s)" "i_createdAt (f y) = i_createdAt y"
    "i_expiresAt (f y) = i_expiresAt y" for y
    using x(2) by (simp_all add: f_def setting_def)
  have same: "y = x" if "y \<in> set (t_interests s)" "i_id y = i_id x" for y
    using interests.key_eq[OF ok(1), of y x] that x(1) by simp
  have "update_rows interests_table (\<lambda>y. i_id y = i_id x) f s = (Inr (), ?s1)"
    using interests.row_ok[OF ok(1), of x] x fx
    by (auto simp: update_rows_Inr_iff interest_ok_def conflicts_def list_ex_iff interest_clash_def dest!: same)
  then have acc: "accept_row (clock s) x s = (Inr (f x), ?s1)"
    unfolding accept_row_def save_Inr_iff by (simp add: f_def del: apply_settings_Cons)
  let ?e = "case i_eventId x of None \<Rightarrow> e | Some e' \<Rightarrow> Some e'"
  let ?m = "new_match (Suc (rng s (drawn s))) a b (i_id x) ?e (clock s)"
  let ?t = "?s1\<lparr>drawn := Suc (drawn s), t_matches := t_matches s @ [?m]\<rparr>"
  have unused: "m_interestId q \<noteq> Some (i_id x)" if "q \<in> set (t_matches s)" for q
    using ok(3) same x(2) that by (force simp: rests_on_interest_def)
  have none: "\<not> (of_pair a b q \<and> m_status q = M_active)" if "q \<in> set (t_matches s)" for q
    using assms(8) that by (auto simp: active_match_def find_row_def find_None_iff)
  have "insert_row matches_table ?m (?s1\<lparr>drawn := Suc (drawn s)\<rparr>) = (Inr (), ?t)"
    using fresh unused none assms(6)
    by (auto simp: insert_row_Inr_iff match_ok_def new_match_def canonicalPair_def match_clash_def sql_eq_def of_pair_def)
  then have cr: "create_match a b (i_id x) ?e ?s1 = (Inr (Suc (rng s (drawn s))), ?t)"
    by (simp add: create_match_def run_simps andThen_def)
  have "send_tx a b e s = (Inr (i_id x, Some (Suc (rng s (drawn s))), False), ?t)"
    using x(3) assms(6) unfolding send_tx_def transaction_Inr_iff
    by (simp add: andThen_Inr_iff simple_Inr_iff world_Inr_iff stale assms(8) found acc cr)
  moreover have "active_match a b ?t \<noteq> None"
    by (simp add: active_match_def find_row_def find_append of_pair_def new_match_def split: option.split)
  moreover have "f x \<in> set (t_interests ?t)"
    using in_update_whereI[OF x(1), of "\<lambda>y. i_id y = i_id x" f] by simp
  ultimately show ?thesis using fx by auto
qed

theorem mutual_interest_matches_witness:
  "\<exists>m t. send_tx 2 1 None asked_db = (Inr (1001, Some m, False), t) \<and> active_match 2 1 t \<noteq> None"
proof -
  have "conn_inv asked_db" by (rule conns.reachable_inv[OF pair_db_start asked_reached])
  moreover have "asked_interest \<in> set (t_interests asked_db)" "i_status asked_interest = I_pending"
    "i_senderId asked_interest = 1" "i_receiverId asked_interest = 2" "i_id asked_interest = 1001"
    "clock asked_db < i_expiresAt asked_interest"
    by (simp_all add: asked_rows asked_interest_def new_interest_def limits)
  ultimately show ?thesis
    using mutual_interest_matches[of asked_db asked_interest 1 2 None]
    by (simp add: asked_rows active_match_def find_row_def) blast
qed

end
