(* ===== verification/Safety_Theorems.thy ===== *)
theory Safety_Theorems
  imports Blocks Sanctions_Steps Connections_Theorems
begin

text \<open>Properties of blocks, reports and sanctions, each with a concrete instance.\<close>

section \<open>Separation\<close>

definition apart :: "uuid \<Rightarrow> uuid \<Rightarrow> db \<Rightarrow> bool" where
  "apart a b s \<longleftrightarrow> (\<forall>x \<in> set (t_interests s). \<not> pendingBetween a b x) \<and>
    (\<forall>m \<in> set (t_matches s). of_pair a b m \<longrightarrow> m_status m \<noteq> M_active) \<and>
    (\<forall>n \<in> set (t_notifications s). \<not> (n_userId n = a \<and> n_actorUserId n = Some b) \<and>
      \<not> (n_userId n = b \<and> n_actorUserId n = Some a))"

lemma pair_sym: "pendingBetween a b = pendingBetween b a" "of_pair a b = of_pair b a"
  by (auto simp: fun_eq_iff pendingBetween_def of_pair_def canonicalPair_def)

lemma apart_sym: "apart a b s \<longleftrightarrow> apart b a s"
  unfolding apart_def by (auto simp: pair_sym[of a b])

lemma endConnections_ends:
  assumes ok: "table_ok matches_table s" and st: "st \<noteq> M_active" and run: "endConnections a b st x y s = (Inr e, t)"
  shows "(\<forall>i \<in> set (t_interests t). \<not> pendingBetween a b i) \<and>
    (\<forall>m \<in> set (t_matches t). of_pair a b m \<longrightarrow> m_status m \<noteq> M_active)"
proof -
  obtain s1 where upd: "update_rows interests_table (pendingBetween a b) (answer I_cancelled (clock s)) s = (Inr (), s1)"
    and rest: "(case active_match a b s1 of None \<Rightarrow> ret None
      | Some m \<Rightarrow> andThen (update_rows matches_table (\<lambda>r. m_id r = m_id m) (end_match st (clock s) x y)) (\<lambda>_. ret (Some (m_id m)))) s1
      = (Inr e, t)"
    using run by (auto simp: endConnections_def returns_iff)
  have s1: "t_interests s1 = update_where (pendingBetween a b) (answer I_cancelled (clock s)) (t_interests s)"
    "t_matches s1 = t_matches s"
    using upd by (auto simp: update_rows_Inr_iff)
  have cancelled: "\<forall>i \<in> set (t_interests s1). \<not> pendingBetween a b i"
    by (auto simp: s1(1) set_update_where answer_def pendingBetween_def)
  show ?thesis
  proof (cases "active_match a b s1")
    case None
    then have "\<forall>m \<in> set (t_matches s1). \<not> (of_pair a b m \<and> m_status m = M_active)"
      by (auto simp: active_match_def find_row_def dest: find_None_notin)
    with None rest cancelled show ?thesis by (auto simp: ret_def)
  next
    case (Some m)
    then obtain u where t: "update_rows matches_table (\<lambda>r. m_id r = m_id m) (end_match st (clock s) x y) s1 = (Inr u, t)"
      using rest by (auto simp: returns_iff)
    have rows: "t_matches t = update_where (\<lambda>r. m_id r = m_id m) (end_match st (clock s) x y) (t_matches s1)"
      "t_interests t = t_interests s1"
      using t by (auto simp: update_rows_Inr_iff)
    have m: "m \<in> set (t_matches s)" "m_status m = M_active" "of_pair a b m"
      using active_match_Some[OF Some] by (simp_all add: s1)
    have "r = m" if "r \<in> set (t_matches s)" "of_pair a b r" "m_status r = M_active" for r
      using matches.clash_eq[OF ok, of r m] that m by (simp add: match_clash_def of_pair_def canonicalPair_def split: if_splits)
    then have "\<forall>r \<in> set (t_matches t). of_pair a b r \<longrightarrow> m_status r \<noteq> M_active"
      using st by (auto simp: rows s1(2) set_update_where end_match_def of_pair_def)
    with cancelled rows(2) show ?thesis by simp
  qed
qed

lemma removed_between:
  "removeNotificationsBetween a b s = (Inr u, t) \<Longrightarrow>
    t_interests t = t_interests s \<and> t_matches t = t_matches s \<and> t_blocks t = t_blocks s \<and> t_reports t = t_reports s \<and>
    (\<forall>n \<in> set (t_notifications t). \<not> (n_userId n = a \<and> n_actorUserId n = Some b) \<and>
      \<not> (n_userId n = b \<and> n_actorUserId n = Some a))"
  by (auto simp: removeNotificationsBetween_def delete_rows_def)

text \<open>What the logs and the detections after a block leave alone.\<close>

definition bonds :: "db \<Rightarrow> partner_interest list \<times> match_row list \<times> block list \<times> notification list" where
  "bonds s = (t_interests s, t_matches s, t_blocks s, t_notifications s)"

lemma hide_leaves:
  assumes "\<And>rs s. v (s\<lparr>t_users := rs\<rparr>) = v s"
  shows "leaves v (hideFromDiscovery u r)"
  unfolding hideFromDiscovery_def Let_def by (intro leaves_rules) (simp_all add: assms)

lemma flag_leaves:
  assumes "\<And>rs s. v (s\<lparr>t_users := rs\<rparr>) = v s" "\<And>rs s. v (s\<lparr>t_reports := rs\<rparr>) = v s"
    "\<And>rs s. v (s\<lparr>t_safety_logs := rs\<rparr>) = v s" "\<And>n s. v (s\<lparr>drawn := n\<rparr>) = v s"
  shows "leaves v (flag env d)"
  unfolding flag_def flag_tx_def by (intro leaves_rules hide_leaves) (simp_all add: assms)

lemma detections_leave:
  assumes "\<And>rs s. v (s\<lparr>t_users := rs\<rparr>) = v s" "\<And>rs s. v (s\<lparr>t_reports := rs\<rparr>) = v s"
    "\<And>rs s. v (s\<lparr>t_safety_logs := rs\<rparr>) = v s" "\<And>n s. v (s\<lparr>drawn := n\<rparr>) = v s"
  shows "leaves v (afterBlock env u)" and "leaves v (afterMessage env m)"
  unfolding afterBlock_def afterMessage_def safely_def detect_money_def detect_repeated_def
  by (intro leaves_rules flag_leaves; simp add: assms)+

lemma find_or_create_block_Inr:
  assumes "find_or_create_block a b s = (Inr new, t)"
  shows "(\<exists>x \<in> set (t_blocks t). bl_blockerId x = a \<and> bl_blockedId x = b) \<and> t_matches t = t_matches s \<and>
    t_reports t = t_reports s"
  using assms
  by (auto simp: find_or_create_block_def find_row_def run_simps returns_iff insert_row_Inr_iff
      split: if_splits dest!: find_Some_in)

lemma emitMatchEnded_leaves: "(\<And>es s. v (s\<lparr>outbox := es\<rparr>) = v s) \<Longrightarrow> leaves v (emitMatchEnded i a b)"
  unfolding emitMatchEnded_def by (intro leaves_rules)

lemma separated:
  assumes ok: "table_ok matches_table s" and run: "separate_members a b alsoBlock s = (Inr e, t)"
  shows "apart a b t \<and> (alsoBlock \<longrightarrow> blocked_between a b t) \<and> t_reports t = t_reports s"
proof -
  obtain s1 s2 where blk: "doWhen alsoBlock (andThen (find_or_create_block a b) (\<lambda>_. ret ())) s = (Inr (), s1)"
    and ended: "endConnections a b (if alsoBlock then M_blocked else M_closed) (Some a) None s1 = (Inr e, s2)"
    and gone: "removeNotificationsBetween a b s2 = (Inr (), t)"
    using run by (auto simp: separate_members_def returns_iff)
  have s1: "(alsoBlock \<longrightarrow> (\<exists>x \<in> set (t_blocks s1). bl_blockerId x = a \<and> bl_blockedId x = b)) \<and>
    t_matches s1 = t_matches s \<and> t_reports s1 = t_reports s"
  proof (cases alsoBlock)
    case True
    then obtain new where "find_or_create_block a b s = (Inr new, s1)"
      using blk by (auto simp: doWhen_def returns_iff)
    from find_or_create_block_Inr[OF this] show ?thesis by simp
  next
    case False
    with blk show ?thesis by (simp add: doWhen_def ret_def)
  qed
  have "table_ok matches_table s1" using ok s1 by (simp add: table_ok_def)
  note ends = endConnections_ends[OF this _ ended]
  have kept: "leaves (\<lambda>s. (t_blocks s, t_reports s)) (endConnections a b (if alsoBlock then M_blocked else M_closed) (Some a) None)"
    unfolding endConnections_def by (intro leaves_rules) simp_all
  have same: "t_blocks s2 = t_blocks s1" "t_reports s2 = t_reports s1"
    using leavesD[OF kept ended] by simp_all
  show ?thesis
    using ends removed_between[OF gone] s1 same unfolding apart_def blocked_between_def by force
qed

lemma isEligible_separation: "isEligible a b s = Inr True \<Longrightarrow> separation_rules a b s"
proof -
  assume run: "isEligible a b s = Inr True"
  let ?today = "todayInIndia (clock s)"
  obtain v qa row where v: "loadViewer a ?today s = Inr (v, qa)" "row \<in> set (runQuery (target_query v qa ?today b) s)"
    using run by (auto simp: isEligible_def findEligible_def split: if_splits sum.splits list.splits)
      (metis list.set_intros(1))
  obtain u pb qb where "eligible (target_query v qa ?today b) s (u, pb, qb)"
    using runQuery_in[OF v(2)] by (metis prod.exhaust)
  moreover have "vw_id v = a" by (rule loadViewer_Inr[OF v(1)])
  ultimately show "separation_rules a b s" by (auto simp: eligible_def target_query_def filter_rules_def)
qed

lemma apart_bonds: "bonds t = bonds s \<Longrightarrow> apart a b t = apart a b s"
  by (simp add: apart_def bonds_def)

lemma block_member_separates:
  assumes ok: "table_ok matches_table s" and run: "block_member env a b ip s = (Inr new, t)"
  shows "apart a b t \<and> blocked_between a b t"
proof -
  obtain ended s1 s2 where tx: "block_tx a b s = (Inr (new, ended), s1)" and e: "emitMatchEnded ended a b s1 = (Inr (), s2)"
    and logs: "doWhen new (andThen (recordSafety env Safety_block_created Sev_info (Some a) None (Some ip)
          [(''blockedUserId'', Meta_id b)]) (\<lambda>_. afterBlock env b)) s2 = (Inr (), t)"
    using run by (auto simp: block_member_def returns_iff)
  have "separate_members a b True s = (Inr ended, s1)"
    using tx by (auto simp: block_tx_def separate_members_def returns_iff doWhen_def ret_def)
  note sep = separated[OF ok this]
  have view: "leaves bonds (emitMatchEnded ended a b)"
    by (rule emitMatchEnded_leaves) (simp add: bonds_def)
  have view': "leaves bonds (doWhen new (andThen (recordSafety env Safety_block_created Sev_info (Some a) None (Some ip)
          [(''blockedUserId'', Meta_id b)]) (\<lambda>_. afterBlock env b)))"
    by (intro leaves_rules detections_leave) (simp_all add: bonds_def)
  have "bonds t = bonds s1" using leavesD[OF view e] leavesD[OF view' logs] by simp
  with sep apart_bonds[OF this] show ?thesis by (simp add: bonds_def blocked_between_def)
qed

lemma extend_report_Inr:
  assumes "extend_report input c r s = (Inr r', t)"
  shows "map (\<lambda>x. (rp_reporterId x, rp_reportedUserId x)) (t_reports t) =
      map (\<lambda>x. (rp_reporterId x, rp_reportedUserId x)) (t_reports s) \<and> t_matches t = t_matches s"
proof -
  define f where "f = apply_settings
    [setting rp_messageId rp_messageId_update (or_else_opt (rp_messageId r) (ri_messageId input)),
     setting rp_matchId rp_matchId_update (or_else_opt (rp_matchId r) (Some (fst c))),
     setting rp_evidence rp_evidence_update
       ((rp_evidence r)\<lparr>re_messages := mergeMessages (re_messages (rp_evidence r)) (snd c)\<rparr>)] r"
  have "update_rows reports_table (\<lambda>x. rp_id x = rp_id r) f s = (Inr (), t)"
    using assms by (simp add: extend_report_def save_Inr_iff f_def del: apply_settings_Cons)
  moreover have "rp_reporterId (f x) = rp_reporterId x" "rp_reportedUserId (f x) = rp_reportedUserId x" for x
    by (simp_all add: f_def setting_keeps)
  ultimately show ?thesis by (auto simp: update_rows_Inr_iff map_update_where)
qed

lemma reported_between_rows:
  "map (\<lambda>x. (rp_reporterId x, rp_reportedUserId x)) (t_reports t) =
    map (\<lambda>x. (rp_reporterId x, rp_reportedUserId x)) (t_reports s) \<Longrightarrow> reported_between a b t = reported_between a b s"
proof -
  assume same: "map (\<lambda>x. (rp_reporterId x, rp_reportedUserId x)) (t_reports t) =
    map (\<lambda>x. (rp_reporterId x, rp_reportedUserId x)) (t_reports s)"
  have "reported_between a b s \<longleftrightarrow>
      (Some a, b) \<in> set (map (\<lambda>x. (rp_reporterId x, rp_reportedUserId x)) (t_reports s)) \<or>
      (Some b, a) \<in> set (map (\<lambda>x. (rp_reporterId x, rp_reportedUserId x)) (t_reports s))" for s
    by (auto simp: reported_between_def image_iff intro: sym)
  then show ?thesis by (simp only: same)
qed

lemma auto_hide_leaves:
  assumes "\<And>rs s. v (s\<lparr>t_users := rs\<rparr>) = v s"
  shows "leaves v (auto_hide input)"
  unfolding auto_hide_def by (intro leaves_rules hide_leaves) (simp_all add: assms)

lemma report_tx_separates:
  assumes ok: "table_ok matches_table s" and run: "report_tx a input s = (Inr x, t)"
  shows "apart a (ri_reportedUserId input) t \<and> reported_between a (ri_reportedUserId input) t \<and>
    (ri_alsoBlock input \<longrightarrow> blocked_between a (ri_reportedUserId input) t)"
proof -
  let ?b = "ri_reportedUserId input"
  obtain chat report ended s1 s2 where
    rep: "(case open_report a ?b s of None \<Rightarrow> create_report a input chat
       | Some r \<Rightarrow> (case chat of None \<Rightarrow> ret r | Some c \<Rightarrow> extend_report input c r)) s = (Inr report, s1)"
    and sep: "separate_members a ?b (ri_alsoBlock input) s1 = (Inr ended, s2)"
    and hid: "(if open_report a ?b s = None then auto_hide input else ret None) s2 = (Inr (ro_hiddenReason x), t)"
    using run by (auto simp: report_tx_def returns_iff)
  have s1: "reported_between a ?b s1 \<and> t_matches s1 = t_matches s"
  proof (cases "open_report a ?b s")
    case None
    with rep show ?thesis
      by (auto simp: create_report_def Let_def returns_iff insert_row_Inr_iff reported_between_def new_report_def)
  next
    case (Some r)
    then have there: "reported_between a ?b s"
      by (auto simp: open_report_def find_row_def reported_between_def dest!: find_Some_in)
    show ?thesis
    proof (cases chat)
      case None
      with Some rep there show ?thesis by (simp add: ret_def)
    next
      case (Some c)
      with \<open>open_report a ?b s = Some r\<close> rep have "extend_report input c r s = (Inr report, s1)" by simp
      from extend_report_Inr[OF this] there reported_between_rows[of s1 s] show ?thesis by simp
    qed
  qed
  then have "table_ok matches_table s1" using ok by (simp add: table_ok_def)
  note separated[OF this sep]
  moreover have "leaves (\<lambda>s. (bonds s, t_reports s)) (if open_report a ?b s = None then auto_hide input else ret None)"
    by (intro leaves_rules auto_hide_leaves) (simp_all add: bonds_def)
  from leavesD[OF this hid] have "bonds t = bonds s2" "t_reports t = t_reports s2" by simp_all
  ultimately show ?thesis
    using s1 apart_bonds[OF \<open>bonds t = bonds s2\<close>] by (simp add: bonds_def blocked_between_def reported_between_def)
qed

lemma report_member_separates:
  assumes ok: "table_ok matches_table s" and run: "report_member env a input ip s = (Inr x, t)"
  shows "apart a (ri_reportedUserId input) t \<and> reported_between a (ri_reportedUserId input) t \<and>
    (ri_alsoBlock input \<longrightarrow> blocked_between a (ri_reportedUserId input) t)"
proof -
  let ?b = "ri_reportedUserId input"
  obtain o' s0 s1 s2 where may: "assertMayReport env a input ip s = (Inr (), s0)"
    and tx: "report_tx a input s0 = (Inr o', s1)"
    and e: "emitMatchEnded (ro_endedMatchId o') a ?b s1 = (Inr (), s2)" and logs: "log_report env a input ip o' s2 = (Inr (), t)"
    using run by (auto simp: report_member_def returns_iff)
  have asked: "leaves t_matches (assertMayReport env a input ip)"
    unfolding assertMayReport_def by (intro leaves_rules) simp_all
  have "table_ok matches_table s0" using ok leavesD[OF asked may] by (simp add: table_ok_def)
  note sep = report_tx_separates[OF this tx]
  have view: "leaves (\<lambda>s. (bonds s, t_reports s)) (emitMatchEnded (ro_endedMatchId o') a ?b)"
    by (rule emitMatchEnded_leaves) (simp add: bonds_def)
  have view': "leaves (\<lambda>s. (bonds s, t_reports s)) (log_report env a input ip o')"
    unfolding log_report_def Let_def by (intro leaves_rules) (simp_all add: bonds_def)
  have same: "bonds t = bonds s1" "t_reports t = t_reports s1"
    using leavesD[OF view e] leavesD[OF view' logs] by simp_all
  with sep apart_bonds[OF same(1)] show ?thesis by (simp add: bonds_def blocked_between_def reported_between_def)
qed

text \<open>
  C24. After a member blocked or reported another, nothing connects the two: no pending interest and no active
  match in either direction, no notification of one about the other, and neither is eligible for the other.
\<close>

theorem separation_is_complete:
  assumes "table_ok matches_table s"
    and "block_member env a b ip s = (Inr x, t) \<or>
      report_member env a input ip s = (Inr y, t) \<and> ri_reportedUserId input = b"
  shows "(\<forall>i \<in> set (t_interests t). \<not> pendingBetween a b i) \<and>
    (\<forall>m \<in> set (t_matches t). of_pair a b m \<longrightarrow> m_status m \<noteq> M_active) \<and>
    (\<forall>n \<in> set (t_notifications t). \<not> (n_userId n = a \<and> n_actorUserId n = Some b) \<and>
      \<not> (n_userId n = b \<and> n_actorUserId n = Some a)) \<and>
    isEligible a b t \<noteq> Inr True \<and> isEligible b a t \<noteq> Inr True"
proof -
  have sep: "apart a b t" "blocked_between a b t \<or> reported_between a b t"
    using assms block_member_separates report_member_separates by blast+
  then have "\<not> separation_rules a b t" "\<not> separation_rules b a t"
    by (auto simp: separation_rules_def blocked_between_def reported_between_def)
  then have "isEligible a b t \<noteq> Inr True" "isEligible b a t \<noteq> Inr True" using isEligible_separation by blast+
  with sep(1) show ?thesis by (simp add: apart_def)
qed

text \<open>The matched members of the sample run: one blocks the other.\<close>

lemma matched_table_ok: "table_ok matches_table matched_db"
  by (simp add: table_ok_def matched_rows conflicts_def new_match_def match_ok_def canonicalPair_def)

lemma sample_block: "fst (block_member sample_env 1 2 [] matched_db) = Inr True"
  by code_simp

theorem separation_is_complete_witness:
  "isEligible 2 1 matched_db = Inr True \<and> isEligible 2 1 (snd (block_member sample_env 1 2 [] matched_db)) \<noteq> Inr True"
proof -
  have "block_member sample_env 1 2 [] matched_db = (Inr True, snd (block_member sample_env 1 2 [] matched_db))"
    using sample_block by (metis prod.collapse)
  from separation_is_complete[OF matched_table_ok disjI1[OF this]]
  have "isEligible 2 1 (snd (block_member sample_env 1 2 [] matched_db)) \<noteq> Inr True" by blast
  moreover have "isEligible 2 1 matched_db = Inr True" by code_simp
  ultimately show ?thesis by blast
qed

section \<open>Sanctions\<close>

text \<open>
  C25. In every state that moderators, the expiry job and everything else can reach, an account is suspended,
  banned or restricted from chat exactly while a sanction of that kind is active for it.
\<close>

theorem account_state_agrees_with_sanctions:
  assumes "sanction_start s" "sanction_step\<^sup>*\<^sup>* s t" and u: "u \<in> set (t_users t)" "u_deletedAt u = None"
  shows "(u_status u = U_suspended) = (\<exists>x \<in> set (t_sanctions t). sn_userId x = u_id u \<and> sn_type x = Suspension \<and> sanction_is_active x) \<and>
    (u_status u = U_banned) = (\<exists>x \<in> set (t_sanctions t). sn_userId x = u_id u \<and> sn_type x = Ban \<and> sanction_is_active x) \<and>
    (u_chatRestrictedAt u \<noteq> None) =
      (\<exists>x \<in> set (t_sanctions t). sn_userId x = u_id u \<and> sn_type x = Chat_restriction \<and> sanction_is_active x)"
  using sanctioning.reachable_inv[OF assms(1,2)] u
  by (simp add: sanctions_agree_def account_agrees_def holds_sanction_def)

definition sample_actor :: admin_actor where "sample_actor = \<lparr>ac_adminId = 1, ac_ip = []\<rparr>"

definition sample_sanction :: "sanction_type \<Rightarrow> int option \<Rightarrow> sanction_input" where
  "sample_sanction type days = \<lparr>si_userId = 5, si_type = type, si_reasonCode = Harassment, si_note = ''N'',
    si_reportId = None, si_durationDays = days, si_reuseActive = False\<rparr>"

definition member_joined :: db where "member_joined = empty_db\<lparr>t_users := [sample_user 5 ''p'']\<rparr>"

definition member_suspended :: db where
  "member_suspended = snd (transaction (applySanction sample_env sample_actor (sample_sanction Suspension (Some 3))) member_joined)"

lemma suspended_reached: "sanction_step\<^sup>*\<^sup>* empty_db member_suspended"
proof -
  have "sanction_step empty_db member_joined"
    by (rule sanction_step.elsewhere)
      (auto simp: member_joined_def empty_db_def table_ok_def conflicts_def sample_user_def user_ok_def new_account_def)
  moreover have "sanction_step member_joined member_suspended"
    unfolding member_suspended_def by (rule sanction_step.sanction)
  ultimately show ?thesis by (meson converse_rtranclp_into_rtranclp r_into_rtranclp)
qed

theorem account_state_agrees_with_sanctions_witness:
  "\<exists>x \<in> set (t_sanctions member_suspended). sn_userId x = 5 \<and> sn_type x = Suspension \<and> sanction_is_active x"
proof -
  have start: "sanction_start empty_db" by (simp add: sanction_start_def empty_db_def)
  have u: "(sample_user 5 ''p'')\<lparr>u_status := U_suspended\<rparr> \<in> set (t_users member_suspended)"
    by code_simp
  from account_state_agrees_with_sanctions[OF start suspended_reached u] show ?thesis
    by (simp add: sample_user_def)
qed

text \<open>What the ban of a live account does, step by step.\<close>

lemma endAllMatchesOf_ends:
  assumes "endAllMatchesOf i adm s = (Inr ms, t)"
  shows "(\<forall>m \<in> set (t_matches t). of_member i m \<longrightarrow> m_status m \<noteq> M_active) \<and>
    (\<forall>m \<in> set (t_matches s). of_member i m \<and> m_status m = M_active \<longrightarrow> (m_id m, partner_in i m) \<in> set ms)"
proof -
  let ?found = "rows_where matches_table (\<lambda>m. m_status m = M_active \<and> of_member i m) s"
  let ?f = "\<lambda>m. m\<lparr>m_status := M_closed, m_endedAt := Some (clock s), m_endedByAdminId := Some adm\<rparr>"
  let ?P = "\<lambda>m. List.member (map m_id ?found) (m_id m)"
  show ?thesis
  proof (cases "?found = []")
    case True
    then have "t = s" using assms by (simp add: endAllMatchesOf_def ret_def)
    with True show ?thesis by (auto simp: rows_where_def filter_empty_conv)
  next
    case False
    then have run: "update_rows matches_table ?P ?f s = (Inr (), t)"
      and ms: "ms = map (\<lambda>m. (m_id m, partner_in i m)) ?found"
      using assms by (auto simp: endAllMatchesOf_def returns_iff)
    have rows: "t_matches t = update_where ?P ?f (t_matches s)" using run by (simp add: update_rows_Inr_iff)
    have "m_status m \<noteq> M_active" if m_in: "m \<in> set (t_matches t)" and mine: "of_member i m" for m
    proof -
      obtain m0 where m0: "m0 \<in> set (t_matches s)" "m = (if ?P m0 then ?f m0 else m0)"
        using m_in unfolding rows by (rule in_update_whereE)
      show ?thesis
      proof (cases "?P m0")
        case True
        with m0 show ?thesis by simp
      next
        case False
        with m0 mine show ?thesis by (auto simp: rows_where_def)
      qed
    qed
    with ms show ?thesis by (auto simp: rows_where_def)
  qed
qed

lemma cancelPendingInterestsOf_cancels:
  assumes "cancelPendingInterestsOf i s = (Inr n, t)"
  shows "\<forall>x \<in> set (t_interests t). i_status x = I_pending \<longrightarrow> i_senderId x \<noteq> i \<and> i_receiverId x \<noteq> i"
  using assms
  by (auto simp: cancelPendingInterestsOf_def Let_def returns_iff update_rows_Inr_iff set_update_where answer_def)

lemma setAccountStatus_signs_out:
  assumes run: "setAccountStatus i st s = (Inr (), t)" and st: "st \<noteq> U_active"
  shows "\<forall>x \<in> set (t_sessions t). s_userId x = i \<longrightarrow> s_revokedAt x \<noteq> None"
proof (intro ballI impI)
  let ?f = "\<lambda>x. x\<lparr>s_revokedAt := Some (clock s), s_revokedReason := Some Rev_sanction\<rparr>"
  let ?P = "\<lambda>x. s_userId x = i \<and> s_revokedAt x = None"
  obtain s1 where "doWhen (st \<noteq> U_active) (update_rows sessions_table ?P ?f) s1 = (Inr (), t)"
    using run by (auto simp: setAccountStatus_def returns_iff)
  then have "update_rows sessions_table ?P ?f s1 = (Inr (), t)" using st by (simp add: doWhen_def)
  then have rows: "t_sessions t = update_where ?P ?f (t_sessions s1)" by (simp add: update_rows_Inr_iff)
  fix x assume x: "x \<in> set (t_sessions t)" "s_userId x = i"
  obtain x0 where "x0 \<in> set (t_sessions s1)" "x = (if ?P x0 then ?f x0 else x0)"
    using x(1) unfolding rows by (rule in_update_whereE)
  with x(2) show "s_revokedAt x \<noteq> None" by (cases "?P x0") auto
qed

lemma audited:
  assumes "recordAdminAction env adm act tgt i md ip s = (Inr (), t)"
  shows "t_users t = t_users s \<and> t_sessions t = t_sessions s \<and> t_matches t = t_matches s \<and> t_interests t = t_interests s \<and>
    (\<exists>l \<in> set (t_audit_logs t). al_adminId l = adm \<and> al_action l = act \<and> al_targetType l = tgt \<and> al_targetId l = i)"
  using assms by (auto simp: recordAdminAction_def returns_iff insert_row_Inr_iff)

lemma enforce_ban:
  assumes "enforce adm u Ban t0 s = (Inr (ef, c), t)"
  shows "(\<forall>v \<in> set (t_users t). u_id v = u_id u \<and> u_deletedAt v = None \<longrightarrow> u_status v = U_banned) \<and>
    (\<forall>x \<in> set (t_sessions t). s_userId x = u_id u \<longrightarrow> s_revokedAt x \<noteq> None) \<and>
    (\<forall>m \<in> set (t_matches t). of_member (u_id u) m \<longrightarrow> m_status m \<noteq> M_active) \<and>
    (\<forall>x \<in> set (t_interests t). i_status x = I_pending \<longrightarrow> i_senderId x \<noteq> u_id u \<and> i_receiverId x \<noteq> u_id u) \<and>
    ef_disconnect ef"
proof -
  obtain ids s1 s2 ms s3 where rev: "revoke_sanctions (u_id u) Suspension adm ''Superseded by a ban.'' s = (Inr ids, s1)"
    and st: "setAccountStatus (u_id u) U_banned s1 = (Inr (), s2)" and ms: "endAllMatchesOf (u_id u) adm s2 = (Inr ms, s3)"
    and cancelled: "cancelPendingInterestsOf (u_id u) s3 = (Inr c, t)" and ef: "ef_disconnect ef"
    using assms by (auto simp: enforce_def Let_def returns_iff)
  have users: "\<forall>v \<in> set (t_users s2). u_id v = u_id u \<and> u_deletedAt v = None \<longrightarrow> u_status v = U_banned"
    using setAccountStatus_Inr(1)[OF st] by (auto simp: set_update_where)
  have sessions: "\<forall>x \<in> set (t_sessions s2). s_userId x = u_id u \<longrightarrow> s_revokedAt x \<noteq> None"
    by (rule setAccountStatus_signs_out[OF st]) simp
  have "leaves (\<lambda>s. (t_users s, t_sessions s)) (endAllMatchesOf (u_id u) adm)"
    unfolding endAllMatchesOf_def by (intro leaves_rules) simp_all
  from leavesD[OF this ms] have s3: "t_users s3 = t_users s2" "t_sessions s3 = t_sessions s2" by simp_all
  have "leaves (\<lambda>s. (t_users s, t_sessions s, t_matches s)) (cancelPendingInterestsOf (u_id u))"
    unfolding cancelPendingInterestsOf_def Let_def by (intro leaves_rules) simp_all
  from leavesD[OF this cancelled] have t: "t_users t = t_users s2" "t_sessions t = t_sessions s2" "t_matches t = t_matches s3"
    using s3 by simp_all
  show ?thesis
    using users sessions endAllMatchesOf_ends[OF ms] cancelPendingInterestsOf_cancels[OF cancelled] ef by (simp add: t)
qed

text \<open>
  C26. A ban that is applied is complete in one transaction: the account is banned and every session revoked,
  every match of the member has ended, no interest is pending, the sanction and its audit entry are stored.
\<close>

theorem ban_is_complete:
  assumes run: "applySanction env actor input s = (Inr ap, t)" and ban: "si_type input = Ban" "ap_created ap"
  shows "(\<forall>u \<in> set (t_users t). u_id u = si_userId input \<and> u_deletedAt u = None \<longrightarrow> u_status u = U_banned) \<and>
    (\<forall>x \<in> set (t_sessions t). s_userId x = si_userId input \<longrightarrow> s_revokedAt x \<noteq> None) \<and>
    (\<forall>m \<in> set (t_matches t). of_member (si_userId input) m \<longrightarrow> m_status m \<noteq> M_active) \<and>
    (\<forall>x \<in> set (t_interests t). i_status x = I_pending \<longrightarrow>
      i_senderId x \<noteq> si_userId input \<and> i_receiverId x \<noteq> si_userId input) \<and>
    ef_disconnect (ap_effects ap) \<and>
    (\<exists>l \<in> set (t_audit_logs t). al_adminId l = ac_adminId actor \<and> al_action l = ''user.ban'' \<and>
      al_targetId l = Some (si_userId input))"
proof (rule applied_sanction_E[OF run ban(2)])
  let ?x = "new_sanction (Suc (rng s (drawn s))) (ac_adminId actor) input (clock s)"
  fix u s1 s2 c
  assume live: "live_account (si_userId input) s = Some u"
    and enf: "enforce (ac_adminId actor) u (si_type input) (clock s) s1 = (Inr (ap_effects ap, c), s2)"
    and audit: "recordAdminAction env (ac_adminId actor) (AUDIT_ACTION (si_type input)) Target_user (Some (si_userId input))
      (sanction_metadata ?x input (u_status u) (ap_effects ap) c) (ac_ip actor) s2 = (Inr (), t)"
  have u: "u_id u = si_userId input" using live_account_in[OF live] by simp
  note after = enforce_ban[OF enf[unfolded ban(1)], unfolded u]
  show ?thesis using after audited[OF audit] ban(1) by simp blast
qed

text \<open>A matched member is banned.\<close>

theorem ban_is_complete_witness:
  "filter (\<lambda>m. of_member 1 m \<and> m_status m = M_active)
    (t_matches (snd (applySanction sample_env sample_actor ((sample_sanction Ban None)\<lparr>si_userId := 1\<rparr>) matched_db))) = []"
proof -
  let ?input = "(sample_sanction Ban None)\<lparr>si_userId := 1\<rparr>"
  have "case fst (applySanction sample_env sample_actor ?input matched_db) of Inl _ \<Rightarrow> False | Inr ap \<Rightarrow> ap_created ap"
    by code_simp
  then obtain ap where ap: "fst (applySanction sample_env sample_actor ?input matched_db) = Inr ap" "ap_created ap"
    by (auto split: sum.splits)
  then have "applySanction sample_env sample_actor ?input matched_db =
      (Inr ap, snd (applySanction sample_env sample_actor ?input matched_db))" by (metis prod.collapse)
  from ban_is_complete[OF this _ ap(2)] show ?thesis by (auto simp: sample_sanction_def filter_empty_conv)
qed

section \<open>What the platform does on its own\<close>

definition verdicts :: "db \<Rightarrow> user_sanction list \<times> (uuid \<times> user_status \<times> instant option) list" where
  "verdicts s = (t_sanctions s, map account_core (t_users s))"

lemma hide_keeps_verdicts: "leaves verdicts (hideFromDiscovery i r)"
proof -
  have upd: "leaves verdicts (update_rows users_table P (\<lambda>u. u\<lparr>u_hiddenFromDiscovery := True, u_hiddenReason := Some r\<rparr>))" for P
    by (rule leavesI) (auto simp: verdicts_def update_rows_def Let_def account_core_def intro!: map_update_where split: if_splits)
  show ?thesis unfolding hideFromDiscovery_def Let_def by (intro leaves_andThen leaves_simple upd)
qed

lemma flag_keeps_verdicts: "leaves verdicts (flag env d)"
  unfolding flag_def flag_tx_def by (intro leaves_rules hide_keeps_verdicts) (simp_all add: verdicts_def)

lemma detections_keep_verdicts: "leaves verdicts (afterBlock env i)" "leaves verdicts (afterMessage env m)"
  unfolding afterBlock_def afterMessage_def safely_def detect_money_def detect_repeated_def
  by (intro leaves_rules flag_keeps_verdicts)+

lemma separation_keeps_verdicts:
  "leaves verdicts (endConnections a b st x y)" "leaves verdicts (removeNotificationsBetween a b)"
  "leaves verdicts (find_or_create_block a b)" "leaves verdicts (emitMatchEnded i a b)"
  unfolding endConnections_def removeNotificationsBetween_def find_or_create_block_def emitMatchEnded_def
  by (intro leaves_rules; simp add: verdicts_def)+

lemma leaves_snd: "leaves v m \<Longrightarrow> v (snd (m s)) = v s"
  by (simp add: leaves_def)

text \<open>
  C27. The platform never sanctions on its own: blocks, reports and the detection of suspicious messages, however
  many there are, leave every account's status and restriction and every sanction as they were.
\<close>

theorem automation_never_sanctions:
  "verdicts (snd (block_member env a b ip s)) = verdicts s \<and> verdicts (snd (report_member env a input ip s)) = verdicts s \<and>
    verdicts (snd (afterMessage env m s)) = verdicts s"
proof -
  have "leaves verdicts (block_member env a b ip)"
    unfolding block_member_def block_tx_def
    by (intro leaves_rules separation_keeps_verdicts detections_keep_verdicts) (simp_all add: verdicts_def)
  moreover have "leaves verdicts (auto_hide input)"
    unfolding auto_hide_def by (intro leaves_rules hide_keeps_verdicts)
  then have "leaves verdicts (report_member env a input ip)"
    unfolding report_member_def assertMayReport_def report_tx_def create_report_def extend_report_def separate_members_def
      log_report_def Let_def
    by (intro leaves_rules separation_keeps_verdicts) (simp_all add: verdicts_def)
  ultimately show ?thesis using detections_keep_verdicts(2) by (simp add: leaves_snd)
qed

lemma hideFromDiscovery_hides:
  assumes "hideFromDiscovery i r s = (Inr h, t)"
  shows "\<forall>u \<in> set (t_users t). u_id u = i \<and> u_deletedAt u = None \<longrightarrow> u_hiddenFromDiscovery u"
proof (intro ballI impI)
  let ?P = "\<lambda>u. u_id u = i \<and> u_deletedAt u = None \<and> \<not> u_hiddenFromDiscovery u"
  let ?f = "\<lambda>u. u\<lparr>u_hiddenFromDiscovery := True, u_hiddenReason := Some r\<rparr>"
  have rows: "t_users t = update_where ?P ?f (t_users s)"
    using assms by (auto simp: hideFromDiscovery_def Let_def returns_iff update_rows_Inr_iff)
  fix u assume u: "u \<in> set (t_users t)" "u_id u = i \<and> u_deletedAt u = None"
  obtain u0 where "u0 \<in> set (t_users s)" "u = (if ?P u0 then ?f u0 else u0)"
    using u(1) unfolding rows by (rule in_update_whereE)
  with u(2) show "u_hiddenFromDiscovery u" by (cases "?P u0") auto
qed

text \<open>
  The first report of a member by another for a threat or for being under age hides the reported member at
  once. While that reporter has an open report, a further one hides nobody, whatever its reason.
\<close>

theorem first_p0_report_hides:
  assumes run: "report_tx a input s = (Inr x, t)" and p0: "REPORT_PRIORITY_BY_REASON (ri_reason input) = 0"
  shows "if open_report a (ri_reportedUserId input) s = None
    then \<forall>u \<in> set (t_users t). u_id u = ri_reportedUserId input \<and> u_deletedAt u = None \<longrightarrow> u_hiddenFromDiscovery u
    else t_users t = t_users s"
proof -
  let ?b = "ri_reportedUserId input"
  obtain chat report ended s1 s2 where
    rep: "(case open_report a ?b s of None \<Rightarrow> create_report a input chat
       | Some r \<Rightarrow> (case chat of None \<Rightarrow> ret r | Some c \<Rightarrow> extend_report input c r)) s = (Inr report, s1)"
    and sep: "separate_members a ?b (ri_alsoBlock input) s1 = (Inr ended, s2)"
    and hid: "(if open_report a ?b s = None then auto_hide input else ret None) s2 = (Inr (ro_hiddenReason x), t)"
    using run by (auto simp: report_tx_def returns_iff)
  show ?thesis
  proof (cases "open_report a ?b s")
    case None
    then obtain h where "hideFromDiscovery ?b Hidden_p0_report s2 = (Inr h, t)"
      using hid p0 by (auto simp: auto_hide_def returns_iff)
    from hideFromDiscovery_hides[OF this] None show ?thesis by simp
  next
    case (Some r)
    have "leaves t_users (case chat of None \<Rightarrow> ret r | Some c \<Rightarrow> extend_report input c r)"
      unfolding extend_report_def by (intro leaves_rules) simp_all
    from leavesD[OF this, of s "Inr report" s1] rep Some have "t_users s1 = t_users s" by simp
    moreover have "leaves t_users (separate_members a ?b (ri_alsoBlock input))"
      unfolding separate_members_def find_or_create_block_def endConnections_def removeNotificationsBetween_def
      by (intro leaves_rules) simp_all
    from leavesD[OF this sep] have "t_users s2 = t_users s1" .
    ultimately show ?thesis using hid Some by (simp add: ret_def)
  qed
qed

definition sample_report :: "report_reason \<Rightarrow> report_input" where
  "sample_report reason = \<lparr>ri_reportedUserId = 1, ri_reason = reason, ri_details = None, ri_alsoBlock = False, ri_messageId = None\<rparr>"

theorem first_p0_report_hides_witness:
  "t_users (snd (report_tx 2 (sample_report Underage) (snd (report_tx 2 (sample_report Spam) matched_db)))) =
    t_users (snd (report_tx 2 (sample_report Spam) matched_db))"
proof -
  let ?s = "snd (report_tx 2 (sample_report Spam) matched_db)"
  have "case fst (report_tx 2 (sample_report Underage) ?s) of Inl _ \<Rightarrow> False | Inr _ \<Rightarrow> True" by code_simp
  then obtain x where "fst (report_tx 2 (sample_report Underage) ?s) = Inr x" by (auto split: sum.splits)
  then have run: "report_tx 2 (sample_report Underage) ?s = (Inr x, snd (report_tx 2 (sample_report Underage) ?s))"
    by (metis prod.collapse)
  have "(case open_report 2 1 ?s of None \<Rightarrow> True | Some _ \<Rightarrow> False) = False" by code_simp
  with first_p0_report_hides[OF run] show ?thesis by (simp add: sample_report_def split: option.splits)
qed

end
