(* ===== verification/Chat_Theorems.thy ===== *)
theory Chat_Theorems
  imports Chat Safety_Theorems
begin

text \<open>Properties of chat, each with a concrete instance.\<close>

section \<open>Who may write\<close>

lemma authorize_Inr:
  assumes "authorize u i s = Inr c"
  shows "ca_match c \<in> set (t_matches s) \<and> m_id (ca_match c) = i \<and> chat_open u s (ca_match c) \<and>
    ca_partnerId c = partner_in u (ca_match c) \<and> ca_isUserA c = (m_userAId (ca_match c) = u)"
proof -
  obtain m where m: "find_row matches_table (\<lambda>m. m_id m = i \<and> of_member u m) s = Some m"
    and c: "c = \<lparr>ca_match = m, ca_partnerId = partner_in u m, ca_isUserA = (m_userAId m = u)\<rparr>"
    and rules: "m_status m = M_active" "account_active (partner_in u m) s"
      "count_where (\<lambda>b. (bl_blockerId b = u \<or> bl_blockerId b = partner_in u m) \<and>
        (bl_blockedId b = u \<or> bl_blockedId b = partner_in u m)) (t_blocks s) = 0"
    using assms by (auto simp: authorize_def Let_def split: option.splits if_splits)
  have "m \<in> set (t_matches s)" "m_id m = i" "of_member u m"
    using m by (auto simp: find_row_def dest: find_Some_in)
  moreover have "\<not> blocked_between u (partner_in u m) s"
    using rules(3) by (auto simp: count_where_zero_iff blocked_between_def)
  ultimately show ?thesis using rules by (simp add: c chat_open_def)
qed

lemma stored_message_in:
  "stored_message u input s = Some x \<Longrightarrow>
    x \<in> set (t_messages s) \<and> ms_senderId x = u \<and> ms_clientMessageId x = mi_clientMessageId input"
  by (auto simp: stored_message_def find_row_def dest: find_Some_in)

lemma store_message_Inr:
  assumes none: "stored_message u input s = None" and run: "store_message_tx u i input s = (Inr (x, p, new), t)"
  shows "\<exists>c. authorize u i s = Inr c \<and> assertCanSend u s = Inr () \<and> p = ca_partnerId c \<and> new \<and>
    x = new_message (Suc (rng s (drawn s))) i u input (clock s) \<and> t_messages t = t_messages s @ [x] \<and>
    t_matches t = update_where (\<lambda>m. m_id m = i) (setting m_lastMessageAt m_lastMessageAt_update (Some (clock s)) (ca_match c))
      (t_matches s)"
proof -
  obtain c s1 where c: "authorize u i s = Inr c" "assertCanSend u s = Inr ()" "p = ca_partnerId c"
    and found: "find_or_create_message i u input s = (Inr (x, new), s1)" and "ms_matchId x = i"
    and last: "(if new then andThen (save matches_table
       [setting m_lastMessageAt m_lastMessageAt_update (Some (ms_createdAt x))] (ca_match c)) (\<lambda>_. ret ()) else ret ()) s1 = (Inr (), t)"
    using run unfolding store_message_tx_def transaction_Inr_iff by (auto simp: returns_iff split: prod.splits)
  have x: "x = new_message (Suc (rng s (drawn s))) i u input (clock s)" "new"
    and s1: "t_messages s1 = t_messages s @ [x]" "t_matches s1 = t_matches s"
    using found unfolding find_or_create_message_def
    by (auto simp: returns_iff none insert_row_Inr_iff)
  have "save matches_table [setting m_lastMessageAt m_lastMessageAt_update (Some (clock s))] (ca_match c) s1 =
      (Inr (setting m_lastMessageAt m_lastMessageAt_update (Some (clock s)) (ca_match c) (ca_match c)), t)"
    using last x by (auto simp: returns_iff save_Inr_iff new_message_def)
  then have "t_messages t = t_messages s1"
    "t_matches t = update_where (\<lambda>m. m_id m = i) (setting m_lastMessageAt m_lastMessageAt_update (Some (clock s)) (ca_match c)) (t_matches s1)"
    using authorize_Inr[OF c(1)] by (auto simp: save_Inr_iff update_rows_Inr_iff apply_one)
  then show ?thesis using c x s1 by simp
qed

lemma safely_returns: "safely m s = (Inr (), snd (safely m s))"
  by (cases "m s" rule: prod.exhaust) (auto simp: safely_def tryCatch_def ret_def split: sum.splits)

lemma afterMessage_returns: "afterMessage env x s = (Inr (), snd (afterMessage env x s))"
proof -
  have ok: "doWhen b (safely m) s = (Inr (), snd (doWhen b (safely m) s))" for b m s
    using safely_returns[of m s] by (simp add: doWhen_def)
  show ?thesis unfolding afterMessage_def andThen_run(1)[OF ok] by (rule ok)
qed

lemma deliver_message_returns: "deliver_message env u p i x s = (Inr (), snd (deliver_message env u p i x s))"
proof -
  have "andThen (notify env n) (\<lambda>_. afterMessage env x) s = (Inr (), snd (andThen (notify env n) (\<lambda>_. afterMessage env x) s))"
    for n and s :: db
    using notify_returns[of env n s] afterMessage_returns by (metis andThen_run(1) snd_conv)
  then show ?thesis unfolding deliver_message_def andThen_emit by blast
qed

lemma deliver_message_leaves:
  assumes "ignores_notifications v" "\<And>rs s. v (s\<lparr>t_users := rs\<rparr>) = v s" "\<And>rs s. v (s\<lparr>t_reports := rs\<rparr>) = v s"
    "\<And>rs s. v (s\<lparr>t_safety_logs := rs\<rparr>) = v s"
  shows "leaves v (deliver_message env u p i x)"
  unfolding deliver_message_def
  by (intro leaves_rules detections_leave) (simp_all add: assms ignores_notificationsD)


lemma send_allowed_run:
  assumes none: "stored_message u input s = None" and run: "send_allowed env u i input s = (r, t)"
  shows "case r of Inl _ \<Rightarrow> t = s
    | Inr (dto, created) \<Rightarrow> created \<and> (\<exists>c x. authorize u i s = Inr c \<and> assertCanSend u s = Inr () \<and> dto = toMessageDto x \<and>
        x = new_message (Suc (rng s (drawn s))) i u input (clock s) \<and> t_messages t = t_messages s @ [x] \<and>
        t_matches t = update_where (\<lambda>m. m_id m = i)
          (setting m_lastMessageAt m_lastMessageAt_update (Some (clock s)) (ca_match c)) (t_matches s))"
proof (cases "authorize u i s")
  case (Inl e)
  then show ?thesis using run by (auto simp: send_allowed_def run_simps)
next
  case (Inr c0)
  obtain r1 s1 where tx: "store_message_tx u i input s = (r1, s1)" by (rule prod.exhaust)
  show ?thesis
  proof (cases r1)
    case (Inl e)
    have "s1 = s" using tx unfolding Inl store_message_tx_def by (rule transaction_Inl_state)
    then show ?thesis using run \<open>authorize u i s = Inr c0\<close> tx Inl by (auto simp: send_allowed_def andThen_def gets_def from_sum_def)
  next
    case (Inr v)
    obtain x p new where v: "v = (x, p, new)" by (cases v)
    note stored = store_message_Inr[OF none tx[unfolded Inr v]]
    have "andThen (doWhen new (deliver_message env u p i x)) (\<lambda>_. ret (toMessageDto x, new)) s1 = (r, t)"
      using run \<open>authorize u i s = Inr c0\<close> tx by (simp add: send_allowed_def Inr v andThen_def gets_def from_sum_def)
    then have sent: "deliver_message env u p i x s1 = (Inr (), t)" "r = Inr (toMessageDto x, True)"
      using stored deliver_message_returns[of env u p i x s1] by (auto simp: andThen_def doWhen_def ret_def split: prod.splits sum.splits)
    have "leaves (\<lambda>s. (t_messages s, t_matches s)) (deliver_message env u p i x)"
      by (rule deliver_message_leaves) (simp_all add: ignores_notifications_def)
    from leavesD[OF this sent(1)] show ?thesis using stored sent(2) by auto
  qed
qed

lemma chat_sent:
  assumes run: "send_message env u i input hits s = (Inr (dto, created), hits', t)" and none: "stored_message u input s = None"
  shows "send_allowed env u i input s = (Inr (dto, created), t) \<and> fst (take_hit messageLimiter (clock s) (clock s) u hits)"
  using run none by (auto simp: send_message_def Let_def split: sum.splits prod.splits if_splits)

lemma chat_sent_open:
  assumes run: "send_message env u i input hits s = (Inr (dto, True), hits', t)"
  shows "\<exists>m \<in> set (t_matches s). m_id m = i \<and> chat_open u s m"
proof -
  have none: "stored_message u input s = None"
    using run by (auto simp: send_message_def retry_answer_def split: option.splits if_splits)
  from send_allowed_run[OF none] chat_sent[OF run none] obtain c where "authorize u i s = Inr c"
    by fastforce
  from authorize_Inr[OF this] show ?thesis by blast
qed

text \<open>
  C28. A message is stored only by a member of an active match whose other member has an active account,
  with no block between the two, no chat restriction on the sender and fewer than 30 sends in the last
  minute; it is then the newest message of the chat. In every other case, a repeated message and every error,
  nothing in the database changes.
\<close>

theorem sending_is_guarded:
  assumes run: "send_message env u i input hits s = (r, hits', t)"
  shows "case r of Inl _ \<Rightarrow> t = s
    | Inr (_, False) \<Rightarrow> t = s \<and> hits' = hits
    | Inr (dto, True) \<Rightarrow>
        (\<exists>m \<in> set (t_matches s). m_id m = i \<and> chat_open u s m) \<and>
        (\<forall>a. live_account u s = Some a \<longrightarrow> u_chatRestrictedAt a = None) \<and>
        count_where (\<lambda>time. clock s - 60 * 1000 < time) (hits_of hits u) < 30 \<and>
        (\<exists>x. dto = toMessageDto x \<and> t_messages t = t_messages s @ [x] \<and> ms_matchId x = i \<and> ms_senderId x = u \<and>
          ms_body x = mi_body input \<and> ms_createdAt x = clock s) \<and>
        (\<exists>m \<in> set (t_matches t). m_id m = i \<and> m_lastMessageAt m = Some (clock s))"
proof (cases "stored_message u input s")
  case (Some x)
  then show ?thesis using run by (auto simp: send_message_def retry_answer_def split: if_splits)
next
  case None
  show ?thesis
  proof (cases "assertCanSend u s = Inr () \<and> fst (take_hit messageLimiter (clock s) (clock s) u hits)")
    case False
    then show ?thesis using run None
      by (auto simp: send_message_def Let_def split: sum.splits prod.splits if_splits)
  next
    case True
    then have allowed: "send_allowed env u i input s = (r, t)" and can: "assertCanSend u s = Inr ()"
      and hit: "fst (take_hit messageLimiter (clock s) (clock s) u hits)"
      using run None by (auto simp: send_message_def Let_def split: prod.splits)
    show ?thesis
    proof (cases r)
      case (Inl e)
      then show ?thesis using send_allowed_run[OF None allowed] by simp
    next
      case (Inr v)
      obtain dto created where v: "v = (dto, created)" by (cases v)
      obtain c x where c: "authorize u i s = Inr c" and created: created
        and x: "dto = toMessageDto x" "x = new_message (Suc (rng s (drawn s))) i u input (clock s)" "t_messages t = t_messages s @ [x]"
        and rows: "t_matches t = update_where (\<lambda>m. m_id m = i)
          (setting m_lastMessageAt m_lastMessageAt_update (Some (clock s)) (ca_match c)) (t_matches s)"
        using send_allowed_run[OF None allowed] unfolding Inr v by auto
      note acc = authorize_Inr[OF c]
      have "setting m_lastMessageAt m_lastMessageAt_update (Some (clock s)) (ca_match c) (ca_match c) \<in> set (t_matches t)"
        using acc in_update_whereI[of "ca_match c" "t_matches s" "\<lambda>m. m_id m = i"] unfolding rows by (metis (mono_tags, lifting))
      then have last: "\<exists>m \<in> set (t_matches t). m_id m = i \<and> m_lastMessageAt m = Some (clock s)"
        using acc by (rule_tac bexI) (auto simp: setting_def)
      have "count_where (\<lambda>time. clock s - 60 * 1000 < time) (hits_of hits u) < 30"
        using hit unfolding take_hit_accepts by (simp add: messageLimiter_def limits count_where_def)
      moreover have "\<forall>a. live_account u s = Some a \<longrightarrow> u_chatRestrictedAt a = None"
        using can by (auto simp: assertCanSend_def split: if_splits)
      ultimately show ?thesis
        unfolding Inr v using created acc x last by (auto simp: new_message_def)
    qed
  qed
qed

definition hello :: message_input where
  "hello = \<lparr>mi_clientMessageId = 55, mi_body = units ''hello''\<rparr>"

definition no_hits :: "uuid hits" where "no_hits = (\<lambda>_. None)"

text \<open>In the sample match, the first member writes; with a foreign chat it fails.\<close>

definition hello_db :: db where
  "hello_db = snd (snd (send_message sample_env 1 1002 hello no_hits matched_db))"

lemma sample_send:
  "case fst (send_message sample_env 1 1002 hello no_hits matched_db) of Inl _ \<Rightarrow> False | Inr (dto, b) \<Rightarrow> b \<and> mo_id dto = 1003"
  by code_simp

theorem sending_is_guarded_witness:
  "\<exists>x. t_messages hello_db = t_messages matched_db @ [x] \<and> ms_body x = units ''hello''"
proof -
  obtain dto where "fst (send_message sample_env 1 1002 hello no_hits matched_db) = Inr (dto, True)"
    using sample_send by (auto split: sum.splits)
  then have "send_message sample_env 1 1002 hello no_hits matched_db =
      (Inr (dto, True), fst (snd (send_message sample_env 1 1002 hello no_hits matched_db)), hello_db)"
    by (metis hello_db_def prod.collapse)
  from sending_is_guarded[OF this] show ?thesis by (auto simp: hello_def)
qed


section \<open>Retries\<close>

lemma sent_is_stored:
  assumes run: "send_message env u i input hits s = (Inr (dto, created), hits', t)"
  shows "\<exists>x. stored_message u input t = Some x \<and> dto = toMessageDto x \<and> ms_matchId x = i"
proof (cases "stored_message u input s")
  case (Some x)
  then show ?thesis using run by (auto simp: send_message_def retry_answer_def split: if_splits)
next
  case None
  then have "send_allowed env u i input s = (Inr (dto, created), t)"
    using run by (auto simp: send_message_def Let_def split: sum.splits prod.splits if_splits)
  from send_allowed_run[OF None this] None show ?thesis
    by (auto simp: stored_message_def find_row_def find_append new_message_def)
qed

text \<open>
  C29. A message that was accepted can be sent again any number of times: the answer is the stored message,
  it is not stored twice, and it costs no hit of the limiter; its id in another chat is refused.
\<close>

theorem retry_is_idempotent:
  assumes "send_message env u i input hits s = (Inr (dto, created), hits', t)"
    "mi_clientMessageId input' = mi_clientMessageId input"
  shows "send_message env' u i' input' hits2 t = (if i' = i then Inr (dto, False) else Inl (App CONFLICT), hits2, t)"
  using sent_is_stored[OF assms(1)] assms(2)
  by (auto simp: send_message_def retry_answer_def stored_message_def)

theorem retry_is_idempotent_witness:
  "snd (snd (send_message sample_env 1 1002 hello no_hits hello_db)) = hello_db"
proof -
  obtain dto where "fst (send_message sample_env 1 1002 hello no_hits matched_db) = Inr (dto, True)"
    using sample_send by (auto split: sum.splits)
  then have "send_message sample_env 1 1002 hello no_hits matched_db =
      (Inr (dto, True), fst (snd (send_message sample_env 1 1002 hello no_hits matched_db)), hello_db)"
    by (metis hello_db_def prod.collapse)
  from retry_is_idempotent[OF this refl] show ?thesis by simp
qed

section \<open>Reading\<close>

lemma later_read_ge: "later_read old t = Some r \<Longrightarrow> t \<le> r \<and> (\<forall>q. old = Some q \<longrightarrow> q \<le> r)"
  by (auto simp: later_read_def split: option.splits)

lemma move_read_simps:
  "m_id (move_read b t m) = m_id m" "m_userAId (move_read b t m) = m_userAId m" "m_userBId (move_read b t m) = m_userBId m"
  "my_read_at u (move_read (m_userAId m = u) t m) = later_read (my_read_at u m) t"
  "partner_read_at u (move_read (m_userAId m = u) t m) = partner_read_at u m"
  by (simp_all add: move_read_def my_read_at_def partner_read_at_def)

lemma unread_later: "unread_since (later_read old t) x \<Longrightarrow> unread_since old x \<and> t < ms_createdAt x"
  by (auto simp: unread_since_def later_read_def split: option.splits)

text \<open>
  Marking a chat read moves the member's own read position forward to the message, never back, and
  leaves the other member's alone: nothing up to that message counts as unread any more, the unread count of
  the chat does not grow, and no unread message notification of the chat is left.
\<close>

theorem reading_moves_forward:
  assumes ok: "table_ok matches_table s" and run: "mark_chat_read u i j s = (Inr r, t)"
  shows "\<exists>m \<in> set (t_matches s). \<exists>m' \<in> set (t_matches t). m_id m = i \<and> m_id m' = i \<and> chat_open u s m \<and>
    my_read_at u m' = Some r \<and> (\<forall>q. my_read_at u m = Some q \<longrightarrow> q \<le> r) \<and>
    partner_read_at u m' = partner_read_at u m \<and>
    (\<exists>x \<in> set (t_messages t). ms_id x = j \<and> ms_matchId x = i \<and> ms_createdAt x \<le> r) \<and>
    (\<forall>x. ms_createdAt x \<le> r \<longrightarrow> \<not> unread_since (my_read_at u m') x) \<and>
    unread_count u m' t \<le> unread_count u m s \<and>
    (\<forall>n \<in> set (t_notifications t). n_userId n = u \<and> n_matchId n = Some i \<and> n_type n = New_message \<longrightarrow> n_readAt n \<noteq> None)"
proof -
  obtain c x s1 s2 s3 b where c: "authorize u i s = Inr c"
    and x: "find_row messages_table (\<lambda>m. ms_id m = j \<and> ms_matchId m = i) s = Some x"
    and upd: "update_rows matches_table (\<lambda>q. m_id q = i) (move_read (ca_isUserA c) (ms_createdAt x)) s = (Inr (), s1)"
    and r: "r = (case read_position (ca_isUserA c) i s1 of None \<Rightarrow> ms_createdAt x | Some t \<Rightarrow> t)"
    and s2: "s2 = s1\<lparr>outbox := outbox s1 @ [To_user (ca_partnerId c) (Ev_message_read i u r)]\<rparr>"
    and read: "markChatNotificationsRead u i s2 = (Inr b, t)"
    using run by (auto simp: mark_chat_read_def returns_iff Let_def)
  let ?m = "ca_match c"
  let ?m' = "move_read (ca_isUserA c) (ms_createdAt x) ?m"
  note acc = authorize_Inr[OF c]
  have a: "ca_isUserA c = (m_userAId ?m = u)" using acc by blast
  have x_in: "x \<in> set (t_messages s)" "ms_id x = j" "ms_matchId x = i"
    using x by (auto simp: find_row_def dest: find_Some_in)
  have s1: "t_messages s1 = t_messages s" "t_matches s1 = update_where (\<lambda>q. m_id q = i) (move_read (ca_isUserA c) (ms_createdAt x)) (t_matches s)"
    using upd by (simp_all add: update_rows_Inr_iff)
  have "by_key matches_table i s = Some ?m"
    using matches.row_by_key[OF ok, of ?m] acc by simp
  then have "by_key matches_table i s1 = Some ?m'"
    using matches.lookup_updated[of i "move_read (ca_isUserA c) (ms_createdAt x)" s "()" s1 i] upd by (simp add: move_read_simps)
  then have at: "my_read_at u ?m' = Some r"
    by (auto simp: r read_position_def a my_read_at_def move_read_def later_read_def split: option.splits)
  have kept: "t_messages t = t_messages s" "t_matches t = t_matches s1"
    and noted: "t_notifications t = update_where (\<lambda>n. n_userId n = u \<and> n_matchId n = Some i \<and> n_type n = New_message \<and>
      n_readAt n = None) (\<lambda>n. n\<lparr>n_readAt := Some (clock s2)\<rparr>) (t_notifications s2)"
    using read by (auto simp: markChatNotificationsRead_def Let_def returns_iff update_rows_Inr_iff s2 s1)
  have later: "later_read (my_read_at u ?m) (ms_createdAt x) = Some r"
    using at by (simp add: a move_read_simps)
  have "?m' \<in> set (t_matches t)"
    using acc in_update_whereI[of ?m "t_matches s" "\<lambda>q. m_id q = i"] unfolding kept(2) s1(2) by (metis (mono_tags, lifting))
  moreover have "unread_count u ?m' t \<le> unread_count u ?m s"
    unfolding unread_count_def kept(1)
  proof (rule count_where_mono)
    fix y assume y: "ms_matchId y = m_id ?m' \<and> ms_senderId y \<noteq> u \<and> unread_since (my_read_at u ?m') y"
    then have "unread_since (my_read_at u ?m) y" unfolding at later[symmetric] by (blast dest: unread_later)
    with y show "ms_matchId y = m_id ?m \<and> ms_senderId y \<noteq> u \<and> unread_since (my_read_at u ?m) y"
      by (simp add: move_read_simps(1))
  qed
  moreover have "\<forall>n \<in> set (t_notifications t). n_userId n = u \<and> n_matchId n = Some i \<and> n_type n = New_message \<longrightarrow> n_readAt n \<noteq> None"
    unfolding noted by (intro ballI impI, erule in_update_whereE) (simp_all split: if_splits)
  moreover have "\<not> unread_since (my_read_at u ?m') y" if "ms_createdAt y \<le> r" for y
    using that by (simp add: at unread_since_def)
  moreover have "m_id ?m' = i" "partner_read_at u ?m' = partner_read_at u ?m"
    using acc unfolding a by (simp_all only: move_read_simps)
  moreover have "\<exists>x \<in> set (t_messages t). ms_id x = j \<and> ms_matchId x = i \<and> ms_createdAt x \<le> r"
    using later_read_ge[OF later] x_in kept(1) by auto
  ultimately show ?thesis using acc at later_read_ge[OF later] by blast
qed

definition read_db :: db where
  "read_db = matched_db\<lparr>t_messages := [\<lparr>ms_id = 1003, ms_matchId = 1002, ms_senderId = 1, ms_clientMessageId = 55,
    ms_body = units ''hello'', ms_containsContactInfo = False, ms_containsMoneyRequest = False, ms_createdAt = 0\<rparr>]\<rparr>"

theorem reading_moves_forward_witness:
  "\<exists>m' \<in> set (t_matches (snd (mark_chat_read 2 1002 1003 read_db))). my_read_at 2 m' = Some 0"
proof -
  have "table_ok matches_table read_db" by code_simp
  moreover have "fst (mark_chat_read 2 1002 1003 read_db) = Inr 0" by code_simp
  then have "mark_chat_read 2 1002 1003 read_db = (Inr 0, snd (mark_chat_read 2 1002 1003 read_db))" by (metis prod.collapse)
  ultimately show ?thesis using reading_moves_forward by blast
qed


section \<open>After a block\<close>

lemma blocked_sym: "blocked_between a b s \<longleftrightarrow> blocked_between b a s"
  by (auto simp: blocked_between_def)

lemma chat_row_open: "r \<in> set (chatRows u i c n s) \<Longrightarrow> \<not> blocked_between u (cr_partnerId r) s"
  by (auto simp: chatRows_def rows_where_def chat_row_of_def chat_open_def dest!: in_set_takeD)

text \<open>
  Once a member has blocked another, the two have no chat: no chat of either that can be opened is with
  the other, none is listed, and whatever either of them manages to send goes to somebody else.
\<close>

theorem no_chat_after_block:
  assumes "table_ok matches_table s" "block_member env a b ip s = (Inr new, t)" "u = a \<and> p = b \<or> u = b \<and> p = a"
  shows "(\<forall>i c. authorize u i t = Inr c \<longrightarrow> ca_partnerId c \<noteq> p) \<and>
    (\<forall>i c n. \<forall>r \<in> set (chatRows u i c n t). cr_partnerId r \<noteq> p) \<and>
    (\<forall>env' i input hits r hits' t'. send_message env' u i input hits t = (Inr (r, True), hits', t') \<longrightarrow>
      (\<exists>m \<in> set (t_matches t). m_id m = i \<and> of_member u m \<and> partner_in u m \<noteq> p))"
proof -
  have "blocked_between u p t"
    using block_member_separates[OF assms(1,2)] assms(3) blocked_sym by blast
  then have shut: "partner_in u m \<noteq> p" if "chat_open u t m" for m
    using that by (auto simp: chat_open_def)
  have "\<exists>m \<in> set (t_matches t). m_id m = i \<and> of_member u m \<and> partner_in u m \<noteq> p"
    if "send_message env' u i input hits t = (Inr (r, True), hits', t')" for env' i input hits r hits' t'
    using chat_sent_open[OF that] shut by (auto simp: chat_open_def)
  moreover have "ca_partnerId c \<noteq> p" if "authorize u i t = Inr c" for i c
    using authorize_Inr[OF that] shut by metis
  moreover have "cr_partnerId r \<noteq> p" if "r \<in> set (chatRows u i c n t)" for i c n r
    using chat_row_open[OF that] \<open>blocked_between u p t\<close> by auto
  ultimately show ?thesis by blast
qed

text \<open>The sample match is listed before the block and cannot be opened after it.\<close>

theorem no_chat_after_block_witness:
  "authorize 2 1002 (snd (block_member sample_env 1 2 [] read_db)) = Inl (App MATCH_NOT_ACTIVE) \<and>
    filter (\<lambda>r. cr_partnerId r = 1) (chatRows 2 None None 30 (snd (block_member sample_env 1 2 [] read_db))) = []"
proof -
  have ok: "table_ok matches_table read_db" by code_simp
  have "fst (block_member sample_env 1 2 [] read_db) = Inr True" by code_simp
  then have run: "block_member sample_env 1 2 [] read_db = (Inr True, snd (block_member sample_env 1 2 [] read_db))"
    by (metis prod.collapse)
  have "case authorize 2 1002 (snd (block_member sample_env 1 2 [] read_db)) of Inl e \<Rightarrow> e = App MATCH_NOT_ACTIVE | Inr _ \<Rightarrow> False"
    by code_simp
  then have "authorize 2 1002 (snd (block_member sample_env 1 2 [] read_db)) = Inl (App MATCH_NOT_ACTIVE)"
    by (simp split: sum.splits)
  with no_chat_after_block[OF ok run, of 2 1] show ?thesis by (simp add: filter_empty_conv)
qed

end
