(* ===== verification/Auth.thy ===== *)
theory Auth
  imports Domain
begin

text \<open>
  Member authentication: access tokens (\<open>modules/auth/token.service.ts\<close>), phone sign-in and
  refresh-token rotation (\<open>modules/auth/auth.service.ts\<close>), and the checks of the middlewares
  \<open>authenticate.ts\<close> and \<open>authorize.ts\<close>. The JWT library, the Firebase verifier and the AES
  encryption are parameters (\<open>auth_env\<close>). A failed verification inside the transaction is an
  outcome value, as in the code, so what it wrote is committed before the error is thrown.
\<close>

section \<open>Access tokens\<close>

datatype token_audience = Member_audience | Admin_audience

primrec TOKEN_AUDIENCES :: "token_audience \<Rightarrow> string" where
  "TOKEN_AUDIENCES Member_audience = ''garba-partner:app''"
| "TOKEN_AUDIENCES Admin_audience = ''garba-partner:admin''"

definition ISSUER :: string where "ISSUER = ''garba-partner''"

text \<open>
  The claims of a token. \<open>sub\<close>, \<open>sid\<close> and \<open>exp\<close> are options: the value, where the payload has
  one of the right type and form (a UUID, a number).
\<close>

record jwt_claims =
  jc_sub :: "uuid option"
  jc_sid :: "uuid option"
  jc_iss :: string
  jc_aud :: string
  jc_iat :: int
  jc_exp :: "int option"

text \<open>
  \<open>SignJWT \<dots> sign\<close> with a key, and \<open>jwtVerify\<close> with a key, an issuer, an audience and the current time
  in seconds; the result is the payload, or nothing when the library throws.
\<close>

record jwt_library =
  jwtSign :: "string \<Rightarrow> jwt_claims \<Rightarrow> string"
  jwtVerify :: "string \<Rightarrow> string \<Rightarrow> string \<Rightarrow> int \<Rightarrow> string \<Rightarrow> jwt_claims option"

datatype phone_token_rejection = Keys_unavailable | Unsupported_number | Other_rejection

record auth_env =
  ae_env :: env
  ae_jwt :: jwt_library
  ae_phoneTokens :: "string \<Rightarrow> phone_token_rejection + string"
  ae_encryptString :: "nat \<Rightarrow> string \<Rightarrow> string"
  JWT_ACCESS_SECRET :: string
  JWT_ADMIN_ACCESS_SECRET :: string
  ACCESS_TOKEN_TTL_SECONDS :: int
  ADMIN_ACCESS_TOKEN_TTL_SECONDS :: int
  REFRESH_TOKEN_TTL_DAYS :: int
  ADMIN_SESSION_TTL_HOURS :: int
  ADMIN_SESSION_IDLE_MINUTES :: int
  PHONE_HASH_SECRET :: string
  PHONE_ENCRYPTION_KEY_VERSION :: int

primrec token_key :: "token_audience \<Rightarrow> auth_env \<Rightarrow> string" where
  "token_key Member_audience = JWT_ACCESS_SECRET"
| "token_key Admin_audience = JWT_ADMIN_ACCESS_SECRET"

primrec token_ttl :: "token_audience \<Rightarrow> auth_env \<Rightarrow> int" where
  "token_ttl Member_audience = ACCESS_TOKEN_TTL_SECONDS"
| "token_ttl Admin_audience = ADMIN_ACCESS_TOKEN_TTL_SECONDS"

text \<open>\<open>sign\<close>: the token and its expiry.\<close>

definition sign_token :: "auth_env \<Rightarrow> token_audience \<Rightarrow> uuid \<Rightarrow> uuid \<Rightarrow> instant \<Rightarrow> string \<times> instant" where
  "sign_token ae audience subjectId sessionId t =
    (let issuedAt = t div 1000; expiresAtSeconds = issuedAt + token_ttl audience ae
     in (jwtSign (ae_jwt ae) (token_key audience ae)
           \<lparr>jc_sub = Some subjectId, jc_sid = Some sessionId, jc_iss = ISSUER,
             jc_aud = TOKEN_AUDIENCES audience, jc_iat = issuedAt, jc_exp = Some expiresAtSeconds\<rparr>,
         expiresAtSeconds * 1000))"

record verified_token =
  vt_subjectId :: uuid
  vt_sessionId :: uuid
  vt_expiresAt :: instant

text \<open>\<open>verify\<close>: nothing for any invalid, expired, foreign-audience or malformed token.\<close>

definition verify_token :: "auth_env \<Rightarrow> token_audience \<Rightarrow> string \<Rightarrow> instant \<Rightarrow> verified_token option" where
  "verify_token ae audience token t =
    (case jwtVerify (ae_jwt ae) (token_key audience ae) ISSUER (TOKEN_AUDIENCES audience) (t div 1000) token of
       None \<Rightarrow> None
     | Some payload \<Rightarrow>
       (case (jc_sub payload, jc_sid payload, jc_exp payload) of
          (Some sub, Some sid, Some expiry) \<Rightarrow>
            Some \<lparr>vt_subjectId = sub, vt_sessionId = sid, vt_expiresAt = expiry * 1000\<rparr>
        | _ \<Rightarrow> None))"

section \<open>Random tokens and hashes\<close>

definition BASE64URL :: string where
  "BASE64URL = ''ABCDEFGHIJKLMNOPQRSTUVWXYZabcdefghijklmnopqrstuvwxyz0123456789-_''"

fun base64_digits :: "nat \<Rightarrow> nat \<Rightarrow> string" where
  "base64_digits 0 n = []"
| "base64_digits (Suc k) n = base64_digits k (n div 64) @ [BASE64URL ! (n mod 64)]"

text \<open>32 random bytes in base64url: 43 digits, of which the last holds four bits.\<close>

definition randomToken :: "string op" where
  "randomToken = andThen (randomInt (2 ^ 256)) (\<lambda>n. ret (base64_digits 43 (n * 4)))"

definition is_e164 :: "string \<Rightarrow> bool" where
  "is_e164 t \<longleftrightarrow>
    (case t of
       c # d # ds \<Rightarrow> c = CHR ''+'' \<and> d \<in> set ''123456789'' \<and> list_all (\<lambda>x. x \<in> set ''0123456789'') ds \<and>
         7 \<le> length ds \<and> length ds \<le> 14
     | _ \<Rightarrow> False)"

definition hashPhone :: "env \<Rightarrow> string \<Rightarrow> string \<Rightarrow> failure + string" where
  "hashPhone env e164 secret =
    (if is_e164 e164 then Inr (hmacSha256Hex env secret e164) else Inl Unexpected_error)"

record client_context =
  cc_ip :: string
  cc_userAgent :: "string option"

definition truncateUserAgent :: "string option \<Rightarrow> string option" where
  "truncateUserAgent ua = (if ua = None \<or> ua = Some [] then None else map_option (take 255) ua)"

section \<open>Sign-in\<close>

text \<open>A user found by the ORM: deleted rows are invisible.\<close>

definition live_user :: "uuid \<Rightarrow> db \<Rightarrow> user option" where
  "live_user i s = find_row users_table (\<lambda>u. u_id u = i \<and> u_deletedAt u = None) s"

definition createSession :: "auth_env \<Rightarrow> uuid \<Rightarrow> client_context \<Rightarrow> (uuid \<times> string \<times> instant) op" where
  "createSession ae userId client =
    andThen randomToken (\<lambda>refreshToken.
    andThen now (\<lambda>t.
    andThen fresh_uuid (\<lambda>i.
    let expiresAt = t + REFRESH_TOKEN_TTL_DAYS ae * DAY_MS
    in andThen (insert_row sessions_table
         \<lparr>s_id = i, s_userId = userId, s_refreshTokenHash = sha256Hex (ae_env ae) refreshToken,
           s_previousRefreshTokenHash = None, s_rotatedAt = None,
           s_userAgent = truncateUserAgent (cc_userAgent client),
           s_ipHash = Some (ip_hash (ae_env ae) (cc_ip client)), s_lastUsedAt = t,
           s_expiresAt = expiresAt, s_revokedAt = None, s_revokedReason = None, s_createdAt = t\<rparr>) (\<lambda>_.
       ret (i, refreshToken, expiresAt)))))"

definition new_user :: "uuid \<Rightarrow> string \<Rightarrow> string \<Rightarrow> int \<Rightarrow> instant \<Rightarrow> user" where
  "new_user i phoneHash phoneEncrypted keyVersion t =
    \<lparr>u_id = i, u_phoneHash = Some phoneHash, u_phoneEncrypted = Some phoneEncrypted,
      u_phoneKeyVersion = Some keyVersion, u_status = U_active, u_onboardingCompletedAt = None,
      u_underageRejectedAt = None, u_photoVerifiedAt = None, u_identityVerifiedAt = None,
      u_hiddenFromDiscovery = False, u_hiddenReason = None, u_interactionsRestrictedAt = None,
      u_chatRestrictedAt = None, u_termsVersion = None, u_termsAcceptedAt = None,
      u_lastActiveAt = None, u_deletionRequestedAt = None, u_createdAt = t, u_deletedAt = None\<rparr>"

record issued_session =
  is_user :: user
  is_sessionId :: uuid
  is_accessToken :: string
  is_accessTokenExpiresAt :: instant
  is_refreshToken :: string
  is_refreshTokenExpiresAt :: instant

definition issue :: "auth_env \<Rightarrow> user \<Rightarrow> uuid \<Rightarrow> string \<Rightarrow> instant \<Rightarrow> issued_session op" where
  "issue ae u sessionId refreshToken expiresAt =
    andThen now (\<lambda>t.
    let access = sign_token ae Member_audience (u_id u) sessionId t
    in ret \<lparr>is_user = u, is_sessionId = sessionId, is_accessToken = fst access,
         is_accessTokenExpiresAt = snd access, is_refreshToken = refreshToken,
         is_refreshTokenExpiresAt = expiresAt\<rparr>)"

text \<open>Finds the member by the hash of the phone, or creates the account.\<close>

definition find_or_create_user :: "auth_env \<Rightarrow> string \<Rightarrow> string \<Rightarrow> user op" where
  "find_or_create_user ae phone phoneHash =
    andThen (gets (find_row users_table (\<lambda>u. u_phoneHash u = Some phoneHash \<and> u_deletedAt u = None))) (\<lambda>found.
    case found of
      Some u \<Rightarrow> ret u
    | None \<Rightarrow>
        andThen (randomInt (2 ^ 96)) (\<lambda>iv.
        andThen fresh_uuid (\<lambda>i.
        andThen now (\<lambda>t.
        let u = new_user i phoneHash (ae_encryptString ae iv phone) (PHONE_ENCRYPTION_KEY_VERSION ae) t
        in andThen (insert_row users_table u) (\<lambda>_. ret u)))))"

definition login_tx :: "auth_env \<Rightarrow> string \<Rightarrow> string \<Rightarrow> client_context \<Rightarrow>
    (failure + user \<times> uuid \<times> string \<times> instant) op" where
  "login_tx ae phone phoneHash client = transaction
    (andThen (find_or_create_user ae phone phoneHash) (\<lambda>u.
     if u_status u = U_banned then ret (Inl (App ACCOUNT_BANNED))
     else andThen now (\<lambda>t.
       andThen (save users_table [setting u_lastActiveAt u_lastActiveAt_update (Some t)] u) (\<lambda>u'.
       andThen (createSession ae (u_id u) client) (\<lambda>(sessionId, token, expiresAt).
       andThen (gets (live_user (u_id u))) (\<lambda>loaded.
       ret (Inr (case loaded of None \<Rightarrow> u' | Some l \<Rightarrow> l, sessionId, token, expiresAt))))))))"

definition loginWithPhoneToken :: "auth_env \<Rightarrow> string \<Rightarrow> client_context \<Rightarrow> issued_session op" where
  "loginWithPhoneToken ae idToken client =
    (case ae_phoneTokens ae idToken of
       Inl Keys_unavailable \<Rightarrow> throw (App SERVICE_UNAVAILABLE)
     | Inl _ \<Rightarrow> throw (App PHONE_VERIFICATION_FAILED)
     | Inr phone \<Rightarrow>
         andThen (from_sum (hashPhone (ae_env ae) phone (PHONE_HASH_SECRET ae))) (\<lambda>phoneHash.
         andThen (login_tx ae phone phoneHash client) (\<lambda>outcome.
         case outcome of
           Inl err \<Rightarrow> throw err
         | Inr (u, sessionId, token, expiresAt) \<Rightarrow> issue ae u sessionId token expiresAt)))"

section \<open>Refresh-token rotation\<close>

datatype refresh_outcome = Refreshed user uuid string instant | Refresh_invalid | Reuse_detected uuid

definition revoke_session :: "session_revoke_reason \<Rightarrow> instant \<Rightarrow> user_session \<Rightarrow> user_session op" where
  "revoke_session reason t session = save sessions_table
    [setting s_revokedAt s_revokedAt_update (Some t),
     setting s_revokedReason s_revokedReason_update (Some reason)] session"

definition rotate_session ::
    "auth_env \<Rightarrow> string \<Rightarrow> string \<Rightarrow> client_context \<Rightarrow> instant \<Rightarrow> user_session \<Rightarrow> user_session op" where
  "rotate_session ae tokenHash nextToken client t session = save sessions_table
    [setting s_refreshTokenHash s_refreshTokenHash_update (sha256Hex (ae_env ae) nextToken),
     setting s_previousRefreshTokenHash s_previousRefreshTokenHash_update (Some tokenHash),
     setting s_rotatedAt s_rotatedAt_update (Some t),
     setting s_lastUsedAt s_lastUsedAt_update t,
     setting s_userAgent s_userAgent_update (truncateUserAgent (cc_userAgent client)),
     setting s_ipHash s_ipHash_update (Some (ip_hash (ae_env ae) (cc_ip client)))] session"

definition session_by_token :: "string \<Rightarrow> db \<Rightarrow> user_session option" where
  "session_by_token tokenHash s = find_row sessions_table (\<lambda>x. s_refreshTokenHash x = tokenHash) s"

definition session_by_old_token :: "string \<Rightarrow> db \<Rightarrow> user_session option" where
  "session_by_old_token tokenHash s =
    find_row sessions_table (\<lambda>x. s_previousRefreshTokenHash x = Some tokenHash \<and> s_revokedAt x = None) s"

text \<open>At most one write of the activity time per hour.\<close>

definition touch_user :: "uuid \<Rightarrow> instant \<Rightarrow> unit op" where
  "touch_user i t = update_rows users_table
    (\<lambda>u. u_id u = i \<and> u_deletedAt u = None \<and>
      (case u_lastActiveAt u of None \<Rightarrow> True | Some a \<Rightarrow> a < t - HOUR_MS))
    (\<lambda>u. u\<lparr>u_lastActiveAt := Some t\<rparr>)"

definition refresh_known :: "auth_env \<Rightarrow> string \<Rightarrow> client_context \<Rightarrow> user_session \<Rightarrow> refresh_outcome op" where
  "refresh_known ae tokenHash client session =
    andThen now (\<lambda>t.
    if s_revokedAt session \<noteq> None \<or> s_expiresAt session \<le> t then ret Refresh_invalid
    else andThen (gets (live_user (s_userId session))) (\<lambda>found.
    case (case found of None \<Rightarrow> None | Some u \<Rightarrow> if u_status u = U_banned then None else Some u) of
      None \<Rightarrow> andThen (revoke_session Rev_sanction t session) (\<lambda>_. ret Refresh_invalid)
    | Some u \<Rightarrow>
        andThen randomToken (\<lambda>nextToken.
        andThen (rotate_session ae tokenHash nextToken client t session) (\<lambda>_.
        andThen (touch_user (u_id u) t) (\<lambda>_.
        ret (Refreshed u (s_id session) nextToken (s_expiresAt session)))))))"

text \<open>A rotated-out token is presented again: a race within the grace period, else theft.\<close>

definition refresh_reused :: "string \<Rightarrow> refresh_outcome op" where
  "refresh_reused tokenHash =
    andThen now (\<lambda>t.
    andThen (gets (session_by_old_token tokenHash)) (\<lambda>found.
    case found of
      None \<Rightarrow> ret Refresh_invalid
    | Some reused \<Rightarrow>
        let sinceRotation = t - (case s_rotatedAt reused of None \<Rightarrow> 0 | Some r \<Rightarrow> r)
        in if sinceRotation \<le> REFRESH_REUSE_GRACE_SECONDS * 1000 then ret Refresh_invalid
           else andThen (revoke_session Rev_reuse_detected t reused) (\<lambda>_. ret (Reuse_detected (s_id reused)))))"

definition refresh_tx :: "auth_env \<Rightarrow> string \<Rightarrow> client_context \<Rightarrow> refresh_outcome op" where
  "refresh_tx ae tokenHash client = transaction
    (andThen (gets (session_by_token tokenHash)) (\<lambda>found.
     case found of
       Some session \<Rightarrow> refresh_known ae tokenHash client session
     | None \<Rightarrow> refresh_reused tokenHash))"

definition refresh :: "auth_env \<Rightarrow> string \<Rightarrow> client_context \<Rightarrow> issued_session op" where
  "refresh ae refreshToken client =
    andThen (refresh_tx ae (sha256Hex (ae_env ae) refreshToken) client) (\<lambda>outcome.
    case outcome of
      Refreshed u sessionId token expiresAt \<Rightarrow> issue ae u sessionId token expiresAt
    | _ \<Rightarrow> throw (App REFRESH_INVALID))"

definition logout :: "uuid \<Rightarrow> uuid \<Rightarrow> bool \<Rightarrow> unit op" where
  "logout userId sessionId allDevices =
    andThen now (\<lambda>t. transaction
      (update_rows sessions_table
        (\<lambda>x. (allDevices \<or> s_id x = sessionId) \<and> s_userId x = userId \<and> s_revokedAt x = None)
        (\<lambda>x. x\<lparr>s_revokedAt := Some t,
               s_revokedReason := Some (if allDevices then Rev_logout_all else Rev_logout)\<rparr>)))"

definition getMe :: "uuid \<Rightarrow> user op" where
  "getMe userId = andThen (gets (live_user userId)) (\<lambda>u. from_option u (App UNAUTHENTICATED))"

section \<open>Requests\<close>

record member_auth =
  ma_userId :: uuid
  ma_sessionId :: uuid
  ma_status :: user_status
  ma_onboarded :: bool
  ma_expiresAt :: instant

text \<open>JavaScript's white space, as far as a header's characters can be white space.\<close>

definition is_space :: "char \<Rightarrow> bool" where
  "is_space c \<longleftrightarrow> (of_char c :: nat) \<in> {9, 10, 11, 12, 13, 32, 160}"

definition trim_spaces :: "string \<Rightarrow> string" where
  "trim_spaces t = rev (dropWhile is_space (rev (dropWhile is_space t)))"

text \<open>The token of an \<open>Authorization: Bearer\<close> header.\<close>

definition bearerToken :: "string option \<Rightarrow> string option" where
  "bearerToken header =
    (case header of
       None \<Rightarrow> None
     | Some h \<Rightarrow>
         if take 7 h \<noteq> ''Bearer '' then None
         else let token = trim_spaces (drop 7 h) in if token = [] then None else Some token)"

definition open_session :: "uuid \<Rightarrow> uuid \<Rightarrow> instant \<Rightarrow> db \<Rightarrow> user_session option" where
  "open_session sessionId userId t s =
    find_row sessions_table (\<lambda>x. s_id x = sessionId \<and> s_userId x = userId \<and> s_revokedAt x = None \<and>
      t < s_expiresAt x) s"

text \<open>The token, the session and the account are checked on every request.\<close>

definition resolveMemberSession :: "auth_env \<Rightarrow> string \<Rightarrow> db \<Rightarrow> failure + member_auth option" where
  "resolveMemberSession ae token s =
    (case verify_token ae Member_audience token (clock s) of
       None \<Rightarrow> Inr None
     | Some claims \<Rightarrow>
       (case (open_session (vt_sessionId claims) (vt_subjectId claims) (clock s) s,
              live_user (vt_subjectId claims) s) of
          (Some session, Some u) \<Rightarrow>
            if u_status u = U_banned then Inl (App ACCOUNT_BANNED)
            else Inr (Some \<lparr>ma_userId = u_id u, ma_sessionId = s_id session, ma_status = u_status u,
              ma_onboarded = (u_onboardingCompletedAt u \<noteq> None), ma_expiresAt = vt_expiresAt claims\<rparr>)
        | _ \<Rightarrow> Inr None))"

definition authenticateMember :: "auth_env \<Rightarrow> string option \<Rightarrow> db \<Rightarrow> failure + member_auth" where
  "authenticateMember ae header s =
    (case bearerToken header of
       None \<Rightarrow> Inl (App UNAUTHENTICATED)
     | Some tok \<Rightarrow>
       (case resolveMemberSession ae tok s of
          Inl e \<Rightarrow> Inl e
        | Inr None \<Rightarrow> Inl (App UNAUTHENTICATED)
        | Inr (Some a) \<Rightarrow> Inr a))"

definition isMemberSessionActive :: "uuid \<Rightarrow> uuid \<Rightarrow> db \<Rightarrow> bool" where
  "isMemberSessionActive userId sessionId s \<longleftrightarrow>
    open_session sessionId userId (clock s) s \<noteq> None \<and>
    (case live_user userId s of None \<Rightarrow> False | Some u \<Rightarrow> u_status u = U_active)"

primrec statusError :: "user_status \<Rightarrow> error_code" where
  "statusError U_suspended = ACCOUNT_SUSPENDED"
| "statusError U_pending_deletion = ACCOUNT_PENDING_DELETION"
| "statusError U_banned = ACCOUNT_BANNED"
| "statusError U_active = ACCOUNT_BANNED"

definition requireActiveMember :: "member_auth option \<Rightarrow> failure + unit" where
  "requireActiveMember auth =
    (case auth of
       None \<Rightarrow> Inl (App UNAUTHENTICATED)
     | Some a \<Rightarrow>
         if ma_status a \<noteq> U_active then Inl (App (statusError (ma_status a)))
         else if \<not> ma_onboarded a then Inl (App ONBOARDING_REQUIRED)
         else Inr ())"

definition requireMemberStatus :: "user_status list \<Rightarrow> member_auth option \<Rightarrow> failure + unit" where
  "requireMemberStatus allowed auth =
    (case auth of
       None \<Rightarrow> Inl (App UNAUTHENTICATED)
     | Some a \<Rightarrow>
         if \<not> List.member allowed (ma_status a) then Inl (App (statusError (ma_status a)))
         else Inr ())"

record admin_auth =
  aa_adminId :: uuid
  aa_sessionId :: uuid
  aa_role :: admin_role

definition open_admin_session :: "uuid \<Rightarrow> uuid \<Rightarrow> instant \<Rightarrow> db \<Rightarrow> admin_session option" where
  "open_admin_session sessionId adminId t s =
    find_row admin_sessions_table (\<lambda>x. as_id x = sessionId \<and> as_adminId x = adminId \<and>
      as_revokedAt x = None \<and> t < as_expiresAt x) s"

definition authenticateAdmin :: "auth_env \<Rightarrow> string option \<Rightarrow> db \<Rightarrow> failure + admin_auth" where
  "authenticateAdmin ae header s =
    (case (case bearerToken header of None \<Rightarrow> None | Some tok \<Rightarrow> verify_token ae Admin_audience tok (clock s)) of
       None \<Rightarrow> Inl (App UNAUTHENTICATED)
     | Some claims \<Rightarrow>
       (case (open_admin_session (vt_sessionId claims) (vt_subjectId claims) (clock s) s,
              by_key admins_table (vt_subjectId claims) s) of
          (Some session, Some a) \<Rightarrow>
            if ad_status a \<noteq> Ad_active then Inl (App UNAUTHENTICATED)
            else Inr \<lparr>aa_adminId = ad_id a, aa_sessionId = as_id session, aa_role = ad_role a\<rparr>
        | _ \<Rightarrow> Inl (App UNAUTHENTICATED)))"

definition requirePermission :: "admin_permission \<Rightarrow> admin_auth option \<Rightarrow> failure + unit" where
  "requirePermission p admin =
    (case admin of
       None \<Rightarrow> Inl (App UNAUTHENTICATED)
     | Some a \<Rightarrow> if \<not> roleHasPermission (aa_role a) p then Inl (App FORBIDDEN) else Inr ())"

end
