(* ===== verification/Sql_Text.thy ===== *)
theory Sql_Text
  imports Text_Patterns "HOL-Library.Sublist"
begin

text \<open>
  Search texts: escaping for LIKE (\<open>lib/sql.ts\<close>), PostgreSQL's LIKE and ILIKE, and the pattern of a UUID.
  ILIKE lowers both sides; the lower-casing of the database is a parameter.
\<close>

definition PERCENT :: code_unit where "PERCENT = 37"
definition UNDERSCORE :: code_unit where "UNDERSCORE = 95"
definition BACKSLASH :: code_unit where "BACKSLASH = 92"

definition is_special :: "code_unit \<Rightarrow> bool" where
  "is_special c \<longleftrightarrow> c = BACKSLASH \<or> c = PERCENT \<or> c = UNDERSCORE"

definition escapeLike :: "js_text \<Rightarrow> js_text" where
  "escapeLike value = concat (map (\<lambda>c. if is_special c then [BACKSLASH, c] else [c]) value)"

text \<open>\<open>text LIKE pattern\<close>.\<close>

fun sql_like :: "js_text \<Rightarrow> js_text \<Rightarrow> bool" where
  "sql_like [] t \<longleftrightarrow> t = []"
| "sql_like (c # p) t \<longleftrightarrow>
    (if c = PERCENT then sql_like p t \<or> (case t of [] \<Rightarrow> False | _ # t' \<Rightarrow> sql_like (c # p) t')
     else if c = UNDERSCORE then (case t of [] \<Rightarrow> False | _ # t' \<Rightarrow> sql_like p t')
     else if c = BACKSLASH
     then (case p of [] \<Rightarrow> False | d # p' \<Rightarrow> (case t of [] \<Rightarrow> False | x # t' \<Rightarrow> x = d \<and> sql_like p' t'))
     else (case t of [] \<Rightarrow> False | x # t' \<Rightarrow> x = c \<and> sql_like p t'))"

definition sql_ilike :: "(code_unit \<Rightarrow> code_unit) \<Rightarrow> js_text \<Rightarrow> js_text \<Rightarrow> bool" where
  "sql_ilike lower p t \<longleftrightarrow> sql_like (map lower p) (map lower t)"

text \<open>\<open>{ [Op.iLike]: `%${escapeLike(q)}%` }\<close>.\<close>

definition matches_search :: "(code_unit \<Rightarrow> code_unit) \<Rightarrow> js_text \<Rightarrow> string \<Rightarrow> bool" where
  "matches_search lower q t \<longleftrightarrow> sql_ilike lower ([PERCENT] @ escapeLike q @ [PERCENT]) (units t)"

section \<open>UUIDs in a text\<close>

definition hex_unit :: "code_unit \<Rightarrow> nat option" where
  "hex_unit c =
    (if 48 \<le> c \<and> c \<le> 57 then Some (nat (c - 48))
     else if 97 \<le> c \<and> c \<le> 102 then Some (nat (c - 87))
     else if 65 \<le> c \<and> c \<le> 70 then Some (nat (c - 55)) else None)"

text \<open>
  \<open>UUID_PATTERN\<close>: 36 characters, hyphens at four places and hexadecimal digits at the others; and the number
  it writes.
\<close>

definition uuid_shape :: "js_text \<Rightarrow> bool" where
  "uuid_shape q \<longleftrightarrow> length q = 36 \<and>
    list_all (\<lambda>(i, c). if List.member [8, 13, 18, 23] i then c = 45 else hex_unit c \<noteq> None) (zip [0..<36] q)"

definition uuid_of_text :: "js_text \<Rightarrow> uuid option" where
  "uuid_of_text q =
    (if uuid_shape q then Some (foldl (\<lambda>n c. case hex_unit c of None \<Rightarrow> n | Some d \<Rightarrow> n * 16 + d) 0 q) else None)"

section \<open>Escaped texts are literal\<close>

text \<open>Lower-casing of the database neither makes nor removes a character that is special in a pattern.\<close>

definition keeps_special :: "(code_unit \<Rightarrow> code_unit) \<Rightarrow> bool" where
  "keeps_special lower \<longleftrightarrow> (\<forall>c. is_special c \<longrightarrow> lower c = c) \<and> (\<forall>c. is_special (lower c) \<longrightarrow> is_special c)"

lemma escapeLike_simps [simp]:
  "escapeLike [] = []" "escapeLike (c # q) = (if is_special c then [BACKSLASH, c] else [c]) @ escapeLike q"
  by (simp_all add: escapeLike_def)

lemma lower_escaped: "keeps_special lower \<Longrightarrow> map lower (escapeLike q) = escapeLike (map lower q)"
proof (induction q)
  case (Cons c q)
  have "lower BACKSLASH = BACKSLASH" "is_special c \<Longrightarrow> lower c = c" "is_special (lower c) \<longleftrightarrow> is_special c"
    using Cons.prems by (auto simp: keeps_special_def is_special_def)
  with Cons show ?case by simp
qed simp

lemma like_escaped_prefix:
  "sql_like (escapeLike q @ p) t \<longleftrightarrow> (\<exists>rest. t = q @ rest \<and> sql_like p rest)"
proof (induction q arbitrary: t)
  case (Cons c q)
  show ?case
  proof (cases t)
    case Nil
    then show ?thesis by (auto simp: is_special_def BACKSLASH_def PERCENT_def UNDERSCORE_def)
  next
    case (Cons x t')
    with Cons.IH[of t'] show ?thesis
      by (auto simp: is_special_def BACKSLASH_def PERCENT_def UNDERSCORE_def)
  qed
qed simp

lemma like_any_suffix: "sql_like [PERCENT] t"
  by (induction t) (auto simp: PERCENT_def)

lemma like_percent: "sql_like (PERCENT # p) t \<longleftrightarrow> (\<exists>a b. t = a @ b \<and> sql_like p b)"
proof (induction t)
  case (Cons x t)
  have "sql_like (PERCENT # p) (x # t) \<longleftrightarrow> sql_like p (x # t) \<or> sql_like (PERCENT # p) t" by simp
  also have "\<dots> \<longleftrightarrow> (\<exists>a b. x # t = a @ b \<and> sql_like p b)"
    unfolding Cons.IH by (auto simp: Cons_eq_append_conv)
  finally show ?case .
qed (simp add: PERCENT_def)

text \<open>
  A search finds exactly the texts that contain the searched one, letter case aside: the characters that
  are special in a pattern are matched as themselves.
\<close>

theorem search_is_literal:
  assumes "keeps_special lower"
  shows "matches_search lower q t \<longleftrightarrow> sublist (map lower q) (map lower (units t))"
proof -
  have "lower PERCENT = PERCENT" using assms by (simp add: keeps_special_def is_special_def)
  then have "matches_search lower q t \<longleftrightarrow>
      sql_like (PERCENT # escapeLike (map lower q) @ [PERCENT]) (map lower (units t))"
    by (simp add: matches_search_def sql_ilike_def lower_escaped[OF assms])
  also have "\<dots> \<longleftrightarrow> (\<exists>a b. map lower (units t) = a @ map lower q @ b)"
    unfolding like_percent like_escaped_prefix by (auto simp: like_any_suffix)
  also have "\<dots> \<longleftrightarrow> sublist (map lower q) (map lower (units t))" by (auto simp: sublist_def)
  finally show ?thesis .
qed

definition lower_ascii :: "code_unit \<Rightarrow> code_unit" where
  "lower_ascii c = (if 65 \<le> c \<and> c \<le> 90 then c + 32 else c)"

text \<open>A per cent sign is not a wildcard.\<close>

theorem search_is_literal_witness:
  "matches_search lower_ascii (units ''50%'') ''Over 50% OFF'' \<and> \<not> matches_search lower_ascii (units ''5%0'') ''Over 50% OFF''"
proof -
  have lower: "keeps_special lower_ascii"
    by (auto simp: keeps_special_def is_special_def lower_ascii_def BACKSLASH_def PERCENT_def UNDERSCORE_def)
  have "\<not> matches_search lower_ascii (units ''5%0'') ''Over 50% OFF''" by code_simp
  moreover have "map lower_ascii (units ''Over 50% OFF'') =
      map lower_ascii (units ''Over '') @ map lower_ascii (units ''50%'') @ map lower_ascii (units '' OFF'')" by code_simp
  then have "sublist (map lower_ascii (units ''50%'')) (map lower_ascii (units ''Over 50% OFF''))"
    unfolding sublist_def by blast
  ultimately show ?thesis unfolding search_is_literal[OF lower, of "units ''50%''"] by blast
qed

end
