(* ===== verification/Json.thy ===== *)
theory Json
  imports Sql_Text Dates "HOL-Library.Monad_Syntax"
begin

text \<open>
  Untrusted input and its validation: JSON values as \<open>JSON.parse\<close> and the query parser give them, the
  combinators of the schema library the shared schemas use, and the texts of the enumerations
  (\<open>packages/shared/src/constants/enums.ts\<close>). A schema answers the validated data or nothing: every issue
  makes \<open>parseInput\<close> throw the same error code.
\<close>

section \<open>Values\<close>

text \<open>The members of an object have distinct keys. A number that is not an integer is only ever rejected.\<close>

datatype json = JNull | JBool bool | JInt int | JFraction | JString js_text | JArray "json list"
  | JObject "(js_text \<times> json) list"

type_synonym json_object = "(js_text \<times> json) list"
type_synonym 'a schema = "json \<Rightarrow> 'a option"

section \<open>Schemas\<close>

definition js_string :: "js_text schema" where
  "js_string j = (case j of JString t \<Rightarrow> Some t | _ \<Rightarrow> None)"

definition js_boolean :: "bool schema" where
  "js_boolean j = (case j of JBool b \<Rightarrow> Some b | _ \<Rightarrow> None)"

text \<open>\<open>z.int()\<close>: a safe integer.\<close>

definition MAX_SAFE_INTEGER :: int where "MAX_SAFE_INTEGER = 9007199254740991"

definition js_int :: "int schema" where
  "js_int j = (case j of JInt n \<Rightarrow> if \<bar>n\<bar> \<le> MAX_SAFE_INTEGER then Some n else None | _ \<Rightarrow> None)"

definition js_array :: "'a schema \<Rightarrow> 'a list schema" where
  "js_array sch j = (case j of JArray js \<Rightarrow> those (map sch js) | _ \<Rightarrow> None)"

text \<open>\<open>.check(z.refine(P))\<close>, and \<open>z.pipe(schema, z.transform(f))\<close> where \<open>f\<close> may report an issue.\<close>

definition refine :: "('a \<Rightarrow> bool) \<Rightarrow> 'a schema \<Rightarrow> 'a schema" where
  "refine P sch j = (case sch j of None \<Rightarrow> None | Some x \<Rightarrow> if P x then Some x else None)"

definition transform :: "'a schema \<Rightarrow> ('a \<Rightarrow> 'b option) \<Rightarrow> 'b schema" where
  "transform sch f j = Option.bind (sch j) f"

definition nullable :: "'a schema \<Rightarrow> 'a option schema" where
  "nullable sch j = (if j = JNull then Some None else map_option Some (sch j))"

text \<open>A nullable schema whose text may also be cleared by leaving nothing of it.\<close>

definition clearable :: "'a option schema \<Rightarrow> 'a option schema" where
  "clearable sch j = (if j = JNull then Some None else sch j)"

definition enum_of :: "(string \<times> 'a) list \<Rightarrow> 'a schema" where
  "enum_of texts = transform js_string (\<lambda>t. map_of (map (\<lambda>(k, v). (units k, v)) texts) t)"

definition js_true :: "unit schema" where
  "js_true j = (if j = JBool True then Some () else None)"

text \<open>Members of an object: required, and optional (\<open>undefined\<close> when missing).\<close>

definition needs :: "string \<Rightarrow> 'a schema \<Rightarrow> json_object \<Rightarrow> 'a option" where
  "needs k sch m = Option.bind (map_of m (units k)) sch"

definition may :: "string \<Rightarrow> 'a schema \<Rightarrow> json_object \<Rightarrow> 'a option option" where
  "may k sch m = (case map_of m (units k) of None \<Rightarrow> Some None | Some j \<Rightarrow> map_option Some (sch j))"

text \<open>\<open>z.strictObject\<close>: an unknown key is an issue.\<close>

definition strictObject :: "string list \<Rightarrow> (json_object \<Rightarrow> 'a option) \<Rightarrow> 'a schema" where
  "strictObject ks f j =
    (case j of JObject m \<Rightarrow> if set (map fst m) \<subseteq> set (map units ks) then f m else None | _ \<Rightarrow> None)"

text \<open>\<open>Object.keys(value).length > 0\<close>: at least one key was sent.\<close>

definition some_key :: "'a schema \<Rightarrow> 'a schema" where
  "some_key sch j = (if j = JObject [] then None else sch j)"

lemma refine_Some [simp]: "refine P sch j = Some x \<longleftrightarrow> sch j = Some x \<and> P x"
  by (auto simp: refine_def split: option.splits)

lemma transform_Some: "transform sch f j = Some y \<longleftrightarrow> (\<exists>x. sch j = Some x \<and> f x = Some y)"
  by (auto simp: transform_def split: Option.bind_splits)

lemma needs_Some: "needs k sch m = Some x \<longleftrightarrow> (\<exists>j. map_of m (units k) = Some j \<and> sch j = Some x)"
  by (auto simp: needs_def split: Option.bind_splits)

lemma may_Some: "may k sch m = Some (Some x) \<longleftrightarrow> (\<exists>j. map_of m (units k) = Some j \<and> sch j = Some x)"
  by (auto simp: may_def split: option.splits)

lemma strictObject_Some: "strictObject ks f j = Some x \<longleftrightarrow>
    (\<exists>m. j = JObject m \<and> set (map fst m) \<subseteq> set (map units ks) \<and> f m = Some x)"
  by (auto simp: strictObject_def split: json.splits if_splits)

lemmas schema_Some = transform_Some needs_Some may_Some strictObject_Some

section \<open>Enumerations\<close>

definition USER_STATUSES :: "(string \<times> user_status) list" where
  "USER_STATUSES = [(''active'', U_active), (''suspended'', U_suspended), (''banned'', U_banned),
    (''pending_deletion'', U_pending_deletion)]"

definition gender_texts :: "(string \<times> gender) list" where
  "gender_texts = [(''woman'', Woman), (''man'', Man), (''non_binary'', Non_binary)]"

definition preference_texts :: "(string \<times> partner_gender_preference) list" where
  "preference_texts = [(''women'', Women), (''men'', Men), (''everyone'', Everyone)]"

definition GARBA_LEVELS :: "(string \<times> garba_level) list" where
  "GARBA_LEVELS = [(''beginner'', Beginner), (''intermediate'', Intermediate), (''advanced'', Advanced)]"

definition REPORT_REASONS :: "(string \<times> report_reason) list" where
  "REPORT_REASONS = [(''fake_profile'', Fake_profile), (''harassment'', Harassment), (''spam'', Spam),
    (''asking_for_money'', Asking_for_money), (''inappropriate_behavior'', Inappropriate_behavior),
    (''threatening_behavior'', Threatening_behavior), (''impersonation'', Impersonation), (''underage'', Underage),
    (''other'', Other)]"

definition REPORT_STATUSES :: "(string \<times> report_status) list" where
  "REPORT_STATUSES = [(''open'', R_open), (''in_review'', R_in_review), (''resolved'', R_resolved),
    (''dismissed'', R_dismissed)]"

definition REPORT_SOURCES :: "(string \<times> report_source) list" where
  "REPORT_SOURCES = [(''member'', Member_source), (''system'', System_source)]"

definition REPORT_RESOLUTION_ACTIONS :: "(string \<times> report_resolution_action) list" where
  "REPORT_RESOLUTION_ACTIONS = [(''dismiss'', Act_dismiss), (''warn'', Act_warn),
    (''restrict_chat'', Act_restrict_chat), (''suspend'', Act_suspend), (''ban'', Act_ban)]"

definition EVENT_STATUSES :: "(string \<times> event_status) list" where
  "EVENT_STATUSES = [(''draft'', E_draft), (''published'', E_published), (''archived'', E_archived)]"

definition ORGANIZER_STATUSES :: "(string \<times> organizer_status) list" where
  "ORGANIZER_STATUSES = [(''active'', Org_active), (''archived'', Org_archived)]"

definition ATTENDANCE_STATUSES :: "(string \<times> attendance_status) list" where
  "ATTENDANCE_STATUSES = [(''going'', Going), (''interested'', Interested)]"

definition ORDER_STATUSES :: "(string \<times> order_status) list" where
  "ORDER_STATUSES = [(''created'', O_created), (''paid'', O_paid), (''expired'', O_expired), (''failed'', O_failed)]"

definition BOOKING_STATUSES :: "(string \<times> booking_status) list" where
  "BOOKING_STATUSES = [(''confirmed'', B_confirmed), (''cancelled'', B_cancelled)]"

definition REFUND_STATUSES :: "(string \<times> refund_status) list" where
  "REFUND_STATUSES = [(''none'', Rf_none), (''pending'', Rf_pending), (''processed'', Rf_processed), (''failed'', Rf_failed)]"

definition SAFETY_SEVERITIES :: "(string \<times> safety_severity) list" where
  "SAFETY_SEVERITIES = [(''info'', Sev_info), (''warning'', Sev_warning), (''critical'', Sev_critical)]"

definition SAFETY_EVENT_TYPES :: "(string \<times> safety_event_type) list" where
  "SAFETY_EVENT_TYPES = [(''auth.otp_rate_limited'', Auth_otp_rate_limited),
    (''auth.otp_attempts_exceeded'', Auth_otp_attempts_exceeded),
    (''auth.refresh_token_reuse'', Auth_refresh_token_reuse), (''admin.account_locked'', Admin_account_locked),
    (''rate_limit.exceeded'', Rate_limit_exceeded), (''safety.block_created'', Safety_block_created),
    (''safety.block_removed'', Safety_block_removed), (''safety.report_created'', Safety_report_created),
    (''safety.report_limit_reached'', Safety_report_limit_reached), (''safety.auto_hidden'', Safety_auto_hidden),
    (''interest.limit_reached'', Interest_limit_reached),
    (''verification.start_limit_reached'', Verification_start_limit_reached),
    (''verification.webhook_rejected'', Verification_webhook_rejected),
    (''verification.underage_detected'', Verification_underage_detected),
    (''suspicious.money_requests'', Suspicious_money_requests),
    (''suspicious.repeated_messages'', Suspicious_repeated_messages),
    (''suspicious.frequently_blocked'', Suspicious_frequently_blocked), (''sanction.expired'', Sanction_expired)]"

definition bool_texts :: "(string \<times> bool) list" where
  "bool_texts = [(''true'', True), (''false'', False)]"

end
