(* ===== verification/Schema_Fields.thy ===== *)
theory Schema_Fields
  imports Json
begin

text \<open>
  The fields of the shared schemas (\<open>packages/shared/src/schemas\<close>): cleaned and bounded texts, links, dates,
  times, numbers of a query string, and the limits they use (\<open>constants/limits.ts\<close>).
\<close>

text \<open>
  What the schemas take from outside: Unicode normalisation, lower-casing and character classes, the
  library's checks of UUIDs and email addresses, and how a text becomes a text of the model's tables.
\<close>

record js_lib =
  js_nfkc :: "js_text \<Rightarrow> js_text"
  js_nfc :: "js_text \<Rightarrow> js_text"
  js_lower :: "js_text \<Rightarrow> js_text"
  js_letter :: "code_unit \<Rightarrow> bool"
  zod_uuid :: "js_text \<Rightarrow> bool"
  zod_email :: "js_text \<Rightarrow> bool"
  js_stored :: "js_text \<Rightarrow> string"

section \<open>Limits\<close>

definition DISPLAY_NAME_MIN :: nat where [limits]: "DISPLAY_NAME_MIN = 2"
definition DISPLAY_NAME_MAX :: nat where [limits]: "DISPLAY_NAME_MAX = 30"
definition BIO_MAX_LENGTH :: nat where [limits]: "BIO_MAX_LENGTH = 300"
definition INSTAGRAM_HANDLE_MAX :: nat where [limits]: "INSTAGRAM_HANDLE_MAX = 30"
definition REPORT_DETAILS_MAX_LENGTH :: nat where [limits]: "REPORT_DETAILS_MAX_LENGTH = 1000"
definition ADMIN_RESOLUTION_NOTE_MIN :: nat where [limits]: "ADMIN_RESOLUTION_NOTE_MIN = 5"
definition ADMIN_RESOLUTION_NOTE_MAX :: nat where [limits]: "ADMIN_RESOLUTION_NOTE_MAX = 2000"
definition ADMIN_ACTION_REASON_MIN :: nat where [limits]: "ADMIN_ACTION_REASON_MIN = 5"
definition ADMIN_ACTION_REASON_MAX :: nat where [limits]: "ADMIN_ACTION_REASON_MAX = 500"
definition EVENT_NAME_MIN :: nat where [limits]: "EVENT_NAME_MIN = 3"
definition EVENT_NAME_MAX :: nat where [limits]: "EVENT_NAME_MAX = 120"
definition EVENT_DESCRIPTION_MIN :: nat where [limits]: "EVENT_DESCRIPTION_MIN = 10"
definition EVENT_DESCRIPTION_MAX :: nat where [limits]: "EVENT_DESCRIPTION_MAX = 5000"
definition EVENT_VENUE_NAME_MAX :: nat where [limits]: "EVENT_VENUE_NAME_MAX = 150"
definition EVENT_VENUE_ADDRESS_MAX :: nat where [limits]: "EVENT_VENUE_ADDRESS_MAX = 300"
definition EVENT_URL_MAX :: nat where [limits]: "EVENT_URL_MAX = 500"
definition ORGANIZER_NAME_MIN :: nat where [limits]: "ORGANIZER_NAME_MIN = 2"
definition ORGANIZER_NAME_MAX :: nat where [limits]: "ORGANIZER_NAME_MAX = 150"
definition ORGANIZER_DESCRIPTION_MAX :: nat where [limits]: "ORGANIZER_DESCRIPTION_MAX = 1000"
definition ORGANIZER_CONTACT_NAME_MAX :: nat where [limits]: "ORGANIZER_CONTACT_NAME_MAX = 100"
definition ORGANIZER_NOTES_MAX :: nat where [limits]: "ORGANIZER_NOTES_MAX = 2000"
definition MESSAGE_MAX_LENGTH :: nat where [limits]: "MESSAGE_MAX_LENGTH = 1000"
definition NOTIFICATIONS_PAGE_SIZE_MAX :: nat where [limits]: "NOTIFICATIONS_PAGE_SIZE_MAX = 50"
definition PASS_PRICE_MIN_PAISE :: int where [limits]: "PASS_PRICE_MIN_PAISE = 100"
definition PASS_PRICE_MAX_PAISE :: int where [limits]: "PASS_PRICE_MAX_PAISE = 1000000"
definition PASS_CAPACITY_MAX :: int where [limits]: "PASS_CAPACITY_MAX = 100000"

section \<open>Cleaning texts\<close>

text \<open>\<open>replace(/\r\n?/g, '\n')\<close>\<close>

fun unify_newlines :: "js_text \<Rightarrow> js_text" where
  "unify_newlines [] = []"
| "unify_newlines [c] = [if c = 13 then 10 else c]"
| "unify_newlines (c # d # s) =
    (if c = 13 then (if d = 10 then 10 # unify_newlines s else 10 # unify_newlines (d # s))
     else c # unify_newlines (d # s))"

text \<open>\<open>split\<close> at one character, and \<open>join('\n')\<close>\<close>

fun split_at :: "code_unit \<Rightarrow> js_text \<Rightarrow> js_text list" where
  "split_at x [] = [[]]"
| "split_at x (c # s) =
    (if c = x then [] # split_at x s else (case split_at x s of [] \<Rightarrow> [[c]] | l # ls \<Rightarrow> (c # l) # ls))"

fun join_lines :: "js_text list \<Rightarrow> js_text" where
  "join_lines [] = []"
| "join_lines [l] = l"
| "join_lines (l # ls) = l @ 10 # join_lines ls"

text \<open>\<open>replace(/[ \t]+/g, ' ')\<close>\<close>

fun collapse_blanks :: "js_text \<Rightarrow> js_text" where
  "collapse_blanks [] = []"
| "collapse_blanks [c] = [if c = 32 \<or> c = 9 then 32 else c]"
| "collapse_blanks (c # d # s) =
    (if c = 32 \<or> c = 9
     then (if d = 32 \<or> d = 9 then collapse_blanks (d # s) else 32 # collapse_blanks (d # s))
     else c # collapse_blanks (d # s))"

text \<open>\<open>replace(/\n{3,}/g, '\n\n')\<close>\<close>

fun two_newlines :: "js_text \<Rightarrow> js_text" where
  "two_newlines (c # d # e # s) =
    (if c = 10 \<and> d = 10 \<and> e = 10 then two_newlines (d # e # s) else c # two_newlines (d # e # s))"
| "two_newlines s = s"

definition paragraphs_text :: "js_lib \<Rightarrow> js_text \<Rightarrow> js_text" where
  "paragraphs_text lib value = js_trim (two_newlines (join_lines
    (map (\<lambda>l. js_trim (collapse_blanks l)) (split_at 10 (unify_newlines (js_nfkc lib (stripInvisible value)))))))"

section \<open>Text fields\<close>

definition max_text :: "nat \<Rightarrow> js_text schema" where
  "max_text n = refine (\<lambda>t. length t \<le> n) js_string"

definition singleLine :: "js_lib \<Rightarrow> nat \<Rightarrow> nat \<Rightarrow> js_text schema" where
  "singleLine lib least most = transform (max_text (most * 2)) (\<lambda>value.
    let t = normalizeText (js_nfkc lib) (stripInvisible value)
    in if length t < least \<or> most < length t then None else Some t)"

definition null_when_empty :: "js_text \<Rightarrow> js_text option" where
  "null_when_empty t = (if t = [] then None else Some t)"

definition optionalLine :: "js_lib \<Rightarrow> nat \<Rightarrow> js_text option schema" where
  "optionalLine lib most = clearable (transform (max_text (most * 2)) (\<lambda>value.
    let t = normalizeText (js_nfkc lib) (stripInvisible value)
    in if most < length t then None else Some (null_when_empty t)))"

definition publicParagraphs :: "js_lib \<Rightarrow> nat \<Rightarrow> nat \<Rightarrow> js_text schema" where
  "publicParagraphs lib least most = transform (max_text (most * 2)) (\<lambda>value.
    let t = paragraphs_text lib value
    in if length t < least \<or> most < length t then None else if containsPhoneOrEmail t then None else Some t)"

section \<open>Links\<close>

definition url_host_char :: "code_unit \<Rightarrow> bool" where
  "url_host_char c \<longleftrightarrow> is_digit c \<or> is_letter c"

definition HTTPS_URL_PATTERN :: rx where
  "HTTPS_URL_PATTERN = rx_seq [At_start, rx_word ''https://'',
    rx_plus (rx_seq [One url_host_char,
      rx_opt (rx_seq [Many (One (\<lambda>c. url_host_char c \<or> c = 45)) 0 (Some 61), One url_host_char]), rx_lit ''.'']),
    Many (One is_letter) 2 (Some 63),
    rx_opt (rx_seq [rx_lit '':'', Many rx_digit 1 (Some 5)]),
    rx_opt (rx_seq [One (any_of ''/?#''),
      rx_star (One (\<lambda>c. \<not> is_white c \<and> \<not> List.member [60, 62, 34, 39, 96, 92] c))]),
    At_end]"

definition isHttpsUrl :: "js_text \<Rightarrow> bool" where
  "isHttpsUrl value \<longleftrightarrow> length value \<le> EVENT_URL_MAX \<and> rx_test HTTPS_URL_PATTERN value"

definition httpsUrlSchema :: "js_text option schema" where
  "httpsUrlSchema = clearable (transform (max_text (EVENT_URL_MAX * 2)) (\<lambda>value.
    let url = js_trim value
    in if url = [] then Some None else if isHttpsUrl url then Some (Some url) else None))"

section \<open>Dates, times and numbers\<close>

definition number_of :: "js_text \<Rightarrow> nat" where
  "number_of t = foldl (\<lambda>n c. n * 10 + nat (c - 48)) 0 t"

text \<open>\<open>Date.UTC\<close> reads a year below 100 as one of the twentieth century: such a text is not a date.\<close>

definition isIsoDate :: "js_text \<Rightarrow> date option" where
  "isIsoDate t =
    (if length t = 10 \<and> list_all is_digit (take 4 t @ take 2 (drop 5 t) @ drop 8 t) \<and> t ! 4 = 45 \<and> t ! 7 = 45
     then (let d = (int (number_of (take 4 t)), int (number_of (take 2 (drop 5 t))), int (number_of (drop 8 t)))
           in if 100 \<le> fst d \<and> valid_date d then Some d else None)
     else None)"

definition isoDateSchema :: "date schema" where
  "isoDateSchema = transform js_string isIsoDate"

text \<open>\<open>HH:MM\<close> on the 24-hour clock; a time of the model is its number of seconds since midnight.\<close>

definition TIME_PATTERN :: rx where
  "TIME_PATTERN = rx_seq [At_start,
    Or (rx_seq [One (\<lambda>c. c = 48 \<or> c = 49), rx_digit]) (rx_seq [rx_lit ''2'', One (\<lambda>c. 48 \<le> c \<and> c \<le> 51)]),
    rx_lit '':'', One (\<lambda>c. 48 \<le> c \<and> c \<le> 53), rx_digit, At_end]"

definition eventTimeSchema :: "int schema" where
  "eventTimeSchema = transform js_string (\<lambda>t.
    if rx_test TIME_PATTERN t then Some (int (number_of (take 2 t) * 60 + number_of (drop 3 t)) * 60) else None)"

definition limitParam :: "nat schema" where
  "limitParam = transform js_string (\<lambda>t. if 1 \<le> length t \<and> length t \<le> 3 \<and> list_all is_digit t then Some (number_of t) else None)"

definition clampedLimit :: "nat \<Rightarrow> nat schema" where
  "clampedLimit most = transform limitParam (\<lambda>n. Some (min (max n 1) most))"

definition booleanParam :: "bool schema" where "booleanParam = enum_of bool_texts"

definition uuidParamSchema :: "js_lib \<Rightarrow> uuid schema" where
  "uuidParamSchema lib = transform js_string (\<lambda>t. if zod_uuid lib t then uuid_of_text t else None)"

section \<open>Fields of a profile\<close>

definition name_char :: "js_lib \<Rightarrow> js_text \<Rightarrow> bool" where
  "name_char lib p \<longleftrightarrow> js_letter lib (code_point p) \<or> (case p of [c] \<Rightarrow> any_of '' .-'' c \<or> c = 39 | _ \<Rightarrow> False)"

definition NAME_PATTERN :: "js_lib \<Rightarrow> js_text \<Rightarrow> bool" where
  "NAME_PATTERN lib name =
    (case code_points name of [] \<Rightarrow> False | p # ps \<Rightarrow> js_letter lib (code_point p) \<and> list_all (name_char lib) ps)"

definition nameSchema :: "js_lib \<Rightarrow> js_text schema" where
  "nameSchema lib = transform (max_text 100) (\<lambda>value.
    let name = normalizeText (js_nfkc lib) (stripInvisible value)
    in if length name < DISPLAY_NAME_MIN \<or> DISPLAY_NAME_MAX < length name then None
       else if NAME_PATTERN lib name then Some name else None)"

definition bioSchema :: "js_lib \<Rightarrow> js_text option schema" where
  "bioSchema lib = clearable (transform (max_text 1000) (\<lambda>value.
    let bio = js_trim (js_nfkc lib (stripInvisible value))
    in if BIO_MAX_LENGTH < length bio then None else if looksLikeContactInfo bio then None
       else Some (null_when_empty bio)))"

text \<open>No two dots in a row, none at the start, none at the end.\<close>

fun double_dot :: "js_text \<Rightarrow> bool" where
  "double_dot (c # d # s) \<longleftrightarrow> c = 46 \<and> d = 46 \<or> double_dot (d # s)"
| "double_dot _ \<longleftrightarrow> False"

definition INSTAGRAM_PATTERN :: "js_text \<Rightarrow> bool" where
  "INSTAGRAM_PATTERN h \<longleftrightarrow> h \<noteq> [] \<and> \<not> double_dot h \<and> hd h \<noteq> 46 \<and> last h \<noteq> 46 \<and>
    list_all (\<lambda>c. 97 \<le> c \<and> c \<le> 122 \<or> is_digit c \<or> c = 46 \<or> c = 95) h"

definition instagramIdSchema :: "js_lib \<Rightarrow> js_text option schema" where
  "instagramIdSchema lib = clearable (transform (max_text 60) (\<lambda>value.
    let trimmed = js_trim value;
        handle = js_lower lib (case trimmed of c # s \<Rightarrow> if c = 64 then s else trimmed | [] \<Rightarrow> [])
    in if handle = [] then Some None
       else if INSTAGRAM_HANDLE_MAX < length handle \<or> \<not> INSTAGRAM_PATTERN handle then None else Some (Some handle)))"

definition availableDatesSchema :: "date list schema" where
  "availableDatesSchema = refine (\<lambda>ds. length ds \<le> AVAILABLE_DATES_MAX) (js_array isoDateSchema)"

definition ageSchema :: "int schema" where
  "ageSchema = refine (\<lambda>n. PREF_AGE_MIN \<le> n \<and> n \<le> PREF_AGE_MAX) js_int"

section \<open>Fields of an organizer\<close>

definition EMAIL_FORM :: rx where
  "EMAIL_FORM = (let part = One (\<lambda>c. \<not> is_white c \<and> c \<noteq> 64)
    in rx_seq [At_start, rx_plus part, rx_lit ''@'', rx_plus part, rx_lit ''.'', Many part 2 None, At_end])"

definition contactEmailSchema :: "js_lib \<Rightarrow> js_text option schema" where
  "contactEmailSchema lib = clearable (transform (max_text 254) (\<lambda>value.
    let email = js_lower lib (js_trim value)
    in if email = [] then Some None else if rx_test EMAIL_FORM email then Some (Some email) else None))"

definition PHONE_FORM :: rx where
  "PHONE_FORM = rx_seq [At_start, rx_opt (rx_lit ''+''), rx_plus (One (\<lambda>c. is_digit c \<or> any_of '' ()-'' c)), At_end]"

definition contactPhoneSchema :: "js_text option schema" where
  "contactPhoneSchema = clearable (transform (max_text 40) (\<lambda>value.
    let phone = collapse_white (js_trim value); digits = filter is_digit phone
    in if phone = [] then Some None
       else if rx_test PHONE_FORM phone \<and> 7 \<le> length digits \<and> length digits \<le> 15 then Some (Some phone) else None))"

definition notesSchema :: "js_text option schema" where
  "notesSchema = clearable (transform (max_text (ORGANIZER_NOTES_MAX * 2)) (\<lambda>value.
    let n = js_trim (unify_newlines (stripInvisible value))
    in if ORGANIZER_NOTES_MAX < length n then None else Some (null_when_empty n)))"

section \<open>Notes of moderators, messages and report details\<close>

definition trimmed_text :: "nat \<Rightarrow> nat \<Rightarrow> js_text schema" where
  "trimmed_text least most = transform js_string (\<lambda>value.
    let t = js_trim value in if length t < least \<or> most < length t then None else Some t)"

definition adminNote :: "js_text schema" where
  "adminNote = trimmed_text ADMIN_ACTION_REASON_MIN ADMIN_ACTION_REASON_MAX"

definition messageBodySchema :: "js_lib \<Rightarrow> js_text schema" where
  "messageBodySchema lib = transform (max_text (MESSAGE_MAX_LENGTH * 2)) (\<lambda>value.
    let body = js_trim (unify_newlines (js_nfc lib (stripInvisible value)))
    in if body = [] \<or> MESSAGE_MAX_LENGTH < length body then None else Some body)"

definition reportDetailsSchema :: "js_text option schema" where
  "reportDetailsSchema = clearable (transform (max_text REPORT_DETAILS_MAX_LENGTH)
    (\<lambda>value. Some (null_when_empty (js_trim (stripInvisible value)))))"

definition durationDays :: "int schema" where
  "durationDays j = (case j of JInt n \<Rightarrow> if List.member SANCTION_DURATION_DAYS n then Some n else None | _ \<Rightarrow> None)"

end
