(* ===== verification/Locations.thy ===== *)
theory Locations
  imports Domain
begin

text \<open>Cities and areas (\<open>modules/locations/locations.service.ts\<close>).\<close>

record city_dto =
  cd_id :: uuid
  cd_name :: string
  cd_state :: string

record area_dto =
  aa_id :: uuid
  aa_cityId :: uuid
  aa_name :: string

definition toCityDto :: "city \<Rightarrow> city_dto" where
  "toCityDto c = \<lparr>cd_id = ci_id c, cd_name = ci_name c, cd_state = ci_state c\<rparr>"

definition toAreaDto :: "area \<Rightarrow> area_dto" where
  "toAreaDto a = \<lparr>aa_id = ar_id a, aa_cityId = ar_cityId a, aa_name = ar_name a\<rparr>"

text \<open>In the order an administrator gave them, then by name in the collation of the database.\<close>

definition listActiveCities :: "(string \<Rightarrow> int) \<Rightarrow> db \<Rightarrow> city_dto list" where
  "listActiveCities collation s = map toCityDto
    (sort_key ci_sortOrder (sort_key (\<lambda>c. collation (ci_name c)) (rows_where cities_table ci_isActive s)))"

definition listActiveAreas :: "(string \<Rightarrow> int) \<Rightarrow> uuid \<Rightarrow> db \<Rightarrow> failure + area_dto list" where
  "listActiveAreas collation cityId s =
    (case find_row cities_table (\<lambda>c. ci_id c = cityId \<and> ci_isActive c) s of
       None \<Rightarrow> Inl (App NOT_FOUND)
     | Some _ \<Rightarrow> Inr (map toAreaDto (sort_key ar_sortOrder (sort_key (\<lambda>a. collation (ar_name a))
         (rows_where areas_table (\<lambda>a. ar_cityId a = cityId \<and> ar_isActive a) s)))))"

text \<open>Both exist and are active, and the area belongs to the city.\<close>

definition assertValidLocation :: "uuid \<Rightarrow> uuid option \<Rightarrow> unit op" where
  "assertValidLocation cityId areaId =
    andThen (gets (find_row cities_table (\<lambda>c. ci_id c = cityId \<and> ci_isActive c))) (\<lambda>c.
    andThen (ensure (c \<noteq> None) (App VALIDATION_ERROR)) (\<lambda>_.
    case areaId of
      None \<Rightarrow> ret ()
    | Some a \<Rightarrow>
        andThen (gets (find_row areas_table (\<lambda>r. ar_id r = a \<and> ar_cityId r = cityId \<and> ar_isActive r)))
          (\<lambda>r. ensure (r \<noteq> None) (App VALIDATION_ERROR))))"

end
