(* ===== verification/Profiles.thy ===== *)
theory Profiles
  imports Discovery_Service Locations
begin

text \<open>
  Profiles (\<open>modules/profiles/profile.service.ts\<close>, \<open>profile.mapper.ts\<close>) and their completion
  (\<open>packages/shared/src/utils/profile-completion.ts\<close>). The image library and the media storage are
  parameters; uploads and deletions are effects.
\<close>

section \<open>Completion\<close>

datatype completion_field = F_name | F_dateOfBirth | F_gender | F_city | F_garbaLevel | F_profileImage
  | F_bio | F_availableDates | F_area | F_instagramId

definition PROFILE_COMPLETION_ITEMS :: "(completion_field \<times> int \<times> bool) list" where
  "PROFILE_COMPLETION_ITEMS =
    [(F_name, 10, True), (F_dateOfBirth, 10, True), (F_gender, 10, True), (F_city, 10, True), (F_garbaLevel, 10, True),
     (F_profileImage, 20, True), (F_bio, 10, False), (F_availableDates, 10, False), (F_area, 5, False),
     (F_instagramId, 5, False)]"

record profile_completion =
  co_percentage :: int
  co_status :: profile_status
  co_missingRequired :: "completion_field list"
  co_missingOptional :: "completion_field list"

text \<open>One turn of the loop over the items.\<close>

definition count_item :: "(completion_field \<Rightarrow> bool) \<Rightarrow> completion_field \<times> int \<times> bool \<Rightarrow>
    int \<times> completion_field list \<times> completion_field list \<Rightarrow> int \<times> completion_field list \<times> completion_field list" where
  "count_item filled = (\<lambda>(field, weight, required) (percentage, missingRequired, missingOptional).
    if filled field then (percentage + weight, missingRequired, missingOptional)
    else if required then (percentage, missingRequired @ [field], missingOptional)
    else (percentage, missingRequired, missingOptional @ [field]))"

definition computeProfileCompletion :: "(completion_field \<Rightarrow> bool) option \<Rightarrow> profile_completion" where
  "computeProfileCompletion input =
    (case input of
       None \<Rightarrow> \<lparr>co_percentage = 0, co_status = Profile_not_started,
         co_missingRequired = map fst (filter (\<lambda>(_, _, required). required) PROFILE_COMPLETION_ITEMS),
         co_missingOptional = map fst (filter (\<lambda>(_, _, required). \<not> required) PROFILE_COMPLETION_ITEMS)\<rparr>
     | Some filled \<Rightarrow>
         (let (percentage, missingRequired, missingOptional) = fold (count_item filled) PROFILE_COMPLETION_ITEMS (0, [], [])
          in \<lparr>co_percentage = percentage,
               co_status = (if missingRequired = [] then Profile_complete else Profile_incomplete),
               co_missingRequired = missingRequired, co_missingOptional = missingOptional\<rparr>))"

primrec filled_in :: "user_profile \<Rightarrow> date \<Rightarrow> completion_field \<Rightarrow> bool" where
  "filled_in p today F_name = (pf_displayName p \<noteq> [])"
| "filled_in p today F_dateOfBirth = True"
| "filled_in p today F_gender = True"
| "filled_in p today F_city = True"
| "filled_in p today F_garbaLevel = True"
| "filled_in p today F_profileImage = (pf_imagePublicId p \<noteq> None)"
| "filled_in p today F_bio = (pf_bio p \<noteq> None \<and> pf_bio p \<noteq> Some [])"
| "filled_in p today F_availableDates = (upcomingDates (pf_availableDates p) today \<noteq> [])"
| "filled_in p today F_area = (pf_areaId p \<noteq> None)"
| "filled_in p today F_instagramId = (pf_instagramHandle p \<noteq> None)"

definition computeCompletion :: "user_profile option \<Rightarrow> date \<Rightarrow> profile_completion" where
  "computeCompletion profile today = computeProfileCompletion (map_option (\<lambda>p. filled_in p today) profile)"

section \<open>The owner's view\<close>

record own_profile =
  ow_name :: string
  ow_dateOfBirth :: date
  ow_age :: int
  ow_gender :: gender
  ow_city :: city_dto
  ow_area :: "area_dto option"
  ow_bio :: "string option"
  ow_instagramId :: "string option"
  ow_garbaLevel :: garba_level
  ow_availableDates :: "date list"
  ow_image :: "string option"

definition area_of :: "user_profile \<Rightarrow> db \<Rightarrow> area option" where
  "area_of p s = (case pf_areaId p of None \<Rightarrow> None | Some a \<Rightarrow> by_key areas_table a s)"

definition toOwnProfileDto :: "user_profile \<Rightarrow> date \<Rightarrow> db \<Rightarrow> failure + own_profile" where
  "toOwnProfileDto p today s =
    (case by_key cities_table (pf_cityId p) s of
       None \<Rightarrow> Inl Unexpected_error
     | Some c \<Rightarrow> Inr
         \<lparr>ow_name = pf_displayName p, ow_dateOfBirth = pf_dateOfBirth p, ow_age = calculateAge (pf_dateOfBirth p) today,
           ow_gender = pf_gender p, ow_city = toCityDto c, ow_area = map_option toAreaDto (area_of p s), ow_bio = pf_bio p,
           ow_instagramId = pf_instagramHandle p, ow_garbaLevel = pf_garbaLevel p,
           ow_availableDates = upcomingDates (pf_availableDates p) today, ow_image = toImageDto p\<rparr>)"

record preferences_dto =
  po_preferredGender :: partner_gender_preference
  po_minAge :: int
  po_maxAge :: int
  po_verifiedOnly :: bool
  po_discoveryEnabled :: bool
  po_showArea :: bool

definition toPreferencesDto :: "user_preference \<Rightarrow> preferences_dto" where
  "toPreferencesDto p = \<lparr>po_preferredGender = pr_partnerGenderPreference p, po_minAge = pr_ageMin p, po_maxAge = pr_ageMax p,
    po_verifiedOnly = pr_verifiedOnly p, po_discoveryEnabled = pr_discoveryEnabled p, po_showArea = pr_showArea p\<rparr>"

record my_profile =
  mp_completion :: profile_completion
  mp_accountStatus :: user_status
  mp_photoVerified :: bool
  mp_identityVerified :: bool
  mp_profile :: "own_profile option"
  mp_preferences :: "preferences_dto option"

definition buildMyProfile :: "uuid \<Rightarrow> db \<Rightarrow> failure + my_profile" where
  "buildMyProfile userId s =
    (let today = todayInIndia (clock s); profile = profile_of userId s
     in case live_account userId s of
          None \<Rightarrow> Inl (App UNAUTHENTICATED)
        | Some u \<Rightarrow>
            (let dto = (\<lambda>own. \<lparr>mp_completion = computeCompletion profile today, mp_accountStatus = u_status u,
                 mp_photoVerified = (u_photoVerifiedAt u \<noteq> None), mp_identityVerified = (u_identityVerifiedAt u \<noteq> None),
                 mp_profile = own, mp_preferences = map_option toPreferencesDto (preference_of userId s)\<rparr>)
             in case profile of
                  None \<Rightarrow> Inr (dto None)
                | Some p \<Rightarrow> map_sum id (\<lambda>own. dto (Some own)) (toOwnProfileDto p today s)))"

definition my_profile_of :: "uuid \<Rightarrow> my_profile op" where
  "my_profile_of userId = andThen (gets (buildMyProfile userId)) from_sum"

section \<open>Checks and side effects\<close>

definition sortedDates :: "date list \<Rightarrow> date list" where "sortedDates dates = sort (remdups dates)"

text \<open>\<open>availableDatesError\<close> (\<open>utils/dates.ts\<close>): whether one of its messages is returned.\<close>

definition availableDatesError :: "date list \<Rightarrow> date \<Rightarrow> bool" where
  "availableDatesError dates today \<longleftrightarrow> AVAILABLE_DATES_MAX < length dates \<or>
    list_ex (\<lambda>d. \<not> valid_date d \<or> d < today \<or> addDays today AVAILABLE_DATES_HORIZON_DAYS < d) dates \<or>
    length (remdups dates) \<noteq> length dates"

definition assertAvailableDates :: "date list option \<Rightarrow> unit op" where
  "assertAvailableDates dates =
    (case dates of
       None \<Rightarrow> ret ()
     | Some ds \<Rightarrow> andThen now (\<lambda>t. ensure (\<not> availableDatesError ds (todayInIndia t)) (App VALIDATION_ERROR)))"

text \<open>Marks onboarding complete the first time the profile becomes complete.\<close>

definition syncOnboarding :: "uuid \<Rightarrow> unit op" where
  "syncOnboarding userId =
    andThen (gets (profile_of userId)) (\<lambda>profile.
    andThen now (\<lambda>t.
    if co_status (computeCompletion profile (todayInIndia t)) \<noteq> Profile_complete then ret ()
    else update_rows users_table (\<lambda>u. u_id u = userId \<and> u_deletedAt u = None \<and> u_onboardingCompletedAt u = None)
      (\<lambda>u. u\<lparr>u_onboardingCompletedAt := Some t\<rparr>)))"

text \<open>A new or removed photo takes the badge away.\<close>

definition revokePhotoVerification :: "uuid \<Rightarrow> unit op" where
  "revokePhotoVerification userId =
    (let P = (\<lambda>u. u_id u = userId \<and> u_deletedAt u = None \<and> u_photoVerifiedAt u \<noteq> None)
     in andThen (gets (\<lambda>s. count_where P (t_users s))) (\<lambda>revokedUsers.
        andThen (update_rows users_table P (\<lambda>u. u\<lparr>u_photoVerifiedAt := None\<rparr>)) (\<lambda>_.
        doWhen (0 < revokedUsers)
          (update_rows verifications_table
            (\<lambda>v. uv_userId v = userId \<and> uv_type v = Photo_check \<and> uv_status v = V_approved)
            (\<lambda>v. v\<lparr>uv_status := V_revoked\<rparr>)))))"

end
