(* ===== verification/Profile_Service.thy ===== *)
theory Profile_Service
  imports Profiles Samples
begin

text \<open>The operations of the profile service (\<open>modules/profiles/profile.service.ts\<close>).\<close>

section \<open>Creating\<close>

record create_profile_input =
  cp_name :: string
  cp_dateOfBirth :: date
  cp_gender :: gender
  cp_cityId :: uuid
  cp_areaId :: "uuid option"
  cp_bio :: "string option"
  cp_instagramId :: "string option"
  cp_garbaLevel :: garba_level
  cp_availableDates :: "date list option"

datatype create_outcome = Underage_attempt | Profile_created

definition dates_given :: "date list option \<Rightarrow> date list" where
  "dates_given ds = (case ds of None \<Rightarrow> [] | Some xs \<Rightarrow> xs)"

definition new_profile :: "uuid \<Rightarrow> uuid \<Rightarrow> create_profile_input \<Rightarrow> instant \<Rightarrow> user_profile" where
  "new_profile i userId input t =
    \<lparr>pf_id = i, pf_userId = userId, pf_displayName = cp_name input, pf_dateOfBirth = cp_dateOfBirth input,
      pf_gender = cp_gender input, pf_cityId = cp_cityId input, pf_areaId = cp_areaId input, pf_bio = cp_bio input,
      pf_instagramHandle = cp_instagramId input, pf_garbaLevel = cp_garbaLevel input,
      pf_availableDates = sortedDates (dates_given (cp_availableDates input)), pf_imagePublicId = None,
      pf_imageWidth = None, pf_imageHeight = None, pf_imageUploadedAt = None, pf_createdAt = t\<rparr>"

definition default_preference :: "uuid \<Rightarrow> uuid \<Rightarrow> instant \<Rightarrow> user_preference" where
  "default_preference i userId t =
    \<lparr>pr_id = i, pr_userId = userId, pr_partnerGenderPreference = Everyone, pr_ageMin = PREF_AGE_MIN,
      pr_ageMax = PREF_AGE_MAX, pr_verifiedOnly = False, pr_discoveryEnabled = False, pr_showArea = False,
      pr_createdAt = t\<rparr>"

definition find_or_create_preference :: "uuid \<Rightarrow> unit op" where
  "find_or_create_preference userId =
    andThen (gets (preference_of userId)) (\<lambda>found.
    if found \<noteq> None then ret ()
    else andThen fresh_uuid (\<lambda>i. andThen now (\<lambda>t. insert_row preferences_table (default_preference i userId t))))"

definition CURRENT_TERMS_VERSION :: string where "CURRENT_TERMS_VERSION = ''2026-09-01''"

definition store_profile :: "user \<Rightarrow> create_profile_input \<Rightarrow> unit op" where
  "store_profile u input =
    andThen (assertValidLocation (cp_cityId input) (cp_areaId input)) (\<lambda>_.
    andThen fresh_uuid (\<lambda>i.
    andThen now (\<lambda>t.
    andThen (insert_row profiles_table (new_profile i (u_id u) input t)) (\<lambda>_.
    andThen (find_or_create_preference (u_id u)) (\<lambda>_.
    andThen (save users_table
      [setting u_termsVersion u_termsVersion_update (Some CURRENT_TERMS_VERSION),
       setting u_termsAcceptedAt u_termsAcceptedAt_update (Some t)] u) (\<lambda>_.
    syncOnboarding (u_id u)))))))"

text \<open>An attempt under 18 is recorded although the request fails: the error is thrown after the commit.\<close>

definition create_profile_tx :: "uuid \<Rightarrow> create_profile_input \<Rightarrow> create_outcome op" where
  "create_profile_tx userId input = transaction
    (andThen (gets (live_account userId)) (\<lambda>found.
     andThen (from_option found (App UNAUTHENTICATED)) (\<lambda>u.
     if u_underageRejectedAt u \<noteq> None then ret Underage_attempt
     else andThen (gets (profile_of userId)) (\<lambda>profile.
       andThen (ensure (profile = None) (App CONFLICT)) (\<lambda>_.
       andThen now (\<lambda>t.
       let age = calculateAge (cp_dateOfBirth input) (todayInIndia t)
       in if age < MIN_AGE
          then andThen (save users_table [setting u_underageRejectedAt u_underageRejectedAt_update (Some t)] u)
            (\<lambda>_. ret Underage_attempt)
          else andThen (ensure (\<not> MAX_AGE < age) (App VALIDATION_ERROR)) (\<lambda>_.
            andThen (store_profile u input) (\<lambda>_. ret Profile_created))))))))"

definition createProfile :: "uuid \<Rightarrow> create_profile_input \<Rightarrow> my_profile op" where
  "createProfile userId input =
    andThen (assertAvailableDates (cp_availableDates input)) (\<lambda>_.
    andThen (create_profile_tx userId input) (\<lambda>outcome.
    andThen (ensure (outcome \<noteq> Underage_attempt) (App UNDERAGE)) (\<lambda>_.
    my_profile_of userId)))"

section \<open>Updating\<close>

text \<open>\<open>None\<close>: the field was not sent; \<open>Some None\<close>: it was sent as null.\<close>

record update_profile_input =
  up_name :: "string option"
  up_gender :: "gender option"
  up_garbaLevel :: "garba_level option"
  up_bio :: "string option option"
  up_instagramId :: "string option option"
  up_availableDates :: "date list option"
  up_cityId :: "uuid option"
  up_areaId :: "uuid option option"

definition given :: "'a option \<Rightarrow> ('a \<Rightarrow> 'r setting) \<Rightarrow> 'r setting list" where
  "given v f = (case v of None \<Rightarrow> [] | Some x \<Rightarrow> [f x])"

text \<open>Changing the city clears the area unless an area is sent too.\<close>

definition updated_area :: "update_profile_input \<Rightarrow> user_profile \<Rightarrow> uuid option" where
  "updated_area input p =
    (case up_areaId input of
       Some a \<Rightarrow> a
     | None \<Rightarrow> if up_cityId input \<noteq> None \<and> up_cityId input \<noteq> Some (pf_cityId p) then None else pf_areaId p)"

definition updated_city :: "update_profile_input \<Rightarrow> user_profile \<Rightarrow> uuid" where
  "updated_city input p = (case up_cityId input of None \<Rightarrow> pf_cityId p | Some c \<Rightarrow> c)"

definition profile_settings :: "update_profile_input \<Rightarrow> user_profile \<Rightarrow> user_profile setting list" where
  "profile_settings input p =
    given (up_name input) (setting pf_displayName pf_displayName_update) @
    given (up_gender input) (setting pf_gender pf_gender_update) @
    given (up_garbaLevel input) (setting pf_garbaLevel pf_garbaLevel_update) @
    given (up_bio input) (setting pf_bio pf_bio_update) @
    given (up_instagramId input) (setting pf_instagramHandle pf_instagramHandle_update) @
    given (map_option sortedDates (up_availableDates input)) (setting pf_availableDates pf_availableDates_update) @
    [setting pf_cityId pf_cityId_update (updated_city input p), setting pf_areaId pf_areaId_update (updated_area input p)]"

definition update_profile_tx :: "uuid \<Rightarrow> update_profile_input \<Rightarrow> unit op" where
  "update_profile_tx userId input = transaction
    (andThen (gets (profile_of userId)) (\<lambda>found.
     andThen (from_option found (App PROFILE_NOT_STARTED)) (\<lambda>p.
     andThen (if up_cityId input \<noteq> None \<or> up_areaId input \<noteq> None
       then assertValidLocation (updated_city input p) (updated_area input p) else ret ()) (\<lambda>_.
     andThen (save profiles_table (profile_settings input p) p) (\<lambda>_.
     syncOnboarding userId)))))"

definition updateProfile :: "uuid \<Rightarrow> update_profile_input \<Rightarrow> my_profile op" where
  "updateProfile userId input =
    andThen (assertAvailableDates (up_availableDates input)) (\<lambda>_.
    andThen (update_profile_tx userId input) (\<lambda>_.
    my_profile_of userId))"

record update_preferences_input =
  ui_preferredGender :: "partner_gender_preference option"
  ui_minAge :: "int option"
  ui_maxAge :: "int option"
  ui_verifiedOnly :: "bool option"
  ui_discoveryEnabled :: "bool option"
  ui_showArea :: "bool option"

definition or_current :: "'a option \<Rightarrow> 'a \<Rightarrow> 'a" where
  "or_current v current = (case v of None \<Rightarrow> current | Some x \<Rightarrow> x)"

definition update_member_preferences :: "uuid \<Rightarrow> update_preferences_input \<Rightarrow> my_profile op" where
  "update_member_preferences userId input =
    andThen (transaction
      (andThen (gets (preference_of userId)) (\<lambda>found.
       andThen (from_option found (App PROFILE_NOT_STARTED)) (\<lambda>p.
       let minAge = or_current (ui_minAge input) (pr_ageMin p); maxAge = or_current (ui_maxAge input) (pr_ageMax p)
       in andThen (ensure (\<not> maxAge < minAge) (App VALIDATION_ERROR)) (\<lambda>_.
          save preferences_table
            (given (ui_preferredGender input) (setting pr_partnerGenderPreference pr_partnerGenderPreference_update) @
             given (ui_verifiedOnly input) (setting pr_verifiedOnly pr_verifiedOnly_update) @
             given (ui_discoveryEnabled input) (setting pr_discoveryEnabled pr_discoveryEnabled_update) @
             given (ui_showArea input) (setting pr_showArea pr_showArea_update) @
             [setting pr_ageMin pr_ageMin_update minAge, setting pr_ageMax pr_ageMax_update maxAge]) p)))))
      (\<lambda>_. my_profile_of userId)"

section \<open>The photo\<close>

text \<open>The image library makes an image or refuses the file; an upload gives the public id and the size.\<close>

record media =
  processProfileImage :: "string \<Rightarrow> failure + string"
  media_upload :: "string \<Rightarrow> (string \<times> int \<times> int) option"
  media_destroy :: "string \<Rightarrow> bool"

text \<open>A deletion that fails is only logged: the asset is left in the storage.\<close>

definition destroyQuietly :: "media \<Rightarrow> string \<Rightarrow> unit op" where
  "destroyQuietly md publicId =
    emit (if media_destroy md publicId then Asset_destroyed publicId else Asset_left publicId)"

definition destroy_previous :: "media \<Rightarrow> string option \<Rightarrow> unit op" where
  "destroy_previous md previous =
    (case previous of None \<Rightarrow> ret () | Some p \<Rightarrow> doWhen (p \<noteq> []) (destroyQuietly md p))"

definition store_image_tx :: "uuid \<Rightarrow> string \<times> int \<times> int \<Rightarrow> string option op" where
  "store_image_tx userId = (\<lambda>(publicId, width, height). transaction
    (andThen (gets (profile_of userId)) (\<lambda>found.
     andThen (from_option found (App PROFILE_NOT_STARTED)) (\<lambda>p.
     andThen now (\<lambda>t.
     andThen (save profiles_table
       [setting pf_imagePublicId pf_imagePublicId_update (Some publicId), setting pf_imageWidth pf_imageWidth_update (Some width),
        setting pf_imageHeight pf_imageHeight_update (Some height), setting pf_imageUploadedAt pf_imageUploadedAt_update (Some t)] p) (\<lambda>_.
     andThen (revokePhotoVerification userId) (\<lambda>_.
     andThen (syncOnboarding userId) (\<lambda>_.
     ret (pf_imagePublicId p)))))))))"

definition uploadImage :: "media \<Rightarrow> uuid \<Rightarrow> string \<Rightarrow> my_profile op" where
  "uploadImage md userId file =
    andThen (gets (profile_of userId)) (\<lambda>profile.
    andThen (ensure (profile \<noteq> None) (App PROFILE_NOT_STARTED)) (\<lambda>_.
    andThen (from_sum (processProfileImage md file)) (\<lambda>image.
    andThen (from_option (media_upload md image) (App SERVICE_UNAVAILABLE)) (\<lambda>stored.
    andThen (emit (Asset_stored (fst stored))) (\<lambda>_.
    andThen (tryCatch (store_image_tx userId stored)
      (\<lambda>e. andThen (destroyQuietly md (fst stored)) (\<lambda>_. throw e))) (\<lambda>previous.
    andThen (destroy_previous md previous) (\<lambda>_.
    my_profile_of userId)))))))"

definition deleteImage :: "media \<Rightarrow> uuid \<Rightarrow> my_profile op" where
  "deleteImage md userId =
    andThen (transaction
      (andThen (gets (profile_of userId)) (\<lambda>found.
       andThen (from_option found (App PROFILE_NOT_STARTED)) (\<lambda>p.
       if pf_imagePublicId p = None \<or> pf_imagePublicId p = Some [] then ret (pf_imagePublicId p)
       else andThen (save profiles_table
           [setting pf_imagePublicId pf_imagePublicId_update None, setting pf_imageWidth pf_imageWidth_update None,
            setting pf_imageHeight pf_imageHeight_update None, setting pf_imageUploadedAt pf_imageUploadedAt_update None] p) (\<lambda>_.
         andThen (revokePhotoVerification userId) (\<lambda>_. ret (pf_imagePublicId p))))))) (\<lambda>previous.
    andThen (destroy_previous md previous) (\<lambda>_.
    my_profile_of userId))"

section \<open>Looking at a profile\<close>

definition getPreview :: "uuid \<Rightarrow> db \<Rightarrow> failure + public_profile" where
  "getPreview userId s =
    (case live_account userId s of
       None \<Rightarrow> Inl (App UNAUTHENTICATED)
     | Some u \<Rightarrow>
         (case profile_of userId s of
            None \<Rightarrow> Inl (App PROFILE_NOT_STARTED)
          | Some p \<Rightarrow> toPublicProfileDto u p (by_key cities_table (pf_cityId p) s) (area_of p s) (preference_of userId s)
              (todayInIndia (clock s))))"

definition isBlockedEitherWay :: "uuid \<Rightarrow> uuid \<Rightarrow> db \<Rightarrow> bool" where
  "isBlockedEitherWay a b s \<longleftrightarrow>
    0 < count_where (\<lambda>x. (bl_blockerId x = a \<or> bl_blockerId x = b) \<and> (bl_blockedId x = a \<or> bl_blockedId x = b)) (t_blocks s)"

text \<open>An active match or a pending interest of the two, in either direction.\<close>

definition connected_members :: "uuid \<Rightarrow> uuid \<Rightarrow> db \<Rightarrow> bool" where
  "connected_members a b s \<longleftrightarrow>
    (\<exists>m \<in> set (t_matches s). m_status m = M_active \<and>
      (m_userAId m = a \<and> m_userBId m = b \<or> m_userAId m = b \<and> m_userBId m = a)) \<or>
    (\<exists>x \<in> set (t_interests s). i_status x = I_pending \<and>
      (i_senderId x = a \<and> i_receiverId x = b \<or> i_senderId x = b \<and> i_receiverId x = a))"

definition may_see :: "uuid \<Rightarrow> user \<Rightarrow> user_preference option \<Rightarrow> db \<Rightarrow> bool" where
  "may_see viewerId u preferences s \<longleftrightarrow> viewerId = u_id u \<or>
    \<not> reported_between viewerId (u_id u) s \<and>
    (connected_members viewerId (u_id u) s \<or>
      \<not> u_hiddenFromDiscovery u \<and> (case preferences of None \<Rightarrow> False | Some p \<Rightarrow> pr_discoveryEnabled p))"

definition getPublicProfile :: "uuid \<Rightarrow> uuid \<Rightarrow> db \<Rightarrow> failure + public_profile" where
  "getPublicProfile viewerId targetUserId s =
    (let today = todayInIndia (clock s)
     in case find_row users_table (\<lambda>u. u_id u = targetUserId \<and> u_status u = U_active \<and> u_deletedAt u = None) s of
          None \<Rightarrow> Inl (App NOT_FOUND)
        | Some u \<Rightarrow>
            (case profile_of (u_id u) s of
               None \<Rightarrow> Inl (App NOT_FOUND)
             | Some p \<Rightarrow>
                 if co_status (computeCompletion (Some p) today) \<noteq> Profile_complete \<or>
                   isBlockedEitherWay viewerId targetUserId s \<or>
                   \<not> may_see viewerId u (preference_of (u_id u) s) s
                 then Inl (App NOT_FOUND)
                 else toPublicProfileDto u p (by_key cities_table (pf_cityId p) s) (area_of p s)
                   (preference_of (u_id u) s) today))"

end
