(* ===== verification/Pass_Availability.thy ===== *)
theory Pass_Availability
  imports Notifications
begin

text \<open>
  Passes sold and reserved (\<open>modules/payments/pass-availability.ts\<close>). The nil UUID (0) is the
  identifier that never matches: \<open>fresh_uuid\<close> never draws it.
\<close>

definition sold_seats :: "uuid \<Rightarrow> event_booking list \<Rightarrow> int" where
  "sold_seats eventId = total_where (\<lambda>b. b_eventId b = eventId \<and> b_status b = B_confirmed) b_quantity"

definition reserved_seats :: "uuid \<Rightarrow> instant \<Rightarrow> uuid \<Rightarrow> order list \<Rightarrow> int" where
  "reserved_seats eventId t excludeOrderId =
    total_where (\<lambda>q. o_eventId q = eventId \<and> o_status q = O_created \<and> t < o_expiresAt q \<and>
      o_id q \<noteq> excludeOrderId) o_quantity"

definition seatCounts :: "uuid \<Rightarrow> instant \<Rightarrow> uuid option \<Rightarrow> db \<Rightarrow> int \<times> int" where
  "seatCounts eventId t excludeOrderId s =
    (sold_seats eventId (t_bookings s),
     reserved_seats eventId t (case excludeOrderId of None \<Rightarrow> 0 | Some i \<Rightarrow> i) (t_orders s))"

definition passesOnSale :: "event \<Rightarrow> instant \<Rightarrow> bool" where
  "passesOnSale e t \<longleftrightarrow> ev_passPricePaise e \<noteq> None \<and> ev_status e = E_published \<and> t < ev_startsAt e"

record event_pass =
  ep_pricePaise :: int
  ep_maxPerOrder :: int
  ep_onSale :: bool
  ep_remaining :: "int option"
  ep_soldOut :: bool

definition loadEventPass :: "event \<Rightarrow> instant \<Rightarrow> db \<Rightarrow> event_pass option" where
  "loadEventPass e t s =
    (case ev_passPricePaise e of
       None \<Rightarrow> None
     | Some price \<Rightarrow>
         let remaining = (case ev_passCapacity e of
               None \<Rightarrow> None
             | Some capacity \<Rightarrow>
                 let (sold, reserved) = seatCounts (ev_id e) t None s
                 in Some (max 0 (capacity - sold - reserved)))
         in Some \<lparr>ep_pricePaise = price, ep_maxPerOrder = PASS_MAX_PER_ORDER,
              ep_onSale = passesOnSale e t, ep_remaining = remaining, ep_soldOut = (remaining = Some 0)\<rparr>)"

record admin_event_pass =
  aep_pricePaise :: "int option"
  aep_capacity :: "int option"
  aep_sold :: int
  aep_reserved :: int

definition loadAdminEventPass :: "event \<Rightarrow> db \<Rightarrow> admin_event_pass" where
  "loadAdminEventPass e s =
    (let (sold, reserved) = seatCounts (ev_id e) (clock s) None s
     in \<lparr>aep_pricePaise = ev_passPricePaise e, aep_capacity = ev_passCapacity e,
         aep_sold = sold, aep_reserved = reserved\<rparr>)"

section \<open>How the counts move\<close>

lemma reserved_seats_later:
  "(\<And>q. q \<in> set rows \<Longrightarrow> 0 \<le> o_quantity q) \<Longrightarrow> t \<le> t' \<Longrightarrow>
    reserved_seats e t' x rows \<le> reserved_seats e t x rows"
  unfolding reserved_seats_def by (rule total_where_mono) auto

lemma reserved_seats_exclude:
  "(\<And>q. q \<in> set rows \<Longrightarrow> 0 \<le> o_quantity q) \<Longrightarrow>
    reserved_seats e t x rows \<le> total_where (\<lambda>q. o_eventId q = e \<and> o_status q = O_created \<and> t < o_expiresAt q)
      o_quantity rows"
  unfolding reserved_seats_def by (rule total_where_mono) auto

lemma sold_seats_append [simp]:
  "sold_seats e (rows @ [b]) =
    sold_seats e rows + (if b_eventId b = e \<and> b_status b = B_confirmed then b_quantity b else 0)"
  by (simp add: sold_seats_def)

lemma reserved_seats_append [simp]:
  "reserved_seats e t x (rows @ [q]) = reserved_seats e t x rows +
    (if o_eventId q = e \<and> o_status q = O_created \<and> t < o_expiresAt q \<and> o_id q \<noteq> x then o_quantity q else 0)"
  by (simp add: reserved_seats_def)

end
