(* ===== verification/Events_Admin.thy ===== *)
theory Events_Admin
  imports Pass_Availability Locations
begin

text \<open>
  Event management by administrators (\<open>modules/admin/events/admin-events.service.ts\<close>) and the slugs
  of events (\<open>modules/events/event-slug.ts\<close>). Names are ASCII texts, on which the Unicode
  normalisation of the slug changes nothing. The transactions of an upload take the public
  id it got; storing and deleting the images is in \<open>Event_Images\<close>.
\<close>

section \<open>Slugs\<close>

definition SUFFIX_ALPHABET :: string where
  "SUFFIX_ALPHABET = ''abcdefghijklmnopqrstuvwxyz0123456789''"

definition slug_char :: "char \<Rightarrow> bool" where
  "slug_char c \<longleftrightarrow> (let n = of_char c :: nat in 97 \<le> n \<and> n \<le> 122 \<or> 48 \<le> n \<and> n \<le> 57)"

text \<open>\<open>replace(/[^a-z0-9]+/g, '-')\<close>: each run of other characters becomes one hyphen.\<close>

fun hyphenate :: "string \<Rightarrow> string" where
  "hyphenate [] = []"
| "hyphenate (c # cs) =
    (if slug_char c then c # hyphenate cs
     else case hyphenate cs of
       d # ds \<Rightarrow> if d = CHR ''-'' then d # ds else CHR ''-'' # d # ds
     | [] \<Rightarrow> [CHR ''-''])"

definition strip_end :: "string \<Rightarrow> string" where
  "strip_end t = rev (dropWhile (\<lambda>c. c = CHR ''-'') (rev t))"

definition slug_base :: "string \<Rightarrow> string" where
  "slug_base name =
    strip_end (take 100 (strip_end (dropWhile (\<lambda>c. c = CHR ''-'') (hyphenate (map lower_char name)))))"

fun random_suffix :: "nat \<Rightarrow> string op" where
  "random_suffix 0 = ret []"
| "random_suffix (Suc n) =
    andThen (randomInt (length SUFFIX_ALPHABET)) (\<lambda>i.
    andThen (random_suffix n) (\<lambda>rest. ret (SUFFIX_ALPHABET ! i # rest)))"

definition createEventSlug :: "string \<Rightarrow> string op" where
  "createEventSlug name =
    andThen (random_suffix 6) (\<lambda>suffix.
    ret ((if slug_base name = [] then ''event'' else slug_base name) @ ''-'' @ suffix))"

text \<open>Five attempts to find a slug no event has.\<close>

fun try_slugs :: "nat \<Rightarrow> string \<Rightarrow> string op" where
  "try_slugs 0 name = throw Unexpected_error"
| "try_slugs (Suc n) name =
    andThen (createEventSlug name) (\<lambda>slug.
    andThen (gets (find_row events_table (\<lambda>e. ev_slug e = slug))) (\<lambda>taken.
    if taken = None then ret slug else try_slugs n name))"

definition uniqueSlug :: "string \<Rightarrow> string op" where
  "uniqueSlug name = try_slugs 5 name"

section \<open>Checks\<close>

text \<open>The date is today or later (IST) and within the horizon; the times differ in hours and minutes.\<close>

definition assertSchedule :: "date \<Rightarrow> int \<Rightarrow> int \<Rightarrow> unit op" where
  "assertSchedule eventDate startTime endTime =
    andThen now (\<lambda>t.
    let today = todayInIndia t
    in andThen (ensure (\<not> eventDate < today) (App VALIDATION_ERROR)) (\<lambda>_.
       andThen (ensure (\<not> addDays today EVENT_MAX_DAYS_AHEAD < eventDate) (App VALIDATION_ERROR)) (\<lambda>_.
       ensure (startTime div 60 \<noteq> endTime div 60) (App VALIDATION_ERROR))))"

definition assertUsableOrganizer :: "uuid \<Rightarrow> unit op" where
  "assertUsableOrganizer organizerId =
    andThen (gets (find_row organizers_table (\<lambda>g. og_id g = organizerId \<and> og_status g = Org_active)))
      (\<lambda>found. ensure (found \<noteq> None) (App VALIDATION_ERROR))"

definition audit_event :: "env \<Rightarrow> admin_actor \<Rightarrow> string \<Rightarrow> uuid \<Rightarrow> metadata \<Rightarrow> unit op" where
  "audit_event env actor action eventId metadata =
    recordAdminAction env (ac_adminId actor) action Target_event (Some eventId) metadata (ac_ip actor)"

definition getDetail :: "uuid \<Rightarrow> (event \<times> admin_event_pass) op" where
  "getDetail eventId =
    andThen (gets (by_key events_table eventId)) (\<lambda>e.
    andThen (from_option e (App NOT_FOUND)) (\<lambda>e.
    gets (\<lambda>s. (e, loadAdminEventPass e s))))"

text \<open>Locks an event that may be edited (not archived).\<close>

definition lockEditable :: "uuid \<Rightarrow> event op" where
  "lockEditable eventId =
    andThen (gets (by_key events_table eventId)) (\<lambda>e.
    andThen (from_option e (App NOT_FOUND)) (\<lambda>e.
    andThen (ensure (ev_status e \<noteq> E_archived) (App CONFLICT)) (\<lambda>_. ret e)))"

section \<open>Pass settings\<close>

definition meta_option :: "int option \<Rightarrow> meta" where
  "meta_option v = (case v of None \<Rightarrow> Meta_null | Some n \<Rightarrow> Meta_num n)"

definition update_pass_tx :: "env \<Rightarrow> admin_actor \<Rightarrow> uuid \<Rightarrow> int option \<Rightarrow> int option \<Rightarrow> unit op" where
  "update_pass_tx env actor eventId price capacity = transaction
    (andThen (lockEditable eventId) (\<lambda>e.
     andThen now (\<lambda>t.
     andThen (gets (seatCounts (ev_id e) t None)) (\<lambda>(sold, reserved).
     andThen (ensure (case capacity of None \<Rightarrow> True | Some c \<Rightarrow> \<not> c < sold + reserved) (App VALIDATION_ERROR)) (\<lambda>_.
     andThen (save events_table
       [setting ev_passPricePaise ev_passPricePaise_update price,
        setting ev_passCapacity ev_passCapacity_update capacity,
        setting ev_updatedByAdminId ev_updatedByAdminId_update (ac_adminId actor)] e) (\<lambda>_.
     audit_event env actor ''event.pass_update'' (ev_id e)
       [(''before'', Meta_list [meta_option (ev_passPricePaise e), meta_option (ev_passCapacity e)]),
        (''after'', Meta_list [meta_option price, meta_option capacity]),
        (''sold'', Meta_num sold)]))))))"

definition updatePass ::
    "env \<Rightarrow> admin_actor \<Rightarrow> uuid \<Rightarrow> int option \<Rightarrow> int option \<Rightarrow> (event \<times> admin_event_pass) op" where
  "updatePass env actor eventId price capacity =
    andThen (update_pass_tx env actor eventId price capacity) (\<lambda>_. getDetail eventId)"

section \<open>Creating and editing\<close>

record create_event =
  ce_name :: string
  ce_description :: string
  ce_organizerId :: uuid
  ce_cityId :: uuid
  ce_areaId :: "uuid option"
  ce_venueName :: string
  ce_venueAddress :: string
  ce_eventDate :: date
  ce_startTime :: int
  ce_endTime :: int
  ce_ticketUrl :: "string option"

definition new_event :: "uuid \<Rightarrow> string \<Rightarrow> create_event \<Rightarrow> uuid \<Rightarrow> instant \<Rightarrow> event" where
  "new_event i slug input adminId t =
    \<lparr>ev_id = i, ev_slug = slug, ev_name = ce_name input, ev_description = ce_description input,
      ev_organizerId = ce_organizerId input, ev_cityId = ce_cityId input, ev_areaId = ce_areaId input,
      ev_venueName = ce_venueName input, ev_venueAddress = ce_venueAddress input,
      ev_eventDate = ce_eventDate input, ev_startTime = ce_startTime input, ev_endTime = ce_endTime input,
      ev_imagePublicId = None, ev_ticketUrl = ce_ticketUrl input, ev_passPricePaise = None,
      ev_passCapacity = None, ev_status = E_draft, ev_isVerified = False, ev_verifiedAt = None,
      ev_publishedAt = None, ev_firstPublishedAt = None, ev_archivedAt = None,
      ev_createdByAdminId = adminId, ev_updatedByAdminId = adminId, ev_createdAt = t\<rparr>"

definition create_event_tx :: "env \<Rightarrow> admin_actor \<Rightarrow> string \<Rightarrow> create_event \<Rightarrow> uuid op" where
  "create_event_tx env actor slug input = transaction
    (andThen (assertValidLocation (ce_cityId input) (ce_areaId input)) (\<lambda>_.
     andThen (assertUsableOrganizer (ce_organizerId input)) (\<lambda>_.
     andThen fresh_uuid (\<lambda>i.
     andThen now (\<lambda>t.
     andThen (insert_row events_table (new_event i slug input (ac_adminId actor) t)) (\<lambda>_.
     andThen (audit_event env actor ''event.create'' i [(''name'', Meta_text (ce_name input))]) (\<lambda>_.
     ret i)))))))"

definition create_event_op :: "env \<Rightarrow> admin_actor \<Rightarrow> create_event \<Rightarrow> (event \<times> admin_event_pass) op" where
  "create_event_op env actor input =
    andThen (assertSchedule (ce_eventDate input) (ce_startTime input) (ce_endTime input)) (\<lambda>_.
    andThen (uniqueSlug (ce_name input)) (\<lambda>slug.
    andThen (create_event_tx env actor slug input) getDetail))"

text \<open>\<open>None\<close>: the field was not sent.\<close>

record update_event =
  ue_name :: "string option"
  ue_description :: "string option"
  ue_organizerId :: "uuid option"
  ue_cityId :: "uuid option"
  ue_areaId :: "uuid option option"
  ue_venueName :: "string option"
  ue_venueAddress :: "string option"
  ue_eventDate :: "date option"
  ue_startTime :: "int option"
  ue_endTime :: "int option"
  ue_ticketUrl :: "string option option"

definition changed :: "'a option \<Rightarrow> 'a \<Rightarrow> 'a option" where
  "changed v current = (case v of None \<Rightarrow> None | Some x \<Rightarrow> if x = current then None else Some x)"

definition changed_time :: "int option \<Rightarrow> int \<Rightarrow> int option" where
  "changed_time v current =
    (case v of None \<Rightarrow> None | Some x \<Rightarrow> if x div 60 = current div 60 then None else Some x)"

text \<open>The fields that really change; a new city clears the area unless one is given.\<close>

definition event_changes :: "event \<Rightarrow> update_event \<Rightarrow> update_event" where
  "event_changes e input =
    (let cityId = changed (ue_cityId input) (ev_cityId e);
         areaId = changed (ue_areaId input) (ev_areaId e)
     in \<lparr>ue_name = changed (ue_name input) (ev_name e),
         ue_description = changed (ue_description input) (ev_description e),
         ue_organizerId = changed (ue_organizerId input) (ev_organizerId e),
         ue_cityId = cityId,
         ue_areaId = (if cityId \<noteq> None \<and> ue_areaId input = None then Some None else areaId),
         ue_venueName = changed (ue_venueName input) (ev_venueName e),
         ue_venueAddress = changed (ue_venueAddress input) (ev_venueAddress e),
         ue_eventDate = changed (ue_eventDate input) (ev_eventDate e),
         ue_startTime = changed_time (ue_startTime input) (ev_startTime e),
         ue_endTime = changed_time (ue_endTime input) (ev_endTime e),
         ue_ticketUrl = changed (ue_ticketUrl input) (ev_ticketUrl e)\<rparr>)"

definition field_name :: "'a option \<Rightarrow> string \<Rightarrow> string list" where
  "field_name v name = (if v = None then [] else [name])"

text \<open>Changes of where, when or how members attend clear a verification.\<close>

definition material_fields :: "update_event \<Rightarrow> string list" where
  "material_fields c =
    field_name (ue_organizerId c) ''organizerId'' @ field_name (ue_cityId c) ''cityId'' @
    field_name (ue_areaId c) ''areaId'' @ field_name (ue_venueName c) ''venueName'' @
    field_name (ue_venueAddress c) ''venueAddress'' @ field_name (ue_eventDate c) ''eventDate'' @
    field_name (ue_startTime c) ''startTime'' @ field_name (ue_endTime c) ''endTime'' @
    field_name (ue_ticketUrl c) ''ticketUrl''"

definition changed_fields :: "update_event \<Rightarrow> string list" where
  "changed_fields c = field_name (ue_name c) ''name'' @ field_name (ue_description c) ''description'' @
    material_fields c"

definition pick :: "'a option \<Rightarrow> 'a \<Rightarrow> 'a" where
  "pick v current = (case v of None \<Rightarrow> current | Some x \<Rightarrow> x)"

definition event_settings :: "event \<Rightarrow> update_event \<Rightarrow> uuid \<Rightarrow> event setting list" where
  "event_settings e c adminId =
    [setting ev_name ev_name_update (pick (ue_name c) (ev_name e)),
     setting ev_description ev_description_update (pick (ue_description c) (ev_description e)),
     setting ev_organizerId ev_organizerId_update (pick (ue_organizerId c) (ev_organizerId e)),
     setting ev_cityId ev_cityId_update (pick (ue_cityId c) (ev_cityId e)),
     setting ev_areaId ev_areaId_update (pick (ue_areaId c) (ev_areaId e)),
     setting ev_venueName ev_venueName_update (pick (ue_venueName c) (ev_venueName e)),
     setting ev_venueAddress ev_venueAddress_update (pick (ue_venueAddress c) (ev_venueAddress e)),
     setting ev_eventDate ev_eventDate_update (pick (ue_eventDate c) (ev_eventDate e)),
     setting ev_startTime ev_startTime_update (pick (ue_startTime c) (ev_startTime e)),
     setting ev_endTime ev_endTime_update (pick (ue_endTime c) (ev_endTime e)),
     setting ev_ticketUrl ev_ticketUrl_update (pick (ue_ticketUrl c) (ev_ticketUrl e))] @
    (if ev_isVerified e \<and> material_fields c \<noteq> []
     then [setting ev_isVerified ev_isVerified_update False,
           setting ev_verifiedAt ev_verifiedAt_update None] else []) @
    [setting ev_updatedByAdminId ev_updatedByAdminId_update adminId]"

definition update_event_tx :: "env \<Rightarrow> admin_actor \<Rightarrow> uuid \<Rightarrow> update_event \<Rightarrow> unit op" where
  "update_event_tx env actor eventId input = transaction
    (andThen (lockEditable eventId) (\<lambda>e.
     let c = event_changes e input
     in if changed_fields c = [] then ret ()
        else andThen (if ue_cityId c \<noteq> None \<or> ue_areaId c \<noteq> None
          then assertValidLocation (pick (ue_cityId c) (ev_cityId e)) (pick (ue_areaId c) (ev_areaId e))
          else ret ()) (\<lambda>_.
        andThen (case ue_organizerId c of None \<Rightarrow> ret () | Some g \<Rightarrow> assertUsableOrganizer g) (\<lambda>_.
        andThen (if ue_eventDate c \<noteq> None \<or> ue_startTime c \<noteq> None \<or> ue_endTime c \<noteq> None
          then assertSchedule (pick (ue_eventDate c) (ev_eventDate e))
            (pick (ue_startTime c) (ev_startTime e)) (pick (ue_endTime c) (ev_endTime e))
          else ret ()) (\<lambda>_.
        andThen (save events_table (event_settings e c (ac_adminId actor)) e) (\<lambda>_.
        audit_event env actor ''event.update'' eventId
          [(''fields'', Meta_list (map Meta_text (changed_fields c))),
           (''verificationReset'', Meta_bool (ev_isVerified e \<and> material_fields c \<noteq> []))]))))))"

definition update_event_op ::
    "env \<Rightarrow> admin_actor \<Rightarrow> uuid \<Rightarrow> update_event \<Rightarrow> (event \<times> admin_event_pass) op" where
  "update_event_op env actor eventId input =
    andThen (update_event_tx env actor eventId input) (\<lambda>_. getDetail eventId)"

section \<open>The life cycle\<close>

primrec event_status_text :: "event_status \<Rightarrow> string" where
  "event_status_text E_draft = ''draft''"
| "event_status_text E_published = ''published''"
| "event_status_text E_archived = ''archived''"

text \<open>Locks the event, applies a state change and audits it, in one transaction.\<close>

definition transition_tx ::
    "env \<Rightarrow> admin_actor \<Rightarrow> uuid \<Rightarrow> string \<Rightarrow> (event \<Rightarrow> event setting list op) \<Rightarrow> unit op" where
  "transition_tx env actor eventId action apply_change = transaction
    (andThen (gets (by_key events_table eventId)) (\<lambda>e.
     andThen (from_option e (App NOT_FOUND)) (\<lambda>e.
     andThen (apply_change e) (\<lambda>changes.
     andThen (save events_table
       (changes @ [setting ev_updatedByAdminId ev_updatedByAdminId_update (ac_adminId actor)]) e) (\<lambda>e'.
     audit_event env actor action eventId
       [(''from'', Meta_text (event_status_text (ev_status e))),
        (''to'', Meta_text (event_status_text (ev_status e')))])))))"

definition transition_op ::
    "env \<Rightarrow> admin_actor \<Rightarrow> uuid \<Rightarrow> string \<Rightarrow> (event \<Rightarrow> event setting list op) \<Rightarrow>
      (event \<times> admin_event_pass) op" where
  "transition_op env actor eventId action apply_change =
    andThen (transition_tx env actor eventId action apply_change) (\<lambda>_. getDetail eventId)"

definition publish_change :: "event \<Rightarrow> event setting list op" where
  "publish_change e =
    andThen (ensure (ev_status e \<noteq> E_published) (App CONFLICT)) (\<lambda>_.
    andThen (ensure (ev_status e \<noteq> E_archived) (App CONFLICT)) (\<lambda>_.
    andThen now (\<lambda>t.
    andThen (ensure (\<not> ev_endsAt e \<le> t) (App CONFLICT)) (\<lambda>_.
    andThen (gets (by_key organizers_table (ev_organizerId e))) (\<lambda>g.
    andThen (gets (by_key cities_table (ev_cityId e))) (\<lambda>c.
    andThen (ensure (map_option og_status g = Some Org_active) (App CONFLICT)) (\<lambda>_.
    andThen (ensure (map_option ci_isActive c = Some True) (App CONFLICT)) (\<lambda>_.
    ret [setting ev_status ev_status_update E_published,
         setting ev_publishedAt ev_publishedAt_update (Some t),
         setting ev_firstPublishedAt ev_firstPublishedAt_update
           (case ev_firstPublishedAt e of None \<Rightarrow> Some t | Some first \<Rightarrow> Some first)]))))))))"

definition unpublish_change :: "event \<Rightarrow> event setting list op" where
  "unpublish_change e =
    andThen (ensure (ev_status e = E_published) (App CONFLICT)) (\<lambda>_.
    ret [setting ev_status ev_status_update E_draft, setting ev_publishedAt ev_publishedAt_update None])"

definition verify_change :: "event \<Rightarrow> event setting list op" where
  "verify_change e =
    andThen (ensure (ev_status e \<noteq> E_archived) (App CONFLICT)) (\<lambda>_.
    andThen (ensure (\<not> ev_isVerified e) (App CONFLICT)) (\<lambda>_.
    andThen now (\<lambda>t.
    ret [setting ev_isVerified ev_isVerified_update True,
         setting ev_verifiedAt ev_verifiedAt_update (Some t)])))"

definition unverify_change :: "event \<Rightarrow> event setting list op" where
  "unverify_change e =
    andThen (ensure (ev_isVerified e) (App CONFLICT)) (\<lambda>_.
    ret [setting ev_isVerified ev_isVerified_update False, setting ev_verifiedAt ev_verifiedAt_update None])"

definition archive_change :: "event \<Rightarrow> event setting list op" where
  "archive_change e =
    andThen (ensure (ev_status e \<noteq> E_archived) (App CONFLICT)) (\<lambda>_.
    andThen now (\<lambda>t.
    ret [setting ev_status ev_status_update E_archived,
         setting ev_archivedAt ev_archivedAt_update (Some t),
         setting ev_publishedAt ev_publishedAt_update None]))"

text \<open>Restored events come back as drafts.\<close>

definition restore_change :: "event \<Rightarrow> event setting list op" where
  "restore_change e =
    andThen (ensure (ev_status e = E_archived) (App CONFLICT)) (\<lambda>_.
    ret [setting ev_status ev_status_update E_draft, setting ev_archivedAt ev_archivedAt_update None])"

definition publish :: "env \<Rightarrow> admin_actor \<Rightarrow> uuid \<Rightarrow> (event \<times> admin_event_pass) op" where
  "publish env actor i = transition_op env actor i ''event.publish'' publish_change"

definition unpublish :: "env \<Rightarrow> admin_actor \<Rightarrow> uuid \<Rightarrow> (event \<times> admin_event_pass) op" where
  "unpublish env actor i = transition_op env actor i ''event.unpublish'' unpublish_change"

definition verify_event :: "env \<Rightarrow> admin_actor \<Rightarrow> uuid \<Rightarrow> (event \<times> admin_event_pass) op" where
  "verify_event env actor i = transition_op env actor i ''event.verify'' verify_change"

definition unverify_event :: "env \<Rightarrow> admin_actor \<Rightarrow> uuid \<Rightarrow> (event \<times> admin_event_pass) op" where
  "unverify_event env actor i = transition_op env actor i ''event.unverify'' unverify_change"

definition archive_event :: "env \<Rightarrow> admin_actor \<Rightarrow> uuid \<Rightarrow> (event \<times> admin_event_pass) op" where
  "archive_event env actor i = transition_op env actor i ''event.archive'' archive_change"

definition restore_event :: "env \<Rightarrow> admin_actor \<Rightarrow> uuid \<Rightarrow> (event \<times> admin_event_pass) op" where
  "restore_event env actor i = transition_op env actor i ''event.restore'' restore_change"

text \<open>Hard delete, only for events that were never published; returns the image to destroy.\<close>

definition remove_event :: "env \<Rightarrow> admin_actor \<Rightarrow> uuid \<Rightarrow> string option op" where
  "remove_event env actor eventId = transaction
    (andThen (gets (by_key events_table eventId)) (\<lambda>e.
     andThen (from_option e (App NOT_FOUND)) (\<lambda>e.
     andThen (ensure (ev_firstPublishedAt e = None) (App CONFLICT)) (\<lambda>_.
     andThen (delete_rows events_table (\<lambda>r. ev_id r = ev_id e)) (\<lambda>_.
     andThen (audit_event env actor ''event.delete'' eventId [(''name'', Meta_text (ev_name e))]) (\<lambda>_.
     ret (ev_imagePublicId e)))))))"

section \<open>Images\<close>

text \<open>The database part of an upload: returns the image that was replaced.\<close>

definition set_image_tx :: "env \<Rightarrow> admin_actor \<Rightarrow> uuid \<Rightarrow> string \<Rightarrow> string option op" where
  "set_image_tx env actor eventId publicId = transaction
    (andThen (lockEditable eventId) (\<lambda>e.
     andThen (save events_table
       [setting ev_imagePublicId ev_imagePublicId_update (Some publicId),
        setting ev_updatedByAdminId ev_updatedByAdminId_update (ac_adminId actor)] e) (\<lambda>_.
     andThen (audit_event env actor ''event.image_update'' eventId []) (\<lambda>_.
     ret (ev_imagePublicId e)))))"

definition delete_image_tx :: "env \<Rightarrow> admin_actor \<Rightarrow> uuid \<Rightarrow> string option op" where
  "delete_image_tx env actor eventId = transaction
    (andThen (lockEditable eventId) (\<lambda>e.
     if ev_imagePublicId e = None \<or> ev_imagePublicId e = Some [] then ret None
     else andThen (save events_table
       [setting ev_imagePublicId ev_imagePublicId_update None,
        setting ev_updatedByAdminId ev_updatedByAdminId_update (ac_adminId actor)] e) (\<lambda>_.
     andThen (audit_event env actor ''event.image_delete'' eventId []) (\<lambda>_.
     ret (ev_imagePublicId e)))))"

end
