(* ===== verification/Event_Lists.thy ===== *)
theory Event_Lists
  imports Sql_Text Events_Admin Discovery_Service
begin

text \<open>
  The lists of events: the public one (\<open>modules/events/events.service.ts\<close>, \<open>event.mapper.ts\<close>) and that of
  the administrators (\<open>modules/admin/events/admin-events.service.ts\<close>), and the sortable keyset pagination of
  \<open>lib/pagination.ts\<close>. Dates and times stay numbers; the texts of the cursors are in \<open>Cursors\<close>.
\<close>

section \<open>Ascending order\<close>

text \<open>A key in the reverse order: the descending list of rising keys is the ascending list of keys.\<close>

datatype 'a rising = Rising (key_of: 'a)

instantiation rising :: (linorder) linorder
begin

definition less_eq_rising :: "'a rising \<Rightarrow> 'a rising \<Rightarrow> bool" where
  "a \<le> b \<longleftrightarrow> key_of b \<le> key_of a"

definition less_rising :: "'a rising \<Rightarrow> 'a rising \<Rightarrow> bool" where
  "a < b \<longleftrightarrow> key_of b < key_of a"

instance
  by standard (auto simp: less_eq_rising_def less_rising_def intro: rising.expand)

end

lemma rising_less [simp]: "Rising a < Rising b \<longleftrightarrow> b < a"
  by (simp add: less_rising_def)

section \<open>Sorted pages\<close>

datatype direction = Ascending | Descending

text \<open>\<open>keysetCondition\<close>, \<open>keysetOrderBy\<close> and \<open>cursorAfter\<close> for one order: attribute, then id.\<close>

definition sorted_page :: "direction \<Rightarrow> ('r \<Rightarrow> 'k::linorder) \<Rightarrow> 'k option \<Rightarrow> nat \<Rightarrow> 'r list \<Rightarrow> 'r list \<times> 'k option" where
  "sorted_page d key c limit rows =
    (case d of
       Descending \<Rightarrow> page_of key c limit rows
     | Ascending \<Rightarrow>
         (let (page, after) = page_of (\<lambda>r. Rising (key r)) (map_option Rising c) limit rows
          in (page, map_option key_of after)))"

text \<open>A cursor names its sort: \<open>decodeSortCursor\<close> refuses it for any other sort.\<close>

definition decodeSortCursor :: "'s \<Rightarrow> ('s \<times> 'k) option \<Rightarrow> failure + 'k option" where
  "decodeSortCursor sorting c =
    (case c of
       None \<Rightarrow> Inr None
     | Some (cursorSort, k) \<Rightarrow> if cursorSort \<noteq> sorting then Inl (App VALIDATION_ERROR) else Inr (Some k))"

section \<open>What is shown of an event\<close>

record event_card =
  ec_id :: uuid
  ec_slug :: string
  ec_name :: string
  ec_city :: "uuid \<times> string"
  ec_area :: "(uuid \<times> string) option"
  ec_venueName :: string
  ec_eventDate :: date
  ec_startTime :: int
  ec_endTime :: int
  ec_startsAt :: instant
  ec_endsAt :: instant
  ec_hasEnded :: bool
  ec_image :: "string option"
  ec_isVerified :: bool
  ec_organizer :: "uuid \<times> string \<times> bool"
  ec_hasTicketUrl :: bool
  ec_passPricePaise :: "int option"

text \<open>\<open>20:00:00\<close> is shown as \<open>20:00\<close>: whole minutes.\<close>

definition toHhMm :: "int \<Rightarrow> int" where "toHhMm secs = secs div 60"

definition shown_image :: "string option \<Rightarrow> string option" where
  "shown_image i = (if i = Some [] then None else i)"

definition organizer_summary :: "event_organizer \<Rightarrow> uuid \<times> string \<times> bool" where
  "organizer_summary g = (og_id g, og_name g, og_isVerified g)"

definition toEventCardDto :: "event \<Rightarrow> city \<Rightarrow> area option \<Rightarrow> event_organizer \<Rightarrow> instant \<Rightarrow> event_card" where
  "toEventCardDto e c a g t =
    \<lparr>ec_id = ev_id e, ec_slug = ev_slug e, ec_name = ev_name e, ec_city = (ci_id c, ci_name c),
      ec_area = map_option (\<lambda>a. (ar_id a, ar_name a)) a, ec_venueName = ev_venueName e, ec_eventDate = ev_eventDate e,
      ec_startTime = toHhMm (ev_startTime e), ec_endTime = toHhMm (ev_endTime e), ec_startsAt = ev_startsAt e,
      ec_endsAt = ev_endsAt e, ec_hasEnded = (ev_endsAt e \<le> t), ec_image = shown_image (ev_imagePublicId e),
      ec_isVerified = ev_isVerified e, ec_organizer = organizer_summary g, ec_hasTicketUrl = (ev_ticketUrl e \<noteq> None),
      ec_passPricePaise = ev_passPricePaise e\<rparr>"

record public_organizer =
  po_summary :: "uuid \<times> string \<times> bool"
  po_description :: "string option"
  po_websiteUrl :: "string option"
  po_instagramHandle :: "string option"

definition toPublicOrganizerDto :: "event_organizer \<Rightarrow> public_organizer" where
  "toPublicOrganizerDto g = \<lparr>po_summary = organizer_summary g, po_description = og_description g,
    po_websiteUrl = og_websiteUrl g, po_instagramHandle = og_instagramHandle g\<rparr>"

record event_detail =
  ed_card :: event_card
  ed_description :: string
  ed_venueAddress :: string
  ed_ticketUrl :: "string option"
  ed_organizer :: public_organizer
  ed_pass :: "event_pass option"

section \<open>The public list\<close>

text \<open>\<open>PUBLIC_INCLUDE\<close>: the city must be active and the organizer exist.\<close>

definition public_parts :: "event \<Rightarrow> db \<Rightarrow> (city \<times> area option \<times> event_organizer) option" where
  "public_parts e s =
    (case (find_row cities_table (\<lambda>c. ci_id c = ev_cityId e \<and> ci_isActive c) s, by_key organizers_table (ev_organizerId e) s) of
       (Some c, Some g) \<Rightarrow> Some (c, case ev_areaId e of None \<Rightarrow> None | Some a \<Rightarrow> by_key areas_table a s, g)
     | _ \<Rightarrow> None)"

datatype event_sort = Date_asc | Date_desc

record event_query =
  eq_cityId :: "uuid option"
  eq_from :: "date option"
  eq_to :: "date option"
  eq_sort :: "event_sort option"
  eq_cursor :: "(event_sort \<times> cursor) option"
  eq_limit :: "nat option"

definition within_days :: "date option \<Rightarrow> date option \<Rightarrow> event \<Rightarrow> bool" where
  "within_days first till e \<longleftrightarrow>
    (case first of None \<Rightarrow> True | Some d \<Rightarrow> istStartOfDay d \<le> ev_startsAt e) \<and>
    (case till of None \<Rightarrow> True | Some d \<Rightarrow> ev_startsAt e < istStartOfDay (addDays d 1))"

definition listed_events :: "event_query \<Rightarrow> db \<Rightarrow> event list" where
  "listed_events q s = rows_where events_table
    (\<lambda>e. ev_status e = E_published \<and> clock s < ev_endsAt e \<and>
      (case eq_cityId q of None \<Rightarrow> True | Some c \<Rightarrow> ev_cityId e = c) \<and>
      within_days (eq_from q) (eq_to q) e \<and> public_parts e s \<noteq> None) s"

primrec PUBLIC_ORDERS :: "event_sort \<Rightarrow> direction" where
  "PUBLIC_ORDERS Date_asc = Ascending"
| "PUBLIC_ORDERS Date_desc = Descending"

definition starts_stamp :: "event \<Rightarrow> cursor" where "starts_stamp e = (ev_startsAt e, ev_id e)"


definition event_sort_of :: "event_query \<Rightarrow> event_sort" where
  "event_sort_of q = (case eq_sort q of None \<Rightarrow> Date_asc | Some x \<Rightarrow> x)"

definition cards :: "instant \<Rightarrow> event list \<Rightarrow> db \<Rightarrow> event_card list" where
  "cards t es s = concat (map (\<lambda>e. case public_parts e s of
      None \<Rightarrow> [] | Some (c, a, g) \<Rightarrow> [toEventCardDto e c a g t]) es)"

definition list_events :: "event_query \<Rightarrow> db \<Rightarrow> failure + event_card list \<times> (event_sort \<times> cursor) option" where
  "list_events q s =
    (let sorting = event_sort_of q
     in map_sum id (\<lambda>c.
       let (page, after) = sorted_page (PUBLIC_ORDERS sorting) starts_stamp c
             (page_limit (eq_limit q) EVENT_PAGE_SIZE_DEFAULT EVENT_PAGE_SIZE_MAX) (listed_events q s)
       in (cards (clock s) page s, map_option (\<lambda>k. (sorting, k)) after))
       (decodeSortCursor sorting (eq_cursor q)))"

text \<open>The route parameter is an id or a slug: a slug never has the form of an id.\<close>

definition names_event :: "js_text \<Rightarrow> event \<Rightarrow> bool" where
  "names_event idOrSlug e \<longleftrightarrow>
    (case uuid_of_text idOrSlug of Some i \<Rightarrow> ev_id e = i | None \<Rightarrow> units (ev_slug e) = idOrSlug)"

definition get_event :: "js_text \<Rightarrow> db \<Rightarrow> failure + event_detail" where
  "get_event idOrSlug s =
    (case find_row events_table
       (\<lambda>e. names_event idOrSlug e \<and> ev_status e = E_published \<and> public_parts e s \<noteq> None) s of
       None \<Rightarrow> Inl (App NOT_FOUND)
     | Some e \<Rightarrow>
         (case public_parts e s of
            None \<Rightarrow> Inl (App NOT_FOUND)
          | Some (c, a, g) \<Rightarrow> Inr
              \<lparr>ed_card = toEventCardDto e c a g (clock s), ed_description = ev_description e,
                ed_venueAddress = ev_venueAddress e, ed_ticketUrl = ev_ticketUrl e,
                ed_organizer = toPublicOrganizerDto g, ed_pass = loadEventPass e (clock s) s\<rparr>))"

section \<open>The list of the administrators\<close>

datatype admin_event_sort = By_date_asc | By_date_desc | By_created_desc | By_name_asc

record admin_event_query =
  aq_q :: js_text
  aq_status :: "event_status option"
  aq_cityId :: "uuid option"
  aq_organizerId :: "uuid option"
  aq_verified :: "bool option"
  aq_from :: "date option"
  aq_to :: "date option"
  aq_limit :: "nat option"

text \<open>By id, by a part of the name, or by the whole slug in lower case.\<close>

definition event_search :: "(code_unit \<Rightarrow> code_unit) \<Rightarrow> js_text \<Rightarrow> event \<Rightarrow> bool" where
  "event_search lower q e \<longleftrightarrow>
    (if q = [] then True
     else case uuid_of_text q of
       Some i \<Rightarrow> ev_id e = i
     | None \<Rightarrow> matches_search lower q (ev_name e) \<or> units (ev_slug e) = map lower q)"

definition optional :: "'a option \<Rightarrow> 'a \<Rightarrow> bool" where
  "optional v x \<longleftrightarrow> (case v of None \<Rightarrow> True | Some y \<Rightarrow> x = y)"

definition admin_listed_events :: "(code_unit \<Rightarrow> code_unit) \<Rightarrow> admin_event_query \<Rightarrow> db \<Rightarrow> event list" where
  "admin_listed_events lower q s = rows_where events_table
    (\<lambda>e. optional (aq_status q) (ev_status e) \<and> optional (aq_cityId q) (ev_cityId e) \<and>
      optional (aq_organizerId q) (ev_organizerId e) \<and> optional (aq_verified q) (ev_isVerified e) \<and>
      within_days (aq_from q) (aq_to q) e \<and> event_search lower (aq_q q) e) s"

text \<open>Names are compared with the collation of the database.\<close>

definition name_stamp :: "(string \<Rightarrow> 'c::linorder) \<Rightarrow> event \<Rightarrow> 'c \<times> uuid" where
  "name_stamp collate e = (collate (ev_name e), ev_id e)"

definition created_stamp :: "event \<Rightarrow> cursor" where "created_stamp e = (ev_createdAt e, ev_id e)"

text \<open>The cursor of a sort by date, and the one of a sort by name.\<close>

datatype 'c event_cursor = At_date admin_event_sort cursor | At_name 'c uuid

definition admin_event_page :: "(string \<Rightarrow> 'c::linorder) \<Rightarrow> admin_event_sort \<Rightarrow> 'c event_cursor option \<Rightarrow> nat \<Rightarrow>
    event list \<Rightarrow> failure + event list \<times> 'c event_cursor option" where
  "admin_event_page collate sorting c limit rows =
    (let by_date = (\<lambda>d stamp. map_sum id (\<lambda>k.
           let (page, after) = sorted_page d stamp k limit rows in (page, map_option (At_date sorting) after))
           (case c of
              None \<Rightarrow> Inr None
            | Some (At_date cursorSort k) \<Rightarrow> if cursorSort \<noteq> sorting then Inl (App VALIDATION_ERROR) else Inr (Some k)
            | Some (At_name _ _) \<Rightarrow> Inl (App VALIDATION_ERROR)))
     in case sorting of
          By_date_asc \<Rightarrow> by_date Ascending starts_stamp
        | By_date_desc \<Rightarrow> by_date Descending starts_stamp
        | By_created_desc \<Rightarrow> by_date Descending created_stamp
        | By_name_asc \<Rightarrow>
            map_sum id (\<lambda>k.
              let (page, after) = sorted_page Ascending (name_stamp collate) k limit rows
              in (page, map_option (\<lambda>(n, i). At_name n i) after))
              (case c of
                 None \<Rightarrow> Inr None
               | Some (At_name n i) \<Rightarrow> Inr (Some (n, i))
               | Some (At_date _ _) \<Rightarrow> Inl (App VALIDATION_ERROR)))"

record admin_event_item =
  aei_event :: event
  aei_city :: "uuid \<times> string"
  aei_organizer :: "uuid \<times> string \<times> bool"
  aei_hasEnded :: bool
  aei_image :: "string option"

text \<open>The mapper throws when the city or the organizer is missing.\<close>

definition toAdminEventListItemDto :: "db \<Rightarrow> event \<Rightarrow> failure + admin_event_item" where
  "toAdminEventListItemDto s e =
    (case (by_key cities_table (ev_cityId e) s, by_key organizers_table (ev_organizerId e) s) of
       (Some c, Some g) \<Rightarrow> Inr
         \<lparr>aei_event = e, aei_city = (ci_id c, ci_name c), aei_organizer = organizer_summary g,
           aei_hasEnded = (ev_endsAt e \<le> clock s), aei_image = shown_image (ev_imagePublicId e)\<rparr>
     | _ \<Rightarrow> Inl Unexpected_error)"

fun map_results :: "('a \<Rightarrow> 'e + 'b) \<Rightarrow> 'a list \<Rightarrow> 'e + 'b list" where
  "map_results f [] = Inr []"
| "map_results f (x # xs) =
    (case f x of Inl e \<Rightarrow> Inl e
     | Inr y \<Rightarrow> (case map_results f xs of Inl e \<Rightarrow> Inl e | Inr ys \<Rightarrow> Inr (y # ys)))"

definition admin_list_events ::
    "(code_unit \<Rightarrow> code_unit) \<Rightarrow> (string \<Rightarrow> 'c::linorder) \<Rightarrow> admin_event_query \<Rightarrow> admin_event_sort option \<Rightarrow>
      'c event_cursor option \<Rightarrow> db \<Rightarrow> failure + admin_event_item list \<times> 'c event_cursor option" where
  "admin_list_events lower collate q sorting c s =
    (case admin_event_page collate (case sorting of None \<Rightarrow> By_created_desc | Some x \<Rightarrow> x) c
       (page_limit (aq_limit q) ADMIN_PAGE_SIZE_DEFAULT ADMIN_PAGE_SIZE_MAX) (admin_listed_events lower q s) of
       Inl e \<Rightarrow> Inl e
     | Inr (page, after) \<Rightarrow> map_sum id (\<lambda>items. (items, after)) (map_results (toAdminEventListItemDto s) page))"

end
