(* ===== verification/Organizers.thy ===== *)
theory Organizers
  imports Event_Lists
begin

text \<open>
  Event organizers (\<open>modules/admin/organizers/admin-organizers.service.ts\<close>). Contact details are shown only
  to those who manage events; every write is audited, with the names of the changed fields only.
\<close>

section \<open>Views\<close>

record organizer_contact =
  oc_contactName :: "string option"
  oc_contactEmail :: "string option"
  oc_contactPhone :: "string option"
  oc_notes :: "string option"

record admin_organizer =
  ao_id :: uuid
  ao_name :: string
  ao_isVerified :: bool
  ao_status :: organizer_status
  ao_description :: "string option"
  ao_websiteUrl :: "string option"
  ao_instagramHandle :: "string option"
  ao_contact :: "organizer_contact option"
  ao_totalEvents :: nat
  ao_upcomingEvents :: nat

definition contact_of :: "event_organizer \<Rightarrow> organizer_contact" where
  "contact_of g = \<lparr>oc_contactName = og_contactName g, oc_contactEmail = og_contactEmail g,
    oc_contactPhone = og_contactPhone g, oc_notes = og_notes g\<rparr>"

definition upcoming_published :: "uuid \<Rightarrow> db \<Rightarrow> nat" where
  "upcoming_published organizerId s =
    count_where (\<lambda>e. ev_organizerId e = organizerId \<and> ev_status e = E_published \<and> clock s < ev_endsAt e) (t_events s)"

definition toAdminOrganizerDto :: "event_organizer \<Rightarrow> bool \<Rightarrow> nat \<Rightarrow> nat \<Rightarrow> admin_organizer" where
  "toAdminOrganizerDto g includeContact n upcoming =
    \<lparr>ao_id = og_id g, ao_name = og_name g, ao_isVerified = og_isVerified g, ao_status = og_status g,
      ao_description = og_description g, ao_websiteUrl = og_websiteUrl g, ao_instagramHandle = og_instagramHandle g,
      ao_contact = (if includeContact then Some (contact_of g) else None), ao_totalEvents = n,
      ao_upcomingEvents = upcoming\<rparr>"

definition organizer_detail_of :: "uuid \<Rightarrow> bool \<Rightarrow> db \<Rightarrow> failure + admin_organizer" where
  "organizer_detail_of organizerId canSeeContact s =
    (case by_key organizers_table organizerId s of
       None \<Rightarrow> Inl (App NOT_FOUND)
     | Some g \<Rightarrow> Inr (toAdminOrganizerDto g canSeeContact (count_where (\<lambda>e. ev_organizerId e = organizerId) (t_events s))
         (upcoming_published organizerId s)))"

definition organizer_detail :: "uuid \<Rightarrow> bool \<Rightarrow> admin_organizer op" where
  "organizer_detail organizerId canSeeContact = andThen (gets (organizer_detail_of organizerId canSeeContact)) from_sum"

section \<open>Lists\<close>

record organizer_query =
  oq_q :: js_text
  oq_status :: "organizer_status option"
  oq_verified :: "bool option"
  oq_limit :: "nat option"

definition organizer_stamp :: "(string \<Rightarrow> 'c::linorder) \<Rightarrow> event_organizer \<Rightarrow> 'c \<times> uuid" where
  "organizer_stamp collate g = (collate (og_name g), og_id g)"

definition listed_organizers :: "(code_unit \<Rightarrow> code_unit) \<Rightarrow> organizer_query \<Rightarrow> db \<Rightarrow> event_organizer list" where
  "listed_organizers lower q s = rows_where organizers_table
    (\<lambda>g. optional (oq_status q) (og_status g) \<and> optional (oq_verified q) (og_isVerified g) \<and>
      (oq_q q = [] \<or> matches_search lower (oq_q q) (og_name g))) s"

definition list_organizers ::
    "(code_unit \<Rightarrow> code_unit) \<Rightarrow> (string \<Rightarrow> 'c::linorder) \<Rightarrow> organizer_query \<Rightarrow> ('c \<times> uuid) option \<Rightarrow> db \<Rightarrow>
      event_organizer list \<times> ('c \<times> uuid) option" where
  "list_organizers lower collate q c s = sorted_page Ascending (organizer_stamp collate) c
    (page_limit (oq_limit q) ADMIN_PAGE_SIZE_DEFAULT ADMIN_PAGE_SIZE_MAX) (listed_organizers lower q s)"

definition ORGANIZER_OPTIONS_MAX :: nat where [limits]: "ORGANIZER_OPTIONS_MAX = 500"

definition organizer_options :: "(string \<Rightarrow> 'c::linorder) \<Rightarrow> db \<Rightarrow> (uuid \<times> string \<times> bool) list" where
  "organizer_options collate s = map organizer_summary (take ORGANIZER_OPTIONS_MAX
    (sort_key (organizer_stamp collate) (rows_where organizers_table (\<lambda>g. og_status g = Org_active) s)))"

section \<open>Creating and editing\<close>

record create_organizer =
  co_name :: string
  co_description :: "string option"
  co_websiteUrl :: "string option"
  co_instagramHandle :: "string option"
  co_contactName :: "string option"
  co_contactEmail :: "string option"
  co_contactPhone :: "string option"
  co_notes :: "string option"

definition audit_organizer :: "env \<Rightarrow> admin_actor \<Rightarrow> string \<Rightarrow> uuid \<Rightarrow> metadata \<Rightarrow> unit op" where
  "audit_organizer env actor action organizerId metadata =
    recordAdminAction env (ac_adminId actor) action Target_organizer (Some organizerId) metadata (ac_ip actor)"

definition new_organizer :: "uuid \<Rightarrow> uuid \<Rightarrow> create_organizer \<Rightarrow> instant \<Rightarrow> event_organizer" where
  "new_organizer i adminId input t =
    \<lparr>og_id = i, og_name = co_name input, og_description = co_description input, og_websiteUrl = co_websiteUrl input,
      og_instagramHandle = co_instagramHandle input, og_contactName = co_contactName input,
      og_contactEmail = co_contactEmail input, og_contactPhone = co_contactPhone input, og_notes = co_notes input,
      og_status = Org_active, og_isVerified = False, og_verifiedAt = None, og_archivedAt = None,
      og_createdByAdminId = adminId, og_updatedByAdminId = adminId, og_createdAt = t\<rparr>"

text \<open>A name that is taken is reported as a conflict.\<close>

definition duplicate_name :: "failure \<Rightarrow> failure" where
  "duplicate_name e = (if e = Unique_violation then App CONFLICT else e)"

definition create_organizer_tx :: "env \<Rightarrow> admin_actor \<Rightarrow> create_organizer \<Rightarrow> uuid op" where
  "create_organizer_tx env actor input = transaction
    (andThen fresh_uuid (\<lambda>i.
     andThen now (\<lambda>t.
     andThen (insert_row organizers_table (new_organizer i (ac_adminId actor) input t)) (\<lambda>_.
     andThen (audit_organizer env actor ''organizer.create'' i [(''name'', Meta_text (co_name input))]) (\<lambda>_.
     ret i)))))"

definition create_organizer_op :: "env \<Rightarrow> admin_actor \<Rightarrow> create_organizer \<Rightarrow> admin_organizer op" where
  "create_organizer_op env actor input =
    andThen (tryCatch (create_organizer_tx env actor input) (\<lambda>e. throw (duplicate_name e))) (\<lambda>i.
    organizer_detail i True)"

record update_organizer =
  uo_name :: "string option"
  uo_description :: "string option option"
  uo_websiteUrl :: "string option option"
  uo_instagramHandle :: "string option option"
  uo_contactName :: "string option option"
  uo_contactEmail :: "string option option"
  uo_contactPhone :: "string option option"
  uo_notes :: "string option option"

text \<open>The fields that really change.\<close>

definition organizer_changes :: "event_organizer \<Rightarrow> update_organizer \<Rightarrow> update_organizer" where
  "organizer_changes g input =
    \<lparr>uo_name = changed (uo_name input) (og_name g), uo_description = changed (uo_description input) (og_description g),
      uo_websiteUrl = changed (uo_websiteUrl input) (og_websiteUrl g),
      uo_instagramHandle = changed (uo_instagramHandle input) (og_instagramHandle g),
      uo_contactName = changed (uo_contactName input) (og_contactName g),
      uo_contactEmail = changed (uo_contactEmail input) (og_contactEmail g),
      uo_contactPhone = changed (uo_contactPhone input) (og_contactPhone g),
      uo_notes = changed (uo_notes input) (og_notes g)\<rparr>"

text \<open>How an organizer presents itself: a change clears the verified badge.\<close>

definition identity_fields :: "update_organizer \<Rightarrow> string list" where
  "identity_fields c = field_name (uo_name c) ''name'' @ field_name (uo_websiteUrl c) ''websiteUrl'' @
    field_name (uo_instagramHandle c) ''instagramHandle''"

definition organizer_fields :: "update_organizer \<Rightarrow> string list" where
  "organizer_fields c = field_name (uo_name c) ''name'' @ field_name (uo_description c) ''description'' @
    field_name (uo_websiteUrl c) ''websiteUrl'' @ field_name (uo_instagramHandle c) ''instagramHandle'' @
    field_name (uo_contactName c) ''contactName'' @ field_name (uo_contactEmail c) ''contactEmail'' @
    field_name (uo_contactPhone c) ''contactPhone'' @ field_name (uo_notes c) ''notes''"

definition organizer_settings :: "event_organizer \<Rightarrow> update_organizer \<Rightarrow> uuid \<Rightarrow> event_organizer setting list" where
  "organizer_settings g c adminId =
    [setting og_name og_name_update (pick (uo_name c) (og_name g)),
     setting og_description og_description_update (pick (uo_description c) (og_description g)),
     setting og_websiteUrl og_websiteUrl_update (pick (uo_websiteUrl c) (og_websiteUrl g)),
     setting og_instagramHandle og_instagramHandle_update (pick (uo_instagramHandle c) (og_instagramHandle g)),
     setting og_contactName og_contactName_update (pick (uo_contactName c) (og_contactName g)),
     setting og_contactEmail og_contactEmail_update (pick (uo_contactEmail c) (og_contactEmail g)),
     setting og_contactPhone og_contactPhone_update (pick (uo_contactPhone c) (og_contactPhone g)),
     setting og_notes og_notes_update (pick (uo_notes c) (og_notes g))] @
    (if og_isVerified g \<and> identity_fields c \<noteq> []
     then [setting og_isVerified og_isVerified_update False, setting og_verifiedAt og_verifiedAt_update None] else []) @
    [setting og_updatedByAdminId og_updatedByAdminId_update adminId]"

definition update_organizer_tx :: "env \<Rightarrow> admin_actor \<Rightarrow> uuid \<Rightarrow> update_organizer \<Rightarrow> unit op" where
  "update_organizer_tx env actor organizerId input = transaction
    (andThen (gets (by_key organizers_table organizerId)) (\<lambda>found.
     andThen (from_option found (App NOT_FOUND)) (\<lambda>g.
     andThen (ensure (og_status g \<noteq> Org_archived) (App CONFLICT)) (\<lambda>_.
     let c = organizer_changes g input
     in if organizer_fields c = [] then ret ()
        else andThen (save organizers_table (organizer_settings g c (ac_adminId actor)) g) (\<lambda>_.
          audit_organizer env actor ''organizer.update'' organizerId
            [(''fields'', Meta_list (map Meta_text (organizer_fields c))),
             (''verificationReset'', Meta_bool (og_isVerified g \<and> identity_fields c \<noteq> []))])))))"

definition update_organizer_op :: "env \<Rightarrow> admin_actor \<Rightarrow> uuid \<Rightarrow> update_organizer \<Rightarrow> admin_organizer op" where
  "update_organizer_op env actor organizerId input =
    andThen (tryCatch (update_organizer_tx env actor organizerId input) (\<lambda>e. throw (duplicate_name e))) (\<lambda>_.
    organizer_detail organizerId True)"

section \<open>The life cycle\<close>

definition organizer_transition_tx ::
    "env \<Rightarrow> admin_actor \<Rightarrow> uuid \<Rightarrow> string \<Rightarrow> (event_organizer \<Rightarrow> event_organizer setting list op) \<Rightarrow> unit op" where
  "organizer_transition_tx env actor organizerId action apply_change = transaction
    (andThen (gets (by_key organizers_table organizerId)) (\<lambda>found.
     andThen (from_option found (App NOT_FOUND)) (\<lambda>g.
     andThen (apply_change g) (\<lambda>changes.
     andThen (save organizers_table
       (changes @ [setting og_updatedByAdminId og_updatedByAdminId_update (ac_adminId actor)]) g) (\<lambda>_.
     audit_organizer env actor action organizerId [])))))"

definition organizer_transition ::
    "env \<Rightarrow> admin_actor \<Rightarrow> uuid \<Rightarrow> string \<Rightarrow> (event_organizer \<Rightarrow> event_organizer setting list op) \<Rightarrow> admin_organizer op" where
  "organizer_transition env actor organizerId action apply_change =
    andThen (organizer_transition_tx env actor organizerId action apply_change) (\<lambda>_. organizer_detail organizerId True)"

definition verify_organizer_change :: "event_organizer \<Rightarrow> event_organizer setting list op" where
  "verify_organizer_change g =
    andThen (ensure (og_status g \<noteq> Org_archived) (App CONFLICT)) (\<lambda>_.
    andThen (ensure (\<not> og_isVerified g) (App CONFLICT)) (\<lambda>_.
    andThen now (\<lambda>t.
    ret [setting og_isVerified og_isVerified_update True, setting og_verifiedAt og_verifiedAt_update (Some t)])))"

definition unverify_organizer_change :: "event_organizer \<Rightarrow> event_organizer setting list op" where
  "unverify_organizer_change g =
    andThen (ensure (og_isVerified g) (App CONFLICT)) (\<lambda>_.
    ret [setting og_isVerified og_isVerified_update False, setting og_verifiedAt og_verifiedAt_update None])"

definition archive_organizer_change :: "event_organizer \<Rightarrow> event_organizer setting list op" where
  "archive_organizer_change g =
    andThen (ensure (og_status g \<noteq> Org_archived) (App CONFLICT)) (\<lambda>_.
    andThen (gets (upcoming_published (og_id g))) (\<lambda>upcoming.
    andThen (ensure (\<not> 0 < upcoming) (App CONFLICT)) (\<lambda>_.
    andThen now (\<lambda>t.
    ret [setting og_status og_status_update Org_archived, setting og_archivedAt og_archivedAt_update (Some t)]))))"

definition restore_organizer_change :: "event_organizer \<Rightarrow> event_organizer setting list op" where
  "restore_organizer_change g =
    andThen (ensure (og_status g = Org_archived) (App CONFLICT)) (\<lambda>_.
    ret [setting og_status og_status_update Org_active, setting og_archivedAt og_archivedAt_update None])"

definition verify_organizer :: "env \<Rightarrow> admin_actor \<Rightarrow> uuid \<Rightarrow> admin_organizer op" where
  "verify_organizer env actor i = organizer_transition env actor i ''organizer.verify'' verify_organizer_change"

definition unverify_organizer :: "env \<Rightarrow> admin_actor \<Rightarrow> uuid \<Rightarrow> admin_organizer op" where
  "unverify_organizer env actor i = organizer_transition env actor i ''organizer.unverify'' unverify_organizer_change"

definition archive_organizer :: "env \<Rightarrow> admin_actor \<Rightarrow> uuid \<Rightarrow> admin_organizer op" where
  "archive_organizer env actor i = organizer_transition env actor i ''organizer.archive'' archive_organizer_change"

definition restore_organizer :: "env \<Rightarrow> admin_actor \<Rightarrow> uuid \<Rightarrow> admin_organizer op" where
  "restore_organizer env actor i = organizer_transition env actor i ''organizer.restore'' restore_organizer_change"

end
