(* ===== verification/Attendance.thy ===== *)
theory Attendance
  imports Event_Lists
begin

text \<open>
  Attendance at events (\<open>modules/events/attendance.service.ts\<close>): private to the member, seen by others only
  through reciprocal discovery at an event.
\<close>

record set_attendance_data =
  sa_status :: attendance_status
  sa_lookingForPartner :: bool

record my_attendance =
  ma_eventId :: uuid
  ma_status :: attendance_status
  ma_lookingForPartner :: bool

definition toAttendanceDto :: "event_attendance \<Rightarrow> my_attendance" where
  "toAttendanceDto a = \<lparr>ma_eventId = at_eventId a, ma_status = at_status a, ma_lookingForPartner = at_lookingForPartner a\<rparr>"

text \<open>Attendance changes only at published events that have not ended.\<close>

definition assertOpen :: "uuid \<Rightarrow> unit op" where
  "assertOpen eventId =
    andThen (gets (find_row events_table (\<lambda>e. ev_id e = eventId \<and> ev_status e = E_published))) (\<lambda>found.
    andThen (from_option found (App NOT_FOUND)) (\<lambda>e.
    andThen now (\<lambda>t. ensure (\<not> ev_endsAt e \<le> t) (App EVENT_NOT_OPEN))))"

definition attendance_of :: "uuid \<Rightarrow> uuid \<Rightarrow> db \<Rightarrow> event_attendance option" where
  "attendance_of userId eventId s = find_row attendances_table (\<lambda>a. at_userId a = userId \<and> at_eventId a = eventId) s"

definition get_attendance :: "uuid \<Rightarrow> uuid \<Rightarrow> db \<Rightarrow> my_attendance option" where
  "get_attendance userId eventId s = map_option toAttendanceDto (attendance_of userId eventId s)"

definition find_or_create_attendance :: "uuid \<Rightarrow> uuid \<Rightarrow> set_attendance_data \<Rightarrow> (event_attendance \<times> bool) op" where
  "find_or_create_attendance userId eventId input =
    andThen (gets (attendance_of userId eventId)) (\<lambda>found.
    case found of
      Some a \<Rightarrow> ret (a, False)
    | None \<Rightarrow>
        andThen fresh_uuid (\<lambda>i.
        andThen now (\<lambda>t.
        let a = \<lparr>at_id = i, at_eventId = eventId, at_userId = userId, at_status = sa_status input,
              at_lookingForPartner = sa_lookingForPartner input, at_createdAt = t\<rparr>
        in andThen (insert_row attendances_table a) (\<lambda>_. ret (a, True)))))"

definition set_attendance :: "uuid \<Rightarrow> uuid \<Rightarrow> set_attendance_data \<Rightarrow> my_attendance op" where
  "set_attendance userId eventId input =
    andThen (assertOpen eventId) (\<lambda>_.
    andThen (find_or_create_attendance userId eventId input) (\<lambda>(a, created).
    andThen (if created then ret a
      else save attendances_table
        [setting at_status at_status_update (sa_status input),
         setting at_lookingForPartner at_lookingForPartner_update (sa_lookingForPartner input)] a) (\<lambda>a.
    ret (toAttendanceDto a))))"

definition clear_attendance :: "uuid \<Rightarrow> uuid \<Rightarrow> unit op" where
  "clear_attendance userId eventId =
    andThen (assertOpen eventId) (\<lambda>_.
    delete_rows attendances_table (\<lambda>a. at_userId a = userId \<and> at_eventId a = eventId))"

text \<open>The member's attendance at upcoming published events, soonest first.\<close>

record my_event_attendance =
  mea_attendance :: my_attendance
  mea_event :: event
  mea_city :: "uuid \<times> string"

definition upcoming_event :: "db \<Rightarrow> event_attendance \<Rightarrow> event option" where
  "upcoming_event s a =
    find_row events_table (\<lambda>e. ev_id e = at_eventId a \<and> ev_status e = E_published \<and> clock s < ev_endsAt e) s"

definition list_my_attendance :: "uuid \<Rightarrow> db \<Rightarrow> my_event_attendance list" where
  "list_my_attendance userId s =
    (let joined = concat (map (\<lambda>a. case upcoming_event s a of None \<Rightarrow> [] | Some e \<Rightarrow> [(a, e)])
           (rows_where attendances_table (\<lambda>a. at_userId a = userId) s))
     in concat (map (\<lambda>(a, e). case by_key cities_table (ev_cityId e) s of
            None \<Rightarrow> []
          | Some c \<Rightarrow> [\<lparr>mea_attendance = toAttendanceDto a, mea_event = e, mea_city = (ci_id c, ci_name c)\<rparr>])
          (sort_key (\<lambda>(a, e). ev_startsAt e) joined)))"

end
