(* ===== verification/Admin_Users.thy ===== *)
theory Admin_Users
  imports Sql_Text Profile_Service Sanctions Auth
begin

text \<open>
  Administration of members (\<open>modules/admin/users/admin-users.service.ts\<close>): the searchable list, the detail
  view, sanctions and the restriction of interactions. The HMAC of phone numbers and the lower-casing of the
  database are parameters.
\<close>

section \<open>The detail view\<close>

record connection_summary =
  cs_activeMatches :: nat
  cs_pendingInterestsSent :: nat
  cs_pendingInterestsReceived :: nat
  cs_interestsSentLast24h :: nat

definition connectionSummary :: "uuid \<Rightarrow> db \<Rightarrow> connection_summary" where
  "connectionSummary userId s =
    \<lparr>cs_activeMatches = count_where (\<lambda>m. m_status m = M_active \<and> (m_userAId m = userId \<or> m_userBId m = userId)) (t_matches s),
      cs_pendingInterestsSent =
        count_where (\<lambda>x. i_senderId x = userId \<and> i_status x = I_pending \<and> clock s < i_expiresAt x) (t_interests s),
      cs_pendingInterestsReceived =
        count_where (\<lambda>x. i_receiverId x = userId \<and> i_status x = I_pending \<and> clock s < i_expiresAt x) (t_interests s),
      cs_interestsSentLast24h =
        count_where (\<lambda>x. i_senderId x = userId \<and> clock s - 24 * 60 * 60 * 1000 < i_createdAt x) (t_interests s)\<rparr>"

record admin_user_detail =
  ud_user :: user
  ud_completion :: profile_completion
  ud_openReportCount :: nat
  ud_connections :: connection_summary
  ud_sanctions :: "user_sanction list"
  ud_activeSessionCount :: nat
  ud_profile :: "own_profile option"
  ud_preferences :: "preferences_dto option"
  ud_verifications :: "user_verification list"

definition user_detail_of :: "uuid \<Rightarrow> db \<Rightarrow> failure + admin_user_detail" where
  "user_detail_of userId s =
    (let profile = profile_of userId s; today = todayInIndia (clock s)
     in case live_account userId s of
          None \<Rightarrow> Inl (App NOT_FOUND)
        | Some u \<Rightarrow>
            (let dto = (\<lambda>own.
               \<lparr>ud_user = u, ud_completion = computeCompletion profile today,
                 ud_openReportCount = count_where (\<lambda>r. rp_reportedUserId r = userId \<and>
                   (rp_status r = R_open \<or> rp_status r = R_in_review)) (t_reports s),
                 ud_connections = connectionSummary userId s, ud_sanctions = loadSanctionHistory userId s,
                 ud_activeSessionCount = count_where (\<lambda>x. s_userId x = userId \<and> s_revokedAt x = None \<and>
                   clock s < s_expiresAt x) (t_sessions s),
                 ud_profile = own, ud_preferences = map_option toPreferencesDto (preference_of userId s),
                 ud_verifications = take 10 (sort_desc uv_createdAt
                   (rows_where verifications_table (\<lambda>v. uv_userId v = userId) s))\<rparr>)
             in case profile of
                  None \<Rightarrow> Inr (dto None)
                | Some p \<Rightarrow> map_sum id (\<lambda>own. dto (Some own)) (toOwnProfileDto p today s)))"

definition user_detail :: "uuid \<Rightarrow> admin_user_detail op" where
  "user_detail userId = andThen (gets (user_detail_of userId)) from_sum"

section \<open>The list\<close>

definition ascii_text :: "js_text \<Rightarrow> string" where
  "ascii_text t = map (\<lambda>c. char_of (nat c)) t"

text \<open>
  \<open>searchWhere\<close>: the id, the HMAC of a mobile number (the number itself is never stored), or a part of the
  name; a member without a profile has no name.
\<close>

definition searchWhere ::
    "env \<Rightarrow> string \<Rightarrow> (code_unit \<Rightarrow> code_unit) \<Rightarrow> js_text \<Rightarrow> failure + (user \<Rightarrow> db \<Rightarrow> bool)" where
  "searchWhere env secret lower q =
    (case uuid_of_text q of
       Some i \<Rightarrow> Inr (\<lambda>u _. u_id u = i)
     | None \<Rightarrow>
         (case normalizeIndianMobile q of
            Some phone \<Rightarrow> map_sum id (\<lambda>hash u _. u_phoneHash u = Some hash) (hashPhone env (ascii_text phone) secret)
          | None \<Rightarrow> Inr (\<lambda>u s. case profile_of (u_id u) s of
              None \<Rightarrow> False | Some p \<Rightarrow> matches_search lower q (pf_displayName p))))"

record admin_user_query =
  uq_q :: js_text
  uq_status :: "user_status option"
  uq_cursor :: "cursor option"
  uq_limit :: "nat option"

record admin_user_item =
  ui_id :: uuid
  ui_name :: "string option"
  ui_accountStatus :: user_status
  ui_completion :: profile_completion
  ui_photoVerified :: bool
  ui_city :: "string option"
  ui_thumbnail :: "string option"
  ui_createdAt :: instant
  ui_lastActiveAt :: "instant option"

definition toUserItem :: "db \<Rightarrow> user \<Rightarrow> admin_user_item" where
  "toUserItem s u =
    (let profile = profile_of (u_id u) s
     in \<lparr>ui_id = u_id u, ui_name = map_option pf_displayName profile, ui_accountStatus = u_status u,
          ui_completion = computeCompletion profile (todayInIndia (clock s)), ui_photoVerified = (u_photoVerifiedAt u \<noteq> None),
          ui_city = (case profile of None \<Rightarrow> None | Some p \<Rightarrow> map_option ci_name (by_key cities_table (pf_cityId p) s)),
          ui_thumbnail = (case profile of None \<Rightarrow> None | Some p \<Rightarrow> toImageDto p),
          ui_createdAt = u_createdAt u, ui_lastActiveAt = u_lastActiveAt u\<rparr>)"

definition user_stamp :: "user \<Rightarrow> cursor" where "user_stamp u = (u_createdAt u, u_id u)"

definition listed_users :: "admin_user_query \<Rightarrow> (user \<Rightarrow> db \<Rightarrow> bool) \<Rightarrow> db \<Rightarrow> user list" where
  "listed_users q search s = rows_where users_table
    (\<lambda>u. u_deletedAt u = None \<and> (case uq_status q of None \<Rightarrow> True | Some st \<Rightarrow> u_status u = st) \<and> search u s) s"

definition list_users :: "env \<Rightarrow> string \<Rightarrow> (code_unit \<Rightarrow> code_unit) \<Rightarrow> admin_user_query \<Rightarrow> db \<Rightarrow>
    failure + admin_user_item list \<times> cursor option" where
  "list_users env secret lower q s =
    (case (if uq_q q = [] then Inr (\<lambda>_ _. True) else searchWhere env secret lower (uq_q q)) of
       Inl e \<Rightarrow> Inl e
     | Inr search \<Rightarrow>
         (let (page, cursor) = page_of user_stamp (uq_cursor q)
                (page_limit (uq_limit q) ADMIN_PAGE_SIZE_DEFAULT ADMIN_PAGE_SIZE_MAX) (listed_users q search s)
          in Inr (map (toUserItem s) page, cursor)))"

section \<open>Sanctions\<close>

record sanction_data =
  sd_reason :: string
  sd_reasonCode :: "report_reason option"
  sd_durationDays :: "int option"

definition sanction_data_input :: "uuid \<Rightarrow> sanction_type \<Rightarrow> sanction_data \<Rightarrow> sanction_input" where
  "sanction_data_input userId type input =
    \<lparr>si_userId = userId, si_type = type,
      si_reasonCode = (case sd_reasonCode input of None \<Rightarrow> Other | Some r \<Rightarrow> r),
      si_note = sd_reason input, si_reportId = None, si_durationDays = sd_durationDays input, si_reuseActive = False\<rparr>"

definition sanction_user :: "env \<Rightarrow> admin_actor \<Rightarrow> uuid \<Rightarrow> sanction_type \<Rightarrow> sanction_data \<Rightarrow> admin_user_detail op" where
  "sanction_user env actor userId type input =
    andThen (transaction (applySanction env actor (sanction_data_input userId type input))) (\<lambda>applied.
    andThen (applySanctionEffects env (ap_effects applied)) (\<lambda>_.
    user_detail userId))"

definition lift_user :: "env \<Rightarrow> admin_actor \<Rightarrow> uuid \<Rightarrow> sanction_type \<Rightarrow> string \<Rightarrow> admin_user_detail op" where
  "lift_user env actor userId type reason =
    andThen (transaction (liftSanction env actor userId type reason)) (\<lambda>_.
    andThen (notify env (safety_notice userId Restriction_lifted)) (\<lambda>_.
    user_detail userId))"

definition warn_user :: "env \<Rightarrow> admin_actor \<Rightarrow> uuid \<Rightarrow> sanction_data \<Rightarrow> admin_user_detail op" where
  "warn_user env actor userId = sanction_user env actor userId Warning"

definition restrict_chat :: "env \<Rightarrow> admin_actor \<Rightarrow> uuid \<Rightarrow> sanction_data \<Rightarrow> admin_user_detail op" where
  "restrict_chat env actor userId = sanction_user env actor userId Chat_restriction"

definition lift_chat_restriction :: "env \<Rightarrow> admin_actor \<Rightarrow> uuid \<Rightarrow> string \<Rightarrow> admin_user_detail op" where
  "lift_chat_restriction env actor userId = lift_user env actor userId Chat_restriction"

definition suspend_user :: "env \<Rightarrow> admin_actor \<Rightarrow> uuid \<Rightarrow> sanction_data \<Rightarrow> admin_user_detail op" where
  "suspend_user env actor userId = sanction_user env actor userId Suspension"

definition reactivate_user :: "env \<Rightarrow> admin_actor \<Rightarrow> uuid \<Rightarrow> string \<Rightarrow> admin_user_detail op" where
  "reactivate_user env actor userId = lift_user env actor userId Suspension"

definition ban_user :: "env \<Rightarrow> admin_actor \<Rightarrow> uuid \<Rightarrow> sanction_data \<Rightarrow> admin_user_detail op" where
  "ban_user env actor userId = sanction_user env actor userId Ban"

definition unban_user :: "env \<Rightarrow> admin_actor \<Rightarrow> uuid \<Rightarrow> string \<Rightarrow> admin_user_detail op" where
  "unban_user env actor userId = lift_user env actor userId Ban"

section \<open>Restricting interactions\<close>

definition interaction_restriction_tx :: "env \<Rightarrow> admin_actor \<Rightarrow> uuid \<Rightarrow> string \<Rightarrow> bool \<Rightarrow> unit op" where
  "interaction_restriction_tx env actor userId reason restricted = transaction
    (andThen (gets (live_account userId)) (\<lambda>found.
     andThen (from_option found (App NOT_FOUND)) (\<lambda>u.
     andThen (ensure ((u_interactionsRestrictedAt u \<noteq> None) \<noteq> restricted) (App CONFLICT)) (\<lambda>_.
     andThen now (\<lambda>t.
     andThen (save users_table
       [setting u_interactionsRestrictedAt u_interactionsRestrictedAt_update (if restricted then Some t else None)] u) (\<lambda>_.
     andThen (if restricted then cancelPendingInterestsOf userId else ret 0) (\<lambda>cancelled.
     recordAdminAction env (ac_adminId actor)
       (if restricted then ''user.restrict_interactions'' else ''user.lift_interaction_restriction'')
       Target_user (Some userId)
       [(''reason'', Meta_text reason), (''cancelledInterests'', Meta_num (int cancelled))] (ac_ip actor))))))))"

definition setInteractionRestriction ::
    "env \<Rightarrow> admin_actor \<Rightarrow> uuid \<Rightarrow> string \<Rightarrow> bool \<Rightarrow> admin_user_detail op" where
  "setInteractionRestriction env actor userId reason restricted =
    andThen (interaction_restriction_tx env actor userId reason restricted) (\<lambda>_. user_detail userId)"

definition restrict_interactions :: "env \<Rightarrow> admin_actor \<Rightarrow> uuid \<Rightarrow> string \<Rightarrow> admin_user_detail op" where
  "restrict_interactions env actor userId reason = setInteractionRestriction env actor userId reason True"

definition lift_interaction_restriction :: "env \<Rightarrow> admin_actor \<Rightarrow> uuid \<Rightarrow> string \<Rightarrow> admin_user_detail op" where
  "lift_interaction_restriction env actor userId reason = setInteractionRestriction env actor userId reason False"

end
