(* ===== verification/Admin_Reports.thy ===== *)
theory Admin_Reports
  imports Admin_Users Chat
begin

text \<open>
  Moderation of reports (\<open>modules/admin/reports/admin-reports.service.ts\<close>) and of matches
  (\<open>modules/admin/matches/admin-matches.service.ts\<close>): the queue, the evidence, the conversation around a
  reported message, taking a report into review and resolving it.
\<close>

section \<open>The queue\<close>

definition report_is_pending :: "report \<Rightarrow> bool" where
  "report_is_pending r \<longleftrightarrow> rp_status r = R_open \<or> rp_status r = R_in_review"

text \<open>A member as a moderator sees it, also when the account is deleted.\<close>

record report_person =
  rpn_id :: uuid
  rpn_name :: "string option"
  rpn_accountStatus :: user_status

definition person :: "uuid \<Rightarrow> db \<Rightarrow> report_person option" where
  "person i s = map_option (\<lambda>u. \<lparr>rpn_id = u_id u, rpn_name = map_option pf_displayName (profile_of i s),
    rpn_accountStatus = u_status u\<rparr>) (by_key users_table i s)"

record report_item =
  ri_id :: uuid
  ri_reason :: report_reason
  ri_priority :: nat
  ri_status :: report_status
  ri_source :: report_source
  ri_reportedUser :: report_person
  ri_reporter :: "report_person option"
  ri_assignedAdminId :: "uuid option"
  ri_openReports :: nat
  ri_involvesChat :: bool
  ri_trigger :: "suspicious_trigger option"
  ri_createdAt :: instant

definition toReportItem :: "db \<Rightarrow> report \<Rightarrow> report_item option" where
  "toReportItem s r =
    (case person (rp_reportedUserId r) s of
       None \<Rightarrow> None
     | Some reported \<Rightarrow> Some
         \<lparr>ri_id = rp_id r, ri_reason = rp_reason r, ri_priority = rp_priority r, ri_status = rp_status r,
           ri_source = rp_source r, ri_reportedUser = reported,
           ri_reporter = (case rp_reporterId r of None \<Rightarrow> None | Some i \<Rightarrow> person i s),
           ri_assignedAdminId = rp_assignedAdminId r,
           ri_openReports = count_where (\<lambda>x. rp_reportedUserId x = rp_reportedUserId r \<and> report_is_pending x) (t_reports s),
           ri_involvesChat = (rp_matchId r \<noteq> None \<or> re_messages (rp_evidence r) \<noteq> []),
           ri_trigger = re_trigger (rp_evidence r), ri_createdAt = rp_createdAt r\<rparr>)"

definition toListItems :: "report list \<Rightarrow> db \<Rightarrow> report_item list" where
  "toListItems rs s = concat (map (\<lambda>r. case toReportItem s r of None \<Rightarrow> [] | Some x \<Rightarrow> [x]) rs)"

record report_query =
  rq_status :: "report_status option"
  rq_priority :: "nat option"
  rq_reason :: "report_reason option"
  rq_source :: "report_source option"
  rq_cursor :: "(int \<times> int \<times> int) option"
  rq_limit :: "nat option"

text \<open>
  Most urgent first, then oldest: the cursor is (priority, time, id) ascending, which is the descending order of
  the negated triple, and its condition is that of \<open>keysetCondition\<close>.
\<close>

definition queue_key :: "report \<Rightarrow> int \<times> int \<times> int" where
  "queue_key r = (- int (rp_priority r), - rp_createdAt r, - int (rp_id r))"

definition queued :: "report_query \<Rightarrow> report \<Rightarrow> bool" where
  "queued q r \<longleftrightarrow>
    (case rq_status q of None \<Rightarrow> report_is_pending r | Some st \<Rightarrow> rp_status r = st) \<and>
    (case rq_priority q of None \<Rightarrow> True | Some p \<Rightarrow> rp_priority r = p) \<and>
    (case rq_reason q of None \<Rightarrow> True | Some x \<Rightarrow> rp_reason r = x) \<and>
    (case rq_source q of None \<Rightarrow> True | Some x \<Rightarrow> rp_source r = x)"

definition report_queue :: "report_query \<Rightarrow> db \<Rightarrow> report list \<times> (int \<times> int \<times> int) option" where
  "report_queue q s = page_of queue_key (rq_cursor q)
    (page_limit (rq_limit q) ADMIN_PAGE_SIZE_DEFAULT ADMIN_PAGE_SIZE_MAX) (rows_where reports_table (queued q) s)"

definition list_reports :: "report_query \<Rightarrow> db \<Rightarrow> report_item list \<times> (int \<times> int \<times> int) option" where
  "list_reports q s = (let (page, cursor) = report_queue q s in (toListItems page s, cursor))"

section \<open>One report\<close>

record report_resolution =
  rr_action :: report_resolution_action
  rr_note :: string
  rr_resolvedByAdminId :: uuid
  rr_resolvedAt :: instant

record report_detail =
  rd_item :: report_item
  rd_details :: "string option"
  rd_evidence :: report_evidence
  rd_conversationAvailable :: bool
  rd_hiddenFromDiscovery :: bool
  rd_chatRestricted :: bool
  rd_sanctions :: "user_sanction list"
  rd_resolution :: "report_resolution option"
  rd_otherReports :: "(uuid \<times> report_reason \<times> report_status \<times> instant) list"

definition resolution_of :: "report \<Rightarrow> report_resolution option" where
  "resolution_of r =
    (case (rp_resolutionAction r, rp_resolvedAt r, rp_resolvedByAdminId r) of
       (Some a, Some t, Some i) \<Rightarrow> Some
         \<lparr>rr_action = a, rr_note = (case rp_resolutionNote r of None \<Rightarrow> [] | Some n \<Rightarrow> n), rr_resolvedByAdminId = i,
           rr_resolvedAt = t\<rparr>
     | _ \<Rightarrow> None)"

definition report_detail_of :: "uuid \<Rightarrow> db \<Rightarrow> failure + report_detail" where
  "report_detail_of reportId s =
    (case by_key reports_table reportId s of
       None \<Rightarrow> Inl (App NOT_FOUND)
     | Some r \<Rightarrow>
         (case toReportItem s r of
            None \<Rightarrow> Inl (App NOT_FOUND)
          | Some item \<Rightarrow>
              (let reported = by_key users_table (rp_reportedUserId r) s;
                   others = take 10 (sort_desc rp_createdAt (rows_where reports_table
                     (\<lambda>x. rp_reportedUserId x = rp_reportedUserId r \<and> rp_id x \<noteq> rp_id r) s))
               in Inr \<lparr>rd_item = item, rd_details = rp_details r, rd_evidence = rp_evidence r,
                    rd_conversationAvailable = (rp_matchId r \<noteq> None \<and> report_is_pending r),
                    rd_hiddenFromDiscovery = (case reported of None \<Rightarrow> False | Some u \<Rightarrow> u_hiddenFromDiscovery u),
                    rd_chatRestricted = (case reported of None \<Rightarrow> False | Some u \<Rightarrow> u_chatRestrictedAt u \<noteq> None),
                    rd_sanctions = loadSanctionHistory (rp_reportedUserId r) s, rd_resolution = resolution_of r,
                    rd_otherReports = map (\<lambda>x. (rp_id x, rp_reason x, rp_status x, rp_createdAt x)) others\<rparr>)))"

definition report_detail_op :: "uuid \<Rightarrow> report_detail op" where
  "report_detail_op reportId = andThen (gets (report_detail_of reportId)) from_sum"

section \<open>The conversation\<close>

record admin_message =
  am_id :: uuid
  am_fromReporter :: bool
  am_body :: js_text
  am_createdAt :: instant
  am_reported :: bool
  am_containsContactInfo :: bool

record conversation =
  cv_reportId :: uuid
  cv_matchId :: uuid
  cv_matchStatus :: match_status
  cv_messages :: "admin_message list"


text \<open>The window around the reported message, or the latest messages if it is gone.\<close>

definition conversation_window :: "uuid \<Rightarrow> uuid option \<Rightarrow> db \<Rightarrow> message list" where
  "conversation_window matchId messageId s =
    (let pivot = (case messageId of None \<Rightarrow> None
           | Some i \<Rightarrow> find_row messages_table (\<lambda>m. ms_id m = i \<and> ms_matchId m = matchId) s);
         before = take (Suc ADMIN_CONVERSATION_WINDOW) (sort_desc message_key (rows_where messages_table
           (\<lambda>m. ms_matchId m = matchId \<and> (case pivot of None \<Rightarrow> True | Some p \<Rightarrow> ms_createdAt m \<le> ms_createdAt p)) s));
         after = (case pivot of None \<Rightarrow> []
           | Some p \<Rightarrow> take ADMIN_CONVERSATION_WINDOW (sort_key message_key (rows_where messages_table
               (\<lambda>m. ms_matchId m = matchId \<and> ms_createdAt p < ms_createdAt m) s)))
     in rev before @ after)"

definition toAdminMessage :: "report \<Rightarrow> message \<Rightarrow> admin_message" where
  "toAdminMessage r m =
    \<lparr>am_id = ms_id m, am_fromReporter = (Some (ms_senderId m) = rp_reporterId r), am_body = ms_body m,
      am_createdAt = ms_createdAt m, am_reported = (Some (ms_id m) = rp_messageId r),
      am_containsContactInfo = ms_containsContactInfo m\<rparr>"

definition audit_report :: "env \<Rightarrow> admin_actor \<Rightarrow> string \<Rightarrow> uuid \<Rightarrow> metadata \<Rightarrow> unit op" where
  "audit_report env actor action reportId metadata =
    recordAdminAction env (ac_adminId actor) action Target_report (Some reportId) metadata (ac_ip actor)"

definition or_admin :: "uuid option \<Rightarrow> uuid \<Rightarrow> uuid option" where
  "or_admin assigned adminId = Some (case assigned of None \<Rightarrow> adminId | Some i \<Rightarrow> i)"

text \<open>Opening a conversation takes the report into review, and every access is audited.\<close>

definition view_conversation :: "env \<Rightarrow> admin_actor \<Rightarrow> uuid \<Rightarrow> conversation op" where
  "view_conversation env actor reportId = transaction
    (andThen (gets (by_key reports_table reportId)) (\<lambda>found.
     andThen (from_option found (App NOT_FOUND)) (\<lambda>r.
     andThen (from_option (rp_matchId r) (App CONFLICT)) (\<lambda>matchId.
     andThen (ensure (report_is_pending r) (App CONFLICT)) (\<lambda>_.
     andThen (gets (by_key matches_table matchId)) (\<lambda>match.
     andThen (from_option match (App NOT_FOUND)) (\<lambda>m.
     andThen (gets (conversation_window matchId (rp_messageId r))) (\<lambda>messages.
     andThen (if rp_status r = R_open \<or> rp_assignedAdminId r = None
       then andThen (save reports_table
         [setting rp_status rp_status_update R_in_review,
          setting rp_assignedAdminId rp_assignedAdminId_update (or_admin (rp_assignedAdminId r) (ac_adminId actor))] r)
         (\<lambda>_. ret ())
       else ret ()) (\<lambda>_.
     andThen (audit_report env actor ''report.conversation_view'' (rp_id r)
       [(''matchId'', Meta_id (m_id m)), (''messagesShown'', Meta_num (int (length messages)))]) (\<lambda>_.
     ret \<lparr>cv_reportId = rp_id r, cv_matchId = m_id m, cv_matchStatus = m_status m,
       cv_messages = map (toAdminMessage r) messages\<rparr>))))))))))"

section \<open>Review and resolution\<close>

definition assign_tx :: "env \<Rightarrow> admin_actor \<Rightarrow> uuid \<Rightarrow> unit op" where
  "assign_tx env actor reportId = transaction
    (andThen (gets (by_key reports_table reportId)) (\<lambda>found.
     andThen (from_option found (App NOT_FOUND)) (\<lambda>r.
     andThen (ensure (report_is_pending r) (App CONFLICT)) (\<lambda>_.
     andThen (save reports_table
       [setting rp_status rp_status_update R_in_review,
        setting rp_assignedAdminId rp_assignedAdminId_update (Some (ac_adminId actor))] r) (\<lambda>_.
     audit_report env actor ''report.assign'' (rp_id r)
       [(''previousAdminId'', meta_opt Meta_id (rp_assignedAdminId r)),
        (''reportedUserId'', Meta_id (rp_reportedUserId r))])))))"

definition assign_report :: "env \<Rightarrow> admin_actor \<Rightarrow> uuid \<Rightarrow> report_detail op" where
  "assign_report env actor reportId = andThen (assign_tx env actor reportId) (\<lambda>_. report_detail_op reportId)"

primrec SANCTION_BY_ACTION :: "report_resolution_action \<Rightarrow> sanction_type option" where
  "SANCTION_BY_ACTION Act_dismiss = None"
| "SANCTION_BY_ACTION Act_warn = Some Warning"
| "SANCTION_BY_ACTION Act_restrict_chat = Some Chat_restriction"
| "SANCTION_BY_ACTION Act_suspend = Some Suspension"
| "SANCTION_BY_ACTION Act_ban = Some Ban"

primrec resolution_text :: "report_resolution_action \<Rightarrow> string" where
  "resolution_text Act_dismiss = ''dismiss''"
| "resolution_text Act_warn = ''warn''"
| "resolution_text Act_restrict_chat = ''restrict_chat''"
| "resolution_text Act_suspend = ''suspend''"
| "resolution_text Act_ban = ''ban''"

record resolve_data =
  rs_action :: report_resolution_action
  rs_note :: string
  rs_clearAutoHide :: bool
  rs_durationDays :: "int option"

definition resolution_sanction :: "report \<Rightarrow> sanction_type \<Rightarrow> resolve_data \<Rightarrow> sanction_input" where
  "resolution_sanction r type input =
    \<lparr>si_userId = rp_reportedUserId r, si_type = type, si_reasonCode = rp_reason r, si_note = rs_note input,
      si_reportId = Some (rp_id r), si_durationDays = rs_durationDays input, si_reuseActive = True\<rparr>"

definition apply_resolution :: "env \<Rightarrow> admin_actor \<Rightarrow> report \<Rightarrow> resolve_data \<Rightarrow> applied_sanction option op" where
  "apply_resolution env actor r input =
    (case SANCTION_BY_ACTION (rs_action input) of
       None \<Rightarrow> ret None
     | Some type \<Rightarrow> andThen (applySanction env actor (resolution_sanction r type input)) (\<lambda>a. ret (Some a)))"

definition resolution_metadata :: "report \<Rightarrow> resolve_data \<Rightarrow> applied_sanction option \<Rightarrow> metadata" where
  "resolution_metadata r input applied =
    [(''action'', Meta_text (resolution_text (rs_action input))), (''note'', Meta_text (rs_note input)),
     (''reportedUserId'', Meta_id (rp_reportedUserId r)), (''clearAutoHide'', Meta_bool (rs_clearAutoHide input)),
     (''durationDays'', meta_opt Meta_num (rs_durationDays input)),
     (''sanctionId'', case applied of None \<Rightarrow> Meta_null | Some a \<Rightarrow> meta_opt (\<lambda>x. Meta_id (sn_id x)) (ap_sanction a)),
     (''sanctionAlreadyActive'', Meta_bool (case applied of None \<Rightarrow> False | Some a \<Rightarrow> \<not> ap_created a)),
     (''matchesEnded'', Meta_num (case applied of None \<Rightarrow> 0 | Some a \<Rightarrow> int (length (ef_endedMatches (ap_effects a)))))]"

definition clear_auto_hide :: "uuid \<Rightarrow> unit op" where
  "clear_auto_hide userId = update_rows users_table (\<lambda>u. u_id u = userId \<and> u_deletedAt u = None)
    (\<lambda>u. u\<lparr>u_hiddenFromDiscovery := False, u_hiddenReason := None\<rparr>)"

definition close_report :: "admin_actor \<Rightarrow> report \<Rightarrow> resolve_data \<Rightarrow> report op" where
  "close_report actor r input =
    andThen now (\<lambda>t. save reports_table
      [setting rp_status rp_status_update (if rs_action input = Act_dismiss then R_dismissed else R_resolved),
       setting rp_resolutionAction rp_resolutionAction_update (Some (rs_action input)),
       setting rp_resolutionNote rp_resolutionNote_update (Some (rs_note input)),
       setting rp_resolvedByAdminId rp_resolvedByAdminId_update (Some (ac_adminId actor)),
       setting rp_resolvedAt rp_resolvedAt_update (Some t),
       setting rp_assignedAdminId rp_assignedAdminId_update (or_admin (rp_assignedAdminId r) (ac_adminId actor))] r)"

definition resolve_tx ::
    "env \<Rightarrow> admin_actor \<Rightarrow> uuid \<Rightarrow> resolve_data \<Rightarrow> (sanction_effects option \<times> uuid option) op" where
  "resolve_tx env actor reportId input = transaction
    (andThen (gets (by_key reports_table reportId)) (\<lambda>found.
     andThen (from_option found (App NOT_FOUND)) (\<lambda>r.
     andThen (ensure (report_is_pending r) (App CONFLICT)) (\<lambda>_.
     andThen (ensure (\<not> (rs_action input = Act_ban \<and> rp_status r \<noteq> R_in_review)) (App CONFLICT)) (\<lambda>_.
     andThen (apply_resolution env actor r input) (\<lambda>applied.
     andThen (doWhen (rs_clearAutoHide input \<and> (rs_action input = Act_dismiss \<or> rs_action input = Act_warn))
       (clear_auto_hide (rp_reportedUserId r))) (\<lambda>_.
     andThen (close_report actor r input) (\<lambda>_.
     andThen (audit_report env actor ''report.resolve'' (rp_id r) (resolution_metadata r input applied)) (\<lambda>_.
     ret (map_option ap_effects applied, rp_reporterId r))))))))))"

definition resolve_report :: "env \<Rightarrow> admin_actor \<Rightarrow> uuid \<Rightarrow> resolve_data \<Rightarrow> report_detail op" where
  "resolve_report env actor reportId input =
    andThen (ensure (rs_durationDays input = None \<or> SANCTION_BY_ACTION (rs_action input) = Some Suspension \<or>
      SANCTION_BY_ACTION (rs_action input) = Some Chat_restriction) (App VALIDATION_ERROR)) (\<lambda>_.
    andThen (resolve_tx env actor reportId input) (\<lambda>(effects, reporterId).
    andThen (case effects of None \<Rightarrow> ret () | Some ef \<Rightarrow> applySanctionEffects env ef) (\<lambda>_.
    andThen (case reporterId of None \<Rightarrow> ret () | Some i \<Rightarrow> notify env (safety_notice i Report_reviewed)) (\<lambda>_.
    report_detail_op reportId))))"

section \<open>Matches\<close>

record admin_match =
  amt_id :: uuid
  amt_status :: match_status
  amt_partner :: "uuid \<times> string option"
  amt_eventName :: "string option"
  amt_createdAt :: instant
  amt_endedAt :: "instant option"

definition admin_match_dto :: "uuid \<Rightarrow> db \<Rightarrow> match_row \<Rightarrow> admin_match" where
  "admin_match_dto userId s m =
    (let partnerId = (if m_userAId m = userId then m_userBId m else m_userAId m)
     in \<lparr>amt_id = m_id m, amt_status = m_status m,
          amt_partner = (partnerId, map_option pf_displayName (profile_of partnerId s)),
          amt_eventName = (case m_eventId m of None \<Rightarrow> None | Some e \<Rightarrow> map_option ev_name (by_key events_table e s)),
          amt_createdAt = m_createdAt m, amt_endedAt = m_endedAt m\<rparr>)"

definition matches_of_user :: "uuid \<Rightarrow> db \<Rightarrow> failure + admin_match list" where
  "matches_of_user userId s =
    (case by_key users_table userId s of
       None \<Rightarrow> Inl (App NOT_FOUND)
     | Some _ \<Rightarrow> Inr (map (admin_match_dto userId s) (take ADMIN_MATCHES_SHOWN (sort_desc (\<lambda>m. (m_createdAt m, m_id m))
         (rows_where matches_table (\<lambda>m. m_userAId m = userId \<or> m_userBId m = userId) s)))))"

definition close_match_tx :: "env \<Rightarrow> admin_actor \<Rightarrow> match_row \<Rightarrow> string \<Rightarrow> unit op" where
  "close_match_tx env actor m reason = transaction
    (andThen (gets (by_key matches_table (m_id m))) (\<lambda>locked.
     andThen (ensure (map_option m_status locked = Some M_active) (App CONFLICT)) (\<lambda>_.
     andThen (endConnections (m_userAId m) (m_userBId m) M_closed None (Some (ac_adminId actor))) (\<lambda>_.
     recordAdminAction env (ac_adminId actor) ''match.close'' Target_match (Some (m_id m))
       [(''reason'', Meta_text reason), (''userAId'', Meta_id (m_userAId m)), (''userBId'', Meta_id (m_userBId m))]
       (ac_ip actor)))))"

definition close_match :: "env \<Rightarrow> admin_actor \<Rightarrow> uuid \<Rightarrow> string \<Rightarrow> admin_match op" where
  "close_match env actor matchId reason =
    andThen (gets (by_key matches_table matchId)) (\<lambda>found.
    andThen (from_option found (App NOT_FOUND)) (\<lambda>m.
    andThen (close_match_tx env actor m reason) (\<lambda>_.
    andThen (emitMatchEnded (Some matchId) (m_userAId m) (m_userBId m)) (\<lambda>_.
    andThen (gets (by_key matches_table matchId)) (\<lambda>closed.
    andThen (from_option closed (App NOT_FOUND)) (\<lambda>c.
    gets (\<lambda>s. admin_match_dto (m_userAId c) s c)))))))"

end
