(* ===== verification/Schemas.thy ===== *)
theory Schemas
  imports Schema_Fields Profile_Service Organizers Attendance Admin_Reports Event_Lists Notifications Discovery_Service
begin

text \<open>
  The schemas of request bodies and query strings (\<open>packages/shared/src/schemas/*.schema.ts\<close>), each with the
  input of the service method it feeds as its output. A list query comes with the text of its cursor, which
  the service decodes.
\<close>

text \<open>\<open>parseInput\<close>: the validated input of a request or an event.\<close>

definition parseInput :: "'a schema \<Rightarrow> json \<Rightarrow> failure + 'a" where
  "parseInput sch input = (case sch input of Some x \<Rightarrow> Inr x | None \<Rightarrow> Inl (App VALIDATION_ERROR))"

definition stored_option :: "js_lib \<Rightarrow> js_text option \<Rightarrow> string option" where
  "stored_option lib = map_option (js_stored lib)"

definition cursor_text :: "nat \<Rightarrow> json_object \<Rightarrow> js_text option option" where
  "cursor_text n = may ''cursor'' (max_text n)"

text \<open>A search text: trimmed, at most 100 characters; none is the empty one.\<close>

definition search_text :: "json_object \<Rightarrow> js_text option" where
  "search_text m = map_option (\<lambda>q. value_or q []) (may ''q'' (trimmed_text 0 100) m)"

section \<open>Signing in\<close>

definition phoneLoginSchema :: "js_lib \<Rightarrow> string schema" where
  "phoneLoginSchema lib = strictObject [''idToken''] (\<lambda>m.
    map_option (js_stored lib) (needs ''idToken'' (refine (\<lambda>t. 100 \<le> length t \<and> length t \<le> 4096) js_string) m))"

definition logoutSchema :: "bool option schema" where
  "logoutSchema = strictObject [''allDevices''] (may ''allDevices'' js_boolean)"

definition adminLoginSchema :: "js_lib \<Rightarrow> (string \<times> string) schema" where
  "adminLoginSchema lib = strictObject [''email'', ''password''] (\<lambda>m. do {
     email \<leftarrow> needs ''email'' (transform js_string (\<lambda>t.
       let e = js_lower lib (js_trim t) in if length e \<le> 254 \<and> zod_email lib e then Some e else None)) m;
     password \<leftarrow> needs ''password'' (refine (\<lambda>t. 1 \<le> length t \<and> length t \<le> 256) js_string) m;
     Some (js_stored lib email, js_stored lib password) })"

section \<open>Profiles\<close>

definition createProfileSchema :: "js_lib \<Rightarrow> create_profile_input schema" where
  "createProfileSchema lib = strictObject
    [''name'', ''gender'', ''cityId'', ''areaId'', ''bio'', ''instagramId'', ''garbaLevel'', ''availableDates'',
     ''dateOfBirth'', ''confirmsAdult'', ''acceptTerms''] (\<lambda>m. do {
     name \<leftarrow> needs ''name'' (nameSchema lib) m;
     gender \<leftarrow> needs ''gender'' (enum_of gender_texts) m;
     city \<leftarrow> needs ''cityId'' (uuidParamSchema lib) m;
     area \<leftarrow> may ''areaId'' (nullable (uuidParamSchema lib)) m;
     bio \<leftarrow> may ''bio'' (bioSchema lib) m;
     instagram \<leftarrow> may ''instagramId'' (instagramIdSchema lib) m;
     level \<leftarrow> needs ''garbaLevel'' (enum_of GARBA_LEVELS) m;
     dates \<leftarrow> may ''availableDates'' availableDatesSchema m;
     birth \<leftarrow> needs ''dateOfBirth'' isoDateSchema m;
     adult \<leftarrow> needs ''confirmsAdult'' js_true m;
     terms \<leftarrow> needs ''acceptTerms'' js_true m;
     Some \<lparr>cp_name = js_stored lib name, cp_dateOfBirth = birth, cp_gender = gender, cp_cityId = city,
       cp_areaId = value_or area None, cp_bio = stored_option lib (value_or bio None),
       cp_instagramId = stored_option lib (value_or instagram None), cp_garbaLevel = level,
       cp_availableDates = dates\<rparr> })"

definition updateProfileSchema :: "js_lib \<Rightarrow> update_profile_input schema" where
  "updateProfileSchema lib = strictObject
    [''name'', ''gender'', ''cityId'', ''areaId'', ''bio'', ''instagramId'', ''garbaLevel'', ''availableDates''] (\<lambda>m. do {
     name \<leftarrow> may ''name'' (nameSchema lib) m;
     gender \<leftarrow> may ''gender'' (enum_of gender_texts) m;
     city \<leftarrow> may ''cityId'' (uuidParamSchema lib) m;
     area \<leftarrow> may ''areaId'' (nullable (uuidParamSchema lib)) m;
     bio \<leftarrow> may ''bio'' (bioSchema lib) m;
     instagram \<leftarrow> may ''instagramId'' (instagramIdSchema lib) m;
     level \<leftarrow> may ''garbaLevel'' (enum_of GARBA_LEVELS) m;
     dates \<leftarrow> may ''availableDates'' availableDatesSchema m;
     Some \<lparr>up_name = stored_option lib name, up_gender = gender, up_garbaLevel = level,
       up_bio = map_option (stored_option lib) bio, up_instagramId = map_option (stored_option lib) instagram,
       up_availableDates = dates, up_cityId = city, up_areaId = area\<rparr> })"

text \<open>The lower bound may not exceed the upper one where both are sent.\<close>

definition ages_in_order :: "int option \<Rightarrow> int option \<Rightarrow> bool" where
  "ages_in_order least most \<longleftrightarrow> (case least of None \<Rightarrow> True | Some a \<Rightarrow> (case most of None \<Rightarrow> True | Some b \<Rightarrow> a \<le> b))"

definition updatePreferencesSchema :: "update_preferences_input schema" where
  "updatePreferencesSchema = refine (\<lambda>p. ages_in_order (ui_minAge p) (ui_maxAge p)) (strictObject
    [''preferredGender'', ''minAge'', ''maxAge'', ''verifiedOnly'', ''discoveryEnabled'', ''showArea''] (\<lambda>m. do {
     gender \<leftarrow> may ''preferredGender'' (enum_of preference_texts) m;
     least \<leftarrow> may ''minAge'' ageSchema m;
     most \<leftarrow> may ''maxAge'' ageSchema m;
     verified \<leftarrow> may ''verifiedOnly'' js_boolean m;
     enabled \<leftarrow> may ''discoveryEnabled'' js_boolean m;
     area \<leftarrow> may ''showArea'' js_boolean m;
     Some \<lparr>ui_preferredGender = gender, ui_minAge = least, ui_maxAge = most, ui_verifiedOnly = verified,
       ui_discoveryEnabled = enabled, ui_showArea = area\<rparr> }))"

section \<open>Discovery and attendance\<close>

definition ageParam :: "int schema" where
  "ageParam = refine (\<lambda>n. PREF_AGE_MIN \<le> n \<and> n \<le> MAX_AGE) (transform limitParam (\<lambda>n. Some (int n)))"

definition garba_level_text :: "js_text \<Rightarrow> garba_level option" where
  "garba_level_text t = enum_of GARBA_LEVELS (JString t)"

definition garbaLevelsParam :: "garba_level list schema" where
  "garbaLevelsParam = transform (max_text 60) (\<lambda>value.
    let texts = filter (\<lambda>t. t \<noteq> []) (rev (remdups (rev (map js_trim (split_at 44 value)))))
    in if texts = [] then None else those (map garba_level_text texts))"

definition partnerListQuerySchema :: "js_lib \<Rightarrow> (js_text option \<times> partner_list_query) schema" where
  "partnerListQuerySchema lib = refine (\<lambda>(c, q). ages_in_order (lq_minAge q) (lq_maxAge q)) (strictObject
    [''eventId'', ''cityId'', ''minAge'', ''maxAge'', ''garbaLevels'', ''date'', ''verifiedOnly'', ''cursor'', ''limit''] (\<lambda>m. do {
     event \<leftarrow> may ''eventId'' (uuidParamSchema lib) m;
     city \<leftarrow> may ''cityId'' (uuidParamSchema lib) m;
     least \<leftarrow> may ''minAge'' ageParam m;
     most \<leftarrow> may ''maxAge'' ageParam m;
     levels \<leftarrow> may ''garbaLevels'' garbaLevelsParam m;
     day \<leftarrow> may ''date'' isoDateSchema m;
     verified \<leftarrow> may ''verifiedOnly'' booleanParam m;
     cursor \<leftarrow> cursor_text 200 m;
     limit \<leftarrow> may ''limit'' limitParam m;
     Some (cursor, \<lparr>lq_minAge = least, lq_maxAge = most, lq_verifiedOnly = verified, lq_eventId = event,
       lq_cityId = city, lq_garbaLevels = value_or levels [], lq_date = day, lq_cursor = None, lq_limit = limit\<rparr>) }))"

definition setAttendanceSchema :: "set_attendance_data schema" where
  "setAttendanceSchema = strictObject [''status'', ''lookingForPartner''] (\<lambda>m. do {
     status \<leftarrow> needs ''status'' (enum_of ATTENDANCE_STATUSES) m;
     looking \<leftarrow> needs ''lookingForPartner'' js_boolean m;
     Some \<lparr>sa_status = status, sa_lookingForPartner = looking\<rparr> })"

section \<open>Interests, chats and notifications\<close>

definition sendInterestSchema :: "js_lib \<Rightarrow> (uuid \<times> uuid option) schema" where
  "sendInterestSchema lib = strictObject [''receiverId'', ''eventId''] (\<lambda>m. do {
     receiver \<leftarrow> needs ''receiverId'' (uuidParamSchema lib) m;
     event \<leftarrow> may ''eventId'' (uuidParamSchema lib) m;
     Some (receiver, event) })"

definition pageSchema :: "nat \<Rightarrow> nat schema \<Rightarrow> (js_text option \<times> nat option) schema" where
  "pageSchema n sch = strictObject [''cursor'', ''limit''] (\<lambda>m. do {
     cursor \<leftarrow> cursor_text n m;
     limit \<leftarrow> may ''limit'' sch m;
     Some (cursor, limit) })"

definition connectionListQuerySchema :: "(js_text option \<times> nat option) schema" where
  "connectionListQuerySchema = pageSchema 200 limitParam"

definition messageListQuerySchema :: "(js_text option \<times> nat option) schema" where
  "messageListQuerySchema = pageSchema 200 limitParam"

definition sendMessageSchema :: "js_lib \<Rightarrow> message_input schema" where
  "sendMessageSchema lib = strictObject [''clientMessageId'', ''body''] (\<lambda>m. do {
     key \<leftarrow> needs ''clientMessageId'' (uuidParamSchema lib) m;
     body \<leftarrow> needs ''body'' (messageBodySchema lib) m;
     Some \<lparr>mi_clientMessageId = key, mi_body = body\<rparr> })"

definition socketSendMessageSchema :: "js_lib \<Rightarrow> (uuid \<times> message_input) schema" where
  "socketSendMessageSchema lib = strictObject [''matchId'', ''clientMessageId'', ''body''] (\<lambda>m. do {
     chat \<leftarrow> needs ''matchId'' (uuidParamSchema lib) m;
     key \<leftarrow> needs ''clientMessageId'' (uuidParamSchema lib) m;
     body \<leftarrow> needs ''body'' (messageBodySchema lib) m;
     Some (chat, \<lparr>mi_clientMessageId = key, mi_body = body\<rparr>) })"

definition markReadSchema :: "js_lib \<Rightarrow> uuid schema" where
  "markReadSchema lib = strictObject [''lastReadMessageId''] (needs ''lastReadMessageId'' (uuidParamSchema lib))"

definition socketMarkReadSchema :: "js_lib \<Rightarrow> (uuid \<times> uuid) schema" where
  "socketMarkReadSchema lib = strictObject [''matchId'', ''lastReadMessageId''] (\<lambda>m. do {
     chat \<leftarrow> needs ''matchId'' (uuidParamSchema lib) m;
     message \<leftarrow> needs ''lastReadMessageId'' (uuidParamSchema lib) m;
     Some (chat, message) })"

definition notificationListQuerySchema :: "(js_text option \<times> nat option \<times> bool option) schema" where
  "notificationListQuerySchema = strictObject [''cursor'', ''limit'', ''unread''] (\<lambda>m. do {
     cursor \<leftarrow> cursor_text 200 m;
     limit \<leftarrow> may ''limit'' (clampedLimit NOTIFICATIONS_PAGE_SIZE_MAX) m;
     unread \<leftarrow> may ''unread'' booleanParam m;
     Some (cursor, limit, unread) })"

text \<open>The choice for each configurable type, and for WhatsApp.\<close>

definition updateNotificationPreferencesSchema ::
    "((notification_type \<Rightarrow> bool option) \<times> bool option) schema" where
  "updateNotificationPreferencesSchema = some_key (strictObject
    [''interest_received'', ''interest_accepted'', ''match_created'', ''new_message'', ''verification_completed'',
     ''event_reminder'', ''whatsapp''] (\<lambda>m. do {
     received \<leftarrow> may ''interest_received'' js_boolean m;
     accepted \<leftarrow> may ''interest_accepted'' js_boolean m;
     created \<leftarrow> may ''match_created'' js_boolean m;
     message \<leftarrow> may ''new_message'' js_boolean m;
     verified \<leftarrow> may ''verification_completed'' js_boolean m;
     reminder \<leftarrow> may ''event_reminder'' js_boolean m;
     whatsapp \<leftarrow> may ''whatsapp'' js_boolean m;
     Some (\<lambda>type. case type of Interest_received \<Rightarrow> received | Interest_accepted \<Rightarrow> accepted
         | Match_created \<Rightarrow> created | New_message \<Rightarrow> message | Verification_completed \<Rightarrow> verified
         | Event_reminder \<Rightarrow> reminder | _ \<Rightarrow> None, whatsapp) }))"

section \<open>Safety\<close>

definition createBlockSchema :: "js_lib \<Rightarrow> uuid schema" where
  "createBlockSchema lib = strictObject [''userId''] (needs ''userId'' (uuidParamSchema lib))"

text \<open>The service also blocks the member unless told otherwise.\<close>

definition createReportSchema :: "js_lib \<Rightarrow> report_input schema" where
  "createReportSchema lib = strictObject [''reportedUserId'', ''reason'', ''details'', ''alsoBlock'', ''messageId''] (\<lambda>m. do {
     reported \<leftarrow> needs ''reportedUserId'' (uuidParamSchema lib) m;
     reason \<leftarrow> needs ''reason'' (enum_of REPORT_REASONS) m;
     details \<leftarrow> may ''details'' reportDetailsSchema m;
     block \<leftarrow> may ''alsoBlock'' js_boolean m;
     message \<leftarrow> may ''messageId'' (uuidParamSchema lib) m;
     Some \<lparr>ri_reportedUserId = reported, ri_reason = reason, ri_details = stored_option lib (value_or details None),
       ri_alsoBlock = value_or block True, ri_messageId = message\<rparr> })"

definition adminReportListQuerySchema :: "(js_text option \<times> report_query) schema" where
  "adminReportListQuerySchema = strictObject [''status'', ''priority'', ''reason'', ''source'', ''cursor'', ''limit''] (\<lambda>m. do {
     status \<leftarrow> may ''status'' (enum_of REPORT_STATUSES) m;
     priority \<leftarrow> may ''priority'' (enum_of [(''0'', 0), (''1'', 1), (''2'', 2)]) m;
     reason \<leftarrow> may ''reason'' (enum_of REPORT_REASONS) m;
     source \<leftarrow> may ''source'' (enum_of REPORT_SOURCES) m;
     cursor \<leftarrow> cursor_text 300 m;
     limit \<leftarrow> may ''limit'' limitParam m;
     Some (cursor, \<lparr>rq_status = status, rq_priority = priority, rq_reason = reason, rq_source = source,
       rq_cursor = None, rq_limit = limit\<rparr>) })"

definition adminResolveReportSchema :: "js_lib \<Rightarrow> resolve_data schema" where
  "adminResolveReportSchema lib = strictObject [''action'', ''note'', ''clearAutoHide'', ''durationDays''] (\<lambda>m. do {
     action \<leftarrow> needs ''action'' (enum_of REPORT_RESOLUTION_ACTIONS) m;
     note \<leftarrow> needs ''note'' (trimmed_text ADMIN_RESOLUTION_NOTE_MIN ADMIN_RESOLUTION_NOTE_MAX) m;
     clear \<leftarrow> may ''clearAutoHide'' js_boolean m;
     days \<leftarrow> may ''durationDays'' durationDays m;
     Some \<lparr>rs_action = action, rs_note = js_stored lib note, rs_clearAutoHide = value_or clear False,
       rs_durationDays = days\<rparr> })"

definition adminSanctionSchema :: "js_lib \<Rightarrow> sanction_data schema" where
  "adminSanctionSchema lib = strictObject [''reason'', ''reasonCode'', ''durationDays''] (\<lambda>m. do {
     reason \<leftarrow> needs ''reason'' adminNote m;
     code \<leftarrow> may ''reasonCode'' (enum_of REPORT_REASONS) m;
     days \<leftarrow> may ''durationDays'' durationDays m;
     Some \<lparr>sd_reason = js_stored lib reason, sd_reasonCode = code, sd_durationDays = days\<rparr> })"

definition adminUserActionSchema :: "js_lib \<Rightarrow> string schema" where
  "adminUserActionSchema lib = strictObject [''reason''] (\<lambda>m. map_option (js_stored lib) (needs ''reason'' adminNote m))"

definition adminUserListQuerySchema :: "(js_text option \<times> admin_user_query) schema" where
  "adminUserListQuerySchema = strictObject [''q'', ''status'', ''cursor'', ''limit''] (\<lambda>m. do {
     q \<leftarrow> search_text m;
     status \<leftarrow> may ''status'' (enum_of USER_STATUSES) m;
     cursor \<leftarrow> cursor_text 200 m;
     limit \<leftarrow> may ''limit'' limitParam m;
     Some (cursor, \<lparr>uq_q = q, uq_status = status, uq_cursor = None, uq_limit = limit\<rparr>) })"

end
