(* ===== verification/Realtime.thy ===== *)
theory Realtime
  imports Chat_Theorems Auth Schemas
begin

text \<open>
  The Socket.IO server (\<open>realtime/socket-server.ts\<close>). A socket belongs to a session; every event is counted,
  re-checks that session, validates its payload and runs the chat service.
\<close>

section \<open>Connecting\<close>

text \<open>The handshake: what the socket is bound to, or the code of the connection error.\<close>

definition socket_connect :: "auth_env \<Rightarrow> string option \<Rightarrow> db \<Rightarrow> error_code + member_auth" where
  "socket_connect ae token s =
    (case token of
       None \<Rightarrow> Inl UNAUTHENTICATED
     | Some tok \<Rightarrow>
         if tok = [] \<or> 2048 < length tok then Inl UNAUTHENTICATED
         else (case resolveMemberSession ae tok s of
             Inl e \<Rightarrow> Inl (if e = App ACCOUNT_BANNED then ACCOUNT_BANNED else UNAUTHENTICATED)
           | Inr None \<Rightarrow> Inl UNAUTHENTICATED
           | Inr (Some a) \<Rightarrow>
               if ma_status a = U_suspended then Inl ACCOUNT_SUSPENDED
               else if ma_status a \<noteq> U_active then Inl UNAUTHENTICATED
               else if \<not> ma_onboarded a then Inl ONBOARDING_REQUIRED
               else Inr a))"

text \<open>The connection ends by itself when the access token expires.\<close>

definition disconnect_delay :: "member_auth \<Rightarrow> instant \<Rightarrow> int" where
  "disconnect_delay a t = max 0 (ma_expiresAt a - t)"

section \<open>Events\<close>

record server_state =
  sv_db :: db
  sv_messageHits :: "uuid hits"

definition SOCKET_EVENTS_PER_MINUTE :: nat where [limits]: "SOCKET_EVENTS_PER_MINUTE = 120"

definition socketLimiter :: limiter where
  "socketLimiter = \<lparr>lim_limit = SOCKET_EVENTS_PER_MINUTE, lim_windowMs = 60 * 1000\<rparr>"

record socket =
  sk_id :: nat
  sk_userId :: uuid
  sk_sessionId :: uuid
  sk_hits :: "nat hits"
  sk_open :: bool

datatype 'a ack = Ack_data 'a | Ack_error error_code

definition ack_of :: "failure + 'a \<Rightarrow> 'a ack" where
  "ack_of r = (case r of Inr x \<Rightarrow> Ack_data x | Inl (App c) \<Rightarrow> Ack_error c | Inl _ \<Rightarrow> Ack_error INTERNAL_ERROR)"

text \<open>
  \<open>handle\<close>: what is acknowledged, the socket and the state afterwards. An event without an acknowledgement
  function is ignored.
\<close>

definition handle_event :: "(server_state \<Rightarrow> (failure + 'a) \<times> server_state) \<Rightarrow> bool \<Rightarrow> socket \<Rightarrow> server_state \<Rightarrow>
    'a ack option \<times> socket \<times> server_state" where
  "handle_event run acknowledged k v =
    (if \<not> acknowledged then (None, k, v)
     else let t = clock (sv_db v); (ok, hits) = take_hit socketLimiter t t (sk_id k) (sk_hits k); k' = k\<lparr>sk_hits := hits\<rparr>
     in if \<not> ok then (Some (Ack_error RATE_LIMITED), k', v)
        else if \<not> isMemberSessionActive (sk_userId k) (sk_sessionId k) (sv_db v)
          then (Some (Ack_error UNAUTHENTICATED), k'\<lparr>sk_open := False\<rparr>, v)
        else (let (r, v') = run v in (Some (ack_of r), k', v')))"

definition run_send ::
    "env \<Rightarrow> js_lib \<Rightarrow> uuid \<Rightarrow> json \<Rightarrow> server_state \<Rightarrow> (failure + message_dto) \<times> server_state" where
  "run_send env lib userId payload v =
    (case parseInput (socketSendMessageSchema lib) payload of
       Inl e \<Rightarrow> (Inl e, v)
     | Inr (matchId, input) \<Rightarrow>
         (let (r, hits, s) = send_message env userId matchId input (sv_messageHits v) (sv_db v)
          in (map_sum id fst r, v\<lparr>sv_db := s, sv_messageHits := hits\<rparr>)))"

definition run_read :: "js_lib \<Rightarrow> uuid \<Rightarrow> json \<Rightarrow> server_state \<Rightarrow> (failure + instant) \<times> server_state" where
  "run_read lib userId payload v =
    (case parseInput (socketMarkReadSchema lib) payload of
       Inl e \<Rightarrow> (Inl e, v)
     | Inr (matchId, lastReadMessageId) \<Rightarrow>
         (let (r, s) = mark_chat_read userId matchId lastReadMessageId (sv_db v) in (r, v\<lparr>sv_db := s\<rparr>)))"

text \<open>The two events a client can send: \<open>message:send\<close> and \<open>message:read\<close>.\<close>

datatype client_event = Message_send json | Message_read json

datatype event_reply = Sent_message message_dto | Read_until instant

definition run_event ::
    "env \<Rightarrow> js_lib \<Rightarrow> uuid \<Rightarrow> client_event \<Rightarrow> server_state \<Rightarrow> (failure + event_reply) \<times> server_state" where
  "run_event env lib userId e v =
    (case e of
       Message_send payload \<Rightarrow> map_prod (map_sum id Sent_message) id (run_send env lib userId payload v)
     | Message_read payload \<Rightarrow> map_prod (map_sum id Read_until) id (run_read lib userId payload v))"

definition on_event :: "env \<Rightarrow> js_lib \<Rightarrow> client_event \<Rightarrow> bool \<Rightarrow> socket \<Rightarrow> server_state \<Rightarrow>
    event_reply ack option \<times> socket \<times> server_state" where
  "on_event env lib e acknowledged k = handle_event (run_event env lib (sk_userId k) e) acknowledged k"

section \<open>Live sessions\<close>

lemma handle_event_cases:
  assumes "handle_event run acknowledged k v = (a, k', v')"
  obtains "v' = v" "a = None" "\<not> acknowledged" "k' = k"
  | "v' = v" "a = Some (Ack_error RATE_LIMITED)" "sk_open k' = sk_open k"
  | "v' = v" "a = Some (Ack_error UNAUTHENTICATED)" "\<not> sk_open k'"
    "\<not> isMemberSessionActive (sk_userId k) (sk_sessionId k) (sv_db v)"
  | r where "isMemberSessionActive (sk_userId k) (sk_sessionId k) (sv_db v)" "run v = (r, v')" "a = Some (ack_of r)"
    "sk_open k' = sk_open k"
  using assms by (auto simp: handle_event_def Let_def split: prod.splits if_splits)

lemma send_stores:
  assumes run: "send_message env u i input hits s = (r, hits', t)"
  shows "t_messages t = t_messages s \<or> (\<exists>x. t_messages t = t_messages s @ [x] \<and> ms_senderId x = u \<and> ms_matchId x = i \<and>
    (\<exists>m \<in> set (t_matches s). m_id m = i \<and> chat_open u s m))"
proof (cases "t = s")
  case False
  then have none: "stored_message u input s = None" and allowed: "send_allowed env u i input s = (r, t)"
    using run by (auto simp: send_message_def Let_def split: option.splits sum.splits prod.splits if_splits)
  note done' = send_allowed_run[OF none allowed]
  with False obtain v where r: "r = Inr v" by (cases r) auto
  obtain c x where "authorize u i s = Inr c" "t_messages t = t_messages s @ [x]"
    "x = new_message (Suc (rng s (drawn s))) i u input (clock s)"
    using done' unfolding r by (cases v) auto
  with authorize_Inr[of u i s c] show ?thesis by (auto simp: new_message_def)
qed simp

lemma read_stores_no_message: "leaves t_messages (mark_chat_read i m x)"
  unfolding mark_chat_read_def markChatNotificationsRead_def Let_def by (intro leaves_rules) simp_all

lemma event_stores:
  assumes "run_event env lib u e v = (r, v')"
  shows "t_messages (sv_db v') = t_messages (sv_db v) \<or> (\<exists>x. t_messages (sv_db v') = t_messages (sv_db v) @ [x] \<and>
    ms_senderId x = u \<and> (\<exists>m \<in> set (t_matches (sv_db v)). m_id m = ms_matchId x \<and> chat_open u (sv_db v) m))"
proof (cases e)
  case (Message_send payload)
  show ?thesis
  proof (cases "parseInput (socketSendMessageSchema lib) payload")
    case (Inl f)
    then show ?thesis using assms Message_send by (simp add: run_event_def run_send_def)
  next
    case (Inr q)
    obtain i input where q: "q = (i, input)" by (cases q)
    obtain r' hits s where sent: "send_message env u i input (sv_messageHits v) (sv_db v) = (r', hits, s)"
      by (metis prod_cases3)
    then have "sv_db v' = s" using assms Message_send Inr q by (auto simp: run_event_def run_send_def)
    with send_stores[OF sent] show ?thesis by metis
  qed
next
  case (Message_read payload)
  show ?thesis
  proof (cases "parseInput (socketMarkReadSchema lib) payload")
    case (Inl f)
    then show ?thesis using assms Message_read by (simp add: run_event_def run_read_def)
  next
    case (Inr q)
    obtain i x where q: "q = (i, x)" by (cases q)
    obtain r' s where read: "mark_chat_read u i x (sv_db v) = (r', s)" by (metis surj_pair)
    then have "sv_db v' = s" using assms Message_read Inr q by (auto simp: run_event_def run_read_def)
    with leavesD[OF read_stores_no_message read] show ?thesis by simp
  qed
qed

text \<open>
  C30. Whatever a client sends over a socket, an event changes the server's state only while the session of the
  socket is open and its account is active, whatever happened since the socket connected: otherwise it is
  refused and, unless the event was already over the limit or asked for no acknowledgement, the socket is
  closed. A message an event stores is written by the member of that session in an open chat.
\<close>

theorem socket_needs_live_session:
  assumes run: "on_event env lib e acknowledged k v = (a, k', v')"
  shows "(v' \<noteq> v \<longrightarrow> (\<exists>x \<in> set (t_sessions (sv_db v)). s_id x = sk_sessionId k \<and> s_userId x = sk_userId k \<and>
      s_revokedAt x = None \<and> clock (sv_db v) < s_expiresAt x) \<and>
      (\<exists>u \<in> set (t_users (sv_db v)). u_id u = sk_userId k \<and> u_status u = U_active \<and> u_deletedAt u = None)) \<and>
    (\<not> isMemberSessionActive (sk_userId k) (sk_sessionId k) (sv_db v) \<longrightarrow> v' = v \<and>
      (if acknowledged then a = Some (Ack_error RATE_LIMITED) \<or> a = Some (Ack_error UNAUTHENTICATED) \<and> \<not> sk_open k'
       else a = None \<and> k' = k)) \<and>
    (t_messages (sv_db v') \<noteq> t_messages (sv_db v) \<longrightarrow>
      (\<exists>x. t_messages (sv_db v') = t_messages (sv_db v) @ [x] \<and> ms_senderId x = sk_userId k \<and>
        (\<exists>m \<in> set (t_matches (sv_db v)). m_id m = ms_matchId x \<and> chat_open (sk_userId k) (sv_db v) m)))"
  using run[unfolded on_event_def]
proof (cases rule: handle_event_cases)
  case (4 r)
  have live: "(\<exists>x \<in> set (t_sessions (sv_db v)). s_id x = sk_sessionId k \<and> s_userId x = sk_userId k \<and>
      s_revokedAt x = None \<and> clock (sv_db v) < s_expiresAt x) \<and>
      (\<exists>u \<in> set (t_users (sv_db v)). u_id u = sk_userId k \<and> u_status u = U_active \<and> u_deletedAt u = None)"
    using 4(1) by (auto simp: isMemberSessionActive_def open_session_def live_user_def find_row_def
        dest!: find_Some_in split: option.splits)
  with event_stores[OF 4(2)] 4(1) show ?thesis by blast
next
  case 1
  then show ?thesis using run by (auto simp: on_event_def handle_event_def Let_def split: prod.splits if_splits)
qed (use run in \<open>auto simp: on_event_def handle_event_def Let_def split: prod.splits if_splits\<close>)

definition sample_socket :: socket where
  "sample_socket = \<lparr>sk_id = 9, sk_userId = 1, sk_sessionId = 50, sk_hits = (\<lambda>_. None), sk_open = True\<rparr>"

definition sample_lib :: js_lib where
  "sample_lib = \<lparr>js_nfkc = id, js_nfc = id, js_lower = map (\<lambda>c. if 65 \<le> c \<and> c \<le> 90 then c + 32 else c),
    js_letter = is_letter, zod_uuid = (\<lambda>_. True), zod_email = (\<lambda>_. True), js_stored = map (\<lambda>c. char_of (nat c))\<rparr>"

definition sample_payload :: json where
  "sample_payload = JObject [(units ''matchId'', JString (units ''00000000-0000-0000-0000-0000000003ea'')),
    (units ''clientMessageId'', JString (units ''00000000-0000-0000-0000-000000000037'')),
    (units ''body'', JString (units '' hey ''))]"

text \<open>
  A member whose session is still open sends a message; the same message over a socket whose session does not
  exist any more is refused, stores nothing and ends the connection.
\<close>

definition open_sample_session :: user_session where
  "open_sample_session = \<lparr>s_id = 50, s_userId = 1, s_refreshTokenHash = ''h'', s_previousRefreshTokenHash = None,
    s_rotatedAt = None, s_userAgent = None, s_ipHash = None, s_lastUsedAt = 0, s_expiresAt = 90000,
    s_revokedAt = None, s_revokedReason = None, s_createdAt = 0\<rparr>"

definition socket_server :: server_state where
  "socket_server = \<lparr>sv_db = matched_db\<lparr>t_sessions := [open_sample_session]\<rparr>, sv_messageHits = no_hits\<rparr>"

theorem socket_needs_live_session_witness:
  "(\<exists>x. t_messages (sv_db (snd (snd (on_event sample_env sample_lib (Message_send sample_payload) True sample_socket
      socket_server)))) = [x] \<and> ms_senderId x = 1) \<and>
    snd (snd (on_event sample_env sample_lib (Message_send sample_payload) True (sample_socket\<lparr>sk_sessionId := 51\<rparr>)
      socket_server)) = socket_server \<and>
    \<not> sk_open (fst (snd (on_event sample_env sample_lib (Message_send sample_payload) True
      (sample_socket\<lparr>sk_sessionId := 51\<rparr>) socket_server)))"
proof -
  let ?live = "on_event sample_env sample_lib (Message_send sample_payload) True sample_socket socket_server"
  let ?gone = "on_event sample_env sample_lib (Message_send sample_payload) True (sample_socket\<lparr>sk_sessionId := 51\<rparr>) socket_server"
  have out: "?live = (fst ?live, fst (snd ?live), snd (snd ?live))" "?gone = (fst ?gone, fst (snd ?gone), snd (snd ?gone))"
    by simp_all
  have "t_messages (sv_db socket_server) = []" "length (t_messages (sv_db (snd (snd ?live)))) = 1" by code_simp+
  then have "\<exists>x. t_messages (sv_db (snd (snd ?live))) = [x] \<and> ms_senderId x = sk_userId sample_socket"
    using socket_needs_live_session[OF out(1)] by auto
  moreover have "\<not> isMemberSessionActive (sk_userId (sample_socket\<lparr>sk_sessionId := 51\<rparr>))
      (sk_sessionId (sample_socket\<lparr>sk_sessionId := 51\<rparr>)) (sv_db socket_server)" by code_simp
  moreover have "case fst ?gone of Some (Ack_error c) \<Rightarrow> c = UNAUTHENTICATED | _ \<Rightarrow> False" by code_simp
  ultimately show ?thesis
    using socket_needs_live_session[OF out(2)] by (auto simp: sample_socket_def split: option.splits ack.splits)
qed

end
