(* ===== verification/Routing.thy ===== *)
theory Routing
  imports Realtime
begin

text \<open>
  How a request finds its handler: routers, middlewares and paths (Express), and the middlewares of the program
  (\<open>middlewares/authenticate.ts\<close>, \<open>authorize.ts\<close>, \<open>rate-limit.ts\<close>, \<open>csrf.ts\<close>, \<open>upload.ts\<close>). The table of
  the routes is in \<open>Routes\<close>.
\<close>

section \<open>Requests\<close>

datatype http_method = GET | HEAD | POST | PUT | PATCH | DELETE_method | Other_method

text \<open>What the multipart parser finds in the request.\<close>

datatype upload = No_file | Image_file string | Refused_type | File_too_large | Malformed_upload

text \<open>
  A request after the body and cookie parsers. The path is split at its slashes, behind the prefix of the API.
  A missing body is \<open>null\<close>: every schema refuses both.
\<close>

record request =
  hr_method :: http_method
  hr_path :: "js_text list"
  hr_authorization :: "string option"
  hr_query :: json
  hr_body :: json
  hr_ip :: string
  hr_userAgent :: "string option"
  hr_csrf :: "string option"
  hr_origin :: "string option"
  hr_memberCookie :: "string option"
  hr_adminCookie :: "string option"
  hr_idempotencyKey :: "js_text option"
  hr_file :: upload
  hr_rawBody :: "string option"
  hr_signature :: "string option"
  hr_eventId :: "string option"

section \<open>Middlewares\<close>

datatype limit_name = Global_limit | Phone_login_limit | Refresh_limit | Admin_login_limit | Upload_limit
  | Attendance_limit | Discovery_limit | Interest_limit | Block_limit | Unblock_limit | Report_limit
  | Warning_limit | Chat_limit | Order_limit | Verification_limit | Notification_limit | Export_limit
  | Public_events_limit

datatype front_end = Web_app | Admin_panel

datatype guard = Ip_limited limit_name | Member_limited limit_name | Authenticate_member | Authenticate_admin
  | Require_active | Require_status "user_status list" | Require_permission admin_permission
  | Require_csrf front_end | Single_image | Cache_control string | Not_for_webhooks guard

text \<open>
  What routing takes from outside: the keys of the tokens, the store of the rate limiting package, the percent
  decoding of a path segment and the addresses of the two front ends.
\<close>

record 'r http =
  ht_auth :: auth_env
  ht_hit :: "limit_name \<Rightarrow> nat \<times> int \<Rightarrow> string + uuid \<Rightarrow> instant \<Rightarrow> 'r \<Rightarrow> bool \<times> 'r"
  ht_decode :: "js_text \<Rightarrow> js_text option"
  ht_origin :: "front_end \<Rightarrow> string"

text \<open>What the middlewares leave on the request and the response.\<close>

record req_context =
  cx_auth :: "member_auth option"
  cx_admin :: "admin_auth option"
  cx_cache :: string

definition API_REQUESTS_PER_MINUTE :: nat where [limits]: "API_REQUESTS_PER_MINUTE = 300"
definition PHONE_LOGINS_PER_IP_PER_15_MIN :: nat where [limits]: "PHONE_LOGINS_PER_IP_PER_15_MIN = 30"
definition PROFILE_IMAGE_UPLOADS_PER_HOUR :: nat where [limits]: "PROFILE_IMAGE_UPLOADS_PER_HOUR = 20"
definition ATTENDANCE_CHANGES_PER_HOUR :: nat where [limits]: "ATTENDANCE_CHANGES_PER_HOUR = 60"
definition DISCOVERY_REQUESTS_PER_MINUTE :: nat where [limits]: "DISCOVERY_REQUESTS_PER_MINUTE = 60"
definition INTEREST_ACTIONS_PER_MINUTE :: nat where [limits]: "INTEREST_ACTIONS_PER_MINUTE = 30"
definition BLOCKS_PER_HOUR :: nat where [limits]: "BLOCKS_PER_HOUR = 30"
definition UNBLOCKS_PER_HOUR :: nat where [limits]: "UNBLOCKS_PER_HOUR = 30"
definition ORDERS_PER_MINUTE :: nat where [limits]: "ORDERS_PER_MINUTE = 10"
definition PAYMENT_VERIFICATIONS_PER_MINUTE :: nat where [limits]: "PAYMENT_VERIFICATIONS_PER_MINUTE = 30"
definition NOTIFICATION_ACTIONS_PER_MINUTE :: nat where [limits]: "NOTIFICATION_ACTIONS_PER_MINUTE = 60"
definition DASHBOARD_EXPORTS_PER_HOUR :: nat where [limits]: "DASHBOARD_EXPORTS_PER_HOUR = 20"
definition PUBLIC_EVENT_REQUESTS_PER_MINUTE :: nat where [limits]: "PUBLIC_EVENT_REQUESTS_PER_MINUTE = 120"

text \<open>The limit and the window of every limiter.\<close>

primrec limit_options :: "limit_name \<Rightarrow> nat \<times> int" where
  "limit_options Global_limit = (API_REQUESTS_PER_MINUTE, MINUTE_MS)"
| "limit_options Phone_login_limit = (PHONE_LOGINS_PER_IP_PER_15_MIN, 15 * MINUTE_MS)"
| "limit_options Refresh_limit = (60, 15 * MINUTE_MS)"
| "limit_options Admin_login_limit = (10, 15 * MINUTE_MS)"
| "limit_options Upload_limit = (PROFILE_IMAGE_UPLOADS_PER_HOUR, HOUR_MS)"
| "limit_options Attendance_limit = (ATTENDANCE_CHANGES_PER_HOUR, HOUR_MS)"
| "limit_options Discovery_limit = (DISCOVERY_REQUESTS_PER_MINUTE, MINUTE_MS)"
| "limit_options Interest_limit = (INTEREST_ACTIONS_PER_MINUTE, MINUTE_MS)"
| "limit_options Block_limit = (BLOCKS_PER_HOUR, HOUR_MS)"
| "limit_options Unblock_limit = (UNBLOCKS_PER_HOUR, HOUR_MS)"
| "limit_options Report_limit = (REPORTS_PER_DAY, HOUR_MS)"
| "limit_options Warning_limit = (30, MINUTE_MS)"
| "limit_options Chat_limit = (SOCKET_EVENTS_PER_MINUTE, MINUTE_MS)"
| "limit_options Order_limit = (ORDERS_PER_MINUTE, MINUTE_MS)"
| "limit_options Verification_limit = (PAYMENT_VERIFICATIONS_PER_MINUTE, MINUTE_MS)"
| "limit_options Notification_limit = (NOTIFICATION_ACTIONS_PER_MINUTE, MINUTE_MS)"
| "limit_options Export_limit = (DASHBOARD_EXPORTS_PER_HOUR, HOUR_MS)"
| "limit_options Public_events_limit = (PUBLIC_EVENT_REQUESTS_PER_MINUTE, MINUTE_MS)"

definition member_key :: "request \<Rightarrow> req_context \<Rightarrow> string + uuid" where
  "member_key req c = (case cx_auth c of Some a \<Rightarrow> Inr (ma_userId a) | None \<Rightarrow> Inl (hr_ip req))"

definition limited ::
    "'r http \<Rightarrow> limit_name \<Rightarrow> string + uuid \<Rightarrow> req_context \<Rightarrow> instant \<Rightarrow> 'r \<Rightarrow> (failure + req_context) \<times> 'r" where
  "limited ht l key c t r =
    (case ht_hit ht l (limit_options l) key t r of (ok, r') \<Rightarrow> (if ok then Inr c else Inl (App RATE_LIMITED), r'))"

primrec csrf_value :: "front_end \<Rightarrow> string" where
  "csrf_value Web_app = ''gp-web''"
| "csrf_value Admin_panel = ''gp-admin''"

definition requireCsrfHeader :: "string \<Rightarrow> string list \<Rightarrow> request \<Rightarrow> failure + unit" where
  "requireCsrfHeader expected allowed req =
    (if hr_csrf req \<noteq> Some expected then Inl (App FORBIDDEN)
     else case hr_origin req of
       Some origin \<Rightarrow> if \<not> List.member allowed origin then Inl (App FORBIDDEN) else Inr ()
     | None \<Rightarrow> Inr ())"

primrec singleImageUpload :: "upload \<Rightarrow> failure + unit" where
  "singleImageUpload No_file = Inl (App VALIDATION_ERROR)"
| "singleImageUpload (Image_file f) = Inr ()"
| "singleImageUpload Refused_type = Inl (App INVALID_IMAGE)"
| "singleImageUpload File_too_large = Inl (App PAYLOAD_TOO_LARGE)"
| "singleImageUpload Malformed_upload = Inl (App VALIDATION_ERROR)"

text \<open>The path inside the router of the API starts with \<open>/webhooks/\<close>.\<close>

definition is_webhook :: "request \<Rightarrow> bool" where
  "is_webhook req = (case hr_path req of p # _ # _ \<Rightarrow> p = units ''webhooks'' | _ \<Rightarrow> False)"

primrec run_guard ::
    "'r http \<Rightarrow> request \<Rightarrow> db \<Rightarrow> guard \<Rightarrow> req_context \<Rightarrow> 'r \<Rightarrow> (failure + req_context) \<times> 'r" where
  "run_guard ht req s (Ip_limited l) c r = limited ht l (Inl (hr_ip req)) c (clock s) r"
| "run_guard ht req s (Member_limited l) c r = limited ht l (member_key req c) c (clock s) r"
| "run_guard ht req s Authenticate_member c r =
    (map_sum id (\<lambda>a. c\<lparr>cx_auth := Some a\<rparr>) (authenticateMember (ht_auth ht) (hr_authorization req) s), r)"
| "run_guard ht req s Authenticate_admin c r =
    (map_sum id (\<lambda>a. c\<lparr>cx_admin := Some a\<rparr>) (authenticateAdmin (ht_auth ht) (hr_authorization req) s), r)"
| "run_guard ht req s Require_active c r = (map_sum id (\<lambda>_. c) (requireActiveMember (cx_auth c)), r)"
| "run_guard ht req s (Require_status allowed) c r = (map_sum id (\<lambda>_. c) (requireMemberStatus allowed (cx_auth c)), r)"
| "run_guard ht req s (Require_permission p) c r = (map_sum id (\<lambda>_. c) (requirePermission p (cx_admin c)), r)"
| "run_guard ht req s (Require_csrf f) c r =
    (map_sum id (\<lambda>_. c) (requireCsrfHeader (csrf_value f) [ht_origin ht f] req), r)"
| "run_guard ht req s Single_image c r = (map_sum id (\<lambda>_. c) (singleImageUpload (hr_file req)), r)"
| "run_guard ht req s (Cache_control v) c r = (Inr (c\<lparr>cx_cache := v\<rparr>), r)"
| "run_guard ht req s (Not_for_webhooks g) c r = (if is_webhook req then (Inr c, r) else run_guard ht req s g c r)"

fun run_guards ::
    "'r http \<Rightarrow> request \<Rightarrow> db \<Rightarrow> guard list \<Rightarrow> req_context \<Rightarrow> 'r \<Rightarrow> (failure + req_context) \<times> 'r" where
  "run_guards ht req s [] c r = (Inr c, r)"
| "run_guards ht req s (g # gs) c r =
    (case run_guard ht req s g c r of
       (Inl e, r') \<Rightarrow> (Inl e, r')
     | (Inr c', r') \<Rightarrow> run_guards ht req s gs c' r')"

section \<open>Paths\<close>

datatype segment = Lit string | Param

text \<open>Literal segments are compared without regard to case; a parameter is any segment but the empty one.\<close>

definition segment_matches :: "segment \<Rightarrow> js_text \<Rightarrow> bool" where
  "segment_matches p t = (case p of Lit w \<Rightarrow> map lower_ascii t = units w | Param \<Rightarrow> t \<noteq> [])"

definition route_pattern :: "segment list \<Rightarrow> segment list" where
  "route_pattern p = (if p = [] then [Lit []] else p)"

text \<open>The path of a router starts with a slash, also when nothing of the address is left.\<close>

definition rooted :: "js_text list \<Rightarrow> js_text list" where
  "rooted ts = (if ts = [] then [[]] else ts)"

text \<open>A route matches the whole path, with or without a slash at its end.\<close>

definition path_matches :: "segment list \<Rightarrow> js_text list \<Rightarrow> bool" where
  "path_matches p ts =
    (list_all2 segment_matches (route_pattern p) ts \<or>
     ts \<noteq> [] \<and> last ts = [] \<and> list_all2 segment_matches (route_pattern p) (butlast ts))"

text \<open>A router is mounted at a prefix of literal segments, and sees the rest of the path.\<close>

definition strip_mount :: "segment list \<Rightarrow> js_text list \<Rightarrow> js_text list option" where
  "strip_mount p ts =
    (if length p \<le> length ts \<and> list_all2 segment_matches p (take (length p) ts) then Some (rooted (drop (length p) ts))
     else None)"

text \<open>The parameters of a matched path, decoded; nothing when one of them is malformed.\<close>

definition params_of :: "(js_text \<Rightarrow> js_text option) \<Rightarrow> segment list \<Rightarrow> js_text list \<Rightarrow> js_text list option" where
  "params_of decode p ts = those (map (decode \<circ> snd) (filter (\<lambda>(x, _). x = Param) (zip p ts)))"

text \<open>A \<open>get\<close> route also answers \<open>HEAD\<close>.\<close>

definition method_matches :: "http_method \<Rightarrow> http_method \<Rightarrow> bool" where
  "method_matches m asked \<longleftrightarrow> m = asked \<or> m = GET \<and> asked = HEAD"

section \<open>Routers\<close>

datatype 'e layer = Use "guard list" | Mount "segment list" "'e layer list"
  | Route http_method "segment list" "guard list" 'e

datatype ('e, 'r) outcome = Passed req_context 'r | Stopped failure 'r | Reached 'e "js_text list" req_context 'r

text \<open>
  The layers of a router are tried in order. A router whose routes do not match passes the request on, with
  everything its middlewares have left on it; a malformed parameter is an error.
\<close>

fun through ::
    "'r http \<Rightarrow> request \<Rightarrow> db \<Rightarrow> 'e layer list \<Rightarrow> js_text list \<Rightarrow> req_context \<Rightarrow> 'r \<Rightarrow> ('e, 'r) outcome" where
  "through ht req s [] ts c r = Passed c r"
| "through ht req s (Use gs # ls) ts c r =
    (case run_guards ht req s gs c r of
       (Inl e, r') \<Rightarrow> Stopped e r'
     | (Inr c', r') \<Rightarrow> through ht req s ls ts c' r')"
| "through ht req s (Mount p inner # ls) ts c r =
    (case strip_mount p ts of
       None \<Rightarrow> through ht req s ls ts c r
     | Some rest \<Rightarrow>
         (case through ht req s inner rest c r of
            Passed c' r' \<Rightarrow> through ht req s ls ts c' r'
          | Stopped e r' \<Rightarrow> Stopped e r'
          | Reached x ps c' r' \<Rightarrow> Reached x ps c' r'))"
| "through ht req s (Route m p gs x # ls) ts c r =
    (if \<not> path_matches p ts then through ht req s ls ts c r
     else case params_of (ht_decode ht) p ts of
       None \<Rightarrow> Stopped (App VALIDATION_ERROR) r
     | Some ps \<Rightarrow>
         if \<not> method_matches m (hr_method req) then through ht req s ls ts c r
         else (case run_guards ht req s gs c r of
             (Inl e, r') \<Rightarrow> Stopped e r'
           | (Inr c', r') \<Rightarrow> Reached x ps c' r'))"

definition no_context :: req_context where
  "no_context = \<lparr>cx_auth = None, cx_admin = None, cx_cache = ''no-store''\<rparr>"

text \<open>A request that no route answers is not found.\<close>

definition dispatch ::
    "'r http \<Rightarrow> 'e layer list \<Rightarrow> request \<Rightarrow> db \<Rightarrow> 'r \<Rightarrow> (failure + 'e \<times> js_text list \<times> req_context) \<times> 'r" where
  "dispatch ht table req s r =
    (case through ht req s table (rooted (hr_path req)) no_context r of
       Passed c r' \<Rightarrow> (Inl (App NOT_FOUND), r')
     | Stopped e r' \<Rightarrow> (Inl e, r')
     | Reached x ps c r' \<Rightarrow> (Inr (x, ps, c), r'))"

section \<open>What a reached handler may rely on\<close>

text \<open>The routes of a table, each with its whole path and every middleware that runs before its handler.\<close>

fun routes_of :: "segment list \<Rightarrow> guard list \<Rightarrow> 'e layer list \<Rightarrow> (http_method \<times> segment list \<times> guard list \<times> 'e) list" where
  "routes_of pre gs [] = []"
| "routes_of pre gs (Use us # ls) = routes_of pre (gs @ us) ls"
| "routes_of pre gs (Mount p inner # ls) = routes_of (pre @ p) gs inner @ routes_of pre gs ls"
| "routes_of pre gs (Route m p us x # ls) = (m, pre @ p, gs @ us, x) # routes_of pre gs ls"

text \<open>The meaning of a middleware that has let the request pass.\<close>

primrec granted :: "'r http \<Rightarrow> request \<Rightarrow> db \<Rightarrow> req_context \<Rightarrow> guard \<Rightarrow> bool" where
  "granted ht req s c (Ip_limited l) = True"
| "granted ht req s c (Member_limited l) = True"
| "granted ht req s c Authenticate_member =
    (\<exists>a. authenticateMember (ht_auth ht) (hr_authorization req) s = Inr a \<and> cx_auth c = Some a)"
| "granted ht req s c Authenticate_admin =
    (\<exists>a. authenticateAdmin (ht_auth ht) (hr_authorization req) s = Inr a \<and> cx_admin c = Some a)"
| "granted ht req s c Require_active = (requireActiveMember (cx_auth c) = Inr ())"
| "granted ht req s c (Require_status allowed) = (requireMemberStatus allowed (cx_auth c) = Inr ())"
| "granted ht req s c (Require_permission p) = (requirePermission p (cx_admin c) = Inr ())"
| "granted ht req s c (Require_csrf f) = (requireCsrfHeader (csrf_value f) [ht_origin ht f] req = Inr ())"
| "granted ht req s c Single_image = (\<exists>f. hr_file req = Image_file f)"
| "granted ht req s c (Cache_control v) = True"
| "granted ht req s c (Not_for_webhooks g) = True"

definition context_ok :: "'r http \<Rightarrow> request \<Rightarrow> db \<Rightarrow> req_context \<Rightarrow> bool" where
  "context_ok ht req s c \<longleftrightarrow>
    (\<forall>a. cx_auth c = Some a \<longrightarrow> authenticateMember (ht_auth ht) (hr_authorization req) s = Inr a) \<and>
    (\<forall>a. cx_admin c = Some a \<longrightarrow> authenticateAdmin (ht_auth ht) (hr_authorization req) s = Inr a)"

lemma context_ok_start: "context_ok ht req s no_context"
  by (simp add: context_ok_def no_context_def)

lemma requires_auth [simp]: "requireActiveMember None \<noteq> Inr ()" "requireMemberStatus l None \<noteq> Inr ()" "requirePermission p None \<noteq> Inr ()"
  by (simp_all add: requireActiveMember_def requireMemberStatus_def requirePermission_def)

text \<open>What one middleware has granted, a later one does not take back.\<close>

definition extends :: "req_context \<Rightarrow> req_context \<Rightarrow> bool" where
  "extends c c' \<longleftrightarrow> (cx_auth c = None \<or> cx_auth c' = cx_auth c) \<and> (cx_admin c = None \<or> cx_admin c' = cx_admin c)"

lemma extends_refl [simp]: "extends c c"
  by (simp add: extends_def)

lemma extends_trans: "extends a b \<Longrightarrow> extends b c \<Longrightarrow> extends a c"
  by (auto simp: extends_def)

lemma granted_extends: "granted ht req s c g \<Longrightarrow> extends c c' \<Longrightarrow> granted ht req s c' g"
  by (cases g) (auto simp: extends_def)

lemma guard_grants:
  "run_guard ht req s g c r = (Inr c', r') \<Longrightarrow> context_ok ht req s c \<Longrightarrow>
    context_ok ht req s c' \<and> extends c c' \<and> granted ht req s c' g"
proof (induction g arbitrary: c c' r r')
  case Authenticate_member
  then show ?case by (cases "authenticateMember (ht_auth ht) (hr_authorization req) s"; cases "cx_auth c") (auto simp: context_ok_def extends_def)
next
  case Authenticate_admin
  then show ?case by (cases "authenticateAdmin (ht_auth ht) (hr_authorization req) s"; cases "cx_admin c") (auto simp: context_ok_def extends_def)
next
  case Single_image
  then show ?case by (cases "hr_file req") auto
next
  case Require_active
  then show ?case by (cases "requireActiveMember (cx_auth c)") auto
next
  case (Require_status l)
  then show ?case by (cases "requireMemberStatus l (cx_auth c)") auto
next
  case (Require_permission p)
  then show ?case by (cases "requirePermission p (cx_admin c)") auto
next
  case (Require_csrf f)
  then show ?case by (cases "requireCsrfHeader (csrf_value f) [ht_origin ht f] req") auto
next
  case (Not_for_webhooks g)
  then show ?case by (auto split: if_splits)
qed (auto simp: limited_def context_ok_def extends_def split: prod.splits if_splits)

lemma guards_grant:
  "run_guards ht req s gs c r = (Inr c', r') \<Longrightarrow> context_ok ht req s c \<Longrightarrow>
    context_ok ht req s c' \<and> extends c c' \<and> (\<forall>g \<in> set gs. granted ht req s c' g)"
proof (induction gs arbitrary: c r)
  case (Cons g gs)
  then obtain d q where d: "run_guard ht req s g c r = (Inr d, q)" "run_guards ht req s gs d q = (Inr c', r')"
    by (auto split: prod.splits sum.splits)
  with guard_grants[OF d(1) Cons.prems(2)] Cons.IH[OF d(2)] show ?case
    by (auto intro: extends_trans granted_extends)
qed simp

lemma through_grants:
  "(\<forall>c' r'. through ht req s ls ts c r = Passed c' r' \<longrightarrow> context_ok ht req s c' \<and> extends c c') \<and>
   (\<forall>x ps c' r'. through ht req s ls ts c r = Reached x ps c' r' \<longrightarrow>
      context_ok ht req s c' \<and> extends c c' \<and>
      (\<exists>q \<in> set (routes_of pre gs0 ls). snd (snd (snd q)) = x \<and> method_matches (fst q) (hr_method req) \<and>
        (\<forall>g \<in> set (fst (snd (snd q))). granted ht req s c' g)))"
  if "context_ok ht req s c" "\<forall>g \<in> set gs0. granted ht req s c g"
  using that
proof (induction ht req s ls ts c r arbitrary: pre gs0 rule: through.induct)
  case (1 ht req s ts c r)
  then show ?case by simp
next
  case (2 ht req s gs ls ts c r)
  show ?case
  proof (cases "run_guards ht req s gs c r")
    case (Pair o' r1)
    show ?thesis
    proof (cases o')
      case (Inl e)
      with Pair show ?thesis by simp
    next
      case (Inr c1)
      with Pair have run: "run_guards ht req s gs c r = (Inr c1, r1)" by simp
      note g = guards_grant[OF run 2(2)]
      have "\<forall>h \<in> set (gs0 @ gs). granted ht req s c1 h"
        using g 2(3) by (auto intro: granted_extends)
      from 2(1)[OF run[symmetric] _ _ this, of pre] g run show ?thesis
        by (auto intro: extends_trans)
    qed
  qed
next
  case (3 ht req s p inner ls ts c r)
  show ?case
  proof (cases "strip_mount p ts")
    case None
    with 3(1)[OF None 3(4,5), of pre] show ?thesis by auto
  next
    case (Some rest)
    note inner = 3(2)[OF Some 3(4,5), of "pre @ p"]
    show ?thesis
    proof (cases "through ht req s inner rest c r")
      case (Passed c1 r1)
      with inner have c1: "context_ok ht req s c1" "extends c c1" by auto
      have "\<forall>h \<in> set gs0. granted ht req s c1 h" using 3(5) c1 by (auto intro: granted_extends)
      from 3(3)[OF Some Passed c1(1) this, of pre] c1 Some Passed show ?thesis
        by (auto intro: extends_trans)
    next
      case (Stopped e r1)
      with Some show ?thesis by simp
    next
      case (Reached x ps c1 r1)
      with inner Some show ?thesis by auto
    qed
  qed
next
  case (4 ht req s m p gs x ls ts c r)
  show ?case
  proof (cases "path_matches p ts")
    case False
    with 4(1)[OF _ 4(3,4), of pre] show ?thesis by auto
  next
    case True
    show ?thesis
    proof (cases "params_of (ht_decode ht) p ts")
      case None
      with True show ?thesis by simp
    next
      case (Some ps)
      show ?thesis
      proof (cases "method_matches m (hr_method req)")
        case False
        with 4(2)[OF _ Some _ 4(3,4), of pre] True Some show ?thesis by auto
      next
        case asked: True
        show ?thesis
        proof (cases "run_guards ht req s gs c r")
          case (Pair o' r1)
          show ?thesis
          proof (cases o')
            case (Inl e)
            with True Some asked Pair show ?thesis by simp
          next
            case (Inr c1)
            with Pair have "run_guards ht req s gs c r = (Inr c1, r1)" by simp
            from guards_grant[OF this 4(3)] 4(4) True Some asked Pair Inr show ?thesis
              by (auto intro: granted_extends)
          qed
        qed
      qed
    qed
  qed
qed

lemma dispatch_grants:
  assumes "dispatch ht table req s r = (Inr (x, ps, c), r')"
  shows "\<exists>m p gs. (m, p, gs, x) \<in> set (routes_of [] [] table) \<and> method_matches m (hr_method req) \<and>
    (\<forall>g \<in> set gs. granted ht req s c g)" "context_ok ht req s c"
proof -
  have "through ht req s table (rooted (hr_path req)) no_context r = Reached x ps c r'"
    using assms by (auto simp: dispatch_def split: outcome.splits)
  with through_grants[OF context_ok_start, of "[]" ht req s table "rooted (hr_path req)" r "[]"]
  show "\<exists>m p gs. (m, p, gs, x) \<in> set (routes_of [] [] table) \<and> method_matches m (hr_method req) \<and>
      (\<forall>g \<in> set gs. granted ht req s c g)" "context_ok ht req s c"
    by fastforce+
qed

end
