(* ===== verification/Routes.thy ===== *)
theory Routes
  imports Routing
begin

text \<open>
  The routes of the API (\<open>routes.ts\<close> and the \<open>*.routes.ts\<close> files) in the order in which they are mounted, each
  with its middlewares. The webhook of WhatsApp exists only when that channel is configured and is not modelled.
\<close>

section \<open>The handlers\<close>

datatype site_handler = Health | Cities | Areas
datatype auth_handler = Phone_login | Refresh_session | Log_out | Get_me
datatype admin_auth_handler = Log_in_admin | Refresh_admin | Log_out_admin | Get_admin
datatype profile_handler = Get_mine | Create_mine | Update_mine | Preview_mine | Upload_photo | Delete_photo
  | Set_preferences | Get_public
datatype admin_user_handler = List_users | Get_user | Warn | Restrict_chat | Lift_chat_restriction | Suspend
  | Reactivate | Ban_user | Unban_user | Restrict_interactions | Lift_interaction_restriction
datatype attendance_handler = Get_attendance | Set_attendance | Clear_attendance | My_attendance
datatype partner_handler = List_partners | Get_partner
datatype interest_handler = Send_interest | Received_interests | Sent_interests | Accept_interest | Reject_interest
  | Withdraw_interest
datatype match_handler = List_matches | Get_match | Unmatch_member
datatype safety_handler = List_blocked | Block_a_member | Unblock_a_member | Report_a_member | Get_safety | Acknowledge_warning
datatype chat_handler = List_chats | Unread_total | Get_chat | List_messages | Send_message | Read_messages
datatype payment_handler = Create_order | Get_order | Verify_payment | List_bookings | Get_booking | Razorpay_webhook
datatype admin_payment_handler = List_orders | Get_admin_order | List_admin_bookings | Get_admin_booking | Refund
datatype notification_handler = List_notifications | Unread_count | Read_all | Get_choices | Set_choices | Read_one
datatype dashboard_handler = Summary | Trends | Event_rows | Export_events | Notification_counts
datatype report_handler = Report_queue | Get_report | View_conversation | Assign_report | Resolve_report
datatype event_handler = List_events | Get_event
datatype moderation_handler = Matches_of_user | Close_match | Safety_logs | Audit_logs
datatype event_action = Publish | Unpublish | Verify | Unverify | Archive | Restore
datatype admin_event_handler = List_admin_events | Get_admin_event | Create_event | Update_event | Set_image
  | Delete_image | Event_action event_action | Set_pass | Remove_event
datatype organizer_action = Verify_it | Unverify_it | Archive_it | Restore_it
datatype organizer_handler = List_organizers | Organizer_choices | Get_organizer | Create_organizer | Update_organizer
  | Organizer_action organizer_action

datatype handler = Site site_handler | Auth auth_handler | Admin_session_handler admin_auth_handler
  | Profile profile_handler | Admin_user admin_user_handler | Attending attendance_handler | Partners partner_handler
  | Interests interest_handler | Matches match_handler | Safety safety_handler | Chats chat_handler
  | Payment payment_handler | Admin_payment admin_payment_handler | Notification notification_handler
  | Dashboard dashboard_handler | Report report_handler | Public_event event_handler | Moderation moderation_handler
  | Admin_event admin_event_handler | Organizer organizer_handler

section \<open>The routers\<close>

definition private_no_store :: guard where "private_no_store = Cache_control ''private, no-store''"
definition no_store :: guard where "no_store = Cache_control ''no-store''"

text \<open>Suspended members may still act for themselves.\<close>

definition own_account :: "guard list" where
  "own_account = [Authenticate_member, Require_status [U_active, U_suspended]]"

definition active_account :: "guard list" where "active_account = [Authenticate_member, Require_active]"

definition admin_with :: "admin_permission \<Rightarrow> guard list" where
  "admin_with p = [Authenticate_admin, Require_permission p]"

definition site_router :: "handler layer list" where
  "site_router = [
    Mount [Lit ''health''] [Route GET [] [] (Site Health)],
    Mount [Lit ''cities''] [Route GET [] [] (Site Cities), Route GET [Param, Lit ''areas''] [] (Site Areas)]]"

definition auth_router :: "handler layer list" where
  "auth_router = [
    Route POST [Lit ''phone''] [Ip_limited Phone_login_limit] (Auth Phone_login),
    Route POST [Lit ''refresh''] [Ip_limited Refresh_limit, Require_csrf Web_app] (Auth Refresh_session),
    Route POST [Lit ''logout''] [Authenticate_member] (Auth Log_out),
    Route GET [Lit ''me''] [Authenticate_member] (Auth Get_me)]"

definition admin_auth_router :: "handler layer list" where
  "admin_auth_router = [
    Route POST [Lit ''login''] [Ip_limited Admin_login_limit] (Admin_session_handler Log_in_admin),
    Route POST [Lit ''refresh''] [Ip_limited Refresh_limit, Require_csrf Admin_panel] (Admin_session_handler Refresh_admin),
    Route POST [Lit ''logout''] [Authenticate_admin] (Admin_session_handler Log_out_admin),
    Route GET [Lit ''me''] [Authenticate_admin] (Admin_session_handler Get_admin)]"

definition my_profile_router :: "handler layer list" where
  "my_profile_router = [
    Route GET [Lit ''profile''] own_account (Profile Get_mine),
    Route POST [Lit ''profile''] own_account (Profile Create_mine),
    Route PATCH [Lit ''profile''] own_account (Profile Update_mine),
    Route GET [Lit ''profile'', Lit ''preview''] own_account (Profile Preview_mine),
    Route POST [Lit ''profile'', Lit ''image''] (own_account @ [Member_limited Upload_limit, Single_image]) (Profile Upload_photo),
    Route DELETE_method [Lit ''profile'', Lit ''image''] own_account (Profile Delete_photo),
    Route PUT [Lit ''preferences''] own_account (Profile Set_preferences)]"

definition public_profile_router :: "handler layer list" where
  "public_profile_router = [Route GET [Param, Lit ''profile''] active_account (Profile Get_public)]"

definition admin_users_router :: "handler layer list" where
  "admin_users_router = [
    Route GET [] (admin_with Users_view) (Admin_user List_users),
    Route GET [Param] (admin_with Users_view) (Admin_user Get_user),
    Route POST [Param, Lit ''warn''] (admin_with Users_sanction) (Admin_user Warn),
    Route POST [Param, Lit ''restrict-chat''] (admin_with Users_sanction) (Admin_user Restrict_chat),
    Route POST [Param, Lit ''lift-chat-restriction''] (admin_with Users_sanction) (Admin_user Lift_chat_restriction),
    Route POST [Param, Lit ''suspend''] (admin_with Users_sanction) (Admin_user Suspend),
    Route POST [Param, Lit ''reactivate''] (admin_with Users_sanction) (Admin_user Reactivate),
    Route POST [Param, Lit ''ban''] (admin_with Users_sanction) (Admin_user Ban_user),
    Route POST [Param, Lit ''unban''] (admin_with Users_unban) (Admin_user Unban_user),
    Route POST [Param, Lit ''restrict-interactions''] (admin_with Users_sanction) (Admin_user Restrict_interactions),
    Route POST [Param, Lit ''lift-interaction-restriction''] (admin_with Users_sanction)
      (Admin_user Lift_interaction_restriction)]"

definition attendance_router :: "handler layer list" where
  "attendance_router = [
    Route GET [Param, Lit ''attendance''] (own_account @ [private_no_store]) (Attending Get_attendance),
    Route PUT [Param, Lit ''attendance''] (active_account @ [Member_limited Attendance_limit, private_no_store])
      (Attending Set_attendance),
    Route DELETE_method [Param, Lit ''attendance''] (active_account @ [Member_limited Attendance_limit, private_no_store])
      (Attending Clear_attendance)]"

definition my_attendance_router :: "handler layer list" where
  "my_attendance_router = [Route GET [Lit ''attendance''] (own_account @ [private_no_store]) (Attending My_attendance)]"

definition partners_router :: "handler layer list" where
  "partners_router = [
    Use (active_account @ [Member_limited Discovery_limit, private_no_store]),
    Route GET [] [] (Partners List_partners),
    Route GET [Param] [] (Partners Get_partner)]"

definition interests_router :: "handler layer list" where
  "interests_router = [
    Use (active_account @ [private_no_store]),
    Route POST [] [Member_limited Interest_limit] (Interests Send_interest),
    Route GET [Lit ''received''] [] (Interests Received_interests),
    Route GET [Lit ''sent''] [] (Interests Sent_interests),
    Route POST [Param, Lit ''accept''] [Member_limited Interest_limit] (Interests Accept_interest),
    Route POST [Param, Lit ''reject''] [Member_limited Interest_limit] (Interests Reject_interest),
    Route DELETE_method [Param] [Member_limited Interest_limit] (Interests Withdraw_interest)]"

definition matches_router :: "handler layer list" where
  "matches_router = [
    Use (active_account @ [private_no_store]),
    Route GET [] [] (Matches List_matches),
    Route GET [Param] [] (Matches Get_match),
    Route POST [Param, Lit ''unmatch''] [Member_limited Interest_limit] (Matches Unmatch_member)]"

definition blocks_router :: "handler layer list" where
  "blocks_router = [
    Route GET [] own_account (Safety List_blocked),
    Route POST [] (own_account @ [Member_limited Block_limit]) (Safety Block_a_member),
    Route DELETE_method [Param] (own_account @ [Member_limited Unblock_limit]) (Safety Unblock_a_member)]"

definition reports_router :: "handler layer list" where
  "reports_router = [Route POST [] (own_account @ [Member_limited Report_limit]) (Safety Report_a_member)]"

definition my_safety_router :: "handler layer list" where
  "my_safety_router = [
    Route GET [Lit ''safety''] own_account (Safety Get_safety),
    Route POST [Lit ''warnings'', Param, Lit ''acknowledge''] (own_account @ [Member_limited Warning_limit])
      (Safety Acknowledge_warning)]"

definition chats_router :: "handler layer list" where
  "chats_router = [
    Use (active_account @ [private_no_store]),
    Route GET [] [] (Chats List_chats),
    Route GET [Lit ''unread''] [] (Chats Unread_total),
    Route GET [Param] [] (Chats Get_chat),
    Route GET [Param, Lit ''messages''] [] (Chats List_messages),
    Route POST [Param, Lit ''messages''] [] (Chats Send_message),
    Route POST [Param, Lit ''read''] [Member_limited Chat_limit] (Chats Read_messages)]"

definition orders_router :: "handler layer list" where
  "orders_router = [
    Use (active_account @ [private_no_store]),
    Route POST [] [Member_limited Order_limit] (Payment Create_order),
    Route GET [Param] [] (Payment Get_order),
    Route POST [Param, Lit ''verify''] [Member_limited Verification_limit] (Payment Verify_payment)]"

definition bookings_router :: "handler layer list" where
  "bookings_router = [
    Use (own_account @ [private_no_store]),
    Route GET [] [] (Payment List_bookings),
    Route GET [Param] [] (Payment Get_booking)]"

definition payment_webhook_router :: "handler layer list" where
  "payment_webhook_router = [Route POST [Lit ''webhooks'', Lit ''razorpay''] [] (Payment Razorpay_webhook)]"

definition admin_payments_router :: "handler layer list" where
  "admin_payments_router = [
    Use [no_store],
    Route GET [Lit ''orders''] (admin_with Payments_view) (Admin_payment List_orders),
    Route GET [Lit ''orders'', Param] (admin_with Payments_view) (Admin_payment Get_admin_order),
    Route GET [Lit ''bookings''] (admin_with Payments_view) (Admin_payment List_admin_bookings),
    Route GET [Lit ''bookings'', Param] (admin_with Payments_view) (Admin_payment Get_admin_booking),
    Route POST [Lit ''bookings'', Param, Lit ''refund''] (admin_with Payments_refund) (Admin_payment Refund)]"

definition notifications_router :: "handler layer list" where
  "notifications_router = [
    Use (own_account @ [private_no_store]),
    Route GET [] [] (Notification List_notifications),
    Route GET [Lit ''unread-count''] [] (Notification Unread_count),
    Route POST [Lit ''read-all''] [Member_limited Notification_limit] (Notification Read_all),
    Route GET [Lit ''preferences''] [] (Notification Get_choices),
    Route PUT [Lit ''preferences''] [Member_limited Notification_limit] (Notification Set_choices),
    Route POST [Param, Lit ''read''] [Member_limited Notification_limit] (Notification Read_one)]"

definition dashboard_router :: "handler layer list" where
  "dashboard_router = [
    Use (admin_with Dashboard_view @ [no_store]),
    Route GET [Lit ''summary''] [] (Dashboard Summary),
    Route GET [Lit ''trends''] [] (Dashboard Trends),
    Route GET [Lit ''events''] [Require_permission Events_view] (Dashboard Event_rows),
    Route GET [Lit ''events'', Lit ''export'']
      [Require_permission Events_view, Require_permission Payments_view, Ip_limited Export_limit] (Dashboard Export_events)]"

definition admin_notifications_router :: "handler layer list" where
  "admin_notifications_router = [Route GET [Lit ''stats''] (admin_with Dashboard_view) (Dashboard Notification_counts)]"

definition admin_reports_router :: "handler layer list" where
  "admin_reports_router = [
    Use (admin_with Reports_manage @ [no_store]),
    Route GET [] [] (Report Report_queue),
    Route GET [Param] [] (Report Get_report),
    Route GET [Param, Lit ''conversation''] [] (Report View_conversation),
    Route POST [Param, Lit ''assign''] [] (Report Assign_report),
    Route POST [Param, Lit ''resolve''] [] (Report Resolve_report)]"

definition events_router :: "handler layer list" where
  "events_router = [
    Use [Ip_limited Public_events_limit],
    Route GET [] [] (Public_event List_events),
    Route GET [Param] [] (Public_event Get_event)]"

definition admin_matches_router :: "handler layer list" where
  "admin_matches_router = [
    Route GET [Lit ''users'', Param, Lit ''matches''] (admin_with Users_view @ [no_store]) (Moderation Matches_of_user),
    Route POST [Lit ''matches'', Param, Lit ''close''] (admin_with Users_sanction @ [no_store]) (Moderation Close_match)]"

definition admin_logs_router :: "handler layer list" where
  "admin_logs_router = [
    Route GET [Lit ''safety-logs''] (admin_with Safety_logs_view) (Moderation Safety_logs),
    Route GET [Lit ''audit-logs''] (admin_with Audit_view) (Moderation Audit_logs)]"

definition event_actions :: "(string \<times> event_action) list" where
  "event_actions = [(''publish'', Publish), (''unpublish'', Unpublish), (''verify'', Verify), (''unverify'', Unverify),
    (''archive'', Archive), (''restore'', Restore)]"

definition admin_events_router :: "handler layer list" where
  "admin_events_router = [
    Use [no_store],
    Route GET [] (admin_with Events_view) (Admin_event List_admin_events),
    Route GET [Param] (admin_with Events_view) (Admin_event Get_admin_event),
    Route POST [] (admin_with Events_manage) (Admin_event Create_event),
    Route PATCH [Param] (admin_with Events_manage) (Admin_event Update_event),
    Route POST [Param, Lit ''image''] (admin_with Events_manage @ [Single_image]) (Admin_event Set_image),
    Route DELETE_method [Param, Lit ''image''] (admin_with Events_manage) (Admin_event Delete_image)] @
    map (\<lambda>(name, action). Route POST [Param, Lit name] (admin_with Events_manage) (Admin_event (Event_action action)))
      event_actions @
    [Route PUT [Param, Lit ''pass''] (admin_with Events_manage) (Admin_event Set_pass),
     Route DELETE_method [Param] (admin_with Events_manage) (Admin_event Remove_event)]"

definition organizer_actions :: "(string \<times> organizer_action) list" where
  "organizer_actions = [(''verify'', Verify_it), (''unverify'', Unverify_it), (''archive'', Archive_it), (''restore'', Restore_it)]"

definition admin_organizers_router :: "handler layer list" where
  "admin_organizers_router = [
    Use [no_store],
    Route GET [] (admin_with Events_view) (Organizer List_organizers),
    Route GET [Lit ''options''] (admin_with Events_view) (Organizer Organizer_choices),
    Route GET [Param] (admin_with Events_view) (Organizer Get_organizer),
    Route POST [] (admin_with Events_manage) (Organizer Create_organizer),
    Route PATCH [Param] (admin_with Events_manage) (Organizer Update_organizer)] @
    map (\<lambda>(name, action). Route POST [Param, Lit name] (admin_with Events_manage) (Organizer (Organizer_action action)))
      organizer_actions"

definition api_router :: "handler layer list" where
  "api_router =
    Use [Not_for_webhooks (Ip_limited Global_limit)] # site_router @
    [Mount [Lit ''auth''] auth_router,
     Mount [Lit ''admin'', Lit ''auth''] admin_auth_router,
     Mount [Lit ''me''] my_profile_router,
     Mount [Lit ''users''] public_profile_router,
     Mount [Lit ''admin'', Lit ''users''] admin_users_router,
     Mount [Lit ''events''] attendance_router,
     Mount [Lit ''me''] my_attendance_router,
     Mount [Lit ''partners''] partners_router,
     Mount [Lit ''interests''] interests_router,
     Mount [Lit ''matches''] matches_router,
     Mount [Lit ''blocks''] blocks_router,
     Mount [Lit ''reports''] reports_router,
     Mount [Lit ''me''] my_safety_router,
     Mount [Lit ''chats''] chats_router,
     Mount [Lit ''orders''] orders_router,
     Mount [Lit ''bookings''] bookings_router,
     Mount [] payment_webhook_router,
     Mount [Lit ''admin'', Lit ''payments''] admin_payments_router,
     Mount [Lit ''notifications''] notifications_router,
     Mount [Lit ''admin'', Lit ''dashboard''] dashboard_router,
     Mount [Lit ''admin'', Lit ''notifications''] admin_notifications_router,
     Mount [Lit ''admin'', Lit ''reports''] admin_reports_router,
     Mount [Lit ''events''] events_router,
     Mount [Lit ''admin''] admin_matches_router,
     Mount [Lit ''admin''] admin_logs_router,
     Mount [Lit ''admin'', Lit ''events''] admin_events_router,
     Mount [Lit ''admin'', Lit ''organizers''] admin_organizers_router]"

end
