(* ===== verification/Access.thy ===== *)
theory Access
  imports Routes
begin

text \<open>
  Who reaches which handler. The access every handler needs is stated by handler, independently of the table of
  the routes; the theorems show that the middlewares of the table enforce it and that every address runs exactly
  the middlewares of its own route.
\<close>

section \<open>The access policy\<close>

datatype access = Anyone | Signed_in | Own_account | Active_member | Administrator | Permitted "admin_permission list"

primrec auth_access :: "auth_handler \<Rightarrow> access" where
  "auth_access Phone_login = Anyone"
| "auth_access Refresh_session = Anyone"
| "auth_access Log_out = Signed_in"
| "auth_access Get_me = Signed_in"

primrec admin_auth_access :: "admin_auth_handler \<Rightarrow> access" where
  "admin_auth_access Log_in_admin = Anyone"
| "admin_auth_access Refresh_admin = Anyone"
| "admin_auth_access Log_out_admin = Administrator"
| "admin_auth_access Get_admin = Administrator"

definition admin_user_access :: "admin_user_handler \<Rightarrow> access" where
  "admin_user_access h = Permitted (case h of List_users \<Rightarrow> [Users_view] | Get_user \<Rightarrow> [Users_view]
     | Unban_user \<Rightarrow> [Users_unban] | _ \<Rightarrow> [Users_sanction])"

definition attendance_access :: "attendance_handler \<Rightarrow> access" where
  "attendance_access h = (if h = Get_attendance \<or> h = My_attendance then Own_account else Active_member)"

definition payment_access :: "payment_handler \<Rightarrow> access" where
  "payment_access h = (case h of Razorpay_webhook \<Rightarrow> Anyone | List_bookings \<Rightarrow> Own_account | Get_booking \<Rightarrow> Own_account
     | _ \<Rightarrow> Active_member)"

primrec dashboard_access :: "dashboard_handler \<Rightarrow> access" where
  "dashboard_access Summary = Permitted [Dashboard_view]"
| "dashboard_access Trends = Permitted [Dashboard_view]"
| "dashboard_access Event_rows = Permitted [Dashboard_view, Events_view]"
| "dashboard_access Export_events = Permitted [Dashboard_view, Events_view, Payments_view]"
| "dashboard_access Notification_counts = Permitted [Dashboard_view]"

primrec moderation_access :: "moderation_handler \<Rightarrow> access" where
  "moderation_access Matches_of_user = Permitted [Users_view]"
| "moderation_access Close_match = Permitted [Users_sanction]"
| "moderation_access Safety_logs = Permitted [Safety_logs_view]"
| "moderation_access Audit_logs = Permitted [Audit_view]"

primrec access_of :: "handler \<Rightarrow> access" where
  "access_of (Site h) = Anyone"
| "access_of (Auth h) = auth_access h"
| "access_of (Admin_session_handler h) = admin_auth_access h"
| "access_of (Profile h) = (if h = Get_public then Active_member else Own_account)"
| "access_of (Admin_user h) = admin_user_access h"
| "access_of (Attending h) = attendance_access h"
| "access_of (Partners h) = Active_member"
| "access_of (Interests h) = Active_member"
| "access_of (Matches h) = Active_member"
| "access_of (Safety h) = Own_account"
| "access_of (Chats h) = Active_member"
| "access_of (Payment h) = payment_access h"
| "access_of (Admin_payment h) = Permitted [if h = Refund then Payments_refund else Payments_view]"
| "access_of (Notification h) = Own_account"
| "access_of (Dashboard h) = dashboard_access h"
| "access_of (Report h) = Permitted [Reports_manage]"
| "access_of (Public_event h) = Anyone"
| "access_of (Moderation h) = moderation_access h"
| "access_of (Admin_event h) = Permitted [if h = List_admin_events \<or> h = Get_admin_event then Events_view else Events_manage]"
| "access_of (Organizer h) = Permitted [if h = List_organizers \<or> h = Organizer_choices \<or> h = Get_organizer
     then Events_view else Events_manage]"

text \<open>What the access means: a live session, the state of its account, the permissions of its role.\<close>

definition member_admitted :: "'r http \<Rightarrow> request \<Rightarrow> db \<Rightarrow> req_context \<Rightarrow> (member_auth \<Rightarrow> bool) \<Rightarrow> bool" where
  "member_admitted ht req s c P \<longleftrightarrow>
    (\<exists>a. authenticateMember (ht_auth ht) (hr_authorization req) s = Inr a \<and> cx_auth c = Some a \<and> P a)"

definition admin_admitted :: "'r http \<Rightarrow> request \<Rightarrow> db \<Rightarrow> req_context \<Rightarrow> admin_permission list \<Rightarrow> bool" where
  "admin_admitted ht req s c ps \<longleftrightarrow>
    (\<exists>a. authenticateAdmin (ht_auth ht) (hr_authorization req) s = Inr a \<and> cx_admin c = Some a \<and>
      (\<forall>p \<in> set ps. roleHasPermission (aa_role a) p))"

primrec admitted :: "'r http \<Rightarrow> request \<Rightarrow> db \<Rightarrow> req_context \<Rightarrow> access \<Rightarrow> bool" where
  "admitted ht req s c Anyone = True"
| "admitted ht req s c Signed_in = member_admitted ht req s c (\<lambda>a. True)"
| "admitted ht req s c Own_account = member_admitted ht req s c (\<lambda>a. ma_status a = U_active \<or> ma_status a = U_suspended)"
| "admitted ht req s c Active_member = member_admitted ht req s c (\<lambda>a. ma_status a = U_active \<and> ma_onboarded a)"
| "admitted ht req s c Administrator = admin_admitted ht req s c []"
| "admitted ht req s c (Permitted ps) = admin_admitted ht req s c ps"

section \<open>The table enforces the policy\<close>

primrec enforces :: "access \<Rightarrow> guard list \<Rightarrow> bool" where
  "enforces Anyone gs = True"
| "enforces Signed_in gs = (List.member gs Authenticate_member)"
| "enforces Own_account gs = (List.member gs Authenticate_member \<and> List.member gs (Require_status [U_active, U_suspended]))"
| "enforces Active_member gs = (List.member gs Authenticate_member \<and> List.member gs Require_active)"
| "enforces Administrator gs = List.member gs Authenticate_admin"
| "enforces (Permitted ps) gs =
    (List.member gs Authenticate_admin \<and> list_all (\<lambda>p. List.member gs (Require_permission p)) ps)"

lemma table_enforces: "list_all (\<lambda>(m, p, gs, h). enforces (access_of h) gs) (routes_of [] [] api_router)"
  by code_simp

lemma enforced_admits:
  assumes "enforces a gs" "\<forall>g \<in> set gs. granted ht req s c g"
  shows "admitted ht req s c a"
proof -
  have member: "\<exists>x. authenticateMember (ht_auth ht) (hr_authorization req) s = Inr x \<and> cx_auth c = Some x"
    if "List.member gs Authenticate_member" using that assms(2) by auto
  have admin: "\<exists>x. authenticateAdmin (ht_auth ht) (hr_authorization req) s = Inr x \<and> cx_admin c = Some x"
    if "List.member gs Authenticate_admin" using that assms(2) by auto
  have permission: "requirePermission p (cx_admin c) = Inr ()" if "List.member gs (Require_permission p)" for p
    using that assms(2) by auto
  have status: "requireMemberStatus [U_active, U_suspended] (cx_auth c) = Inr ()"
    if "List.member gs (Require_status [U_active, U_suspended])" using that assms(2) by auto
  have active: "requireActiveMember (cx_auth c) = Inr ()" if "List.member gs Require_active" using that assms(2) by auto
  show ?thesis
  proof (cases a)
    case Own_account
    with assms(1) member status show ?thesis
      by (auto simp: member_admitted_def requireMemberStatus_def split: if_splits)
  next
    case Active_member
    with assms(1) member active show ?thesis
      by (auto simp: member_admitted_def requireActiveMember_def split: if_splits)
  next
    case (Permitted ps)
    with assms(1) obtain x where x: "authenticateAdmin (ht_auth ht) (hr_authorization req) s = Inr x" "cx_admin c = Some x"
      using admin by auto
    have "roleHasPermission (aa_role x) p" if "p \<in> set ps" for p
      using permission[of p] assms(1) Permitted that x by (auto simp: requirePermission_def list_all_iff split: if_splits)
    with x Permitted show ?thesis by (auto simp: admin_admitted_def)
  qed (use assms(1) member admin in \<open>auto simp: member_admitted_def admin_admitted_def\<close>)
qed

text \<open>
  C36. A request reaches a handler only with the access the handler needs: a member handler only with a live session
  of an account in the right state, an administrator's handler only with a live administrator session whose role
  holds every permission it needs. This is whatever method, path, headers and body the request has.
\<close>

theorem handlers_are_guarded:
  assumes "dispatch ht api_router req s r = (Inr (h, ps, c), r')"
  shows "admitted ht req s c (access_of h)"
proof -
  obtain m p gs where route: "(m, p, gs, h) \<in> set (routes_of [] [] api_router)" "\<forall>g \<in> set gs. granted ht req s c g"
    using dispatch_grants(1)[OF assms] by blast
  then have "enforces (access_of h) gs"
    using table_enforces by (auto simp: list_all_iff)
  with route(2) show ?thesis by (rule enforced_admits[rotated])
qed


section \<open>Every address runs its own middlewares\<close>

text \<open>What happens to a path when every middleware lets it pass: the middlewares it runs, and the route it ends at.\<close>

fun trace :: "'e layer list \<Rightarrow> http_method \<Rightarrow> js_text list \<Rightarrow> guard list \<times> (segment list \<times> js_text list \<times> 'e) option" where
  "trace [] m ts = ([], None)"
| "trace (Use gs # ls) m ts = (case trace ls m ts of (hs, x) \<Rightarrow> (gs @ hs, x))"
| "trace (Mount p inner # ls) m ts =
    (case strip_mount p ts of
       None \<Rightarrow> trace ls m ts
     | Some rest \<Rightarrow>
         (case trace inner m rest of
            (gs, Some x) \<Rightarrow> (gs, Some x)
          | (gs, None) \<Rightarrow> (case trace ls m ts of (hs, x) \<Rightarrow> (gs @ hs, x))))"
| "trace (Route m' p gs x # ls) m ts =
    (if path_matches p ts \<and> method_matches m' m then (gs, Some (p, ts, x)) else trace ls m ts)"

lemma run_guards_append: "run_guards ht req s (gs @ hs) c r =
    (case run_guards ht req s gs c r of (Inl e, r') \<Rightarrow> (Inl e, r') | (Inr c', r') \<Rightarrow> run_guards ht req s hs c' r')"
  by (induction gs arbitrary: c r) (auto split: prod.splits sum.splits)

definition plain_path :: "'r http \<Rightarrow> js_text list \<Rightarrow> bool" where
  "plain_path ht ts \<longleftrightarrow> (\<forall>t \<in> set ts. ht_decode ht t = Some t)"

definition plain_params :: "segment list \<Rightarrow> js_text list \<Rightarrow> js_text list" where
  "plain_params p ts = map snd (filter (\<lambda>(x, _). x = Param) (zip p ts))"

lemma those_Some: "those (map Some xs) = Some xs"
  by (induction xs) auto

lemma plain_params_of: "plain_path ht ts \<Longrightarrow> params_of (ht_decode ht) p ts = Some (plain_params p ts)"
proof -
  assume plain: "plain_path ht ts"
  have "map (ht_decode ht \<circ> snd) (filter (\<lambda>(x, _). x = Param) (zip p ts)) =
      map Some (plain_params p ts)"
    using plain by (auto simp: plain_path_def plain_params_def dest: set_zip_rightD)
  then show ?thesis by (simp add: params_of_def those_Some)
qed

lemma strip_mount_subset: "strip_mount p ts = Some rest \<Longrightarrow> set rest \<subseteq> insert [] (set ts)"
  by (auto simp: strip_mount_def rooted_def split: if_splits dest: in_set_dropD)

definition outcome_of ::
    "'r http \<Rightarrow> request \<Rightarrow> db \<Rightarrow> guard list \<times> (segment list \<times> js_text list \<times> 'e) option \<Rightarrow> req_context \<Rightarrow> 'r \<Rightarrow> ('e, 'r) outcome" where
  "outcome_of ht req s tr c r =
    (case run_guards ht req s (fst tr) c r of
       (Inl e, r') \<Rightarrow> Stopped e r'
     | (Inr c', r') \<Rightarrow>
         (case snd tr of
            None \<Rightarrow> Passed c' r'
          | Some (p, ts, x) \<Rightarrow> Reached x (plain_params p ts) c' r'))"

lemma outcome_append: "outcome_of ht req s (gs @ hs, x) c r =
    (case run_guards ht req s gs c r of
       (Inl e, r') \<Rightarrow> Stopped e r'
     | (Inr c', r') \<Rightarrow> outcome_of ht req s (hs, x) c' r')"
  by (simp add: outcome_of_def run_guards_append split: prod.splits sum.splits)

lemma through_trace:
  assumes "plain_path ht ([] # ts)"
  shows "through ht req s ls ts c r = outcome_of ht req s (trace ls (hr_method req) ts) c r"
  using assms
proof (induction ht req s ls ts c r rule: through.induct)
  case (1 ht req s ts c r)
  then show ?case by (simp add: outcome_of_def)
next
  case (2 ht req s gs ls ts c r)
  obtain hs x where tr: "trace ls (hr_method req) ts = (hs, x)" by (cases "trace ls (hr_method req) ts")
  then have "trace (Use gs # ls) (hr_method req) ts = (gs @ hs, x)" by simp
  with 2 tr show ?case by (simp add: outcome_append split: prod.splits sum.splits)
next
  case (3 ht req s p inner ls ts c r)
  show ?case
  proof (cases "strip_mount p ts")
    case None
    with 3(1)[OF None 3(4)] show ?thesis by simp
  next
    case (Some rest)
    have plain: "plain_path ht ([] # rest)"
      using 3(4) strip_mount_subset[OF Some] by (auto simp: plain_path_def)
    obtain gs x where inner: "trace inner (hr_method req) rest = (gs, x)" by (cases "trace inner (hr_method req) rest")
    obtain hs y where tr: "trace ls (hr_method req) ts = (hs, y)" by (cases "trace ls (hr_method req) ts")
    note i = 3(2)[OF Some plain, unfolded inner]
    show ?thesis
    proof (cases x)
      case None
      with inner tr Some have "trace (Mount p inner # ls) (hr_method req) ts = (gs @ hs, y)" by simp
      then show ?thesis
        using i 3(3)[OF Some _ 3(4), unfolded tr] None Some
        by (simp add: outcome_append) (simp add: outcome_of_def split: prod.splits sum.splits)
    next
      case (Some z)
      with inner \<open>strip_mount p ts = Some rest\<close> have "trace (Mount p inner # ls) (hr_method req) ts = (gs, x)" by simp
      then show ?thesis
        using i Some \<open>strip_mount p ts = Some rest\<close> by (simp add: outcome_of_def split: prod.splits sum.splits)
    qed
  qed
next
  case (4 ht req s m p gs x ls ts c r)
  have params: "params_of (ht_decode ht) p ts = Some (plain_params p ts)"
    using 4(3) by (intro plain_params_of) (simp add: plain_path_def)
  with 4 show ?case
    by (cases "path_matches p ts"; cases "method_matches m (hr_method req)") (simp_all add: outcome_of_def split: prod.splits sum.splits)
qed

text \<open>
  The addresses of a route: its own segments with a UUID text for every parameter. On them a symbolic path
  behaves like all of its instances, because no literal of the table has the length of a UUID.
\<close>

definition instance_of :: "segment list \<Rightarrow> js_text list \<Rightarrow> bool" where
  "instance_of q ts = list_all2 (\<lambda>g t. case g of Lit w \<Rightarrow> t = units w | Param \<Rightarrow> length t = 36) q ts"

definition plain_literal :: "string \<Rightarrow> bool" where
  "plain_literal w \<longleftrightarrow> map lower_ascii (units w) = units w \<and> length w \<noteq> 36"

definition segment_ok :: "segment \<Rightarrow> bool" where
  "segment_ok g = (case g of Lit w \<Rightarrow> plain_literal w | Param \<Rightarrow> True)"

definition covers :: "segment \<Rightarrow> segment \<Rightarrow> bool" where
  "covers p g = (case p of Lit w \<Rightarrow> g = Lit w | Param \<Rightarrow> g \<noteq> Lit [])"

lemma units_inject [simp]: "units a = units b \<longleftrightarrow> a = b"
  by (simp add: units_def inj_map_eq_map inj_def)

lemma length_units [simp]: "length (units w) = length w"
  by (simp add: units_def)

lemma units_Nil: "units w = [] \<longleftrightarrow> w = []" "units [] = []"
  by (simp_all add: units_def)

lemma segment_symbolic:
  "segment_ok p \<Longrightarrow> segment_ok g \<Longrightarrow> (case g of Lit w \<Rightarrow> t = units w | Param \<Rightarrow> length t = 36) \<Longrightarrow>
    segment_matches p t = covers p g"
  by (cases p; cases g)
    (auto simp: segment_ok_def segment_matches_def covers_def plain_literal_def units_Nil dest: arg_cong[of _ _ length])

lemma segments_symbolic:
  "list_all segment_ok p \<Longrightarrow> list_all segment_ok q \<Longrightarrow> instance_of q ts \<Longrightarrow>
    list_all2 segment_matches p ts = list_all2 covers p q"
proof (induction p arbitrary: q ts)
  case Nil
  then show ?case by (cases q; cases ts) (auto simp: instance_of_def)
next
  case (Cons a p)
  show ?case
  proof (cases q)
    case Nil
    with Cons.prems show ?thesis by (cases ts) (auto simp: instance_of_def)
  next
    case (Cons g q')
    with Cons.prems(3) obtain t ts' where ts: "ts = t # ts'" by (cases ts) (auto simp: instance_of_def)
    with Cons Cons.prems Cons.IH[of q' ts'] segment_symbolic[of a g t] show ?thesis
      by (auto simp: instance_of_def)
  qed
qed

fun symbolic :: "'e layer list \<Rightarrow> http_method \<Rightarrow> segment list \<Rightarrow> guard list \<times> (segment list \<times> 'e) option" where
  "symbolic [] m q = ([], None)"
| "symbolic (Use gs # ls) m q = (case symbolic ls m q of (hs, x) \<Rightarrow> (gs @ hs, x))"
| "symbolic (Mount p inner # ls) m q =
    (if length p \<le> length q \<and> list_all2 covers p (take (length p) q)
     then (case symbolic inner m (route_pattern (drop (length p) q)) of
         (gs, Some x) \<Rightarrow> (gs, Some x)
       | (gs, None) \<Rightarrow> (case symbolic ls m q of (hs, x) \<Rightarrow> (gs @ hs, x)))
     else symbolic ls m q)"
| "symbolic (Route m' p gs x # ls) m q =
    (if (list_all2 covers (route_pattern p) q \<or> q \<noteq> [] \<and> last q = Lit [] \<and> list_all2 covers (route_pattern p) (butlast q)) \<and>
        method_matches m' m
     then (gs, Some (q, x)) else symbolic ls m q)"

fun layers_ok :: "'e layer list \<Rightarrow> bool" where
  "layers_ok [] = True"
| "layers_ok (Use gs # ls) = layers_ok ls"
| "layers_ok (Mount p inner # ls) = (list_all segment_ok p \<and> layers_ok inner \<and> layers_ok ls)"
| "layers_ok (Route m p gs x # ls) = (list_all segment_ok p \<and> layers_ok ls)"


lemma instance_list: "instance_of q ts \<Longrightarrow> length q = length ts" "instance_of q ts \<Longrightarrow> instance_of (take n q) (take n ts)"
  "instance_of q ts \<Longrightarrow> instance_of (drop n q) (drop n ts)" "instance_of q ts \<Longrightarrow> instance_of (butlast q) (butlast ts)"
  by (auto simp: instance_of_def list_all2_lengthD list_all2_takeI list_all2_dropI butlast_conv_take)

lemma instance_last: "instance_of q ts \<Longrightarrow> q \<noteq> [] \<Longrightarrow> last ts = [] \<longleftrightarrow> last q = Lit []"
proof (induction q arbitrary: ts rule: rev_induct)
  case (snoc g q)
  then obtain u t where ts: "ts = u @ [t]" by (metis instance_list(1) append_is_Nil_conv length_0_conv not_Cons_self2 rev_exhaust)
  then have "length q = length u" using instance_list(1)[OF snoc.prems(1)] by simp
  with snoc.prems ts show ?case
    by (cases g) (auto simp: instance_of_def units_Nil list_all2_append)
qed simp

lemma instance_root: "instance_of q ts \<Longrightarrow> instance_of (route_pattern q) (rooted ts)"
  by (cases q; cases ts) (auto simp: instance_of_def route_pattern_def rooted_def units_Nil)

lemma root_ok [simp]: "segment_ok (Lit [])"
  by (simp add: segment_ok_def plain_literal_def units_Nil)

lemma pattern_ok: "list_all segment_ok q \<Longrightarrow> list_all segment_ok (route_pattern q)"
  by (simp add: route_pattern_def)

lemma trace_symbolic:
  "layers_ok ls \<Longrightarrow> list_all segment_ok q \<Longrightarrow> instance_of q ts \<Longrightarrow> symbolic ls m q = (gs, x) \<Longrightarrow>
    fst (trace ls m ts) = gs \<and>
    (case x of None \<Rightarrow> snd (trace ls m ts) = None
     | Some (p', h) \<Rightarrow> \<exists>p ts'. snd (trace ls m ts) = Some (p, ts', h) \<and> instance_of p' ts')"
proof (induction ls m q arbitrary: ts gs x rule: symbolic.induct)
  case (1 m q)
  then show ?case by auto
next
  case (2 us ls m q)
  obtain hs y where sym: "symbolic ls m q = (hs, y)" by (cases "symbolic ls m q")
  obtain hs' z where tr: "trace ls m ts = (hs', z)" by (cases "trace ls m ts")
  have "trace (Use us # ls) m ts = (us @ hs', z)" using tr by simp
  with 2(1)[OF _ 2(3,4) sym] 2(2,5) sym tr show ?case by (cases y) auto
next
  case (3 p inner ls m q)
  have match: "list_all2 segment_matches p (take (length p) ts) = list_all2 covers p (take (length p) q)"
    using 3(4) by (intro segments_symbolic instance_list(2) 3(6)) (use 3(5) in \<open>auto simp: list_all_iff dest: in_set_takeD\<close>)
  show ?case
  proof (cases "length p \<le> length q \<and> list_all2 covers p (take (length p) q)")
    case False
    with match instance_list(1)[OF 3(6)] have "strip_mount p ts = None" by (auto simp: strip_mount_def)
    then have same: "trace (Mount p inner # ls) m ts = trace ls m ts" by simp
    have "symbolic ls m q = (gs, x)" using 3(7) False by auto
    then show ?thesis unfolding same using 3(3)[OF False _ 3(5,6)] 3(4) by simp
  next
    case True
    let ?rest = "route_pattern (drop (length p) q)" and ?ts = "rooted (drop (length p) ts)"
    have strip: "strip_mount p ts = Some ?ts" using True match instance_list(1)[OF 3(6)] by (simp add: strip_mount_def)
    have "list_all segment_ok (drop (length p) q)" using 3(5) by (auto simp: list_all_iff dest: in_set_dropD)
    then have rest: "list_all segment_ok ?rest" "instance_of ?rest ?ts"
      using instance_root[OF instance_list(3)[OF 3(6)]] by (auto intro: pattern_ok)
    obtain g1 y where inner: "symbolic inner m ?rest = (g1, y)" by (cases "symbolic inner m ?rest")
    have ok: "layers_ok inner" "layers_ok ls" using 3(4) by simp_all
    note i = 3(1)[OF True ok(1) rest inner]
    obtain g2 z where tr: "trace inner m ?ts = (g2, z)" by (cases "trace inner m ?ts")
    show ?thesis
    proof (cases y)
      case None
      obtain hs w where sym: "symbolic ls m q = (hs, w)" by (cases "symbolic ls m q")
      obtain hs' v where tl: "trace ls m ts = (hs', v)" by (cases "trace ls m ts")
      have "symbolic (Mount p inner # ls) m q = (g1 @ hs, w)" using True inner None sym by simp
      moreover have "trace (Mount p inner # ls) m ts = (g2 @ hs', v)" using strip tr tl i None by simp
      ultimately show ?thesis
        using 3(2)[OF True inner[symmetric] None ok(2) 3(5,6) sym] i tr tl 3(7) None by (auto split: option.splits)
    next
      case (Some w)
      have "symbolic (Mount p inner # ls) m q = (g1, Some w)" using True inner Some by simp
      moreover from i tr Some obtain v where "z = Some v" by (auto split: prod.splits)
      moreover from this have "trace (Mount p inner # ls) m ts = (g2, z)" using strip tr by simp
      ultimately show ?thesis using i tr 3(7) Some by (auto split: prod.splits)
    qed
  qed
next
  case (4 m' p gs' h ls m q)
  have ok: "list_all segment_ok (route_pattern p)" "layers_ok ls" using 4(2) by (auto intro: pattern_ok)
  have a: "list_all2 segment_matches (route_pattern p) ts = list_all2 covers (route_pattern p) q"
    using ok(1) 4(3,4) by (rule segments_symbolic)
  have b: "list_all2 segment_matches (route_pattern p) (butlast ts) = list_all2 covers (route_pattern p) (butlast q)"
    using ok(1) 4(3,4) by (intro segments_symbolic instance_list(4)) (auto simp: list_all_iff dest: in_set_butlastD)
  have c: "ts \<noteq> [] \<and> last ts = [] \<longleftrightarrow> q \<noteq> [] \<and> last q = Lit []"
    using instance_list(1)[OF 4(4)] instance_last[OF 4(4)] by (cases "q = []") auto
  have m: "path_matches p ts \<longleftrightarrow> list_all2 covers (route_pattern p) q \<or>
      q \<noteq> [] \<and> last q = Lit [] \<and> list_all2 covers (route_pattern p) (butlast q)"
    using a b c by (auto simp: path_matches_def)
  let ?hit = "(list_all2 covers (route_pattern p) q \<or> q \<noteq> [] \<and> last q = Lit [] \<and> list_all2 covers (route_pattern p) (butlast q)) \<and>
    method_matches m' m"
  show ?case
  proof (cases ?hit)
    case True
    then have "symbolic (Route m' p gs' h # ls) m q = (gs', Some (q, h))" by simp
    moreover have "trace (Route m' p gs' h # ls) m ts = (gs', Some (p, ts, h))" using True m by simp
    ultimately show ?thesis using 4(4,5) by auto
  next
    case False
    then have "symbolic (Route m' p gs' h # ls) m q = symbolic ls m q" by auto
    moreover have same: "trace (Route m' p gs' h # ls) m ts = trace ls m ts" using False m by auto
    ultimately show ?thesis unfolding same using 4(1)[OF False ok(2) 4(3,4)] 4(5) by simp
  qed
qed

lemma table_ok: "layers_ok api_router" "list_all (\<lambda>(m, p, gs, h). list_all segment_ok p) (routes_of [] [] api_router)"
  by code_simp+


definition runs_own :: "handler layer list \<Rightarrow> http_method \<times> segment list \<times> guard list \<times> handler \<Rightarrow> bool" where
  "runs_own table = (\<lambda>(m, p, gs, h). case symbolic table m (route_pattern p) of
     (gs', Some (_, h')) \<Rightarrow> gs' = gs \<and> h' = h | (_, None) \<Rightarrow> False)"

lemma traced_1: "list_all (runs_own api_router) (take 30 (routes_of [] [] api_router))"
  by code_simp

lemma traced_2: "list_all (runs_own api_router) (take 30 (drop 30 (routes_of [] [] api_router)))"
  by code_simp

lemma traced_3: "list_all (runs_own api_router) (take 30 (drop 60 (routes_of [] [] api_router)))"
  by code_simp

lemma traced_4: "list_all (runs_own api_router) (take 30 (drop 90 (routes_of [] [] api_router)))"
  by code_simp

lemma list_all_parts:
  assumes "list_all P (take 30 xs)" "list_all P (take 30 (drop 30 xs))" "list_all P (take 30 (drop 60 xs))"
    "list_all P (take 30 (drop 90 xs))" "length xs \<le> 120"
  shows "list_all P xs"
proof -
  have step: "list_all P (drop n xs)" if "list_all P (take 30 (drop n xs))" "list_all P (drop (n + 30) xs)" for n
    using that append_take_drop_id[of 30 "drop n xs"] by (metis add.commute drop_drop list_all_append)
  have "list_all P (drop 120 xs)" using assms(5) by simp
  then show ?thesis using step[of 90] step[of 60] step[of 30] step[of 0] assms(1-4) by simp
qed

lemma table_length: "length (routes_of [] [] api_router) \<le> 120"
  by code_simp

lemma table_traced: "list_all (runs_own api_router) (routes_of [] [] api_router)"
  by (rule list_all_parts[OF traced_1 traced_2 traced_3 traced_4 table_length])

text \<open>
  C37. Every route of the table is reached at its own address, and a request to it runs exactly the middlewares of
  that route, in their order: no other router in front of it catches the address, adds a check of its own or
  skips one. If a middleware refuses, that is the answer; if all let it pass, the handler runs.
\<close>

theorem addresses_run_their_route:
  assumes "(m, p, gs, h) \<in> set (routes_of [] [] api_router)"
    and "hr_method req = m" "instance_of (route_pattern p) (rooted (hr_path req))" "plain_path ht ([] # hr_path req)"
  shows "map_sum id fst (fst (dispatch ht api_router req s r)) =
      map_sum id (\<lambda>_. h) (fst (run_guards ht req s gs no_context r)) \<and>
    snd (dispatch ht api_router req s r) = snd (run_guards ht req s gs no_context r)"
proof -
  let ?q = "route_pattern p" and ?ts = "rooted (hr_path req)"
  have "runs_own api_router (m, p, gs, h)" using table_traced assms(1) by (simp only: list_all_iff)
  then obtain p' where sym: "symbolic api_router m ?q = (gs, Some (p', h))"
    by (cases "symbolic api_router m ?q"; cases "snd (symbolic api_router m ?q)") (auto simp: runs_own_def)
  have "list_all segment_ok p" using table_ok(2) assms(1) by (auto simp: list_all_iff)
  then have ok: "list_all segment_ok ?q" by (rule pattern_ok)
  obtain p1 ts1 where "trace api_router m ?ts = (gs, Some (p1, ts1, h))"
    using trace_symbolic[OF table_ok(1) ok assms(3) sym] by (cases "trace api_router m ?ts") auto
  moreover have "plain_path ht ([] # ?ts)" using assms(4) by (auto simp: plain_path_def rooted_def)
  ultimately have "through ht req s api_router ?ts no_context r = outcome_of ht req s (gs, Some (p1, ts1, h)) no_context r"
    by (simp only: through_trace assms(2))
  then show ?thesis
    by (auto simp: dispatch_def outcome_of_def split: prod.splits sum.splits)
qed

end
