(* ===== verification/Admin_Auth.thy ===== *)
theory Admin_Auth
  imports Auth
begin

text \<open>
  Sign-in of administrators with a password, lock-out after failed attempts, and their sessions
  (\<open>modules/admin/auth/admin-auth.service.ts\<close>). The password check (Argon2) is a parameter.
\<close>

record issued_admin_session =
  ias_admin :: admin_user
  ias_sessionId :: uuid
  ias_accessToken :: string
  ias_refreshToken :: string
  ias_refreshTokenExpiresAt :: instant

definition issue_admin :: "auth_env \<Rightarrow> admin_user \<Rightarrow> uuid \<Rightarrow> string \<Rightarrow> instant \<Rightarrow> issued_admin_session op" where
  "issue_admin ae admin sessionId refreshToken expiresAt =
    andThen now (\<lambda>t.
    ret \<lparr>ias_admin = admin, ias_sessionId = sessionId,
      ias_accessToken = fst (sign_token ae Admin_audience (ad_id admin) sessionId t),
      ias_refreshToken = refreshToken, ias_refreshTokenExpiresAt = expiresAt\<rparr>)"

definition audit_admin :: "auth_env \<Rightarrow> uuid \<Rightarrow> string \<Rightarrow> client_context \<Rightarrow> metadata \<Rightarrow> unit op" where
  "audit_admin ae adminId action client metadata =
    recordAdminAction (ae_env ae) adminId action Target_admin (Some adminId) metadata (cc_ip client)"

text \<open>A failed password. Five in a row lock the account for 15 minutes. Returns whether it is locked now.\<close>

definition registerFailure :: "auth_env \<Rightarrow> admin_user \<Rightarrow> client_context \<Rightarrow> bool op" where
  "registerFailure ae admin client =
    (let failures = ad_failedLoginCount admin + 1
     in if ADMIN_MAX_FAILED_LOGINS \<le> failures
        then andThen now (\<lambda>t.
          andThen (save admins_table
            [setting ad_failedLoginCount ad_failedLoginCount_update 0,
             setting ad_lockedUntil ad_lockedUntil_update (Some (t + ADMIN_LOCKOUT_MINUTES * MINUTE_MS))] admin) (\<lambda>_.
          andThen (audit_admin ae (ad_id admin) ''admin.lockout'' client []) (\<lambda>_. ret True)))
        else andThen (save admins_table [setting ad_failedLoginCount ad_failedLoginCount_update failures] admin)
          (\<lambda>_. ret False))"

definition admin_session_row ::
    "auth_env \<Rightarrow> uuid \<Rightarrow> uuid \<Rightarrow> string \<Rightarrow> client_context \<Rightarrow> instant \<Rightarrow> instant \<Rightarrow> admin_session" where
  "admin_session_row ae i adminId refreshToken client t expiresAt =
    \<lparr>as_id = i, as_adminId = adminId, as_refreshTokenHash = sha256Hex (ae_env ae) refreshToken,
      as_previousRefreshTokenHash = None, as_rotatedAt = None,
      as_userAgent = truncateUserAgent (cc_userAgent client),
      as_ipHash = Some (ip_hash (ae_env ae) (cc_ip client)), as_lastUsedAt = t,
      as_expiresAt = expiresAt, as_revokedAt = None, as_revokedReason = None, as_createdAt = t\<rparr>"

text \<open>The transaction of a sign-in: the account is locked and checked again.\<close>

definition admin_login_tx :: "auth_env \<Rightarrow> uuid \<Rightarrow> bool \<Rightarrow> client_context \<Rightarrow>
    (failure + admin_user \<times> uuid \<times> string \<times> instant) op" where
  "admin_login_tx ae candidateId passwordOk client = transaction
    (andThen now (\<lambda>t.
     andThen (gets (by_key admins_table candidateId)) (\<lambda>found.
     case found of
       None \<Rightarrow> ret (Inl (App INVALID_CREDENTIALS))
     | Some admin \<Rightarrow>
         if ad_status admin \<noteq> Ad_active then ret (Inl (App INVALID_CREDENTIALS))
         else if (case ad_lockedUntil admin of None \<Rightarrow> False | Some l \<Rightarrow> t < l)
         then ret (Inl (App ACCOUNT_LOCKED))
         else if \<not> passwordOk
         then andThen (registerFailure ae admin client) (\<lambda>locked.
           ret (Inl (App (if locked then ACCOUNT_LOCKED else INVALID_CREDENTIALS))))
         else
           andThen (save admins_table
             [setting ad_failedLoginCount ad_failedLoginCount_update 0,
              setting ad_lockedUntil ad_lockedUntil_update None,
              setting ad_lastLoginAt ad_lastLoginAt_update (Some t)] admin) (\<lambda>admin'.
           andThen randomToken (\<lambda>refreshToken.
           andThen fresh_uuid (\<lambda>i.
           let expiresAt = t + ADMIN_SESSION_TTL_HOURS ae * HOUR_MS
           in andThen (insert_row admin_sessions_table
                (admin_session_row ae i (ad_id admin) refreshToken client t expiresAt)) (\<lambda>_.
              andThen (audit_admin ae (ad_id admin) ''admin.login'' client [(''sessionId'', Meta_id i)]) (\<lambda>_.
              ret (Inr (admin', i, refreshToken, expiresAt))))))))))"

definition admin_login ::
    "auth_env \<Rightarrow> (string \<Rightarrow> string \<Rightarrow> bool) \<Rightarrow> string \<Rightarrow> string \<Rightarrow> client_context \<Rightarrow> issued_admin_session op" where
  "admin_login ae verifyPassword email password client =
    andThen (gets (find_row admins_table (\<lambda>a. ad_email a = email))) (\<lambda>candidate.
    case candidate of
      None \<Rightarrow> throw (App INVALID_CREDENTIALS)
    | Some c \<Rightarrow>
        if ad_status c \<noteq> Ad_active then throw (App INVALID_CREDENTIALS)
        else andThen (admin_login_tx ae (ad_id c) (verifyPassword (ad_passwordHash c) password) client) (\<lambda>outcome.
          case outcome of
            Inl err \<Rightarrow> throw err
          | Inr (admin, i, token, expiresAt) \<Rightarrow> issue_admin ae admin i token expiresAt))"

section \<open>Refresh and logout\<close>

datatype admin_refresh_outcome = Admin_refreshed admin_user uuid string instant | Admin_refresh_invalid

definition revoke_admin_session ::
    "admin_session_revoke_reason \<Rightarrow> instant \<Rightarrow> admin_session \<Rightarrow> admin_session op" where
  "revoke_admin_session reason t session = save admin_sessions_table
    [setting as_revokedAt as_revokedAt_update (Some t),
     setting as_revokedReason as_revokedReason_update (Some reason)] session"

definition admin_refresh_reused :: "string \<Rightarrow> admin_refresh_outcome op" where
  "admin_refresh_reused tokenHash =
    andThen now (\<lambda>t.
    andThen (gets (find_row admin_sessions_table
      (\<lambda>x. as_previousRefreshTokenHash x = Some tokenHash \<and> as_revokedAt x = None))) (\<lambda>found.
    case found of
      None \<Rightarrow> ret Admin_refresh_invalid
    | Some reused \<Rightarrow>
        if REFRESH_REUSE_GRACE_SECONDS * 1000 < t - (case as_rotatedAt reused of None \<Rightarrow> 0 | Some r \<Rightarrow> r)
        then andThen (revoke_admin_session ARev_reuse_detected t reused) (\<lambda>_. ret Admin_refresh_invalid)
        else ret Admin_refresh_invalid))"

definition admin_refresh_known ::
    "auth_env \<Rightarrow> string \<Rightarrow> client_context \<Rightarrow> admin_session \<Rightarrow> admin_refresh_outcome op" where
  "admin_refresh_known ae tokenHash client session =
    andThen now (\<lambda>t.
    if as_revokedAt session \<noteq> None \<or> as_expiresAt session \<le> t then ret Admin_refresh_invalid
    else if ADMIN_SESSION_IDLE_MINUTES ae * MINUTE_MS < t - as_lastUsedAt session
    then andThen (revoke_admin_session ARev_idle_timeout t session) (\<lambda>_. ret Admin_refresh_invalid)
    else andThen (gets (by_key admins_table (as_adminId session))) (\<lambda>found.
    case (case found of None \<Rightarrow> None | Some a \<Rightarrow> if ad_status a \<noteq> Ad_active then None else Some a) of
      None \<Rightarrow> andThen (revoke_admin_session ARev_disabled t session) (\<lambda>_. ret Admin_refresh_invalid)
    | Some admin \<Rightarrow>
        andThen randomToken (\<lambda>nextToken.
        andThen (save admin_sessions_table
          [setting as_refreshTokenHash as_refreshTokenHash_update (sha256Hex (ae_env ae) nextToken),
           setting as_previousRefreshTokenHash as_previousRefreshTokenHash_update (Some tokenHash),
           setting as_rotatedAt as_rotatedAt_update (Some t),
           setting as_lastUsedAt as_lastUsedAt_update t,
           setting as_userAgent as_userAgent_update (truncateUserAgent (cc_userAgent client)),
           setting as_ipHash as_ipHash_update (Some (ip_hash (ae_env ae) (cc_ip client)))] session) (\<lambda>_.
        ret (Admin_refreshed admin (as_id session) nextToken (as_expiresAt session))))))"

definition admin_refresh_tx :: "auth_env \<Rightarrow> string \<Rightarrow> client_context \<Rightarrow> admin_refresh_outcome op" where
  "admin_refresh_tx ae tokenHash client = transaction
    (andThen (gets (find_row admin_sessions_table (\<lambda>x. as_refreshTokenHash x = tokenHash))) (\<lambda>found.
     case found of
       None \<Rightarrow> admin_refresh_reused tokenHash
     | Some session \<Rightarrow> admin_refresh_known ae tokenHash client session))"

definition admin_refresh :: "auth_env \<Rightarrow> string \<Rightarrow> client_context \<Rightarrow> issued_admin_session op" where
  "admin_refresh ae refreshToken client =
    andThen (admin_refresh_tx ae (sha256Hex (ae_env ae) refreshToken) client) (\<lambda>outcome.
    case outcome of
      Admin_refreshed admin i token expiresAt \<Rightarrow> issue_admin ae admin i token expiresAt
    | Admin_refresh_invalid \<Rightarrow> throw (App REFRESH_INVALID))"

definition admin_logout :: "auth_env \<Rightarrow> uuid \<Rightarrow> uuid \<Rightarrow> client_context \<Rightarrow> unit op" where
  "admin_logout ae adminId sessionId client =
    (let P = (\<lambda>x. as_id x = sessionId \<and> as_adminId x = adminId \<and> as_revokedAt x = None)
     in transaction
      (andThen now (\<lambda>t.
       andThen (gets (\<lambda>s. count_where P (t_admin_sessions s))) (\<lambda>revoked.
       andThen (update_rows admin_sessions_table P
         (\<lambda>x. x\<lparr>as_revokedAt := Some t, as_revokedReason := Some ARev_logout\<rparr>)) (\<lambda>_.
       doWhen (0 < revoked)
         (audit_admin ae adminId ''admin.logout'' client [(''sessionId'', Meta_id sessionId)]))))))"

definition admin_getMe :: "uuid \<Rightarrow> (admin_user \<times> admin_permission list) op" where
  "admin_getMe adminId =
    andThen (gets (by_key admins_table adminId)) (\<lambda>found.
    case found of
      None \<Rightarrow> throw (App UNAUTHENTICATED)
    | Some a \<Rightarrow>
        if ad_status a \<noteq> Ad_active then throw (App UNAUTHENTICATED)
        else ret (a, ROLE_PERMISSIONS (ad_role a)))"

end
