(* ===== verification/Auth_Theorems.thy ===== *)
theory Auth_Theorems
  imports Admin_Auth Samples "HOL-Library.Countable"
begin

text \<open>Properties of sign-in, sessions and tokens.\<close>

section \<open>A sample environment\<close>

text \<open>A toy signature: the token is the key and the claims, separated; enough to run the code.\<close>

definition sample_jwt :: jwt_library where
  "sample_jwt =
    \<lparr>jwtSign = (\<lambda>key p. key @ ''.'' @ jc_aud p),
      jwtVerify = (\<lambda>key iss aud t token.
        if token = key @ ''.'' @ aud
        then Some \<lparr>jc_sub = Some 1, jc_sid = Some 50, jc_iss = iss, jc_aud = aud, jc_iat = 0, jc_exp = Some 900\<rparr>
        else None)\<rparr>"

definition sample_ae :: auth_env where
  "sample_ae = \<lparr>ae_env = sample_env, ae_jwt = sample_jwt, ae_phoneTokens = (\<lambda>t. Inr ''+919876543210''),
    ae_encryptString = (\<lambda>n t. t), JWT_ACCESS_SECRET = ''m'', JWT_ADMIN_ACCESS_SECRET = ''a'',
    ACCESS_TOKEN_TTL_SECONDS = 900, ADMIN_ACCESS_TOKEN_TTL_SECONDS = 900, REFRESH_TOKEN_TTL_DAYS = 30,
    ADMIN_SESSION_TTL_HOURS = 12, ADMIN_SESSION_IDLE_MINUTES = 30, PHONE_HASH_SECRET = ''p'',
    PHONE_ENCRYPTION_KEY_VERSION = 1\<rparr>"

definition sample_session :: user_session where
  "sample_session = \<lparr>s_id = 50, s_userId = 1, s_refreshTokenHash = ''h'', s_previousRefreshTokenHash = None,
    s_rotatedAt = None, s_userAgent = None, s_ipHash = None, s_lastUsedAt = 0, s_expiresAt = 90000,
    s_revokedAt = None, s_revokedReason = None, s_createdAt = 0\<rparr>"

definition member_db :: db where
  "member_db = empty_db\<lparr>t_users := [sample_user 1 ''x''], t_sessions := [sample_session]\<rparr>"

definition sample_client :: client_context where
  "sample_client = \<lparr>cc_ip = ''1.2.3.4'', cc_userAgent = None\<rparr>"

section \<open>Access tokens\<close>

text \<open>What the JWT library documents: a token verifies with the key it was signed with, for its own
  issuer and audience, until it expires; never with another key.\<close>

definition jwt_contract :: "jwt_library \<Rightarrow> bool" where
  "jwt_contract lib \<longleftrightarrow>
    (\<forall>key p iss aud t. jwtVerify lib key iss aud t (jwtSign lib key p) =
      (if jc_iss p = iss \<and> jc_aud p = aud \<and> (\<forall>x. jc_exp p = Some x \<longrightarrow> t < x) then Some p else None)) \<and>
    (\<forall>key key' p iss aud t. key \<noteq> key' \<longrightarrow> jwtVerify lib key' iss aud t (jwtSign lib key p) = None)"

text \<open>
  C16. A member token is accepted for the member it was signed for until its time to live is over, and is
  never accepted as an administrator's token, even if both secrets were the same; and the other way round.
\<close>

theorem token_audiences_are_separate:
  assumes "jwt_contract (ae_jwt ae)"
  shows "verify_token ae aud (fst (sign_token ae aud i sid t)) t' =
      (if t' div 1000 < t div 1000 + token_ttl aud ae
       then Some \<lparr>vt_subjectId = i, vt_sessionId = sid, vt_expiresAt = snd (sign_token ae aud i sid t)\<rparr>
       else None) \<and>
    (aud' \<noteq> aud \<longrightarrow> verify_token ae aud' (fst (sign_token ae aud i sid t)) t' = None)"
proof
  show "verify_token ae aud (fst (sign_token ae aud i sid t)) t' =
      (if t' div 1000 < t div 1000 + token_ttl aud ae
       then Some \<lparr>vt_subjectId = i, vt_sessionId = sid, vt_expiresAt = snd (sign_token ae aud i sid t)\<rparr>
       else None)"
    using assms by (simp add: jwt_contract_def verify_token_def sign_token_def Let_def)
  show "aud' \<noteq> aud \<longrightarrow> verify_token ae aud' (fst (sign_token ae aud i sid t)) t' = None"
  proof
    assume "aud' \<noteq> aud"
    then have "TOKEN_AUDIENCES aud \<noteq> TOKEN_AUDIENCES aud'"
      by (cases aud; cases aud') simp_all
    then show "verify_token ae aud' (fst (sign_token ae aud i sid t)) t' = None"
      using assms
      by (cases "token_key aud ae = token_key aud' ae")
        (simp_all add: jwt_contract_def verify_token_def sign_token_def Let_def)
  qed
qed

text \<open>A library that satisfies the contract: a token is the number of its key and claims, in unary.\<close>

definition claims_tuple :: "jwt_claims \<Rightarrow> uuid option \<times> uuid option \<times> string \<times> string \<times> int \<times> int option" where
  "claims_tuple p = (jc_sub p, jc_sid p, jc_iss p, jc_aud p, jc_iat p, jc_exp p)"

definition tuple_claims :: "uuid option \<times> uuid option \<times> string \<times> string \<times> int \<times> int option \<Rightarrow> jwt_claims" where
  "tuple_claims = (\<lambda>(sub, sid, iss, aud, iat, expiry).
    \<lparr>jc_sub = sub, jc_sid = sid, jc_iss = iss, jc_aud = aud, jc_iat = iat, jc_exp = expiry\<rparr>)"

lemma tuple_claims [simp]: "tuple_claims (claims_tuple p) = p"
  by (simp add: tuple_claims_def claims_tuple_def)

definition unary_jwt :: jwt_library where
  "unary_jwt =
    \<lparr>jwtSign = (\<lambda>key p. replicate (to_nat (key, claims_tuple p)) (CHR ''1'')),
      jwtVerify = (\<lambda>key iss aud t token.
        let (k, c) = from_nat (length token); p = tuple_claims c
        in if k = key \<and> jc_iss p = iss \<and> jc_aud p = aud \<and> (case jc_exp p of None \<Rightarrow> True | Some x \<Rightarrow> t < x)
           then Some p else None)\<rparr>"

lemma unary_jwt_contract: "jwt_contract unary_jwt"
  by (simp add: jwt_contract_def unary_jwt_def split: option.split)

theorem token_audiences_are_separate_witness:
  "verify_token (sample_ae\<lparr>ae_jwt := unary_jwt\<rparr>) Member_audience
      (fst (sign_token (sample_ae\<lparr>ae_jwt := unary_jwt\<rparr>) Member_audience 1 50 0)) 1000 =
    Some \<lparr>vt_subjectId = 1, vt_sessionId = 50, vt_expiresAt = 900000\<rparr> \<and>
   verify_token (sample_ae\<lparr>ae_jwt := unary_jwt\<rparr>) Admin_audience
      (fst (sign_token (sample_ae\<lparr>ae_jwt := unary_jwt\<rparr>) Member_audience 1 50 0)) 1000 = None"
  using token_audiences_are_separate[of "sample_ae\<lparr>ae_jwt := unary_jwt\<rparr>" Member_audience 1 50 0 1000 Admin_audience]
    unary_jwt_contract
  by (simp add: sample_ae_def sign_token_def)

section \<open>Sessions\<close>

text \<open>
  A request is let in only with a live session of a live account that is not banned, as the database
  has them at that moment.
\<close>

theorem authenticated_means_live_session:
  assumes "authenticateMember ae header s = Inr a"
  shows "(\<exists>x \<in> set (t_sessions s). s_id x = ma_sessionId a \<and> s_userId x = ma_userId a \<and>
      s_revokedAt x = None \<and> clock s < s_expiresAt x) \<and>
    (\<exists>u \<in> set (t_users s). u_id u = ma_userId a \<and> u_deletedAt u = None \<and> u_status u \<noteq> U_banned \<and>
      ma_status a = u_status u)"
  using assms
  by (auto simp: authenticateMember_def resolveMemberSession_def open_session_def live_user_def find_row_def
      dest!: find_Some_in split: option.splits sum.splits if_splits)

theorem authenticated_means_live_session_witness:
  "\<exists>a. authenticateMember sample_ae (Some ''Bearer m.garba-partner:app'') member_db = Inr a \<and>
    (\<exists>x \<in> set (t_sessions member_db). s_id x = ma_sessionId a \<and> s_revokedAt x = None)"
proof -
  let ?a = "\<lparr>ma_userId = 1, ma_sessionId = 50, ma_status = U_active, ma_onboarded = True, ma_expiresAt = 900000\<rparr>"
  have "authenticateMember sample_ae (Some ''Bearer m.garba-partner:app'') member_db = Inr ?a"
    by code_simp
  from authenticated_means_live_session[OF this] this show ?thesis by blast
qed

text \<open>
  C15. Signing out takes effect at once: after a sign-out of one device the session admits no request, after
  a sign-out of all devices no session of the member does.
\<close>

theorem logout_takes_effect:
  assumes run: "logout userId sessionId allDevices s = (Inr u, t)"
    and auth: "authenticateMember ae header t = Inr a"
  shows "ma_userId a = userId \<longrightarrow> \<not> allDevices \<and> ma_sessionId a \<noteq> sessionId"
proof
  assume me: "ma_userId a = userId"
  obtain x where x: "x \<in> set (t_sessions t)" "s_id x = ma_sessionId a" "s_userId x = userId" "s_revokedAt x = None"
    using auth me
    by (auto simp: authenticateMember_def resolveMemberSession_def open_session_def live_user_def find_row_def
        dest!: find_Some_in split: option.splits sum.splits if_splits)
  have "t_sessions t = update_where
      (\<lambda>x. (allDevices \<or> s_id x = sessionId) \<and> s_userId x = userId \<and> s_revokedAt x = None)
      (\<lambda>x. x\<lparr>s_revokedAt := Some (clock s),
         s_revokedReason := Some (if allDevices then Rev_logout_all else Rev_logout)\<rparr>) (t_sessions s)"
    using run by (auto simp: logout_def run_simps update_rows_Inr_iff)
  with x(1) obtain y where "y \<in> set (t_sessions s)"
    "x = (if (allDevices \<or> s_id y = sessionId) \<and> s_userId y = userId \<and> s_revokedAt y = None
       then y\<lparr>s_revokedAt := Some (clock s),
         s_revokedReason := Some (if allDevices then Rev_logout_all else Rev_logout)\<rparr> else y)"
    by (auto elim: in_update_whereE)
  with x show "\<not> allDevices \<and> ma_sessionId a \<noteq> sessionId" by (auto split: if_splits)
qed

definition two_sessions :: db where
  "two_sessions = member_db\<lparr>t_sessions := [sample_session\<lparr>s_id := 49, s_refreshTokenHash := ''g''\<rparr>, sample_session]\<rparr>"

theorem logout_takes_effect_witness:
  "\<exists>a. authenticateMember sample_ae (Some ''Bearer m.garba-partner:app'') (snd (logout 1 49 False two_sessions)) = Inr a \<and>
    ma_sessionId a \<noteq> 49"
proof -
  let ?a = "\<lparr>ma_userId = 1, ma_sessionId = 50, ma_status = U_active, ma_onboarded = True, ma_expiresAt = 900000\<rparr>"
  have auth: "authenticateMember sample_ae (Some ''Bearer m.garba-partner:app'') (snd (logout 1 49 False two_sessions)) = Inr ?a"
    by code_simp
  have "fst (logout 1 49 False two_sessions) = Inr ()" by code_simp
  then have "logout 1 49 False two_sessions = (Inr (), snd (logout 1 49 False two_sessions))"
    by (simp add: prod_eq_iff)
  from logout_takes_effect[OF this auth] auth show ?thesis by auto
qed

section \<open>Refresh tokens\<close>

lemmas session_settings =
  setting_keeps[where g = s_id] setting_keeps[where g = s_refreshTokenHash]
  setting_keeps[where g = s_previousRefreshTokenHash] setting_keeps[where g = s_rotatedAt]
  setting_keeps[where g = s_revokedAt] setting_keeps[where g = s_revokedReason]
  setting_keeps[where g = s_createdAt] setting_keeps[where g = s_expiresAt]
  setting_sets[where get = s_refreshTokenHash] setting_sets[where get = s_previousRefreshTokenHash]
  setting_sets[where get = s_rotatedAt] setting_sets[where get = s_revokedAt]
  setting_sets[where get = s_revokedReason]

lemma rotate_session_rows:
  assumes "rotate_session ae h tok client at x s = (Inr x', t)" "s_revokedAt x = None"
  obtains f where "t_sessions t = update_where (\<lambda>r. s_id r = s_id x) f (t_sessions s)" "\<And>r. s_id (f r) = s_id r"
    "s_refreshTokenHash (f x) = sha256Hex (ae_env ae) tok" "s_previousRefreshTokenHash (f x) = Some h"
    "s_rotatedAt (f x) = Some at" "s_revokedAt (f x) = None"
proof -
  from assms(1) obtain cs where rows: "t_sessions t = update_where (\<lambda>r. s_id r = s_id x) (apply_settings cs x) (t_sessions s)"
    and cs: "cs = [setting s_refreshTokenHash s_refreshTokenHash_update (sha256Hex (ae_env ae) tok),
     setting s_previousRefreshTokenHash s_previousRefreshTokenHash_update (Some h),
     setting s_rotatedAt s_rotatedAt_update (Some at),
     setting s_lastUsedAt s_lastUsedAt_update at,
     setting s_userAgent s_userAgent_update (truncateUserAgent (cc_userAgent client)),
     setting s_ipHash s_ipHash_update (Some (ip_hash (ae_env ae) (cc_ip client)))]"
    unfolding rotate_session_def save_Inr_iff by (auto simp only: update_rows_Inr_iff sessions_table_simps) simp
  show thesis by (rule that[OF rows]) (simp_all add: cs session_settings assms(2))
qed

text \<open>A successful rotation rewrites the one session that had the token.\<close>

lemma refreshed_sessions:
  assumes run: "refresh_tx ae h client s = (Inr (Refreshed u i tok expiry), t)"
  obtains x f where "x \<in> set (t_sessions s)" "s_refreshTokenHash x = h" "s_id x = i" "s_revokedAt x = None"
    and "t_sessions t = update_where (\<lambda>r. s_id r = i) f (t_sessions s)" "\<And>r. s_id (f r) = s_id r"
    and "s_refreshTokenHash (f x) = sha256Hex (ae_env ae) tok" "s_previousRefreshTokenHash (f x) = Some h"
    and "s_rotatedAt (f x) = Some (clock s)" "s_revokedAt (f x) = None"
proof -
  obtain x where x: "session_by_token h s = Some x" "refresh_known ae h client x s = (Inr (Refreshed u i tok expiry), t)"
    using run by (auto simp: refresh_tx_def refresh_reused_def returns_iff Let_def split: option.splits if_splits)
  then obtain x' u' s1 s2 s3 where i: "s_id x = i" and open_x: "s_revokedAt x = None"
    and tok: "randomToken s = (Inr tok, s1)" and rot: "rotate_session ae h tok client (clock s) x s1 = (Inr x', s2)"
    and touch: "touch_user u' (clock s) s2 = (Inr (), s3)" and t: "t = s3"
    by (auto simp: refresh_known_def returns_iff split: option.splits if_splits)
  have "leaves t_sessions randomToken" unfolding randomToken_def by (intro leaves_rules) simp_all
  from leavesD[OF this tok] have s1: "t_sessions s1 = t_sessions s" .
  have "leaves t_sessions (touch_user u' (clock s))" unfolding touch_user_def by (intro leaves_rules) simp_all
  from leavesD[OF this touch] have s3: "t_sessions t = t_sessions s2" unfolding t .
  have x_in: "x \<in> set (t_sessions s)" "s_refreshTokenHash x = h"
    using x(1) by (auto simp: session_by_token_def find_row_def dest: find_Some_in)
  obtain f where f: "t_sessions s2 = update_where (\<lambda>r. s_id r = s_id x) f (t_sessions s1)" "\<And>r. s_id (f r) = s_id r"
      "s_refreshTokenHash (f x) = sha256Hex (ae_env ae) tok" "s_previousRefreshTokenHash (f x) = Some h"
      "s_rotatedAt (f x) = Some (clock s)" "s_revokedAt (f x) = None"
    by (rule rotate_session_rows[OF rot open_x], rule that)
  have "t_sessions t = update_where (\<lambda>r. s_id r = i) f (t_sessions s)" using f(1) by (simp only: s3 s1 i)
  then show thesis by (rule that[OF x_in i open_x _ f(2-)])
qed

text \<open>
  What decides over a token that was rotated out: the current and the previous hash, the time of the rotation
  and the revocation of a session. The address, the device and the last use may change.
\<close>

definition rotation_of :: "user_session \<Rightarrow> string \<times> string option \<times> instant option \<times> instant option" where
  "rotation_of x = (s_refreshTokenHash x, s_previousRefreshTokenHash x, s_rotatedAt x, s_revokedAt x)"

lemma rotated_row:
  assumes ok: "table_ok sessions_table s" and run: "refresh_tx ae h client s = (Inr (Refreshed u i tok expiry), t)"
  obtains y where "by_key sessions_table i t = Some y"
    "rotation_of y = (sha256Hex (ae_env ae) tok, Some h, Some (clock s), None)"
proof -
  obtain x f where x: "x \<in> set (t_sessions s)" "s_refreshTokenHash x = h" "s_id x = i"
    and rows: "t_sessions t = update_where (\<lambda>r. s_id r = i) f (t_sessions s)" "\<And>r. s_id (f r) = s_id r"
    and fx: "s_refreshTokenHash (f x) = sha256Hex (ae_env ae) tok" "s_previousRefreshTokenHash (f x) = Some h"
      "s_rotatedAt (f x) = Some (clock s)" "s_revokedAt (f x) = None"
    by (rule refreshed_sessions[OF run], rule that)
  have only: "r = x" if "r \<in> set (t_sessions s)" "s_id r = i" for r
    using that sessions.key_eq[OF ok, of r x] x by (simp only: sessions_table_simps)
  have "by_key sessions_table i t = Some (f x)"
    unfolding by_key_def find_row_def sessions_table_simps
  proof (rule find_only)
    show "f x \<in> set (t_sessions t)" using x by (auto simp: rows(1) set_update_where)
    show "r = f x" if "r \<in> set (t_sessions t)" "s_id r = i" for r
      using that only rows(2) unfolding rows(1) by (elim in_update_whereE) (metis (full_types))
  qed (simp add: rows(2) x(3))
  then show thesis by (rule that) (simp add: rotation_of_def fx)
qed

lemma old_token_presented:
  assumes ok: "table_ok sessions_table s"
    and y: "by_key sessions_table i s = Some y" "rotation_of y = (new, Some h, Some c, None)" "new \<noteq> h"
    and others: "\<And>r. r \<in> set (t_sessions s) \<Longrightarrow> s_id r \<noteq> i \<Longrightarrow>
      s_refreshTokenHash r \<noteq> h \<and> s_previousRefreshTokenHash r \<noteq> Some h"
  shows "if clock s - c \<le> 15 * 1000 then refresh_tx ae h client s = (Inr Refresh_invalid, s)
    else \<exists>t. refresh_tx ae h client s = (Inr (Reuse_detected i), t) \<and>
      (\<forall>x \<in> set (t_sessions t). s_id x = i \<longrightarrow> s_revokedAt x = Some (clock s))"
proof -
  have y_in: "y \<in> set (t_sessions s)" "s_id y = i" using sessions.by_key_in[OF y(1)] by simp_all
  have cols: "s_refreshTokenHash y = new" "s_previousRefreshTokenHash y = Some h" "s_rotatedAt y = Some c"
    "s_revokedAt y = None" using y(2) by (simp_all add: rotation_of_def)
  have mine: "r = y" if "r \<in> set (t_sessions s)" "s_id r = i" for r
    using that sessions.key_eq[OF ok, of r y] y_in by (simp only: sessions_table_simps)
  have gone: "session_by_token h s = None"
    using others mine cols(1) y(3) by (force simp: session_by_token_def find_row_def find_None_iff)
  have old: "session_by_old_token h s = Some y"
    unfolding session_by_old_token_def find_row_def sessions_table_simps
    by (rule find_only) (use y_in cols others mine in blast)+
  show ?thesis
  proof (cases "clock s - c \<le> 15 * 1000")
    case True
    then show ?thesis
      by (simp add: refresh_tx_def transaction_def run_simps refresh_reused_def gone old cols limits)
  next
    case False
    let ?cs = "[setting s_revokedAt s_revokedAt_update (Some (clock s)),
      setting s_revokedReason s_revokedReason_update (Some Rev_reuse_detected)]"
    let ?t = "tb_put sessions_table (update_where (\<lambda>r. s_id r = i) (apply_settings ?cs y) (tb_rows sessions_table s)) s"
    have upd: "update_rows sessions_table (\<lambda>r. s_id r = i) (apply_settings ?cs y) s = (Inr (), ?t)"
      using mine sessions.row_ok[OF ok] cols(4)
      by (intro sessions.update_rows_returns ok) (auto simp: session_settings session_clash_def session_ok_def)
    have saved: "revoke_session Rev_reuse_detected (clock s) y s = (Inr (apply_settings ?cs y y), ?t)"
      unfolding revoke_session_def save_Inr_iff sessions_table_simps(3) y_in(2) using upd by simp
    have gap: "15 * 1000 < clock s - c" using False by simp
    have "refresh_reused h s = (Inr (Reuse_detected i), ?t)"
      unfolding refresh_reused_def andThen_now andThen_gets old option.case Let_def cols(3)
      using gap by (simp add: limits andThen_def saved ret_def y_in(2) del: apply_settings_Cons sessions_table_simps)
    then have "refresh_tx ae h client s = (Inr (Reuse_detected i), ?t)"
      by (simp add: refresh_tx_def transaction_def run_simps gone del: apply_settings_Cons sessions_table_simps)
    moreover have "\<forall>r \<in> set (t_sessions ?t). s_id r = i \<longrightarrow> s_revokedAt r = Some (clock s)"
    proof (intro ballI impI)
      fix r assume r: "r \<in> set (t_sessions ?t)" "s_id r = i"
      then obtain q where q: "q \<in> set (t_sessions s)" "r = (if s_id q = i then apply_settings ?cs y q else q)"
        by (auto elim: in_update_whereE simp del: apply_settings_Cons)
      with r(2) have "q = y" using mine[OF q(1)] by metis
      with q(2) y_in(2) show "s_revokedAt r = Some (clock s)" by (simp add: session_settings cols(4))
    qed
    ultimately show ?thesis using gap by auto
  qed
qed

lemma forgotten_token_presented:
  assumes "\<And>r. r \<in> set (t_sessions s) \<Longrightarrow> s_refreshTokenHash r \<noteq> h \<and> s_previousRefreshTokenHash r \<noteq> Some h"
  shows "refresh_tx ae h client s = (Inr Refresh_invalid, s)"
proof -
  have "session_by_token h s = None" "session_by_old_token h s = None"
    using assms by (auto simp: session_by_token_def session_by_old_token_def find_row_def find_None_iff)
  then show ?thesis by (simp add: refresh_tx_def transaction_def run_simps refresh_reused_def)
qed

text \<open>
  C9. A refresh token works once. While it is the last one its session rotated out, presented again within the
  15 seconds of a benign race it is refused and nothing changes; later it is taken for theft and the session is
  revoked. After one more rotation the session no longer knows it: it is refused, and revokes nothing.
\<close>

theorem reused_refresh_token_revokes:
  assumes "table_ok sessions_table s" "refresh_tx ae h client s = (Inr (Refreshed u i tok expiry), t)"
    and "sha256Hex (ae_env ae) tok \<noteq> h" "table_ok sessions_table t'"
    and "\<And>r. r \<in> set (t_sessions t') \<Longrightarrow> s_id r \<noteq> i \<Longrightarrow>
      s_refreshTokenHash r \<noteq> h \<and> s_previousRefreshTokenHash r \<noteq> Some h"
    and "by_key sessions_table i t = Some x" "by_key sessions_table i t' = Some y"
  shows "(rotation_of y = rotation_of x \<longrightarrow>
      (if clock t' - clock s \<le> 15 * 1000 then refresh_tx ae h client' t' = (Inr Refresh_invalid, t')
       else \<exists>t''. refresh_tx ae h client' t' = (Inr (Reuse_detected i), t'') \<and>
         (\<forall>x \<in> set (t_sessions t''). s_id x = i \<longrightarrow> s_revokedAt x = Some (clock t')))) \<and>
    (s_refreshTokenHash y \<noteq> h \<and> s_previousRefreshTokenHash y \<noteq> Some h \<longrightarrow>
      refresh_tx ae h client' t' = (Inr Refresh_invalid, t'))"
proof (intro conjI impI)
  assume same: "rotation_of y = rotation_of x"
  have "rotation_of y = (sha256Hex (ae_env ae) tok, Some h, Some (clock s), None)"
    by (rule rotated_row[OF assms(1,2)]) (use assms(6) same in simp)
  then show "if clock t' - clock s \<le> 15 * 1000 then refresh_tx ae h client' t' = (Inr Refresh_invalid, t')
       else \<exists>t''. refresh_tx ae h client' t' = (Inr (Reuse_detected i), t'') \<and>
         (\<forall>x \<in> set (t_sessions t''). s_id x = i \<longrightarrow> s_revokedAt x = Some (clock t'))"
    using old_token_presented[OF assms(4,7) _ assms(3,5)] by blast
next
  assume forgotten: "s_refreshTokenHash y \<noteq> h \<and> s_previousRefreshTokenHash y \<noteq> Some h"
  have "r = y" if "r \<in> set (t_sessions t')" "s_id r = i" for r
    using that sessions.key_eq[OF assms(4), of r y] sessions.by_key_in[OF assms(7)] by simp
  with forgotten assms(5) show "refresh_tx ae h client' t' = (Inr Refresh_invalid, t')"
    by (intro forgotten_token_presented) metis
qed

text \<open>A random supply of zeros: the token is 43 times the digit A.\<close>

lemma base64_zero: "base64_digits k 0 = replicate k (CHR ''A'')"
  by (induction k) (simp_all add: BASE64URL_def replicate_append_same)

lemma zero_token:
  "rng s (drawn s) = 0 \<Longrightarrow> randomToken s = (Inr (replicate 43 (CHR ''A'')), s\<lparr>drawn := Suc (drawn s)\<rparr>)"
  by (simp add: randomToken_def run_simps base64_zero)

definition zero_db :: db where
  "zero_db = member_db\<lparr>rng := \<lambda>_. 0\<rparr>"

definition rotated_session :: user_session where
  "rotated_session = sample_session\<lparr>s_refreshTokenHash := replicate 43 (CHR ''A''),
    s_previousRefreshTokenHash := Some ''h'', s_rotatedAt := Some 0, s_ipHash := Some (''kip:1.2.3.4'')\<rparr>"

lemma zero_refresh:
  "\<exists>t. refresh_tx sample_ae ''h'' sample_client zero_db =
      (Inr (Refreshed (sample_user 1 ''x'') 50 (replicate 43 (CHR ''A'')) 90000), t) \<and>
    t_sessions t = [rotated_session] \<and> clock t = 0"
proof -
  let ?tok = "replicate 43 (CHR ''A'')" and ?s = "zero_db\<lparr>drawn := Suc 0\<rparr>"
  let ?a = "rotate_session sample_ae ''h'' ?tok sample_client 0 sample_session ?s"
  let ?b = "touch_user 1 0 (snd ?a)"
  have found: "session_by_token ''h'' zero_db = Some sample_session"
    "live_user (s_userId sample_session) zero_db = Some (sample_user 1 ''x'')"
    "clock zero_db = 0" "rng zero_db (drawn zero_db) = 0" "drawn zero_db = 0"
    by code_simp+
  have "fst ?a = Inr rotated_session" "fst ?b = Inr ()" by code_simp+
  moreover have "t_sessions (snd ?b) = [rotated_session] \<and> clock (snd ?b) = 0" by code_simp
  ultimately obtain s2 s3 where a: "?a = (Inr rotated_session, s2)" and b: "touch_user 1 0 s2 = (Inr (), s3)"
    and final: "t_sessions s3 = [rotated_session] \<and> clock s3 = 0"
    by (cases ?a; cases ?b) (auto simp del: One_nat_def)
  have tok: "randomToken zero_db = (Inr ?tok, ?s)"
    using zero_token[OF found(4)] found(5) by simp
  have row: "s_revokedAt sample_session = None" "s_expiresAt sample_session = 90000" "s_id sample_session = 50"
    "u_status (sample_user 1 ''x'') \<noteq> U_banned" "u_id (sample_user 1 ''x'') = 1"
    by (simp_all add: sample_session_def sample_user_def)
  have "refresh_known sample_ae ''h'' sample_client sample_session zero_db =
      (Inr (Refreshed (sample_user 1 ''x'') 50 ?tok 90000), s3)"
    unfolding refresh_known_def andThen_now andThen_gets found
    by (simp add: row found andThen_def tok a b ret_def del: One_nat_def)
  then have "refresh_tx sample_ae ''h'' sample_client zero_db =
      (Inr (Refreshed (sample_user 1 ''x'') 50 ?tok 90000), s3)"
    by (simp add: refresh_tx_def transaction_def found)
  with final show ?thesis by blast
qed

theorem reused_refresh_token_revokes_witness:
  "\<exists>t t'. refresh_tx sample_ae ''h'' sample_client zero_db =
      (Inr (Refreshed (sample_user 1 ''x'') 50 (replicate 43 (CHR ''A'')) 90000), t) \<and>
    refresh_tx sample_ae ''h'' sample_client (t\<lparr>clock := 20000\<rparr>) = (Inr (Reuse_detected 50), t')"
proof -
  obtain t where t: "refresh_tx sample_ae ''h'' sample_client zero_db =
      (Inr (Refreshed (sample_user 1 ''x'') 50 (replicate 43 (CHR ''A'')) 90000), t)"
    and rows: "t_sessions t = [rotated_session]"
    using zero_refresh by blast
  have "table_ok sessions_table zero_db" "clock zero_db = 0" by code_simp+
  moreover have "table_ok sessions_table (t\<lparr>clock := 20000\<rparr>)"
    by (simp add: table_ok_def rows conflicts_def rotated_session_def sample_session_def session_ok_def)
  moreover have "sha256Hex (ae_env sample_ae) (replicate 43 (CHR ''A'')) \<noteq> ''h''" by code_simp
  moreover have "by_key sessions_table 50 t = Some rotated_session"
    "by_key sessions_table 50 (t\<lparr>clock := 20000\<rparr>) = Some rotated_session"
    by (simp_all add: by_key_def find_row_def rows rotated_session_def sample_session_def)
  ultimately show ?thesis
    using reused_refresh_token_revokes[OF _ t, of "t\<lparr>clock := 20000\<rparr>" rotated_session rotated_session sample_client] t rows
    by (auto simp: rotated_session_def sample_session_def)
qed

section \<open>Locked administrator accounts\<close>

text \<open>An attempt to sign in: the password, the client and the time.\<close>

type_synonym sign_in_attempt = "string \<times> client_context \<times> instant"

text \<open>Attempts one after another, each at its own time, with what each was told.\<close>

fun admin_attempts ::
    "auth_env \<Rightarrow> (string \<Rightarrow> string \<Rightarrow> bool) \<Rightarrow> string \<Rightarrow> sign_in_attempt list \<Rightarrow> db \<Rightarrow>
      (failure + issued_admin_session) list \<times> db" where
  "admin_attempts ae verify email [] s = ([], s)"
| "admin_attempts ae verify email ((password, client, t) # attempts) s =
    (let (r, s1) = admin_login ae verify email password client (s\<lparr>clock := t\<rparr>);
         (rs, s2) = admin_attempts ae verify email attempts s1
     in (r # rs, s2))"

lemma admin_attempts_append:
  "admin_attempts ae verify email (xs @ ys) s =
    (let (rs, s1) = admin_attempts ae verify email xs s; (rs', s2) = admin_attempts ae verify email ys s1
     in (rs @ rs', s2))"
  by (induction xs arbitrary: s) (auto simp: Let_def split: prod.splits)

definition locked_at :: "admin_user \<Rightarrow> instant \<Rightarrow> bool" where
  "locked_at a t \<longleftrightarrow> (case ad_lockedUntil a of None \<Rightarrow> False | Some l \<Rightarrow> t < l)"

lemma admin_by_email:
  assumes "table_ok admins_table s" "by_key admins_table i s = Some a"
  shows "find_row admins_table (\<lambda>r. ad_email r = ad_email a) s = Some a"
  unfolding find_row_def
proof (rule find_only)
  show "a \<in> set (tb_rows admins_table s)" using admins.by_key_in[OF assms(2)] by simp
  show "r = a" if "r \<in> set (tb_rows admins_table s)" "ad_email r = ad_email a" for r
    using admins.clash_eq[OF assms(1) that(1), of a] admins.by_key_in[OF assms(2)] that(2)
    by (simp add: admin_clash_def)
qed simp

lemma admin_row_saved:
  assumes ok: "table_ok admins_table s" and a: "by_key admins_table i s = Some a"
    and cs: "\<And>r. ad_id (apply_settings cs a r) = ad_id r" "\<And>r. ad_email (apply_settings cs a r) = ad_email r"
      "admin_ok (apply_settings cs a a)"
  obtains rows where "save admins_table cs a s = (Inr (apply_settings cs a a), s\<lparr>t_admins := rows\<rparr>)"
    "by_key admins_table i (s\<lparr>t_admins := rows\<rparr>) = Some (apply_settings cs a a)"
    "table_ok admins_table (s\<lparr>t_admins := rows\<rparr>)"
proof -
  have i: "a \<in> set (t_admins s)" "ad_id a = i" using admins.by_key_in[OF a] by simp_all
  let ?rows = "update_where (\<lambda>r. ad_id r = ad_id a) (apply_settings cs a) (t_admins s)"
  have "update_rows admins_table (\<lambda>r. ad_id r = ad_id a) (apply_settings cs a) s =
      (Inr (), tb_put admins_table (update_where (\<lambda>r. ad_id r = ad_id a) (apply_settings cs a) (tb_rows admins_table s)) s)"
  proof (rule admins.update_rows_returns[OF ok])
    fix r assume "r \<in> set (tb_rows admins_table s)" "ad_id r = ad_id a"
    then have "r = a" using admins.key_eq[OF ok, of r a] i by simp
    then show "tb_ok admins_table (apply_settings cs a r)" using cs(3) by simp
  qed (simp_all add: cs admin_clash_def)
  then have upd: "update_rows admins_table (\<lambda>r. ad_id r = ad_id a) (apply_settings cs a) s =
      (Inr (), s\<lparr>t_admins := ?rows\<rparr>)" by simp
  then have saved: "save admins_table cs a s = (Inr (apply_settings cs a a), s\<lparr>t_admins := ?rows\<rparr>)"
    by (simp add: save_Inr_iff)
  moreover have "by_key admins_table i (s\<lparr>t_admins := ?rows\<rparr>) = Some (apply_settings cs a a)"
    using lookup_saved[OF admins.stored_table_axioms saved a] cs(1) i(2) by simp
  moreover have "table_ok admins_table (s\<lparr>t_admins := ?rows\<rparr>)"
    using admins.update_rows_ok[OF upd ok] cs(1) by simp
  ultimately show thesis by (rule that)
qed

text \<open>A wrong password below the limit is only counted.\<close>

lemma wrong_password:
  assumes ok: "table_ok admins_table s" and a: "by_key admins_table i s = Some a" "ad_status a = Ad_active"
    and wrong: "\<not> locked_at a (clock s)" "\<not> verify (ad_passwordHash a) password" "ad_failedLoginCount a + 1 < 5"
  obtains rows where "admin_login ae verify (ad_email a) password client s =
      (Inl (App INVALID_CREDENTIALS), s\<lparr>t_admins := rows\<rparr>)"
    "by_key admins_table i (s\<lparr>t_admins := rows\<rparr>) = Some (a\<lparr>ad_failedLoginCount := ad_failedLoginCount a + 1\<rparr>)"
    "table_ok admins_table (s\<lparr>t_admins := rows\<rparr>)"
proof -
  have i: "ad_id a = i" "admin_ok a" using admins.by_key_in[OF a(1)] admins.row_ok[OF ok] by auto
  let ?cs = "[setting ad_failedLoginCount ad_failedLoginCount_update (ad_failedLoginCount a + 1)]"
  have after: "apply_settings ?cs a a = a\<lparr>ad_failedLoginCount := ad_failedLoginCount a + 1\<rparr>"
    by (simp add: setting_def)
  obtain rows where rows: "save admins_table ?cs a s = (Inr (apply_settings ?cs a a), s\<lparr>t_admins := rows\<rparr>)"
    "by_key admins_table i (s\<lparr>t_admins := rows\<rparr>) = Some (apply_settings ?cs a a)"
    "table_ok admins_table (s\<lparr>t_admins := rows\<rparr>)"
    by (rule admin_row_saved[OF ok a(1), of ?cs]) (use i(2) in \<open>auto simp: setting_def admin_ok_def\<close>)
  have "registerFailure ae a client s = (Inr False, s\<lparr>t_admins := rows\<rparr>)"
    using wrong(3) rows(1) by (simp add: registerFailure_def Let_def limits andThen_def ret_def del: apply_settings_Cons)
  then have "admin_login_tx ae i False client s = (Inr (Inl (App INVALID_CREDENTIALS)), s\<lparr>t_admins := rows\<rparr>)"
    using a wrong(1) by (simp add: admin_login_tx_def transaction_def run_simps locked_at_def andThen_def ret_def)
  then have "admin_login ae verify (ad_email a) password client s =
      (Inl (App INVALID_CREDENTIALS), s\<lparr>t_admins := rows\<rparr>)"
    using a(2) wrong(2) i(1) admin_by_email[OF ok a(1)]
    by (simp add: admin_login_def run_simps andThen_def throw_def)
  then show thesis using rows(2,3)[unfolded after] by (rule that)
qed

lemma wrong_passwords:
  assumes "table_ok admins_table s" "by_key admins_table i s = Some a" "ad_status a = Ad_active"
    and "\<And>p c t. (p, c, t) \<in> set attempts \<Longrightarrow> \<not> locked_at a t \<and> \<not> verify (ad_passwordHash a) p"
    and "ad_failedLoginCount a + int (length attempts) < 5"
  obtains rows c where "admin_attempts ae verify (ad_email a) attempts s =
      (replicate (length attempts) (Inl (App INVALID_CREDENTIALS)), s\<lparr>t_admins := rows, clock := c\<rparr>)"
    "by_key admins_table i (s\<lparr>t_admins := rows, clock := c\<rparr>) =
      Some (a\<lparr>ad_failedLoginCount := ad_failedLoginCount a + int (length attempts)\<rparr>)"
    "table_ok admins_table (s\<lparr>t_admins := rows, clock := c\<rparr>)"
  using assms
proof (induction attempts arbitrary: s a thesis)
  case Nil
  show ?case by (rule Nil.prems(1)[of "clock s" "t_admins s"]) (use Nil.prems(2,3) in simp_all)
next
  case (Cons x attempts)
  obtain p c t where x: "x = (p, c, t)" by (cases x)
  let ?s = "s\<lparr>clock := t\<rparr>" and ?a = "a\<lparr>ad_failedLoginCount := ad_failedLoginCount a + 1\<rparr>"
  have now: "table_ok admins_table ?s" "by_key admins_table i ?s = Some a"
    using Cons.prems(2,3) by (simp_all add: table_ok_def by_key_def)
  obtain rows where first: "admin_login ae verify (ad_email a) p c ?s =
      (Inl (App INVALID_CREDENTIALS), ?s\<lparr>t_admins := rows\<rparr>)"
    "by_key admins_table i (?s\<lparr>t_admins := rows\<rparr>) = Some ?a" "table_ok admins_table (?s\<lparr>t_admins := rows\<rparr>)"
  proof (rule wrong_password[OF now Cons.prems(4)])
    have "(p, c, t) \<in> set (x # attempts)" by (simp add: x)
    from Cons.prems(5)[OF this] show "\<not> locked_at a (clock ?s)" "\<not> verify (ad_passwordHash a) p" by simp_all
    show "ad_failedLoginCount a + 1 < 5" using Cons.prems(6) by simp
  qed blast
  obtain rows' c' where rest: "admin_attempts ae verify (ad_email ?a) attempts (?s\<lparr>t_admins := rows\<rparr>) =
      (replicate (length attempts) (Inl (App INVALID_CREDENTIALS)), ?s\<lparr>t_admins := rows, t_admins := rows', clock := c'\<rparr>)"
    "by_key admins_table i (?s\<lparr>t_admins := rows, t_admins := rows', clock := c'\<rparr>) =
      Some (?a\<lparr>ad_failedLoginCount := ad_failedLoginCount ?a + int (length attempts)\<rparr>)"
    "table_ok admins_table (?s\<lparr>t_admins := rows, t_admins := rows', clock := c'\<rparr>)"
  proof (rule Cons.IH[OF _ first(3,2)])
    show "ad_status ?a = Ad_active" using Cons.prems(4) by simp
    show "\<not> locked_at ?a t' \<and> \<not> verify (ad_passwordHash ?a) p'" if "(p', c'', t') \<in> set attempts" for p' c'' t'
      using Cons.prems(5)[of p' c'' t'] that by (simp add: locked_at_def)
    show "ad_failedLoginCount ?a + int (length attempts) < 5" using Cons.prems(6) by simp
  qed blast
  let ?t = "s\<lparr>t_admins := rows', clock := c'\<rparr>"
  have same: "?s\<lparr>t_admins := rows, t_admins := rows', clock := c'\<rparr> = ?t" by simp
  have count: "?a\<lparr>ad_failedLoginCount := ad_failedLoginCount ?a + int (length attempts)\<rparr> =
      a\<lparr>ad_failedLoginCount := ad_failedLoginCount a + int (length (x # attempts))\<rparr>" by simp
  have mail: "ad_email ?a = ad_email a" by simp
  have "admin_attempts ae verify (ad_email a) (x # attempts) s =
      (replicate (length (x # attempts)) (Inl (App INVALID_CREDENTIALS)), ?t)"
    by (simp only: x admin_attempts.simps first(1) rest(1)[unfolded same mail] Let_def prod.case list.size replicate_Suc
        add_0_right add_Suc_right)
  then show ?case by (rule Cons.prems(1)) (rule rest(2,3)[unfolded same count])+
qed

text \<open>The fifth one locks the account.\<close>

lemma fifth_password:
  assumes ok: "table_ok admins_table s" and a: "by_key admins_table i s = Some a" "ad_status a = Ad_active"
    and wrong: "\<not> locked_at a (clock s)" "\<not> verify (ad_passwordHash a) password" "ad_failedLoginCount a = 4"
    and fresh: "Suc (rng s (drawn s)) \<notin> al_id ` set (t_audit_logs s)"
  obtains t where "admin_login ae verify (ad_email a) password client s = (Inl (App ACCOUNT_LOCKED), t)"
    "by_key admins_table i t =
      Some (a\<lparr>ad_failedLoginCount := 0, ad_lockedUntil := Some (clock s + 15 * 60 * 1000)\<rparr>)"
proof -
  have i: "ad_id a = i" using admins.by_key_in[OF a(1)] by simp
  let ?l = "clock s + ADMIN_LOCKOUT_MINUTES * MINUTE_MS"
  let ?cs = "[setting ad_failedLoginCount ad_failedLoginCount_update 0,
     setting ad_lockedUntil ad_lockedUntil_update (Some ?l)]"
  have after: "apply_settings ?cs a a = a\<lparr>ad_failedLoginCount := 0, ad_lockedUntil := Some (clock s + 15 * 60 * 1000)\<rparr>"
    by (simp add: setting_def limits)
  obtain rows where rows: "save admins_table ?cs a s = (Inr (apply_settings ?cs a a), s\<lparr>t_admins := rows\<rparr>)"
    "by_key admins_table i (s\<lparr>t_admins := rows\<rparr>) = Some (apply_settings ?cs a a)"
    by (rule admin_row_saved[OF ok a(1), of ?cs]) (auto simp: setting_def admin_ok_def)
  have "\<not> (\<exists>q \<in> set (t_audit_logs s). al_id q = Suc (rng s (drawn s)))" using fresh by force
  then have "\<exists>t. audit_admin ae i ''admin.lockout'' client [] (s\<lparr>t_admins := rows\<rparr>) = (Inr (), t) \<and> t_admins t = rows"
    by (simp add: audit_admin_def recordAdminAction_def run_simps insert_row_def list_ex_iff)
  then obtain t where log: "audit_admin ae i ''admin.lockout'' client [] (s\<lparr>t_admins := rows\<rparr>) = (Inr (), t)"
    and t: "t_admins t = rows" by blast
  have "registerFailure ae a client s = (Inr True, t)"
    using wrong(3) rows(1) log i
    by (simp add: registerFailure_def Let_def limits run_simps andThen_def ret_def del: apply_settings_Cons)
  then have "admin_login_tx ae i False client s = (Inr (Inl (App ACCOUNT_LOCKED)), t)"
    using a wrong(1) by (simp add: admin_login_tx_def transaction_def run_simps locked_at_def andThen_def ret_def)
  then have "admin_login ae verify (ad_email a) password client s = (Inl (App ACCOUNT_LOCKED), t)"
    using a(2) wrong(2) i admin_by_email[OF ok a(1)]
    by (simp add: admin_login_def run_simps andThen_def throw_def)
  moreover have "by_key admins_table i t = Some (apply_settings ?cs a a)"
    using rows(2) t by (simp add: by_key_def)
  ultimately show thesis unfolding after by (rule that)
qed

text \<open>
  C17. The fifth wrong password in a row locks an administrator account, the four before it do not; for the
  next 15 minutes every attempt, with the right password too, is refused and changes nothing, whatever else
  happens to the database.
\<close>

theorem locked_for_fifteen_minutes:
  assumes ok: "table_ok admins_table s"
    and a: "by_key admins_table i s = Some a" "ad_status a = Ad_active" "ad_failedLoginCount a = 0"
    and wrong: "length attempts = 4"
      "\<And>p c t. (p, c, t) \<in> set (attempts @ [(password, client, time)]) \<Longrightarrow>
        \<not> locked_at a t \<and> \<not> verify (ad_passwordHash a) p"
    and fresh: "Suc (rng s (drawn s)) \<notin> al_id ` set (t_audit_logs s)"
    and run: "admin_attempts ae verify (ad_email a) (attempts @ [(password, client, time)]) s = (outcomes, t)"
    and later: "table_ok admins_table t'" "by_key admins_table i t' = by_key admins_table i t"
      "clock t' < time + 15 * 60 * 1000"
  shows "outcomes = replicate 4 (Inl (App INVALID_CREDENTIALS)) @ [Inl (App ACCOUNT_LOCKED)] \<and>
    admin_login ae verify (ad_email a) anyPassword client' t' = (Inl (App ACCOUNT_LOCKED), t')"
proof -
  obtain rows c where four: "admin_attempts ae verify (ad_email a) attempts s =
      (replicate (length attempts) (Inl (App INVALID_CREDENTIALS)), s\<lparr>t_admins := rows, clock := c\<rparr>)"
    "by_key admins_table i (s\<lparr>t_admins := rows, clock := c\<rparr>) =
      Some (a\<lparr>ad_failedLoginCount := ad_failedLoginCount a + int (length attempts)\<rparr>)"
    "table_ok admins_table (s\<lparr>t_admins := rows, clock := c\<rparr>)"
  proof (rule wrong_passwords[OF ok a(1,2), of attempts verify ae])
    show "\<not> locked_at a t \<and> \<not> verify (ad_passwordHash a) p" if "(p, c, t) \<in> set attempts" for p c t
      using wrong(2)[of p c t] that by simp
    show "ad_failedLoginCount a + int (length attempts) < 5" using wrong(1) a(3) by simp
  qed blast
  let ?s = "s\<lparr>t_admins := rows, clock := time\<rparr>" and ?a = "a\<lparr>ad_failedLoginCount := 4\<rparr>"
  have now: "table_ok admins_table ?s" "by_key admins_table i ?s = Some ?a"
    using four(2,3) wrong(1) a(3) by (simp_all add: table_ok_def by_key_def)
  obtain u where fifth: "admin_login ae verify (ad_email ?a) password client ?s = (Inl (App ACCOUNT_LOCKED), u)"
    "by_key admins_table i u = Some (?a\<lparr>ad_failedLoginCount := 0, ad_lockedUntil := Some (clock ?s + 15 * 60 * 1000)\<rparr>)"
    by (rule fifth_password[OF now, of verify password ae client])
      (use a(2) wrong(2)[of password client time] fresh in \<open>auto simp: locked_at_def\<close>)
  have out: "outcomes = replicate 4 (Inl (App INVALID_CREDENTIALS)) @ [Inl (App ACCOUNT_LOCKED)]" "t = u"
    using run fifth(1) four(1) wrong(1) by (auto simp: admin_attempts_append)
  let ?b = "a\<lparr>ad_failedLoginCount := 0, ad_lockedUntil := Some (time + 15 * 60 * 1000)\<rparr>"
  have b: "by_key admins_table i t' = Some ?b" using fifth(2) later(2) out(2) by simp
  have "admin_login_tx ae i ok client' t' = (Inr (Inl (App ACCOUNT_LOCKED)), t')" for ok
    using b later(3) a(2) by (simp add: admin_login_tx_def transaction_def run_simps)
  then have "admin_login ae verify (ad_email ?b) anyPassword client' t' = (Inl (App ACCOUNT_LOCKED), t')"
    using admin_by_email[OF later(1) b] admins.by_key_in[OF b] a(2)
    by (simp add: admin_login_def run_simps andThen_def throw_def)
  with out(1) show ?thesis by simp
qed

definition sample_admin :: "int \<Rightarrow> admin_user" where
  "sample_admin n = \<lparr>ad_id = 9, ad_email = ''a@b'', ad_name = ''A'', ad_role = Moderator, ad_passwordHash = ''x'',
    ad_status = Ad_active, ad_failedLoginCount = n, ad_lockedUntil = None, ad_lastLoginAt = None, ad_createdAt = 0\<rparr>"

definition guesses :: "sign_in_attempt list" where
  "guesses = [(''a'', sample_client, 1), (''b'', sample_client, 2), (''c'', sample_client, 3), (''d'', sample_client, 4)]"

theorem locked_for_fifteen_minutes_witness:
  "fst (admin_login sample_ae (\<lambda>hash p. p = ''right'') ''a@b'' ''right'' sample_client
      ((snd (admin_attempts sample_ae (\<lambda>hash p. p = ''right'') ''a@b'' (guesses @ [(''e'', sample_client, 5)])
        (empty_db\<lparr>t_admins := [sample_admin 0]\<rparr>)))\<lparr>clock := 899999\<rparr>)) = Inl (App ACCOUNT_LOCKED)"
proof -
  let ?s = "empty_db\<lparr>t_admins := [sample_admin 0]\<rparr>"
  let ?run = "admin_attempts sample_ae (\<lambda>hash p. p = ''right'') (ad_email (sample_admin 0)) (guesses @ [(''e'', sample_client, 5)]) ?s"
  let ?t = "(snd ?run)\<lparr>clock := 899999\<rparr>"
  have ok: "table_ok admins_table ?s" "table_ok admins_table (snd ?run)" by code_simp+
  have a: "by_key admins_table 9 ?s = Some (sample_admin 0)" "ad_status (sample_admin 0) = Ad_active"
    "ad_failedLoginCount (sample_admin 0) = 0" "ad_email (sample_admin 0) = ''a@b''" "ad_lockedUntil (sample_admin 0) = None"
    by (simp_all add: by_key_def sample_admin_def)
  have "admin_login sample_ae (\<lambda>hash p. p = ''right'') (ad_email (sample_admin 0)) ''right'' sample_client ?t =
      (Inl (App ACCOUNT_LOCKED), ?t)"
  proof (rule locked_for_fifteen_minutes[OF ok(1) a(1-3), THEN conjunct2])
    show "length guesses = 4" by (simp add: guesses_def)
    show "\<not> locked_at (sample_admin 0) t \<and> \<not> p = ''right''" if "(p, c, t) \<in> set (guesses @ [(''e'', sample_client, 5)])" for p c t
      using that a(5) by (auto simp: guesses_def locked_at_def)
    show "?run = (fst ?run, snd ?run)" by (rule prod.collapse[symmetric])
    have later: "table_ok admins_table (u\<lparr>clock := c\<rparr>) = table_ok admins_table u"
      "by_key admins_table 9 (u\<lparr>clock := c\<rparr>) = by_key admins_table 9 u" for u c
      by (simp_all add: table_ok_def by_key_def)
    show "table_ok admins_table ?t" unfolding later by (rule ok(2))
    show "by_key admins_table 9 ?t = by_key admins_table 9 (snd ?run)" by (rule later(2))
  qed (simp_all add: empty_db_def)
  then show ?thesis unfolding a(4) by (simp only: fst_conv)
qed

section \<open>Permissions\<close>

text \<open>
  Refunds, unbans, phone numbers, the audit log and the administrators themselves are reserved to super
  administrators, who have every permission; no other role has one that a super administrator lacks.
\<close>

theorem sensitive_permissions_are_reserved:
  assumes "requirePermission p (Some a) = Inr ()"
  shows "requirePermission p (Some (a\<lparr>aa_role := Super_admin\<rparr>)) = Inr () \<and>
    (p \<in> {Payments_refund, Users_unban, Users_reveal_phone, Audit_view, Admins_manage} \<longrightarrow> aa_role a = Super_admin)"
  using assms
  by (cases "aa_role a"; cases p)
    (simp_all add: requirePermission_def roleHasPermission_def ADMIN_PERMISSIONS_def)

theorem sensitive_permissions_are_reserved_witness:
  "requirePermission Payments_refund (Some \<lparr>aa_adminId = 9, aa_sessionId = 1, aa_role = Super_admin\<rparr>) = Inr ()"
proof -
  have "requirePermission Payments_refund (Some \<lparr>aa_adminId = 9, aa_sessionId = 1, aa_role = Super_admin\<rparr>) = Inr ()"
    by code_simp
  from sensitive_permissions_are_reserved[OF this] this show ?thesis by simp
qed

end
