(* ===== verification/Access_Samples.thy ===== *)
theory Access_Samples
  imports Access Auth_Theorems
begin

text \<open>Sample requests, and the theorems of \<open>Access\<close> on them.\<close>

definition open_http :: "unit http" where
  "open_http = \<lparr>ht_auth = sample_ae, ht_hit = (\<lambda>_ _ _ _ r. (True, r)), ht_decode = Some, ht_origin = (\<lambda>_. ''https://app'')\<rparr>"

definition get_request :: "string list \<Rightarrow> string option \<Rightarrow> request" where
  "get_request path token =
    \<lparr>hr_method = GET, hr_path = map units path, hr_authorization = token, hr_query = JObject [], hr_body = JNull,
      hr_ip = ''1.2.3.4'', hr_userAgent = None, hr_csrf = None, hr_origin = None, hr_memberCookie = None,
      hr_adminCookie = None, hr_idempotencyKey = None, hr_file = No_file, hr_rawBody = None, hr_signature = None,
      hr_eventId = None\<rparr>"

theorem handlers_are_guarded_witness:
  "\<exists>c. fst (dispatch open_http api_router (get_request [''auth'', ''me''] (Some ''Bearer m.garba-partner:app'')) member_db ()) =
      Inr (Auth Get_me, [], c) \<and> map_option ma_userId (cx_auth c) = Some 1"
proof -
  let ?req = "get_request [''auth'', ''me''] (Some ''Bearer m.garba-partner:app'')"
  let ?c = "no_context\<lparr>cx_auth := Some \<lparr>ma_userId = 1, ma_sessionId = 50, ma_status = U_active, ma_onboarded = True,
    ma_expiresAt = 900000\<rparr>\<rparr>"
  have run: "dispatch open_http api_router ?req member_db () = (Inr (Auth Get_me, [], ?c), ())"
    by code_simp
  from handlers_are_guarded[OF this] have "\<exists>a. cx_auth ?c = Some a" by (simp add: member_admitted_def)
  with run show ?thesis by simp
qed

theorem addresses_run_their_route_witness:
  "fst (dispatch open_http api_router (get_request [''auth'', ''me''] None) member_db ()) = Inl (App UNAUTHENTICATED)"
proof -
  let ?req = "get_request [''auth'', ''me''] None"
  let ?gs = "[Not_for_webhooks (Ip_limited Global_limit), Authenticate_member]"
  let ?route = "(GET, [Lit ''auth'', Lit ''me''], ?gs, Auth Get_me)"
  have route: "?route \<in> set (routes_of [] [] api_router)" by code_simp
  have path: "hr_method ?req = GET" "instance_of (route_pattern [Lit ''auth'', Lit ''me'']) (rooted (hr_path ?req))"
    "plain_path open_http ([] # hr_path ?req)"
    by (simp_all add: get_request_def instance_of_def route_pattern_def rooted_def plain_path_def open_http_def)
  have "fst (run_guards open_http ?req member_db ?gs no_context ()) = Inl (App UNAUTHENTICATED)" by code_simp
  with addresses_run_their_route[OF route path, of member_db "()"] show ?thesis
    by (cases "fst (dispatch open_http api_router ?req member_db ())") auto
qed

end
