(* ===== verification/Schemas_Admin.thy ===== *)
theory Schemas_Admin
  imports Schemas
begin

text \<open>
  The schemas of payments (\<open>payment.schema.ts\<close>), of organizers and events (\<open>event.schema.ts\<close>), of the
  dashboard (\<open>dashboard.schema.ts\<close>) and of the log viewers (\<open>safety.schema.ts\<close>).
\<close>

section \<open>Payments\<close>

definition createOrderSchema :: "js_lib \<Rightarrow> (uuid \<times> int) schema" where
  "createOrderSchema lib = strictObject [''eventId'', ''quantity''] (\<lambda>m. do {
     event \<leftarrow> needs ''eventId'' (uuidParamSchema lib) m;
     quantity \<leftarrow> needs ''quantity'' (refine (\<lambda>n. 1 \<le> n \<and> n \<le> PASS_MAX_PER_ORDER) js_int) m;
     Some (event, quantity) })"

definition is_alphanumeric :: "code_unit \<Rightarrow> bool" where
  "is_alphanumeric c \<longleftrightarrow> is_digit c \<or> is_letter c"

text \<open>A known prefix and 6 to 40 letters and digits.\<close>

definition prefixed_id :: "string \<Rightarrow> js_text schema" where
  "prefixed_id lead = refine (\<lambda>t.
    (let rest = drop (length lead) t
     in take (length lead) t = units lead \<and> 6 \<le> length rest \<and> length rest \<le> 40 \<and> list_all is_alphanumeric rest)) js_string"

definition hex_signature :: "js_text schema" where
  "hex_signature = refine (\<lambda>t. length t = 64 \<and> list_all (\<lambda>c. is_digit c \<or> 97 \<le> c \<and> c \<le> 102) t) js_string"

definition verifyPaymentSchema :: "js_lib \<Rightarrow> (string \<times> string \<times> string) schema" where
  "verifyPaymentSchema lib = strictObject [''razorpayOrderId'', ''razorpayPaymentId'', ''razorpaySignature''] (\<lambda>m. do {
     order \<leftarrow> needs ''razorpayOrderId'' (prefixed_id ''order_'') m;
     payment \<leftarrow> needs ''razorpayPaymentId'' (prefixed_id ''pay_'') m;
     signature \<leftarrow> needs ''razorpaySignature'' hex_signature m;
     Some (js_stored lib order, js_stored lib payment, js_stored lib signature) })"

definition bookingListQuerySchema :: "(js_text option \<times> nat option) schema" where
  "bookingListQuerySchema = pageSchema 300 (clampedLimit ADMIN_PAGE_SIZE_MAX)"

definition eventPassSettingsSchema :: "(int option \<times> int option) schema" where
  "eventPassSettingsSchema = strictObject [''pricePaise'', ''capacity''] (\<lambda>m. do {
     price \<leftarrow> needs ''pricePaise'' (nullable (refine (\<lambda>n. PASS_PRICE_MIN_PAISE \<le> n \<and> n \<le> PASS_PRICE_MAX_PAISE) js_int)) m;
     capacity \<leftarrow> needs ''capacity'' (nullable (refine (\<lambda>n. 1 \<le> n \<and> n \<le> PASS_CAPACITY_MAX) js_int)) m;
     Some (price, capacity) })"

definition adminRefundSchema :: "js_lib \<Rightarrow> string schema" where
  "adminRefundSchema lib = strictObject [''reason''] (\<lambda>m. map_option (js_stored lib) (needs ''reason'' adminNote m))"

record admin_order_query =
  xo_status :: "order_status option"
  xo_eventId :: "uuid option"
  xo_limit :: "nat option"

definition adminOrderListQuerySchema :: "js_lib \<Rightarrow> (js_text option \<times> admin_order_query) schema" where
  "adminOrderListQuerySchema lib = strictObject [''status'', ''eventId'', ''cursor'', ''limit''] (\<lambda>m. do {
     status \<leftarrow> may ''status'' (enum_of ORDER_STATUSES) m;
     event \<leftarrow> may ''eventId'' (uuidParamSchema lib) m;
     cursor \<leftarrow> cursor_text 300 m;
     limit \<leftarrow> may ''limit'' (clampedLimit ADMIN_PAGE_SIZE_MAX) m;
     Some (cursor, \<lparr>xo_status = status, xo_eventId = event, xo_limit = limit\<rparr>) })"

record admin_booking_query =
  xb_status :: "booking_status option"
  xb_refundStatus :: "refund_status option"
  xb_eventId :: "uuid option"
  xb_limit :: "nat option"

definition adminBookingListQuerySchema :: "js_lib \<Rightarrow> (js_text option \<times> admin_booking_query) schema" where
  "adminBookingListQuerySchema lib = strictObject [''status'', ''refundStatus'', ''eventId'', ''cursor'', ''limit''] (\<lambda>m. do {
     status \<leftarrow> may ''status'' (enum_of BOOKING_STATUSES) m;
     refund \<leftarrow> may ''refundStatus'' (enum_of REFUND_STATUSES) m;
     event \<leftarrow> may ''eventId'' (uuidParamSchema lib) m;
     cursor \<leftarrow> cursor_text 300 m;
     limit \<leftarrow> may ''limit'' (clampedLimit ADMIN_PAGE_SIZE_MAX) m;
     Some (cursor, \<lparr>xb_status = status, xb_refundStatus = refund, xb_eventId = event, xb_limit = limit\<rparr>) })"

section \<open>Organizers\<close>

abbreviation organizer_name :: "js_lib \<Rightarrow> js_text schema" where
  "organizer_name lib \<equiv> singleLine lib ORGANIZER_NAME_MIN ORGANIZER_NAME_MAX"
abbreviation organizer_description :: "js_lib \<Rightarrow> js_text option schema" where
  "organizer_description lib \<equiv> nullable (publicParagraphs lib 0 ORGANIZER_DESCRIPTION_MAX)"
abbreviation organizer_keys :: "string list" where
  "organizer_keys \<equiv> [''name'', ''description'', ''websiteUrl'', ''instagramHandle'', ''contactName'', ''contactEmail'',
     ''contactPhone'', ''notes'']"

definition createOrganizerSchema :: "js_lib \<Rightarrow> create_organizer schema" where
  "createOrganizerSchema lib = strictObject organizer_keys (\<lambda>m. do {
     name \<leftarrow> needs ''name'' (organizer_name lib) m;
     description \<leftarrow> may ''description'' (organizer_description lib) m;
     website \<leftarrow> may ''websiteUrl'' httpsUrlSchema m;
     instagram \<leftarrow> may ''instagramHandle'' (instagramIdSchema lib) m;
     contact \<leftarrow> may ''contactName'' (optionalLine lib ORGANIZER_CONTACT_NAME_MAX) m;
     email \<leftarrow> may ''contactEmail'' (contactEmailSchema lib) m;
     phone \<leftarrow> may ''contactPhone'' contactPhoneSchema m;
     remarks \<leftarrow> may ''notes'' notesSchema m;
     Some \<lparr>co_name = js_stored lib name, co_description = stored_option lib (value_or description None),
       co_websiteUrl = stored_option lib (value_or website None),
       co_instagramHandle = stored_option lib (value_or instagram None),
       co_contactName = stored_option lib (value_or contact None),
       co_contactEmail = stored_option lib (value_or email None),
       co_contactPhone = stored_option lib (value_or phone None), co_notes = stored_option lib (value_or remarks None)\<rparr> })"

definition updateOrganizerSchema :: "js_lib \<Rightarrow> update_organizer schema" where
  "updateOrganizerSchema lib = some_key (strictObject organizer_keys (\<lambda>m. do {
     name \<leftarrow> may ''name'' (organizer_name lib) m;
     description \<leftarrow> may ''description'' (organizer_description lib) m;
     website \<leftarrow> may ''websiteUrl'' httpsUrlSchema m;
     instagram \<leftarrow> may ''instagramHandle'' (instagramIdSchema lib) m;
     contact \<leftarrow> may ''contactName'' (optionalLine lib ORGANIZER_CONTACT_NAME_MAX) m;
     email \<leftarrow> may ''contactEmail'' (contactEmailSchema lib) m;
     phone \<leftarrow> may ''contactPhone'' contactPhoneSchema m;
     remarks \<leftarrow> may ''notes'' notesSchema m;
     Some \<lparr>uo_name = stored_option lib name, uo_description = map_option (stored_option lib) description,
       uo_websiteUrl = map_option (stored_option lib) website,
       uo_instagramHandle = map_option (stored_option lib) instagram,
       uo_contactName = map_option (stored_option lib) contact, uo_contactEmail = map_option (stored_option lib) email,
       uo_contactPhone = map_option (stored_option lib) phone, uo_notes = map_option (stored_option lib) remarks\<rparr> }))"

definition adminOrganizerListQuerySchema :: "(js_text option \<times> organizer_query) schema" where
  "adminOrganizerListQuerySchema = strictObject [''q'', ''status'', ''verified'', ''cursor'', ''limit''] (\<lambda>m. do {
     q \<leftarrow> search_text m;
     status \<leftarrow> may ''status'' (enum_of ORGANIZER_STATUSES) m;
     verified \<leftarrow> may ''verified'' booleanParam m;
     cursor \<leftarrow> cursor_text 400 m;
     limit \<leftarrow> may ''limit'' limitParam m;
     Some (cursor, \<lparr>oq_q = q, oq_status = status, oq_verified = verified, oq_limit = limit\<rparr>) })"

section \<open>Events\<close>

abbreviation event_name :: "js_lib \<Rightarrow> js_text schema" where
  "event_name lib \<equiv> singleLine lib EVENT_NAME_MIN EVENT_NAME_MAX"
abbreviation event_description :: "js_lib \<Rightarrow> js_text schema" where
  "event_description lib \<equiv> publicParagraphs lib EVENT_DESCRIPTION_MIN EVENT_DESCRIPTION_MAX"
abbreviation venue_name :: "js_lib \<Rightarrow> js_text schema" where
  "venue_name lib \<equiv> singleLine lib 2 EVENT_VENUE_NAME_MAX"
abbreviation venue_address :: "js_lib \<Rightarrow> js_text schema" where
  "venue_address lib \<equiv> singleLine lib 5 EVENT_VENUE_ADDRESS_MAX"
abbreviation event_keys :: "string list" where
  "event_keys \<equiv> [''name'', ''description'', ''organizerId'', ''cityId'', ''areaId'', ''venueName'', ''venueAddress'',
     ''eventDate'', ''startTime'', ''endTime'', ''ticketUrl'']"

text \<open>A start time that is sent differs from the end time.\<close>

definition sameTimes :: "int option \<Rightarrow> int option \<Rightarrow> bool" where
  "sameTimes startTime endTime \<longleftrightarrow> startTime = None \<or> startTime \<noteq> endTime"

definition createEventSchema :: "js_lib \<Rightarrow> create_event schema" where
  "createEventSchema lib = refine (\<lambda>e. sameTimes (Some (ce_startTime e)) (Some (ce_endTime e)))
    (strictObject event_keys (\<lambda>m. do {
     name \<leftarrow> needs ''name'' (event_name lib) m;
     description \<leftarrow> needs ''description'' (event_description lib) m;
     organizer \<leftarrow> needs ''organizerId'' (uuidParamSchema lib) m;
     city \<leftarrow> needs ''cityId'' (uuidParamSchema lib) m;
     area \<leftarrow> may ''areaId'' (nullable (uuidParamSchema lib)) m;
     venue \<leftarrow> needs ''venueName'' (venue_name lib) m;
     address \<leftarrow> needs ''venueAddress'' (venue_address lib) m;
     day \<leftarrow> needs ''eventDate'' isoDateSchema m;
     starts \<leftarrow> needs ''startTime'' eventTimeSchema m;
     ends \<leftarrow> needs ''endTime'' eventTimeSchema m;
     url \<leftarrow> may ''ticketUrl'' httpsUrlSchema m;
     Some \<lparr>ce_name = js_stored lib name, ce_description = js_stored lib description, ce_organizerId = organizer,
       ce_cityId = city, ce_areaId = value_or area None, ce_venueName = js_stored lib venue,
       ce_venueAddress = js_stored lib address, ce_eventDate = day, ce_startTime = starts, ce_endTime = ends,
       ce_ticketUrl = stored_option lib (value_or url None)\<rparr> }))"

definition updateEventSchema :: "js_lib \<Rightarrow> update_event schema" where
  "updateEventSchema lib = some_key (refine (\<lambda>e. sameTimes (ue_startTime e) (ue_endTime e))
    (strictObject event_keys (\<lambda>m. do {
     name \<leftarrow> may ''name'' (event_name lib) m;
     description \<leftarrow> may ''description'' (event_description lib) m;
     organizer \<leftarrow> may ''organizerId'' (uuidParamSchema lib) m;
     city \<leftarrow> may ''cityId'' (uuidParamSchema lib) m;
     area \<leftarrow> may ''areaId'' (nullable (uuidParamSchema lib)) m;
     venue \<leftarrow> may ''venueName'' (venue_name lib) m;
     address \<leftarrow> may ''venueAddress'' (venue_address lib) m;
     day \<leftarrow> may ''eventDate'' isoDateSchema m;
     starts \<leftarrow> may ''startTime'' eventTimeSchema m;
     ends \<leftarrow> may ''endTime'' eventTimeSchema m;
     url \<leftarrow> may ''ticketUrl'' httpsUrlSchema m;
     Some \<lparr>ue_name = stored_option lib name, ue_description = stored_option lib description,
       ue_organizerId = organizer, ue_cityId = city, ue_areaId = area, ue_venueName = stored_option lib venue,
       ue_venueAddress = stored_option lib address, ue_eventDate = day, ue_startTime = starts, ue_endTime = ends,
       ue_ticketUrl = map_option (stored_option lib) url\<rparr> })))"

text \<open>\<open>from\<close> may not come after \<open>to\<close>.\<close>

definition fromBeforeTo :: "date option \<Rightarrow> date option \<Rightarrow> bool" where
  "fromBeforeTo a b \<longleftrightarrow> (case a of None \<Rightarrow> True | Some x \<Rightarrow> (case b of None \<Rightarrow> True | Some y \<Rightarrow> x \<le> y))"

definition event_sorts :: "(string \<times> event_sort) list" where
  "event_sorts = [(''date_asc'', Date_asc), (''date_desc'', Date_desc)]"

definition admin_event_sorts :: "(string \<times> admin_event_sort) list" where
  "admin_event_sorts = [(''date_asc'', By_date_asc), (''date_desc'', By_date_desc), (''created_desc'', By_created_desc),
    (''name_asc'', By_name_asc)]"

definition adminEventListQuerySchema ::
    "js_lib \<Rightarrow> (js_text option \<times> admin_event_sort option \<times> admin_event_query) schema" where
  "adminEventListQuerySchema lib = refine (\<lambda>(c, o', q). fromBeforeTo (aq_from q) (aq_to q)) (strictObject
    [''q'', ''status'', ''cityId'', ''organizerId'', ''verified'', ''from'', ''to'', ''sort'', ''cursor'', ''limit''] (\<lambda>m. do {
     q \<leftarrow> search_text m;
     status \<leftarrow> may ''status'' (enum_of EVENT_STATUSES) m;
     city \<leftarrow> may ''cityId'' (uuidParamSchema lib) m;
     organizer \<leftarrow> may ''organizerId'' (uuidParamSchema lib) m;
     verified \<leftarrow> may ''verified'' booleanParam m;
     first \<leftarrow> may ''from'' isoDateSchema m;
     final \<leftarrow> may ''to'' isoDateSchema m;
     sorting \<leftarrow> may ''sort'' (enum_of admin_event_sorts) m;
     cursor \<leftarrow> cursor_text 400 m;
     limit \<leftarrow> may ''limit'' limitParam m;
     Some (cursor, sorting, \<lparr>aq_q = q, aq_status = status, aq_cityId = city, aq_organizerId = organizer,
       aq_verified = verified, aq_from = first, aq_to = final, aq_limit = limit\<rparr>) }))"

definition eventListQuerySchema :: "js_lib \<Rightarrow> (js_text option \<times> event_query) schema" where
  "eventListQuerySchema lib = refine (\<lambda>(c, q). fromBeforeTo (eq_from q) (eq_to q)) (strictObject
    [''cityId'', ''from'', ''to'', ''sort'', ''cursor'', ''limit''] (\<lambda>m. do {
     city \<leftarrow> may ''cityId'' (uuidParamSchema lib) m;
     first \<leftarrow> may ''from'' isoDateSchema m;
     final \<leftarrow> may ''to'' isoDateSchema m;
     sorting \<leftarrow> may ''sort'' (enum_of event_sorts) m;
     cursor \<leftarrow> cursor_text 400 m;
     limit \<leftarrow> may ''limit'' limitParam m;
     Some (cursor, \<lparr>eq_cityId = city, eq_from = first, eq_to = final, eq_sort = sorting, eq_cursor = None,
       eq_limit = limit\<rparr>) }))"

definition EVENT_SLUG_PATTERN :: rx where
  "EVENT_SLUG_PATTERN = (let unit = One (\<lambda>c. is_digit c \<or> 97 \<le> c \<and> c \<le> 122)
    in rx_seq [At_start, rx_plus unit, rx_star (rx_seq [rx_lit ''-'', rx_plus unit]), At_end])"

definition eventIdOrSlugSchema :: "js_text schema" where
  "eventIdOrSlugSchema = refine (\<lambda>t. uuid_shape t \<or> length t \<le> 140 \<and> rx_test EVENT_SLUG_PATTERN t) js_string"

section \<open>Dashboard and logs\<close>

definition adminDashboardQuerySchema :: "js_lib \<Rightarrow> (date option \<times> date option \<times> uuid option) schema" where
  "adminDashboardQuerySchema lib = strictObject [''from'', ''to'', ''cityId''] (\<lambda>m. do {
     first \<leftarrow> may ''from'' isoDateSchema m;
     final \<leftarrow> may ''to'' isoDateSchema m;
     city \<leftarrow> may ''cityId'' (uuidParamSchema lib) m;
     Some (first, final, city) })"

definition adminDashboardEventsQuerySchema ::
    "js_lib \<Rightarrow> (js_text option \<times> nat option \<times> date option \<times> date option \<times> uuid option) schema" where
  "adminDashboardEventsQuerySchema lib = strictObject [''from'', ''to'', ''cityId'', ''cursor'', ''limit''] (\<lambda>m. do {
     first \<leftarrow> may ''from'' isoDateSchema m;
     final \<leftarrow> may ''to'' isoDateSchema m;
     city \<leftarrow> may ''cityId'' (uuidParamSchema lib) m;
     cursor \<leftarrow> cursor_text 300 m;
     limit \<leftarrow> may ''limit'' (clampedLimit ADMIN_PAGE_SIZE_MAX) m;
     Some (cursor, limit, first, final, city) })"

definition lower_snake :: "code_unit \<Rightarrow> bool" where
  "lower_snake c \<longleftrightarrow> 97 \<le> c \<and> c \<le> 122 \<or> c = 95"

definition ACTION_FORM :: rx where
  "ACTION_FORM = (let unit = One lower_snake
    in rx_seq [At_start, rx_plus unit, rx_plus (rx_seq [rx_lit ''.'', rx_plus unit]), At_end])"

record audit_log_query =
  lg_action :: "js_text option"
  lg_targetType :: "js_text option"
  lg_targetId :: "uuid option"
  lg_adminId :: "uuid option"
  lg_limit :: "nat option"

definition adminAuditLogQuerySchema :: "js_lib \<Rightarrow> (js_text option \<times> audit_log_query) schema" where
  "adminAuditLogQuerySchema lib = strictObject [''action'', ''targetType'', ''targetId'', ''adminId'', ''cursor'', ''limit''] (\<lambda>m. do {
     action \<leftarrow> may ''action'' (refine (rx_test ACTION_FORM) js_string) m;
     type \<leftarrow> may ''targetType'' (refine (\<lambda>t. 2 \<le> length t \<and> length t \<le> 30 \<and> list_all lower_snake t) js_string) m;
     target \<leftarrow> may ''targetId'' (uuidParamSchema lib) m;
     admin \<leftarrow> may ''adminId'' (uuidParamSchema lib) m;
     cursor \<leftarrow> cursor_text 300 m;
     limit \<leftarrow> may ''limit'' limitParam m;
     Some (cursor, \<lparr>lg_action = action, lg_targetType = type, lg_targetId = target, lg_adminId = admin, lg_limit = limit\<rparr>) })"

record safety_log_query =
  sg_eventType :: "safety_event_type option"
  sg_severity :: "safety_severity option"
  sg_userId :: "uuid option"
  sg_limit :: "nat option"

definition adminSafetyLogQuerySchema :: "js_lib \<Rightarrow> (js_text option \<times> safety_log_query) schema" where
  "adminSafetyLogQuerySchema lib = strictObject [''eventType'', ''severity'', ''userId'', ''cursor'', ''limit''] (\<lambda>m. do {
     type \<leftarrow> may ''eventType'' (enum_of SAFETY_EVENT_TYPES) m;
     severity \<leftarrow> may ''severity'' (enum_of SAFETY_SEVERITIES) m;
     user \<leftarrow> may ''userId'' (uuidParamSchema lib) m;
     cursor \<leftarrow> cursor_text 300 m;
     limit \<leftarrow> may ''limit'' limitParam m;
     Some (cursor, \<lparr>sg_eventType = type, sg_severity = severity, sg_userId = user, sg_limit = limit\<rparr>) })"

end
