(* ===== verification/Razorpay_Gateway.thy ===== *)
theory Razorpay_Gateway
  imports Domain
begin

text \<open>
  The Razorpay adapter (\<open>providers/payments/razorpay.gateway.ts\<close>). \<open>gateway\<close> is the interface
  the payments service uses; its functions take the number of the call, since the remote service
  may answer each call differently. \<open>createRazorpayGateway\<close> builds it from an HTTP transport and
  an HMAC function, which are parameters: the transport gives the typed view of each reply that
  the adapter's own casts assume.
\<close>

record remote_order =
  ro_id :: string
  ro_amount :: int
  ro_currency :: string

record remote_payment =
  zp_id :: string
  zp_order_id :: "string option"
  zp_amount :: int
  zp_currency :: string
  zp_status :: payment_status
  zp_method :: "string option"
  zp_error_code :: "string option"
  zp_error_description :: "string option"

datatype remote_refund_status = Zr_pending | Zr_processed | Zr_failed

record remote_refund =
  zr_id :: string
  zr_payment_id :: string
  zr_amount :: int
  zr_status :: remote_refund_status

record gateway =
  gw_keyId :: string
  gw_createOrder :: "nat \<Rightarrow> int \<Rightarrow> string \<Rightarrow> uuid \<Rightarrow> failure + remote_order"
  gw_fetchPayment :: "nat \<Rightarrow> string \<Rightarrow> failure + remote_payment"
  gw_fetchOrderPayments :: "nat \<Rightarrow> string \<Rightarrow> failure + remote_payment list"
  gw_capturePayment :: "nat \<Rightarrow> string \<Rightarrow> int \<Rightarrow> string \<Rightarrow> failure + remote_payment"
  gw_refundPayment :: "nat \<Rightarrow> string \<Rightarrow> int \<Rightarrow> uuid \<Rightarrow> failure + remote_refund"
  gw_verifyPaymentSignature :: "string \<Rightarrow> string \<Rightarrow> string \<Rightarrow> failure + bool"
  gw_verifyWebhookSignature :: "string \<Rightarrow> string option \<Rightarrow> failure + bool"

section \<open>Hexadecimal digests\<close>

fun hex_value :: "char \<Rightarrow> nat option" where
  "hex_value c =
    (let n = of_char c :: nat
     in if 48 \<le> n \<and> n \<le> 57 then Some (n - 48)
        else if 97 \<le> n \<and> n \<le> 102 then Some (n - 87)
        else if 65 \<le> n \<and> n \<le> 70 then Some (n - 55)
        else None)"

text \<open>\<open>Buffer.from(text, 'hex')\<close> decodes pairs of digits up to the first pair that is none.\<close>

fun hex_decode :: "string \<Rightarrow> nat list" where
  "hex_decode (a # b # rest) =
    (case (hex_value a, hex_value b) of
       (Some x, Some y) \<Rightarrow> (16 * x + y) # hex_decode rest
     | _ \<Rightarrow> [])"
| "hex_decode _ = []"

definition lower_hex :: "char \<Rightarrow> bool" where
  "lower_hex c \<longleftrightarrow> (let n = of_char c :: nat in 48 \<le> n \<and> n \<le> 57 \<or> 97 \<le> n \<and> n \<le> 102)"

text \<open>\<open>/^[0-9a-f]{64}$/\<close>\<close>

definition is_hex64 :: "string \<Rightarrow> bool" where
  "is_hex64 t \<longleftrightarrow> length t = 64 \<and> list_all lower_hex t"

text \<open>\<open>timingSafeEqual\<close> throws on buffers of different lengths.\<close>

definition sameHex :: "string \<Rightarrow> string \<Rightarrow> failure + bool" where
  "sameHex expected actual =
    (if \<not> is_hex64 actual then Inr False
     else if length (hex_decode expected) \<noteq> length (hex_decode actual) then Inl Unexpected_error
     else Inr (hex_decode expected = hex_decode actual))"

section \<open>The adapter\<close>

datatype 'a reply = Network_failure | Rejected int | Accepted 'a

text \<open>A request that fails or a status that is not OK becomes \<open>PAYMENT_PROVIDER_ERROR\<close>.\<close>

fun call_razorpay :: "'a reply \<Rightarrow> failure + 'a" where
  "call_razorpay Network_failure = Inl (App PAYMENT_PROVIDER_ERROR)"
| "call_razorpay (Rejected status) = Inl (App PAYMENT_PROVIDER_ERROR)"
| "call_razorpay (Accepted json) = Inr json"

record razorpay_http =
  post_orders :: "nat \<Rightarrow> int \<Rightarrow> string \<Rightarrow> uuid \<Rightarrow> remote_order reply"
  get_payment :: "nat \<Rightarrow> string \<Rightarrow> remote_payment reply"
  get_order_payments :: "nat \<Rightarrow> string \<Rightarrow> remote_payment list reply"
  post_capture :: "nat \<Rightarrow> string \<Rightarrow> int \<Rightarrow> string \<Rightarrow> remote_payment reply"
  post_refund :: "nat \<Rightarrow> string \<Rightarrow> int \<Rightarrow> uuid \<Rightarrow> remote_refund reply"

definition signCheckout :: "(string \<Rightarrow> string \<Rightarrow> string) \<Rightarrow> string \<Rightarrow> string \<Rightarrow> string \<Rightarrow> string" where
  "signCheckout hmac keySecret orderId paymentId = hmac keySecret (orderId @ ''|'' @ paymentId)"

definition signWebhookBody :: "(string \<Rightarrow> string \<Rightarrow> string) \<Rightarrow> string \<Rightarrow> string \<Rightarrow> string" where
  "signWebhookBody hmac webhookSecret rawBody = hmac webhookSecret rawBody"

definition createRazorpayGateway ::
    "(string \<Rightarrow> string \<Rightarrow> string) \<Rightarrow> razorpay_http \<Rightarrow> string \<Rightarrow> string \<Rightarrow> string \<Rightarrow> gateway" where
  "createRazorpayGateway hmac http keyId keySecret webhookSecret =
    \<lparr>gw_keyId = keyId,
      gw_createOrder = (\<lambda>n amount currency receipt.
        call_razorpay (post_orders http n amount currency receipt)),
      gw_fetchPayment = (\<lambda>n paymentId. call_razorpay (get_payment http n paymentId)),
      gw_fetchOrderPayments = (\<lambda>n orderId. call_razorpay (get_order_payments http n orderId)),
      gw_capturePayment = (\<lambda>n paymentId amount currency.
        call_razorpay (post_capture http n paymentId amount currency)),
      gw_refundPayment = (\<lambda>n paymentId amount receipt.
        call_razorpay (post_refund http n paymentId amount receipt)),
      gw_verifyPaymentSignature = (\<lambda>orderId paymentId signature.
        sameHex (signCheckout hmac keySecret orderId paymentId) signature),
      gw_verifyWebhookSignature = (\<lambda>rawBody signature. case signature of
        None \<Rightarrow> Inr False
      | Some sig \<Rightarrow> sameHex (signWebhookBody hmac webhookSecret rawBody) sig)\<rparr>"

section \<open>Comparing digests is comparing texts\<close>

lemma lower_hex_some: "lower_hex a \<Longrightarrow> \<exists>x. hex_value a = Some x"
  by (auto simp: lower_hex_def Let_def)

lemma hex_value_eq: "lower_hex a \<Longrightarrow> lower_hex b \<Longrightarrow> hex_value a = hex_value b \<longleftrightarrow> a = b"
proof
  assume "lower_hex a" "lower_hex b" "hex_value a = hex_value b"
  then have "(of_char a :: nat) = of_char b"
    by (auto simp: lower_hex_def Let_def simp del: of_char_eq_iff split: if_splits)
  then show "a = b" by simp
qed simp

lemma hex_value_bound: "hex_value a = Some x \<Longrightarrow> x < 16"
  by (auto simp: Let_def split: if_splits)

lemma two_digits: "y < 16 \<Longrightarrow> w < 16 \<Longrightarrow> 16 * x + y = 16 * z + w \<longleftrightarrow> x = z \<and> y = (w :: nat)"
proof
  assume "y < 16" "w < 16" "16 * x + y = 16 * z + w"
  then have "(16 * x + y) div 16 = (16 * z + w) div 16" "(16 * x + y) mod 16 = (16 * z + w) mod 16"
    by simp_all
  then show "x = z \<and> y = w" using \<open>y < 16\<close> \<open>w < 16\<close> by simp
qed simp

lemma hex_decode_lower:
  assumes "list_all lower_hex xs" "list_all lower_hex ys" "length xs = length ys" "even (length xs)"
  shows "length (hex_decode xs) = length (hex_decode ys) \<and> (hex_decode xs = hex_decode ys \<longleftrightarrow> xs = ys)"
  using assms
proof (induction xs arbitrary: ys rule: hex_decode.induct)
  case (1 a b rest)
  then obtain c d rest' where ys: "ys = c # d # rest'"
    by (auto simp: length_Suc_conv Suc_length_conv)
  obtain x y z w where vals: "hex_value a = Some x" "hex_value b = Some y" "hex_value c = Some z"
      "hex_value d = Some w"
    using 1(2,3) ys lower_hex_some by (auto simp del: hex_value.simps) (metis)
  have "16 * x + y = 16 * z + w \<longleftrightarrow> x = z \<and> y = w"
    using vals(2,4) hex_value_bound by (intro two_digits) auto
  moreover have "x = z \<longleftrightarrow> a = c" "y = w \<longleftrightarrow> b = d"
    using hex_value_eq[of a c] hex_value_eq[of b d] 1(2,3) ys vals by (auto simp del: hex_value.simps)
  ultimately show ?case using 1 ys vals by (auto simp del: hex_value.simps)
qed (auto simp: length_Suc_conv)

lemma sameHex_iff: "is_hex64 expected \<Longrightarrow> sameHex expected actual = Inr (actual = expected)"
  using hex_decode_lower[of expected actual] by (auto simp: sameHex_def is_hex64_def)

end
