(* ===== verification/Payments.thy ===== *)
theory Payments
  imports Pass_Availability Razorpay_Gateway
begin

text \<open>
  Event pass purchase (\<open>modules/payments/payments.service.ts\<close>, \<open>payment.mapper.ts\<close>). Each database
  transaction of the source is one \<open>transaction\<close>; the calls of the gateway and the notifications
  stand between them, as in the code. A row that was loaded before (an ORM instance) is passed as
  a value, so an update of a stale instance writes what the code would write.
\<close>

section \<open>Small helpers\<close>

definition BOOKING_CODE_ALPHABET :: string where
  "BOOKING_CODE_ALPHABET = ''ABCDEFGHJKMNPQRSTUVWXYZ23456789''"

fun random_chars :: "string \<Rightarrow> nat \<Rightarrow> string op" where
  "random_chars alphabet 0 = ret []"
| "random_chars alphabet (Suc n) =
    andThen (randomInt (length alphabet)) (\<lambda>i.
    andThen (random_chars alphabet n) (\<lambda>rest. ret (alphabet ! i # rest)))"

definition bookingCode :: "string op" where
  "bookingCode = andThen (random_chars BOOKING_CODE_ALPHABET 8) (\<lambda>code. ret (''GP-'' @ code))"

lemma leaves_bookingCode [leaves_rules]: "(\<And>n s. v (s\<lparr>drawn := n\<rparr>) = v s) \<Longrightarrow> leaves v bookingCode"
proof -
  assume v: "\<And>n s. v (s\<lparr>drawn := n\<rparr>) = v s"
  have "leaves v (random_chars alphabet n)" for alphabet n
    by (induction n) (auto intro!: leaves_rules simp: v)
  then show ?thesis unfolding bookingCode_def by (intro leaves_rules)
qed

text \<open>Truthiness of a nullable text.\<close>

definition truthy :: "string option \<Rightarrow> bool" where
  "truthy v \<longleftrightarrow> v \<noteq> None \<and> v \<noteq> Some []"

definition errorText :: "string option \<Rightarrow> nat \<Rightarrow> string option" where
  "errorText value limit = (if truthy value then map_option (take limit) value else None)"

definition requireGateway :: "gateway option \<Rightarrow> gateway op" where
  "requireGateway gw = from_option gw (App PAYMENTS_UNAVAILABLE)"

text \<open>A gateway call: its number is the length of the log, and it is logged.\<close>

definition gateway_call :: "gateway_call \<Rightarrow> (nat \<Rightarrow> failure + 'a) \<Rightarrow> 'a op" where
  "gateway_call c f s = (f (length (gateway_log s)), s\<lparr>gateway_log := gateway_log s @ [c]\<rparr>)"

lemma leaves_gateway_call [leaves_rules]:
  "(\<And>x s. v (s\<lparr>gateway_log := x\<rparr>) = v s) \<Longrightarrow> leaves v (gateway_call c f)"
  by (simp add: leaves_def gateway_call_def)

section \<open>Views\<close>

record order_dto =
  od_order :: order
  od_event :: event
  od_lastPaymentError :: "(string option \<times> string option) option"
  od_bookingId :: "uuid option"

text \<open>The newest failed payment of an order (\<open>ORDER BY createdAt DESC\<close>).\<close>

definition last_failed :: "uuid \<Rightarrow> db \<Rightarrow> payment option" where
  "last_failed orderId s =
    (case sort_desc p_createdAt (rows_where payments_table (\<lambda>p. p_orderId p = orderId \<and> p_status p = P_failed) s) of
       [] \<Rightarrow> None
     | p # _ \<Rightarrow> Some p)"

definition booking_of_order :: "uuid \<Rightarrow> db \<Rightarrow> event_booking option" where
  "booking_of_order orderId s = find_row bookings_table (\<lambda>b. b_orderId b = orderId) s"

text \<open>An order whose event was not loaded makes the mapper throw a plain error.\<close>

definition toOrderDto :: "order \<Rightarrow> event option \<Rightarrow> payment option \<Rightarrow> uuid option \<Rightarrow> failure + order_dto" where
  "toOrderDto q e lastFailed bookingId =
    (case e of
       None \<Rightarrow> Inl Unexpected_error
     | Some e \<Rightarrow> Inr \<lparr>od_order = q, od_event = e,
         od_lastPaymentError = map_option (\<lambda>p. (p_errorCode p, p_errorReason p)) lastFailed,
         od_bookingId = bookingId\<rparr>)"

definition orderView :: "order \<Rightarrow> order_dto op" where
  "orderView q =
    andThen (gets (by_key events_table (o_eventId q))) (\<lambda>e.
    andThen (gets (last_failed (o_id q))) (\<lambda>lastFailed.
    andThen (gets (booking_of_order (o_id q))) (\<lambda>b.
    from_sum (toOrderDto q e lastFailed (map_option b_id b)))))"

type_synonym booking_dto = "event_booking \<times> event"

definition toBookingDto :: "event_booking \<Rightarrow> event option \<Rightarrow> failure + booking_dto" where
  "toBookingDto b e = (case e of None \<Rightarrow> Inl Unexpected_error | Some e \<Rightarrow> Inr (b, e))"

definition bookingView :: "uuid \<Rightarrow> booking_dto op" where
  "bookingView bookingId =
    andThen (gets (by_key bookings_table bookingId)) (\<lambda>b.
    andThen (from_option b (App NOT_FOUND)) (\<lambda>b.
    andThen (gets (by_key events_table (b_eventId b))) (\<lambda>e.
    from_sum (toBookingDto b e))))"

section \<open>Notifications of bookings\<close>

definition notifyBooking :: "env \<Rightarrow> event_booking \<Rightarrow> booking_notification_kind \<Rightarrow> unit op" where
  "notifyBooking env b kind = notify env
    \<lparr>ni_userId = b_userId b, ni_type = Booking_notice, ni_actorUserId = None, ni_matchId = None,
      ni_interestId = None, ni_eventId = Some (b_eventId b), ni_bookingId = Some (b_id b),
      ni_data = no_data\<lparr>nd_bookingKind := Some kind\<rparr>\<rparr>"

section \<open>Refunds\<close>

primrec refundStatusOf :: "remote_refund_status \<Rightarrow> refund_status" where
  "refundStatusOf Zr_processed = Rf_processed"
| "refundStatusOf Zr_failed = Rf_failed"
| "refundStatusOf Zr_pending = Rf_pending"

text \<open>\<open>value ?? other\<close>\<close>

definition or_else :: "'a option \<Rightarrow> 'a option \<Rightarrow> 'a option" where
  "or_else v other = (case v of None \<Rightarrow> other | Some x \<Rightarrow> Some x)"

text \<open>Records a refund result on the loaded payment and on its booking.\<close>

definition applyRefund ::
    "payment \<Rightarrow> string option \<Rightarrow> int \<Rightarrow> refund_status \<Rightarrow> event_booking option op" where
  "applyRefund p refundId amount status =
    andThen now (\<lambda>t.
    andThen (save payments_table
      ([setting p_refundStatus p_refundStatus_update status,
        setting p_razorpayRefundId p_razorpayRefundId_update (or_else refundId (p_razorpayRefundId p))] @
       (if status = Rf_processed
        then [setting p_status p_status_update P_refunded,
              setting p_amountRefundedPaise p_amountRefundedPaise_update (min (p_amountPaise p) amount),
              setting p_refundedAt p_refundedAt_update (or_else (p_refundedAt p) (Some t))]
        else [])) p) (\<lambda>_.
    andThen (gets (find_row bookings_table (\<lambda>b. b_paymentId b = p_id p))) (\<lambda>booking.
    case booking of
      None \<Rightarrow> ret None
    | Some b \<Rightarrow>
        andThen (save bookings_table [setting b_refundStatus b_refundStatus_update status] b)
          (\<lambda>b'. ret (Some b')))))"

definition notify_refunded :: "env \<Rightarrow> event_booking option \<Rightarrow> booking_notification_kind \<Rightarrow> unit op" where
  "notify_refunded env booking kind =
    (case booking of None \<Rightarrow> ret () | Some b \<Rightarrow> notifyBooking env b kind)"

text \<open>Calls the refund API for the remaining amount. Failures are recorded, not thrown.\<close>

definition startRefund :: "env \<Rightarrow> gateway option \<Rightarrow> payment \<Rightarrow> event_booking option \<Rightarrow> unit op" where
  "startRefund env gw p booking =
    (let amount = p_amountPaise p - p_amountRefundedPaise p;
         receipt = (case booking of None \<Rightarrow> p_id p | Some b \<Rightarrow> b_id b)
     in tryCatch
      (andThen (requireGateway gw) (\<lambda>g.
       andThen (gateway_call (Call_refund (p_razorpayPaymentId p) amount receipt)
         (\<lambda>n. gw_refundPayment g n (p_razorpayPaymentId p) amount receipt)) (\<lambda>refund.
       andThen (applyRefund p (Some (zr_id refund)) (zr_amount refund) (refundStatusOf (zr_status refund)))
         (\<lambda>updated.
       doWhen (zr_status refund = Zr_processed) (notify_refunded env updated Bk_refund_processed)))))
      (\<lambda>_. andThen (applyRefund p None 0 Rf_failed) (\<lambda>updated.
            notify_refunded env updated Bk_refund_failed)))"

definition onRefundWebhook :: "env \<Rightarrow> remote_refund \<Rightarrow> unit op" where
  "onRefundWebhook env refund =
    andThen (gets (find_row payments_table (\<lambda>p. p_razorpayPaymentId p = zr_payment_id refund))) (\<lambda>found.
    case found of
      None \<Rightarrow> ret ()
    | Some p \<Rightarrow>
        let status = refundStatusOf (zr_status refund)
        in if p_refundStatus p = Rf_processed \<or> p_refundStatus p = Rf_failed \<and> status = Rf_pending
           then ret ()
           else andThen (applyRefund p (Some (zr_id refund)) (zr_amount refund) status) (\<lambda>booking.
             andThen (doWhen (status = Rf_processed) (notify_refunded env booking Bk_refund_processed)) (\<lambda>_.
             doWhen (status = Rf_failed) (notify_refunded env booking Bk_refund_failed))))"

section \<open>Finalizing a payment\<close>

datatype finalize_outcome = Fin_ignored | Fin_recorded payment | Fin_booked event_booking payment bool
  | Fin_already event_booking | Fin_refund_duplicate payment

text \<open>Authorized but not captured: capture it, for the order's amount, or re-read it.\<close>

definition captured_state :: "gateway option \<Rightarrow> order \<Rightarrow> bool \<Rightarrow> remote_payment \<Rightarrow> remote_payment op" where
  "captured_state gw q matchesOrder remote =
    (if zp_status remote = P_authorized \<and> matchesOrder
     then tryCatch
       (andThen (requireGateway gw) (\<lambda>g.
        gateway_call (Call_capture (zp_id remote) (o_amountPaise q) ''INR'')
          (\<lambda>n. gw_capturePayment g n (zp_id remote) (o_amountPaise q) ''INR'')))
       (\<lambda>_. andThen (requireGateway gw) (\<lambda>g.
        gateway_call (Call_fetch_payment (zp_id remote)) (\<lambda>n. gw_fetchPayment g n (zp_id remote))))
     else ret remote)"

text \<open>
  The payment row after a report of the gateway: created, or updated unless the report would move
  a captured payment backwards. Returns the instance.
\<close>

definition record_payment :: "uuid \<Rightarrow> remote_payment \<Rightarrow> payment op" where
  "record_payment orderId z =
    andThen now (\<lambda>t.
    andThen (gets (find_row payments_table (\<lambda>p. p_razorpayPaymentId p = zp_id z))) (\<lambda>found.
    case found of
      Some row \<Rightarrow>
        if p_status row = P_captured \<and> (zp_status z = P_authorized \<or> zp_status z = P_failed)
        then ret row
        else save payments_table
          [setting p_status p_status_update (zp_status z),
           setting p_amountPaise p_amountPaise_update (zp_amount z),
           setting p_currency p_currency_update (zp_currency z),
           setting p_method p_method_update (errorText (zp_method z) 20),
           setting p_errorCode p_errorCode_update (errorText (zp_error_code z) 60),
           setting p_errorReason p_errorReason_update (errorText (zp_error_description z) 255),
           setting p_capturedAt p_capturedAt_update
             (if zp_status z = P_captured then or_else (p_capturedAt row) (Some t) else p_capturedAt row)]
          row
    | None \<Rightarrow>
        andThen fresh_uuid (\<lambda>i.
        let row = \<lparr>p_id = i, p_orderId = orderId, p_razorpayPaymentId = zp_id z, p_status = zp_status z,
              p_amountPaise = zp_amount z, p_currency = zp_currency z,
              p_method = errorText (zp_method z) 20, p_errorCode = errorText (zp_error_code z) 60,
              p_errorReason = errorText (zp_error_description z) 255,
              p_capturedAt = (if zp_status z = P_captured then Some t else None),
              p_refundStatus = Rf_none, p_razorpayRefundId = None, p_amountRefundedPaise = 0,
              p_refundedAt = None, p_createdAt = t\<rparr>
        in andThen (insert_row payments_table row) (\<lambda>_. ret row))))"

text \<open>Can the order be honoured? A live reservation always can; a lapsed one needs free seats.\<close>

definition cancel_reason :: "event \<Rightarrow> order \<Rightarrow> db \<Rightarrow> booking_cancel_reason option" where
  "cancel_reason e q s =
    (if ev_status e \<noteq> E_published \<or> ev_endsAt e \<le> clock s then Some Event_unavailable
     else if o_status q \<noteq> O_created \<or> o_expiresAt q \<le> clock s
       then (case ev_passCapacity e of
           None \<Rightarrow> None
         | Some capacity \<Rightarrow>
             let (sold, reserved) = seatCounts (ev_id e) (clock s) (Some (o_id q)) s
             in if capacity < sold + reserved + o_quantity q then Some Sold_out else None)
     else None)"

definition new_booking ::
    "uuid \<Rightarrow> string \<Rightarrow> order \<Rightarrow> uuid \<Rightarrow> booking_cancel_reason option \<Rightarrow> instant \<Rightarrow> event_booking" where
  "new_booking i code q paymentId reason t =
    \<lparr>b_id = i, b_code = code, b_orderId = o_id q, b_paymentId = paymentId,
      b_userId = o_userId q, b_eventId = o_eventId q, b_quantity = o_quantity q,
      b_amountPaise = o_amountPaise q,
      b_status = (if reason = None then B_confirmed else B_cancelled),
      b_refundStatus = (if reason = None then Rf_none else Rf_pending),
      b_cancelReason = reason, b_cancelledAt = (if reason = None then None else Some t),
      b_createdAt = t\<rparr>"

definition book_order :: "event \<Rightarrow> order \<Rightarrow> payment \<Rightarrow> finalize_outcome op" where
  "book_order e q row =
    andThen now (\<lambda>t.
    andThen (gets (cancel_reason e q)) (\<lambda>reason.
    andThen bookingCode (\<lambda>code.
    andThen fresh_uuid (\<lambda>i.
    let booking = new_booking i code q (p_id row) reason t
    in andThen (insert_row bookings_table booking) (\<lambda>_.
       andThen (if reason = None then ret row
         else save payments_table [setting p_refundStatus p_refundStatus_update Rf_pending] row) (\<lambda>row'.
       andThen (save orders_table
         [setting o_status o_status_update O_paid, setting o_paidAt o_paidAt_update (Some t)] q) (\<lambda>_.
       ret (Fin_booked booking row' (reason \<noteq> None)))))))))"

text \<open>What a recorded payment does to its order.\<close>

definition settle_payment :: "event \<Rightarrow> order \<Rightarrow> bool \<Rightarrow> payment \<Rightarrow> finalize_outcome op" where
  "settle_payment event locked matchesOrder row =
    (if p_status row \<noteq> P_captured then ret (Fin_recorded row)
     else andThen (gets (booking_of_order (o_id locked))) (\<lambda>existing.
     case existing of
       Some b \<Rightarrow>
         if b_paymentId b = p_id row then ret (Fin_already b)
         else if p_refundStatus row = Rf_none
         then andThen (save payments_table [setting p_refundStatus p_refundStatus_update Rf_pending] row)
           (\<lambda>row'. ret (Fin_refund_duplicate row'))
         else ret (Fin_already b)
     | None \<Rightarrow>
         if \<not> matchesOrder
         then andThen (if p_refundStatus row = Rf_none
             then save payments_table [setting p_refundStatus p_refundStatus_update Rf_pending] row
             else ret row)
           (\<lambda>row'. ret (Fin_refund_duplicate row'))
         else book_order event locked row))"

text \<open>The transaction: the event and the order are locked, in this order, and re-read.\<close>

definition finalize_tx :: "order \<Rightarrow> bool \<Rightarrow> remote_payment \<Rightarrow> finalize_outcome op" where
  "finalize_tx q matchesOrder z = transaction
    (andThen (gets (by_key events_table (o_eventId q))) (\<lambda>event.
     andThen (gets (by_key orders_table (o_id q))) (\<lambda>locked.
     case event of
       None \<Rightarrow> ret Fin_ignored
     | Some event \<Rightarrow>
     (case locked of
       None \<Rightarrow> ret Fin_ignored
     | Some locked \<Rightarrow>
         andThen (record_payment (o_id locked) z) (\<lambda>row.
         settle_payment event locked matchesOrder row)))))"

text \<open>After the commit: automatic refunds and notifications.\<close>

definition after_finalize :: "env \<Rightarrow> gateway option \<Rightarrow> finalize_outcome \<Rightarrow> unit op" where
  "after_finalize env gw outcome =
    (case outcome of
       Fin_booked b p refund \<Rightarrow>
         if refund
         then andThen (notifyBooking env b Bk_cancelled) (\<lambda>_. startRefund env gw p (Some b))
         else notifyBooking env b Bk_confirmed
     | Fin_refund_duplicate p \<Rightarrow> startRefund env gw p None
     | _ \<Rightarrow> ret ())"

definition matches_order :: "order \<Rightarrow> remote_payment \<Rightarrow> bool" where
  "matches_order q z \<longleftrightarrow> zp_amount z = o_amountPaise q \<and> zp_currency z = ''INR''"

definition finalize :: "env \<Rightarrow> gateway option \<Rightarrow> remote_payment \<Rightarrow> finalize_outcome op" where
  "finalize env gw remote =
    (if \<not> truthy (zp_order_id remote) then ret Fin_ignored
     else andThen (gets (find_row orders_table (\<lambda>q. o_razorpayOrderId q = zp_order_id remote))) (\<lambda>found.
     case found of
       None \<Rightarrow> ret Fin_ignored
     | Some q \<Rightarrow>
         andThen (captured_state gw q (matches_order q remote) remote) (\<lambda>payment.
         andThen (finalize_tx q (matches_order q remote) payment) (\<lambda>outcome.
         andThen (after_finalize env gw outcome) (\<lambda>_. ret outcome)))))"

section \<open>Creating an order\<close>

text \<open>Attaches a Razorpay order to a local order, or marks the local order failed.\<close>

definition attachRazorpayOrder :: "gateway option \<Rightarrow> order \<Rightarrow> order op" where
  "attachRazorpayOrder gw q =
    andThen (requireGateway gw) (\<lambda>g.
    tryCatch
      (andThen (gateway_call (Call_create_order (o_amountPaise q) ''INR'' (o_id q))
         (\<lambda>n. gw_createOrder g n (o_amountPaise q) ''INR'' (o_id q))) (\<lambda>remote.
       andThen (ensure (ro_amount remote = o_amountPaise q \<and> ro_currency remote = ''INR'')
         (App PAYMENT_PROVIDER_ERROR)) (\<lambda>_.
       save orders_table [setting o_razorpayOrderId o_razorpayOrderId_update (Some (ro_id remote))] q)))
      (\<lambda>err. andThen (save orders_table [setting o_status o_status_update O_failed] q) (\<lambda>_. throw err)))"

text \<open>The price always comes from the event, never from the client.\<close>

definition new_order :: "uuid \<Rightarrow> uuid \<Rightarrow> uuid \<Rightarrow> uuid \<Rightarrow> int \<Rightarrow> int \<Rightarrow> instant \<Rightarrow> order" where
  "new_order i userId eventId key quantity price t =
    \<lparr>o_id = i, o_userId = userId, o_eventId = eventId, o_idempotencyKey = key,
      o_quantity = quantity, o_unitPricePaise = price, o_amountPaise = price * quantity,
      o_status = O_created, o_razorpayOrderId = None,
      o_expiresAt = t + ORDER_EXPIRY_MINUTES * MINUTE_MS, o_paidAt = None, o_createdAt = t\<rparr>"

text \<open>The transaction of a new order, under the lock of the event row.\<close>

definition create_order_tx :: "uuid \<Rightarrow> uuid \<Rightarrow> int \<Rightarrow> uuid \<Rightarrow> (order \<times> event) op" where
  "create_order_tx userId eventId quantity key = transaction
    (andThen (gets (by_key events_table eventId)) (\<lambda>found.
     andThen (from_option found (App NOT_FOUND)) (\<lambda>locked.
     andThen (ensure (ev_status locked = E_published) (App NOT_FOUND)) (\<lambda>_.
     andThen now (\<lambda>t.
     andThen (ensure (passesOnSale locked t) (App PASSES_NOT_ON_SALE)) (\<lambda>_.
     andThen (from_option (ev_passPricePaise locked) (App PASSES_NOT_ON_SALE)) (\<lambda>price.
     andThen (update_rows orders_table
       (\<lambda>q. o_userId q = userId \<and> o_eventId q = ev_id locked \<and> o_status q = O_created)
       (\<lambda>q. q\<lparr>o_status := O_expired\<rparr>)) (\<lambda>_.
     andThen (gets (seatCounts (ev_id locked) t None)) (\<lambda>(sold, reserved).
     andThen (ensure
       (case ev_passCapacity locked of None \<Rightarrow> True | Some capacity \<Rightarrow> sold + reserved + quantity \<le> capacity)
       (App SOLD_OUT)) (\<lambda>_.
     andThen fresh_uuid (\<lambda>i.
     let row = new_order i userId (ev_id locked) key quantity price t
     in andThen (insert_row orders_table row) (\<lambda>_. ret (row, locked)))))))))))))"

definition order_by_key :: "uuid \<Rightarrow> uuid \<Rightarrow> db \<Rightarrow> order option" where
  "order_by_key userId key s =
    find_row orders_table (\<lambda>q. o_userId q = userId \<and> o_idempotencyKey q = key) s"

definition event_of_order :: "order option \<Rightarrow> event option op" where
  "event_of_order q = (case q of None \<Rightarrow> ret None | Some q \<Rightarrow> gets (by_key events_table (o_eventId q)))"

text \<open>The order and event a request is about, and whether it was created now.\<close>

definition find_or_create_order ::
    "uuid \<Rightarrow> uuid \<Rightarrow> int \<Rightarrow> uuid \<Rightarrow> (order option \<times> event option \<times> bool) op" where
  "find_or_create_order userId eventId quantity key =
    andThen (gets (order_by_key userId key)) (\<lambda>existing.
    case existing of
      Some q \<Rightarrow>
        andThen (ensure (o_eventId q = eventId \<and> o_quantity q = quantity) (App IDEMPOTENCY_CONFLICT)) (\<lambda>_.
        andThen (event_of_order (Some q)) (\<lambda>e. ret (Some q, e, False)))
    | None \<Rightarrow> tryCatch
        (andThen (create_order_tx userId eventId quantity key) (\<lambda>(q, e). ret (Some q, Some e, True)))
        (\<lambda>err. if err \<noteq> Unique_violation then throw err
          else andThen (gets (order_by_key userId key)) (\<lambda>q.
               andThen (event_of_order q) (\<lambda>e. ret (q, e, False)))))"

record created_order =
  co_created :: bool
  co_order :: order_dto
  co_keyId :: string
  co_razorpayOrderId :: string
  co_amountPaise :: int

definition createOrder ::
    "gateway option \<Rightarrow> uuid \<Rightarrow> uuid \<Rightarrow> int \<Rightarrow> uuid \<Rightarrow> created_order op" where
  "createOrder gw userId eventId quantity key =
    andThen (requireGateway gw) (\<lambda>g.
    andThen (find_or_create_order userId eventId quantity key) (\<lambda>(found, event, created).
    case (found, event) of
      (Some q, Some e) \<Rightarrow>
        andThen (if o_status q = O_created \<and> \<not> truthy (o_razorpayOrderId q)
          then attachRazorpayOrder gw q else ret q) (\<lambda>q.
        andThen (ensure (o_status q \<noteq> O_failed) (App PAYMENT_PROVIDER_ERROR)) (\<lambda>_.
        andThen (ensure (truthy (o_razorpayOrderId q)) (App ORDER_EXPIRED)) (\<lambda>_.
        andThen (gets (last_failed (o_id q))) (\<lambda>lastFailed.
        andThen (gets (booking_of_order (o_id q))) (\<lambda>b.
        andThen (from_sum (toOrderDto q (Some e) lastFailed (map_option b_id b))) (\<lambda>dto.
        ret \<lparr>co_created = created, co_order = dto, co_keyId = gw_keyId g,
          co_razorpayOrderId = the (o_razorpayOrderId q), co_amountPaise = o_amountPaise q\<rparr>))))))
    | _ \<Rightarrow> throw (App NOT_FOUND)))"

section \<open>Reading orders and bookings\<close>

definition getOrder :: "uuid \<Rightarrow> uuid \<Rightarrow> order_dto op" where
  "getOrder userId orderId =
    andThen (gets (find_row orders_table (\<lambda>q. o_id q = orderId \<and> o_userId q = userId))) (\<lambda>q.
    andThen (from_option q (App NOT_FOUND)) orderView)"

definition getBooking :: "uuid \<Rightarrow> uuid \<Rightarrow> booking_dto op" where
  "getBooking userId bookingId =
    andThen (gets (find_row bookings_table (\<lambda>b. b_id b = bookingId \<and> b_userId b = userId))) (\<lambda>b.
    andThen (from_option b (App NOT_FOUND)) (\<lambda>b. bookingView (b_id b)))"

definition booking_stamp :: "event_booking \<Rightarrow> cursor" where
  "booking_stamp b = (b_createdAt b, b_id b)"

definition listBookings ::
    "uuid \<Rightarrow> cursor option \<Rightarrow> nat option \<Rightarrow> db \<Rightarrow> event_booking list \<times> cursor option" where
  "listBookings userId c limit s =
    page_of booking_stamp c
      (min (case limit of None \<Rightarrow> BOOKINGS_PAGE_SIZE | Some l \<Rightarrow> l) BOOKINGS_PAGE_SIZE)
      (rows_where bookings_table (\<lambda>b. b_userId b = userId) s)"

section \<open>Verifying a checkout\<close>

definition verify ::
    "env \<Rightarrow> gateway option \<Rightarrow> uuid \<Rightarrow> uuid \<Rightarrow> string \<Rightarrow> string \<Rightarrow> string \<Rightarrow>
      (order_dto \<times> booking_dto option) op" where
  "verify env gw userId orderId razorpayOrderId razorpayPaymentId razorpaySignature =
    andThen (requireGateway gw) (\<lambda>g.
    andThen (gets (find_row orders_table (\<lambda>q. o_id q = orderId \<and> o_userId q = userId))) (\<lambda>found.
    andThen (from_option found (App NOT_FOUND)) (\<lambda>q.
    andThen (ensure (truthy (o_razorpayOrderId q) \<and> o_razorpayOrderId q = Some razorpayOrderId)
      (App PAYMENT_VERIFICATION_FAILED)) (\<lambda>_.
    andThen (from_sum (gw_verifyPaymentSignature g razorpayOrderId razorpayPaymentId razorpaySignature))
      (\<lambda>signed.
    andThen (ensure signed (App PAYMENT_VERIFICATION_FAILED)) (\<lambda>_.
    andThen (gateway_call (Call_fetch_payment razorpayPaymentId)
      (\<lambda>n. gw_fetchPayment g n razorpayPaymentId)) (\<lambda>remote.
    andThen (ensure (zp_order_id remote = o_razorpayOrderId q) (App PAYMENT_VERIFICATION_FAILED)) (\<lambda>_.
    andThen (finalize env gw remote) (\<lambda>_.
    andThen (gets (by_key orders_table (o_id q))) (\<lambda>reloaded.
    andThen (from_option reloaded Unexpected_error) (\<lambda>q.
    andThen (gets (booking_of_order (o_id q))) (\<lambda>b.
    andThen (orderView q) (\<lambda>dto.
    case b of
      None \<Rightarrow> ret (dto, None)
    | Some b \<Rightarrow> andThen (bookingView (b_id b)) (\<lambda>v. ret (dto, Some v)))))))))))))))"

section \<open>Webhooks\<close>

definition WEBHOOK_PAYMENT_EVENTS :: "string list" where
  "WEBHOOK_PAYMENT_EVENTS =
    [''payment.authorized'', ''payment.captured'', ''payment.failed'', ''order.paid'']"

definition WEBHOOK_REFUND_EVENTS :: "string list" where
  "WEBHOOK_REFUND_EVENTS = [''refund.created'', ''refund.processed'', ''refund.failed'']"

text \<open>The fields the handler reads from the parsed body; \<open>JSON.parse\<close> is a parameter.\<close>

record webhook_body =
  wb_event :: "string option"
  wb_payment :: "remote_payment option"
  wb_refund :: "remote_refund option"

definition webhook_event :: "string \<Rightarrow> db \<Rightarrow> payment_webhook_event option" where
  "webhook_event i s = find (\<lambda>w. w_eventId w = i) (t_webhooks s)"

text \<open>\<open>findOrCreate\<close> on the primary key; the id columns hold at most 40 characters.\<close>

definition find_or_create_webhook :: "payment_webhook_event \<Rightarrow> payment_webhook_event op" where
  "find_or_create_webhook w =
    andThen (gets (webhook_event (w_eventId w))) (\<lambda>found.
    case found of
      Some old \<Rightarrow> ret old
    | None \<Rightarrow>
        andThen (ensure ((\<forall>x \<in> set_option (w_razorpayPaymentId w). length x \<le> 40) \<and>
          (\<forall>x \<in> set_option (w_razorpayOrderId w). length x \<le> 40)) Check_violation) (\<lambda>_.
        andThen (modify (\<lambda>s. s\<lparr>t_webhooks := t_webhooks s @ [w]\<rparr>)) (\<lambda>_. ret w)))"

definition mark_webhook_processed :: "string \<Rightarrow> unit op" where
  "mark_webhook_processed i =
    andThen now (\<lambda>t. modify (\<lambda>s. s\<lparr>t_webhooks :=
      update_where (\<lambda>w. w_eventId w = i) (\<lambda>w. w\<lparr>w_processedAt := Some t\<rparr>) (t_webhooks s)\<rparr>))"

definition dispatch_webhook :: "env \<Rightarrow> gateway option \<Rightarrow> string \<Rightarrow> webhook_body \<Rightarrow> unit op" where
  "dispatch_webhook env gw event body =
    (case (if List.member WEBHOOK_PAYMENT_EVENTS event then wb_payment body else None) of
       Some payment \<Rightarrow> andThen (finalize env gw payment) (\<lambda>_. ret ())
     | None \<Rightarrow>
       (case (if List.member WEBHOOK_REFUND_EVENTS event then wb_refund body else None) of
          Some refund \<Rightarrow> onRefundWebhook env refund
        | None \<Rightarrow> ret ()))"

text \<open>Returns whether the event is a duplicate. It is marked processed only after success.\<close>

definition handleWebhook ::
    "env \<Rightarrow> gateway option \<Rightarrow> (string \<Rightarrow> webhook_body option) \<Rightarrow> string \<Rightarrow> string option \<Rightarrow>
      string option \<Rightarrow> bool op" where
  "handleWebhook env gw parse rawBody signature eventIdHeader =
    andThen (requireGateway gw) (\<lambda>g.
    andThen (from_sum (gw_verifyWebhookSignature g rawBody signature)) (\<lambda>signed.
    andThen (ensure signed (App UNAUTHENTICATED)) (\<lambda>_.
    andThen (from_option (parse rawBody) (App VALIDATION_ERROR)) (\<lambda>body.
    andThen now (\<lambda>t.
    let event = (case wb_event body of None \<Rightarrow> ''unknown'' | Some e \<Rightarrow> take 60 e);
        eventId = take 64 (case eventIdHeader of None \<Rightarrow> sha256Hex env rawBody | Some h \<Rightarrow> h)
    in andThen (find_or_create_webhook
         \<lparr>w_eventId = eventId, w_event = event,
           w_razorpayPaymentId =
             or_else (map_option zp_id (wb_payment body)) (map_option zr_payment_id (wb_refund body)),
           w_razorpayOrderId = Option.bind (wb_payment body) zp_order_id,
           w_receivedAt = t, w_processedAt = None\<rparr>) (\<lambda>record.
       if w_processedAt record \<noteq> None then ret True
       else andThen (dispatch_webhook env gw event body) (\<lambda>_.
            andThen (mark_webhook_processed eventId) (\<lambda>_. ret False))))))))"

section \<open>Refunds by an administrator\<close>

definition refund_booking_tx ::
    "env \<Rightarrow> uuid \<Rightarrow> string \<Rightarrow> uuid \<Rightarrow> string \<Rightarrow> (event_booking \<times> payment \<times> bool) op" where
  "refund_booking_tx env adminId ip bookingId reason = transaction
    (andThen (gets (by_key bookings_table bookingId)) (\<lambda>found.
     andThen (from_option found (App NOT_FOUND)) (\<lambda>b.
     andThen (ensure (b_refundStatus b \<noteq> Rf_pending \<and> b_refundStatus b \<noteq> Rf_processed) (App CONFLICT)) (\<lambda>_.
     andThen (gets (by_key payments_table (b_paymentId b))) (\<lambda>found.
     andThen (from_option found (App CONFLICT)) (\<lambda>p.
     andThen (ensure (p_status p = P_captured) (App CONFLICT)) (\<lambda>_.
     andThen now (\<lambda>t.
     let retry = (b_refundStatus b = Rf_failed)
     in andThen (save bookings_table
          [setting b_status b_status_update B_cancelled,
           setting b_cancelReason b_cancelReason_update (or_else (b_cancelReason b) (Some Admin_refund)),
           setting b_cancelledAt b_cancelledAt_update (or_else (b_cancelledAt b) (Some t)),
           setting b_refundStatus b_refundStatus_update Rf_pending] b) (\<lambda>b'.
        andThen (save payments_table [setting p_refundStatus p_refundStatus_update Rf_pending] p) (\<lambda>p'.
        andThen (recordAdminAction env adminId
          (if retry then ''booking.refund_retry'' else ''booking.refund'') Target_booking (Some (b_id b))
          [(''reason'', Meta_text reason),
           (''amountPaise'', Meta_num (p_amountPaise p - p_amountRefundedPaise p)),
           (''orderId'', Meta_id (b_orderId b)),
           (''razorpayPaymentId'', Meta_text (p_razorpayPaymentId p))] ip) (\<lambda>_.
        ret (b', p', retry))))))))))))"

definition refundBooking ::
    "env \<Rightarrow> gateway option \<Rightarrow> uuid \<Rightarrow> string \<Rightarrow> uuid \<Rightarrow> string \<Rightarrow> unit op" where
  "refundBooking env gw adminId ip bookingId reason =
    andThen (requireGateway gw) (\<lambda>_.
    andThen (refund_booking_tx env adminId ip bookingId reason) (\<lambda>(b, p, retry).
    andThen (doWhen (\<not> retry) (notifyBooking env b Bk_cancelled)) (\<lambda>_.
    startRefund env gw p (Some b))))"

section \<open>The expiry and reconciliation job\<close>

text \<open>
  Finalizes the payments of a lapsed order; the first error stops it and leaves the order to the
  next run. Returns the bookings made so far and whether it went through.
\<close>

fun reconcile_payments :: "env \<Rightarrow> gateway option \<Rightarrow> remote_payment list \<Rightarrow> nat \<Rightarrow> (nat \<times> bool) op" where
  "reconcile_payments env gw [] n = ret (n, True)"
| "reconcile_payments env gw (p # ps) n =
    andThen (tryCatch (andThen (finalize env gw p) (\<lambda>outcome. ret (Some outcome))) (\<lambda>_. ret None))
      (\<lambda>outcome. case outcome of
         None \<Rightarrow> ret (n, False)
       | Some (Fin_booked _ _ _) \<Rightarrow> reconcile_payments env gw ps (Suc n)
       | Some _ \<Rightarrow> reconcile_payments env gw ps n)"

definition reconcile_order :: "env \<Rightarrow> gateway option \<Rightarrow> order \<Rightarrow> nat \<Rightarrow> (nat \<times> bool) op" where
  "reconcile_order env gw q n =
    (case (o_razorpayOrderId q, gw) of
       (Some r, Some g) \<Rightarrow>
         if r = [] then ret (n, True)
         else andThen (tryCatch
             (andThen (gateway_call (Call_fetch_order_payments r) (\<lambda>k. gw_fetchOrderPayments g k r))
               (\<lambda>ps. ret (Some ps)))
             (\<lambda>_. ret None))
           (\<lambda>ps. case ps of
              None \<Rightarrow> ret (n, False)
            | Some ps \<Rightarrow> reconcile_payments env gw ps n)
     | _ \<Rightarrow> ret (n, True))"

definition expire_order :: "uuid \<Rightarrow> unit op" where
  "expire_order i =
    update_rows orders_table (\<lambda>q. o_id q = i \<and> o_status q = O_created) (\<lambda>q. q\<lparr>o_status := O_expired\<rparr>)"

fun expire_due :: "env \<Rightarrow> gateway option \<Rightarrow> order list \<Rightarrow> nat \<Rightarrow> nat op" where
  "expire_due env gw [] n = ret n"
| "expire_due env gw (q # qs) n =
    andThen (reconcile_order env gw q n) (\<lambda>(n', done).
    andThen (doWhen done (expire_order (o_id q))) (\<lambda>_. expire_due env gw qs n'))"

definition due_orders :: "instant \<Rightarrow> db \<Rightarrow> order list" where
  "due_orders t s =
    take 100 (sort_key o_expiresAt
      (rows_where orders_table (\<lambda>q. o_status q = O_created \<and> o_expiresAt q \<le> t) s))"

text \<open>Returns the expired and the reconciled orders.\<close>

definition expireOrders :: "env \<Rightarrow> gateway option \<Rightarrow> instant \<Rightarrow> (nat \<times> nat) op" where
  "expireOrders env gw t =
    andThen (gets (due_orders t)) (\<lambda>due.
    andThen (expire_due env gw due 0) (\<lambda>reconciled.
    andThen (gets (\<lambda>s. count_where (\<lambda>q. List.member (map o_id due) (o_id q) \<and> o_status q = O_expired)
      (t_orders s))) (\<lambda>expired. ret (expired, reconciled))))"

end
