(* ===== verification/Back_Office.thy ===== *)
theory Back_Office
  imports Schemas_Admin Payments Admin_Users
begin

text \<open>
  What administrators read: orders, bookings and refunds (\<open>modules/admin/payments/admin-payments.service.ts\<close>),
  the audit and safety logs (\<open>modules/admin/log-viewer/admin-logs.service.ts\<close>) and the counts of notifications
  (\<open>modules/admin/notifications/admin-notifications.service.ts\<close>).
\<close>

section \<open>Orders and bookings\<close>

record admin_payment =
  xp_id :: uuid
  xp_razorpayPaymentId :: string
  xp_status :: payment_status
  xp_amountPaise :: int
  xp_method :: "string option"
  xp_errorCode :: "string option"
  xp_errorReason :: "string option"
  xp_refundStatus :: refund_status
  xp_razorpayRefundId :: "string option"
  xp_amountRefundedPaise :: int
  xp_capturedAt :: "instant option"
  xp_createdAt :: instant

definition toAdminPaymentDto :: "payment \<Rightarrow> admin_payment" where
  "toAdminPaymentDto p =
    \<lparr>xp_id = p_id p, xp_razorpayPaymentId = p_razorpayPaymentId p, xp_status = p_status p,
      xp_amountPaise = p_amountPaise p, xp_method = p_method p, xp_errorCode = p_errorCode p,
      xp_errorReason = p_errorReason p, xp_refundStatus = p_refundStatus p,
      xp_razorpayRefundId = p_razorpayRefundId p, xp_amountRefundedPaise = p_amountRefundedPaise p,
      xp_capturedAt = p_capturedAt p, xp_createdAt = p_createdAt p\<rparr>"

definition member_name :: "uuid \<Rightarrow> db \<Rightarrow> string option" where
  "member_name userId s = map_option pf_displayName (profile_of userId s)"

text \<open>The results of all, or the first error.\<close>

fun all_Inr :: "('e + 'a) list \<Rightarrow> 'e + 'a list" where
  "all_Inr [] = Inr []"
| "all_Inr (Inl e # _) = Inl e"
| "all_Inr (Inr x # rs) = map_sum id ((#) x) (all_Inr rs)"

record admin_order_dto =
  xd_order :: order_dto
  xd_user :: "uuid \<times> string option"
  xd_razorpayOrderId :: "string option"
  xd_payments :: "admin_payment list"

text \<open>The payments of an order, newest first; the first failed one is shown as the last error.\<close>

definition payments_of :: "uuid \<Rightarrow> db \<Rightarrow> payment list" where
  "payments_of orderId s = sort_desc p_createdAt (rows_where payments_table (\<lambda>p. p_orderId p = orderId) s)"

definition toAdminOrder :: "db \<Rightarrow> order \<Rightarrow> failure + admin_order_dto" where
  "toAdminOrder s q =
    (let own = payments_of (o_id q) s
     in map_sum id (\<lambda>dto.
          \<lparr>xd_order = dto, xd_user = (o_userId q, member_name (o_userId q) s),
            xd_razorpayOrderId = o_razorpayOrderId q, xd_payments = map toAdminPaymentDto own\<rparr>)
        (toOrderDto q (by_key events_table (o_eventId q) s) (find (\<lambda>p. p_status p = P_failed) own)
          (map_option b_id (booking_of_order (o_id q) s))))"

definition toAdminOrders :: "order list \<Rightarrow> db \<Rightarrow> failure + admin_order_dto list" where
  "toAdminOrders orders s = all_Inr (map (toAdminOrder s) orders)"

record admin_booking_dto =
  xk_booking :: booking_dto
  xk_user :: "uuid \<times> string option"
  xk_orderId :: uuid
  xk_payment :: "admin_payment option"

definition toAdminBooking :: "db \<Rightarrow> event_booking \<Rightarrow> failure + admin_booking_dto" where
  "toAdminBooking s b = map_sum id (\<lambda>dto.
      \<lparr>xk_booking = dto, xk_user = (b_userId b, member_name (b_userId b) s), xk_orderId = b_orderId b,
        xk_payment = map_option toAdminPaymentDto (by_key payments_table (b_paymentId b) s)\<rparr>)
    (toBookingDto b (by_key events_table (b_eventId b) s))"

definition toAdminBookings :: "event_booking list \<Rightarrow> db \<Rightarrow> failure + admin_booking_dto list" where
  "toAdminBookings bookings s = all_Inr (map (toAdminBooking s) bookings)"

definition admin_orders ::
    "cursor option \<Rightarrow> admin_order_query \<Rightarrow> db \<Rightarrow> failure + admin_order_dto list \<times> cursor option" where
  "admin_orders c q s =
    (let (page, after) = page_of (\<lambda>x. (o_createdAt x, o_id x)) c (value_or (xo_limit q) ADMIN_PAGE_SIZE_DEFAULT)
       (rows_where orders_table (\<lambda>x. (case xo_status q of None \<Rightarrow> True | Some st \<Rightarrow> o_status x = st) \<and>
          (case xo_eventId q of None \<Rightarrow> True | Some e \<Rightarrow> o_eventId x = e)) s)
     in map_sum id (\<lambda>items. (items, after)) (toAdminOrders page s))"

definition admin_order :: "uuid \<Rightarrow> db \<Rightarrow> failure + admin_order_dto" where
  "admin_order orderId s =
    (case by_key orders_table orderId s of None \<Rightarrow> Inl (App NOT_FOUND) | Some q \<Rightarrow> toAdminOrder s q)"

definition admin_bookings ::
    "cursor option \<Rightarrow> admin_booking_query \<Rightarrow> db \<Rightarrow> failure + admin_booking_dto list \<times> cursor option" where
  "admin_bookings c q s =
    (let (page, after) = page_of (\<lambda>x. (b_createdAt x, b_id x)) c (value_or (xb_limit q) ADMIN_PAGE_SIZE_DEFAULT)
       (rows_where bookings_table (\<lambda>x. (case xb_status q of None \<Rightarrow> True | Some st \<Rightarrow> b_status x = st) \<and>
          (case xb_refundStatus q of None \<Rightarrow> True | Some st \<Rightarrow> b_refundStatus x = st) \<and>
          (case xb_eventId q of None \<Rightarrow> True | Some e \<Rightarrow> b_eventId x = e)) s)
     in map_sum id (\<lambda>items. (items, after)) (toAdminBookings page s))"

definition admin_booking :: "uuid \<Rightarrow> db \<Rightarrow> failure + admin_booking_dto" where
  "admin_booking bookingId s =
    (case by_key bookings_table bookingId s of None \<Rightarrow> Inl (App NOT_FOUND) | Some b \<Rightarrow> toAdminBooking s b)"

definition admin_refund ::
    "env \<Rightarrow> gateway option \<Rightarrow> admin_actor \<Rightarrow> uuid \<Rightarrow> string \<Rightarrow> admin_booking_dto op" where
  "admin_refund env gw actor bookingId reason =
    andThen (refundBooking env gw (ac_adminId actor) (ac_ip actor) bookingId reason) (\<lambda>_.
    andThen (gets (admin_booking bookingId)) from_sum)"

section \<open>Logs\<close>

primrec target_text :: "audit_target \<Rightarrow> string" where
  "target_text Target_user = ''user''"
| "target_text Target_admin = ''admin''"
| "target_text Target_report = ''report''"
| "target_text Target_event = ''event''"
| "target_text Target_verification = ''verification''"
| "target_text Target_photo = ''photo''"
| "target_text Target_city = ''city''"
| "target_text Target_area = ''area''"
| "target_text Target_sanction = ''sanction''"
| "target_text Target_organizer = ''organizer''"
| "target_text Target_match = ''match''"
| "target_text Target_booking = ''booking''"

text \<open>No IP hash is shown.\<close>

record safety_log_item =
  sv_id :: uuid
  sv_eventType :: safety_event_type
  sv_severity :: safety_severity
  sv_userId :: "uuid option"
  sv_adminId :: "uuid option"
  sv_metadata :: metadata
  sv_createdAt :: instant

definition safety_log_listed :: "safety_log_query \<Rightarrow> safety_log \<Rightarrow> bool" where
  "safety_log_listed q r \<longleftrightarrow>
    (case sg_eventType q of None \<Rightarrow> True | Some t \<Rightarrow> sl_eventType r = t) \<and>
    (case sg_severity q of None \<Rightarrow> True | Some v \<Rightarrow> sl_severity r = v) \<and>
    (case sg_userId q of None \<Rightarrow> True | Some u \<Rightarrow> sl_userId r = Some u)"

definition safetyLogs ::
    "cursor option \<Rightarrow> safety_log_query \<Rightarrow> db \<Rightarrow> safety_log_item list \<times> cursor option" where
  "safetyLogs c q s =
    (let (page, after) = page_of (\<lambda>r. (sl_createdAt r, sl_id r)) c
       (page_limit (sg_limit q) ADMIN_PAGE_SIZE_DEFAULT ADMIN_PAGE_SIZE_MAX)
       (filter (safety_log_listed q) (t_safety_logs s))
     in (map (\<lambda>r. \<lparr>sv_id = sl_id r, sv_eventType = sl_eventType r, sv_severity = sl_severity r,
           sv_userId = sl_userId r, sv_adminId = sl_adminId r, sv_metadata = sl_metadata r,
           sv_createdAt = sl_createdAt r\<rparr>) page, after))"

record audit_log_item =
  av_id :: uuid
  av_admin :: "uuid \<times> string option"
  av_action :: string
  av_targetType :: audit_target
  av_targetId :: "uuid option"
  av_metadata :: metadata
  av_createdAt :: instant

definition audit_log_listed :: "audit_log_query \<Rightarrow> admin_audit_log \<Rightarrow> bool" where
  "audit_log_listed q r \<longleftrightarrow>
    (case lg_action q of None \<Rightarrow> True | Some t \<Rightarrow> units (al_action r) = t) \<and>
    (case lg_targetType q of None \<Rightarrow> True | Some t \<Rightarrow> units (target_text (al_targetType r)) = t) \<and>
    (case lg_targetId q of None \<Rightarrow> True | Some i \<Rightarrow> al_targetId r = Some i) \<and>
    (case lg_adminId q of None \<Rightarrow> True | Some i \<Rightarrow> al_adminId r = i)"

definition auditLogs ::
    "cursor option \<Rightarrow> audit_log_query \<Rightarrow> db \<Rightarrow> audit_log_item list \<times> cursor option" where
  "auditLogs c q s =
    (let (page, after) = page_of (\<lambda>r. (al_createdAt r, al_id r)) c
       (page_limit (lg_limit q) ADMIN_PAGE_SIZE_DEFAULT ADMIN_PAGE_SIZE_MAX)
       (filter (audit_log_listed q) (t_audit_logs s))
     in (map (\<lambda>r. \<lparr>av_id = al_id r, av_admin = (al_adminId r, map_option ad_name (by_key admins_table (al_adminId r) s)),
           av_action = al_action r, av_targetType = al_targetType r, av_targetId = al_targetId r,
           av_metadata = al_metadata r, av_createdAt = al_createdAt r\<rparr>) page, after))"

section \<open>Notification counts\<close>

definition NOTIFICATION_TYPES :: "notification_type list" where
  "NOTIFICATION_TYPES = [Interest_received, Interest_accepted, Match_created, New_message, Verification_completed,
    Event_reminder, Safety_notice, Booking_notice]"

record type_stats =
  ts_type :: notification_type
  ts_last24h :: nat
  ts_last7d :: nat
  ts_readRate7d :: "nat option"
  ts_unread :: nat
  ts_optedOut :: "nat option"

text \<open>\<open>Math.round(x * 1000) / 1000\<close> of a quotient, in thousandths.\<close>

definition thousandths :: "nat \<Rightarrow> nat \<Rightarrow> nat" where
  "thousandths a b = (2000 * a + b) div (2 * b)"

definition notification_counts :: "db \<Rightarrow> notification_type \<Rightarrow> type_stats" where
  "notification_counts s type =
    (let mine = filter (\<lambda>n. n_type n = type) (t_notifications s);
         week = filter (\<lambda>n. clock s - 7 * DAY_MS < n_occurredAt n) mine
     in \<lparr>ts_type = type, ts_last24h = count_where (\<lambda>n. clock s - 24 * HOUR_MS < n_occurredAt n) mine,
          ts_last7d = length week,
          ts_readRate7d = (if week = [] then None
            else Some (thousandths (count_where (\<lambda>n. n_readAt n \<noteq> None) week) (length week))),
          ts_unread = count_where (\<lambda>n. n_readAt n = None) mine,
          ts_optedOut = (if isConfigurable type
            then Some (count_where (\<lambda>p. \<not> preference_attribute type p) (t_notif_prefs s)) else None)\<rparr>)"

record notification_stats =
  ns_generatedAt :: instant
  ns_last24h :: nat
  ns_last7d :: nat
  ns_unread :: nat
  ns_stored :: nat
  ns_byType :: "type_stats list"

definition admin_notification_stats :: "db \<Rightarrow> notification_stats" where
  "admin_notification_stats s =
    (let items = map (notification_counts s) NOTIFICATION_TYPES
     in \<lparr>ns_generatedAt = clock s, ns_last24h = sum_list (map ts_last24h items),
          ns_last7d = sum_list (map ts_last7d items), ns_unread = sum_list (map ts_unread items),
          ns_stored = length (t_notifications s), ns_byType = items\<rparr>)"

end
