(* ===== verification/Calendar.thy ===== *)
theory Calendar
  imports Dates
begin

text \<open>
  Days backwards and weeks, and the order of dates against the number of days: what the dashboard needs beyond
  \<open>Dates\<close>.
\<close>

section \<open>The order of dates\<close>

definition month_start :: "int \<Rightarrow> int \<Rightarrow> int" where
  "month_start y m = year_start y + month_offset m + (if 2 < m \<and> leap_year y then 1 else 0)"

lemma day_number_month: "day_number (y, m, d) = month_start y m + (d - 1)"
  by (simp add: month_start_def)

lemma month_start_step:
  assumes "1 \<le> m" "m < 12"
  shows "month_start y (m + 1) = month_start y m + days_in_month y m"
proof -
  have "m \<le> 12" using assms by simp
  with assms(1) show ?thesis
    using assms(2) by (cases rule: month_cases) (auto simp: month_start_def month_offset_def days_in_month_def)
qed

lemma month_start_year:
  "month_start y 1 = year_start y" "month_start y 12 + 31 = year_start (y + 1)"
  by (simp_all add: month_start_def month_offset_def year_start_Suc)

lemma month_start_mono:
  assumes "1 \<le> m" "m < k" "k \<le> 12"
  shows "month_start y m + days_in_month y m \<le> month_start y k"
  using assms(2,3)
proof (induction k rule: int_gr_induct)
  case base
  with assms show ?case by (simp add: month_start_step)
next
  case (step k)
  then have "month_start y m + days_in_month y m \<le> month_start y k" by simp
  also have "\<dots> \<le> month_start y (k + 1)"
    using step assms days_in_month_bounds[of y k] by (simp add: month_start_step)
  finally show ?case .
qed

lemma year_start_mono: "y < z \<Longrightarrow> year_start (y + 1) \<le> year_start z"
proof (induction z rule: int_gr_induct)
  case (step z)
  then show ?case using year_start_Suc[of z] by (simp split: if_splits)
qed simp

lemma day_in_month:
  "valid_date (y, m, d) \<Longrightarrow> month_start y m \<le> day_number (y, m, d) \<and>
    day_number (y, m, d) < month_start y m + days_in_month y m"
  by (simp add: day_number_month del: day_number.simps)

lemma day_in_year:
  assumes "valid_date (y, m, d)"
  shows "year_start y \<le> day_number (y, m, d)" "day_number (y, m, d) < year_start (y + 1)"
proof -
  have m: "1 \<le> m" "m \<le> 12" using assms by auto
  have "month_start y 1 \<le> month_start y m"
    using month_start_mono[of 1 m y] days_in_month_bounds[of y 1] m by (cases "m = 1") auto
  moreover have "month_start y m + days_in_month y m \<le> month_start y 12 + 31"
    using month_start_mono[of m 12 y] days_in_month_bounds[of y m] m by (cases "m = 12") auto
  ultimately show "year_start y \<le> day_number (y, m, d)" "day_number (y, m, d) < year_start (y + 1)"
    using day_in_month[OF assms] month_start_year[of y] by linarith+
qed

lemma day_number_less:
  assumes "valid_date a" "valid_date b" "a < b"
  shows "day_number a < day_number b"
proof -
  obtain y m d z k e where dates: "a = (y, m, d)" "b = (z, k, e)" by (cases a, cases b)
  with assms(3) consider "y < z" | "y = z" "m < k" | "y = z" "m = k" "d < e" by (auto simp: le_less)
  then show ?thesis
  proof cases
    case 1
    show ?thesis
      using day_in_year(2)[of y m d] day_in_year(1)[of z k e] year_start_mono[OF 1] assms dates by simp
  next
    case 2
    have range: "1 \<le> m" "k \<le> 12" using assms(1,2) dates by auto
    have "day_number a < month_start y m + days_in_month y m"
      using day_in_month[of y m d] assms(1) dates by (simp del: day_number.simps)
    also have "\<dots> \<le> month_start y k" using range 2 by (intro month_start_mono)
    also have "\<dots> \<le> day_number b" using day_in_month[of z k e] assms(2) dates 2 by (simp del: day_number.simps)
    finally show ?thesis .
  next
    case 3
    then show ?thesis using dates by simp
  qed
qed

lemma day_number_inject:
  "valid_date a \<Longrightarrow> valid_date b \<Longrightarrow> day_number a = day_number b \<Longrightarrow> a = b"
  using day_number_less[of a b] day_number_less[of b a] by (cases a b rule: linorder_cases) auto

lemma day_number_le:
  "valid_date a \<Longrightarrow> valid_date b \<Longrightarrow> a \<le> b \<longleftrightarrow> day_number a \<le> day_number b"
  using day_number_less[of a b] day_number_less[of b a] by (cases a b rule: linorder_cases) auto

section \<open>Backwards\<close>

fun prev_date :: "date \<Rightarrow> date" where
  "prev_date (y, m, d) =
    (if 1 < d then (y, m, d - 1)
     else if 1 < m then (y, m - 1, days_in_month y (m - 1))
     else (y - 1, 12, 31))"

fun subDays :: "date \<Rightarrow> nat \<Rightarrow> date" where
  "subDays d 0 = d"
| "subDays d (Suc n) = subDays (prev_date d) n"

lemma prev_date_valid: "valid_date d \<Longrightarrow> valid_date (prev_date d)"
  using days_in_month_bounds(1) by (cases d) (auto simp: days_in_month_def)

lemma day_number_prev: "valid_date d \<Longrightarrow> day_number (prev_date d) = day_number d - 1"
proof (cases d)
  case (fields y m k)
  assume v: "valid_date d"
  consider "1 < k" | "k = 1" "1 < m" | "k = 1" "m = 1" using v fields by force
  then show ?thesis
  proof cases
    case 1
    with fields show ?thesis by simp
  next
    case 2
    have "month_start y m = month_start y (m - 1) + days_in_month y (m - 1)"
      using month_start_step[of "m - 1" y] 2 v fields by simp
    with 2 fields show ?thesis by (simp add: day_number_month del: day_number.simps)
  next
    case 3
    have "month_start y 1 = month_start (y - 1) 12 + 31"
      using month_start_year[of "y - 1"] month_start_year(1)[of y] by simp
    with 3 fields show ?thesis by (simp add: day_number_month del: day_number.simps)
  qed
qed

lemma subDays_valid: "valid_date d \<Longrightarrow> valid_date (subDays d n)"
  by (induction n arbitrary: d) (auto simp: prev_date_valid simp del: prev_date.simps)

lemma subDays_day_number: "valid_date d \<Longrightarrow> day_number (subDays d n) = day_number d - int n"
  by (induction n arbitrary: d) (auto simp: prev_date_valid day_number_prev simp del: prev_date.simps)

section \<open>Weeks\<close>

text \<open>1970-01-01 was a Thursday. Sunday is 0.\<close>

definition weekday :: "date \<Rightarrow> int" where
  "weekday d = (day_number d + 4) mod 7"

definition mondayOf :: "date \<Rightarrow> date" where
  "mondayOf d = subDays d (nat ((weekday d + 6) mod 7))"

lemma mondayOf_valid: "valid_date d \<Longrightarrow> valid_date (mondayOf d)"
  by (simp add: mondayOf_def subDays_valid)

lemma mondayOf_day_number:
  "valid_date d \<Longrightarrow> day_number (mondayOf d) = (day_number d + 3) div 7 * 7 - 3"
proof -
  assume v: "valid_date d"
  have "(weekday d + 6) mod 7 = (day_number d + 3) mod 7"
    unfolding weekday_def by presburger
  then have "day_number (mondayOf d) = day_number d - (day_number d + 3) mod 7"
    using v by (simp add: mondayOf_def subDays_day_number)
  then show ?thesis using div_mult_mod_eq[of "day_number d + 3" 7] by linarith
qed

end
