(* ===== verification/Log_Sanitize.thy ===== *)
theory Log_Sanitize
  imports Schema_Fields
begin

text \<open>
  What keeps personal data out of logs and stored error messages (\<open>lib/log-sanitize.ts\<close>): masked phone numbers,
  and free texts with email addresses and runs of digits replaced.
\<close>

section \<open>Phone numbers\<close>

text \<open>\<open>slice(0, n)\<close>: a negative end counts from the end of the text.\<close>

definition slice_to :: "int \<Rightarrow> js_text \<Rightarrow> js_text" where
  "slice_to n t = take (nat (if n < 0 then int (length t) + n else n)) t"

definition mask_logged_phone :: "js_text \<Rightarrow> js_text" where
  "mask_logged_phone e164 = (let digits = filter is_digit e164
     in if length digits < 8 then replicate (length digits) 88
        else (let countryCode = slice_to (int (length digits) - 10) digits
          in (if countryCode = [] then [] else 43 # countryCode) @ replicate 6 88 @ last_units 4 digits))"

text \<open>
  A number of ten digits or more shows what stands before its last ten digits, and its last four. One of eight or
  nine digits, which no member has, is shown: the end of the slice is then negative.
\<close>

lemma masked_number:
  "length (filter is_digit t) = 12 \<Longrightarrow>
    mask_logged_phone t = 43 # take 2 (filter is_digit t) @ replicate 6 88 @ last_units 4 (filter is_digit t)"
  "mask_logged_phone (units ''123456789'') = units ''+12345678XXXXXX6789''"
  by (auto simp: mask_logged_phone_def slice_to_def Let_def)[1]
    code_simp

section \<open>Replacing every match\<close>

text \<open>
  \<open>replace(/.../g, text)\<close>: the matches from left to right. \<open>match s i\<close> is where the match that starts at \<open>i\<close>
  ends; a match is never empty here.
\<close>

function replace_from :: "(js_text \<Rightarrow> nat \<Rightarrow> nat option) \<Rightarrow> js_text \<Rightarrow> js_text \<Rightarrow> nat \<Rightarrow> js_text" where
  "replace_from match text s i =
    (if length s \<le> i then []
     else case match s i of
       Some j \<Rightarrow> if i < j then text @ replace_from match text s j else s ! i # replace_from match text s (Suc i)
     | None \<Rightarrow> s ! i # replace_from match text s (Suc i))"
  by auto

termination by (relation "measure (\<lambda>(match, text, s, i). length s - i)") auto

declare replace_from.simps [simp del]

definition replace_all :: "(js_text \<Rightarrow> nat \<Rightarrow> nat option) \<Rightarrow> js_text \<Rightarrow> js_text \<Rightarrow> js_text" where
  "replace_all match text s = replace_from match text s 0"

section \<open>Email addresses and digits\<close>

definition word_or_hyphen :: "code_unit \<Rightarrow> bool" where
  "word_or_hyphen c \<longleftrightarrow> is_word c \<or> c = 45"

definition EMAIL :: rx where
  "EMAIL = rx_seq [rx_plus (One (\<lambda>c. is_word c \<or> any_of ''.+-'' c)), rx_lit ''@'', rx_plus (One word_or_hyphen),
     rx_plus (Seq (rx_lit ''.'') (rx_plus (One word_or_hyphen)))]"

text \<open>The quantifiers of \<open>EMAIL\<close> are greedy: the match is the longest one.\<close>

definition email_end :: "js_text \<Rightarrow> nat \<Rightarrow> nat option" where
  "email_end s i = (case rx_ends EMAIL s i of [] \<Rightarrow> None | js \<Rightarrow> Some (foldr max js 0))"

text \<open>
  \<open>DIGIT_RUN\<close>: an optional plus sign and all the digits that follow, four to fifteen of them, with no letter,
  underscore or hyphen on either side.
\<close>

definition digit_run_end :: "js_text \<Rightarrow> nat \<Rightarrow> nat option" where
  "digit_run_end s i =
    (let from = (if i < length s \<and> s ! i = 43 then Suc i else i);
         run = length (takeWhile is_digit (drop from s))
     in if (i = 0 \<or> \<not> word_or_hyphen (s ! (i - 1))) \<and> 4 \<le> run \<and> run \<le> 15 \<and>
          (from + run < length s \<longrightarrow> \<not> word_or_hyphen (s ! (from + run)))
        then Some (from + run) else None)"

definition sanitizeLogText :: "js_text \<Rightarrow> nat \<Rightarrow> js_text" where
  "sanitizeLogText text maxLength =
    (let clean = js_trim (replace_all digit_run_end (units ''[digits]'')
       (replace_all email_end (units ''[email]'') (collapse_white text)))
     in if maxLength < length clean then take (maxLength - 1) clean @ [8230] else clean)"

lemma sanitized_length: "0 < n \<Longrightarrow> length (sanitizeLogText t n) \<le> n"
  by (simp add: sanitizeLogText_def Let_def)

lemma masks_numbers:
  "sanitizeLogText (units ''to +919876543210 or a.b@c.de, id 12-ab'') 300 = units ''to [digits] or [email], id 12-ab''"
  by code_simp

end
