(* ===== verification/Dashboard.thy ===== *)
theory Dashboard
  imports Calendar Back_Office Event_Lists
begin

text \<open>
  The operational dashboard (\<open>modules/admin/dashboard/admin-dashboard.service.ts\<close>): periods, the summary, the
  trends and the list of events with their sales. A count or sum over the rows that a query selects is a
  \<open>count_where\<close> or \<open>total_where\<close> over the table.
\<close>

section \<open>Periods\<close>

definition DASHBOARD_DEFAULT_RANGE_DAYS :: nat where [limits]: "DASHBOARD_DEFAULT_RANGE_DAYS = 30"
definition DASHBOARD_MAX_RANGE_DAYS :: int where [limits]: "DASHBOARD_MAX_RANGE_DAYS = 366"
definition DASHBOARD_DAILY_BUCKET_MAX_DAYS :: int where [limits]: "DASHBOARD_DAILY_BUCKET_MAX_DAYS = 92"
definition DASHBOARD_EXPORT_MAX_ROWS :: nat where [limits]: "DASHBOARD_EXPORT_MAX_ROWS = 1000"

record dashboard_period =
  dp_from :: date
  dp_to :: date
  dp_start :: instant
  dp_end :: instant
  dp_cityId :: "uuid option"

type_synonym dashboard_query = "date option \<times> date option \<times> uuid option"

definition daysBetween :: "date \<Rightarrow> date \<Rightarrow> int" where
  "daysBetween a b = day_number b - day_number a"

definition resolvePeriod :: "dashboard_query \<Rightarrow> db \<Rightarrow> failure + dashboard_period" where
  "resolvePeriod q s =
    (case q of (qfrom, qto, city) \<Rightarrow>
      let to' = value_or qto (todayInIndia (clock s));
          from' = value_or qfrom (subDays to' (DASHBOARD_DEFAULT_RANGE_DAYS - 1))
      in if to' < from' then Inl (App VALIDATION_ERROR)
         else if DASHBOARD_MAX_RANGE_DAYS < daysBetween from' to' + 1 then Inl (App VALIDATION_ERROR)
         else if (case city of None \<Rightarrow> False | Some c \<Rightarrow> by_key cities_table c s = None) then Inl (App VALIDATION_ERROR)
         else Inr \<lparr>dp_from = from', dp_to = to', dp_start = istStartOfDay from', dp_end = istStartOfDay (addDays to' 1),
           dp_cityId = city\<rparr>)"

definition in_period :: "dashboard_period \<Rightarrow> instant \<Rightarrow> bool" where
  "in_period p t \<longleftrightarrow> dp_start p \<le> t \<and> t < dp_end p"

text \<open>A comparison with NULL is not true.\<close>

definition sql_in_period :: "dashboard_period \<Rightarrow> instant option \<Rightarrow> bool" where
  "sql_in_period p t \<longleftrightarrow> (case t of None \<Rightarrow> False | Some x \<Rightarrow> in_period p x)"

section \<open>City filters\<close>

definition city_of_user :: "dashboard_period \<Rightarrow> db \<Rightarrow> uuid \<Rightarrow> bool" where
  "city_of_user p s userId \<longleftrightarrow> (case dp_cityId p of None \<Rightarrow> True
    | Some c \<Rightarrow> list_ex (\<lambda>f. pf_userId f = userId \<and> pf_cityId f = c) (t_profiles s))"

definition city_of_event :: "dashboard_period \<Rightarrow> event \<Rightarrow> bool" where
  "city_of_event p e \<longleftrightarrow> (case dp_cityId p of None \<Rightarrow> True | Some c \<Rightarrow> ev_cityId e = c)"

text \<open>Rows joined with their event.\<close>

definition at_event :: "dashboard_period \<Rightarrow> db \<Rightarrow> uuid \<Rightarrow> bool" where
  "at_event p s eventId \<longleftrightarrow> (case by_key events_table eventId s of None \<Rightarrow> False | Some e \<Rightarrow> city_of_event p e)"

definition event_of_payment :: "db \<Rightarrow> payment \<Rightarrow> uuid option" where
  "event_of_payment s x = map_option o_eventId (by_key orders_table (p_orderId x) s)"

definition paid_at_event :: "dashboard_period \<Rightarrow> db \<Rightarrow> payment \<Rightarrow> bool" where
  "paid_at_event p s x \<longleftrightarrow> (case event_of_payment s x of None \<Rightarrow> False | Some e \<Rightarrow> at_event p s e)"

definition money_received :: "payment \<Rightarrow> bool" where
  "money_received x \<longleftrightarrow> p_status x = P_captured \<or> p_status x = P_refunded"

section \<open>The summary\<close>

record dash_users =
  du_total :: nat
  du_newInPeriod :: nat
  du_active7d :: nat
  du_active30d :: nat
  du_verified :: nat
  du_suspended :: nat
  du_banned :: nat

definition counted_user :: "dashboard_period \<Rightarrow> db \<Rightarrow> user \<Rightarrow> bool" where
  "counted_user p s u \<longleftrightarrow> u_deletedAt u = None \<and> city_of_user p s (u_id u)"

definition active_since :: "instant \<Rightarrow> user \<Rightarrow> bool" where
  "active_since t u \<longleftrightarrow> u_status u = U_active \<and> (case u_lastActiveAt u of None \<Rightarrow> False | Some a \<Rightarrow> t \<le> a)"

definition dash_users_of :: "dashboard_period \<Rightarrow> db \<Rightarrow> dash_users" where
  "dash_users_of p s =
    (let us = filter (counted_user p s) (t_users s)
     in \<lparr>du_total = length us, du_newInPeriod = count_where (\<lambda>u. in_period p (u_createdAt u)) us,
          du_active7d = count_where (active_since (clock s - 7 * DAY_MS)) us,
          du_active30d = count_where (active_since (clock s - 30 * DAY_MS)) us,
          du_verified = count_where (\<lambda>u. u_status u = U_active \<and>
            (u_photoVerifiedAt u \<noteq> None \<or> u_identityVerifiedAt u \<noteq> None)) us,
          du_suspended = count_where (\<lambda>u. u_status u = U_suspended) us,
          du_banned = count_where (\<lambda>u. u_status u = U_banned) us\<rparr>)"

record dash_events =
  de_published :: nat
  de_inPeriod :: nat
  de_upcoming :: nat

definition dash_events_of :: "dashboard_period \<Rightarrow> db \<Rightarrow> dash_events" where
  "dash_events_of p s =
    (let es = filter (\<lambda>e. city_of_event p e \<and> ev_status e = E_published) (t_events s)
     in \<lparr>de_published = length es,
          de_inPeriod = count_where (\<lambda>e. dp_from p \<le> ev_eventDate e \<and> ev_eventDate e \<le> dp_to p) es,
          de_upcoming = count_where (\<lambda>e. clock s < ev_startsAt e) es\<rparr>)"

record dash_matches =
  dm_createdInPeriod :: nat
  dm_active :: nat

definition counted_match :: "dashboard_period \<Rightarrow> db \<Rightarrow> match_row \<Rightarrow> bool" where
  "counted_match p s m \<longleftrightarrow> city_of_user p s (m_userAId m) \<or> city_of_user p s (m_userBId m)"

definition dash_matches_of :: "dashboard_period \<Rightarrow> db \<Rightarrow> dash_matches" where
  "dash_matches_of p s =
    (let ms = filter (counted_match p s) (t_matches s)
     in \<lparr>dm_createdInPeriod = count_where (\<lambda>m. in_period p (m_createdAt m)) ms,
          dm_active = count_where (\<lambda>m. m_status m = M_active) ms\<rparr>)"

record dash_reports =
  dr_pending :: nat
  dr_pendingUrgent :: nat
  dr_openedInPeriod :: nat

definition counted_report :: "dashboard_period \<Rightarrow> db \<Rightarrow> report \<Rightarrow> bool" where
  "counted_report p s r \<longleftrightarrow> city_of_user p s (rp_reportedUserId r)"

definition dash_reports_of :: "dashboard_period \<Rightarrow> db \<Rightarrow> dash_reports" where
  "dash_reports_of p s =
    (let rs = filter (counted_report p s) (t_reports s);
         pending = (\<lambda>r. rp_status r = R_open \<or> rp_status r = R_in_review)
     in \<lparr>dr_pending = count_where pending rs,
          dr_pendingUrgent = count_where (\<lambda>r. pending r \<and> rp_priority r = 0) rs,
          dr_openedInPeriod = count_where (\<lambda>r. in_period p (rp_createdAt r)) rs\<rparr>)"

record dash_bookings =
  db_confirmedInPeriod :: nat
  db_passesSoldInPeriod :: int
  db_cancelledInPeriod :: nat

definition dash_bookings_of :: "dashboard_period \<Rightarrow> db \<Rightarrow> dash_bookings" where
  "dash_bookings_of p s =
    (let bs = filter (\<lambda>b. at_event p s (b_eventId b)) (t_bookings s);
         confirmed = (\<lambda>b. b_status b = B_confirmed \<and> in_period p (b_createdAt b))
     in \<lparr>db_confirmedInPeriod = count_where confirmed bs,
          db_passesSoldInPeriod = total_where confirmed b_quantity bs,
          db_cancelledInPeriod = count_where (\<lambda>b. sql_in_period p (b_cancelledAt b)) bs\<rparr>)"

record dash_revenue =
  dv_grossPaise :: int
  dv_refundedPaise :: int
  dv_netPaise :: int

definition dash_revenue_of :: "dashboard_period \<Rightarrow> db \<Rightarrow> dash_revenue" where
  "dash_revenue_of p s =
    (let ps = filter (paid_at_event p s) (t_payments s);
         gross = total_where (\<lambda>x. money_received x \<and> sql_in_period p (p_capturedAt x)) p_amountPaise ps;
         refunded = total_where (\<lambda>x. sql_in_period p (p_refundedAt x)) p_amountRefundedPaise ps
     in \<lparr>dv_grossPaise = gross, dv_refundedPaise = refunded, dv_netPaise = gross - refunded\<rparr>)"

record dash_summary =
  ds_period :: dashboard_period
  ds_users :: "dash_users option"
  ds_events :: "dash_events option"
  ds_matches :: "dash_matches option"
  ds_reports :: "dash_reports option"
  ds_bookings :: "dash_bookings option"
  ds_revenue :: "dash_revenue option"

text \<open>A section is computed only for a role that holds its permission.\<close>

definition when_permitted :: "admin_role \<Rightarrow> admin_permission \<Rightarrow> 'a \<Rightarrow> 'a option" where
  "when_permitted role permission x = (if roleHasPermission role permission then Some x else None)"

definition dashboard_summary :: "admin_role \<Rightarrow> dashboard_query \<Rightarrow> db \<Rightarrow> failure + dash_summary" where
  "dashboard_summary role q s = map_sum id (\<lambda>p.
      \<lparr>ds_period = p, ds_users = when_permitted role Users_view (dash_users_of p s),
        ds_events = when_permitted role Events_view (dash_events_of p s),
        ds_matches = when_permitted role Users_view (dash_matches_of p s),
        ds_reports = when_permitted role Reports_manage (dash_reports_of p s),
        ds_bookings = when_permitted role Payments_view (dash_bookings_of p s),
        ds_revenue = when_permitted role Payments_view (dash_revenue_of p s)\<rparr>)
    (resolvePeriod q s)"

section \<open>Trends\<close>

text \<open>\<open>date_trunc\<close> of a time in India: its day, or the Monday of its week.\<close>

definition bucket_of :: "bool \<Rightarrow> instant \<Rightarrow> date" where
  "bucket_of weekly t = (if weekly then mondayOf (todayInIndia t) else todayInIndia t)"

definition bucketed ::
    "dashboard_period \<Rightarrow> bool \<Rightarrow> ('r \<Rightarrow> instant option) \<Rightarrow> ('r \<Rightarrow> int) \<Rightarrow> 'r list \<Rightarrow> date \<Rightarrow> int" where
  "bucketed p weekly at value rows label =
    total_where (\<lambda>r. case at r of None \<Rightarrow> False | Some t \<Rightarrow> in_period p t \<and> bucket_of weekly t = label) value rows"

text \<open>The loop over the labels: at most \<open>n\<close> of them.\<close>

fun labels_upto :: "nat \<Rightarrow> nat \<Rightarrow> date \<Rightarrow> date \<Rightarrow> date list" where
  "labels_upto 0 step d final = []"
| "labels_upto (Suc n) step d final =
    (if d \<le> final then d # labels_upto n step (addDays d step) final else [])"

definition is_weekly :: "dashboard_period \<Rightarrow> bool" where
  "is_weekly p \<longleftrightarrow> DASHBOARD_DAILY_BUCKET_MAX_DAYS < daysBetween (dp_from p) (dp_to p) + 1"

definition trend_labels :: "dashboard_period \<Rightarrow> date list" where
  "trend_labels p =
    labels_upto (nat (daysBetween (dp_from p) (dp_to p)) + 8) (if is_weekly p then 7 else 1)
      (if is_weekly p then mondayOf (dp_from p) else dp_from p) (dp_to p)"

definition trend_series ::
    "admin_role \<Rightarrow> admin_permission \<Rightarrow> dashboard_period \<Rightarrow> ('r \<Rightarrow> instant option) \<Rightarrow> ('r \<Rightarrow> int) \<Rightarrow> 'r list \<Rightarrow>
      int list option" where
  "trend_series role permission p at value rows =
    when_permitted role permission (map (bucketed p (is_weekly p) at value rows) (trend_labels p))"

record dash_trends =
  dt_period :: dashboard_period
  dt_weekly :: bool
  dt_labels :: "date list"
  dt_signups :: "int list option"
  dt_matches :: "int list option"
  dt_reports :: "int list option"
  dt_bookings :: "int list option"
  dt_revenuePaise :: "int list option"

definition trends_of :: "admin_role \<Rightarrow> dashboard_period \<Rightarrow> db \<Rightarrow> dash_trends" where
  "trends_of role p s =
    \<lparr>dt_period = p, dt_weekly = is_weekly p, dt_labels = trend_labels p,
      dt_signups = trend_series role Users_view p (\<lambda>u. Some (u_createdAt u)) (\<lambda>_. 1)
        (filter (counted_user p s) (t_users s)),
      dt_matches = trend_series role Users_view p (\<lambda>m. Some (m_createdAt m)) (\<lambda>_. 1)
        (filter (counted_match p s) (t_matches s)),
      dt_reports = trend_series role Reports_manage p (\<lambda>r. Some (rp_createdAt r)) (\<lambda>_. 1)
        (filter (counted_report p s) (t_reports s)),
      dt_bookings = trend_series role Payments_view p (\<lambda>b. Some (b_createdAt b)) (\<lambda>_. 1)
        (filter (\<lambda>b. b_status b = B_confirmed \<and> at_event p s (b_eventId b)) (t_bookings s)),
      dt_revenuePaise = trend_series role Payments_view p p_capturedAt p_amountPaise
        (filter (\<lambda>x. money_received x \<and> paid_at_event p s x) (t_payments s))\<rparr>"

definition dashboard_trends :: "admin_role \<Rightarrow> dashboard_query \<Rightarrow> db \<Rightarrow> failure + dash_trends" where
  "dashboard_trends role q s = map_sum id (\<lambda>p. trends_of role p s) (resolvePeriod q s)"

section \<open>Events and their sales\<close>

record event_sales =
  es_pricePaise :: "int option"
  es_capacity :: "int option"
  es_bookings :: nat
  es_passesSold :: int
  es_grossPaise :: int
  es_refundedPaise :: int

record dash_event_row =
  dw_id :: uuid
  dw_name :: string
  dw_eventDate :: date
  dw_city :: string
  dw_status :: event_status
  dw_going :: nat
  dw_interested :: nat
  dw_lookingForPartner :: nat
  dw_matches :: nat
  dw_sales :: "event_sales option"

definition sales_of :: "event \<Rightarrow> db \<Rightarrow> event_sales" where
  "sales_of e s =
    (let mine = (\<lambda>b. b_eventId b = ev_id e \<and> b_status b = B_confirmed);
         paid = (\<lambda>x. event_of_payment s x = Some (ev_id e))
     in \<lparr>es_pricePaise = ev_passPricePaise e, es_capacity = ev_passCapacity e,
          es_bookings = count_where mine (t_bookings s), es_passesSold = total_where mine b_quantity (t_bookings s),
          es_grossPaise = total_where (\<lambda>x. paid x \<and> money_received x) p_amountPaise (t_payments s),
          es_refundedPaise = total_where paid p_amountRefundedPaise (t_payments s)\<rparr>)"

definition toEventRow :: "bool \<Rightarrow> db \<Rightarrow> event \<Rightarrow> dash_event_row" where
  "toEventRow withSales s e =
    \<lparr>dw_id = ev_id e, dw_name = ev_name e, dw_eventDate = ev_eventDate e,
      dw_city = (case by_key cities_table (ev_cityId e) s of None \<Rightarrow> [] | Some c \<Rightarrow> ci_name c), dw_status = ev_status e,
      dw_going = count_where (\<lambda>a. at_eventId a = ev_id e \<and> at_status a = Going) (t_attendances s),
      dw_interested = count_where (\<lambda>a. at_eventId a = ev_id e \<and> at_status a = Interested) (t_attendances s),
      dw_lookingForPartner = count_where (\<lambda>a. at_eventId a = ev_id e \<and> at_lookingForPartner a) (t_attendances s),
      dw_matches = count_where (\<lambda>m. m_eventId m = Some (ev_id e)) (t_matches s),
      dw_sales = (if withSales then Some (sales_of e s) else None)\<rparr>"

definition reported_event :: "dashboard_period \<Rightarrow> db \<Rightarrow> event \<Rightarrow> bool" where
  "reported_event p s e \<longleftrightarrow> by_key cities_table (ev_cityId e) s \<noteq> None \<and> ev_firstPublishedAt e \<noteq> None \<and>
    (ev_status e = E_published \<or> ev_status e = E_archived) \<and>
    dp_from p \<le> ev_eventDate e \<and> ev_eventDate e \<le> dp_to p \<and> city_of_event p e"

definition event_stamp :: "event \<Rightarrow> (date \<times> uuid) rising" where
  "event_stamp e = Rising (ev_eventDate e, ev_id e)"

definition dashboard_events ::
    "admin_role \<Rightarrow> dashboard_query \<Rightarrow> (date \<times> uuid) option \<Rightarrow> nat option \<Rightarrow> db \<Rightarrow>
      failure + dash_event_row list \<times> (date \<times> uuid) option" where
  "dashboard_events role q c limit s = map_sum id (\<lambda>p.
      let (page, after) = page_of event_stamp (map_option Rising c) (value_or limit ADMIN_PAGE_SIZE_DEFAULT)
        (filter (reported_event p s) (t_events s))
      in (map (toEventRow (roleHasPermission role Payments_view) s) page, map_option key_of after))
    (resolvePeriod q s)"

definition exportEvents :: "dashboard_query \<Rightarrow> db \<Rightarrow> failure + dash_event_row list" where
  "exportEvents q s = map_sum id (\<lambda>p. map (toEventRow True s)
      (take DASHBOARD_EXPORT_MAX_ROWS (sort_desc event_stamp (filter (reported_event p s) (t_events s)))))
    (resolvePeriod q s)"

end
