(* ===== verification/Csv.thy ===== *)
theory Csv
  imports Dashboard
begin

text \<open>
  The CSV export of event sales (\<open>modules/admin/dashboard/admin-dashboard.routes.ts\<close>), and a reader of the
  format (RFC 4180) it is checked against. Texts are lists of characters.
\<close>

section \<open>Numbers and dates as texts\<close>

definition digit_char :: "nat \<Rightarrow> char" where
  "digit_char n = char_of (48 + n)"

fun show_nat :: "nat \<Rightarrow> string" where
  "show_nat n = (if n < 10 then [digit_char n] else show_nat (n div 10) @ [digit_char (n mod 10)])"

declare show_nat.simps [simp del]

definition show_int :: "int \<Rightarrow> string" where
  "show_int i = (if i < 0 then CHR ''-'' # show_nat (nat (- i)) else show_nat (nat i))"

definition two_digits :: "nat \<Rightarrow> string" where
  "two_digits n = [digit_char (n div 10 mod 10), digit_char (n mod 10)]"

text \<open>\<open>(paise / 100).toFixed(2)\<close>\<close>

definition rupees :: "int \<Rightarrow> string" where
  "rupees paise = (let n = nat \<bar>paise\<bar> in
     (if paise < 0 then ''-'' else '''') @ show_nat (n div 100) @ ''.'' @ two_digits (n mod 100))"

definition show_date :: "date \<Rightarrow> string" where
  "show_date d = (case d of (y, m, k) \<Rightarrow>
     two_digits (nat y div 100) @ two_digits (nat y) @ ''-'' @ two_digits (nat m) @ ''-'' @ two_digits (nat k))"

definition hex_char :: "nat \<Rightarrow> char" where
  "hex_char n = (if n < 10 then char_of (48 + n) else char_of (87 + n))"

fun hex_text :: "nat \<Rightarrow> nat \<Rightarrow> string" where
  "hex_text 0 n = []"
| "hex_text (Suc k) n = hex_text k (n div 16) @ [hex_char (n mod 16)]"

text \<open>The canonical text of a UUID.\<close>

definition uuid_text :: "uuid \<Rightarrow> string" where
  "uuid_text i = (let h = hex_text 32 i in
     take 8 h @ ''-'' @ take 4 (drop 8 h) @ ''-'' @ take 4 (drop 12 h) @ ''-'' @ take 4 (drop 16 h) @ ''-'' @ drop 20 h)"

section \<open>Cells and lines\<close>

datatype csv_value = CNull | CNumber int | CText string

definition formula_char :: "char \<Rightarrow> bool" where
  "formula_char c \<longleftrightarrow> List.member [CHR ''='', CHR ''+'', CHR ''-'', CHR ''@'', CHR 0x09, CHR 0x0D] c"

definition special_char :: "char \<Rightarrow> bool" where
  "special_char c \<longleftrightarrow> List.member [CHR 0x22, CHR '','', CHR 0x0A, CHR 0x0D] c"

text \<open>What a cell shows: a text that a spreadsheet would take for a formula is led by an apostrophe.\<close>

definition guarded :: "string \<Rightarrow> string" where
  "guarded t = (case t of [] \<Rightarrow> [] | c # _ \<Rightarrow> if formula_char c then CHR 0x27 # t else t)"

primrec cell_text :: "csv_value \<Rightarrow> string" where
  "cell_text CNull = []"
| "cell_text (CNumber i) = show_int i"
| "cell_text (CText t) = guarded t"

definition quoted :: "string \<Rightarrow> string" where
  "quoted t = (if list_ex special_char t
     then CHR 0x22 # concat (map (\<lambda>c. if c = CHR 0x22 then [c, c] else [c]) t) @ [CHR 0x22] else t)"

definition csvCell :: "csv_value \<Rightarrow> string" where
  "csvCell v = quoted (cell_text v)"

definition CSV_COLUMNS :: "string list" where
  "CSV_COLUMNS = [''event_id'', ''event_name'', ''event_date'', ''city'', ''status'', ''going'', ''interested'',
    ''looking_for_partner'', ''matches'', ''pass_price_inr'', ''capacity'', ''bookings'', ''passes_sold'', ''gross_inr'',
    ''refunded_inr'', ''net_inr'']"

definition event_status_cell :: "event_status \<Rightarrow> string" where
  "event_status_cell st = (case st of E_draft \<Rightarrow> ''draft'' | E_published \<Rightarrow> ''published'' | E_archived \<Rightarrow> ''archived'')"

definition or_null :: "'a option \<Rightarrow> ('a \<Rightarrow> csv_value) \<Rightarrow> csv_value" where
  "or_null v f = (case v of None \<Rightarrow> CNull | Some x \<Rightarrow> f x)"

definition sales_number :: "dash_event_row \<Rightarrow> (event_sales \<Rightarrow> int) \<Rightarrow> int" where
  "sales_number r f = (case dw_sales r of None \<Rightarrow> 0 | Some x \<Rightarrow> f x)"

definition csv_row :: "dash_event_row \<Rightarrow> csv_value list" where
  "csv_row r =
    [CText (uuid_text (dw_id r)), CText (dw_name r), CText (show_date (dw_eventDate r)), CText (dw_city r),
     CText (event_status_cell (dw_status r)), CNumber (int (dw_going r)), CNumber (int (dw_interested r)),
     CNumber (int (dw_lookingForPartner r)), CNumber (int (dw_matches r)),
     or_null (Option.bind (dw_sales r) es_pricePaise) (\<lambda>x. CText (rupees x)),
     or_null (Option.bind (dw_sales r) es_capacity) CNumber,
     CNumber (sales_number r (\<lambda>x. int (es_bookings x))), CNumber (sales_number r es_passesSold),
     CText (rupees (sales_number r es_grossPaise)), CText (rupees (sales_number r es_refundedPaise)),
     CText (rupees (sales_number r es_grossPaise - sales_number r es_refundedPaise))]"

text \<open>Cells comma_joined by commas, every line ended by CR LF.\<close>

fun comma_joined :: "string list \<Rightarrow> string" where
  "comma_joined [] = []"
| "comma_joined [c] = c"
| "comma_joined (c # cs) = c @ CHR '','' # comma_joined cs"

definition csv_line :: "string list \<Rightarrow> string" where
  "csv_line cells = comma_joined cells @ [CHR 0x0D, CHR 0x0A]"

definition toCsv :: "dash_event_row list \<Rightarrow> string" where
  "toCsv rows = csv_line CSV_COLUMNS @ concat (map (\<lambda>r. csv_line (map csvCell (csv_row r))) rows)"

text \<open>\<open>GET /admin/dashboard/events/export\<close>: the audited export.\<close>

definition export_csv :: "env \<Rightarrow> admin_actor \<Rightarrow> dashboard_query \<Rightarrow> string op" where
  "export_csv env actor q =
    andThen (andThen (gets (resolvePeriod q)) from_sum) (\<lambda>p.
    andThen (andThen (gets (exportEvents q)) from_sum) (\<lambda>rows.
    andThen (transaction (recordAdminAction env (ac_adminId actor) ''dashboard.export'' Target_event None
        [(''report'', Meta_text ''event_sales''), (''from'', Meta_text (show_date (dp_from p))),
         (''to'', Meta_text (show_date (dp_to p))), (''cityId'', meta_opt Meta_id (dp_cityId p)),
         (''rows'', Meta_num (int (length rows)))] (ac_ip actor))) (\<lambda>_.
    ret (toCsv rows))))"

section \<open>Reading CSV\<close>

text \<open>
  The rest of a quoted cell and the text after it; the cells of a line and the text after its CR LF; all lines.
\<close>

fun read_quoted :: "string \<Rightarrow> (string \<times> string) option" where
  "read_quoted [] = None"
| "read_quoted (c # s) =
    (if c \<noteq> CHR 0x22 then map_option (\<lambda>(t, rest). (c # t, rest)) (read_quoted s)
     else (case s of d # s' \<Rightarrow> if d = CHR 0x22 then map_option (\<lambda>(t, rest). (c # t, rest)) (read_quoted s') else Some ([], s)
       | [] \<Rightarrow> Some ([], [])))"

text \<open>
  The characters of a cell without quotes, RFC 4180's TEXTDATA: no comma, no quote, no CR and no LF. The reader is
  written from the format alone and shares nothing with the writer.
\<close>

definition textdata :: "char \<Rightarrow> bool" where
  "textdata c \<longleftrightarrow> c \<noteq> CHR '','' \<and> c \<noteq> CHR 0x22 \<and> c \<noteq> CHR 0x0D \<and> c \<noteq> CHR 0x0A"

definition plain_cell :: "string \<Rightarrow> string \<times> string" where
  "plain_cell s = (takeWhile textdata s, dropWhile textdata s)"

definition read_cell :: "string \<Rightarrow> (string \<times> string) option" where
  "read_cell s = (case s of c # s' \<Rightarrow> if c = CHR 0x22 then read_quoted s' else Some (plain_cell s)
     | [] \<Rightarrow> Some ([], []))"

fun read_cells :: "nat \<Rightarrow> string \<Rightarrow> (string list \<times> string) option" where
  "read_cells 0 s = None"
| "read_cells (Suc n) s =
    (case read_cell s of
       None \<Rightarrow> None
     | Some (t, rest) \<Rightarrow>
         (case rest of
            c # r \<Rightarrow>
              if c = CHR '','' then map_option (\<lambda>(ts, rest'). (t # ts, rest')) (read_cells n r)
              else if c = CHR 0x0D \<and> r \<noteq> [] \<and> hd r = CHR 0x0A then Some ([t], tl r) else None
          | [] \<Rightarrow> None))"

fun read_lines :: "nat \<Rightarrow> nat \<Rightarrow> string \<Rightarrow> string list list option" where
  "read_lines n 0 s = (if s = [] then Some [] else None)"
| "read_lines n (Suc k) s =
    (if s = [] then Some []
     else case read_cells n s of
       None \<Rightarrow> None
     | Some (cells, rest) \<Rightarrow> map_option (\<lambda>ls. cells # ls) (read_lines n k rest))"

text \<open>The reader of a whole text: no line has more cells, and no text more lines, than it has characters.\<close>

definition read_csv :: "string \<Rightarrow> string list list option" where
  "read_csv s = read_lines (length s) (length s) s"

section \<open>Round trip\<close>

lemma read_quoted_escaped:
  "rest = [] \<or> hd rest \<noteq> CHR 0x22 \<Longrightarrow>
    read_quoted (concat (map (\<lambda>c. if c = CHR 0x22 then [c, c] else [c]) t) @ CHR 0x22 # rest) = Some (t, rest)"
  by (induction t) (auto split: list.split)

text \<open>The text of a cell is followed by a comma or a CR.\<close>

definition ends_cell :: "string \<Rightarrow> bool" where
  "ends_cell rest \<longleftrightarrow> rest \<noteq> [] \<and> (hd rest = CHR '','' \<or> hd rest = CHR 0x0D)"

text \<open>What the writer leaves without quotes is text data.\<close>

lemma unquoted_textdata: "\<not> list_ex special_char t \<Longrightarrow> list_all textdata t"
  by (auto simp: list_ex_iff list_all_iff special_char_def textdata_def)

lemma span_plain: "list_all textdata t \<Longrightarrow> ends_cell rest \<Longrightarrow> plain_cell (t @ rest) = (t, rest)"
proof (induction t)
  case Nil
  then show ?case by (cases rest) (auto simp: plain_cell_def ends_cell_def textdata_def)
qed (auto simp: plain_cell_def)

lemma read_cell_quoted: "ends_cell rest \<Longrightarrow> read_cell (quoted t @ rest) = Some (t, rest)"
proof (cases "list_ex special_char t")
  case True
  assume "ends_cell rest"
  then have "rest = [] \<or> hd rest \<noteq> CHR 0x22" by (auto simp: ends_cell_def)
  with True show ?thesis by (simp add: quoted_def read_cell_def read_quoted_escaped)
next
  case False
  assume e: "ends_cell rest"
  have data: "list_all textdata t" using False by (rule unquoted_textdata)
  then have plain: "read_cell (t @ rest) = Some (plain_cell (t @ rest))"
    using e by (cases t; cases rest) (auto simp: read_cell_def ends_cell_def textdata_def)
  from False show ?thesis by (simp add: plain span_plain[OF data e] quoted_def)
qed

lemma read_joined:
  "cells \<noteq> [] \<Longrightarrow> length cells \<le> n \<Longrightarrow>
    read_cells n (comma_joined (map quoted cells) @ CHR 0x0D # CHR 0x0A # rest) = Some (cells, rest)"
proof (induction cells arbitrary: n)
  case (Cons t cells)
  then obtain k where n: "n = Suc k" by (cases n) auto
  show ?case
  proof (cases cells)
    case Nil
    then show ?thesis by (simp add: n read_cell_quoted ends_cell_def)
  next
    case (Cons u us)
    with Cons.IH[of k] Cons.prems n show ?thesis by (simp add: read_cell_quoted ends_cell_def)
  qed
qed simp

lemma read_lines_written:
  assumes "\<And>l. l \<in> set lines \<Longrightarrow> l \<noteq> [] \<and> length l \<le> n"
  shows "length lines \<le> k \<Longrightarrow> read_lines n k (concat (map (\<lambda>l. csv_line (map quoted l)) lines)) = Some lines"
  using assms
proof (induction lines arbitrary: k)
  case Nil
  then show ?case by (cases k) simp_all
next
  case (Cons l ls)
  then obtain j where k: "k = Suc j" by (cases k) auto
  have "read_cells n (comma_joined (map quoted l) @ CHR 0x0D # CHR 0x0A #
      concat (map (\<lambda>l. csv_line (map quoted l)) ls)) = Some (l, concat (map (\<lambda>l. csv_line (map quoted l)) ls))"
    using Cons.prems(2)[of l] by (intro read_joined) auto
  moreover have "read_lines n j (concat (map (\<lambda>l. csv_line (map quoted l)) ls)) = Some ls"
    using Cons.prems k by (intro Cons.IH) auto
  ultimately show ?case by (simp add: k csv_line_def)
qed

lemma length_csv_line: "length cells + 1 \<le> length (csv_line cells)" if "cells \<noteq> []"
proof -
  have "length cells \<le> length (comma_joined cells) + 1"
    by (induction cells rule: comma_joined.induct) auto
  then show ?thesis by (simp add: csv_line_def)
qed

lemma length_lines:
  "(\<And>l. l \<in> set lines \<Longrightarrow> l \<noteq> []) \<Longrightarrow> length lines \<le> length (concat (map csv_line lines)) \<and>
    (\<forall>l \<in> set lines. length l \<le> length (concat (map csv_line lines)))"
proof (induction lines)
  case (Cons l ls)
  then have "length ls \<le> length (concat (map csv_line ls))"
    "\<And>m. m \<in> set ls \<Longrightarrow> length m \<le> length (concat (map csv_line ls))" by auto
  with length_csv_line[of l] Cons.prems show ?case by (fastforce intro: trans_le_add2)
qed simp

lemma read_csv_written:
  assumes "\<And>l. l \<in> set lines \<Longrightarrow> l \<noteq> []"
  shows "read_csv (concat (map (\<lambda>l. csv_line (map quoted l)) lines)) = Some lines"
proof -
  have "length (map (map quoted) lines) \<le> length (concat (map csv_line (map (map quoted) lines))) \<and>
      (\<forall>l \<in> set (map (map quoted) lines). length l \<le> length (concat (map csv_line (map (map quoted) lines))))"
    using assms by (intro length_lines) auto
  then show ?thesis
    unfolding read_csv_def using assms by (intro read_lines_written) (auto simp: comp_def)
qed

lemma csvCell_eq: "csvCell = (\<lambda>v. quoted (cell_text v))"
  by (simp add: fun_eq_iff csvCell_def)

text \<open>What a program that reads CSV finds in the exported file.\<close>

lemma read_csv_exported:
  "read_csv (toCsv rows) = Some (CSV_COLUMNS # map (\<lambda>r. map cell_text (csv_row r)) rows)"
proof -
  have "map quoted CSV_COLUMNS = CSV_COLUMNS" by code_simp
  then have "toCsv rows = concat (map (\<lambda>l. csv_line (map quoted l)) (CSV_COLUMNS # map (\<lambda>r. map cell_text (csv_row r)) rows))"
    by (simp add: toCsv_def csvCell_eq comp_def)
  then show ?thesis
    by (simp only:) (rule read_csv_written, auto simp: CSV_COLUMNS_def csv_row_def)
qed

section \<open>No formulas\<close>

text \<open>
  What the export promises of a cell, written without the writer's functions: the first characters that make
  spreadsheet programs evaluate a cell, and the text a reader must find for a value.
\<close>

definition FORMULA_STARTS :: "char list" where
  "FORMULA_STARTS = [CHR ''='', CHR ''+'', CHR ''-'', CHR ''@'', CHR 0x09, CHR 0x0D]"

definition evaluated :: "string \<Rightarrow> bool" where
  "evaluated t \<longleftrightarrow> t \<noteq> [] \<and> hd t \<in> set FORMULA_STARTS"

definition shown_cell :: "csv_value \<Rightarrow> string" where
  "shown_cell v = (case v of CNull \<Rightarrow> '''' | CNumber i \<Rightarrow> show_int i
     | CText t \<Rightarrow> if evaluated t then CHR 0x27 # t else t)"

lemma cell_text_shown: "cell_text v = shown_cell v"
  by (cases v) (auto simp: shown_cell_def guarded_def evaluated_def formula_char_def FORMULA_STARTS_def split: list.split)

lemma shown_text_not_evaluated: "\<not> evaluated (shown_cell (CText t))"
  by (auto simp: shown_cell_def evaluated_def FORMULA_STARTS_def)

lemma show_nat_digits: "c \<in> set (show_nat n) \<Longrightarrow> c \<notin> set FORMULA_STARTS"
proof (induction n rule: show_nat.induct)
  case (1 n)
  have "digit_char k \<notin> set FORMULA_STARTS" if "k < 10" for k
  proof -
    have "k \<in> set [0..<10]" using that by simp
    then show ?thesis by (auto simp: upt_conv_Cons FORMULA_STARTS_def digit_char_def char_of_def)
  qed
  with 1 show ?case by (subst (asm) (2) show_nat.simps) (auto split: if_splits)
qed

text \<open>Only a negative number starts with a minus sign.\<close>

lemma cell_not_evaluated:
  assumes "evaluated (shown_cell v)"
  obtains i where "i < 0" "v = CNumber i"
proof (cases v)
  case (CNumber i)
  have "hd (show_nat n) \<notin> set FORMULA_STARTS" if "show_nat n \<noteq> []" for n
    by (rule show_nat_digits[of _ n]) (use that in simp)
  with assms have "i < 0" by (cases "i < 0") (auto simp: CNumber shown_cell_def evaluated_def show_int_def)
  then show thesis by (rule that) (rule CNumber)
qed (use assms shown_text_not_evaluated in \<open>auto simp: shown_cell_def evaluated_def\<close>)

end
