(* ===== verification/Meta_Client.thy ===== *)
theory Meta_Client
  imports Log_Sanitize Csv Razorpay_Gateway
begin

text \<open>
  The client of the Meta WhatsApp Cloud API (\<open>providers/meta/whatsapp.client.ts\<close>): what an answer means, when a
  request is sent again, and the signature of the webhook. The transport is a parameter: the answer to every
  try. The codes of errors are integers, as Meta documents them.
\<close>

datatype fetched = Timed_out | Unreachable | Answered nat "json option"

record meta_error =
  me_message :: js_text
  me_code :: "int option"
  me_retryable :: bool

definition RETRYABLE_CODES :: "int list" where
  "RETRYABLE_CODES = [2, 4, 80007, 130429, 131000, 131016, 131056]"

definition RATE_LIMIT_CODES :: "int list" where
  "RATE_LIMIT_CODES = [4, 80007, 130429, 131056]"

definition me_rateLimited :: "meta_error \<Rightarrow> bool" where
  "me_rateLimited e = (case me_code e of None \<Rightarrow> False | Some c \<Rightarrow> List.member RATE_LIMIT_CODES c)"

text \<open>\<open>isRecord(value) ? value : {}\<close> and the member of a record.\<close>

definition record_of :: "json option \<Rightarrow> json_object" where
  "record_of j = (case j of Some (JObject m) \<Rightarrow> m | _ \<Rightarrow> [])"

definition member_of :: "json_object \<Rightarrow> string \<Rightarrow> json option" where
  "member_of m k = map_of m (units k)"

definition text_of :: "json option \<Rightarrow> js_text option" where
  "text_of j = (case j of Some (JString t) \<Rightarrow> Some t | _ \<Rightarrow> None)"

definition number_in :: "json option \<Rightarrow> int option" where
  "number_in j = (case j of Some (JInt n) \<Rightarrow> Some n | _ \<Rightarrow> None)"

definition list_of :: "json option \<Rightarrow> json list" where
  "list_of j = (case j of Some (JArray js) \<Rightarrow> js | _ \<Rightarrow> [])"

text \<open>\<open>toWhatsAppNumber\<close>\<close>

definition toWhatsAppNumber :: "js_text \<Rightarrow> js_text" where
  "toWhatsAppNumber e164 = filter is_digit e164"

text \<open>\<open>replace(/^\(#\d+\)\s*/, '')\<close>\<close>

definition strip_code :: "js_text \<Rightarrow> js_text" where
  "strip_code t =
    (let digits = takeWhile is_digit (drop 2 t); rest = drop (2 + length digits) t
     in if take 2 t = units ''(#'' \<and> digits \<noteq> [] \<and> take 1 rest = units '')'' then dropWhile is_white (drop 1 rest) else t)"

text \<open>\<open>parts.filter(Boolean).join(' -- ')\<close> with an em dash.\<close>

fun dashed :: "js_text list \<Rightarrow> js_text" where
  "dashed [] = []"
| "dashed [t] = t"
| "dashed (t # ts) = t @ [32, 8212, 32] @ dashed ts"

definition given_texts :: "js_text option list \<Rightarrow> js_text list" where
  "given_texts ts = filter (\<lambda>t. t \<noteq> []) (List.map_filter id ts)"

text \<open>\<open>[E<code>] \<close>, which survives the masking of digits.\<close>

definition code_prefix :: "int option \<Rightarrow> js_text" where
  "code_prefix code = (case code of None \<Rightarrow> [] | Some c \<Rightarrow> units (''[E'' @ show_int c @ ''] ''))"

definition refusal :: "nat \<Rightarrow> json option \<Rightarrow> meta_error" where
  "refusal status body =
    (let error = record_of (member_of (record_of body) ''error'');
         code = number_in (member_of error ''code'');
         details = text_of (member_of (record_of (member_of error ''error_data'')) ''details'');
         title = text_of (member_of error ''message'');
         text = dashed (given_texts [map_option strip_code title, details])
     in \<lparr>me_message = code_prefix code @
           (if text = [] then units (''Meta answered HTTP '' @ show_nat status) else text),
         me_code = code,
         me_retryable = (case code of Some c \<Rightarrow> List.member RETRYABLE_CODES c
           | None \<Rightarrow> 500 \<le> status \<or> status = 429)\<rparr>)"

definition no_answer :: "string \<Rightarrow> meta_error" where
  "no_answer t = \<lparr>me_message = units t, me_code = None, me_retryable = False\<rparr>"

definition first_message_id :: "json option \<Rightarrow> js_text" where
  "first_message_id body =
    (case list_of (member_of (record_of body) ''messages'') of
       JObject m # _ \<Rightarrow> (case text_of (member_of m ''id'') of Some i \<Rightarrow> i | None \<Rightarrow> [])
     | _ \<Rightarrow> [])"

definition attempt :: "fetched \<Rightarrow> meta_error + js_text" where
  "attempt f =
    (case f of
       Timed_out \<Rightarrow> Inl (no_answer ''Meta did not answer in time'')
     | Unreachable \<Rightarrow> Inl (no_answer ''Meta could not be reached'')
     | Answered status body \<Rightarrow>
         if \<not> (200 \<le> status \<and> status < 300) \<or> member_of (record_of body) ''error'' \<noteq> None then Inl (refusal status body)
         else if first_message_id body = [] then Inl (no_answer ''Meta accepted the request without a message ID'')
         else Inr (first_message_id body))"

text \<open>The tries of one message, and how many there were.\<close>

function send_tries :: "(nat \<Rightarrow> fetched) \<Rightarrow> nat \<Rightarrow> nat \<Rightarrow> (meta_error + js_text) \<times> nat" where
  "send_tries fetch maxAttempts tries =
    (case attempt (fetch tries) of
       Inr i \<Rightarrow> (Inr i, tries)
     | Inl e \<Rightarrow> if me_retryable e \<and> tries < maxAttempts then send_tries fetch maxAttempts (Suc tries)
         else (Inl e, tries))"
  by auto

termination by (relation "measure (\<lambda>(fetch, maxAttempts, tries). maxAttempts - tries)") auto

declare send_tries.simps [simp del]

definition sendTemplate :: "(nat \<Rightarrow> fetched) \<Rightarrow> nat \<Rightarrow> (meta_error + js_text) \<times> nat" where
  "sendTemplate fetch maxAttempts = send_tries fetch maxAttempts 1"

section \<open>The signature of the webhook\<close>

definition is_hex_i :: "char \<Rightarrow> bool" where "is_hex_i c \<longleftrightarrow> hex_value c \<noteq> None"

definition verifyMetaSignature ::
    "(string \<Rightarrow> string \<Rightarrow> string) \<Rightarrow> string \<Rightarrow> string option \<Rightarrow> string \<Rightarrow> bool" where
  "verifyMetaSignature hmac rawBody header appSecret =
    (case header of
       None \<Rightarrow> False
     | Some h \<Rightarrow> take 7 h = ''sha256='' \<and> length (drop 7 h) = 64 \<and> list_all is_hex_i (drop 7 h) \<and>
         hex_decode (hmac appSecret rawBody) = hex_decode (drop 7 h))"

definition signMetaBody :: "(string \<Rightarrow> string \<Rightarrow> string) \<Rightarrow> string \<Rightarrow> string \<Rightarrow> string" where
  "signMetaBody hmac rawBody appSecret = ''sha256='' @ hmac appSecret rawBody"

lemma lower_hex_is_hex: "lower_hex c \<Longrightarrow> is_hex_i c"
  by (auto simp: lower_hex_def is_hex_i_def Let_def)

lemma own_signature_verifies:
  "is_hex64 (hmac secret body) \<Longrightarrow> verifyMetaSignature hmac body (Some (signMetaBody hmac body secret)) secret"
  by (auto simp: verifyMetaSignature_def signMetaBody_def is_hex64_def list_all_iff dest: lower_hex_is_hex)

section \<open>A message is not sent twice\<close>

text \<open>Meta has said itself that it did not send the message and that it may be sent again.\<close>

definition refused_for_now :: "fetched \<Rightarrow> bool" where
  "refused_for_now f \<longleftrightarrow> (\<exists>status body. f = Answered status body \<and> attempt f = Inl (refusal status body) \<and>
    me_retryable (refusal status body))"

lemma retryable_refused: "attempt f = Inl e \<Longrightarrow> me_retryable e \<Longrightarrow> refused_for_now f"
  by (cases f) (auto simp: attempt_def no_answer_def refused_for_now_def split: if_splits)

lemma tries_run:
  "send_tries fetch m k = (r, n) \<Longrightarrow> k \<le> n \<and> n \<le> max k m \<and> r = attempt (fetch n) \<and> (\<forall>i. k \<le> i \<and> i < n \<longrightarrow> refused_for_now (fetch i))"
proof (induction fetch m k rule: send_tries.induct)
  case (1 fetch m k)
  show ?case
  proof (cases "attempt (fetch k)")
    case (Inr i)
    with 1(2) show ?thesis by (auto simp: send_tries.simps[of fetch m k])
  next
    case (Inl e)
    show ?thesis
    proof (cases "me_retryable e \<and> k < m")
      case False
      with 1(2) Inl show ?thesis by (auto simp: send_tries.simps[of fetch m k])
    next
      case True
      with 1(2) Inl have "send_tries fetch m (Suc k) = (r, n)" by (simp add: send_tries.simps[of fetch m k])
      note rest = 1(1)[OF Inl True this]
      have "refused_for_now (fetch i)" if "k \<le> i" "i < n" for i
        using that rest retryable_refused[OF Inl] True by (cases "i = k") auto
      with rest True show ?thesis by auto
    qed
  qed
qed

end
