(* ===== verification/Channels.thy ===== *)
theory Channels
  imports Meta_Client Back_Office
begin

text \<open>
  Notifications outside the app: SMS and WhatsApp (\<open>modules/notifications/channel-notifier.ts\<close>,
  \<open>providers/messaging\<close>), the history of their delivery (\<open>models/notification-delivery.model.ts\<close>) and the
  delivery reports of Meta (\<open>modules/whatsapp/whatsapp-webhook.service.ts\<close>, \<open>whatsapp-webhook.routes.ts\<close>).
  The service reads accounts and consents and writes only its own table, which is the state here, beside what
  has been handed to the providers.
\<close>

section \<open>Rows\<close>

datatype channel = Sms | Whatsapp

definition NOTIFICATION_CHANNELS :: "channel list" where "NOTIFICATION_CHANNELS = [Sms, Whatsapp]"

primrec channel_text :: "channel \<Rightarrow> string" where
  "channel_text Sms = ''sms''"
| "channel_text Whatsapp = ''whatsapp''"

datatype delivery_status = D_pending | D_sent | D_delivered | D_read | D_failed

record delivery =
  dl_id :: uuid
  dl_userId :: uuid
  dl_notificationId :: "uuid option"
  dl_notificationType :: notification_type
  dl_title :: js_text
  dl_message :: js_text
  dl_channel :: channel
  dl_recipient :: js_text
  dl_status :: delivery_status
  dl_provider :: string
  dl_providerMessageId :: "js_text option"
  dl_errorMessage :: "js_text option"
  dl_referenceKey :: js_text
  dl_sentAt :: "instant option"
  dl_deliveredAt :: "instant option"
  dl_readAt :: "instant option"
  dl_failedAt :: "instant option"

text \<open>The CHECK constraint and the sizes of the texts.\<close>

definition delivery_ok :: "delivery \<Rightarrow> bool" where
  "delivery_ok d \<longleftrightarrow> (dl_status d = D_failed \<longrightarrow> dl_errorMessage d \<noteq> None) \<and>
    length (dl_title d) \<le> 120 \<and> length (dl_message d) \<le> 500"

section \<open>Providers\<close>

record outbound =
  ob_type :: notification_type
  ob_to :: js_text
  ob_title :: js_text
  ob_text :: js_text
  ob_reference :: js_text

text \<open>\<open>send\<close> may answer differently every time: it sees how many messages were handed over before.\<close>

record provider =
  pv_name :: string
  pv_supports :: "notification_type \<Rightarrow> bool"
  pv_send :: "outbound \<Rightarrow> nat \<Rightarrow> js_text + js_text option"

definition createLogMessageProvider :: "(nat \<Rightarrow> uuid) \<Rightarrow> provider" where
  "createLogMessageProvider randomUUID =
    \<lparr>pv_name = ''log'', pv_supports = \<lambda>_. True,
      pv_send = \<lambda>m n. Inr (Some (units (''log-'' @ uuid_text (randomUUID n))))\<rparr>"

definition metaMessageRef :: "(js_text \<Rightarrow> js_text) \<Rightarrow> js_text \<Rightarrow> js_text" where
  "metaMessageRef sha256 messageId = sha256 messageId"

text \<open>The client answers a message, its template and its language with the error or the id of Meta.\<close>

definition createMetaWhatsAppMessageProvider ::
    "(js_text \<Rightarrow> js_text) \<Rightarrow> (js_text \<Rightarrow> js_text \<Rightarrow> js_text \<Rightarrow> nat \<Rightarrow> meta_error + js_text) \<Rightarrow>
      (notification_type \<Rightarrow> js_text option) \<Rightarrow> js_text \<Rightarrow> provider" where
  "createMetaWhatsAppMessageProvider sha256 client templates languageCode =
    \<lparr>pv_name = ''meta'', pv_supports = \<lambda>t. templates t \<noteq> None,
      pv_send = \<lambda>m n. (case templates (ob_type m) of
          None \<Rightarrow> Inl (units ''No WhatsApp template for this notification type'')
        | Some template \<Rightarrow> (case client (ob_to m) template languageCode n of
            Inl e \<Rightarrow> Inl (me_message e)
          | Inr messageId \<Rightarrow> Inr (Some (metaMessageRef sha256 messageId))))\<rparr>"

section \<open>The templates of the configuration\<close>

definition notification_type_texts :: "(string \<times> notification_type) list" where
  "notification_type_texts = [(''interest_received'', Interest_received), (''interest_accepted'', Interest_accepted),
    (''match_created'', Match_created), (''new_message'', New_message),
    (''verification_completed'', Verification_completed), (''event_reminder'', Event_reminder),
    (''safety'', Safety_notice), (''booking'', Booking_notice)]"

definition type_named :: "js_text \<Rightarrow> notification_type option" where
  "type_named t = map_of (map (\<lambda>(k, v). (units k, v)) notification_type_texts) t"

text \<open>Nothing stands for the error that stops the start.\<close>

definition template_pair ::
    "js_text \<Rightarrow> (notification_type \<Rightarrow> js_text option) \<Rightarrow> (notification_type \<Rightarrow> js_text option) option" where
  "template_pair pair templates =
    (let parts = map js_trim (split_at 58 pair);
         named = hd parts; template = (if length parts < 2 then [] else parts ! 1)
     in if named = [] \<and> template = [] then Some templates
        else if named = [] \<or> template = [] then None
        else case type_named named of
          None \<Rightarrow> None
        | Some t \<Rightarrow> Some (templates(t \<mapsto> template)))"

definition parseTemplateMap :: "js_text option \<Rightarrow> (notification_type \<Rightarrow> js_text option) option" where
  "parseTemplateMap v =
    fold (\<lambda>pair found. Option.bind found (template_pair pair)) (split_at 44 (case v of None \<Rightarrow> [] | Some t \<Rightarrow> t))
      (Some (\<lambda>_. None))"

text \<open>The provider of each channel. \<open>Some None\<close> is a channel that is off; nothing is an error at the start.\<close>

definition createMessageProviders ::
    "bool \<Rightarrow> bool \<Rightarrow> bool \<Rightarrow> provider \<Rightarrow> provider option \<Rightarrow> (channel \<Rightarrow> provider option) option" where
  "createMessageProviders smsEnabled whatsappEnabled logProvider logging meta =
    (if logProvider then Some (\<lambda>c. case c of
        Sms \<Rightarrow> if smsEnabled then Some logging else None
      | Whatsapp \<Rightarrow> if whatsappEnabled then Some logging else None)
     else if whatsappEnabled \<and> meta = None then None
     else Some (\<lambda>c. if c = Whatsapp \<and> whatsappEnabled then meta else None))"

section \<open>The notifier\<close>

record channel_message =
  cm_userId :: uuid
  cm_type :: notification_type
  cm_title :: js_text
  cm_message :: js_text
  cm_referenceId :: js_text
  cm_notificationId :: "uuid option"

datatype delivery_outcome = Sent | Failed | Skipped

definition APP_NAME :: string where "APP_NAME = ''GarbaMates''"

primrec channel_wording :: "notification_type \<Rightarrow> string \<times> string" where
  "channel_wording Interest_received =
    (''New interest'', ''someone would like to be your Garba partner. Open the app to respond.'')"
| "channel_wording Interest_accepted =
    (''Interest accepted'', ''your interest was accepted. Open the app to start chatting.'')"
| "channel_wording Match_created = (''New match'', ''you have a new Garba match. Open the app to say hello.'')"
| "channel_wording New_message = (''New message'', ''you have new messages. Open the app to read them.'')"
| "channel_wording Verification_completed =
    (''Verification update'', ''your verification has been reviewed. Open the app to see the result.'')"
| "channel_wording Event_reminder =
    (''Event reminder'', ''an event you are going to starts soon. Open the app for details.'')"
| "channel_wording Safety_notice =
    (''Account notice'', ''there is an important notice about your account. Open the app to read it.'')"
| "channel_wording Booking_notice =
    (''Pass update'', ''there is an update on your event pass. Open the app to see it.'')"

definition channelTextFor :: "notification_type \<Rightarrow> js_text \<times> js_text" where
  "channelTextFor t = (units (fst (channel_wording t)), units (APP_NAME @ '': '' @ snd (channel_wording t)))"

record delivery_state =
  dv_rows :: "delivery list"
  dv_handed :: "(channel \<times> outbound) list"

text \<open>The channels that are on, and the decryption of stored numbers, which may fail.\<close>

record notifier =
  nt_providers :: "channel \<Rightarrow> provider option"
  nt_decrypt :: "string \<Rightarrow> js_text option"

definition phoneOf :: "notifier \<Rightarrow> db \<Rightarrow> uuid \<Rightarrow> js_text option option" where
  "phoneOf nt s userId =
    (case find_row users_table (\<lambda>u. u_id u = userId \<and> u_deletedAt u = None \<and>
        (u_status u = U_active \<or> u_status u = U_suspended)) s of
       None \<Rightarrow> Some None
     | Some u \<Rightarrow> (case u_phoneEncrypted u of
         None \<Rightarrow> Some None
       | Some e \<Rightarrow> if e = [] then Some None else map_option Some (nt_decrypt nt e)))"

definition consented :: "db \<Rightarrow> channel \<Rightarrow> uuid \<Rightarrow> bool" where
  "consented s c userId =
    (c \<noteq> Whatsapp \<or> (case by_key notif_prefs_table userId s of None \<Rightarrow> False | Some p \<Rightarrow> np_whatsappOptIn p))"

definition reference_key :: "channel_message \<Rightarrow> channel \<Rightarrow> js_text" where
  "reference_key m c = cm_referenceId m @ units '':'' @ units (channel_text c)"

definition claim_row :: "provider \<Rightarrow> channel \<Rightarrow> channel_message \<Rightarrow> js_text \<Rightarrow> uuid \<Rightarrow> delivery" where
  "claim_row p c m phone i =
    \<lparr>dl_id = i, dl_userId = cm_userId m, dl_notificationId = cm_notificationId m, dl_notificationType = cm_type m,
      dl_title = take 120 (cm_title m), dl_message = take 500 (cm_message m), dl_channel = c,
      dl_recipient = mask_logged_phone phone, dl_status = D_pending, dl_provider = pv_name p,
      dl_providerMessageId = None, dl_errorMessage = None, dl_referenceKey = reference_key m c, dl_sentAt = None,
      dl_deliveredAt = None, dl_readAt = None, dl_failedAt = None\<rparr>"

definition update_delivery :: "uuid \<Rightarrow> (delivery \<Rightarrow> delivery) \<Rightarrow> delivery_state \<Rightarrow> delivery_state" where
  "update_delivery i f st = st\<lparr>dv_rows := map (\<lambda>d. if dl_id d = i then f d else d) (dv_rows st)\<rparr>"

definition or_unknown :: "js_text \<Rightarrow> js_text" where
  "or_unknown e = (if e = [] then units ''Unknown provider error'' else e)"

text \<open>The row is inserted before anything is sent; a key that exists stops here. \<open>i\<close> is the new id.\<close>

definition attempt_send ::
    "provider \<Rightarrow> channel \<Rightarrow> channel_message \<Rightarrow> js_text \<Rightarrow> uuid \<Rightarrow> instant \<Rightarrow> delivery_state \<Rightarrow> delivery_outcome \<times> delivery_state" where
  "attempt_send p c m phone i t st =
    (if \<not> pv_supports p (cm_type m) then (Skipped, st)
     else if list_ex (\<lambda>d. dl_referenceKey d = reference_key m c) (dv_rows st) then (Skipped, st)
     else
       let out = \<lparr>ob_type = cm_type m, ob_to = phone, ob_title = cm_title m, ob_text = cm_message m,
             ob_reference = reference_key m c\<rparr>;
           claimed = st\<lparr>dv_rows := dv_rows st @ [claim_row p c m phone i], dv_handed := dv_handed st @ [(c, out)]\<rparr>
       in case pv_send p out (length (dv_handed st)) of
            Inr providerMessageId \<Rightarrow> (Sent, update_delivery i
              (\<lambda>d. d\<lparr>dl_status := D_sent, dl_sentAt := Some t, dl_providerMessageId := providerMessageId\<rparr>) claimed)
          | Inl e \<Rightarrow> (Failed, update_delivery i
              (\<lambda>d. d\<lparr>dl_status := D_failed, dl_errorMessage := Some (or_unknown (sanitizeLogText e 300))\<rparr>) claimed))"

text \<open>The id of a new row: the database makes it.\<close>

definition new_delivery_id :: "delivery_state \<Rightarrow> uuid" where
  "new_delivery_id st = Suc (fold max (map dl_id (dv_rows st)) 0)"

text \<open>\<open>known\<close> is the number that was looked up before, if it was; a number that cannot be decrypted is a failure.\<close>

definition send_over ::
    "notifier \<Rightarrow> db \<Rightarrow> channel \<Rightarrow> channel_message \<Rightarrow> js_text option option \<Rightarrow> delivery_state \<Rightarrow> delivery_outcome \<times> delivery_state" where
  "send_over nt s c m known st =
    (case nt_providers nt c of
       None \<Rightarrow> (Skipped, st)
     | Some p \<Rightarrow>
         if \<not> consented s c (cm_userId m) then (Skipped, st)
         else (case (case known of None \<Rightarrow> phoneOf nt s (cm_userId m) | Some ph \<Rightarrow> Some ph) of
             None \<Rightarrow> (Failed, st)
           | Some None \<Rightarrow> (Skipped, st)
           | Some (Some phone) \<Rightarrow> if phone = [] then (Skipped, st)
               else attempt_send p c m phone (new_delivery_id st) (clock s) st))"

definition sendSMS :: "notifier \<Rightarrow> db \<Rightarrow> channel_message \<Rightarrow> delivery_state \<Rightarrow> delivery_outcome \<times> delivery_state" where
  "sendSMS nt s m st = send_over nt s Sms m None st"

definition sendWhatsApp :: "notifier \<Rightarrow> db \<Rightarrow> channel_message \<Rightarrow> delivery_state \<Rightarrow> delivery_outcome \<times> delivery_state" where
  "sendWhatsApp nt s m st = send_over nt s Whatsapp m None st"

definition enabled_channels :: "notifier \<Rightarrow> channel list" where
  "enabled_channels nt = filter (\<lambda>c. nt_providers nt c \<noteq> None) NOTIFICATION_CHANNELS"

fun send_each ::
    "notifier \<Rightarrow> db \<Rightarrow> channel_message \<Rightarrow> js_text option \<Rightarrow> channel list \<Rightarrow> delivery_state \<Rightarrow>
      (channel \<times> delivery_outcome) list \<times> delivery_state" where
  "send_each nt s m phone [] st = ([], st)"
| "send_each nt s m phone (c # cs) st =
    (case send_over nt s c m (Some phone) st of (o1, st1) \<Rightarrow>
       (case send_each nt s m phone cs st1 of (os, st2) \<Rightarrow> ((c, o1) # os, st2)))"

definition sendNotification ::
    "notifier \<Rightarrow> db \<Rightarrow> channel_message \<Rightarrow> delivery_state \<Rightarrow> (channel \<times> delivery_outcome) list \<times> delivery_state" where
  "sendNotification nt s m st =
    (if enabled_channels nt = [] then ([], st)
     else case phoneOf nt s (cm_userId m) of
       None \<Rightarrow> (map (\<lambda>c. (c, Failed)) (enabled_channels nt), st)
     | Some phone \<Rightarrow> send_each nt s m phone (enabled_channels nt) st)"

definition message_for :: "notification \<Rightarrow> channel_message" where
  "message_for n =
    \<lparr>cm_userId = n_userId n, cm_type = n_type n, cm_title = fst (channelTextFor (n_type n)),
      cm_message = snd (channelTextFor (n_type n)), cm_referenceId = units (uuid_text (n_id n)),
      cm_notificationId = Some (n_id n)\<rparr>"

definition deliver :: "notifier \<Rightarrow> db \<Rightarrow> notification list \<Rightarrow> delivery_state \<Rightarrow> delivery_state" where
  "deliver nt s ns st = fold (\<lambda>n st. snd (sendNotification nt s (message_for n) st)) ns st"

end
