(* ===== verification/Cursors.thy ===== *)
theory Cursors
  imports Schemas_Admin Csv "HOL-Library.Countable"
begin

text \<open>
  The texts of the cursors clients send back (\<open>lib/pagination.ts\<close> and the services with a cursor of their own):
  how they are written, and what is checked when they are read. A cursor is JSON in base64url; that codec and the
  ISO texts of instants are parameters.
\<close>

record cursor_lib =
  cl_write :: "json \<Rightarrow> js_text"
  cl_read :: "js_text \<Rightarrow> json option"
  cl_iso :: "instant \<Rightarrow> js_text"
  cl_date :: "js_text \<Rightarrow> instant option"

text \<open>What the codec promises: reading undoes writing. An ISO text has 24 or 27 characters.\<close>

definition codec_ok :: "cursor_lib \<Rightarrow> bool" where
  "codec_ok cl \<longleftrightarrow> (\<forall>j. cl_read cl (cl_write cl j) = Some j) \<and>
    (\<forall>t. cl_date cl (cl_iso cl t) = Some t \<and> length (cl_iso cl t) \<le> 30)"

definition id_text :: "uuid \<Rightarrow> js_text" where "id_text i = units (uuid_text i)"

definition bad_cursor :: failure where "bad_cursor = App VALIDATION_ERROR"

definition as_cursor :: "'a option \<Rightarrow> failure + 'a" where
  "as_cursor v = (case v of None \<Rightarrow> Inl bad_cursor | Some x \<Rightarrow> Inr x)"

section \<open>By time and id\<close>

definition encodeCursor :: "cursor_lib \<Rightarrow> cursor \<Rightarrow> js_text" where
  "encodeCursor cl c = cl_write cl (JObject [(units ''createdAt'', JString (cl_iso cl (fst c))), (units ''id'', JString (id_text (snd c)))])"

definition decodeCursor :: "cursor_lib \<Rightarrow> js_text \<Rightarrow> failure + cursor" where
  "decodeCursor cl text = as_cursor (do {
     m \<leftarrow> (case cl_read cl text of Some (JObject m) \<Rightarrow> Some m | _ \<Rightarrow> None);
     at \<leftarrow> needs ''createdAt'' (transform js_string (cl_date cl)) m;
     i \<leftarrow> needs ''id'' (transform js_string uuid_of_text) m;
     Some (at, i) })"

section \<open>By a named sort\<close>

text \<open>The value of the sort key as it stands in the cursor.\<close>

definition encodeSortCursor :: "cursor_lib \<Rightarrow> string \<Rightarrow> js_text \<Rightarrow> uuid \<Rightarrow> js_text" where
  "encodeSortCursor cl sorting v i = cl_write cl (JArray [JString (units sorting), JString v, JString (id_text i)])"

definition read_sort_cursor :: "cursor_lib \<Rightarrow> string \<Rightarrow> (js_text \<Rightarrow> 'k option) \<Rightarrow> js_text \<Rightarrow> failure + 'k \<times> uuid" where
  "read_sort_cursor cl sorting key text =
    (case cl_read cl text of
       Some (JArray [JString cursorSort, JString v, JString i]) \<Rightarrow>
         if cursorSort \<noteq> units sorting \<or> 300 < length v then Inl bad_cursor
         else (case (uuid_of_text i, key v) of
             (Some u, Some k) \<Rightarrow> Inr (k, u)
           | _ \<Rightarrow> Inl bad_cursor)
     | _ \<Rightarrow> Inl bad_cursor)"

section \<open>Of the reports queue, of discovery and of the dashboard\<close>

text \<open>The queue: priority, time and id, kept as the key of \<open>queue_key\<close>.\<close>

definition encodeQueueCursor :: "cursor_lib \<Rightarrow> report \<Rightarrow> js_text" where
  "encodeQueueCursor cl r = cl_write cl (JArray
    [JInt (int (rp_priority r)), JString (cl_iso cl (rp_createdAt r)), JString (id_text (rp_id r))])"

definition decodeQueueCursor :: "cursor_lib \<Rightarrow> js_text \<Rightarrow> failure + int \<times> int \<times> int" where
  "decodeQueueCursor cl text =
    (case cl_read cl text of
       Some (JArray [JInt priority, JString createdAt, JString i]) \<Rightarrow>
         (case (cl_date cl createdAt, uuid_of_text i) of
            (Some t, Some u) \<Rightarrow> if 0 \<le> priority \<and> priority \<le> 2 then Inr (- priority, - t, - int u) else Inl bad_cursor
          | _ \<Rightarrow> Inl bad_cursor)
     | _ \<Rightarrow> Inl bad_cursor)"

definition is_rank_key :: "int \<Rightarrow> bool" where "is_rank_key n \<longleftrightarrow> 0 \<le> n \<and> n \<le> 1000000"

definition write_partner_cursor :: "cursor_lib \<Rightarrow> partner_cursor \<Rightarrow> js_text" where
  "write_partner_cursor cl c = (case c of (score, day, i) \<Rightarrow> cl_write cl (JArray [JInt score, JInt day, JString (id_text i)]))"

definition decodePartnerCursor :: "cursor_lib \<Rightarrow> js_text \<Rightarrow> failure + partner_cursor" where
  "decodePartnerCursor cl text =
    (case cl_read cl text of
       Some (JArray [JInt score, JInt day, JString i]) \<Rightarrow>
         (case uuid_of_text i of
            Some u \<Rightarrow> if is_rank_key score \<and> is_rank_key day then Inr (score, day, u) else Inl bad_cursor
          | None \<Rightarrow> Inl bad_cursor)
     | _ \<Rightarrow> Inl bad_cursor)"

text \<open>A text of the form of a date that is no date passes the check and fails in the database.\<close>

definition date_shape :: "js_text \<Rightarrow> bool" where
  "date_shape t \<longleftrightarrow> length t = 10 \<and> list_all is_digit (take 4 t @ take 2 (drop 5 t) @ drop 8 t) \<and> t ! 4 = 45 \<and> t ! 7 = 45"

definition sql_date :: "js_text \<Rightarrow> failure + date" where
  "sql_date t = (let d = (int (number_of (take 4 t)), int (number_of (take 2 (drop 5 t))), int (number_of (drop 8 t)))
    in if 1 \<le> fst d \<and> valid_date d then Inr d else Inl Unexpected_error)"

text \<open>Where the next page of the table of events starts: after the date and the id of the last row.\<close>

definition encodeEventCursor :: "cursor_lib \<Rightarrow> dash_event_row \<Rightarrow> js_text" where
  "encodeEventCursor cl r = cl_write cl
    (JArray [JString (units (show_date (dw_eventDate r))), JString (id_text (dw_id r))])"

definition decodeEventCursor :: "cursor_lib \<Rightarrow> js_text \<Rightarrow> failure + date \<times> uuid" where
  "decodeEventCursor cl text =
    (case cl_read cl text of
       Some (JArray (JString d # JString i # _)) \<Rightarrow>
         (case uuid_of_text i of
            Some u \<Rightarrow> if date_shape d then map_sum id (\<lambda>x. (x, u)) (sql_date d) else Inl bad_cursor
          | None \<Rightarrow> Inl bad_cursor)
     | _ \<Rightarrow> Inl bad_cursor)"

text \<open>\<open>query.cursor ?\<close>: no cursor, and an empty one, is the first page.\<close>

definition given_cursor :: "js_text option \<Rightarrow> (js_text \<Rightarrow> failure + 'k) \<Rightarrow> failure + 'k option" where
  "given_cursor c decode =
    (case c of None \<Rightarrow> Inr None | Some t \<Rightarrow> if t = [] then Inr None else map_sum id Some (decode t))"

section \<open>A cursor comes back as it went out\<close>

lemma hex_unit_char: "n < 16 \<Longrightarrow> hex_unit (of_char (hex_char n)) = Some n"
proof -
  have "list_all (\<lambda>n. hex_unit (of_char (hex_char n)) = Some n) [0..<16]" by code_simp
  then show "n < 16 \<Longrightarrow> hex_unit (of_char (hex_char n)) = Some n" by (simp add: list_all_iff)
qed

lemma hex_digits: "list_all (\<lambda>c. hex_unit c \<noteq> None) (units (hex_text k n))"
  by (induction k arbitrary: n) (auto simp: units_def hex_unit_char list_all_iff)

lemma length_hex_text [simp]: "length (hex_text k n) = k"
  by (induction k arbitrary: n) auto

lemma hyphen_no_hex: "hex_unit 45 = None"
  by (simp add: hex_unit_def)

definition hex_step :: "nat \<Rightarrow> code_unit \<Rightarrow> nat" where
  "hex_step n c = (case hex_unit c of None \<Rightarrow> n | Some d \<Rightarrow> n * 16 + d)"

lemma hex_step_char: "d < 16 \<Longrightarrow> hex_step n (of_char (hex_char d)) = n * 16 + d"
  by (simp add: hex_step_def hex_unit_char)

lemma hex_value_of: "foldl hex_step 0 (units (hex_text k n)) = n mod 16 ^ k"
proof (induction k arbitrary: n)
  case (Suc k)
  have "foldl hex_step 0 (units (hex_text (Suc k) n)) = hex_step (foldl hex_step 0 (units (hex_text k (n div 16)))) (of_char (hex_char (n mod 16)))"
    by (simp add: units_def)
  also have "\<dots> = (n div 16) mod 16 ^ k * 16 + n mod 16"
    by (simp only: Suc hex_step_char[of "n mod 16"] mod_less_divisor[of 16 n] zero_less_numeral)
  also have "\<dots> = n mod 16 ^ Suc k"
    by (simp add: mod_mult2_eq)
  finally show ?case .
qed (simp add: units_def)

lemma skip_hyphen: "foldl hex_step n (45 # t) = foldl hex_step n t"
  by (simp add: hex_step_def hyphen_no_hex)

lemma cut_text: "take 8 h @ take 4 (drop 8 h) @ take 4 (drop 12 h) @ take 4 (drop 16 h) @ drop 20 h = h"
proof -
  have "take 4 (drop 16 h) @ drop 20 h = drop 16 h" using append_take_drop_id[of 4 "drop 16 h"] by simp
  moreover have "take 4 (drop 12 h) @ drop 16 h = drop 12 h" using append_take_drop_id[of 4 "drop 12 h"] by simp
  moreover have "take 4 (drop 8 h) @ drop 12 h = drop 8 h" using append_take_drop_id[of 4 "drop 8 h"] by simp
  ultimately show ?thesis by simp
qed

lemma id_text_cut:
  "id_text i = (let h = units (hex_text 32 i) in
     take 8 h @ 45 # take 4 (drop 8 h) @ 45 # take 4 (drop 12 h) @ 45 # take 4 (drop 16 h) @ 45 # drop 20 h)"
  by (simp add: id_text_def uuid_text_def units_def Let_def take_map drop_map)

lemma id_text_value: "i < 16 ^ 32 \<Longrightarrow> foldl hex_step 0 (id_text i) = i"
proof -
  assume i: "i < 16 ^ 32"
  let ?h = "units (hex_text 32 i)"
  have "foldl hex_step 0 (id_text i) =
      foldl hex_step 0 (take 8 ?h @ take 4 (drop 8 ?h) @ take 4 (drop 12 ?h) @ take 4 (drop 16 ?h) @ drop 20 ?h)"
    unfolding id_text_cut Let_def foldl_append skip_hyphen ..
  also have "\<dots> = i"
    unfolding cut_text hex_value_of using i by (simp only: mod_less)
  finally show ?thesis .
qed

lemma uuid_shape_append: "length h = 32 \<Longrightarrow> list_all (\<lambda>c. hex_unit c \<noteq> None) h \<Longrightarrow>
    uuid_shape (take 8 h @ 45 # take 4 (drop 8 h) @ 45 # take 4 (drop 12 h) @ 45 # take 4 (drop 16 h) @ 45 # drop 20 h)"
proof -
  assume h: "length h = 32" "list_all (\<lambda>c. hex_unit c \<noteq> None) h"
  define f where "f = (!) h"
  have "h = map f [0..<32]" unfolding f_def using h(1) by (metis map_nth)
  moreover have "hex_unit (f k) \<noteq> None" if "k < 32" for k
    using h that unfolding f_def by (simp add: list_all_length)
  ultimately show ?thesis
    by (simp add: uuid_shape_def take_map drop_map upt_conv_Cons)
qed

lemma id_text_read: "i < 16 ^ 32 \<Longrightarrow> uuid_of_text (id_text i) = Some i"
proof -
  assume i: "i < 16 ^ 32"
  have "uuid_shape (id_text i)"
    unfolding id_text_cut Let_def by (rule uuid_shape_append) (rule trans[OF _ length_hex_text[of 32 i]], simp add: units_def, rule hex_digits)
  then show ?thesis
    using id_text_value[OF i] by (simp add: uuid_of_text_def hex_step_def[abs_def])
qed

lemma read_own:
  "codec_ok cl \<Longrightarrow> cl_read cl (cl_write cl j) = Some j" "codec_ok cl \<Longrightarrow> cl_date cl (cl_iso cl t) = Some t"
  "codec_ok cl \<Longrightarrow> length (cl_iso cl t) \<le> 30"
  by (simp_all add: codec_ok_def)

lemma decode_encode: "codec_ok cl \<Longrightarrow> snd c < 16 ^ 32 \<Longrightarrow> decodeCursor cl (encodeCursor cl c) = Inr c"
  by (simp add: decodeCursor_def encodeCursor_def read_own id_text_read needs_def transform_def js_string_def
      as_cursor_def units_def del: power_numeral)

lemma decode_encode_sorted:
  "codec_ok cl \<Longrightarrow> i < 16 ^ 32 \<Longrightarrow> length v \<le> 300 \<Longrightarrow> key v = Some k \<Longrightarrow>
    read_sort_cursor cl sorting key (encodeSortCursor cl sorting v i) = Inr (k, i)"
  by (simp add: read_sort_cursor_def encodeSortCursor_def read_own id_text_read del: power_numeral)

lemma decode_encode_queue:
  "codec_ok cl \<Longrightarrow> rp_id r < 16 ^ 32 \<Longrightarrow> rp_priority r \<le> 2 \<Longrightarrow>
    decodeQueueCursor cl (encodeQueueCursor cl r) = Inr (queue_key r)"
  by (simp add: decodeQueueCursor_def encodeQueueCursor_def read_own id_text_read queue_key_def del: power_numeral)

lemma decode_encode_partner:
  "codec_ok cl \<Longrightarrow> i < 16 ^ 32 \<Longrightarrow> is_rank_key score \<Longrightarrow> is_rank_key day \<Longrightarrow>
    decodePartnerCursor cl (write_partner_cursor cl (score, day, i)) = Inr (score, day, i)"
  by (simp add: decodePartnerCursor_def write_partner_cursor_def read_own id_text_read del: power_numeral)

text \<open>The date in the cursor of the table of events.\<close>

lemma digit_unit: "n < 10 \<Longrightarrow> of_char (digit_char n) = 48 + int n"
proof -
  have "list_all (\<lambda>n. of_char (digit_char n) = 48 + int n) [0..<10]" by code_simp
  then show "n < 10 \<Longrightarrow> of_char (digit_char n) = 48 + int n" by (simp add: list_all_iff)
qed

lemma two_digits_units: "units (two_digits n) = [48 + int (n div 10 mod 10), 48 + int (n mod 10)]"
  by (simp add: units_def two_digits_def digit_unit)

lemma units_date: "units (show_date (y, m, k)) =
    units (two_digits (nat y div 100)) @ units (two_digits (nat y)) @ 45 # units (two_digits (nat m)) @ 45 # units (two_digits (nat k))"
  by (simp add: show_date_def units_def)

lemma four_digits: "n < 10000 \<Longrightarrow>
    n div 100 div 10 mod 10 * 1000 + n div 100 mod 10 * 100 + n div 10 mod 10 * 10 + n mod 10 = (n :: nat)"
proof -
  assume n: "n < 10000"
  define a b c where "a = n div 10" and "b = a div 10" and "c = b div 10"
  have "n div 100 = b" unfolding a_def b_def by (simp flip: div_mult2_eq)
  moreover have "c < 10" using n unfolding a_def b_def c_def by (simp flip: div_mult2_eq) 
  moreover have "10 * a + n mod 10 = n" "10 * b + a mod 10 = a" "10 * c + b mod 10 = b"
    unfolding a_def b_def c_def by (simp_all only: mult_div_mod_eq)
  ultimately show ?thesis unfolding a_def[symmetric] by (simp flip: c_def)
qed

lemma date_comes_back:
  assumes "valid_date d" "1 \<le> fst d" "fst d \<le> 9999"
  shows "date_shape (units (show_date d))" "sql_date (units (show_date d)) = Inr d"
proof -
  obtain y m k where d: "d = (y, m, k)" by (cases d)
  have m: "1 \<le> m" "m \<le> 12" "1 \<le> k" "k \<le> 31" and y: "nat y < 10000" "0 \<le> y"
    using assms by (auto simp: d days_in_month_def split: if_splits)
  have two: "n < 100 \<Longrightarrow> n div 10 mod 10 * 10 + n mod 10 = n" for n :: nat using mult_div_mod_eq[of 10 n] by simp
  have nine: "n mod 10 \<le> 9" for n :: nat using mod_less_divisor[of 10 n] by linarith
  show "date_shape (units (show_date d))"
    by (simp add: date_shape_def d units_date two_digits_units is_digit_def nine)
  have "number_of (take 4 (units (show_date d))) = nat y"
    using four_digits[OF y(1)] by (simp add: number_of_def d units_date two_digits_units algebra_simps)
  moreover have "number_of (take 2 (drop 5 (units (show_date d)))) = nat m"
    "number_of (drop 8 (units (show_date d))) = nat k"
    using two[of "nat m"] two[of "nat k"] m by (simp_all add: number_of_def d units_date two_digits_units)
  ultimately show "sql_date (units (show_date d)) = Inr d"
    using assms m y by (simp add: sql_date_def Let_def d)
qed

lemma decode_encode_event:
  assumes "codec_ok cl" "dw_id r < 16 ^ 32" "valid_date (dw_eventDate r)" "1 \<le> fst (dw_eventDate r)" "fst (dw_eventDate r) \<le> 9999"
  shows "decodeEventCursor cl (encodeEventCursor cl r) = Inr (dw_eventDate r, dw_id r)"
  using date_comes_back[OF assms(3-5)] assms(1,2)
  by (simp add: decodeEventCursor_def encodeEventCursor_def read_own id_text_read del: power_numeral)

text \<open>
  C38. The cursor of every paginated list is read back as it was written: by time and id, of a named sort by a
  text or by an instant, of the reports queue, of discovery and of the table of events. A cursor of one
  named sort is refused for every other.
\<close>

theorem cursors_come_back:
  assumes "codec_ok cl" "i < 16 ^ 32" "length v \<le> 300" "is_rank_key score" "is_rank_key day"
    and "rp_id r = i" "rp_priority r \<le> 2" "sorting \<noteq> other"
    and "dw_id row = i" "valid_date (dw_eventDate row)" "1 \<le> fst (dw_eventDate row)" "fst (dw_eventDate row) \<le> 9999"
  shows "decodeCursor cl (encodeCursor cl (t, i)) = Inr (t, i) \<and>
    read_sort_cursor cl sorting Some (encodeSortCursor cl sorting v i) = Inr (v, i) \<and>
    read_sort_cursor cl sorting (cl_date cl) (encodeSortCursor cl sorting (cl_iso cl t) i) = Inr (t, i) \<and>
    read_sort_cursor cl other Some (encodeSortCursor cl sorting v i) = Inl (App VALIDATION_ERROR) \<and>
    read_sort_cursor cl other (cl_date cl) (encodeSortCursor cl sorting v i) = Inl (App VALIDATION_ERROR) \<and>
    decodeQueueCursor cl (encodeQueueCursor cl r) = Inr (queue_key r) \<and>
    decodePartnerCursor cl (write_partner_cursor cl (score, day, i)) = Inr (score, day, i) \<and>
    decodeEventCursor cl (encodeEventCursor cl row) = Inr (dw_eventDate row, i)"
proof (intro conjI)
  have "units sorting \<noteq> units other"
    using assms(8) by (auto simp: units_def inj_map_eq_map inj_def)
  then show "read_sort_cursor cl other Some (encodeSortCursor cl sorting v i) = Inl (App VALIDATION_ERROR)"
    "read_sort_cursor cl other (cl_date cl) (encodeSortCursor cl sorting v i) = Inl (App VALIDATION_ERROR)"
    by (simp_all add: read_sort_cursor_def encodeSortCursor_def read_own[OF assms(1)] bad_cursor_def)
  have "length (cl_iso cl t) \<le> 300" using read_own(3)[OF assms(1), of t] by simp
  then show "read_sort_cursor cl sorting (cl_date cl) (encodeSortCursor cl sorting (cl_iso cl t) i) = Inr (t, i)"
    using assms(1,2) by (intro decode_encode_sorted read_own)
  show "decodeEventCursor cl (encodeEventCursor cl row) = Inr (dw_eventDate row, i)"
    using decode_encode_event[of cl row] assms by (simp only:)
qed (use assms in \<open>simp_all only: decode_encode decode_encode_sorted decode_encode_queue decode_encode_partner snd_conv\<close>)

instance json :: countable
  by countable_datatype

definition numbered_codec :: cursor_lib where
  "numbered_codec = \<lparr>cl_write = (\<lambda>j. [int (to_nat j)]), cl_read = (\<lambda>t. Some (from_nat (nat (hd t)))),
    cl_iso = (\<lambda>t. [t]), cl_date = (\<lambda>t. Some (hd t))\<rparr>"

definition row_of_day :: "date \<Rightarrow> uuid \<Rightarrow> dash_event_row" where
  "row_of_day d i = \<lparr>dw_id = i, dw_name = ''Garba'', dw_eventDate = d, dw_city = ''Surat'', dw_status = E_published,
    dw_going = 0, dw_interested = 0, dw_lookingForPartner = 0, dw_matches = 0, dw_sales = None\<rparr>"

theorem cursors_come_back_witness:
  "decodeCursor numbered_codec (encodeCursor numbered_codec (5, 7)) = Inr (5, 7) \<and>
    read_sort_cursor numbered_codec ''name_asc'' Some (encodeSortCursor numbered_codec ''date_asc'' [1] 7) = Inl (App VALIDATION_ERROR) \<and>
    decodeEventCursor numbered_codec (encodeEventCursor numbered_codec (row_of_day (2026, 10, 12) 7)) = Inr ((2026, 10, 12), 7)"
proof -
  have codec: "codec_ok numbered_codec" by (simp add: codec_ok_def numbered_codec_def)
  have "is_rank_key 0" "(7 :: nat) < 16 ^ 32" by (simp_all add: is_rank_key_def)
  moreover have "valid_date (2026, 10, 12)" by code_simp
  ultimately show ?thesis
    using cursors_come_back[OF codec, of 7 "[1]" 0 0 "undefined\<lparr>rp_id := 7, rp_priority := 0\<rparr>" "''date_asc''" "''name_asc''"
      "row_of_day (2026, 10, 12) 7" 5]
    by (simp add: row_of_day_def)
qed

end
