(* ===== verification/Integrity.thy ===== *)
theory Integrity
  imports Domain "HOL-Library.Sublist"
begin

text \<open>
  What no request may undo: the constraints of the database hold, the audit log, the safety log and the messages
  only grow, and of the other tables no row is lost, except where the program deletes (blocks that are lifted,
  attendances, notifications and drafts of events). Here: every write of one table keeps all of this.
\<close>

section \<open>What is kept\<close>

text \<open>The rows of \<open>xs\<close> are still there, perhaps changed, before any new ones.\<close>

abbreviation still_there :: "('r \<Rightarrow> uuid) \<Rightarrow> 'r list \<Rightarrow> 'r list \<Rightarrow> bool" where
  "still_there key xs ys \<equiv> prefix (map key xs) (map key ys)"

definition kept_since :: "db \<Rightarrow> db \<Rightarrow> bool" where
  "kept_since s0 s \<longleftrightarrow> db_ok s \<and>
    prefix (t_audit_logs s0) (t_audit_logs s) \<and> prefix (t_safety_logs s0) (t_safety_logs s) \<and>
    prefix (t_messages s0) (t_messages s) \<and>
    still_there u_id (t_users s0) (t_users s) \<and> still_there s_id (t_sessions s0) (t_sessions s) \<and>
    still_there pf_id (t_profiles s0) (t_profiles s) \<and> still_there pr_id (t_preferences s0) (t_preferences s) \<and>
    still_there uv_id (t_verifications s0) (t_verifications s) \<and>
    still_there i_id (t_interests s0) (t_interests s) \<and> still_there m_id (t_matches s0) (t_matches s) \<and>
    still_there rp_id (t_reports s0) (t_reports s) \<and> still_there sn_id (t_sanctions s0) (t_sanctions s) \<and>
    still_there np_userId (t_notif_prefs s0) (t_notif_prefs s) \<and> still_there ci_id (t_cities s0) (t_cities s) \<and>
    still_there ar_id (t_areas s0) (t_areas s) \<and> still_there og_id (t_organizers s0) (t_organizers s) \<and>
    still_there o_id (t_orders s0) (t_orders s) \<and> still_there p_id (t_payments s0) (t_payments s) \<and>
    still_there b_id (t_bookings s0) (t_bookings s) \<and> still_there ad_id (t_admins s0) (t_admins s) \<and>
    still_there as_id (t_admin_sessions s0) (t_admin_sessions s)"

lemma kept_since_start: "db_ok s \<Longrightarrow> kept_since s s"
  by (simp add: kept_since_def)

lemma grown_prefix: "prefix a (map f b) \<Longrightarrow> prefix b c \<Longrightarrow> prefix a (map f c)"
  using map_mono_prefix prefix_order.trans by blast

section \<open>Writes of one table\<close>

named_theorems db_keeps "operations that keep the constraints and the records of the database"

text \<open>A table that grows, one whose rows also change, and one that also loses rows.\<close>

locale growing_table = stored_table T for T :: "(db, 'r) table" +
  assumes part: "db_ok s \<Longrightarrow> table_ok T s"
    and grown: "kept_since s0 s \<Longrightarrow> table_ok T (tb_put T rows s) \<Longrightarrow> prefix (tb_rows T s) rows \<Longrightarrow>
      kept_since s0 (tb_put T rows s)"
begin

lemma keeps_db_insert [db_keeps]: "keeps (kept_since s0) (insert_row T r)"
proof (rule keepsI)
  fix s v t assume kept: "kept_since s0 s" and run: "insert_row T r s = (v, t)"
  show "kept_since s0 t"
  proof (cases v)
    case (Inl e)
    then show ?thesis using run write_failed_state(1) kept by metis
  next
    case (Inr u)
    have "table_ok T s" using kept part by (simp add: kept_since_def)
    then show ?thesis
      using run Inr insert_row_ok[of r s u t] grown[OF kept, of "tb_rows T s @ [r]"] by (simp add: insert_row_Inr_iff)
  qed
qed

end

locale changing_table = growing_table T for T :: "(db, 'r) table" +
  assumes changed: "kept_since s0 s \<Longrightarrow> table_ok T (tb_put T rows s) \<Longrightarrow>
    map (tb_key T) rows = map (tb_key T) (tb_rows T s) \<Longrightarrow> kept_since s0 (tb_put T rows s)"
begin

lemma keeps_db_update [db_keeps]:
  "(\<And>r. tb_key T (f r) = tb_key T r) \<Longrightarrow> keeps (kept_since s0) (update_rows T P f)"
proof (rule keepsI)
  fix s v t assume key: "\<And>r. tb_key T (f r) = tb_key T r" and kept: "kept_since s0 s" and run: "update_rows T P f s = (v, t)"
  show "kept_since s0 t"
  proof (cases v)
    case (Inl e)
    then show ?thesis using run write_failed_state(2) kept by metis
  next
    case (Inr u)
    have "table_ok T s" using kept part by (simp add: kept_since_def)
    moreover have "map (tb_key T) (update_where P f rows) = map (tb_key T) rows" for rows
      by (simp add: map_update_where key)
    ultimately show ?thesis
      using run Inr update_rows_ok[of P f s u t] key changed[OF kept] by (simp add: update_rows_Inr_iff)
  qed
qed

lemma keeps_db_save [db_keeps]:
  "(\<And>r. tb_key T (apply_settings cs inst r) = tb_key T r) \<Longrightarrow> keeps (kept_since s0) (save T cs inst)"
  unfolding save_def by (intro keeps_rules keeps_db_update)

end

locale losing_table = changing_table T for T :: "(db, 'r) table" +
  assumes lost: "kept_since s0 s \<Longrightarrow> table_ok T (tb_put T rows s) \<Longrightarrow> kept_since s0 (tb_put T rows s)"
begin

lemma keeps_db_delete [db_keeps]: "keeps (kept_since s0) (delete_rows T P)"
proof (rule keepsI)
  fix s v t assume kept: "kept_since s0 s" and run: "delete_rows T P s = (v, t)"
  have "table_ok T s" using kept part by (simp add: kept_since_def)
  then have "table_ok T t" by (rule delete_rows_ok[OF run])
  then show "kept_since s0 t" using run lost[OF kept] by (auto simp: delete_rows_def)
qed

end

interpretation db_users: changing_table users_table
  by unfold_locales (auto simp: kept_since_def db_ok_def table_ok_def intro: grown_prefix prefix_order.trans)

interpretation db_sessions: changing_table sessions_table
  by unfold_locales (auto simp: kept_since_def db_ok_def table_ok_def intro: grown_prefix prefix_order.trans)

interpretation db_profiles: changing_table profiles_table
  by unfold_locales (auto simp: kept_since_def db_ok_def table_ok_def intro: grown_prefix prefix_order.trans)

interpretation db_preferences: changing_table preferences_table
  by unfold_locales (auto simp: kept_since_def db_ok_def table_ok_def intro: grown_prefix prefix_order.trans)

interpretation db_verifications: changing_table verifications_table
  by unfold_locales (auto simp: kept_since_def db_ok_def table_ok_def intro: grown_prefix prefix_order.trans)

interpretation db_interests: changing_table interests_table
  by unfold_locales (auto simp: kept_since_def db_ok_def table_ok_def intro: grown_prefix prefix_order.trans)

interpretation db_matches: changing_table matches_table
  by unfold_locales (auto simp: kept_since_def db_ok_def table_ok_def intro: grown_prefix prefix_order.trans)

interpretation db_messages: growing_table messages_table
  by unfold_locales (auto simp: kept_since_def db_ok_def table_ok_def intro: grown_prefix prefix_order.trans)

interpretation db_blocks: losing_table blocks_table
  by unfold_locales (auto simp: kept_since_def db_ok_def table_ok_def intro: grown_prefix prefix_order.trans)

interpretation db_reports: changing_table reports_table
  by unfold_locales (auto simp: kept_since_def db_ok_def table_ok_def intro: grown_prefix prefix_order.trans)

interpretation db_sanctions: changing_table sanctions_table
  by unfold_locales (auto simp: kept_since_def db_ok_def table_ok_def intro: grown_prefix prefix_order.trans)

interpretation db_safety_logs: growing_table safety_logs_table
  by unfold_locales (auto simp: kept_since_def db_ok_def table_ok_def intro: grown_prefix prefix_order.trans)

interpretation db_notifications: losing_table notifications_table
  by unfold_locales (auto simp: kept_since_def db_ok_def table_ok_def intro: grown_prefix prefix_order.trans)

interpretation db_notif_prefs: changing_table notif_prefs_table
  by unfold_locales (auto simp: kept_since_def db_ok_def table_ok_def intro: grown_prefix prefix_order.trans)

interpretation db_cities: changing_table cities_table
  by unfold_locales (auto simp: kept_since_def db_ok_def table_ok_def intro: grown_prefix prefix_order.trans)

interpretation db_areas: changing_table areas_table
  by unfold_locales (auto simp: kept_since_def db_ok_def table_ok_def intro: grown_prefix prefix_order.trans)

interpretation db_organizers: changing_table organizers_table
  by unfold_locales (auto simp: kept_since_def db_ok_def table_ok_def intro: grown_prefix prefix_order.trans)

interpretation db_events: losing_table events_table
  by unfold_locales (auto simp: kept_since_def db_ok_def table_ok_def intro: grown_prefix prefix_order.trans)

interpretation db_attendances: losing_table attendances_table
  by unfold_locales (auto simp: kept_since_def db_ok_def table_ok_def intro: grown_prefix prefix_order.trans)

interpretation db_orders: changing_table orders_table
  by unfold_locales (auto simp: kept_since_def db_ok_def table_ok_def intro: grown_prefix prefix_order.trans)

interpretation db_payments: changing_table payments_table
  by unfold_locales (auto simp: kept_since_def db_ok_def table_ok_def intro: grown_prefix prefix_order.trans)

interpretation db_bookings: changing_table bookings_table
  by unfold_locales (auto simp: kept_since_def db_ok_def table_ok_def intro: grown_prefix prefix_order.trans)

interpretation db_admins: changing_table admins_table
  by unfold_locales (auto simp: kept_since_def db_ok_def table_ok_def intro: grown_prefix prefix_order.trans)

interpretation db_admin_sessions: changing_table admin_sessions_table
  by unfold_locales (auto simp: kept_since_def db_ok_def table_ok_def intro: grown_prefix prefix_order.trans)

interpretation db_audit_logs: growing_table audit_logs_table
  by unfold_locales (auto simp: kept_since_def db_ok_def table_ok_def intro: grown_prefix prefix_order.trans)

lemma keeps_world [db_keeps]: "keeps (kept_since s0) now" "keeps (kept_since s0) fresh_uuid"
  "keeps (kept_since s0) (randomInt n)" "keeps (kept_since s0) (emit e)"
  by (simp_all add: keeps_def run_simps kept_since_def db_ok_def table_ok_def)

end
