(* ===== verification/Dashboard_Theorems.thy ===== *)
theory Dashboard_Theorems
  imports Csv Integrity Samples
begin

text \<open>
  The dashboard is consistent: the trends add up to the summary, sections are only shown to roles that may see
  them, and the exported file has no formulas.
\<close>

section \<open>Buckets partition the rows of a period\<close>

lemma sum_by_label:
  "distinct labels \<Longrightarrow> sum_list (map (\<lambda>l. if c \<and> x = l then v else (0 :: int)) labels) =
    (if c \<and> x \<in> set labels then v else 0)"
  by (induction labels) auto

lemma total_by_label:
  assumes "distinct labels" "\<And>r. r \<in> set rows \<Longrightarrow> P r \<Longrightarrow> f r \<in> set labels"
  shows "sum_list (map (\<lambda>l. total_where (\<lambda>r. P r \<and> f r = l) value rows) labels) = total_where P value rows"
  using assms(2)
proof (induction rows)
  case Nil
  then show ?case by (simp add: total_where_def sum_list_0)
next
  case (Cons r rows)
  have "total_where (\<lambda>r. P r \<and> f r = l) value (r # rows) =
      (if P r \<and> f r = l then value r else 0) + total_where (\<lambda>r. P r \<and> f r = l) value rows" for l
    by (simp add: total_where_def)
  then show ?case
    using Cons by (simp add: sum_list_addf sum_by_label assms(1))
qed

lemma count_as_total: "int (count_where P rows) = total_where P (\<lambda>_. 1) rows"
  by (simp add: count_where_def total_where_def sum_list_triv)

lemma labels_after: "x \<in> set (labels_upto n step d final) \<Longrightarrow> valid_date d \<Longrightarrow> day_number d \<le> day_number x"
proof (induction n arbitrary: d)
  case (Suc n)
  then show ?case
    using Suc.IH[of "addDays d step"]
    by (auto simp: addDays_valid addDays_day_number split: if_splits)
qed simp

lemma distinct_labels: "valid_date d \<Longrightarrow> 0 < step \<Longrightarrow> distinct (labels_upto n step d final)"
proof (induction n arbitrary: d)
  case (Suc n)
  then show ?case
    using labels_after[of d n step "addDays d step" final] by (auto simp: addDays_valid addDays_day_number)
qed simp

lemma label_reached:
  assumes "valid_date d" "valid_date x" "valid_date final"
    and "day_number x = day_number d + int (step * k)" "x \<le> final" "k < n"
  shows "x \<in> set (labels_upto n step d final)"
  using assms
proof (induction n arbitrary: d k)
  case (Suc n)
  have first: "d \<le> final"
  proof -
    have "day_number d \<le> day_number x" using Suc.prems(4) by simp
    then have "d \<le> x" using Suc.prems(1,2) by (simp only: day_number_le)
    then show ?thesis using Suc.prems(5) by (rule order_trans)
  qed
  show ?case
  proof (cases k)
    case 0
    then have "x = d" using Suc.prems by (intro day_number_inject) auto
    with first show ?thesis by simp
  next
    case (Suc j)
    have "x \<in> set (labels_upto n step (addDays d step) final)"
      using Suc.prems Suc by (intro Suc.IH[of _ j]) (auto simp: addDays_valid addDays_day_number)
    with first show ?thesis by simp
  qed
qed simp

lemma quotient_bounds:
  fixes a b D t :: int
  assumes "0 < D"
  shows "a * D \<le> t \<Longrightarrow> a \<le> t div D" and "t < b * D \<Longrightarrow> t div D < b"
proof -
  have t: "t div D * D + t mod D = t" "0 \<le> t mod D" "t mod D < D"
    using assms by (simp_all add: div_mult_mod_eq)
  show "a \<le> t div D" if "a * D \<le> t"
  proof -
    have "(t div D + 1) * D = t div D * D + D" by (simp add: distrib_right)
    then have "a * D < (t div D + 1) * D" using that t by linarith
    then show ?thesis using assms by (simp add: mult_less_cancel_right)
  qed
  show "t div D < b" if "t < b * D"
  proof -
    have "t div D * D < b * D" using that t by linarith
    then show ?thesis using assms by (simp add: mult_less_cancel_right)
  qed
qed

definition valid_period :: "dashboard_period \<Rightarrow> bool" where
  "valid_period p \<longleftrightarrow> valid_date (dp_from p) \<and> valid_date (dp_to p) \<and> 0 \<le> day_number (dp_from p) \<and>
    dp_from p \<le> dp_to p \<and> dp_start p = istStartOfDay (dp_from p) \<and> dp_end p = istStartOfDay (addDays (dp_to p) 1)"

lemma day_in_period:
  assumes p: "valid_period p" and t: "in_period p t"
  shows "day_number (dp_from p) \<le> day_number (todayInIndia t)" "day_number (todayInIndia t) \<le> day_number (dp_to p)"
proof -
  have start: "day_number (dp_from p) * DAY_MS \<le> t + IST_OFFSET_MS"
    using p t by (simp add: valid_period_def in_period_def istStartOfDay_def ist_instant_def)
  moreover have finish: "t + IST_OFFSET_MS < (day_number (dp_to p) + 1) * DAY_MS"
    using p t by (simp add: valid_period_def in_period_def istStartOfDay_def ist_instant_def addDays_day_number
        del: addDays.simps)
  moreover have pos: "0 < DAY_MS" by (simp add: DAY_MS_def)
  ultimately have "day_number (dp_from p) \<le> (t + IST_OFFSET_MS) div DAY_MS"
    "(t + IST_OFFSET_MS) div DAY_MS < day_number (dp_to p) + 1"
    using quotient_bounds by blast+
  moreover have "- IST_OFFSET_MS \<le> t"
  proof -
    have "0 \<le> day_number (dp_from p) * DAY_MS" using p pos by (simp add: valid_period_def)
    with start show ?thesis by linarith
  qed
  ultimately show "day_number (dp_from p) \<le> day_number (todayInIndia t)" "day_number (todayInIndia t) \<le> day_number (dp_to p)"
    by (simp_all add: todayInIndia_day_number)
qed

lemma bucket_is_labelled:
  assumes p: "valid_period p" and t: "in_period p t"
  shows "bucket_of (is_weekly p) t \<in> set (trend_labels p)"
proof -
  let ?today = "todayInIndia t" and ?n = "nat (daysBetween (dp_from p) (dp_to p)) + 8"
  note day = day_in_period[OF p t] todayInIndia_valid[of t]
  have v: "valid_date (dp_from p)" "valid_date (dp_to p)" using p by (simp_all add: valid_period_def)
  show ?thesis
  proof (cases "is_weekly p")
    case False
    let ?k = "nat (day_number ?today - day_number (dp_from p))"
    have "?today \<in> set (labels_upto ?n 1 (dp_from p) (dp_to p))"
    proof (rule label_reached[of _ _ _ _ ?k])
      show "day_number ?today = day_number (dp_from p) + int (1 * ?k)" using day by simp
      show "?today \<le> dp_to p" using day v by (simp only: day_number_le)
      show "?k < ?n" using day by (simp add: daysBetween_def)
    qed (use v day in auto)
    with False show ?thesis by (simp add: trend_labels_def bucket_of_def)
  next
    case True
    let ?a = "(day_number (dp_from p) + 3) div 7" and ?b = "(day_number ?today + 3) div 7"
    let ?k = "nat (?b - ?a)"
    have ab: "?a \<le> ?b" using day by (intro zdiv_mono1) auto
    have monday: "day_number (mondayOf ?today) = ?b * 7 - 3" "day_number (mondayOf (dp_from p)) = ?a * 7 - 3"
      using day v by (simp_all add: mondayOf_day_number)
    have "mondayOf ?today \<in> set (labels_upto ?n 7 (mondayOf (dp_from p)) (dp_to p))"
    proof (rule label_reached[of _ _ _ _ ?k])
      show "day_number (mondayOf ?today) = day_number (mondayOf (dp_from p)) + int (7 * ?k)"
        using ab by (simp add: monday)
      have "day_number (mondayOf ?today) \<le> day_number (dp_to p)"
        using day monday(1) by linarith
      then show "mondayOf ?today \<le> dp_to p" using v day by (simp only: day_number_le mondayOf_valid)
      show "?k < ?n" using day ab by (simp add: daysBetween_def)
    qed (use v day in \<open>auto simp: mondayOf_valid\<close>)
    with True show ?thesis by (simp add: trend_labels_def bucket_of_def)
  qed
qed

lemma distinct_trend_labels: "valid_period p \<Longrightarrow> distinct (trend_labels p)"
  by (simp add: trend_labels_def distinct_labels mondayOf_valid valid_period_def)

text \<open>The values of a series add up to the rows of the period.\<close>

lemma series_total:
  assumes "valid_period p"
  shows "sum_list (map (bucketed p (is_weekly p) at value rows) (trend_labels p)) =
    total_where (\<lambda>r. sql_in_period p (at r)) value rows"
proof -
  have series: "bucketed p (is_weekly p) at value rows = (\<lambda>l.
      total_where (\<lambda>r. sql_in_period p (at r) \<and> bucket_of (is_weekly p) (the (at r)) = l) value rows)"
    unfolding bucketed_def sql_in_period_def fun_eq_iff
    by (intro allI arg_cong[of _ _ "\<lambda>P. total_where P value rows"]) (auto split: option.split)
  show ?thesis
    unfolding series using assms
    by (intro total_by_label distinct_trend_labels) (auto simp: sql_in_period_def bucket_is_labelled split: option.splits)
qed

lemma resolved_period:
  assumes "resolvePeriod (a, b, c) s = Inr p" "\<forall>d. a = Some d \<longrightarrow> valid_date d" "\<forall>d. b = Some d \<longrightarrow> valid_date d"
    and "(1970, 1, 1) \<le> dp_from p"
  shows "valid_period p"
proof -
  have p: "dp_to p = value_or b (todayInIndia (clock s))" "dp_from p = value_or a (subDays (dp_to p) (DASHBOARD_DEFAULT_RANGE_DAYS - 1))"
    "dp_from p \<le> dp_to p" "dp_start p = istStartOfDay (dp_from p)" "dp_end p = istStartOfDay (addDays (dp_to p) 1)"
    using assms(1) by (auto simp: resolvePeriod_def Let_def split: if_splits)
  have v: "valid_date (dp_to p)" "valid_date (dp_from p)"
    using assms(2,3) p(1,2) by (auto simp: value_or_def todayInIndia_valid subDays_valid split: option.splits)
  have "day_number (1970, 1, 1) \<le> day_number (dp_from p)"
    using assms(4) v day_number_le[of "(1970, 1, 1)" "dp_from p"] by (simp add: days_in_month_def del: day_number.simps)
  with v p show ?thesis by (simp add: valid_period_def day_number_epoch del: day_number.simps)
qed

lemma sql_in_period_Some: "sql_in_period p (Some t) = in_period p t"
  by (simp add: sql_in_period_def)

lemma total_of_filter: "total_where P value (filter Q rows) = total_where (\<lambda>r. Q r \<and> P r) value rows"
  by (simp add: total_where_def conj_commute)

text \<open>
  C39. The trends of the dashboard add up to its summary: every sign-up, match, report and booking and every rupee of
  the period falls into exactly one day (or week) of the chart, for the same filter and role.
\<close>

theorem trends_add_up:
  assumes "dashboard_trends role (a, b, c) s = Inr trends" "dashboard_summary role (a, b, c) s = Inr summary"
    and "\<forall>d. a = Some d \<longrightarrow> valid_date d" "\<forall>d. b = Some d \<longrightarrow> valid_date d" "(1970, 1, 1) \<le> dp_from (dt_period trends)"
  shows "map_option sum_list (dt_signups trends) = map_option (\<lambda>u. int (du_newInPeriod u)) (ds_users summary) \<and>
    map_option sum_list (dt_matches trends) = map_option (\<lambda>m. int (dm_createdInPeriod m)) (ds_matches summary) \<and>
    map_option sum_list (dt_reports trends) = map_option (\<lambda>r. int (dr_openedInPeriod r)) (ds_reports summary) \<and>
    map_option sum_list (dt_bookings trends) = map_option (\<lambda>b. int (db_confirmedInPeriod b)) (ds_bookings summary) \<and>
    map_option sum_list (dt_revenuePaise trends) = map_option dv_grossPaise (ds_revenue summary)"
proof -
  obtain p where p: "resolvePeriod (a, b, c) s = Inr p" "trends = trends_of role p s"
    using assms(1) by (auto simp: dashboard_trends_def map_sum_def split: sum.splits)
  have "dp_from (dt_period trends) = dp_from p" using p(2) by (simp add: trends_of_def)
  with resolved_period[OF p(1) assms(3,4)] assms(5) have v: "valid_period p" by simp
  note total = series_total[OF v] sql_in_period_Some count_as_total total_of_filter
  have sums:
    "sum_list (map (bucketed p (is_weekly p) (\<lambda>u. Some (u_createdAt u)) (\<lambda>_. 1) (filter (counted_user p s) (t_users s)))
        (trend_labels p)) = int (du_newInPeriod (dash_users_of p s))"
    "sum_list (map (bucketed p (is_weekly p) (\<lambda>m. Some (m_createdAt m)) (\<lambda>_. 1) (filter (counted_match p s) (t_matches s)))
        (trend_labels p)) = int (dm_createdInPeriod (dash_matches_of p s))"
    "sum_list (map (bucketed p (is_weekly p) (\<lambda>r. Some (rp_createdAt r)) (\<lambda>_. 1) (filter (counted_report p s) (t_reports s)))
        (trend_labels p)) = int (dr_openedInPeriod (dash_reports_of p s))"
    unfolding total by (simp_all add: dash_users_of_def dash_matches_of_def dash_reports_of_def Let_def total)
  have bookings: "sum_list (map (bucketed p (is_weekly p) (\<lambda>b. Some (b_createdAt b)) (\<lambda>_. 1)
        (filter (\<lambda>b. b_status b = B_confirmed \<and> at_event p s (b_eventId b)) (t_bookings s))) (trend_labels p)) =
      int (db_confirmedInPeriod (dash_bookings_of p s))"
    unfolding total by (simp add: dash_bookings_of_def Let_def total conj_ac)
  have revenue: "sum_list (map (bucketed p (is_weekly p) p_capturedAt p_amountPaise
        (filter (\<lambda>x. money_received x \<and> paid_at_event p s x) (t_payments s))) (trend_labels p)) =
      dv_grossPaise (dash_revenue_of p s)"
    unfolding total by (simp add: dash_revenue_of_def Let_def total conj_ac)
  show ?thesis
    using assms(2) p by (auto simp: dashboard_summary_def trends_of_def trend_series_def when_permitted_def sums bookings revenue)
qed

text \<open>Two members signed up on the first of two days.\<close>

definition dash_db :: db where
  "dash_db = empty_db\<lparr>t_users := [(sample_user 1 ''a'')\<lparr>u_createdAt := 5000\<rparr>, (sample_user 2 ''b'')\<lparr>u_createdAt := 6000\<rparr>]\<rparr>"

definition dash_period :: dashboard_period where
  "dash_period = \<lparr>dp_from = (1970, 1, 1), dp_to = (1970, 1, 2), dp_start = istStartOfDay (1970, 1, 1),
    dp_end = istStartOfDay (1970, 1, 3), dp_cityId = None\<rparr>"

theorem trends_add_up_witness:
  "dt_signups (trends_of Moderator dash_period dash_db) = Some [2, 0] \<and>
    map_option sum_list (dt_signups (trends_of Moderator dash_period dash_db)) = Some 2 \<and>
    dt_revenuePaise (trends_of Moderator dash_period dash_db) = None"
proof -
  have p: "resolvePeriod (Some (1970, 1, 1), Some (1970, 1, 2), None) dash_db = Inr dash_period" by code_simp
  have t: "dashboard_trends Moderator (Some (1970, 1, 1), Some (1970, 1, 2), None) dash_db =
      Inr (trends_of Moderator dash_period dash_db)"
    by (simp add: dashboard_trends_def p)
  have s: "dashboard_summary Moderator (Some (1970, 1, 1), Some (1970, 1, 2), None) dash_db =
      Inr (projr (dashboard_summary Moderator (Some (1970, 1, 1), Some (1970, 1, 2), None) dash_db))"
    by (simp add: dashboard_summary_def p)
  have users: "map_option (\<lambda>u. int (du_newInPeriod u))
      (ds_users (projr (dashboard_summary Moderator (Some (1970, 1, 1), Some (1970, 1, 2), None) dash_db))) = Some 2"
    by code_simp
  have shown: "dt_signups (trends_of Moderator dash_period dash_db) = Some [2, 0]"
    "dt_revenuePaise (trends_of Moderator dash_period dash_db) = None"
    by code_simp+
  have dates: "valid_date (1970, 1, 1)" "valid_date (1970, 1, 2)" "dp_from (dt_period (trends_of Moderator dash_period dash_db)) = (1970, 1, 1)"
    by code_simp+
  from trends_add_up[OF t s] users shown dates show ?thesis by auto
qed

section \<open>The exported file\<close>

text \<open>In a database that satisfies its constraints no cell of the exported file starts a formula.\<close>

lemma total_nonneg: "(\<And>r. r \<in> set rows \<Longrightarrow> 0 \<le> value r) \<Longrightarrow> 0 \<le> total_where P value rows"
  by (auto simp: total_where_def intro!: sum_list_nonneg)

lemma exported_numbers:
  assumes "table_ok bookings_table s" "ev_passCapacity e \<noteq> None \<Longrightarrow> 0 < the (ev_passCapacity e)"
    and "CNumber i \<in> set (csv_row (toEventRow True s e))"
  shows "0 \<le> i"
proof -
  have "0 \<le> b_quantity b" if "b \<in> set (t_bookings s)" for b
    using assms(1) that by (auto simp: table_ok_def booking_ok_def)
  then have "0 \<le> es_passesSold (sales_of e s)"
    by (simp add: sales_of_def Let_def total_nonneg)
  with assms(2,3) show ?thesis
    by (auto simp: csv_row_def toEventRow_def sales_number_def or_null_def sales_of_def Let_def split: option.splits)
qed


lemma exported_row:
  assumes "exportEvents q s = Inr rows" "r \<in> set rows"
  shows "\<exists>e. e \<in> set (t_events s) \<and> r = toEventRow True s e"
  using assms by (fastforce simp: exportEvents_def map_sum_def split: sum.splits dest!: in_set_takeD)

text \<open>
  C40. The exported file can be read back: a program that reads CSV by the book finds the header and for every event
  the texts of its cells, whatever commas, quotes and line breaks they contain, led by an apostrophe where a
  spreadsheet would take them for a formula; so none of the cells is evaluated.
\<close>

theorem export_is_read_back:
  assumes "exportEvents q s = Inr rows" "db_ok s"
  shows "read_csv (toCsv rows) = Some (CSV_COLUMNS # map (\<lambda>r. map shown_cell (csv_row r)) rows) \<and>
    list_all (\<lambda>r. list_all (\<lambda>v. \<not> evaluated (shown_cell v)) (csv_row r)) rows"
proof -
  have "\<not> evaluated (shown_cell v)" if r: "r \<in> set rows" and v: "v \<in> set (csv_row r)" for r v
  proof
    assume "evaluated (shown_cell v)"
    then obtain i where i: "i < 0" "v = CNumber i" by (rule cell_not_evaluated)
    obtain e where e: "e \<in> set (t_events s)" "r = toEventRow True s e"
      using exported_row[OF assms(1) r] by blast
    have "event_ok e" "table_ok bookings_table s" using assms(2) e(1) by (auto simp: db_ok_def table_ok_def)
    then have "0 \<le> i"
      using v(1) i(2) e(2) by (intro exported_numbers[of s e]) (auto simp: event_ok_def split: option.splits)
    with i(1) show False by simp
  qed
  moreover have "cell_text = shown_cell" by (simp add: fun_eq_iff cell_text_shown)
  ultimately show ?thesis using read_csv_exported[of rows] by (simp add: list_all_iff)
qed

text \<open>An event whose name has a comma and starts like a formula.\<close>

definition export_db :: db where
  "export_db = empty_db\<lparr>t_cities := [\<lparr>ci_id = 1, ci_name = ''Surat'', ci_state = ''GJ'', ci_slug = ''surat'', ci_isActive = True, ci_sortOrder = 0\<rparr>],
    t_events := [sample_event\<lparr>ev_name := ''=1,2'', ev_eventDate := (1970, 1, 2)\<rparr>]\<rparr>"

theorem export_is_read_back_witness:
  "\<exists>rows. exportEvents (Some (1970, 1, 1), Some (1970, 1, 3), None) export_db = Inr rows \<and>
    map dw_name rows = [''=1,2''] \<and>
    map_option (\<lambda>ls. ls ! 1 ! 1) (read_csv (toCsv rows)) = Some (CHR 0x27 # ''=1,2'')"
proof -
  let ?q = "(Some (1970, 1, 1), Some (1970, 1, 3), None) :: dashboard_query"
  let ?rows = "projr (exportEvents ?q export_db)"
  have "\<not> isl (resolvePeriod ?q export_db)" by code_simp
  then have e: "exportEvents ?q export_db = Inr ?rows"
    by (cases "resolvePeriod ?q export_db") (simp_all add: exportEvents_def)
  have names: "map dw_name ?rows = [''=1,2'']" by code_simp
  have ok: "db_ok export_db" by code_simp
  from names obtain r where r: "?rows = [r]" "dw_name r = ''=1,2''" by auto
  have "shown_cell (csv_row r ! 1) = CHR 0x27 # ''=1,2''"
    by (simp add: csv_row_def r shown_cell_def evaluated_def FORMULA_STARTS_def)
  moreover have "1 < length (csv_row r)" by (simp add: csv_row_def)
  ultimately show ?thesis
    using export_is_read_back[OF e ok] e names r by auto
qed

end
