(* ===== verification/Delivery_Reports.thy ===== *)
theory Delivery_Reports
  imports Channels
begin

text \<open>
  The delivery reports of Meta (\<open>modules/whatsapp/whatsapp-webhook.service.ts\<close>, \<open>whatsapp-webhook.routes.ts\<close>):
  what is read from a body, how a report moves the row it is about, and the two requests of the webhook.
\<close>

section \<open>Reading a body\<close>

text \<open>The reported outcomes are those of a delivery but \<open>pending\<close>.\<close>

definition TRACKED :: "(string \<times> delivery_status) list" where
  "TRACKED = [(''sent'', D_sent), (''delivered'', D_delivered), (''read'', D_read), (''failed'', D_failed)]"

record status_update =
  su_messageId :: js_text
  su_status :: delivery_status
  su_at :: instant
  su_error :: "js_text option"

text \<open>
  What reading needs from outside: \<open>Number(timestamp) * 1000\<close> where that is a finite positive number, the time of
  the request, and the hash of a message id.
\<close>

record report_lib =
  rl_millis :: "json option \<Rightarrow> instant option"
  rl_now :: instant
  rl_sha256 :: "js_text \<Rightarrow> js_text"

definition error_of :: "json option \<Rightarrow> js_text option" where
  "error_of errors =
    (case list_of errors of
       JObject first # _ \<Rightarrow>
         (let data = record_of (member_of first ''error_data'');
              text = dashed (given_texts [text_of (member_of first ''title''), text_of (member_of data ''details'')])
          in Some (take 300 (code_prefix (number_in (member_of first ''code'')) @
               sanitizeLogText (if text = [] then units ''Delivery failed'' else text) 280)))
     | _ \<Rightarrow> None)"

definition tracked_status :: "json option \<Rightarrow> delivery_status option" where
  "tracked_status j = Option.bind (text_of j) (\<lambda>t. map_of (map (\<lambda>(k, v). (units k, v)) TRACKED) t)"

definition status_item :: "report_lib \<Rightarrow> json \<Rightarrow> status_update option" where
  "status_item rl item =
    (case item of
       JObject m \<Rightarrow>
         (case (text_of (member_of m ''id''), tracked_status (member_of m ''status'')) of
            (Some i, Some status) \<Rightarrow> if 512 < length i then None
              else Some \<lparr>su_messageId = i, su_status = status,
                su_at = (case rl_millis rl (member_of m ''timestamp'') of Some t \<Rightarrow> t | None \<Rightarrow> rl_now rl),
                su_error = error_of (member_of m ''errors'')\<rparr>
          | _ \<Rightarrow> None)
     | _ \<Rightarrow> None)"

definition change_updates :: "report_lib \<Rightarrow> js_text \<Rightarrow> json \<Rightarrow> status_update list" where
  "change_updates rl phoneNumberId change =
    (case change of
       JObject m \<Rightarrow>
         (case (member_of m ''field'', member_of m ''value'') of
            (Some (JString field), Some (JObject v)) \<Rightarrow>
              if field = units ''messages'' \<and>
                 member_of (record_of (member_of v ''metadata'')) ''phone_number_id'' = Some (JString phoneNumberId)
              then List.map_filter (status_item rl) (list_of (member_of v ''statuses'')) else []
          | _ \<Rightarrow> [])
     | _ \<Rightarrow> [])"

definition parseStatusUpdates :: "report_lib \<Rightarrow> json \<Rightarrow> js_text \<Rightarrow> status_update list" where
  "parseStatusUpdates rl body phoneNumberId =
    (case body of
       JObject m \<Rightarrow>
         if member_of m ''object'' \<noteq> Some (JString (units ''whatsapp_business_account'')) then []
         else concat (map (\<lambda>entry. concat (map (change_updates rl phoneNumberId)
             (list_of (member_of (record_of (Some entry)) ''changes''))))
           (list_of (member_of m ''entry'')))
     | _ \<Rightarrow> [])"

section \<open>Applying reports\<close>

primrec status_rank :: "delivery_status \<Rightarrow> nat" where
  "status_rank D_pending = 0"
| "status_rank D_sent = 1"
| "status_rank D_failed = 2"
| "status_rank D_delivered = 3"
| "status_rank D_read = 4"

definition coalesce :: "'a option \<Rightarrow> 'a \<Rightarrow> 'a option" where
  "coalesce v x = (case v of None \<Rightarrow> Some x | Some y \<Rightarrow> Some y)"

text \<open>The WHERE clause and the SET clause of the update.\<close>

definition reported :: "report_lib \<Rightarrow> status_update \<Rightarrow> delivery \<Rightarrow> bool" where
  "reported rl u d \<longleftrightarrow> dl_provider d = ''meta'' \<and>
    dl_providerMessageId d = Some (metaMessageRef (rl_sha256 rl) (su_messageId u))"

definition report_applies :: "report_lib \<Rightarrow> status_update \<Rightarrow> delivery \<Rightarrow> bool" where
  "report_applies rl u d \<longleftrightarrow> reported rl u d \<and> status_rank (dl_status d) < status_rank (su_status u)"

definition with_report :: "status_update \<Rightarrow> delivery \<Rightarrow> delivery" where
  "with_report u d = (let st = su_status u; t = su_at u in
     d\<lparr>dl_status := st,
       dl_sentAt := (if st = D_sent then coalesce (dl_sentAt d) t else dl_sentAt d),
       dl_deliveredAt := (if st = D_delivered \<or> st = D_read then coalesce (dl_deliveredAt d) t else dl_deliveredAt d),
       dl_readAt := (if st = D_read then Some t else dl_readAt d),
       dl_failedAt := (if st = D_failed then Some t else dl_failedAt d),
       dl_errorMessage := (if st = D_failed
         then Some (case su_error u of Some e \<Rightarrow> e | None \<Rightarrow> units ''Delivery failed'') else dl_errorMessage d)\<rparr>)"

definition apply_report :: "report_lib \<Rightarrow> status_update \<Rightarrow> delivery_state \<Rightarrow> nat \<times> delivery_state" where
  "apply_report rl u st =
    (length (filter (report_applies rl u) (dv_rows st)),
     st\<lparr>dv_rows := map (\<lambda>d. if report_applies rl u d then with_report u d else d) (dv_rows st)\<rparr>)"

fun apply_reports :: "report_lib \<Rightarrow> status_update list \<Rightarrow> delivery_state \<Rightarrow> nat \<times> delivery_state" where
  "apply_reports rl [] st = (0, st)"
| "apply_reports rl (u # us) st =
    (case apply_report rl u st of (n, st1) \<Rightarrow> (case apply_reports rl us st1 of (k, st2) \<Rightarrow> (n + k, st2)))"

text \<open>How many reports were for our number and how many rows changed.\<close>

definition handle_reports :: "report_lib \<Rightarrow> js_text \<Rightarrow> json \<Rightarrow> delivery_state \<Rightarrow> (nat \<times> nat) \<times> delivery_state" where
  "handle_reports rl phoneNumberId body st =
    (let updates = parseStatusUpdates rl body phoneNumberId
     in case apply_reports rl updates st of (applied, st') \<Rightarrow> ((length updates, applied), st'))"

section \<open>The requests of the webhook\<close>

definition is_challenge :: "js_text \<Rightarrow> bool" where
  "is_challenge t \<longleftrightarrow> 1 \<le> length t \<and> length t \<le> 128 \<and> list_all word_or_hyphen t"

definition confirm_webhook :: "js_text \<Rightarrow> json_object \<Rightarrow> failure + js_text" where
  "confirm_webhook verifyToken query =
    (case (member_of query ''hub.mode'', text_of (member_of query ''hub.verify_token''),
        text_of (member_of query ''hub.challenge'')) of
       (Some (JString mode), Some token, Some challenge) \<Rightarrow>
         if mode = units ''subscribe'' \<and> is_challenge challenge \<and> token = verifyToken then Inr challenge
         else Inl (App FORBIDDEN)
     | _ \<Rightarrow> Inl (App FORBIDDEN))"

definition receive_webhook ::
    "report_lib \<Rightarrow> (string \<Rightarrow> string \<Rightarrow> string) \<Rightarrow> string \<Rightarrow> js_text \<Rightarrow> string option \<Rightarrow> string option \<Rightarrow> json \<Rightarrow>
      delivery_state \<Rightarrow> (failure + unit) \<times> delivery_state" where
  "receive_webhook rl hmac appSecret phoneNumberId rawBody signature body st =
    (case rawBody of
       None \<Rightarrow> (Inl (App UNAUTHENTICATED), st)
     | Some raw \<Rightarrow>
         if \<not> verifyMetaSignature hmac raw signature appSecret then (Inl (App UNAUTHENTICATED), st)
         else (Inr (), snd (handle_reports rl phoneNumberId body st)))"

end
