(* ===== verification/Delivery_Theorems.thy ===== *)
theory Delivery_Theorems
  imports Delivery_Reports Samples
begin

text \<open>
  The properties of deliveries outside the app: nobody is notified twice of one thing over one channel, WhatsApp
  needs the consent of the member, and the delivery reports of Meta may come in any order and any number of times.
\<close>

section \<open>The steps of the notifier\<close>

inductive delivery_step :: "delivery_state \<Rightarrow> delivery_state \<Rightarrow> bool" where
  sms: "delivery_step st (snd (sendSMS nt s m st))"
| whatsapp: "delivery_step st (snd (sendWhatsApp nt s m st))"
| notification: "delivery_step st (snd (sendNotification nt s m st))"
| webhook: "delivery_step st (snd (receive_webhook rl hmac appSecret phoneNumberId rawBody signature body st))"

abbreviation delivery_reaches :: "delivery_state \<Rightarrow> delivery_state \<Rightarrow> bool" where
  "delivery_reaches \<equiv> delivery_step\<^sup>*\<^sup>*"

definition no_deliveries :: delivery_state where "no_deliveries = \<lparr>dv_rows = [], dv_handed = []\<rparr>"

text \<open>Every message handed to a provider has its own row, in the same order.\<close>

definition delivery_inv :: "delivery_state \<Rightarrow> bool" where
  "delivery_inv st \<longleftrightarrow> distinct (map dl_referenceKey (dv_rows st)) \<and> list_all delivery_ok (dv_rows st) \<and>
    map (ob_reference \<circ> snd) (dv_handed st) = map dl_referenceKey (dv_rows st)"

lemma map_update: "(\<And>d. g (f d) = g d) \<Longrightarrow> map g (map (\<lambda>d. if P d then f d else d) xs) = map g xs"
  by (induction xs) auto

lemma all_update: "list_all P xs \<Longrightarrow> (\<And>d. P d \<Longrightarrow> P (f d)) \<Longrightarrow> list_all P (map (\<lambda>d. if Q d then f d else d) xs)"
  by (induction xs) auto

lemma updated_inv:
  assumes "delivery_inv st" "\<And>d. dl_referenceKey (f d) = dl_referenceKey d" "\<And>d. delivery_ok d \<Longrightarrow> delivery_ok (f d)"
  shows "delivery_inv (st\<lparr>dv_rows := map (\<lambda>d. if P d then f d else d) (dv_rows st)\<rparr>)"
  using assms(1) unfolding delivery_inv_def
  by (simp add: map_update[of dl_referenceKey f, OF assms(2)] all_update[of delivery_ok _ f, OF _ assms(3)] del: map_map)

lemma claim_inv:
  assumes "delivery_inv st" "\<not> list_ex (\<lambda>d. dl_referenceKey d = reference_key m c) (dv_rows st)"
    and "ob_reference out = reference_key m c"
  shows "delivery_inv (st\<lparr>dv_rows := dv_rows st @ [claim_row p c m phone i], dv_handed := dv_handed st @ [(c, out)]\<rparr>)"
  using assms by (auto simp: delivery_inv_def claim_row_def delivery_ok_def list_ex_iff)

lemma update_inv:
  assumes "delivery_inv st" "\<And>d. dl_referenceKey (f d) = dl_referenceKey d" "\<And>d. delivery_ok d \<Longrightarrow> delivery_ok (f d)"
  shows "delivery_inv (update_delivery i f st)"
  unfolding update_delivery_def using assms by (rule updated_inv)

lemma attempt_inv:
  assumes "delivery_inv st"
  shows "delivery_inv (snd (attempt_send p c m phone i t st))"
proof (cases "pv_supports p (cm_type m) \<and> \<not> list_ex (\<lambda>d. dl_referenceKey d = reference_key m c) (dv_rows st)")
  case True
  let ?out = "\<lparr>ob_type = cm_type m, ob_to = phone, ob_title = cm_title m, ob_text = cm_message m, ob_reference = reference_key m c\<rparr>"
  have claimed: "delivery_inv (st\<lparr>dv_rows := dv_rows st @ [claim_row p c m phone i], dv_handed := dv_handed st @ [(c, ?out)]\<rparr>)"
    using assms True by (intro claim_inv) auto
  from True show ?thesis
    unfolding attempt_send_def Let_def
    by (cases "pv_send p ?out (length (dv_handed st))") (auto intro!: update_inv claimed simp: delivery_ok_def)
qed (auto simp: attempt_send_def assms)

lemma send_over_inv: "delivery_inv st \<Longrightarrow> delivery_inv (snd (send_over nt s c m known st))"
  by (auto simp: send_over_def attempt_inv split: option.splits)

lemma send_each_inv: "delivery_inv st \<Longrightarrow> delivery_inv (snd (send_each nt s m phone cs st))"
proof (induction cs arbitrary: st)
  case (Cons c cs)
  from Cons.IH[OF send_over_inv[OF Cons.prems]] show ?case by (simp split: prod.splits) (metis snd_conv)
qed simp

lemma notification_inv: "delivery_inv st \<Longrightarrow> delivery_inv (snd (sendNotification nt s m st))"
  by (auto simp: sendNotification_def send_each_inv split: option.splits)

lemma with_report_keeps:
  "dl_referenceKey (with_report u d) = dl_referenceKey d" "delivery_ok d \<Longrightarrow> delivery_ok (with_report u d)"
  by (auto simp: with_report_def Let_def delivery_ok_def split: option.splits)

lemma apply_reports_inv: "delivery_inv st \<Longrightarrow> delivery_inv (snd (apply_reports rl us st))"
proof (induction us arbitrary: st)
  case (Cons u us)
  have "delivery_inv (snd (apply_report rl u st))"
    unfolding apply_report_def snd_conv using Cons.prems with_report_keeps by (rule updated_inv)
  from Cons.IH[OF this] show ?case by (simp split: prod.splits) (metis snd_conv)
qed simp

lemma webhook_inv: "delivery_inv st \<Longrightarrow> delivery_inv (snd (receive_webhook rl hmac a i raw sig body st))"
  using apply_reports_inv[of st rl "parseStatusUpdates rl body i"]
  by (auto simp: receive_webhook_def handle_reports_def Let_def split: option.splits prod.splits)

lemma delivery_step_inv: "delivery_step st st' \<Longrightarrow> delivery_inv st \<Longrightarrow> delivery_inv st'"
  by (induction rule: delivery_step.induct)
    (simp_all add: sendSMS_def sendWhatsApp_def send_over_inv notification_inv webhook_inv)

lemma delivery_reaches_inv: "delivery_reaches no_deliveries st \<Longrightarrow> delivery_inv st"
proof (induction rule: rtranclp_induct)
  case base
  show ?case by (simp add: no_deliveries_def delivery_inv_def)
qed (rule delivery_step_inv)

section \<open>What one notification hands over\<close>

text \<open>The message of one notification over one channel, to its consenting member.\<close>

definition rightly_handed :: "notifier \<Rightarrow> db \<Rightarrow> channel_message \<Rightarrow> channel \<times> outbound \<Rightarrow> bool" where
  "rightly_handed nt s m h \<longleftrightarrow> consented s (fst h) (cm_userId m) \<and>
    phoneOf nt s (cm_userId m) = Some (Some (ob_to (snd h))) \<and> ob_reference (snd h) = reference_key m (fst h)"

definition hands :: "notifier \<Rightarrow> db \<Rightarrow> channel_message \<Rightarrow> delivery_state \<Rightarrow> delivery_state \<Rightarrow> bool" where
  "hands nt s m st st' \<longleftrightarrow> (\<exists>new. dv_handed st' = dv_handed st @ new \<and> list_all (rightly_handed nt s m) new)"

lemma hands_refl [simp]: "hands nt s m st st"
  by (simp add: hands_def)

lemma hands_trans: "hands nt s m a b \<Longrightarrow> hands nt s m b c \<Longrightarrow> hands nt s m a c"
  by (auto simp: hands_def)

lemma send_over_hands:
  assumes "\<And>ph. known = Some ph \<Longrightarrow> phoneOf nt s (cm_userId m) = Some ph"
  shows "hands nt s m st (snd (send_over nt s c m known st))"
  using assms
  by (auto simp: send_over_def attempt_send_def update_delivery_def hands_def rightly_handed_def Let_def
      split: option.splits sum.splits)

lemma send_each_hands:
  "phoneOf nt s (cm_userId m) = Some phone \<Longrightarrow> hands nt s m st (snd (send_each nt s m phone cs st))"
proof (induction cs arbitrary: st)
  case (Cons c cs)
  have "hands nt s m st (snd (send_over nt s c m (Some phone) st))" using Cons.prems by (intro send_over_hands) simp
  with Cons.IH[OF Cons.prems] hands_trans show ?case by (simp split: prod.splits) (metis snd_conv)
qed simp

lemma notification_hands: "hands nt s m st (snd (sendNotification nt s m st))"
  by (auto simp: sendNotification_def send_each_hands split: option.splits)

text \<open>
  However often and over whichever channels notifications are sent, retried and reported on, no two messages of
  the same reference and channel are ever handed to a provider, every message has its row, and what one
  notification hands over goes to the number of its own member, who has consented when it is WhatsApp and whose
  account is neither banned nor deleted.
\<close>

theorem notified_once_with_consent:
  assumes "delivery_reaches no_deliveries st"
  shows "distinct (map (ob_reference \<circ> snd) (dv_handed st)) \<and> list_all delivery_ok (dv_rows st) \<and>
    map (ob_reference \<circ> snd) (dv_handed st) = map dl_referenceKey (dv_rows st) \<and>
    (\<exists>new. dv_handed (snd (sendNotification nt s m st)) = dv_handed st @ new \<and>
      list_all (\<lambda>(c, out). consented s c (cm_userId m) \<and> phoneOf nt s (cm_userId m) = Some (Some (ob_to out)) \<and>
        ob_reference out = reference_key m c) new)"
proof -
  obtain new where "dv_handed (snd (sendNotification nt s m st)) = dv_handed st @ new" "list_all (rightly_handed nt s m) new"
    using notification_hands[of nt s m st] by (auto simp: hands_def)
  moreover have "rightly_handed nt s m = (\<lambda>(c, out). consented s c (cm_userId m) \<and>
      phoneOf nt s (cm_userId m) = Some (Some (ob_to out)) \<and> ob_reference out = reference_key m c)"
    by (auto simp: rightly_handed_def)
  ultimately show ?thesis
    using delivery_reaches_inv[OF assms] by (auto simp: delivery_inv_def)
qed

section \<open>Samples\<close>

definition sample_message :: channel_message where
  "sample_message = \<lparr>cm_userId = 1, cm_type = Match_created, cm_title = [], cm_message = [], cm_referenceId = [7],
    cm_notificationId = None\<rparr>"

definition sample_provider :: provider where
  "sample_provider = \<lparr>pv_name = ''meta'', pv_supports = \<lambda>_. True, pv_send = \<lambda>m n. Inr (Some [int n])\<rparr>"

definition sample_notifier :: notifier where
  "sample_notifier = \<lparr>nt_providers = (\<lambda>_. Some sample_provider), nt_decrypt = (\<lambda>_. Some (units ''+919876543210''))\<rparr>"

definition channel_db :: db where
  "channel_db = empty_db\<lparr>t_users := [sample_user 1 ''p''],
    t_notif_prefs := [(default_preferences 1)\<lparr>np_whatsappOptIn := True\<rparr>]\<rparr>"

text \<open>The same notification twice: both channels hand it over once.\<close>

theorem notified_once_with_consent_witness:
  "(let st = snd (sendNotification sample_notifier channel_db sample_message no_deliveries);
        st' = snd (sendNotification sample_notifier channel_db sample_message st)
    in distinct (map (ob_reference \<circ> snd) (dv_handed st')) \<and> map fst (dv_handed st') = [Sms, Whatsapp] \<and>
      map dl_status (dv_rows st') = [D_sent, D_sent])"
proof -
  let ?st = "snd (sendNotification sample_notifier channel_db sample_message no_deliveries)"
  let ?st' = "snd (sendNotification sample_notifier channel_db sample_message ?st)"
  have "map fst (dv_handed ?st') = [Sms, Whatsapp] \<and> map dl_status (dv_rows ?st') = [D_sent, D_sent]"
    by code_simp
  moreover have "delivery_reaches no_deliveries ?st'"
    by (blast intro: delivery_step.notification rtranclp.rtrancl_into_rtrancl)
  ultimately show ?thesis
    using notified_once_with_consent[of ?st'] unfolding Let_def by blast
qed

section \<open>Reports in any order\<close>

lemma report_rank:
  "status_rank (dl_status (if report_applies rl u d then with_report u d else d)) =
    (if reported rl u d then max (status_rank (dl_status d)) (status_rank (su_status u)) else status_rank (dl_status d))"
  by (auto simp: report_applies_def with_report_def Let_def)

lemma reported_same: "reported rl v (if report_applies rl u d then with_report u d else d) = reported rl v d"
  by (simp add: reported_def with_report_def Let_def)

definition top_rank :: "report_lib \<Rightarrow> status_update list \<Rightarrow> delivery \<Rightarrow> nat" where
  "top_rank rl us d = Max (insert (status_rank (dl_status d)) ((status_rank \<circ> su_status) ` {u \<in> set us. reported rl u d}))"

lemma max_top: "finite A \<Longrightarrow> Max (insert (max x y) A) = Max (insert x (insert y A))" for x y :: nat
  by (cases "A = {}") (simp_all add: max.assoc)

lemma applied_ranks:
  "map (status_rank \<circ> dl_status) (dv_rows (snd (apply_reports rl us st))) = map (top_rank rl us) (dv_rows st)"
proof (induction us arbitrary: st)
  case Nil
  then show ?case by (simp add: top_rank_def)
next
  case (Cons u us)
  let ?f = "\<lambda>d. if report_applies rl u d then with_report u d else d"
  have step: "top_rank rl us (?f d) = top_rank rl (u # us) d" for d
  proof -
    have "{v \<in> set (u # us). reported rl v d} = (if reported rl u d then insert u else id) {v \<in> set us. reported rl v d}"
      by auto
    then show ?thesis
      unfolding top_rank_def report_rank reported_same by (auto simp: max_top)
  qed
  have "map (status_rank \<circ> dl_status) (dv_rows (snd (apply_reports rl (u # us) st))) =
      map (status_rank \<circ> dl_status) (dv_rows (snd (apply_reports rl us (snd (apply_report rl u st)))))"
    by (simp split: prod.splits)
  also have "\<dots> = map (top_rank rl us) (map ?f (dv_rows st))"
    unfolding Cons.IH by (simp add: apply_report_def)
  also have "\<dots> = map (top_rank rl (u # us)) (dv_rows st)"
    by (simp add: step)
  finally show ?case .
qed

lemma rank_inj: "status_rank a = status_rank b \<longleftrightarrow> a = b"
  by (cases a; cases b) simp_all

text \<open>
  Delivery reports may come late, twice and in any order: the statuses of the deliveries depend only on which
  reports have come, each is the most advanced one reported, and none ever moves back.
\<close>

theorem reports_in_any_order:
  assumes "set us = set vs"
  shows "map dl_status (dv_rows (snd (apply_reports rl us st))) = map dl_status (dv_rows (snd (apply_reports rl vs st))) \<and>
    list_all2 (\<lambda>d e. status_rank (dl_status e) = Max (insert (status_rank (dl_status d))
      ((status_rank \<circ> su_status) ` {u \<in> set us. reported rl u d}))) (dv_rows st) (dv_rows (snd (apply_reports rl us st)))"
proof
  have "map status_rank (map dl_status (dv_rows (snd (apply_reports rl us st)))) =
      map status_rank (map dl_status (dv_rows (snd (apply_reports rl vs st))))"
    unfolding map_map applied_ranks by (simp add: top_rank_def assms)
  moreover have "inj status_rank" by (simp add: inj_def rank_inj)
  ultimately show "map dl_status (dv_rows (snd (apply_reports rl us st))) = map dl_status (dv_rows (snd (apply_reports rl vs st)))"
    by (metis inj_map_eq_map)
  have "list_all2 (\<lambda>d e. (status_rank \<circ> dl_status) e = top_rank rl us d) (dv_rows st) (dv_rows (snd (apply_reports rl us st)))"
    using applied_ranks[of rl us st] by (auto simp: list_all2_conv_all_nth list_eq_iff_nth_eq)
  then show "list_all2 (\<lambda>d e. status_rank (dl_status e) = Max (insert (status_rank (dl_status d))
      ((status_rank \<circ> su_status) ` {u \<in> set us. reported rl u d}))) (dv_rows st) (dv_rows (snd (apply_reports rl us st)))"
    by (simp add: top_rank_def)
qed

definition sample_reports :: report_lib where
  "sample_reports = \<lparr>rl_millis = (\<lambda>_. None), rl_now = 9, rl_sha256 = id\<rparr>"

definition sample_report_of :: "delivery_status \<Rightarrow> status_update" where
  "sample_report_of status = \<lparr>su_messageId = [1], su_status = status, su_at = 5, su_error = None\<rparr>"

text \<open>\<open>read\<close> arrives first and \<open>sent\<close> twice: the WhatsApp message is read, the SMS of the other row untouched.\<close>

theorem reports_in_any_order_witness:
  "(let st = snd (sendNotification sample_notifier channel_db sample_message no_deliveries);
        us = map sample_report_of [D_read, D_sent, D_delivered, D_sent]
    in map dl_status (dv_rows (snd (apply_reports sample_reports us st))) =
        map dl_status (dv_rows (snd (apply_reports sample_reports (rev us) st))) \<and>
      map dl_status (dv_rows (snd (apply_reports sample_reports us st))) = [D_sent, D_read])"
proof -
  let ?st = "snd (sendNotification sample_notifier channel_db sample_message no_deliveries)"
  let ?us = "map sample_report_of [D_read, D_sent, D_delivered, D_sent]"
  have "map dl_status (dv_rows (snd (apply_reports sample_reports ?us ?st))) = [D_sent, D_read]"
    by code_simp
  then show ?thesis
    using reports_in_any_order[of ?us "rev ?us" sample_reports ?st] unfolding Let_def by (simp only: set_rev simp_thms)
qed

section \<open>No message to Meta twice\<close>

text \<open>
  A message is sent to Meta at most three times, and again only while every earlier try was refused by Meta itself
  with an error that means it was not sent: not after a time-out, a lost connection or an unclear answer. The
  outcome is that of the last try.
\<close>

theorem sent_again_only_when_refused:
  assumes "sendTemplate fetch 3 = (r, n)"
  shows "1 \<le> n \<and> n \<le> 3 \<and> r = attempt (fetch n) \<and> (\<forall>i. 1 \<le> i \<and> i < n \<longrightarrow> refused_for_now (fetch i))"
  using tries_run[OF assms[unfolded sendTemplate_def]] by auto

definition throttled :: fetched where
  "throttled = Answered 429 (Some (JObject [(units ''error'', JObject [(units ''code'', JInt 130429)])]))"

theorem sent_again_only_when_refused_witness:
  "sendTemplate (\<lambda>i. if i = 1 then throttled else Timed_out) 3 = (Inl (no_answer ''Meta did not answer in time''), 2) \<and>
    refused_for_now throttled"
proof -
  let ?f = "\<lambda>i :: nat. if i = 1 then throttled else Timed_out"
  have members: "member_of (record_of (Some (JObject [(units k, j)]))) k = Some j" for k j
    by (simp add: member_of_def record_of_def)
  have "attempt throttled = Inl (refusal 429 (Some (JObject [(units ''error'', JObject [(units ''code'', JInt 130429)])])))"
    by (simp add: attempt_def throttled_def members)
  moreover have "me_retryable (refusal 429 (Some (JObject [(units ''error'', JObject [(units ''code'', JInt 130429)])])))"
    by (simp add: refusal_def Let_def members number_in_def RETRYABLE_CODES_def)
  moreover have "attempt Timed_out = Inl (no_answer ''Meta did not answer in time'')" "\<not> me_retryable (no_answer t)" for t
    by (simp_all add: attempt_def no_answer_def)
  ultimately have run: "sendTemplate ?f 3 = (Inl (no_answer ''Meta did not answer in time''), 2)"
    by (simp add: sendTemplate_def send_tries.simps)
  have "refused_for_now (?f 1)" using sent_again_only_when_refused[OF run] by (metis one_less_numeral_iff order_refl semiring_norm(76))
  with run show ?thesis by simp
qed

end
