(* ===== verification/Event_Images.thy ===== *)
theory Event_Images
  imports Profile_Service Events_Admin
begin

text \<open>
  The images of events (\<open>modules/admin/events/admin-events.service.ts\<close>): the uploaded file is decoded and stored
  before the row is written, and what is no longer shown is destroyed after the transaction; a failed deletion is
  logged and leaves the asset, as for the photos of profiles.
\<close>

definition destroyEventImage :: "media \<Rightarrow> string \<Rightarrow> unit op" where
  "destroyEventImage md publicId =
    emit (if media_destroy md publicId then Event_asset_destroyed publicId else Event_asset_left publicId)"

definition destroy_replaced :: "media \<Rightarrow> string option \<Rightarrow> unit op" where
  "destroy_replaced md previous =
    (case previous of None \<Rightarrow> ret () | Some p \<Rightarrow> doWhen (p \<noteq> []) (destroyEventImage md p))"

definition upload_event_image :: "media \<Rightarrow> env \<Rightarrow> admin_actor \<Rightarrow> uuid \<Rightarrow> string \<Rightarrow> (event \<times> admin_event_pass) op" where
  "upload_event_image md env actor eventId file =
    andThen (gets (by_key events_table eventId)) (\<lambda>existing.
    andThen (from_option existing (App NOT_FOUND)) (\<lambda>e.
    andThen (ensure (ev_status e \<noteq> E_archived) (App CONFLICT)) (\<lambda>_.
    andThen (from_sum (processProfileImage md file)) (\<lambda>processed.
    andThen (from_option (media_upload md processed) Unexpected_error) (\<lambda>stored.
    andThen (emit (Event_asset_stored (fst stored))) (\<lambda>_.
    andThen (tryCatch (set_image_tx env actor eventId (fst stored))
      (\<lambda>err. andThen (destroyEventImage md (fst stored)) (\<lambda>_. throw err))) (\<lambda>previous.
    andThen (destroy_replaced md previous) (\<lambda>_.
    getDetail eventId))))))))"

definition delete_event_image :: "media \<Rightarrow> env \<Rightarrow> admin_actor \<Rightarrow> uuid \<Rightarrow> (event \<times> admin_event_pass) op" where
  "delete_event_image md env actor eventId =
    andThen (delete_image_tx env actor eventId) (\<lambda>previous.
    andThen (destroy_replaced md previous) (\<lambda>_.
    getDetail eventId))"

definition removeEvent :: "media \<Rightarrow> env \<Rightarrow> admin_actor \<Rightarrow> uuid \<Rightarrow> unit op" where
  "removeEvent md env actor eventId = andThen (remove_event env actor eventId) (destroy_replaced md)"

end
