(* ===== verification/Integrity_Services.thy ===== *)
theory Integrity_Services
  imports Integrity Profile_Service Chat Blocks Suspicious Admin_Auth Events_Admin Payments
begin

text \<open>
  Every operation of every service keeps the constraints of the database. One lemma per layer of calls; each
  rests on the writes of the tables (\<open>Integrity\<close>) and on the layers below.
\<close>

section \<open>Domain\<close>

lemma domain_keeps_1 [db_keeps]:
  "keeps (kept_since s0) (recordAdminAction a0 a1 a2 a3 a4 a5 a6)"
    "keeps (kept_since s0) (recordSafety b0 b1 b2 b3 b4 b5 b6)"
  unfolding recordAdminAction_def recordSafety_def Let_def
  by (intro keeps_rules db_keeps; simp add: setting_keeps)+

section \<open>Notifications\<close>

text \<open>Case distinctions on the results of the operations.\<close>

lemma keeps_case_refresh [db_keeps]:
  "(\<And>u i t e. keeps I (f u i t e)) \<Longrightarrow> keeps I a \<Longrightarrow> (\<And>i. keeps I (g i)) \<Longrightarrow>
    keeps I (case r of Refreshed u i t e \<Rightarrow> f u i t e | Refresh_invalid \<Rightarrow> a | Reuse_detected i \<Rightarrow> g i)"
  by (cases r) simp_all

lemma keeps_case_admin_refresh [db_keeps]:
  "(\<And>u i t e. keeps I (f u i t e)) \<Longrightarrow> keeps I a \<Longrightarrow>
    keeps I (case r of Admin_refreshed u i t e \<Rightarrow> f u i t e | Admin_refresh_invalid \<Rightarrow> a)"
  by (cases r) simp_all

lemma keeps_case_rejection [db_keeps]:
  "keeps I a \<Longrightarrow> keeps I b \<Longrightarrow> keeps I c \<Longrightarrow>
    keeps I (case r of Keys_unavailable \<Rightarrow> a | Unsupported_number \<Rightarrow> b | Other_rejection \<Rightarrow> c)"
  by (cases r) simp_all

lemma keeps_case_outcome [db_keeps]:
  "keeps I a \<Longrightarrow> (\<And>p. keeps I (d p)) \<Longrightarrow> (\<And>p q x. keeps I (f p q x)) \<Longrightarrow> (\<And>p. keeps I (c p)) \<Longrightarrow>
    (\<And>p. keeps I (g p)) \<Longrightarrow> keeps I (case r of Fin_ignored \<Rightarrow> a | Fin_recorded p \<Rightarrow> d p
      | Fin_booked p q x \<Rightarrow> f p q x | Fin_already p \<Rightarrow> c p | Fin_refund_duplicate p \<Rightarrow> g p)"
  by (cases r) simp_all

lemma keeps_case_sanction [db_keeps]:
  "keeps I a \<Longrightarrow> keeps I b \<Longrightarrow> keeps I c \<Longrightarrow> keeps I d \<Longrightarrow>
    keeps I (case r of Warning \<Rightarrow> a | Chat_restriction \<Rightarrow> b | Suspension \<Rightarrow> c | Ban \<Rightarrow> d)"
  by (cases r) simp_all

lemma apply_settings_append: "apply_settings (as @ bs) inst row = apply_settings bs inst (apply_settings as inst row)"
  by (simp add: apply_settings_def)

lemma keeps_push [db_keeps]: "keeps (kept_since s0) (push env ids)"
  unfolding push_def push_rows_def Let_def
  by (intro keeps_rules keeps_modify) (simp add: kept_since_def db_ok_def table_ok_def)

lemma keeps_reminders [db_keeps]: "keeps (kept_since s0) (remind_all t as)"
proof (induction as)
  case (Cons a as)
  show ?case unfolding remind_all.simps by (intro keeps_rules db_keeps Cons.IH)
qed (simp add: keeps_rules)

lemma notifications_keeps_1 [db_keeps]:
  "keeps (kept_since s0) (upsert_message_notification a0 a1)"
    "keeps (kept_since s0) (removeNotificationsBetween b0 b1)"
    "keeps (kept_since s0) (markChatNotificationsRead c0 c1)"
    "keeps (kept_since s0) (load_notification d0 d1)"
    "keeps (kept_since s0) (markAllRead e0)"
    "keeps (kept_since s0) (updatePreferences f0 f1 f2)"
    "keeps (kept_since s0) (createEventReminders g0)"
    "keeps (kept_since s0) (purgeOldNotifications h0)"
  unfolding upsert_message_notification_def removeNotificationsBetween_def markChatNotificationsRead_def load_notification_def markAllRead_def updatePreferences_def createEventReminders_def purgeOldNotifications_def Let_def
  by (intro keeps_rules db_keeps; simp add: setting_keeps)+

lemma notifications_keeps_2 [db_keeps]:
  "keeps (kept_since s0) (store a0)"
    "keeps (kept_since s0) (markRead b0 b1)"
  unfolding store_def markRead_def Let_def
  by (intro keeps_rules db_keeps; simp add: setting_keeps)+

lemma notifications_keeps_3 [db_keeps]:
  "keeps (kept_since s0) (notify a0 a1)"
  unfolding notify_def Let_def
  by (intro keeps_rules db_keeps; simp add: setting_keeps)+

section \<open>Pass_Availability\<close>

section \<open>Razorpay_Gateway\<close>

section \<open>Payments\<close>

lemma keeps_random_chars [db_keeps]: "keeps (kept_since s0) (random_chars alphabet n)"
  by (induction n) (auto intro!: keeps_rules db_keeps)

lemma keeps_gateway_call [db_keeps]: "keeps (kept_since s0) (gateway_call c f)"
  by (simp add: keeps_def gateway_call_def kept_since_def db_ok_def table_ok_def)

lemma keeps_webhooks [db_keeps]: "keeps (kept_since s0) (modify (\<lambda>s. s\<lparr>t_webhooks := g s\<rparr>))"
  by (simp add: keeps_def modify_def kept_since_def db_ok_def table_ok_def)

lemma payments_keeps_1 [db_keeps]:
  "keeps (kept_since s0) (bookingCode)"
    "keeps (kept_since s0) (requireGateway b0)"
    "keeps (kept_since s0) (orderView c0)"
    "keeps (kept_since s0) (bookingView d0)"
    "keeps (kept_since s0) (notifyBooking e0 e1 e2)"
    "keeps (kept_since s0) (applyRefund f0 f1 f2 f3)"
    "keeps (kept_since s0) (record_payment g0 g1)"
    "keeps (kept_since s0) (create_order_tx h0 h1 h2 h3)"
    "keeps (kept_since s0) (event_of_order i0)"
    "keeps (kept_since s0) (find_or_create_webhook j0)"
    "keeps (kept_since s0) (mark_webhook_processed k0)"
    "keeps (kept_since s0) (refund_booking_tx l0 l1 l2 l3 l4)"
    "keeps (kept_since s0) (expire_order m0)"
  unfolding bookingCode_def requireGateway_def orderView_def bookingView_def notifyBooking_def applyRefund_def record_payment_def create_order_tx_def event_of_order_def find_or_create_webhook_def mark_webhook_processed_def refund_booking_tx_def expire_order_def Let_def
  by (intro keeps_rules db_keeps; simp add: setting_keeps)+

lemma payments_keeps_2 [db_keeps]:
  "keeps (kept_since s0) (notify_refunded a0 a1 a2)"
    "keeps (kept_since s0) (captured_state b0 b1 b2 b3)"
    "keeps (kept_since s0) (book_order c0 c1 c2)"
    "keeps (kept_since s0) (attachRazorpayOrder d0 d1)"
    "keeps (kept_since s0) (find_or_create_order e0 e1 e2 e3)"
    "keeps (kept_since s0) (getOrder f0 f1)"
    "keeps (kept_since s0) (getBooking g0 g1)"
  unfolding notify_refunded_def captured_state_def book_order_def attachRazorpayOrder_def find_or_create_order_def getOrder_def getBooking_def Let_def
  by (intro keeps_rules db_keeps; simp add: setting_keeps)+

lemma payments_keeps_3 [db_keeps]:
  "keeps (kept_since s0) (startRefund a0 a1 a2 a3)"
    "keeps (kept_since s0) (onRefundWebhook b0 b1)"
    "keeps (kept_since s0) (settle_payment c0 c1 c2 c3)"
    "keeps (kept_since s0) (createOrder d0 d1 d2 d3 d4)"
  unfolding startRefund_def onRefundWebhook_def settle_payment_def createOrder_def Let_def
  by (intro keeps_rules db_keeps; simp add: setting_keeps)+

lemma payments_keeps_4 [db_keeps]:
  "keeps (kept_since s0) (finalize_tx a0 a1 a2)"
    "keeps (kept_since s0) (after_finalize b0 b1 b2)"
    "keeps (kept_since s0) (refundBooking c0 c1 c2 c3 c4 c5)"
  unfolding finalize_tx_def after_finalize_def refundBooking_def Let_def
  by (intro keeps_rules db_keeps; simp add: setting_keeps)+

lemma payments_keeps_5 [db_keeps]:
  "keeps (kept_since s0) (finalize a0 a1 a2)"
  unfolding finalize_def Let_def
  by (intro keeps_rules db_keeps; simp add: setting_keeps)+

lemma payments_keeps_6 [db_keeps]:
  "keeps (kept_since s0) (verify a0 a1 a2 a3 a4 a5 a6)"
    "keeps (kept_since s0) (dispatch_webhook b0 b1 b2 b3)"
  unfolding verify_def dispatch_webhook_def Let_def
  by (intro keeps_rules db_keeps; simp add: setting_keeps)+

lemma kept_reconcile_payments [db_keeps]: "keeps (kept_since s0) (reconcile_payments env gw ps n)"
  by (induction ps arbitrary: n) (auto intro!: keeps_rules db_keeps split: finalize_outcome.split)

lemma kept_reconcile_order [db_keeps]: "keeps (kept_since s0) (reconcile_order env gw q n)"
  unfolding reconcile_order_def by (intro keeps_rules db_keeps)

lemma payments_keeps_7 [db_keeps]:
  "keeps (kept_since s0) (handleWebhook a0 a1 a2 a3 a4 a5)"
  unfolding handleWebhook_def Let_def
  by (intro keeps_rules db_keeps; simp add: setting_keeps)+

lemma kept_expire_due [db_keeps]: "keeps (kept_since s0) (expire_due env gw orders n)"
  by (induction orders arbitrary: n) (auto intro!: keeps_rules db_keeps)

lemma kept_expireOrders [db_keeps]: "keeps (kept_since s0) (expireOrders env gw t)"
  unfolding expireOrders_def by (intro keeps_rules db_keeps)

section \<open>Locations\<close>

lemma locations_keeps_1 [db_keeps]:
  "keeps (kept_since s0) (assertValidLocation a0 a1)"
  unfolding assertValidLocation_def Let_def
  by (intro keeps_rules db_keeps; simp add: setting_keeps)+

section \<open>Events_Admin\<close>

lemma keeps_random_suffix [db_keeps]: "keeps (kept_since s0) (random_suffix n)"
  by (induction n) (auto intro!: keeps_rules db_keeps)

lemma events_admin_keeps_1 [db_keeps]:
  "keeps (kept_since s0) (createEventSlug a0)"
    "keeps (kept_since s0) (assertSchedule b0 b1 b2)"
    "keeps (kept_since s0) (assertUsableOrganizer c0)"
    "keeps (kept_since s0) (audit_event d0 d1 d2 d3 d4)"
    "keeps (kept_since s0) (getDetail e0)"
    "keeps (kept_since s0) (lockEditable f0)"
    "keeps (kept_since s0) (publish_change g0)"
    "keeps (kept_since s0) (unpublish_change h0)"
    "keeps (kept_since s0) (verify_change i0)"
    "keeps (kept_since s0) (unverify_change j0)"
    "keeps (kept_since s0) (archive_change k0)"
    "keeps (kept_since s0) (restore_change l0)"
  unfolding createEventSlug_def assertSchedule_def assertUsableOrganizer_def audit_event_def getDetail_def lockEditable_def publish_change_def unpublish_change_def verify_change_def unverify_change_def archive_change_def restore_change_def Let_def
  by (intro keeps_rules db_keeps; simp add: setting_keeps event_settings_def)+

lemma keeps_try_slugs [db_keeps]: "keeps (kept_since s0) (try_slugs n name)"
  by (induction n) (auto intro!: keeps_rules db_keeps)

lemma events_admin_keeps_2 [db_keeps]:
  "keeps (kept_since s0) (uniqueSlug a0)"
    "keeps (kept_since s0) (update_pass_tx b0 b1 b2 b3 b4)"
    "keeps (kept_since s0) (create_event_tx c0 c1 c2 c3)"
    "keeps (kept_since s0) (update_event_tx d0 d1 d2 d3)"
    "keeps (kept_since s0) (remove_event e0 e1 e2)"
    "keeps (kept_since s0) (set_image_tx f0 f1 f2 f3)"
    "keeps (kept_since s0) (delete_image_tx g0 g1 g2)"
  unfolding uniqueSlug_def update_pass_tx_def create_event_tx_def update_event_tx_def remove_event_def set_image_tx_def delete_image_tx_def Let_def
  by (intro keeps_rules db_keeps; simp add: setting_keeps event_settings_def)+

lemma keeps_andThen_result:
  "keeps I m \<Longrightarrow> (\<And>s x t. m s = (Inr x, t) \<Longrightarrow> keeps I (f x)) \<Longrightarrow> keeps I (andThen m f)"
  by (force simp: keeps_def andThen_def split: prod.splits sum.splits)

text \<open>The changes of the event life cycle keep the id of the event.\<close>

definition keeps_event_id :: "event setting list \<Rightarrow> bool" where
  "keeps_event_id cs \<longleftrightarrow> (\<forall>inst r. ev_id (apply_settings cs inst r) = ev_id r)"

lemma kept_transition_tx:
  assumes "\<And>e. keeps (kept_since s0) (change e)" "\<And>e s cs t. change e s = (Inr cs, t) \<Longrightarrow> keeps_event_id cs"
  shows "keeps (kept_since s0) (transition_tx env actor i action change)"
  unfolding transition_tx_def
proof (rule keeps_transaction, rule keeps_andThen, rule keeps_gets, rule keeps_andThen, rule keeps_from_option)
  fix e
  show "keeps (kept_since s0) (andThen (change e) (\<lambda>changes. andThen (save events_table
      (changes @ [setting ev_updatedByAdminId ev_updatedByAdminId_update (ac_adminId actor)]) e) (\<lambda>e'.
      audit_event env actor action i [(''from'', Meta_text (event_status_text (ev_status e))),
        (''to'', Meta_text (event_status_text (ev_status e')))])))"
  proof (rule keeps_andThen_result[OF assms(1)], drule assms(2))
    fix cs assume "keeps_event_id cs"
    then show "keeps (kept_since s0) (andThen (save events_table
        (cs @ [setting ev_updatedByAdminId ev_updatedByAdminId_update (ac_adminId actor)]) e) (\<lambda>e'.
        audit_event env actor action i [(''from'', Meta_text (event_status_text (ev_status e))),
          (''to'', Meta_text (event_status_text (ev_status e')))]))"
      by (intro keeps_rules db_keeps) (simp_all add: keeps_event_id_def apply_settings_append setting_keeps)
  qed
qed

lemma changes_keep_event_id:
  "publish_change e s = (Inr cs, t) \<Longrightarrow> keeps_event_id cs" "unpublish_change e s = (Inr cs, t) \<Longrightarrow> keeps_event_id cs"
  "verify_change e s = (Inr cs, t) \<Longrightarrow> keeps_event_id cs" "unverify_change e s = (Inr cs, t) \<Longrightarrow> keeps_event_id cs"
  "archive_change e s = (Inr cs, t) \<Longrightarrow> keeps_event_id cs" "restore_change e s = (Inr cs, t) \<Longrightarrow> keeps_event_id cs"
  unfolding keeps_event_id_def publish_change_def unpublish_change_def verify_change_def unverify_change_def
    archive_change_def restore_change_def
  by (auto simp: returns_iff setting_keeps)

lemma keeps_publish [db_keeps]: "keeps (kept_since s0) (publish env actor i)"
  unfolding publish_def transition_op_def by (intro keeps_rules kept_transition_tx db_keeps changes_keep_event_id)

lemma keeps_unpublish [db_keeps]: "keeps (kept_since s0) (unpublish env actor i)"
  unfolding unpublish_def transition_op_def by (intro keeps_rules kept_transition_tx db_keeps changes_keep_event_id)

lemma keeps_verify_event [db_keeps]: "keeps (kept_since s0) (verify_event env actor i)"
  unfolding verify_event_def transition_op_def by (intro keeps_rules kept_transition_tx db_keeps changes_keep_event_id)

lemma keeps_unverify_event [db_keeps]: "keeps (kept_since s0) (unverify_event env actor i)"
  unfolding unverify_event_def transition_op_def by (intro keeps_rules kept_transition_tx db_keeps changes_keep_event_id)

lemma keeps_archive_event [db_keeps]: "keeps (kept_since s0) (archive_event env actor i)"
  unfolding archive_event_def transition_op_def by (intro keeps_rules kept_transition_tx db_keeps changes_keep_event_id)

lemma keeps_restore_event [db_keeps]: "keeps (kept_since s0) (restore_event env actor i)"
  unfolding restore_event_def transition_op_def by (intro keeps_rules kept_transition_tx db_keeps changes_keep_event_id)

lemma events_admin_keeps_3 [db_keeps]:
  "keeps (kept_since s0) (updatePass a0 a1 a2 a3 a4)"
    "keeps (kept_since s0) (create_event_op b0 b1 b2)"
    "keeps (kept_since s0) (update_event_op c0 c1 c2 c3)"
  unfolding updatePass_def create_event_op_def update_event_op_def Let_def
  by (intro keeps_rules db_keeps; simp add: setting_keeps event_settings_def)+

section \<open>Auth\<close>

lemma auth_keeps_1 [db_keeps]:
  "keeps (kept_since s0) (randomToken)"
    "keeps (kept_since s0) (issue b0 b1 b2 b3 b4)"
    "keeps (kept_since s0) (find_or_create_user c0 c1 c2)"
    "keeps (kept_since s0) (revoke_session d0 d1 d2)"
    "keeps (kept_since s0) (rotate_session e0 e1 e2 e3 e4 e5)"
    "keeps (kept_since s0) (touch_user f0 f1)"
    "keeps (kept_since s0) (logout g0 g1 g2)"
    "keeps (kept_since s0) (getMe h0)"
  unfolding randomToken_def issue_def find_or_create_user_def revoke_session_def rotate_session_def touch_user_def logout_def getMe_def Let_def
  by (intro keeps_rules db_keeps; simp add: setting_keeps)+

lemma auth_keeps_2 [db_keeps]:
  "keeps (kept_since s0) (createSession a0 a1 a2)"
    "keeps (kept_since s0) (refresh_known b0 b1 b2 b3)"
    "keeps (kept_since s0) (refresh_reused c0)"
  unfolding createSession_def refresh_known_def refresh_reused_def Let_def
  by (intro keeps_rules db_keeps; simp add: setting_keeps)+

lemma auth_keeps_3 [db_keeps]:
  "keeps (kept_since s0) (login_tx a0 a1 a2 a3)"
    "keeps (kept_since s0) (refresh_tx b0 b1 b2)"
  unfolding login_tx_def refresh_tx_def Let_def
  by (intro keeps_rules db_keeps; simp add: setting_keeps)+

lemma auth_keeps_4 [db_keeps]:
  "keeps (kept_since s0) (loginWithPhoneToken a0 a1 a2)"
    "keeps (kept_since s0) (refresh b0 b1 b2)"
  unfolding loginWithPhoneToken_def refresh_def Let_def
  by (intro keeps_rules db_keeps; simp add: setting_keeps)+

section \<open>Admin_Auth\<close>

lemma admin_auth_keeps_1 [db_keeps]:
  "keeps (kept_since s0) (issue_admin a0 a1 a2 a3 a4)"
    "keeps (kept_since s0) (audit_admin b0 b1 b2 b3 b4)"
    "keeps (kept_since s0) (revoke_admin_session c0 c1 c2)"
    "keeps (kept_since s0) (admin_getMe d0)"
  unfolding issue_admin_def audit_admin_def revoke_admin_session_def admin_getMe_def Let_def
  by (intro keeps_rules db_keeps; simp add: setting_keeps)+

lemma admin_auth_keeps_2 [db_keeps]:
  "keeps (kept_since s0) (registerFailure a0 a1 a2)"
    "keeps (kept_since s0) (admin_refresh_reused b0)"
    "keeps (kept_since s0) (admin_refresh_known c0 c1 c2 c3)"
    "keeps (kept_since s0) (admin_logout d0 d1 d2 d3)"
  unfolding registerFailure_def admin_refresh_reused_def admin_refresh_known_def admin_logout_def Let_def
  by (intro keeps_rules db_keeps; simp add: setting_keeps)+

lemma admin_auth_keeps_3 [db_keeps]:
  "keeps (kept_since s0) (admin_login_tx a0 a1 a2 a3)"
    "keeps (kept_since s0) (admin_refresh_tx b0 b1 b2)"
  unfolding admin_login_tx_def admin_refresh_tx_def Let_def
  by (intro keeps_rules db_keeps; simp add: setting_keeps)+

lemma admin_auth_keeps_4 [db_keeps]:
  "keeps (kept_since s0) (admin_login a0 a1 a2 a3 a4)"
    "keeps (kept_since s0) (admin_refresh b0 b1 b2)"
  unfolding admin_login_def admin_refresh_def Let_def
  by (intro keeps_rules db_keeps; simp add: setting_keeps)+

section \<open>Discovery\<close>

section \<open>Discovery_Service\<close>

section \<open>Connections\<close>

lemma answered_key [simp]: "i_id (answer status t x) = i_id x" "m_id (end_match st t u a m) = m_id m"
  by (simp_all add: answer_def end_match_def)

lemma connections_keeps_1 [db_keeps]:
  "keeps (kept_since s0) (endConnections a0 a1 a2 a3 a4)"
    "keeps (kept_since s0) (emitMatchEnded b0 b1 b2)"
    "keeps (kept_since s0) (cancelPendingInterestsOf c0)"
    "keeps (kept_since s0) (endAllMatchesOf d0 d1)"
    "keeps (kept_since s0) (unmatch_tx e0 e1)"
  unfolding endConnections_def emitMatchEnded_def cancelPendingInterestsOf_def endAllMatchesOf_def unmatch_tx_def Let_def
  by (intro keeps_rules db_keeps; simp add: setting_keeps)+

lemma connections_keeps_2 [db_keeps]:
  "keeps (kept_since s0) (unmatch a0 a1)"
  unfolding unmatch_def Let_def
  by (intro keeps_rules db_keeps; simp add: setting_keeps)+

section \<open>Interests\<close>

lemma interests_keeps_1 [db_keeps]:
  "keeps (kept_since s0) (expireStale a0 a1)"
    "keeps (kept_since s0) (answer_pending b0 b1 b2)"
    "keeps (kept_since s0) (create_match c0 c1 c2 c3)"
    "keeps (kept_since s0) (accept_row d0 d1)"
    "keeps (kept_since s0) (notify_sent e0 e1 e2 e3)"
    "keeps (kept_since s0) (assertMaySend f0 f1 f2 f3 f4)"
    "keeps (kept_since s0) (close_pending g0 g1)"
  unfolding expireStale_def answer_pending_def create_match_def accept_row_def notify_sent_def assertMaySend_def close_pending_def Let_def
  by (intro keeps_rules db_keeps; simp add: setting_keeps)+

lemma interests_keeps_2 [db_keeps]:
  "keeps (kept_since s0) (respond a0 a1 a2)"
    "keeps (kept_since s0) (send_tx b0 b1 b2)"
    "keeps (kept_since s0) (accept_tx c0 c1 c2)"
  unfolding respond_def send_tx_def accept_tx_def Let_def
  by (intro keeps_rules db_keeps; simp add: setting_keeps)+

lemma interests_keeps_3 [db_keeps]:
  "keeps (kept_since s0) (reject a0 a1)"
    "keeps (kept_since s0) (withdraw b0 b1)"
    "keeps (kept_since s0) (send c0 c1 c2 c3 c4)"
    "keeps (kept_since s0) (accept d0 d1 d2)"
  unfolding reject_def withdraw_def send_def accept_def Let_def
  by (intro keeps_rules db_keeps; simp add: setting_keeps)+

section \<open>Sanctions\<close>

lemma sanctions_keeps_1 [db_keeps]:
  "keeps (kept_since s0) (setAccountStatus a0 a1)"
    "keeps (kept_since s0) (hideFromDiscovery b0 b1)"
    "keeps (kept_since s0) (revoke_sanctions c0 c1 c2 c3)"
    "keeps (kept_since s0) (disconnectUser d0 d1)"
    "keeps (kept_since s0) (expire_sanction e0 e1)"
    "keeps (kept_since s0) (acknowledgeWarning f0 f1)"
  unfolding setAccountStatus_def hideFromDiscovery_def revoke_sanctions_def disconnectUser_def expire_sanction_def acknowledgeWarning_def Let_def
  by (intro keeps_rules db_keeps; simp add: setting_keeps)+

lemma sanctions_keeps_2 [db_keeps]:
  "keeps (kept_since s0) (enforce a0 a1 a2 a3)"
    "keeps (kept_since s0) (liftSanction b0 b1 b2 b3 b4)"
    "keeps (kept_since s0) (applySanctionEffects c0 c1)"
    "keeps (kept_since s0) (expireSanctions d0)"
  unfolding enforce_def liftSanction_def applySanctionEffects_def expireSanctions_def Let_def
  by (intro keeps_rules db_keeps; simp add: setting_keeps)+

lemma sanctions_keeps_3 [db_keeps]:
  "keeps (kept_since s0) (impose a0 a1 a2 a3)"
    "keeps (kept_since s0) (expiry_tick b0)"
  unfolding impose_def expiry_tick_def Let_def
  by (intro keeps_rules db_keeps; simp add: setting_keeps)+

lemma sanctions_keeps_4 [db_keeps]:
  "keeps (kept_since s0) (applySanction a0 a1 a2)"
  unfolding applySanction_def Let_def
  by (intro keeps_rules db_keeps; simp add: setting_keeps)+

section \<open>Suspicious\<close>

lemma suspicious_keeps_1 [db_keeps]:
  "keeps (kept_since s0) (flag_tx a0)"
  unfolding flag_tx_def Let_def
  by (intro keeps_rules db_keeps; simp add: setting_keeps)+

lemma keeps_safely [db_keeps]: "keeps (kept_since s0) m \<Longrightarrow> keeps (kept_since s0) (safely m)"
  unfolding safely_def by (intro keeps_rules)

lemma suspicious_keeps_2 [db_keeps]:
  "keeps (kept_since s0) (flag a0 a1)"
  unfolding flag_def Let_def
  by (intro keeps_rules db_keeps; simp add: setting_keeps)+

lemma suspicious_keeps_3 [db_keeps]:
  "keeps (kept_since s0) (detect_money a0 a1)"
    "keeps (kept_since s0) (detect_repeated b0 b1)"
    "keeps (kept_since s0) (afterBlock c0 c1)"
  unfolding detect_money_def detect_repeated_def afterBlock_def Let_def
  by (intro keeps_rules db_keeps; simp add: setting_keeps)+

lemma suspicious_keeps_4 [db_keeps]:
  "keeps (kept_since s0) (afterMessage a0 a1)"
  unfolding afterMessage_def Let_def
  by (intro keeps_rules db_keeps; simp add: setting_keeps)+

section \<open>Blocks\<close>

lemma blocks_keeps_1 [db_keeps]:
  "keeps (kept_since s0) (find_or_create_block a0 a1)"
    "keeps (kept_since s0) (unblock_member b0 b1 b2 b3)"
    "keeps (kept_since s0) (create_report c0 c1 c2)"
    "keeps (kept_since s0) (extend_report d0 d1 d2)"
    "keeps (kept_since s0) (auto_hide e0)"
    "keeps (kept_since s0) (log_report f0 f1 f2 f3 f4)"
    "keeps (kept_since s0) (assertMayReport g0 g1 g2 g3)"
  unfolding find_or_create_block_def unblock_member_def create_report_def extend_report_def auto_hide_def log_report_def assertMayReport_def Let_def
  by (intro keeps_rules db_keeps; simp add: setting_keeps)+

lemma blocks_keeps_2 [db_keeps]:
  "keeps (kept_since s0) (block_tx a0 a1)"
    "keeps (kept_since s0) (separate_members b0 b1 b2)"
  unfolding block_tx_def separate_members_def Let_def
  by (intro keeps_rules db_keeps; simp add: setting_keeps)+

lemma blocks_keeps_3 [db_keeps]:
  "keeps (kept_since s0) (block_member a0 a1 a2 a3)"
    "keeps (kept_since s0) (report_tx b0 b1)"
  unfolding block_member_def report_tx_def Let_def
  by (intro keeps_rules db_keeps; simp add: setting_keeps)+

lemma blocks_keeps_4 [db_keeps]:
  "keeps (kept_since s0) (report_member a0 a1 a2 a3)"
  unfolding report_member_def Let_def
  by (intro keeps_rules db_keeps; simp add: setting_keeps)+

section \<open>Chat\<close>

lemma chat_keeps_1 [db_keeps]:
  "keeps (kept_since s0) (find_or_create_message a0 a1 a2)"
    "keeps (kept_since s0) (deliver_message b0 b1 b2 b3 b4)"
    "keeps (kept_since s0) (mark_chat_read c0 c1 c2)"
  unfolding find_or_create_message_def deliver_message_def mark_chat_read_def Let_def
  by (intro keeps_rules db_keeps; simp add: setting_keeps move_read_def)+

lemma chat_keeps_2 [db_keeps]:
  "keeps (kept_since s0) (store_message_tx a0 a1 a2)"
  unfolding store_message_tx_def Let_def
  by (intro keeps_rules db_keeps; simp add: setting_keeps move_read_def)+

lemma chat_keeps_3 [db_keeps]:
  "keeps (kept_since s0) (send_allowed a0 a1 a2 a3)"
  unfolding send_allowed_def Let_def
  by (intro keeps_rules db_keeps; simp add: setting_keeps move_read_def)+

section \<open>Profiles\<close>

lemma profiles_keeps_1 [db_keeps]:
  "keeps (kept_since s0) (my_profile_of a0)"
    "keeps (kept_since s0) (assertAvailableDates b0)"
    "keeps (kept_since s0) (syncOnboarding c0)"
    "keeps (kept_since s0) (revokePhotoVerification d0)"
  unfolding my_profile_of_def assertAvailableDates_def syncOnboarding_def revokePhotoVerification_def Let_def
  by (intro keeps_rules db_keeps; simp add: setting_keeps)+

section \<open>Profile_Service\<close>

lemma given_key: "(\<And>x r. g (f x inst r) = g r) \<Longrightarrow> g (apply_settings (given v f) inst row) = g row"
  by (simp add: given_def split: option.split)

lemma settings_keep_key [simp]: "pf_id (apply_settings (profile_settings input p) inst row) = pf_id row"
  unfolding profile_settings_def apply_settings_append by (simp add: given_key setting_keeps)

lemma profile_service_keeps_1 [db_keeps]:
  "keeps (kept_since s0) (find_or_create_preference a0)"
    "keeps (kept_since s0) (update_profile_tx b0 b1)"
    "keeps (kept_since s0) (update_member_preferences c0 c1)"
    "keeps (kept_since s0) (destroyQuietly d0 d1)"
    "keeps (kept_since s0) (store_image_tx e0 e1)"
  unfolding find_or_create_preference_def update_profile_tx_def update_member_preferences_def destroyQuietly_def store_image_tx_def Let_def
  by (intro keeps_rules db_keeps; simp add: setting_keeps given_key apply_settings_append)+

lemma profile_service_keeps_2 [db_keeps]:
  "keeps (kept_since s0) (store_profile a0 a1)"
    "keeps (kept_since s0) (updateProfile b0 b1)"
    "keeps (kept_since s0) (destroy_previous c0 c1)"
  unfolding store_profile_def updateProfile_def destroy_previous_def Let_def
  by (intro keeps_rules db_keeps; simp add: setting_keeps given_key apply_settings_append)+

lemma profile_service_keeps_3 [db_keeps]:
  "keeps (kept_since s0) (create_profile_tx a0 a1)"
    "keeps (kept_since s0) (uploadImage b0 b1 b2)"
    "keeps (kept_since s0) (deleteImage c0 c1)"
  unfolding create_profile_tx_def uploadImage_def deleteImage_def Let_def
  by (intro keeps_rules db_keeps; simp add: setting_keeps given_key apply_settings_append)+

lemma profile_service_keeps_4 [db_keeps]:
  "keeps (kept_since s0) (createProfile a0 a1)"
  unfolding createProfile_def Let_def
  by (intro keeps_rules db_keeps; simp add: setting_keeps given_key apply_settings_append)+

end
