(* ===== verification/Integrity_Admin.thy ===== *)
theory Integrity_Admin
  imports Integrity_Services Event_Images Organizers Attendance Admin_Reports Csv
begin

text \<open>
  The services of the back office, attendance and the exports keep the constraints and the records of the
  database too. One lemma per layer of calls, as in \<open>Integrity_Services\<close>.
\<close>

section \<open>Event_Images\<close>

lemma event_images_keeps_0 [db_keeps]:
  "keeps (kept_since s0) (destroyEventImage a0 a1)"
    "keeps (kept_since s0) (destroy_replaced b0 b1)"
  unfolding destroyEventImage_def destroy_replaced_def
  by (intro keeps_rules db_keeps)+

lemma event_images_keeps_1 [db_keeps]:
  "keeps (kept_since s0) (upload_event_image a0 a1 a2 a3 a4)"
    "keeps (kept_since s0) (delete_event_image b0 b1 b2 b3)"
    "keeps (kept_since s0) (removeEvent c0 c1 c2 c3)"
  unfolding upload_event_image_def delete_event_image_def removeEvent_def Let_def
  by (intro keeps_rules db_keeps; simp add: setting_keeps)+

section \<open>Attendance\<close>

lemma attendance_keeps_1 [db_keeps]:
  "keeps (kept_since s0) (assertOpen a0)"
    "keeps (kept_since s0) (find_or_create_attendance b0 b1 b2)"
  unfolding assertOpen_def find_or_create_attendance_def Let_def
  by (intro keeps_rules db_keeps; simp add: setting_keeps)+

lemma attendance_keeps_2 [db_keeps]:
  "keeps (kept_since s0) (set_attendance a0 a1 a2)"
    "keeps (kept_since s0) (clear_attendance b0 b1)"
  unfolding set_attendance_def clear_attendance_def Let_def
  by (intro keeps_rules db_keeps; simp add: setting_keeps)+

section \<open>Organizers\<close>

definition keeps_organizer_id :: "event_organizer setting list \<Rightarrow> bool" where
  "keeps_organizer_id cs \<longleftrightarrow> (\<forall>inst r. og_id (apply_settings cs inst r) = og_id r)"

lemma organizer_settings_key [simp]: "og_id (apply_settings (organizer_settings g c a) inst r) = og_id r"
  by (simp add: organizer_settings_def setting_keeps)

lemma organizers_keeps_1 [db_keeps]:
  "keeps (kept_since s0) (organizer_detail a0 a1)"
    "keeps (kept_since s0) (audit_organizer b0 b1 b2 b3 b4)"
    "keeps (kept_since s0) (verify_organizer_change c0)"
    "keeps (kept_since s0) (unverify_organizer_change d0)"
    "keeps (kept_since s0) (archive_organizer_change e0)"
    "keeps (kept_since s0) (restore_organizer_change f0)"
  unfolding organizer_detail_def audit_organizer_def verify_organizer_change_def unverify_organizer_change_def archive_organizer_change_def restore_organizer_change_def Let_def
  by (intro keeps_rules db_keeps; simp add: setting_keeps)+

lemma organizers_keeps_2 [db_keeps]:
  "keeps (kept_since s0) (create_organizer_tx a0 a1 a2)"
    "keeps (kept_since s0) (update_organizer_tx b0 b1 b2 b3)"
  unfolding create_organizer_tx_def update_organizer_tx_def Let_def
  by (intro keeps_rules db_keeps; simp add: setting_keeps)+

lemma organizers_keeps_3 [db_keeps]:
  "keeps (kept_since s0) (create_organizer_op a0 a1 a2)"
    "keeps (kept_since s0) (update_organizer_op b0 b1 b2 b3)"
  unfolding create_organizer_op_def update_organizer_op_def Let_def
  by (intro keeps_rules db_keeps; simp add: setting_keeps)+

lemma keeps_organizer_transition:
  assumes "\<And>g. keeps (kept_since s0) (change g)" "\<And>g s cs t. change g s = (Inr cs, t) \<Longrightarrow> keeps_organizer_id cs"
  shows "keeps (kept_since s0) (organizer_transition env actor i action change)"
  unfolding organizer_transition_def organizer_transition_tx_def
proof (rule keeps_andThen, rule keeps_transaction, rule keeps_andThen, rule keeps_gets, rule keeps_andThen, rule keeps_from_option)
  fix g
  show "keeps (kept_since s0) (andThen (change g) (\<lambda>changes. andThen (save organizers_table
      (changes @ [setting og_updatedByAdminId og_updatedByAdminId_update (ac_adminId actor)]) g)
        (\<lambda>_. audit_organizer env actor action i [])))"
  proof (rule keeps_andThen_result[OF assms(1)], drule assms(2))
    fix cs assume "keeps_organizer_id cs"
    then show "keeps (kept_since s0) (andThen (save organizers_table
        (cs @ [setting og_updatedByAdminId og_updatedByAdminId_update (ac_adminId actor)]) g)
          (\<lambda>_. audit_organizer env actor action i []))"
      by (intro keeps_rules db_keeps) (simp_all add: keeps_organizer_id_def apply_settings_append setting_keeps)
  qed
qed (intro db_keeps)

lemma changes_keep_organizer_id:
  "verify_organizer_change g s = (Inr cs, t) \<Longrightarrow> keeps_organizer_id cs"
  "unverify_organizer_change g s = (Inr cs, t) \<Longrightarrow> keeps_organizer_id cs"
  "archive_organizer_change g s = (Inr cs, t) \<Longrightarrow> keeps_organizer_id cs"
  "restore_organizer_change g s = (Inr cs, t) \<Longrightarrow> keeps_organizer_id cs"
  unfolding keeps_organizer_id_def verify_organizer_change_def unverify_organizer_change_def
    archive_organizer_change_def restore_organizer_change_def
  by (auto simp: returns_iff setting_keeps)

lemma organizers_keeps_cycle [db_keeps]:
  "keeps (kept_since s0) (verify_organizer env actor i)" "keeps (kept_since s0) (unverify_organizer env actor i)"
  "keeps (kept_since s0) (archive_organizer env actor i)" "keeps (kept_since s0) (restore_organizer env actor i)"
  unfolding verify_organizer_def unverify_organizer_def archive_organizer_def restore_organizer_def
  by (intro keeps_organizer_transition db_keeps changes_keep_organizer_id; assumption)+

section \<open>Admin_Users\<close>

lemma admin_users_keeps_1 [db_keeps]:
  "keeps (kept_since s0) (user_detail a0)"
    "keeps (kept_since s0) (interaction_restriction_tx b0 b1 b2 b3 b4)"
  unfolding user_detail_def interaction_restriction_tx_def Let_def
  by (intro keeps_rules db_keeps; simp add: setting_keeps)+

lemma admin_users_keeps_2 [db_keeps]:
  "keeps (kept_since s0) (sanction_user a0 a1 a2 a3 a4)"
    "keeps (kept_since s0) (lift_user b0 b1 b2 b3 b4)"
    "keeps (kept_since s0) (setInteractionRestriction c0 c1 c2 c3 c4)"
  unfolding sanction_user_def lift_user_def setInteractionRestriction_def Let_def
  by (intro keeps_rules db_keeps; simp add: setting_keeps)+

lemma admin_users_keeps_3 [db_keeps]:
  "keeps (kept_since s0) (warn_user a0 a1 a2 a3)"
    "keeps (kept_since s0) (restrict_chat b0 b1 b2 b3)"
    "keeps (kept_since s0) (lift_chat_restriction c0 c1 c2 c3)"
    "keeps (kept_since s0) (suspend_user d0 d1 d2 d3)"
    "keeps (kept_since s0) (reactivate_user e0 e1 e2 e3)"
    "keeps (kept_since s0) (ban_user f0 f1 f2 f3)"
    "keeps (kept_since s0) (unban_user g0 g1 g2 g3)"
    "keeps (kept_since s0) (restrict_interactions h0 h1 h2 h3)"
    "keeps (kept_since s0) (lift_interaction_restriction i0 i1 i2 i3)"
  unfolding warn_user_def restrict_chat_def lift_chat_restriction_def suspend_user_def reactivate_user_def ban_user_def unban_user_def restrict_interactions_def lift_interaction_restriction_def Let_def
  by (intro keeps_rules db_keeps; simp add: setting_keeps)+

section \<open>Admin_Reports\<close>

lemma admin_reports_keeps_1 [db_keeps]:
  "keeps (kept_since s0) (report_detail_op a0)"
    "keeps (kept_since s0) (audit_report b0 b1 b2 b3 b4)"
    "keeps (kept_since s0) (apply_resolution c0 c1 c2 c3)"
    "keeps (kept_since s0) (clear_auto_hide d0)"
    "keeps (kept_since s0) (close_report e0 e1 e2)"
    "keeps (kept_since s0) (close_match_tx f0 f1 f2 f3)"
  unfolding report_detail_op_def audit_report_def apply_resolution_def clear_auto_hide_def close_report_def close_match_tx_def Let_def
  by (intro keeps_rules db_keeps; simp add: setting_keeps)+

lemma admin_reports_keeps_2 [db_keeps]:
  "keeps (kept_since s0) (view_conversation a0 a1 a2)"
    "keeps (kept_since s0) (assign_tx b0 b1 b2)"
    "keeps (kept_since s0) (resolve_tx c0 c1 c2 c3)"
    "keeps (kept_since s0) (close_match d0 d1 d2 d3)"
  unfolding view_conversation_def assign_tx_def resolve_tx_def close_match_def Let_def
  by (intro keeps_rules db_keeps; simp add: setting_keeps)+

lemma admin_reports_keeps_3 [db_keeps]:
  "keeps (kept_since s0) (assign_report a0 a1 a2)"
    "keeps (kept_since s0) (resolve_report b0 b1 b2 b3)"
  unfolding assign_report_def resolve_report_def Let_def
  by (intro keeps_rules db_keeps; simp add: setting_keeps)+

section \<open>Back_Office\<close>

lemma back_office_keeps_1 [db_keeps]:
  "keeps (kept_since s0) (admin_refund a0 a1 a2 a3 a4)"
  unfolding admin_refund_def Let_def
  by (intro keeps_rules db_keeps; simp add: setting_keeps)+

section \<open>Csv\<close>

lemma csv_keeps_1 [db_keeps]:
  "keeps (kept_since s0) (export_csv a0 a1 a2)"
  unfolding export_csv_def Let_def
  by (intro keeps_rules db_keeps; simp add: setting_keeps)+

end
