(* ===== verification/Payments_Seats.thy ===== *)
theory Payments_Seats
  imports Payments
begin

text \<open>
  Passes are never oversold. \<open>seat_inv\<close> says that for every event with a capacity the confirmed
  passes and the live reservations fit into it; every transaction of the payments service keeps
  it, whatever instances of rows the caller holds.
\<close>

section \<open>The invariant\<close>

definition capacity_kept :: "event \<Rightarrow> db \<Rightarrow> bool" where
  "capacity_kept e s \<longleftrightarrow>
    (case ev_passCapacity e of
       None \<Rightarrow> True
     | Some c \<Rightarrow> sold_seats (ev_id e) (t_bookings s) + reserved_seats (ev_id e) (clock s) 0 (t_orders s) \<le> c)"

definition seat_inv :: "db \<Rightarrow> bool" where
  "seat_inv s \<longleftrightarrow> table_ok orders_table s \<and> table_ok bookings_table s \<and> table_ok events_table s \<and>
    (\<forall>q \<in> set (t_orders s). o_id q \<noteq> 0) \<and> (\<forall>e \<in> set (t_events s). capacity_kept e s)"

definition seat_view :: "db \<Rightarrow> order list \<times> event_booking list \<times> event list \<times> instant" where
  "seat_view s = (t_orders s, t_bookings s, t_events s, clock s)"

lemma seat_inv_view: "seat_view s = seat_view t \<Longrightarrow> seat_inv s \<Longrightarrow> seat_inv t"
  by (auto simp: seat_inv_def seat_view_def capacity_kept_def table_ok_def cong: option.case_cong)

lemmas keeps_seats = keeps_view[where v = seat_view and I = seat_inv, OF _ seat_inv_view]

lemma ignores_seat_view: "ignores_notifications seat_view"
  by (simp add: ignores_notifications_def seat_view_def)

text \<open>A state whose counts are no larger satisfies the invariant.\<close>

lemma seat_inv_le:
  assumes "seat_inv s" "table_ok orders_table t" "table_ok bookings_table t" "t_events t = t_events s"
    and "\<And>q. q \<in> set (t_orders t) \<Longrightarrow> o_id q \<noteq> 0"
    and "\<And>e c. e \<in> set (t_events s) \<Longrightarrow> ev_passCapacity e = Some c \<Longrightarrow>
      sold_seats (ev_id e) (t_bookings s) + reserved_seats (ev_id e) (clock s) 0 (t_orders s) \<le> c \<Longrightarrow>
      sold_seats (ev_id e) (t_bookings t) + reserved_seats (ev_id e) (clock t) 0 (t_orders t) \<le> c"
  shows "seat_inv t"
  using assms by (auto simp: seat_inv_def capacity_kept_def table_ok_def split: option.splits)

section \<open>Updates of orders and bookings\<close>

text \<open>An update of orders that makes no reservation: it never grows the reserved seats.\<close>

definition releases :: "(order \<Rightarrow> order) \<Rightarrow> bool" where
  "releases f \<longleftrightarrow> (\<forall>q. o_id (f q) = o_id q \<and> o_eventId (f q) = o_eventId q \<and>
    o_quantity (f q) = o_quantity q \<and> o_expiresAt (f q) = o_expiresAt q \<and>
    (o_status (f q) = O_created \<longrightarrow> o_status q = O_created))"

lemma reserved_update_le:
  assumes "releases f" "\<And>q. q \<in> set rows \<Longrightarrow> 0 \<le> o_quantity q"
  shows "reserved_seats e t x (update_where P f rows) \<le> reserved_seats e t x rows"
  using assms(2)
proof (induction rows)
  case (Cons q rows)
  then have "reserved_seats e t x (update_where P f rows) \<le> reserved_seats e t x rows" by simp
  moreover have "0 \<le> o_quantity q" using Cons.prems by simp
  ultimately show ?case
    using assms(1) by (auto simp: reserved_seats_def releases_def add_mono add_increasing)
qed (simp add: reserved_seats_def)

lemma order_quantities: "table_ok orders_table s \<Longrightarrow> q \<in> set (t_orders s) \<Longrightarrow> 0 \<le> o_quantity q"
  using orders.row_ok[of s q] by (simp add: order_ok_def)

lemma keeps_release: "releases f \<Longrightarrow> keeps seat_inv (update_rows orders_table P f)"
proof (rule keepsI)
  fix s r t
  assume f: "releases f" and inv: "seat_inv s" and run: "update_rows orders_table P f s = (r, t)"
  show "seat_inv t"
  proof (cases r)
    case (Inl e)
    with run write_failed_state(2) inv show ?thesis by metis
  next
    case (Inr u)
    have ok: "table_ok orders_table s" "table_ok bookings_table s" using inv by (auto simp: seat_inv_def)
    have t: "t = s\<lparr>t_orders := update_where P f (t_orders s)\<rparr>"
      using run Inr by (simp add: update_rows_Inr_iff)
    have "table_ok orders_table t"
      using run Inr ok(1) f by (auto intro: orders.update_rows_ok simp: releases_def)
    moreover have "table_ok bookings_table t" using ok(2) t by (simp add: table_ok_def)
    moreover have "reserved_seats e c 0 (t_orders t) \<le> reserved_seats e c 0 (t_orders s)" for e c
      using t order_quantities[OF ok(1)] by (auto intro: reserved_update_le[OF f])
    ultimately show ?thesis
      using inv f t
      by (intro seat_inv_le[OF inv])
        (auto simp: seat_inv_def releases_def set_update_where split: if_splits
          intro: order_trans[OF add_left_mono])
  qed
qed

lemma releases_settings:
  "releases (apply_settings [setting o_razorpayOrderId o_razorpayOrderId_update v] q)"
  "st \<noteq> O_created \<Longrightarrow> releases (apply_settings [setting o_status o_status_update st] q)"
  "st \<noteq> O_created \<Longrightarrow> releases (apply_settings
     [setting o_status o_status_update st, setting o_paidAt o_paidAt_update p] q)"
  "st \<noteq> O_created \<Longrightarrow> releases (\<lambda>r. r\<lparr>o_status := st\<rparr>)"
  by (auto simp: releases_def setting_def)

lemma keeps_save: "keeps I (update_rows T (\<lambda>r. tb_key T r = tb_key T inst) (apply_settings cs inst)) \<Longrightarrow>
    keeps I (save T cs inst)"
  unfolding save_def by (intro keeps_rules)

text \<open>An update of bookings that confirms none: it never grows the sold seats.\<close>

definition cancels :: "(event_booking \<Rightarrow> event_booking) \<Rightarrow> bool" where
  "cancels f \<longleftrightarrow> (\<forall>b. b_id (f b) = b_id b \<and> b_eventId (f b) = b_eventId b \<and>
    b_quantity (f b) = b_quantity b \<and> (b_status (f b) = B_confirmed \<longrightarrow> b_status b = B_confirmed))"

lemma sold_update_le:
  assumes "cancels f" "\<And>b. b \<in> set rows \<Longrightarrow> 0 \<le> b_quantity b"
  shows "sold_seats e (update_where P f rows) \<le> sold_seats e rows"
  using assms(2)
proof (induction rows)
  case (Cons b rows)
  then have "sold_seats e (update_where P f rows) \<le> sold_seats e rows" by simp
  moreover have "0 \<le> b_quantity b" using Cons.prems by simp
  ultimately show ?case
    using assms(1) by (auto simp: sold_seats_def cancels_def add_mono add_increasing)
qed (simp add: sold_seats_def)

lemma booking_quantities: "table_ok bookings_table s \<Longrightarrow> b \<in> set (t_bookings s) \<Longrightarrow> 0 \<le> b_quantity b"
  using bookings.row_ok[of s b] by (simp add: booking_ok_def)

lemma keeps_cancel: "cancels f \<Longrightarrow> keeps seat_inv (update_rows bookings_table P f)"
proof (rule keepsI)
  fix s r t
  assume f: "cancels f" and inv: "seat_inv s" and run: "update_rows bookings_table P f s = (r, t)"
  show "seat_inv t"
  proof (cases r)
    case (Inl e)
    with run write_failed_state(2) inv show ?thesis by metis
  next
    case (Inr u)
    have ok: "table_ok bookings_table s" using inv by (auto simp: seat_inv_def)
    have t: "t = s\<lparr>t_bookings := update_where P f (t_bookings s)\<rparr>"
      using run Inr by (simp add: update_rows_Inr_iff)
    have "table_ok bookings_table t"
      using run Inr ok f by (auto intro: bookings.update_rows_ok simp: cancels_def)
    moreover have "sold_seats e (t_bookings t) \<le> sold_seats e (t_bookings s)" for e
      using t booking_quantities[OF ok] by (auto intro: sold_update_le[OF f])
    ultimately show ?thesis
      using inv t
      by (intro seat_inv_le[OF inv])
        (auto simp: seat_inv_def table_ok_def intro: order_trans[OF add_right_mono])
  qed
qed

section \<open>A new order\<close>

lemma create_order_tx_iff:
  "create_order_tx userId eventId quantity key s = (Inr (q, e), t) \<longleftrightarrow>
    by_key events_table eventId s = Some e \<and> ev_status e = E_published \<and> passesOnSale e (clock s) \<and>
    (\<exists>price s1. ev_passPricePaise e = Some price \<and>
      update_rows orders_table
        (\<lambda>q. o_userId q = userId \<and> o_eventId q = ev_id e \<and> o_status q = O_created)
        (\<lambda>q. q\<lparr>o_status := O_expired\<rparr>) s = (Inr (), s1) \<and>
      (case ev_passCapacity e of None \<Rightarrow> True | Some c \<Rightarrow>
         sold_seats (ev_id e) (t_bookings s1) + reserved_seats (ev_id e) (clock s) 0 (t_orders s1) + quantity \<le> c) \<and>
      q = new_order (Suc (rng s1 (drawn s1))) userId (ev_id e) key quantity price (clock s) \<and>
      insert_row orders_table q (s1\<lparr>drawn := Suc (drawn s1)\<rparr>) = (Inr (), t))"
  by (simp add: create_order_tx_def returns_iff Let_def seatCounts_def cong del: if_weak_cong) blast

lemma seat_inv_new_order:
  assumes inv: "seat_inv s" and new: "insert_row orders_table q s = (Inr x, t)" "o_id q \<noteq> 0"
    and e: "e \<in> set (t_events s)" "ev_id e = o_eventId q"
    and fits: "\<And>c. ev_passCapacity e = Some c \<Longrightarrow>
      sold_seats (ev_id e) (t_bookings s) + reserved_seats (ev_id e) (clock s) 0 (t_orders s) + o_quantity q \<le> c"
  shows "seat_inv t"
proof -
  have t: "t = s\<lparr>t_orders := t_orders s @ [q]\<rparr>" and "order_ok q"
    using new(1) by (simp_all add: insert_row_Inr_iff)
  have ok: "table_ok orders_table t" "table_ok bookings_table t" "table_ok events_table s"
    using inv t orders.insert_row_ok[OF new(1)] by (auto simp: seat_inv_def table_ok_def)
  show ?thesis
  proof (rule seat_inv_le[OF inv ok(1,2)])
    fix d c
    assume d: "d \<in> set (t_events s)" "ev_passCapacity d = Some c"
      and le: "sold_seats (ev_id d) (t_bookings s) + reserved_seats (ev_id d) (clock s) 0 (t_orders s) \<le> c"
    show "sold_seats (ev_id d) (t_bookings t) + reserved_seats (ev_id d) (clock t) 0 (t_orders t) \<le> c"
    proof (cases "ev_id d = o_eventId q")
      case True
      with events.key_eq[OF ok(3)] d(1) e have "d = e" by simp
      with fits d(2) le \<open>order_ok q\<close> show ?thesis by (auto simp: t order_ok_def)
    next
      case False
      with le show ?thesis by (auto simp: t)
    qed
  qed (use inv new(2) in \<open>auto simp: t seat_inv_def\<close>)
qed

lemma keeps_create_order_tx: "keeps seat_inv (create_order_tx userId eventId quantity key)"
proof (rule keeps_committed[OF create_order_tx_def])
  fix s x t
  assume inv: "seat_inv s" and run: "create_order_tx userId eventId quantity key s = (Inr x, t)"
  obtain q e where x: "x = (q, e)" by (cases x)
  from run[unfolded x create_order_tx_iff] obtain price s1 where
    e: "by_key events_table eventId s = Some e" and
    expire: "update_rows orders_table (\<lambda>q. o_userId q = userId \<and> o_eventId q = ev_id e \<and> o_status q = O_created)
        (\<lambda>q. q\<lparr>o_status := O_expired\<rparr>) s = (Inr (), s1)" and
    fits: "case ev_passCapacity e of None \<Rightarrow> True | Some c \<Rightarrow>
         sold_seats (ev_id e) (t_bookings s1) + reserved_seats (ev_id e) (clock s) 0 (t_orders s1) + quantity \<le> c" and
    q: "q = new_order (Suc (rng s1 (drawn s1))) userId (ev_id e) key quantity price (clock s)" and
    new: "insert_row orders_table q (s1\<lparr>drawn := Suc (drawn s1)\<rparr>) = (Inr (), t)" by blast
  have "seat_inv s1" using keepsD[OF keeps_release expire inv] by (simp add: releases_settings)
  then have "seat_inv (s1\<lparr>drawn := Suc (drawn s1)\<rparr>)"
    by (rule seat_inv_view[rotated]) (simp add: seat_view_def)
  then show "seat_inv t"
  proof (rule seat_inv_new_order)
    have s1: "t_events s1 = t_events s" "clock s1 = clock s"
      using expire by (simp_all add: update_rows_Inr_iff)
    show "insert_row orders_table q (s1\<lparr>drawn := Suc (drawn s1)\<rparr>) = (Inr (), t)" by (rule new)
    show "o_id q \<noteq> 0" "ev_id e = o_eventId q" by (simp_all add: q new_order_def)
    show "e \<in> set (t_events (s1\<lparr>drawn := Suc (drawn s1)\<rparr>))" using events.by_key_in[OF e] s1 by simp
    show "sold_seats (ev_id e) (t_bookings (s1\<lparr>drawn := Suc (drawn s1)\<rparr>)) +
        reserved_seats (ev_id e) (clock (s1\<lparr>drawn := Suc (drawn s1)\<rparr>)) 0
          (t_orders (s1\<lparr>drawn := Suc (drawn s1)\<rparr>)) + o_quantity q \<le> c"
      if "ev_passCapacity e = Some c" for c
      using fits that s1 by (simp add: q new_order_def)
  qed
qed

section \<open>A booked order\<close>

text \<open>The outcome of \<open>book_order\<close>: the booking, the payment and the paid order are written together.\<close>

lemma random_chars_state:
  "\<exists>d. snd (random_chars alphabet n s) = s\<lparr>drawn := d\<rparr> \<and> (\<exists>c. fst (random_chars alphabet n s) = Inr c)"
proof (induction n arbitrary: s)
  case 0
  have "s = s\<lparr>drawn := drawn s\<rparr>" by simp
  then show ?case by (metis fst_conv random_chars.simps(1) ret_def snd_conv)
next
  case (Suc n)
  let ?s = "s\<lparr>drawn := Suc (drawn s)\<rparr>"
  obtain d c where "random_chars alphabet n ?s = (Inr c, ?s\<lparr>drawn := d\<rparr>)"
    using Suc[of ?s] by (metis prod.collapse)
  then show ?case by (auto simp: run_simps andThen_def)
qed

lemma bookingCode_run: obtains c d where "bookingCode s = (Inr c, s\<lparr>drawn := d\<rparr>)"
proof -
  obtain c d where "random_chars BOOKING_CODE_ALPHABET 8 s = (Inr c, s\<lparr>drawn := d\<rparr>)"
    using random_chars_state[of BOOKING_CODE_ALPHABET 8 s] by (metis prod.collapse)
  then show thesis using that by (simp add: bookingCode_def andThen_def ret_def)
qed

lemma book_order_iff:
  "book_order e q row s = (Inr out, t) \<longleftrightarrow>
    (\<exists>code s0 b s1 row' s2 q'. bookingCode s = (Inr code, s0) \<and>
      b = new_booking (Suc (rng s0 (drawn s0))) code q (p_id row) (cancel_reason e q s) (clock s) \<and>
      insert_row bookings_table b (s0\<lparr>drawn := Suc (drawn s0)\<rparr>) = (Inr (), s1) \<and>
      (if cancel_reason e q s = None then row' = row \<and> s2 = s1
       else save payments_table [setting p_refundStatus p_refundStatus_update Rf_pending] row s1 = (Inr row', s2)) \<and>
      save orders_table
        [setting o_status o_status_update O_paid, setting o_paidAt o_paidAt_update (Some (clock s))] q s2
        = (Inr q', t) \<and>
      out = Fin_booked b row' (cancel_reason e q s \<noteq> None))"
  by (cases "cancel_reason e q s") (simp_all add: book_order_def returns_iff Let_def)

text \<open>What the three writes do to the seats.\<close>

lemma book_order_view:
  assumes "book_order e q row s = (Inr out, t)"
  obtains b f where
    "b_orderId b = o_id q \<and> b_eventId b = o_eventId q \<and> b_userId b = o_userId q \<and>
      b_amountPaise b = o_amountPaise q"
    "b_quantity b = o_quantity q"
    "b_status b = (if cancel_reason e q s = None then B_confirmed else B_cancelled)"
    "f = apply_settings
       [setting o_status o_status_update O_paid, setting o_paidAt o_paidAt_update (Some (clock s))] q"
    "seat_view t = (update_where (\<lambda>r. o_id r = o_id q) f (t_orders s), t_bookings s @ [b], t_events s, clock s)"
    "table_ok orders_table s \<Longrightarrow> table_ok orders_table t"
    "table_ok bookings_table s \<Longrightarrow> table_ok bookings_table t"
proof -
  from assms[unfolded book_order_iff] obtain code s0 b s1 row' s2 q' where
    code: "bookingCode s = (Inr code, s0)" and
    b: "b = new_booking (Suc (rng s0 (drawn s0))) code q (p_id row) (cancel_reason e q s) (clock s)" and
    ins: "insert_row bookings_table b (s0\<lparr>drawn := Suc (drawn s0)\<rparr>) = (Inr (), s1)" and
    pay: "if cancel_reason e q s = None then row' = row \<and> s2 = s1
       else save payments_table [setting p_refundStatus p_refundStatus_update Rf_pending] row s1 = (Inr row', s2)" and
    paid: "save orders_table
        [setting o_status o_status_update O_paid, setting o_paidAt o_paidAt_update (Some (clock s))] q s2
        = (Inr q', t)" by blast
  let ?f = "apply_settings
       [setting o_status o_status_update O_paid, setting o_paidAt o_paidAt_update (Some (clock s))] q"
  obtain d where s0: "s0 = s\<lparr>drawn := d\<rparr>" using code bookingCode_run[of s] by (metis Pair_inject)
  have s1: "s1 = s0\<lparr>drawn := Suc (drawn s0), t_bookings := t_bookings s @ [b]\<rparr>"
    using ins by (simp add: insert_row_Inr_iff s0)
  have s2: "seat_view s2 = seat_view s1"
    using pay leaves_writes(4)[where v = seat_view and T = payments_table, THEN leavesD]
    by (auto simp: seat_view_def split: if_splits)
  have t: "t = s2\<lparr>t_orders := update_where (\<lambda>r. o_id r = o_id q) ?f (t_orders s2)\<rparr>"
    using paid by (simp add: save_Inr_iff update_rows_Inr_iff)
  have view: "seat_view t =
      (update_where (\<lambda>r. o_id r = o_id q) ?f (t_orders s), t_bookings s @ [b], t_events s, clock s)"
    using s2 by (simp add: t s1 s0 seat_view_def)
  show thesis
  proof (rule that[OF _ _ _ refl view])
    show "b_orderId b = o_id q \<and> b_eventId b = o_eventId q \<and> b_userId b = o_userId q \<and>
      b_amountPaise b = o_amountPaise q" "b_quantity b = o_quantity q"
      "b_status b = (if cancel_reason e q s = None then B_confirmed else B_cancelled)"
      by (simp_all add: b new_booking_def)
    show "table_ok orders_table t" if "table_ok orders_table s"
    proof (rule orders.update_rows_ok)
      show "update_rows orders_table (\<lambda>r. o_id r = o_id q) ?f s2 = (Inr (), t)"
        using paid by (simp add: save_Inr_iff)
      show "table_ok orders_table s2" using that s2 by (simp add: table_ok_def seat_view_def s1 s0)
    qed (simp add: setting_def)
    show "table_ok bookings_table t" if "table_ok bookings_table s"
      using bookings.insert_row_ok[OF ins] that s2 by (simp add: table_ok_def seat_view_def t s0)
  qed
qed

lemma seat_inv_book_order:
  assumes inv: "seat_inv s" and run: "book_order e q row s = (Inr out, t)"
    and q: "q \<in> set (t_orders s)" and e: "e \<in> set (t_events s)" "ev_id e = o_eventId q"
  shows "seat_inv t"
  using run
proof (cases rule: book_order_view)
  case (1 b f)
  have ok: "table_ok orders_table s" "table_ok bookings_table s" "table_ok events_table s"
    using inv by (auto simp: seat_inv_def)
  have quantity: "0 \<le> o_quantity q" using order_quantities[OF ok(1)] q by simp
  have parts: "t_orders t = update_where (\<lambda>r. o_id r = o_id q) f (t_orders s)"
    "t_bookings t = t_bookings s @ [b]" "t_events t = t_events s" "clock t = clock s"
    using 1(5) by (simp_all add: seat_view_def)
  have find: "find (\<lambda>r. o_id r = o_id q) (t_orders s) = Some q"
    using orders.row_by_key[OF ok(1)] q by (simp add: by_key_def)
  have "distinct (map o_id (t_orders s))" using ok(1) by (simp add: table_ok_def)
  from total_where_update_key[OF this find]
  have reserved: "reserved_seats i (clock s) 0 (t_orders t) = reserved_seats i (clock s) 0 (t_orders s) -
      (if o_eventId q = i \<and> o_status q = O_created \<and> clock s < o_expiresAt q then o_quantity q else 0)" for i
    using inv q by (auto simp: reserved_seats_def parts 1(4) setting_def seat_inv_def)
  have same: "r = q" if "r \<in> set (t_orders s)" "o_id r = o_id q" for r
    using orders.key_eq[OF ok(1)] q that by simp
  have excluded: "reserved_seats i (clock s) (o_id q) (t_orders s) = reserved_seats i (clock s) 0 (t_orders s)"
    if "o_status q \<noteq> O_created \<or> o_expiresAt q \<le> clock s" for i
    unfolding reserved_seats_def
    using that inv by (intro total_where_cong) (auto simp: seat_inv_def dest: same)
  show ?thesis
  proof (rule seat_inv_le[OF inv])
    fix d c
    assume d: "d \<in> set (t_events s)" "ev_passCapacity d = Some c"
      and le: "sold_seats (ev_id d) (t_bookings s) + reserved_seats (ev_id d) (clock s) 0 (t_orders s) \<le> c"
    show "sold_seats (ev_id d) (t_bookings t) + reserved_seats (ev_id d) (clock t) 0 (t_orders t) \<le> c"
    proof (cases "ev_id d = o_eventId q \<and> cancel_reason e q s = None")
      case False
      with le quantity show ?thesis by (auto simp: parts(2-4) reserved 1(1-3))
    next
      case True
      with events.key_eq[OF ok(3)] d(1) e have "d = e" by simp
      with True d(2) le quantity show ?thesis
        by (auto simp: parts(2-4) reserved 1(1-3) cancel_reason_def seatCounts_def excluded split: if_splits)
    qed
  qed (use 1 ok inv parts in \<open>auto simp: seat_inv_def set_update_where setting_def\<close>)
qed

end
