(* ===== verification/Payments_Steps.thy ===== *)
theory Payments_Steps
  imports Payments_Seats Events_Admin
begin

text \<open>
  The pass shop as a transition system. A step is one atomic action on the shared database: the
  clock moves, a transaction commits (or rolls back), or one autocommitted statement runs, with
  whatever instances the caller loaded before. Every method of the service is a sequence of steps,
  so the interleavings of any number of requests, webhooks and job runs are runs of this system.
\<close>

section \<open>The transactions keep the seats\<close>

lemma record_payment_view: "leaves seat_view (record_payment i z)"
  unfolding record_payment_def Let_def by (intro leaves_rules) (simp_all add: seat_view_def)

lemma keeps_finalize_tx_at:
  assumes inv: "seat_inv s" and run: "finalize_tx q m z s = (Inr out, t)"
    and loaded: "\<And>r. r \<in> set (t_orders s) \<Longrightarrow> o_id r = o_id q \<Longrightarrow> o_eventId r = o_eventId q"
  shows "seat_inv t"
proof (cases "\<exists>e l. by_key events_table (o_eventId q) s = Some e \<and> by_key orders_table (o_id q) s = Some l")
  case False
  then have "t = s"
    using run by (auto simp: finalize_tx_def returns_iff split: option.splits)
  with inv show ?thesis by simp
next
  case True
  then obtain e l row s1 where e: "by_key events_table (o_eventId q) s = Some e"
    and l: "by_key orders_table (o_id q) s = Some l"
    and rec: "record_payment (o_id l) z s = (Inr row, s1)"
    and settle: "settle_payment e l m row s1 = (Inr out, t)"
    using run by (auto simp: finalize_tx_def returns_iff)
  have view: "seat_view s1 = seat_view s" using leavesD[OF record_payment_view rec] .
  have inv1: "seat_inv s1" by (rule seat_inv_view[OF view[symmetric] inv])
  have "l \<in> set (t_orders s1)" "e \<in> set (t_events s1)" "ev_id e = o_eventId l"
    using orders.by_key_in[OF l] events.by_key_in[OF e] view loaded[of l] by (auto simp: seat_view_def)
  then have booked: "book_order e l row s1 = (Inr out, t) \<Longrightarrow> seat_inv t"
    using seat_inv_book_order[OF inv1] by blast
  have other: "keeps seat_inv (save payments_table cs row)" for cs
    by (intro keeps_seats leaves_rules) (simp add: seat_view_def)
  show ?thesis
    using settle booked inv1 keepsD[OF other]
    by (auto simp: settle_payment_def returns_iff split: option.splits if_splits)
qed

text \<open>Recording a refund, expiring and releasing orders.\<close>

lemma keeps_refund_status:
  "keeps seat_inv (save bookings_table [setting b_refundStatus b_refundStatus_update st] b)"
  by (intro keeps_save) (simp add: keeps_cancel cancels_def setting_def)

lemma keeps_refund_booking_tx: "keeps seat_inv (refund_booking_tx env a ip i reason)"
  unfolding refund_booking_tx_def Let_def
  by (intro keeps_rules keeps_save keeps_cancel keeps_seats leaves_rules)
    (simp_all add: cancels_def setting_def seat_view_def)

lemma keeps_release_orders:
  "keeps seat_inv (save orders_table [setting o_razorpayOrderId o_razorpayOrderId_update v] q)"
  "keeps seat_inv (save orders_table [setting o_status o_status_update O_failed] q)"
  "keeps seat_inv (expire_order i)"
    apply (intro keeps_save, simp add: keeps_release releases_settings)
   apply (intro keeps_save, simp add: keeps_release releases_settings)
  by (simp add: expire_order_def keeps_release releases_settings)

section \<open>Changes of events\<close>

lemma seat_inv_events:
  assumes "seat_inv s" "table_ok events_table t" "t_orders t = t_orders s" "t_bookings t = t_bookings s"
    "clock t = clock s"
    and "\<And>e. e \<in> set (t_events t) \<Longrightarrow> capacity_kept e s"
  shows "seat_inv t"
  using assms by (auto simp: seat_inv_def table_ok_def capacity_kept_def cong: option.case_cong)

definition same_capacity :: "(event \<Rightarrow> event) \<Rightarrow> bool" where
  "same_capacity f \<longleftrightarrow> (\<forall>e. ev_id (f e) = ev_id e \<and> ev_passCapacity (f e) = ev_passCapacity e)"

lemma keeps_edit: "same_capacity f \<Longrightarrow> keeps seat_inv (update_rows events_table P f)"
proof (rule keepsI)
  fix s r t
  assume f: "same_capacity f" and inv: "seat_inv s" and run: "update_rows events_table P f s = (r, t)"
  show "seat_inv t"
  proof (cases r)
    case (Inl e)
    with run write_failed_state(2) inv show ?thesis by metis
  next
    case (Inr u)
    have t: "t = s\<lparr>t_events := update_where P f (t_events s)\<rparr>" using run Inr by (simp add: update_rows_Inr_iff)
    have "table_ok events_table t"
      using run Inr inv f by (auto intro: events.update_rows_ok simp: seat_inv_def same_capacity_def)
    then show ?thesis
      using inv f
      by (intro seat_inv_events[OF inv])
        (auto simp: t set_update_where seat_inv_def capacity_kept_def same_capacity_def
          cong: option.case_cong)
  qed
qed

lemma keeps_save_event:
  "same_capacity (apply_settings cs e) \<Longrightarrow> keeps seat_inv (save events_table cs e)"
  by (intro keeps_save) (simp add: keeps_edit)

text \<open>The changes of the life cycle touch neither the key nor the capacity.\<close>

definition lifecycle_changes :: "(event \<Rightarrow> event setting list op) list" where
  "lifecycle_changes =
    [publish_change, unpublish_change, verify_change, unverify_change, archive_change, restore_change]"

lemma lifecycle_same_capacity:
  assumes "c \<in> set lifecycle_changes" "c e s = (Inr cs, t)"
  shows "t = s" "same_capacity (apply_settings (cs @ [setting ev_updatedByAdminId ev_updatedByAdminId_update a]) e)"
  using assms
  by (auto simp: lifecycle_changes_def publish_change_def unpublish_change_def verify_change_def
      unverify_change_def archive_change_def restore_change_def returns_iff same_capacity_def setting_def)

lemma audit_view: "leaves seat_view (audit_event env actor action i metadata)"
  unfolding audit_event_def by (intro leaves_rules) (simp_all add: seat_view_def)

lemma keeps_audit: "keeps seat_inv (audit_event env actor action i metadata)"
  by (rule keeps_seats) (rule audit_view)

lemma keeps_transition_tx:
  assumes "c \<in> set lifecycle_changes"
  shows "keeps seat_inv (transition_tx env actor i action c)"
proof (rule keeps_committed[OF transition_tx_def])
  fix s x t
  assume inv: "seat_inv s" and run: "transition_tx env actor i action c s = (Inr x, t)"
  then obtain e cs s1 e' s2 where cs: "c e s = (Inr cs, s1)"
    and save: "save events_table (cs @ [setting ev_updatedByAdminId ev_updatedByAdminId_update (ac_adminId actor)]) e s1
      = (Inr e', s2)"
    and audit: "audit_event env actor action i
       [(''from'', Meta_text (event_status_text (ev_status e))),
        (''to'', Meta_text (event_status_text (ev_status e')))] s2 = (Inr x, t)"
    by (auto simp: transition_tx_def returns_iff)
  have "seat_inv s2"
    using keepsD[OF keeps_save_event[OF lifecycle_same_capacity(2)[OF assms cs]] save]
      lifecycle_same_capacity(1)[OF assms cs] inv by simp
  with keepsD[OF keeps_audit audit] show "seat_inv t" .
qed

lemma checks_view:
  "leaves seat_view (assertValidLocation x y)" "leaves seat_view (assertUsableOrganizer g)"
  "leaves seat_view (assertSchedule d a b)" "leaves seat_view (lockEditable i)"
  unfolding assertValidLocation_def assertUsableOrganizer_def assertSchedule_def lockEditable_def Let_def
  by (intro leaves_rules)+

lemmas keeps_checks = checks_view[THEN keeps_seats]

lemma keeps_update_event_tx: "keeps seat_inv (update_event_tx env actor i input)"
proof -
  have edit: "same_capacity (apply_settings (event_settings e c a) e)" for e c a
    by (simp add: same_capacity_def event_settings_def setting_def)
  show ?thesis
    unfolding update_event_tx_def Let_def
    by (intro keeps_rules keeps_save_event keeps_audit edit keeps_checks)
qed

lemma keeps_image_tx:
  "keeps seat_inv (set_image_tx env actor i publicId)" "keeps seat_inv (delete_image_tx env actor i)"
  unfolding set_image_tx_def delete_image_tx_def
  by (intro keeps_rules keeps_save_event keeps_audit keeps_checks;
      simp add: same_capacity_def setting_def)+

lemma keeps_new_event: "ev_passCapacity e = None \<Longrightarrow> keeps seat_inv (insert_row events_table e)"
proof (rule keepsI)
  fix s r t
  assume e: "ev_passCapacity e = None" and inv: "seat_inv s" and run: "insert_row events_table e s = (r, t)"
  show "seat_inv t"
  proof (cases r)
    case (Inl err)
    with run write_failed_state(1) inv show ?thesis by metis
  next
    case (Inr u)
    have t: "t = s\<lparr>t_events := t_events s @ [e]\<rparr>" using run Inr by (simp add: insert_row_Inr_iff)
    have "table_ok events_table t"
      using run Inr inv by (auto intro: events.insert_row_ok simp: seat_inv_def)
    then show ?thesis
      using inv e by (intro seat_inv_events[OF inv]) (auto simp: t seat_inv_def capacity_kept_def)
  qed
qed

lemma keeps_create_event_tx: "keeps seat_inv (create_event_tx env actor slug input)"
  unfolding create_event_tx_def
  by (intro keeps_rules keeps_new_event keeps_audit keeps_checks leaves_rules[THEN keeps_seats])
    (simp_all add: new_event_def seat_view_def)

lemma keeps_delete_events: "keeps seat_inv (delete_rows events_table P)"
proof (rule keepsI)
  fix s r t
  assume inv: "seat_inv s" and run: "delete_rows events_table P s = (r, t)"
  have t: "t = s\<lparr>t_events := filter (\<lambda>r. \<not> P r) (t_events s)\<rparr>" using run by (simp add: delete_rows_def)
  have "table_ok events_table t" using events.delete_rows_ok[OF run] inv by (simp add: seat_inv_def)
  then show "seat_inv t" using inv by (intro seat_inv_events[OF inv]) (auto simp: t seat_inv_def)
qed

lemma keeps_remove_event: "keeps seat_inv (remove_event env actor i)"
  unfolding remove_event_def by (intro keeps_rules keeps_delete_events keeps_audit)

text \<open>A new capacity is checked against the seats under the lock of the event.\<close>

lemma keeps_update_pass_tx: "keeps seat_inv (update_pass_tx env actor i price capacity)"
proof (rule keeps_committed[OF update_pass_tx_def])
  fix s x t
  assume inv: "seat_inv s" and run: "update_pass_tx env actor i price capacity s = (Inr x, t)"
  let ?cs = "[setting ev_passPricePaise ev_passPricePaise_update price,
        setting ev_passCapacity ev_passCapacity_update capacity,
        setting ev_updatedByAdminId ev_updatedByAdminId_update (ac_adminId actor)]"
  obtain e e' s1 md where e: "by_key events_table i s = Some e"
    and fits: "case capacity of None \<Rightarrow> True | Some c \<Rightarrow>
      \<not> c < sold_seats (ev_id e) (t_bookings s) + reserved_seats (ev_id e) (clock s) 0 (t_orders s)"
    and save: "save events_table ?cs e s = (Inr e', s1)"
    and audit: "audit_event env actor ''event.pass_update'' (ev_id e) md s1 = (Inr x, t)"
    using run by (auto simp: update_pass_tx_def lockEditable_def returns_iff seatCounts_def
        simp del: apply_settings_Cons)
  have ok: "table_ok events_table s" using inv by (simp add: seat_inv_def)
  have s1: "s1 = s\<lparr>t_events := update_where (\<lambda>r. ev_id r = ev_id e) (apply_settings ?cs e) (t_events s)\<rparr>"
    using save by (simp add: save_Inr_iff update_rows_Inr_iff)
  have mine: "r = e" if "r \<in> set (t_events s)" "ev_id r = ev_id e" for r
    using events.key_eq[OF ok] events.by_key_in[OF e] that by simp
  have "seat_inv s1"
  proof (rule seat_inv_events[OF inv])
    show "table_ok events_table s1"
      using save ok by (auto intro: events.update_rows_ok simp: save_Inr_iff setting_def)
    show "capacity_kept r s" if r: "r \<in> set (t_events s1)" for r
    proof -
      obtain r0 where r0: "r0 \<in> set (t_events s)"
          "r = (if ev_id r0 = ev_id e then apply_settings ?cs e r0 else r0)"
        using r unfolding s1 by (auto elim: in_update_whereE simp del: apply_settings_Cons)
      show ?thesis
      proof (cases "ev_id r0 = ev_id e")
        case True
        with r0 mine have "ev_id r = ev_id e" "ev_passCapacity r = capacity" by (auto simp: setting_def)
        with fits show ?thesis by (auto simp: capacity_kept_def split: option.splits)
      next
        case False
        with r0 inv show ?thesis by (simp add: seat_inv_def)
      qed
    qed
  qed (simp_all add: s1)
  with keepsD[OF keeps_audit audit] show "seat_inv t" .
qed

section \<open>Steps\<close>

text \<open>An order instance someone loaded: its row is in the table, with the same event.\<close>

definition loaded :: "order \<Rightarrow> db \<Rightarrow> bool" where
  "loaded q s \<longleftrightarrow> (\<exists>r \<in> set (t_orders s). o_id r = o_id q \<and> o_eventId r = o_eventId q)"

inductive pass_step :: "env \<Rightarrow> db \<Rightarrow> db \<Rightarrow> bool" for env where
  tick: "0 \<le> d \<Longrightarrow> pass_step env s (s\<lparr>clock := clock s + d\<rparr>)"
| create_order: "create_order_tx userId eventId quantity key s = (r, t) \<Longrightarrow> pass_step env s t"
| attach: "save orders_table [setting o_razorpayOrderId o_razorpayOrderId_update v] q s = (r', t) \<Longrightarrow>
    pass_step env s t"
| provider_failed: "save orders_table [setting o_status o_status_update O_failed] q s = (r', t) \<Longrightarrow>
    pass_step env s t"
| finalize: "loaded q s \<Longrightarrow> finalize_tx q m z s = (out, t) \<Longrightarrow> pass_step env s t"
| refund_payment: "save payments_table cs p s = (p', t) \<Longrightarrow> pass_step env s t"
| refund_booking: "save bookings_table [setting b_refundStatus b_refundStatus_update st] b s = (b', t) \<Longrightarrow>
    pass_step env s t"
| admin_refund: "refund_booking_tx env adminId ip i reason s = (x, t) \<Longrightarrow> pass_step env s t"
| expire: "expire_order i s = (u, t) \<Longrightarrow> pass_step env s t"
| pass_settings: "update_pass_tx env actor i price capacity s = (u, t) \<Longrightarrow> pass_step env s t"
| life_cycle: "c \<in> set lifecycle_changes \<Longrightarrow> transition_tx env actor i action c s = (u, t) \<Longrightarrow>
    pass_step env s t"
| create_event: "create_event_tx env actor slug input s = (x', t) \<Longrightarrow> pass_step env s t"
| edit_event: "update_event_tx env actor i changes s = (u, t) \<Longrightarrow> pass_step env s t"
| set_image: "set_image_tx env actor i publicId s = (old, t) \<Longrightarrow> pass_step env s t"
| delete_image: "delete_image_tx env actor i s = (old, t) \<Longrightarrow> pass_step env s t"
| remove: "remove_event env actor i s = (old, t) \<Longrightarrow> pass_step env s t"
| elsewhere: "seat_view t = seat_view s \<Longrightarrow> pass_step env s t"

text \<open>The last step is any action on the rest of the state: notifications, webhooks, other services.\<close>

lemma step_seat_inv: "pass_step env s t \<Longrightarrow> seat_inv s \<Longrightarrow> seat_inv t"
proof (induction rule: pass_step.induct)
  case (tick d s)
  then have ok: "table_ok orders_table s" by (simp add: seat_inv_def)
  have "reserved_seats e (clock s + d) 0 (t_orders s) \<le> reserved_seats e (clock s) 0 (t_orders s)" for e
    using tick(1) order_quantities[OF ok] by (intro reserved_seats_later) auto
  with tick show ?case
    by (intro seat_inv_le[OF tick(2)])
      (auto simp: seat_inv_def table_ok_def intro: order_trans[OF add_left_mono])
next
  case (finalize q s m z out t)
  show ?case
  proof (cases out)
    case (Inl e)
    have "t = s" by (rule transaction_Inl_state[OF finalize(2)[unfolded Inl finalize_tx_def]])
    with finalize(3) show ?thesis by simp
  next
    case (Inr x)
    have ok: "table_ok orders_table s" using finalize(3) by (simp add: seat_inv_def)
    have "o_eventId r = o_eventId q" if "r \<in> set (t_orders s)" "o_id r = o_id q" for r
      using finalize(1) that orders.key_eq[OF ok] by (fastforce simp: loaded_def)
    with keeps_finalize_tx_at[OF finalize(3) finalize(2)[unfolded Inr]] show ?thesis by blast
  qed
next
  case (refund_payment cs p s p' t)
  have other: "keeps seat_inv (save payments_table cs p)"
    by (intro keeps_seats leaves_rules) (simp add: seat_view_def)
  from keepsD[OF other refund_payment] show ?case .
next
  case create_order
  from keepsD[OF keeps_create_order_tx create_order] show ?case .
next
  case attach
  from keepsD[OF keeps_release_orders(1) attach] show ?case .
next
  case provider_failed
  from keepsD[OF keeps_release_orders(2) provider_failed] show ?case .
next
  case refund_booking
  from keepsD[OF keeps_refund_status refund_booking] show ?case .
next
  case admin_refund
  from keepsD[OF keeps_refund_booking_tx admin_refund] show ?case .
next
  case expire
  from keepsD[OF keeps_release_orders(3) expire] show ?case .
next
  case pass_settings
  from keepsD[OF keeps_update_pass_tx pass_settings] show ?case .
next
  case create_event
  from keepsD[OF keeps_create_event_tx create_event] show ?case .
next
  case edit_event
  from keepsD[OF keeps_update_event_tx edit_event] show ?case .
next
  case set_image
  from keepsD[OF keeps_image_tx(1) set_image] show ?case .
next
  case delete_image
  from keepsD[OF keeps_image_tx(2) delete_image] show ?case .
next
  case remove
  from keepsD[OF keeps_remove_event remove] show ?case .
next
  case life_cycle
  from keepsD[OF keeps_transition_tx[OF life_cycle(1)] life_cycle(2,3)] show ?case .
next
  case elsewhere
  from seat_inv_view[OF elsewhere(1)[symmetric] elsewhere(2)] show ?case .
qed

text \<open>A shop that has sold nothing yet.\<close>

definition shop_start :: "db \<Rightarrow> bool" where
  "shop_start s \<longleftrightarrow> t_orders s = [] \<and> t_bookings s = [] \<and> table_ok events_table s"

lemma shop_start_inv: "shop_start s \<Longrightarrow> seat_inv s"
proof -
  assume start: "shop_start s"
  have "1 \<le> c" if "e \<in> set (t_events s)" "ev_passCapacity e = Some c" for e c
    using start that events.row_ok[of s e]
    by (simp add: shop_start_def event_ok_def split: option.splits)
  with start show ?thesis
    by (fastforce simp: shop_start_def seat_inv_def table_ok_def capacity_kept_def sold_seats_def
        reserved_seats_def split: option.splits)
qed

interpretation shop: invariant_system shop_start "pass_step env" seat_inv for env
  by unfold_locales (simp_all add: shop_start_inv step_seat_inv)

section \<open>Methods are sequences of steps\<close>

text \<open>\<open>reached env q s t\<close>: steps lead from \<open>s\<close> to \<open>t\<close>, and the instances \<open>q\<close> are still loaded.\<close>

definition reached :: "env \<Rightarrow> order set \<Rightarrow> db \<Rightarrow> db \<Rightarrow> bool" where
  "reached env Q s t \<longleftrightarrow> (pass_step env)\<^sup>*\<^sup>* s t \<and> (\<forall>q \<in> Q. loaded q t)"

lemma loaded_view: "t_orders s = t_orders t \<Longrightarrow> loaded q s \<Longrightarrow> loaded q t"
  by (simp add: loaded_def)

lemmas keeps_loaded_view = keeps_view[where v = t_orders and I = "loaded q" for q, OF _ loaded_view]

lemma keeps_loaded:
  "(\<And>r. o_id (f r) = o_id r \<and> o_eventId (f r) = o_eventId r) \<Longrightarrow>
    keeps (loaded q) (update_rows orders_table P f)"
  "keeps (loaded q) (insert_row orders_table r)"
proof -
  show "keeps (loaded q) (update_rows orders_table P f)"
    if f: "\<And>r. o_id (f r) = o_id r \<and> o_eventId (f r) = o_eventId r"
  proof (rule keepsI)
    fix s x t
    assume q: "loaded q s" and run: "update_rows orders_table P f s = (x, t)"
    then obtain r where r: "r \<in> set (t_orders s)" "o_id r = o_id q" "o_eventId r = o_eventId q"
      by (auto simp: loaded_def)
    have "t_orders t = t_orders s \<or> t_orders t = update_where P f (t_orders s)"
      using run by (auto simp: update_rows_def Let_def split: if_splits)
    then show "loaded q t"
    proof
      assume "t_orders t = update_where P f (t_orders s)"
      then have "(if P r then f r else r) \<in> set (t_orders t)" using r(1) by (simp add: set_update_where)
      with r f show "loaded q t" unfolding loaded_def by (metis (full_types))
    qed (use q in \<open>simp add: loaded_def\<close>)
  qed
  show "keeps (loaded q) (insert_row orders_table r)"
    by (rule keepsI) (auto simp: insert_row_def loaded_def split: if_splits)
qed

text \<open>No step drops an order or moves it to another event.\<close>

lemma keeps_loaded_tx:
  "keeps (loaded q) (create_order_tx userId eventId quantity key)"
  "keeps (loaded q) (finalize_tx q' m z)"
  "keeps (loaded q) (refund_booking_tx env adminId ip i reason)"
  unfolding create_order_tx_def finalize_tx_def refund_booking_tx_def settle_payment_def book_order_def
    record_payment_def Let_def
  by (intro keeps_rules keeps_save keeps_loaded; (intro keeps_loaded_view leaves_rules)?;
      simp add: setting_def)+

text \<open>The administration of events touches no order and no booking.\<close>

definition purchase_view :: "db \<Rightarrow> order list \<times> event_booking list" where
  "purchase_view s = (t_orders s, t_bookings s)"

lemma lifecycle_view: "c \<in> set lifecycle_changes \<Longrightarrow> leaves purchase_view (c e)"
  by (auto simp: lifecycle_changes_def publish_change_def unpublish_change_def verify_change_def
      unverify_change_def archive_change_def restore_change_def intro!: leaves_rules)

lemma leaves_purchases:
  "c \<in> set lifecycle_changes \<Longrightarrow> leaves purchase_view (transition_tx env actor i action c)"
  "leaves purchase_view (update_pass_tx env actor i price capacity)"
  "leaves purchase_view (create_event_tx env actor slug input)"
  "leaves purchase_view (update_event_tx env actor i changes)"
  "leaves purchase_view (set_image_tx env actor i publicId)"
  "leaves purchase_view (delete_image_tx env actor i)"
  "leaves purchase_view (remove_event env actor i)"
  unfolding transition_tx_def update_pass_tx_def create_event_tx_def update_event_tx_def Let_def
    set_image_tx_def delete_image_tx_def remove_event_def audit_event_def lockEditable_def
    assertValidLocation_def assertUsableOrganizer_def assertSchedule_def
  by (intro leaves_rules lifecycle_view; simp add: purchase_view_def)+

lemma event_step_purchases:
  "pass_step env s t \<Longrightarrow> purchase_view t = purchase_view s \<or>
    (\<exists>userId eventId quantity key r. create_order_tx userId eventId quantity key s = (r, t)) \<or>
    (\<exists>v q r. save orders_table [setting o_razorpayOrderId o_razorpayOrderId_update v] q s = (r, t)) \<or>
    (\<exists>q r. save orders_table [setting o_status o_status_update O_failed] q s = (r, t)) \<or>
    (\<exists>q m z r. loaded q s \<and> finalize_tx q m z s = (r, t)) \<or>
    (\<exists>st b r. save bookings_table [setting b_refundStatus b_refundStatus_update st] b s = (r, t)) \<or>
    (\<exists>a ip i reason r. refund_booking_tx env a ip i reason s = (r, t)) \<or>
    (\<exists>i r. expire_order i s = (r, t))"
proof (induction rule: pass_step.induct)
  case (refund_payment cs p s p' t)
  have "leaves purchase_view (save payments_table cs p)"
    by (intro leaves_rules) (simp add: purchase_view_def)
  from leavesD[OF this refund_payment] show ?case by simp
qed (auto dest: leavesD[OF leaves_purchases(1)] leavesD[OF leaves_purchases(2)]
  leavesD[OF leaves_purchases(3)] leavesD[OF leaves_purchases(4)] leavesD[OF leaves_purchases(5)]
  leavesD[OF leaves_purchases(6)] leavesD[OF leaves_purchases(7)]
  simp: purchase_view_def seat_view_def)

text \<open>So an invariant of the orders and bookings only has to be checked for seven writes.\<close>

lemma step_keeps_purchases:
  assumes step: "pass_step env s t" and I: "I s" "\<And>s t. purchase_view s = purchase_view t \<Longrightarrow> I s \<Longrightarrow> I t"
    and writes: "\<And>userId eventId quantity key. keeps I (create_order_tx userId eventId quantity key)"
      "\<And>v q. keeps I (save orders_table [setting o_razorpayOrderId o_razorpayOrderId_update v] q)"
      "\<And>q. keeps I (save orders_table [setting o_status o_status_update O_failed] q)"
      "\<And>q m z. keeps I (finalize_tx q m z)"
      "\<And>st b. keeps I (save bookings_table [setting b_refundStatus b_refundStatus_update st] b)"
      "\<And>a ip i reason. keeps I (refund_booking_tx env a ip i reason)"
      "\<And>i. keeps I (expire_order i)"
  shows "I t"
  using event_step_purchases[OF step] I(1) by (elim disjE exE conjE) (metis I(2) writes keepsD)+

lemma loaded_purchases: "purchase_view s = purchase_view t \<Longrightarrow> loaded q s \<Longrightarrow> loaded q t"
  by (simp add: purchase_view_def loaded_def)

lemma keeps_loaded_writes:
  "keeps (loaded q) (save orders_table [setting o_razorpayOrderId o_razorpayOrderId_update v] q')"
  "keeps (loaded q) (save orders_table [setting o_status o_status_update O_failed] q')"
  "keeps (loaded q) (save bookings_table [setting b_refundStatus b_refundStatus_update st] b)"
  "keeps (loaded q) (expire_order i)"
  unfolding expire_order_def
  by (intro keeps_save keeps_loaded; (intro keeps_view[where v = t_orders] leaves_rules)?;
      simp add: setting_def loaded_def)+

lemma step_loaded: "pass_step env s t \<Longrightarrow> loaded q s \<Longrightarrow> loaded q t"
  by (rule step_keeps_purchases[where I = "loaded q"])
    (assumption | rule loaded_purchases keeps_loaded_tx keeps_loaded_writes)+

lemma reached_step: "reached env Q s t \<Longrightarrow> pass_step env t u \<Longrightarrow> reached env Q s u"
  by (auto simp: reached_def intro: rtranclp.rtrancl_into_rtrancl step_loaded)

text \<open>A program all of whose runs are one step keeps \<open>reached\<close>.\<close>

lemma keeps_step: "(\<And>t. reached env Q s t \<Longrightarrow> pass_step env t (snd (m t))) \<Longrightarrow> keeps (reached env Q s) m"
  unfolding keeps_def by (blast intro: reached_step)

lemma keeps_elsewhere: "leaves seat_view m \<Longrightarrow> keeps (reached env Q s) m"
  by (rule keeps_step) (simp add: leaves_def pass_step.elsewhere)

lemma keeps_gets_andThen:
  "(\<And>s. I s \<Longrightarrow> I (snd (g (f s) s))) \<Longrightarrow> keeps I (andThen (gets f) g)"
  by (simp add: keeps_def)

text \<open>More instances are loaded on the way.\<close>

lemma reached_more: "reached env Q s t \<Longrightarrow> q \<in> set (t_orders t) \<Longrightarrow> reached env (insert q Q) s t"
  by (auto simp: reached_def loaded_def)

lemma reached_fewer: "reached env (insert q Q) s t \<Longrightarrow> reached env Q s t"
  by (simp add: reached_def)

lemma keeps_applyRefund: "keeps (reached env Q s) (applyRefund p refundId amount status)"
proof -
  have pay: "keeps (reached env Q s) (save payments_table cs p)" for cs
    by (rule keeps_step) (metis pass_step.refund_payment prod.collapse)
  have book: "keeps (reached env Q s) (save bookings_table [setting b_refundStatus b_refundStatus_update status] b)" for b
    by (rule keeps_step) (metis pass_step.refund_booking prod.collapse)
  have t: "keeps (reached env Q s) now" by (intro keeps_elsewhere leaves_rules)
  show ?thesis unfolding applyRefund_def by (intro keeps_rules pay book t)
qed

lemma keeps_notifyBooking: "keeps (reached env Q s) (notifyBooking env' b kind)"
  unfolding notifyBooking_def by (intro keeps_elsewhere notify_leaves ignores_seat_view)

lemma keeps_gateway: "keeps (reached env Q s) (requireGateway gw)" "keeps (reached env Q s) (gateway_call c f)"
  unfolding requireGateway_def by (intro keeps_elsewhere leaves_rules; simp add: seat_view_def)+

lemma keeps_startRefund: "keeps (reached env Q s) (startRefund env' gw p b)"
  unfolding startRefund_def Let_def notify_refunded_def
  by (intro keeps_rules keeps_applyRefund keeps_notifyBooking keeps_gateway)

lemma keeps_after_finalize: "keeps (reached env Q s) (after_finalize env' gw outcome)"
  by (auto simp: after_finalize_def intro!: keeps_rules keeps_startRefund keeps_notifyBooking
      split: finalize_outcome.split)

lemma keeps_finalize: "keeps (reached env Q s) (finalize env gw remote)"
proof -
  have tx: "keeps (reached env (insert q Q) s) (finalize_tx q m z)" for q m z
    by (rule keeps_step) (metis pass_step.finalize prod.collapse reached_def insertI1)
  have rest: "keeps (reached env (insert q Q) s)
      (andThen (captured_state gw q m remote) (\<lambda>payment.
       andThen (finalize_tx q m payment) (\<lambda>outcome.
       andThen (after_finalize env gw outcome) (\<lambda>_. ret outcome))))" for q m
    unfolding captured_state_def by (intro keeps_rules keeps_gateway tx keeps_after_finalize)
  show ?thesis
    unfolding finalize_def
  proof (intro keeps_if keeps_ret keeps_gets_andThen)
    fix t
    assume t: "reached env Q s t"
    show "reached env Q s (snd ((case find_row orders_table (\<lambda>q. o_razorpayOrderId q = zp_order_id remote) t of
        None \<Rightarrow> ret Fin_ignored
      | Some q \<Rightarrow> andThen (captured_state gw q (matches_order q remote) remote) (\<lambda>payment.
         andThen (finalize_tx q (matches_order q remote) payment) (\<lambda>outcome.
         andThen (after_finalize env gw outcome) (\<lambda>_. ret outcome)))) t))"
    proof (cases "find_row orders_table (\<lambda>q. o_razorpayOrderId q = zp_order_id remote) t")
      case None
      with t show ?thesis by (simp add: ret_def)
    next
      case (Some q)
      then have "q \<in> set (t_orders t)" by (auto simp: find_row_def dest: find_Some_in)
      with t have "reached env (insert q Q) s t" by (rule reached_more)
      with rest Some show ?thesis unfolding keeps_def by (auto intro: reached_fewer)
    qed
  qed
qed

lemma keeps_createOrder: "keeps (reached env Q s) (createOrder gw userId eventId quantity key)"
proof -
  have tx: "keeps (reached env Q s) (create_order_tx userId eventId quantity key)"
    by (rule keeps_step) (metis pass_step.create_order prod.collapse)
  have attach: "keeps (reached env Q s) (save orders_table [setting o_razorpayOrderId o_razorpayOrderId_update v] q)"
    for v q by (rule keeps_step) (metis pass_step.attach prod.collapse)
  have failed: "keeps (reached env Q s) (save orders_table [setting o_status o_status_update O_failed] q)"
    for q by (rule keeps_step) (metis pass_step.provider_failed prod.collapse)
  show ?thesis
    unfolding createOrder_def find_or_create_order_def event_of_order_def attachRazorpayOrder_def
    by (intro keeps_rules keeps_gateway tx attach failed)
qed

lemma keeps_verify: "keeps (reached env Q s) (verify env gw userId orderId rOrderId rPaymentId signature)"
  unfolding verify_def orderView_def bookingView_def
  by (intro keeps_rules keeps_gateway keeps_finalize)

lemma keeps_handleWebhook: "keeps (reached env Q s) (handleWebhook env gw parse rawBody signature eventIdHeader)"
proof -
  have t: "keeps (reached env Q s) now" by (intro keeps_elsewhere leaves_rules)
  have hooks: "keeps (reached env Q s) (find_or_create_webhook w)" "keeps (reached env Q s) (mark_webhook_processed i)"
    for w i
    unfolding find_or_create_webhook_def mark_webhook_processed_def
    by (intro keeps_elsewhere leaves_rules leaves_modify; simp add: seat_view_def)+
  have dispatch: "keeps (reached env Q s) (dispatch_webhook env gw event body)" for event body
    unfolding dispatch_webhook_def onRefundWebhook_def notify_refunded_def Let_def
    by (intro keeps_rules keeps_finalize keeps_applyRefund keeps_notifyBooking)
  show ?thesis
    unfolding handleWebhook_def Let_def by (intro keeps_rules keeps_gateway t hooks dispatch)
qed

lemma keeps_refundBooking: "keeps (reached env Q s) (refundBooking env gw adminId ip bookingId reason)"
proof -
  have tx: "keeps (reached env Q s) (refund_booking_tx env adminId ip bookingId reason)"
    by (rule keeps_step) (metis pass_step.admin_refund prod.collapse)
  show ?thesis
    unfolding refundBooking_def
    by (intro keeps_rules keeps_gateway tx keeps_notifyBooking keeps_startRefund)
qed

lemma keeps_reconcile_payments: "keeps (reached env Q s) (reconcile_payments env gw ps n)"
proof (induction ps arbitrary: n)
  case (Cons p ps)
  then show ?case
    by (auto intro!: keeps_rules keeps_finalize split: option.split finalize_outcome.split)
qed (simp add: keeps_ret)

lemma keeps_expireOrders: "keeps (reached env Q s) (expireOrders env gw t)"
proof -
  have expire: "keeps (reached env Q s) (expire_order i)" for i
    by (rule keeps_step) (metis pass_step.expire prod.collapse)
  have order: "keeps (reached env Q s) (reconcile_order env gw q n)" for q n
    by (auto simp: reconcile_order_def intro!: keeps_rules keeps_gateway keeps_reconcile_payments
        split: option.split)
  have "keeps (reached env Q s) (expire_due env gw qs n)" for qs n
    by (induction qs arbitrary: n) (auto intro!: keeps_rules order expire)
  then show ?thesis unfolding expireOrders_def by (intro keeps_rules)
qed

lemma method_steps: "keeps (reached env {} s) m \<Longrightarrow> m s = (r, t) \<Longrightarrow> (pass_step env)\<^sup>*\<^sup>* s t"
  using keepsD[of "reached env {} s" m s r t] by (simp add: reached_def)

end
