(* ===== verification/Payments_Paid.thy ===== *)
theory Payments_Paid
  imports Payments_Steps
begin

text \<open>
  An order is paid exactly when it has a booking, and a booking repeats its order: a second
  invariant of the transition system of \<open>Payments_Steps\<close>. The CHECK constraint on \<open>paid_at\<close> is what
  keeps a stale instance from un-paying an order.
\<close>

definition same_purchase :: "event_booking \<Rightarrow> order \<Rightarrow> bool" where
  "same_purchase b q \<longleftrightarrow> b_orderId b = o_id q \<and> b_userId b = o_userId q \<and> b_eventId b = o_eventId q \<and>
    b_quantity b = o_quantity q \<and> b_amountPaise b = o_amountPaise q"

definition paid_inv :: "db \<Rightarrow> bool" where
  "paid_inv s \<longleftrightarrow> table_ok orders_table s \<and> table_ok bookings_table s \<and>
    (\<forall>q \<in> set (t_orders s). o_status q = O_paid \<longleftrightarrow> (\<exists>b \<in> set (t_bookings s). b_orderId b = o_id q)) \<and>
    (\<forall>b \<in> set (t_bookings s). \<exists>q \<in> set (t_orders s). same_purchase b q)"

lemma paid_inv_view: "seat_view s = seat_view t \<Longrightarrow> paid_inv s \<Longrightarrow> paid_inv t"
  by (simp add: paid_inv_def seat_view_def table_ok_def)

lemmas keeps_paid_view = keeps_view[where v = seat_view and I = paid_inv, OF _ paid_inv_view]

section \<open>Updates\<close>

text \<open>An update that keeps what was bought and when it was paid.\<close>

definition keeps_purchase :: "(order \<Rightarrow> order) \<Rightarrow> bool" where
  "keeps_purchase f \<longleftrightarrow> (\<forall>q. o_id (f q) = o_id q \<and> o_userId (f q) = o_userId q \<and>
    o_eventId (f q) = o_eventId q \<and> o_quantity (f q) = o_quantity q \<and>
    o_amountPaise (f q) = o_amountPaise q \<and> o_paidAt (f q) = o_paidAt q)"

text \<open>Both tables may be mapped, as long as every row keeps its purchase and its paid status.\<close>

lemma paid_inv_map:
  assumes inv: "paid_inv s"
    and orders: "t_orders t = map g (t_orders s)" "table_ok orders_table t"
    and bookings: "t_bookings t = map h (t_bookings s)" "table_ok bookings_table t"
    and g: "\<And>q. q \<in> set (t_orders s) \<Longrightarrow> o_id (g q) = o_id q \<and> (o_status (g q) = O_paid \<longleftrightarrow> o_status q = O_paid)"
    and h: "\<And>b. b_orderId (h b) = b_orderId b"
    and same: "\<And>b q. same_purchase b q \<Longrightarrow> same_purchase (h b) (g q)"
  shows "paid_inv t"
  unfolding paid_inv_def
proof (intro conjI)
  show "\<forall>q \<in> set (t_orders t). o_status q = O_paid \<longleftrightarrow> (\<exists>b \<in> set (t_bookings t). b_orderId b = o_id q)"
    using inv g h by (simp add: orders(1) bookings(1) paid_inv_def)
  show "\<forall>b \<in> set (t_bookings t). \<exists>q \<in> set (t_orders t). same_purchase b q"
    using inv same by (fastforce simp: orders(1) bookings(1) paid_inv_def)
qed (rule orders(2) bookings(2))+

lemma paid_inv_orders:
  assumes inv: "paid_inv s" and f: "keeps_purchase f"
    and run: "update_rows orders_table P f s = (Inr u, t)"
  shows "paid_inv t"
proof -
  define g where "g q = (if P q then f q else q)" for q
  have ok: "table_ok orders_table s" "table_ok orders_table t"
    using inv run f by (auto simp: paid_inv_def keeps_purchase_def intro: orders.update_rows_ok)
  have t: "t = s\<lparr>t_orders := map g (t_orders s)\<rparr>"
    using run by (simp add: update_rows_Inr_iff update_where_def g_def)
  have paid: "o_status (g q) = O_paid \<longleftrightarrow> o_status q = O_paid" if "q \<in> set (t_orders s)" for q
  proof -
    have "order_ok q" "order_ok (g q)"
      using orders.row_ok[OF ok(1), of q] orders.row_ok[OF ok(2), of "g q"] that t by auto
    then show ?thesis using f by (auto simp: order_ok_def keeps_purchase_def g_def split: if_splits)
  qed
  have same: "o_id (g q) = o_id q" "same_purchase b q \<Longrightarrow> same_purchase b (g q)" for b q
    using f by (simp_all add: same_purchase_def keeps_purchase_def g_def)
  show ?thesis
    by (rule paid_inv_map[OF inv, where g = g and h = "\<lambda>b. b"])
      (use inv ok(2) paid same in \<open>simp_all add: t paid_inv_def table_ok_def\<close>)
qed

lemma keeps_paid_orders: "keeps_purchase f \<Longrightarrow> keeps paid_inv (update_rows orders_table P f)"
  by (rule keepsI) (metis paid_inv_orders sum.exhaust write_failed_state(2))

definition keeps_booked :: "(event_booking \<Rightarrow> event_booking) \<Rightarrow> bool" where
  "keeps_booked f \<longleftrightarrow> (\<forall>b. b_id (f b) = b_id b \<and> b_orderId (f b) = b_orderId b \<and>
    b_userId (f b) = b_userId b \<and> b_eventId (f b) = b_eventId b \<and>
    b_quantity (f b) = b_quantity b \<and> b_amountPaise (f b) = b_amountPaise b)"

lemma paid_inv_bookings:
  assumes inv: "paid_inv s" and f: "keeps_booked f"
    and run: "update_rows bookings_table P f s = (Inr u, t)"
  shows "paid_inv t"
proof -
  define h where "h b = (if P b then f b else b)" for b
  have ok: "table_ok bookings_table t"
    using inv run f by (auto simp: paid_inv_def keeps_booked_def intro: bookings.update_rows_ok)
  have t: "t = s\<lparr>t_bookings := map h (t_bookings s)\<rparr>"
    using run by (simp add: update_rows_Inr_iff update_where_def h_def)
  have same: "b_orderId (h b) = b_orderId b" "same_purchase b q \<Longrightarrow> same_purchase (h b) q" for b q
    using f by (simp_all add: same_purchase_def keeps_booked_def h_def)
  show ?thesis
    by (rule paid_inv_map[OF inv, where g = "\<lambda>q. q" and h = h])
      (use inv ok same in \<open>simp_all add: t paid_inv_def table_ok_def\<close>)
qed

lemma keeps_paid_bookings: "keeps_booked f \<Longrightarrow> keeps paid_inv (update_rows bookings_table P f)"
  by (rule keepsI) (metis paid_inv_bookings sum.exhaust write_failed_state(2))

lemma keeps_paid_new_order:
  assumes "o_status q = O_created"
  shows "keeps paid_inv (insert_row orders_table q)"
proof (rule keepsI)
  fix s r t
  assume inv: "paid_inv s" and run: "insert_row orders_table q s = (r, t)"
  show "paid_inv t"
  proof (cases r)
    case (Inl e)
    with run write_failed_state(1) inv show ?thesis by metis
  next
    case (Inr u)
    have t: "t = s\<lparr>t_orders := t_orders s @ [q]\<rparr>" and fresh: "\<forall>r \<in> set (t_orders s). o_id r \<noteq> o_id q"
      using run Inr by (auto simp: insert_row_Inr_iff)
    have "table_ok orders_table t"
      using run Inr inv by (auto intro: orders.insert_row_ok simp: paid_inv_def)
    moreover have "b_orderId b \<noteq> o_id q" if "b \<in> set (t_bookings s)" for b
      using inv that fresh by (fastforce simp: paid_inv_def same_purchase_def)
    ultimately show ?thesis
      using inv assms by (auto simp: paid_inv_def t table_ok_def)
  qed
qed

section \<open>A booked order\<close>

lemma paid_inv_book_order:
  assumes inv: "paid_inv s" and run: "book_order e q row s = (Inr out, t)"
    and q: "q \<in> set (t_orders s)" and none: "\<And>b. b \<in> set (t_bookings s) \<Longrightarrow> b_orderId b \<noteq> o_id q"
  shows "paid_inv t"
  using run
proof (cases rule: book_order_view)
  case (1 b f)
  have ok: "table_ok orders_table s" "table_ok bookings_table s" using inv by (auto simp: paid_inv_def)
  have unpaid: "o_status q \<noteq> O_paid" using inv q none by (auto simp: paid_inv_def)
  have mine: "r = q" if "r \<in> set (t_orders s)" "o_id r = o_id q" for r
    using orders.key_eq[OF ok(1)] q that by simp
  define g where "g r = (if o_id r = o_id q then f r else r)" for r
  have parts: "t_orders t = map g (t_orders s)" "t_bookings t = t_bookings s @ [b]"
    using 1(5) by (simp_all add: seat_view_def update_where_def g_def)
  have g: "o_id (g r) = o_id r" "same_purchase c r \<Longrightarrow> same_purchase c (g r)" for c r
    by (simp_all add: g_def 1(4) setting_def same_purchase_def)
  have paid: "o_status (g r) = O_paid \<longleftrightarrow> o_status r = O_paid \<or> r = q" if "r \<in> set (t_orders s)" for r
    using mine[OF that] unpaid by (auto simp: g_def 1(4) setting_def)
  have b: "same_purchase b (g q)" using 1(1,2) g(2)[of b q] by (simp add: same_purchase_def)
  show ?thesis
    unfolding paid_inv_def
  proof (intro conjI)
    show "table_ok orders_table t" "table_ok bookings_table t" using 1(6,7) ok by blast+
    show "\<forall>r \<in> set (t_orders t). o_status r = O_paid \<longleftrightarrow> (\<exists>b \<in> set (t_bookings t). b_orderId b = o_id r)"
      using inv g(1) paid mine 1(1) none by (fastforce simp: parts paid_inv_def)
    show "\<forall>c \<in> set (t_bookings t). \<exists>r \<in> set (t_orders t). same_purchase c r"
      using inv g(2) b q by (fastforce simp: parts paid_inv_def)
  qed
qed

lemma keeps_paid_finalize_tx: "keeps paid_inv (finalize_tx q m z)"
proof (rule keeps_committed[OF finalize_tx_def])
  fix s out t
  assume inv: "paid_inv s" and run: "finalize_tx q m z s = (Inr out, t)"
  show "paid_inv t"
  proof (cases "\<exists>e l. by_key events_table (o_eventId q) s = Some e \<and> by_key orders_table (o_id q) s = Some l")
    case False
    then have "t = s" using run by (auto simp: finalize_tx_def returns_iff split: option.splits)
    with inv show ?thesis by simp
  next
    case True
    then obtain e l row s1 where l: "by_key orders_table (o_id q) s = Some l"
      and rec: "record_payment (o_id l) z s = (Inr row, s1)"
      and settle: "settle_payment e l m row s1 = (Inr out, t)"
      using run by (auto simp: finalize_tx_def returns_iff)
    have view: "seat_view s1 = seat_view s" using leavesD[OF record_payment_view rec] .
    have inv1: "paid_inv s1" by (rule paid_inv_view[OF view[symmetric] inv])
    have l1: "l \<in> set (t_orders s1)" using orders.by_key_in[OF l] view by (simp add: seat_view_def)
    have booked: "paid_inv t"
      if "book_order e l row s1 = (Inr out, t)" "booking_of_order (o_id l) s1 = None"
      using paid_inv_book_order[OF inv1 that(1) l1] that(2)
      by (auto simp: booking_of_order_def find_row_def find_None_iff)
    have other: "keeps paid_inv (save payments_table cs row)" for cs
      by (intro keeps_paid_view leaves_rules) (simp add: seat_view_def)
    show ?thesis
      using settle booked inv1 keepsD[OF other]
      by (auto simp: settle_payment_def returns_iff split: option.splits if_splits)
  qed
qed

section \<open>Every step keeps it\<close>

lemma keeps_paid_order_steps:
  "keeps paid_inv (create_order_tx userId eventId quantity key)"
  "keeps paid_inv (save orders_table [setting o_razorpayOrderId o_razorpayOrderId_update v] q)"
  "keeps paid_inv (save orders_table [setting o_status o_status_update O_failed] q)"
  "keeps paid_inv (expire_order i)"
proof -
  show "keeps paid_inv (create_order_tx userId eventId quantity key)"
    unfolding create_order_tx_def Let_def
    by (intro keeps_rules keeps_paid_orders keeps_paid_new_order;
        (intro keeps_paid_view leaves_rules)?; simp add: keeps_purchase_def new_order_def seat_view_def)
qed (auto intro!: keeps_save keeps_paid_orders simp: expire_order_def keeps_purchase_def setting_def)

lemma keeps_paid_booking_steps:
  "keeps paid_inv (save bookings_table [setting b_refundStatus b_refundStatus_update st] b)"
  "keeps paid_inv (save payments_table cs p)"
  "keeps paid_inv (refund_booking_tx env a ip i reason)"
  unfolding refund_booking_tx_def Let_def
  by (intro keeps_rules keeps_save keeps_paid_bookings;
      (intro keeps_paid_view leaves_rules)?; simp add: keeps_booked_def setting_def seat_view_def)+

lemma paid_inv_purchases: "purchase_view s = purchase_view t \<Longrightarrow> paid_inv s \<Longrightarrow> paid_inv t"
  by (simp add: paid_inv_def purchase_view_def table_ok_def)

lemma step_paid_inv: "paid_inv s \<Longrightarrow> pass_step env s t \<Longrightarrow> paid_inv t"
  by (rule step_keeps_purchases[where I = paid_inv])
    (assumption | rule paid_inv_purchases keeps_paid_order_steps keeps_paid_booking_steps
      keeps_paid_finalize_tx)+

interpretation ledger: invariant_system shop_start "pass_step env" paid_inv for env
  by unfold_locales
    (simp add: shop_start_def paid_inv_def table_ok_def, rule step_paid_inv)

end
