(* ===== verification/Payments_Samples.thy ===== *)
theory Payments_Samples
  imports Payments_Paid Samples
begin

text \<open>A concrete shop, before and after one order, and a gateway that accepts every request.\<close>

section \<open>A shop with one event\<close>

definition shop_db :: db where
  "shop_db = empty_db\<lparr>t_events := [sample_event]\<rparr>"

lemma shop_db_start: "shop_start shop_db"
  by (simp add: shop_start_def shop_db_def empty_db_def table_ok_def conflicts_def event_ok_def
      sample_event_def)

definition shop_ordered :: db where
  "shop_ordered = snd (create_order_tx 1 7 2 5 shop_db)"

lemma shop_ordered_reached: "(pass_step sample_env)\<^sup>*\<^sup>* shop_db shop_ordered"
  unfolding shop_ordered_def
  by (rule r_into_rtranclp, rule pass_step.create_order, rule surjective_pairing)

lemma shop_ordered_orders: "t_orders shop_ordered = [new_order 1001 1 7 5 2 50000 0]"
  "t_events shop_ordered = [sample_event]" "t_bookings shop_ordered = []" "clock shop_ordered = 0"
  by code_simp+

section \<open>A sample shop with one order\<close>

definition sample_hmac :: "string \<Rightarrow> string \<Rightarrow> string" where
  "sample_hmac key text = replicate 64 (CHR ''a'')"

definition sample_payment :: "payment_status \<Rightarrow> int \<Rightarrow> remote_payment" where
  "sample_payment st amount = \<lparr>zp_id = ''pay_1'', zp_order_id = Some ''order_1'', zp_amount = amount,
    zp_currency = ''INR'', zp_status = st, zp_method = Some ''upi'', zp_error_code = None,
    zp_error_description = None\<rparr>"

definition sample_http :: razorpay_http where
  "sample_http = \<lparr>post_orders = (\<lambda>n amount currency receipt.
      Accepted \<lparr>ro_id = ''order_1'', ro_amount = amount, ro_currency = currency\<rparr>),
    get_payment = (\<lambda>n i. Accepted (sample_payment P_captured 100000)),
    get_order_payments = (\<lambda>n i. Accepted [sample_payment P_captured 100000]),
    post_capture = (\<lambda>n i amount currency. Accepted (sample_payment P_captured amount)),
    post_refund = (\<lambda>n i amount receipt. Accepted
      \<lparr>zr_id = ''rfnd_1'', zr_payment_id = i, zr_amount = amount, zr_status = Zr_processed\<rparr>)\<rparr>"

definition sample_gateway :: gateway where
  "sample_gateway = createRazorpayGateway sample_hmac sample_http ''key'' ''s'' ''w''"

definition shop_attached :: db where
  "shop_attached = snd (createOrder (Some sample_gateway) 1 7 2 5 shop_db)"

definition sample_order :: order where
  "sample_order = \<lparr>o_id = 1001, o_userId = 1, o_eventId = 7, o_idempotencyKey = 5, o_quantity = 2,
    o_unitPricePaise = 50000, o_amountPaise = 100000, o_status = O_created,
    o_razorpayOrderId = Some ''order_1'', o_expiresAt = 900000, o_paidAt = None, o_createdAt = 0\<rparr>"

lemma shop_attached_orders: "t_orders shop_attached = [sample_order]"
  by code_simp

lemma shop_attached_bookings: "t_bookings shop_attached = []"
  by code_simp

lemma shop_attached_reached: "(pass_step sample_env)\<^sup>*\<^sup>* shop_db shop_attached"
  unfolding shop_attached_def by (rule method_steps[OF keeps_createOrder surjective_pairing])

section \<open>A shop with one paid order\<close>

definition sample_row :: "payment_status \<Rightarrow> payment" where
  "sample_row st = \<lparr>p_id = 2001, p_orderId = 1001, p_razorpayPaymentId = ''pay_1'', p_status = st,
    p_amountPaise = 100000, p_currency = ''INR'', p_method = Some ''upi'', p_errorCode = None,
    p_errorReason = None, p_capturedAt = Some 0, p_refundStatus = Rf_none, p_razorpayRefundId = None,
    p_amountRefundedPaise = 0, p_refundedAt = None, p_createdAt = 0\<rparr>"

definition sample_booking :: event_booking where
  "sample_booking = \<lparr>b_id = 3001, b_code = ''GP-ABCDEFGH'', b_orderId = 1001, b_paymentId = 2001,
    b_userId = 1, b_eventId = 7, b_quantity = 2, b_amountPaise = 100000, b_status = B_confirmed,
    b_refundStatus = Rf_none, b_cancelReason = None, b_cancelledAt = None, b_createdAt = 0\<rparr>"

definition paid_db :: "payment_status \<Rightarrow> db" where
  "paid_db st = shop_db\<lparr>t_orders := [sample_order\<lparr>o_status := O_paid, o_paidAt := Some 0\<rparr>],
    t_payments := [sample_row st], t_bookings := [sample_booking]\<rparr>"

lemma paid_db_ok: "table_ok orders_table (paid_db st)" "table_ok payments_table (paid_db st)"
  by (simp_all add: paid_db_def shop_db_def empty_db_def table_ok_def conflicts_def sample_order_def
      sample_row_def order_ok_def payment_ok_def INT4_MAX_def)

lemmas paid_db_simps = paid_db_def shop_db_def empty_db_def sample_event_def sample_order_def
  sample_row_def sample_booking_def sample_payment_def find_row_def by_key_def

end
