(* ===== verification/Payments_Finalize.thy ===== *)
theory Payments_Finalize
  imports Payments_Samples
begin

text \<open>
  What the service does with a report of the gateway: a captured payment of a live order is
  booked, a repeated report changes nothing, a captured payment is not moved backwards.
\<close>

section \<open>Recording a payment\<close>

lemma insert_row_fresh:
  assumes "tb_ok T r" "\<And>q. q \<in> set (tb_rows T s) \<Longrightarrow> tb_key T q \<noteq> tb_key T r \<and> \<not> tb_clash T q r"
  shows "insert_row T r s = (Inr (), tb_put T (tb_rows T s @ [r]) s)"
  using assms by (auto simp: insert_row_def list_ex_iff)

text \<open>The row of a payment that was not known before.\<close>

definition new_payment :: "uuid \<Rightarrow> uuid \<Rightarrow> remote_payment \<Rightarrow> instant \<Rightarrow> payment" where
  "new_payment i orderId z t = \<lparr>p_id = i, p_orderId = orderId, p_razorpayPaymentId = zp_id z, p_status = zp_status z,
      p_amountPaise = zp_amount z, p_currency = zp_currency z,
      p_method = errorText (zp_method z) 20, p_errorCode = errorText (zp_error_code z) 60,
      p_errorReason = errorText (zp_error_description z) 255,
      p_capturedAt = (if zp_status z = P_captured then Some t else None),
      p_refundStatus = Rf_none, p_razorpayRefundId = None, p_amountRefundedPaise = 0,
      p_refundedAt = None, p_createdAt = t\<rparr>"

lemma record_payment_new:
  assumes "find_row payments_table (\<lambda>p. p_razorpayPaymentId p = zp_id z) s = None"
  shows "record_payment i z s =
    andThen (insert_row payments_table (new_payment (Suc (rng s (drawn s))) i z (clock s)))
      (\<lambda>_. ret (new_payment (Suc (rng s (drawn s))) i z (clock s))) (s\<lparr>drawn := Suc (drawn s)\<rparr>)"
  using assms by (simp add: record_payment_def run_simps new_payment_def Let_def)

lemma pay_order:
  assumes "table_ok orders_table s" "q \<in> set (t_orders s)" "o_status q \<noteq> O_paid"
  obtains t where "save orders_table
      [setting o_status o_status_update O_paid, setting o_paidAt o_paidAt_update (Some c)] q s =
      (Inr (q\<lparr>o_status := O_paid, o_paidAt := Some c\<rparr>), t)"
    "t = s\<lparr>t_orders := update_where (\<lambda>r. o_id r = o_id q) (\<lambda>r. r\<lparr>o_status := O_paid, o_paidAt := Some c\<rparr>) (t_orders s)\<rparr>"
proof -
  have q: "order_ok q" using orders.row_ok[OF assms(1)] assms(2) by simp
  then have unpaid: "o_paidAt q = None" using assms(3) by (simp add: order_ok_def)
  let ?cs = "[setting o_status o_status_update O_paid, setting o_paidAt o_paidAt_update (Some c)]"
  have f: "apply_settings ?cs q = (\<lambda>r. r\<lparr>o_status := O_paid, o_paidAt := Some c\<rparr>)"
    using assms(3) unpaid by (auto simp: setting_def fun_eq_iff)
  have "update_rows orders_table (\<lambda>r. o_id r = o_id q) (\<lambda>r. r\<lparr>o_status := O_paid, o_paidAt := Some c\<rparr>) s =
      (Inr (), tb_put orders_table (update_where (\<lambda>r. o_id r = o_id q)
        (\<lambda>r. r\<lparr>o_status := O_paid, o_paidAt := Some c\<rparr>) (tb_rows orders_table s)) s)"
  proof (rule orders.update_rows_returns[OF assms(1)])
    fix r
    assume "r \<in> set (tb_rows orders_table s)"
    then have "order_ok r" using orders.row_ok[OF assms(1)] by simp
    then show "tb_ok orders_table (r\<lparr>o_status := O_paid, o_paidAt := Some c\<rparr>)"
      by (simp add: order_ok_def)
  qed (simp_all add: order_clash_def)
  then show thesis
    by (intro that) (simp_all add: save_Inr_iff f del: apply_settings_Cons)
qed

section \<open>A captured payment of a live order is booked\<close>

text \<open>
  The code of the booking: \<open>GP-\<close> and eight characters of the alphabet, picked by the eight numbers
  drawn from number \<open>n\<close> on. The draws are fresh when the id of the payment, the code and the id of the
  booking that they give belong to no row yet: what the birthday bound makes all but certain, and what the
  unique indexes check.
\<close>

definition drawn_code :: "db \<Rightarrow> nat \<Rightarrow> string" where
  "drawn_code s n = ''GP-'' @
    map (\<lambda>k. ''ABCDEFGHJKMNPQRSTUVWXYZ23456789'' ! (rng s (n + k) mod 31)) [0, 1, 2, 3, 4, 5, 6, 7]"

definition fresh_draws :: "db \<Rightarrow> bool" where
  "fresh_draws s \<longleftrightarrow>
    (\<forall>p \<in> set (t_payments s). p_id p \<noteq> Suc (rng s (drawn s))) \<and>
    (\<forall>b \<in> set (t_bookings s). b_paymentId b \<noteq> Suc (rng s (drawn s)) \<and>
      b_code b \<noteq> drawn_code s (Suc (drawn s)) \<and> b_id b \<noteq> Suc (rng s (drawn s + 9)))"

lemma random_chars_draws:
  "random_chars alphabet n s = (Inr (map (\<lambda>k. alphabet ! (rng s (drawn s + k) mod length alphabet)) [0..<n]),
    s\<lparr>drawn := drawn s + n\<rparr>)"
proof (induction n arbitrary: s)
  case 0
  have "s = s\<lparr>drawn := drawn s\<rparr>" by simp
  then show ?case by (simp add: ret_def)
next
  case (Suc n)
  show ?case by (simp add: run_simps andThen_def Suc.IH map_upt_Suc ret_def del: upt_Suc)
qed

lemma bookingCode_draws: "bookingCode s = (Inr (drawn_code s (drawn s)), s\<lparr>drawn := drawn s + 8\<rparr>)"
proof -
  have "[0..<8] = [0, 1, 2, 3, 4, 5, 6, 7::nat]" by (simp add: upt_rec)
  then show ?thesis
    by (simp add: bookingCode_def andThen_def random_chars_draws ret_def drawn_code_def BOOKING_CODE_ALPHABET_def)
qed

lemma captured_payment_run:
  assumes ok: "table_ok orders_table s" "q \<in> set (t_orders s)" "o_status q = O_created" "clock s < o_expiresAt q"
    and e: "by_key events_table (o_eventId q) s = Some e" "ev_status e = E_published" "clock s < ev_endsAt e"
    and z: "zp_status z = P_captured" "zp_amount z = o_amountPaise q" "zp_currency z = ''INR''"
      "length (zp_id z) \<le> 40"
    and new: "find_row payments_table (\<lambda>p. p_razorpayPaymentId p = zp_id z) s = None"
      "booking_of_order (o_id q) s = None"
    and fresh: "fresh_draws s"
    and run: "finalize_tx q True z s = (r, t)"
  shows "\<exists>b p. r = Inr (Fin_booked b p False) \<and> t_bookings t = t_bookings s @ [b] \<and> same_purchase b q \<and>
      b_status b = B_confirmed \<and> b_code b = drawn_code s (Suc (drawn s)) \<and> b_paymentId b = p_id p \<and>
      t_payments t = t_payments s @ [p] \<and> p_razorpayPaymentId p = zp_id z \<and>
      (\<exists>q' \<in> set (t_orders t). o_id q' = o_id q \<and> o_status q' = O_paid)"
proof -
  have q: "order_ok q" using orders.row_ok[OF ok(1)] ok(2) by simp
  have l: "by_key orders_table (o_id q) s = Some q" using orders.row_by_key[OF ok(1)] ok(2) by simp
  let ?i = "Suc (rng s (drawn s))"
  let ?p = "new_payment ?i (o_id q) z (clock s)"
  let ?s1 = "s\<lparr>drawn := Suc (drawn s), t_payments := t_payments s @ [?p]\<rparr>"
  have "tb_ok payments_table ?p" using z q by (simp add: new_payment_def payment_ok_def order_ok_def)
  then have "insert_row payments_table ?p (s\<lparr>drawn := Suc (drawn s)\<rparr>) = (Inr (), ?s1)"
    using new(1) fresh
    by (subst insert_row_fresh)
      (auto simp: new_payment_def payment_clash_def sql_eq_def fresh_draws_def find_row_def find_None_iff)
  then have rec: "record_payment (o_id q) z s = (Inr ?p, ?s1)"
    by (simp add: record_payment_new[OF new(1)] andThen_def ret_def)
  have none: "booking_of_order (o_id q) ?s1 = None" using new(2) by (simp add: booking_of_order_def find_row_def)
  have "p_status ?p = P_captured" using z by (simp add: new_payment_def)
  then have settle: "settle_payment e q True ?p ?s1 = book_order e q ?p ?s1"
    using none by (simp add: settle_payment_def run_simps)
  have tx: "finalize_tx q True z s = transaction (\<lambda>_. settle_payment e q True ?p ?s1) s"
    using l e(1) rec by (simp add: finalize_tx_def transaction_def run_simps andThen_def)
  let ?code = "drawn_code s (Suc (drawn s))"
  have code: "bookingCode ?s1 = (Inr ?code, ?s1\<lparr>drawn := drawn s + 9\<rparr>)"
    by (simp add: bookingCode_draws) (simp add: drawn_code_def)
  have reason: "cancel_reason e q ?s1 = None" using e ok by (simp add: cancel_reason_def)
  let ?b = "new_booking (Suc (rng s (drawn s + 9))) ?code q ?i None (clock s)"
  let ?s2 = "?s1\<lparr>drawn := drawn s + 10, t_bookings := t_bookings s @ [?b]\<rparr>"
  have "tb_ok bookings_table ?b" using q by (simp add: new_booking_def booking_ok_def order_ok_def)
  then have stored: "insert_row bookings_table ?b (?s1\<lparr>drawn := drawn s + 10\<rparr>) = (Inr (), ?s2)"
    using new(2) fresh
    by (subst insert_row_fresh)
      (auto simp: new_booking_def booking_clash_def fresh_draws_def booking_of_order_def find_row_def find_None_iff)
  have s2: "table_ok orders_table ?s2" "q \<in> set (t_orders ?s2)"
    using ok(1,2) by (simp_all add: table_ok_def)
  obtain t' where pay: "save orders_table
      [setting o_status o_status_update O_paid, setting o_paidAt o_paidAt_update (Some (clock s))] q ?s2 =
      (Inr (q\<lparr>o_status := O_paid, o_paidAt := Some (clock s)\<rparr>), t')"
    "t' = ?s2\<lparr>t_orders := update_where (\<lambda>r. o_id r = o_id q)
      (\<lambda>r. r\<lparr>o_status := O_paid, o_paidAt := Some (clock s)\<rparr>) (t_orders ?s2)\<rparr>"
    using pay_order[OF s2] ok(3) by (metis order_status.distinct(1))
  have id_p: "p_id ?p = ?i" by (simp add: new_payment_def)
  have "book_order e q ?p ?s1 =
    andThen (insert_row bookings_table ?b) (\<lambda>_. andThen (ret ?p) (\<lambda>row'.
     andThen (save orders_table
       [setting o_status o_status_update O_paid, setting o_paidAt o_paidAt_update (Some (clock s))] q) (\<lambda>_.
     ret (Fin_booked ?b row' False)))) (?s1\<lparr>drawn := drawn s + 10\<rparr>)"
    using reason unfolding book_order_def andThen_gets andThen_now andThen_def[of bookingCode] code
    by (simp add: run_simps Let_def id_p add.commute)
  also have "\<dots> = (Inr (Fin_booked ?b ?p False), t')"
    by (simp only: andThen_def stored pay(1) ret_def prod.case sum.case)
  finally have "book_order e q ?p ?s1 = (Inr (Fin_booked ?b ?p False), t')" .
  then have run': "r = Inr (Fin_booked ?b ?p False)" "t = t'"
    using run by (auto simp: tx settle transaction_def)
  have "q\<lparr>o_status := O_paid, o_paidAt := Some (clock s)\<rparr> \<in> set (t_orders t)"
    using s2(2) by (force simp: run' pay(2) set_update_where)
  then have "\<exists>q' \<in> set (t_orders t). o_id q' = o_id q \<and> o_status q' = O_paid" by (rule bexI[rotated]) simp
  then show ?thesis
    by (simp add: run' pay(2)) (simp add: new_booking_def new_payment_def same_purchase_def)
qed

text \<open>
  C3. The first captured payment that matches a live order of a running event gives a confirmed booking
  with the code drawn for it, its payment row and a paid order, unless one of the three random draws of
  the request hits a row that is there already.
\<close>

theorem captured_payment_books:
  assumes "table_ok orders_table s" "q \<in> set (t_orders s)" "o_status q = O_created" "clock s < o_expiresAt q"
    and "by_key events_table (o_eventId q) s = Some e" "ev_status e = E_published" "clock s < ev_endsAt e"
    and "zp_status z = P_captured" "zp_amount z = o_amountPaise q" "zp_currency z = ''INR''" "length (zp_id z) \<le> 40"
    and "find_row payments_table (\<lambda>p. p_razorpayPaymentId p = zp_id z) s = None"
      "booking_of_order (o_id q) s = None"
    and "fresh_draws s" and "finalize_tx q True z s = (r, t)"
  shows "\<exists>b p. r = Inr (Fin_booked b p False) \<and> t_bookings t = t_bookings s @ [b] \<and> same_purchase b q \<and>
      b_status b = B_confirmed \<and> b_code b = drawn_code s (Suc (drawn s)) \<and> b_paymentId b = p_id p \<and>
      t_payments t = t_payments s @ [p] \<and> p_razorpayPaymentId p = zp_id z \<and>
      (\<exists>q' \<in> set (t_orders t). o_id q' = o_id q \<and> o_status q' = O_paid)"
  using captured_payment_run[OF assms] .

lemma shop_attached_state:
  "t_events shop_attached = [sample_event]" "t_payments shop_attached = []" "clock shop_attached = 0"
  by code_simp+

lemma shop_attached_ok: "table_ok orders_table shop_attached"
  using ledger.reachable_inv[OF shop_db_start shop_attached_reached] by (simp add: paid_inv_def)

theorem captured_payment_books_witness:
  "\<exists>b p. fst (finalize_tx sample_order True (sample_payment P_captured 100000) shop_attached) =
      Inr (Fin_booked b p False) \<and> b_amountPaise b = 100000 \<and> b_status b = B_confirmed \<and>
      b_code b = drawn_code shop_attached (Suc (drawn shop_attached))"
proof -
  let ?run = "finalize_tx sample_order True (sample_payment P_captured 100000) shop_attached"
  have "ev_status sample_event = E_published" "ev_id sample_event = 7" "0 < ev_endsAt sample_event"
    by (simp_all add: sample_event_def) code_simp
  then show ?thesis
    using captured_payment_books[OF shop_attached_ok, of sample_order sample_event
        "sample_payment P_captured 100000" "fst ?run" "snd ?run"]
    by (auto simp: shop_attached_orders shop_attached_state shop_attached_bookings sample_order_def fresh_draws_def
        sample_payment_def by_key_def find_row_def booking_of_order_def same_purchase_def)
qed

section \<open>A repeated report changes nothing\<close>

definition settled_view :: "db \<Rightarrow> order list \<times> event_booking list \<times> effect list \<times> gateway_call list" where
  "settled_view s = (t_orders s, t_bookings s, outbox s, gateway_log s)"

lemma record_payment_settled: "leaves settled_view (record_payment i z)"
  unfolding record_payment_def Let_def by (intro leaves_rules) (simp_all add: settled_view_def)

lemma record_payment_known:
  assumes "find_row payments_table (\<lambda>p. p_razorpayPaymentId p = zp_id z) s = Some row"
    "zp_status z = P_captured" "record_payment i z s = (Inr row', t)"
  shows "p_id row' = p_id row" "p_status row' = P_captured"
  using assms by (auto simp: record_payment_def returns_iff save_Inr_iff setting_def split: if_splits)

text \<open>
  When the payment of a booked order is reported as captured again, by a second webhook, the checkout
  callback or the job, nobody is notified, the gateway is not called, and orders and bookings stay as they are.
\<close>

theorem repeated_report_changes_nothing:
  assumes ok: "table_ok orders_table s" "by_key events_table (o_eventId q) s = Some e"
    and q: "find_row orders_table (\<lambda>q. o_razorpayOrderId q = zp_order_id z) s = Some q" "truthy (zp_order_id z)"
    and paid: "booking_of_order (o_id q) s = Some b"
      "find_row payments_table (\<lambda>p. p_razorpayPaymentId p = zp_id z) s = Some p" "b_paymentId b = p_id p"
    and z: "zp_status z = P_captured" and run: "finalize env gw z s = (r, t)"
  shows "t_orders t = t_orders s \<and> t_bookings t = t_bookings s \<and> outbox t = outbox s \<and>
    gateway_log t = gateway_log s \<and> (\<forall>x. r = Inr x \<longrightarrow> x = Fin_already b)"
proof -
  let ?m = "matches_order q z"
  have l: "by_key orders_table (o_id q) s = Some q"
    using orders.row_by_key[OF ok(1)] q(1) by (auto simp: find_row_def dest: find_Some_in)
  have fin: "finalize env gw z s = andThen (finalize_tx q ?m z) (\<lambda>outcome.
      andThen (after_finalize env gw outcome) (\<lambda>_. ret outcome)) s"
    using q z by (simp add: finalize_def run_simps captured_state_def)
  show ?thesis
  proof (cases "record_payment (o_id q) z s" rule: prod.exhaust)
    case (Pair x s1)
    have view: "settled_view s1 = settled_view s" by (rule leavesD[OF record_payment_settled Pair])
    show ?thesis
    proof (cases x)
      case (Inl err)
      then have "finalize_tx q ?m z s = (Inl err, s)"
        using Pair l ok(2) by (simp add: finalize_tx_def transaction_def run_simps andThen_def)
      then show ?thesis using run by (auto simp: fin andThen_def)
    next
      case (Inr row)
      note row = record_payment_known[OF paid(2) z Pair[unfolded Inr]]
      have "settle_payment e q ?m row s1 = (Inr (Fin_already b), s1)"
        using paid(1,3) row view
        by (simp add: settle_payment_def run_simps booking_of_order_def find_row_def settled_view_def ret_def)
      then have "finalize_tx q ?m z s = (Inr (Fin_already b), s1)"
        using Pair Inr l ok(2) by (simp add: finalize_tx_def transaction_def run_simps andThen_def)
      then show ?thesis using run view by (auto simp: fin andThen_def after_finalize_def run_simps settled_view_def)
    qed
  qed
qed

section \<open>A captured payment is not moved backwards\<close>

definition captured_row :: "uuid \<Rightarrow> db \<Rightarrow> bool" where
  "captured_row i s \<longleftrightarrow> (\<exists>p \<in> set (t_payments s). p_id p = i \<and> p_status p = P_captured)"

lemma captured_row_view: "t_payments s = t_payments t \<Longrightarrow> captured_row i s \<Longrightarrow> captured_row i t"
  by (simp add: captured_row_def)

lemma keeps_captured_refund:
  "keeps (captured_row i) (save payments_table [setting p_refundStatus p_refundStatus_update st] p)"
proof (intro keeps_save keepsI)
  fix s r t
  assume inv: "captured_row i s"
    and run: "update_rows payments_table (\<lambda>r. tb_key payments_table r = tb_key payments_table p)
        (apply_settings [setting p_refundStatus p_refundStatus_update st] p) s = (r, t)"
  define g where "g x = (if p_id x = p_id p then setting p_refundStatus p_refundStatus_update st p x else x)" for x
  have same: "p_id (g x) = p_id x" "p_status (g x) = p_status x" for x
    by (simp_all add: g_def setting_def)
  have "t_payments t = t_payments s \<or> t_payments t = map g (t_payments s)"
    using run by (auto simp: update_rows_def Let_def update_where_def g_def split: if_splits)
  with inv same show "captured_row i t" by (auto simp: captured_row_def)
qed

lemma keeps_captured_settle: "keeps (captured_row i) (settle_payment e q m row)"
  unfolding settle_payment_def book_order_def Let_def
  by (intro keeps_rules keeps_captured_refund keeps_view[where v = t_payments] leaves_rules)
    (simp_all add: captured_row_def)

text \<open>
  A report that a payment is authorized or failed, arriving after the payment was captured, leaves the
  payment captured.
\<close>

theorem captured_stays_captured:
  assumes ok: "table_ok payments_table s" "p \<in> set (t_payments s)" "p_status p = P_captured"
    and z: "zp_id z = p_razorpayPaymentId p" "zp_status z = P_authorized \<or> zp_status z = P_failed"
    and run: "finalize_tx q m z s = (r, t)"
  shows "\<exists>p' \<in> set (t_payments t). p_id p' = p_id p \<and> p_status p' = P_captured"
proof -
  have "find (\<lambda>x. p_razorpayPaymentId x = p_razorpayPaymentId p) (t_payments s) = Some p"
  proof (cases "find (\<lambda>x. p_razorpayPaymentId x = p_razorpayPaymentId p) (t_payments s)")
    case None
    with ok(2) show ?thesis by (auto simp: find_None_iff)
  next
    case (Some x)
    then have "x \<in> set (t_payments s)" "p_razorpayPaymentId x = p_razorpayPaymentId p" by (auto dest: find_Some_in)
    with payments.clash_eq[OF ok(1), of x p] ok(2) Some show ?thesis by (simp add: payment_clash_def)
  qed
  then have rec: "record_payment i z s = (Inr p, s)" for i
    using ok(3) z by (simp add: record_payment_def run_simps find_row_def)
  have inv: "captured_row (p_id p) s" using ok by (auto simp: captured_row_def)
  have "captured_row (p_id p) t"
  proof (cases "\<exists>e l. by_key events_table (o_eventId q) s = Some e \<and> by_key orders_table (o_id q) s = Some l")
    case False
    then have "t = s" using run
      by (auto simp: finalize_tx_def transaction_def run_simps split: option.splits)
    with inv show ?thesis by simp
  next
    case True
    then obtain e l where "finalize_tx q m z s = transaction (settle_payment e l m p) s"
      using rec by (auto simp: finalize_tx_def transaction_def run_simps andThen_def)
    with run inv keepsD[OF keeps_transaction[OF keeps_captured_settle]] show ?thesis by metis
  qed
  then show ?thesis by (simp add: captured_row_def)
qed

text \<open>
  The guard of the code protects only the status captured: a refunded payment is moved back to
  authorized or failed by a late report.
\<close>

theorem refunded_is_moved_back:
  assumes "find_row payments_table (\<lambda>p. p_razorpayPaymentId p = zp_id z) s = Some p" "p_status p = P_refunded"
    and "record_payment i z s = (Inr p', t)"
  shows "p_status p' = zp_status z"
  using assms by (auto simp: record_payment_def returns_iff save_Inr_iff setting_def split: if_splits)

theorem repeated_report_changes_nothing_witness:
  "t_bookings (snd (finalize sample_env (Some sample_gateway) (sample_payment P_captured 100000) (paid_db P_captured)))
    = [sample_booking]"
proof -
  let ?z = "sample_payment P_captured 100000" and ?q = "sample_order\<lparr>o_status := O_paid, o_paidAt := Some 0\<rparr>"
  have "by_key events_table (o_eventId ?q) (paid_db P_captured) = Some sample_event"
    "find_row orders_table (\<lambda>q. o_razorpayOrderId q = zp_order_id ?z) (paid_db P_captured) = Some ?q"
    "truthy (zp_order_id ?z)" "booking_of_order (o_id ?q) (paid_db P_captured) = Some sample_booking"
    "find_row payments_table (\<lambda>p. p_razorpayPaymentId p = zp_id ?z) (paid_db P_captured) = Some (sample_row P_captured)"
    "b_paymentId sample_booking = p_id (sample_row P_captured)" "zp_status ?z = P_captured"
    by (simp_all add: paid_db_simps truthy_def booking_of_order_def)
  from repeated_report_changes_nothing[OF paid_db_ok(1) this surjective_pairing]
  show ?thesis by (simp add: paid_db_def)
qed

theorem captured_stays_captured_witness:
  "\<exists>p' \<in> set (t_payments (snd (finalize_tx sample_order False (sample_payment P_failed 100000) (paid_db P_captured)))).
    p_id p' = 2001 \<and> p_status p' = P_captured"
proof -
  have "sample_row P_captured \<in> set (t_payments (paid_db P_captured))" "p_status (sample_row P_captured) = P_captured"
    "zp_id (sample_payment P_failed 100000) = p_razorpayPaymentId (sample_row P_captured)"
    "zp_status (sample_payment P_failed 100000) = P_authorized \<or> zp_status (sample_payment P_failed 100000) = P_failed"
    by (simp_all add: paid_db_simps)
  from captured_stays_captured[OF paid_db_ok(2) this surjective_pairing, of sample_order False]
  show ?thesis by (simp add: sample_row_def)
qed

theorem refunded_is_moved_back_witness:
  "map p_status (t_payments (snd (record_payment 1001 (sample_payment P_failed 100000) (paid_db P_refunded)))) = [P_failed]"
proof -
  let ?z = "sample_payment P_failed 100000" and ?s = "paid_db P_refunded"
  have found: "find_row payments_table (\<lambda>p. p_razorpayPaymentId p = zp_id ?z) ?s = Some (sample_row P_refunded)"
    "p_status (sample_row P_refunded) = P_refunded"
    by (simp_all add: paid_db_simps)
  have run: "fst (record_payment 1001 ?z ?s) = Inr (the_payment)
      \<and> t_payments (snd (record_payment 1001 ?z ?s)) = [the_payment]"
    if "the_payment = (sample_row P_refunded)\<lparr>p_status := P_failed\<rparr>" for the_payment
    unfolding that by code_simp
  have "record_payment 1001 ?z ?s = (Inr ((sample_row P_refunded)\<lparr>p_status := P_failed\<rparr>), snd (record_payment 1001 ?z ?s))"
    using run[OF refl] by (simp add: prod_eq_iff)
  from refunded_is_moved_back[OF found this] run[OF refl] show ?thesis by (simp add: sample_payment_def)
qed

section \<open>Bookings match what was paid\<close>

lemma captured_state_orders: "leaves t_orders (captured_state gw q m z)"
  unfolding captured_state_def requireGateway_def by (intro leaves_rules) simp_all

text \<open>
  C4. An order is booked only when the reported payment has exactly its amount, in rupees; the booking
  is for that amount, refers to the payment, and the payment is captured.
\<close>

theorem booked_amount:
  assumes ok: "table_ok orders_table s" and run: "finalize env gw z s = (Inr (Fin_booked b p refund), t)"
  shows "zp_currency z = ''INR'' \<and> b_amountPaise b = zp_amount z \<and> b_paymentId b = p_id p \<and>
    p_status p = P_captured \<and>
    (\<exists>q \<in> set (t_orders s). o_razorpayOrderId q = zp_order_id z \<and> b_orderId b = o_id q \<and>
      o_amountPaise q = zp_amount z)"
proof -
  have "truthy (zp_order_id z)" using run by (auto simp: finalize_def ret_def split: if_splits)
  with run obtain q y s1 s2 where q: "find_row orders_table (\<lambda>q. o_razorpayOrderId q = zp_order_id z) s = Some q"
    and cap: "captured_state gw q (matches_order q z) z s = (Inr y, s1)"
    and tx: "finalize_tx q (matches_order q z) y s1 = (Inr (Fin_booked b p refund), s2)"
    by (auto simp: finalize_def returns_iff split: option.splits)
  have orders: "t_orders s1 = t_orders s" by (rule leavesD[OF captured_state_orders cap])
  have qin: "q \<in> set (t_orders s)" "o_razorpayOrderId q = zp_order_id z"
    using q by (auto simp: find_row_def dest: find_Some_in)
  have l: "by_key orders_table (o_id q) s1 = Some q"
    using orders.row_by_key[OF ok] qin orders by (simp add: by_key_def)
  obtain e row s3 where rec: "record_payment (o_id q) y s1 = (Inr row, s3)"
    and settle: "settle_payment e q (matches_order q z) row s3 = (Inr (Fin_booked b p refund), s2)"
    using tx l by (auto simp: finalize_tx_def returns_iff split: option.splits)
  have m: "matches_order q z" "p_status row = P_captured"
    and book: "book_order e q row s3 = (Inr (Fin_booked b p refund), s2)"
    using settle by (auto simp: settle_payment_def returns_iff split: option.splits if_splits)
  have "b_amountPaise b = o_amountPaise q \<and> b_orderId b = o_id q \<and> b_paymentId b = p_id row \<and>
      p_id p = p_id row \<and> p_status p = p_status row"
    using book by (auto simp: book_order_iff new_booking_def save_Inr_iff setting_def split: if_splits)
  with m qin show ?thesis by (auto simp: matches_order_def)
qed

lemma sample_finalize:
  obtains b p t where "finalize sample_env (Some sample_gateway) (sample_payment P_captured 100000) shop_attached
      = (Inr (Fin_booked b p False), t)"
proof -
  let ?z = "sample_payment P_captured 100000"
  have "ev_status sample_event = E_published" "ev_id sample_event = 7" "0 < ev_endsAt sample_event"
    by (simp_all add: sample_event_def) code_simp
  then have e: "by_key events_table (o_eventId sample_order) shop_attached = Some sample_event"
    "ev_status sample_event = E_published" "clock shop_attached < ev_endsAt sample_event"
    by (simp_all add: by_key_def shop_attached_state sample_order_def)
  have q: "sample_order \<in> set (t_orders shop_attached)" "o_status sample_order = O_created"
    "clock shop_attached < o_expiresAt sample_order"
    by (simp_all add: shop_attached_orders shop_attached_state) (simp_all add: sample_order_def)
  have z: "zp_status ?z = P_captured" "zp_amount ?z = o_amountPaise sample_order" "zp_currency ?z = ''INR''"
    "length (zp_id ?z) \<le> 40"
    by (simp_all add: sample_payment_def sample_order_def)
  have new: "find_row payments_table (\<lambda>p. p_razorpayPaymentId p = zp_id ?z) shop_attached = None"
    "booking_of_order (o_id sample_order) shop_attached = None"
    by (simp_all add: find_row_def booking_of_order_def shop_attached_state shop_attached_bookings)
  obtain r t where run: "finalize_tx sample_order True ?z shop_attached = (r, t)" by (rule prod.exhaust)
  obtain b p where "finalize_tx sample_order True ?z shop_attached = (Inr (Fin_booked b p False), t)"
    using captured_payment_run[OF shop_attached_ok q e z new _ run]
    by (auto simp: run fresh_draws_def shop_attached_state shop_attached_bookings)
  moreover have "find_row orders_table (\<lambda>q. o_razorpayOrderId q = zp_order_id ?z) shop_attached = Some sample_order"
    "truthy (zp_order_id ?z)" "matches_order sample_order ?z" "zp_status ?z = P_captured"
    by (simp_all add: find_row_def shop_attached_orders sample_order_def sample_payment_def truthy_def matches_order_def)
  moreover obtain t' where "notifyBooking sample_env b Bk_confirmed t = (Inr (), t')"
    using notify_returns unfolding notifyBooking_def by blast
  ultimately have "finalize sample_env (Some sample_gateway) ?z shop_attached = (Inr (Fin_booked b p False), t')"
    by (simp add: finalize_def run_simps captured_state_def andThen_def after_finalize_def)
  then show thesis by (rule that)
qed

theorem booked_amount_witness:
  "\<exists>b p t. finalize sample_env (Some sample_gateway) (sample_payment P_captured 100000) shop_attached
      = (Inr (Fin_booked b p False), t) \<and> b_amountPaise b = 100000 \<and> p_status p = P_captured"
proof -
  obtain b p t where run: "finalize sample_env (Some sample_gateway) (sample_payment P_captured 100000) shop_attached
      = (Inr (Fin_booked b p False), t)" by (rule sample_finalize)
  from booked_amount[OF shop_attached_ok this] run show ?thesis by (auto simp: sample_payment_def)
qed

end
