(* ===== verification/Payments_Refunds.thy ===== *)
theory Payments_Refunds
  imports Payments_Samples
begin

text \<open>Refunds, the list of bookings and the expiry of orders.\<close>

section \<open>Refunds by an administrator\<close>

lemma refund_booking_writes: "leaves t_bookings (recordAdminAction env a act tt i md ip)"
  "leaves t_bookings (save payments_table cs p)"
  by (intro leaves_rules; simp)+

lemma refund_refused:
  assumes "by_key bookings_table i s = Some b"
    and "b_refundStatus b = Rf_pending \<or> b_refundStatus b = Rf_processed \<or>
      (\<exists>p. by_key payments_table (b_paymentId b) s = Some p \<and> p_status p \<noteq> P_captured)"
  shows "refundBooking env (Some g) adminId ip i reason s = (Inl (App CONFLICT), s)"
  using assms
  by (auto simp: refundBooking_def requireGateway_def refund_booking_tx_def transaction_def run_simps andThen_def)

text \<open>The settings that start a refund.\<close>

definition refund_settings :: "event_booking \<Rightarrow> instant \<Rightarrow> event_booking setting list" where
  "refund_settings b c = [setting b_status b_status_update B_cancelled,
     setting b_cancelReason b_cancelReason_update (or_else (b_cancelReason b) (Some Admin_refund)),
     setting b_cancelledAt b_cancelledAt_update (or_else (b_cancelledAt b) (Some c)),
     setting b_refundStatus b_refundStatus_update Rf_pending]"

lemma refund_started:
  assumes ok: "table_ok bookings_table s" "table_ok payments_table s"
    and b: "by_key bookings_table i s = Some b" "b_refundStatus b = Rf_none \<or> b_refundStatus b = Rf_failed"
    and p: "by_key payments_table (b_paymentId b) s = Some p" "p_status p = P_captured"
    and fresh: "Suc (rng s (drawn s)) \<notin> al_id ` set (t_audit_logs s)"
  obtains b' t where "refund_booking_tx env adminId ip i reason s =
      (Inr (b', p\<lparr>p_refundStatus := Rf_pending\<rparr>, b_refundStatus b = Rf_failed), t)"
    "b_status b' = B_cancelled" "b_refundStatus b' = Rf_pending" "by_key bookings_table i t = Some b'"
    "length (t_audit_logs t) = Suc (length (t_audit_logs s))"
proof -
  let ?f = "apply_settings (refund_settings b (clock s)) b"
  have rows: "booking_ok b" "payment_ok p" "b_id b = i" "p_id p = b_paymentId b" "b \<in> set (t_bookings s)"
    using bookings.row_ok[OF ok(1)] payments.row_ok[OF ok(2)] bookings.by_key_in[OF b(1)] payments.by_key_in[OF p(1)]
    by auto
  have "update_rows bookings_table (\<lambda>r. b_id r = b_id b) ?f s =
      (Inr (), tb_put bookings_table (update_where (\<lambda>r. b_id r = b_id b) ?f (tb_rows bookings_table s)) s)"
  proof (rule bookings.update_rows_returns[OF ok(1)])
    fix r assume "r \<in> set (tb_rows bookings_table s)" "b_id r = b_id b"
    then have "r = b" using bookings.key_eq[OF ok(1), of r b] rows(5) by simp
    then show "tb_ok bookings_table (?f r)"
      using rows(1) by (auto simp: refund_settings_def setting_def booking_ok_def or_else_def split: option.splits)
  qed (simp_all add: refund_settings_def setting_def booking_clash_def)
  then obtain s1 where sb: "save bookings_table (refund_settings b (clock s)) b s = (Inr (?f b), s1)"
    and s1: "s1 = s\<lparr>t_bookings := t_bookings s1\<rparr>" by (simp add: save_Inr_iff)
  let ?g = "apply_settings [setting p_refundStatus p_refundStatus_update Rf_pending] p"
  have "update_rows payments_table (\<lambda>r. p_id r = p_id p) ?g s1 =
      (Inr (), tb_put payments_table (update_where (\<lambda>r. p_id r = p_id p) ?g (tb_rows payments_table s1)) s1)"
  proof (rule payments.update_rows_returns)
    show "table_ok payments_table s1" using ok(2) by (subst s1) (simp add: table_ok_def)
    fix r assume "r \<in> set (tb_rows payments_table s1)"
    then have "payment_ok r" using payments.row_ok[OF ok(2)] by (subst (asm) s1) simp
    then show "tb_ok payments_table (?g r)" by (simp add: setting_def payment_ok_def)
  qed (simp_all add: setting_def payment_clash_def)
  then obtain s2 where sp: "save payments_table [setting p_refundStatus p_refundStatus_update Rf_pending] p s1 =
      (Inr (p\<lparr>p_refundStatus := Rf_pending\<rparr>), s2)" and s2: "s2 = s1\<lparr>t_payments := t_payments s2\<rparr>"
    by (simp add: save_Inr_iff) (simp add: setting_def)
  have kept: "t_audit_logs s2 = t_audit_logs s" "rng s2 = rng s" "drawn s2 = drawn s" "t_bookings s2 = t_bookings s1"
    by (subst s2, subst s1, simp)+
  have log: "\<exists>t. recordAdminAction env adminId act Target_booking (Some (b_id b)) md ip s2 = (Inr (), t) \<and>
      length (t_audit_logs t) = Suc (length (t_audit_logs s))" for act md
    using fresh by (simp add: recordAdminAction_def run_simps insert_row_def list_ex_iff kept) (force simp: image_iff)
  let ?act = "if b_refundStatus b = Rf_failed then ''booking.refund_retry'' else ''booking.refund''"
  let ?md = "[(''reason'', Meta_text reason),
     (''amountPaise'', Meta_num (p_amountPaise p - p_amountRefundedPaise p)),
     (''orderId'', Meta_id (b_orderId b)), (''razorpayPaymentId'', Meta_text (p_razorpayPaymentId p))]"
  obtain t where t: "recordAdminAction env adminId ?act Target_booking (Some (b_id b)) ?md ip s2 = (Inr (), t)"
    "length (t_audit_logs t) = Suc (length (t_audit_logs s))" using log by blast
  have run: "refund_booking_tx env adminId ip i reason s =
      (Inr (?f b, p\<lparr>p_refundStatus := Rf_pending\<rparr>, b_refundStatus b = Rf_failed), t)"
    using b p sb sp t(1)
    by (auto simp: refund_booking_tx_def transaction_def run_simps andThen_def Let_def refund_settings_def ret_def
        simp del: apply_settings_Cons)
  have found: "by_key bookings_table i s1 = Some (?f b)"
    using lookup_saved[OF bookings.stored_table_axioms sb b(1)] rows(3)
    by (simp add: refund_settings_def setting_def)
  have "t_bookings t = t_bookings s1" using leavesD[OF refund_booking_writes(1) t(1)] kept(4) by simp
  then have "by_key bookings_table i t = Some (?f b)" using found by (simp add: by_key_def)
  then show thesis
    using that[OF run _ _ _ t(2)] by (simp add: refund_settings_def setting_def)
qed

text \<open>
  C10. A refund is started exactly when none of the booking is running or done and its payment is captured;
  that includes the retry after a recorded failure. Starting it cancels the booking, leaves its refund pending
  and is audited; while the refund is pending or processed any further request is refused, changes nothing
  and does not call the gateway.
\<close>

theorem refund_not_started_twice:
  assumes "table_ok bookings_table s" "table_ok payments_table s"
    and "by_key bookings_table i s = Some b" "by_key payments_table (b_paymentId b) s = Some p"
    and "Suc (rng s (drawn s)) \<notin> al_id ` set (t_audit_logs s)"
  shows "if (b_refundStatus b = Rf_none \<or> b_refundStatus b = Rf_failed) \<and> p_status p = P_captured
    then \<exists>b' t. refund_booking_tx env adminId ip i reason s =
        (Inr (b', p\<lparr>p_refundStatus := Rf_pending\<rparr>, b_refundStatus b = Rf_failed), t) \<and>
      by_key bookings_table i t = Some b' \<and> b_status b' = B_cancelled \<and> b_refundStatus b' = Rf_pending \<and>
      length (t_audit_logs t) = Suc (length (t_audit_logs s)) \<and>
      refundBooking env (Some g) otherAdmin otherIp i otherReason t = (Inl (App CONFLICT), t)
    else refundBooking env (Some g) adminId ip i reason s = (Inl (App CONFLICT), s)"
proof (cases "(b_refundStatus b = Rf_none \<or> b_refundStatus b = Rf_failed) \<and> p_status p = P_captured")
  case True
  obtain b' t where run: "refund_booking_tx env adminId ip i reason s =
      (Inr (b', p\<lparr>p_refundStatus := Rf_pending\<rparr>, b_refundStatus b = Rf_failed), t)"
    "b_status b' = B_cancelled" "b_refundStatus b' = Rf_pending" "by_key bookings_table i t = Some b'"
    "length (t_audit_logs t) = Suc (length (t_audit_logs s))"
    by (rule refund_started[OF assms(1-3) _ assms(4) _ assms(5)]) (use True in auto)
  moreover have "refundBooking env (Some g) otherAdmin otherIp i otherReason t = (Inl (App CONFLICT), t)"
    using refund_refused[OF run(4)] run(3) by simp
  ultimately show ?thesis unfolding if_P[OF True] by blast
next
  case False
  then have "b_refundStatus b = Rf_pending \<or> b_refundStatus b = Rf_processed \<or>
      (\<exists>p. by_key payments_table (b_paymentId b) s = Some p \<and> p_status p \<noteq> P_captured)"
    using assms(4) by (cases "b_refundStatus b") auto
  then show ?thesis unfolding if_not_P[OF False] by (rule refund_refused[OF assms(3)])
qed

text \<open>A booking whose refund failed: the retry is accepted, a request after it is refused.\<close>

definition failed_refund_db :: db where
  "failed_refund_db = (paid_db P_captured)\<lparr>
    t_payments := [(sample_row P_captured)\<lparr>p_refundStatus := Rf_failed\<rparr>],
    t_bookings := [sample_booking\<lparr>b_status := B_cancelled, b_cancelReason := Some Admin_refund,
      b_cancelledAt := Some 0, b_refundStatus := Rf_failed\<rparr>]\<rparr>"

theorem refund_not_started_twice_witness:
  "\<exists>b' p' t. refund_booking_tx sample_env 9 ''1.2.3.4'' 3001 ''again'' failed_refund_db = (Inr (b', p', True), t) \<and>
    b_refundStatus b' = Rf_pending \<and>
    refundBooking sample_env (Some sample_gateway) 9 ''1.2.3.4'' 3001 ''again'' t = (Inl (App CONFLICT), t)"
proof -
  let ?b = "sample_booking\<lparr>b_status := B_cancelled, b_cancelReason := Some Admin_refund,
      b_cancelledAt := Some 0, b_refundStatus := Rf_failed\<rparr>"
  let ?p = "(sample_row P_captured)\<lparr>p_refundStatus := Rf_failed\<rparr>"
  have "table_ok bookings_table failed_refund_db" "table_ok payments_table failed_refund_db"
    by (simp_all add: failed_refund_db_def paid_db_def shop_db_def empty_db_def table_ok_def conflicts_def
        sample_booking_def booking_ok_def sample_row_def payment_ok_def INT4_MAX_def)
  moreover have "by_key bookings_table 3001 failed_refund_db = Some ?b"
    "by_key payments_table (b_paymentId ?b) failed_refund_db = Some ?p"
    "b_refundStatus ?b = Rf_failed" "p_status ?p = P_captured"
    by (simp_all add: failed_refund_db_def by_key_def find_row_def sample_booking_def sample_row_def)
  moreover have "t_audit_logs failed_refund_db = []"
    by (simp add: failed_refund_db_def paid_db_def shop_db_def empty_db_def)
  ultimately show ?thesis
    using refund_not_started_twice[of failed_refund_db 3001 ?b ?p sample_env 9 "''1.2.3.4''" "''again''"
        sample_gateway 9 "''1.2.3.4''" "''again''"]
    by auto
qed

section \<open>Results of refunds\<close>

text \<open>
  A refund that is recorded as processed is final: later refund webhooks for the payment, in any
  order, change nothing; a failed one is not reopened by a late "pending" event.
\<close>

theorem refund_result_is_final:
  assumes "find_row payments_table (\<lambda>p. p_razorpayPaymentId p = zr_payment_id refund) s = Some p"
    and "p_refundStatus p = Rf_processed \<or> p_refundStatus p = Rf_failed \<and> zr_status refund = Zr_pending"
  shows "onRefundWebhook env refund s = (Inr (), s)"
  using assms by (auto simp: onRefundWebhook_def run_simps Let_def)

theorem refund_result_is_final_witness:
  "onRefundWebhook sample_env \<lparr>zr_id = ''r'', zr_payment_id = ''pay_1'', zr_amount = 5, zr_status = Zr_failed\<rparr>
     (empty_db\<lparr>t_payments := [(sample_row P_refunded)\<lparr>p_refundStatus := Rf_processed\<rparr>]\<rparr>)
   = (Inr (), empty_db\<lparr>t_payments := [(sample_row P_refunded)\<lparr>p_refundStatus := Rf_processed\<rparr>]\<rparr>)"
  using refund_result_is_final[of "\<lparr>zr_id = ''r'', zr_payment_id = ''pay_1'', zr_amount = 5, zr_status = Zr_failed\<rparr>"
      "empty_db\<lparr>t_payments := [(sample_row P_refunded)\<lparr>p_refundStatus := Rf_processed\<rparr>]\<rparr>"
      "(sample_row P_refunded)\<lparr>p_refundStatus := Rf_processed\<rparr>" sample_env]
  by (simp add: find_row_def sample_row_def)

section \<open>The list of bookings\<close>

interpretation booking_list: keyset_list booking_stamp "\<lambda>rows. distinct (map b_id rows)"
proof
  show "distinct (map booking_stamp rows)" if "distinct (map b_id rows)" for rows
    using distinct_stamp[OF that, of b_createdAt] by (simp add: booking_stamp_def[abs_def])
qed

text \<open>A client that follows the cursors of \<open>listBookings\<close>, at most \<open>n\<close> pages.\<close>

fun walk_bookings :: "nat \<Rightarrow> uuid \<Rightarrow> cursor option \<Rightarrow> db \<Rightarrow> event_booking list" where
  "walk_bookings 0 userId c s = []"
| "walk_bookings (Suc n) userId c s =
    (case listBookings userId c None s of
       (page, None) \<Rightarrow> page
     | (page, Some k) \<Rightarrow> page @ walk_bookings n userId (Some k) s)"

lemma walk_bookings_pages:
  "walk_bookings n userId c s =
    walk_pages n booking_stamp c BOOKINGS_PAGE_SIZE (rows_where bookings_table (\<lambda>b. b_userId b = userId) s)"
  by (induction n arbitrary: c) (auto simp: listBookings_def split: prod.split option.split)

text \<open>
  Following the cursors of the booking list gives every booking of the member exactly once, newest
  first, however many pages it takes.
\<close>

theorem bookings_listed_once:
  assumes "table_ok bookings_table s" "length (t_bookings s) < n"
  shows "distinct (walk_bookings n userId None s) \<and>
    set (walk_bookings n userId None s) = {b \<in> set (t_bookings s). b_userId b = userId} \<and>
    sorted_wrt (\<lambda>a b. booking_stamp b < booking_stamp a) (walk_bookings n userId None s)"
proof -
  let ?rows = "rows_where bookings_table (\<lambda>b. b_userId b = userId) s"
  have ids: "distinct (map b_id ?rows)"
    using assms(1) by (auto simp: table_ok_def rows_where_def distinct_map intro: inj_on_subset)
  have "length ?rows < n" using assms(2) by (auto simp: rows_where_def intro: le_less_trans[OF length_filter_le])
  then have walk: "walk_bookings n userId None s = sort_desc booking_stamp ?rows"
    unfolding walk_bookings_pages by (intro booking_list.walk_all ids) (simp_all add: limits)
  have "distinct ?rows" using ids by (simp add: distinct_map)
  then show ?thesis
    using booking_list.strictly_sorted[OF ids] by (auto simp: walk sort_desc_def rows_where_def)
qed

theorem bookings_listed_once_witness:
  "walk_bookings 2 1 None (paid_db P_captured) = [sample_booking]"
proof -
  have "table_ok bookings_table (paid_db P_captured)"
    by (simp add: paid_db_def shop_db_def empty_db_def table_ok_def conflicts_def sample_booking_def booking_ok_def)
  moreover have "t_bookings (paid_db P_captured) = [sample_booking]" by (simp add: paid_db_def)
  moreover have user: "b_userId sample_booking = 1" by (simp add: sample_booking_def)
  ultimately have walk: "set (walk_bookings 2 1 None (paid_db P_captured)) = {sample_booking}"
    "distinct (walk_bookings 2 1 None (paid_db P_captured))"
    using bookings_listed_once[of "paid_db P_captured" 2 1] user by auto
  have "length (walk_bookings 2 1 None (paid_db P_captured)) = 1"
    using distinct_card[OF walk(2)] walk(1) by simp
  then obtain b where "walk_bookings 2 1 None (paid_db P_captured) = [b]" by (auto simp: length_Suc_conv)
  with walk(1) show ?thesis by simp
qed

section \<open>Expiry of orders\<close>






end
