(* ===== verification/Payments_Requests.thy ===== *)
theory Payments_Requests
  imports Payments_Samples
begin

text \<open>
  What the requests of the payments service promise: signatures, the checkout callback, webhooks,
  refunds by an administrator, the list of bookings and the expiry job.
\<close>

section \<open>Signatures\<close>

text \<open>
  With an HMAC that gives 64 lower-case hex digits, the adapter accepts exactly the signature the
  gateway computes with the shared secret: of \<open>orderId|paymentId\<close> for a checkout, of the raw body for a
  webhook, where a missing header is refused.
\<close>

theorem signature_accepted_iff:
  assumes "\<And>k v. is_hex64 (hmac k v)"
  shows "gw_verifyPaymentSignature (createRazorpayGateway hmac http keyId keySecret webhookSecret) orderId paymentId sig =
      Inr (sig = hmac keySecret (orderId @ ''|'' @ paymentId)) \<and>
    gw_verifyWebhookSignature (createRazorpayGateway hmac http keyId keySecret webhookSecret) rawBody header =
      Inr (header = Some (hmac webhookSecret rawBody))"
  using assms
  by (auto simp: createRazorpayGateway_def signCheckout_def signWebhookBody_def sameHex_iff split: option.split)

lemma sample_hmac_hex: "is_hex64 (sample_hmac k v)"
  by code_simp

theorem signature_accepted_iff_witness:
  "gw_verifyPaymentSignature sample_gateway ''order_1'' ''pay_1'' (replicate 64 (CHR ''a'')) = Inr True \<and>
   gw_verifyPaymentSignature sample_gateway ''order_1'' ''pay_1'' ''a'' = Inr False \<and>
   gw_verifyWebhookSignature sample_gateway ''{}'' None = Inr False"
  using signature_accepted_iff[where hmac = sample_hmac and http = sample_http and keyId = "''key''"
      and keySecret = "''s''" and webhookSecret = "''w''" and orderId = "''order_1''" and paymentId = "''pay_1''"
      and sig = "replicate 64 (CHR ''a'')" and rawBody = "''{}''" and header = None, OF sample_hmac_hex]
    signature_accepted_iff[where hmac = sample_hmac and http = sample_http and keyId = "''key''"
      and keySecret = "''s''" and webhookSecret = "''w''" and orderId = "''order_1''" and paymentId = "''pay_1''"
      and sig = "''a''", OF sample_hmac_hex]
  by (auto simp: sample_gateway_def sample_hmac_def dest: arg_cong[where f = length])

section \<open>The checkout callback\<close>

definition order_of :: "uuid \<Rightarrow> uuid \<Rightarrow> db \<Rightarrow> order option" where
  "order_of userId orderId s = find_row orders_table (\<lambda>q. o_id q = orderId \<and> o_userId q = userId) s"

text \<open>
  C8. A checkout is confirmed only for the member's own order, with the gateway order it was made
  with, a valid signature, and a payment that the gateway itself reports for that gateway order.
  Another order id or a bad signature is refused and nothing is written.
\<close>

theorem verify_checks_the_payment:
  assumes run: "verify env (Some g) userId orderId rOrderId rPaymentId sig s = (r, t)"
  shows "(\<forall>x. r = Inr x \<longrightarrow> (\<exists>q z. order_of userId orderId s = Some q \<and> o_razorpayOrderId q = Some rOrderId \<and>
      gw_verifyPaymentSignature g rOrderId rPaymentId sig = Inr True \<and>
      gw_fetchPayment g (length (gateway_log s)) rPaymentId = Inr z \<and> zp_order_id z = Some rOrderId)) \<and>
    (order_of userId orderId s = None \<longrightarrow> r = Inl (App NOT_FOUND) \<and> t = s) \<and>
    (\<forall>q. order_of userId orderId s = Some q \<longrightarrow> o_razorpayOrderId q \<noteq> Some rOrderId \<or>
      gw_verifyPaymentSignature g rOrderId rPaymentId sig = Inr False \<longrightarrow>
      r = Inl (App PAYMENT_VERIFICATION_FAILED) \<and> t = s)"
proof (intro conjI allI impI)
  fix x
  assume "r = Inr x"
  with run show "\<exists>q z. order_of userId orderId s = Some q \<and> o_razorpayOrderId q = Some rOrderId \<and>
      gw_verifyPaymentSignature g rOrderId rPaymentId sig = Inr True \<and>
      gw_fetchPayment g (length (gateway_log s)) rPaymentId = Inr z \<and> zp_order_id z = Some rOrderId"
    unfolding verify_def requireGateway_def order_of_def
    by (auto simp: andThen_Inr_iff simple_Inr_iff gateway_call_def)
next
  assume "order_of userId orderId s = None"
  then have "verify env (Some g) userId orderId rOrderId rPaymentId sig s = (Inl (App NOT_FOUND), s)"
    by (simp add: verify_def requireGateway_def run_simps order_of_def)
  with run show "r = Inl (App NOT_FOUND)" "t = s" by auto
next
  fix q
  assume "order_of userId orderId s = Some q"
    "o_razorpayOrderId q \<noteq> Some rOrderId \<or> gw_verifyPaymentSignature g rOrderId rPaymentId sig = Inr False"
  then have "verify env (Some g) userId orderId rOrderId rPaymentId sig s = (Inl (App PAYMENT_VERIFICATION_FAILED), s)"
    by (auto simp: verify_def requireGateway_def run_simps order_of_def)
  with run show "r = Inl (App PAYMENT_VERIFICATION_FAILED)" "t = s" by auto
qed

theorem verify_checks_the_payment_witness:
  "verify sample_env (Some sample_gateway) 1 1001 ''order_1'' ''pay_1'' ''forged'' shop_attached =
    (Inl (App PAYMENT_VERIFICATION_FAILED), shop_attached)"
proof -
  have "order_of 1 1001 shop_attached = Some sample_order"
    by (simp add: order_of_def find_row_def shop_attached_orders) (simp add: sample_order_def)
  moreover have "gw_verifyPaymentSignature sample_gateway ''order_1'' ''pay_1'' ''forged'' = Inr False"
    by code_simp
  ultimately show ?thesis
    using verify_checks_the_payment[OF surjective_pairing, of sample_env sample_gateway 1 1001 "''order_1''" "''pay_1''"
        "''forged''" shop_attached]
    by (simp add: prod_eq_iff)
qed

section \<open>Webhooks\<close>

lemma finalize_webhooks: "leaves t_webhooks (finalize env gw z)"
proof -
  have n: "leaves t_webhooks (notifyBooking env b k)" for b k
    unfolding notifyBooking_def by (intro notify_leaves) (simp add: ignores_notifications_def)
  have refund: "leaves t_webhooks (startRefund env gw p b)" for p b
    unfolding startRefund_def applyRefund_def notify_refunded_def requireGateway_def Let_def
    by (intro leaves_rules n) simp_all
  have after: "leaves t_webhooks (after_finalize env gw outcome)" for outcome
    by (auto simp: after_finalize_def intro!: leaves_rules n refund split: finalize_outcome.split)
  show ?thesis
    unfolding finalize_def captured_state_def finalize_tx_def record_payment_def settle_payment_def
      book_order_def requireGateway_def Let_def
    by (intro leaves_rules after) simp_all
qed

lemma dispatch_webhooks: "leaves t_webhooks (dispatch_webhook env gw event body)"
proof -
  have n: "leaves t_webhooks (notifyBooking env b k)" for b k
    unfolding notifyBooking_def by (intro notify_leaves) (simp add: ignores_notifications_def)
  have "leaves t_webhooks (onRefundWebhook env refund)" for refund
    unfolding onRefundWebhook_def applyRefund_def notify_refunded_def Let_def
    by (intro leaves_rules n) simp_all
  then show ?thesis
    unfolding dispatch_webhook_def by (intro leaves_rules finalize_webhooks)
qed

definition webhook_id :: "env \<Rightarrow> string \<Rightarrow> string option \<Rightarrow> string" where
  "webhook_id env rawBody header = take 64 (case header of None \<Rightarrow> sha256Hex env rawBody | Some h \<Rightarrow> h)"

text \<open>
  A signed webhook whose event was processed before is acknowledged as a duplicate and changes nothing;
  an unsigned one is refused and changes nothing.
\<close>

theorem duplicate_webhook_ignored:
  assumes "gw_verifyWebhookSignature g rawBody sig = Inr signed" "parse rawBody = Some body"
    "webhook_event (webhook_id env rawBody header) s = Some w" "w_processedAt w \<noteq> None"
  shows "handleWebhook env (Some g) parse rawBody sig header s =
    (if signed then Inr True else Inl (App UNAUTHENTICATED), s)"
  using assms
  by (simp add: handleWebhook_def requireGateway_def run_simps find_or_create_webhook_def webhook_id_def Let_def)

definition sample_webhook :: payment_webhook_event where
  "sample_webhook = \<lparr>w_eventId = ''e1'', w_event = ''payment.captured'', w_razorpayPaymentId = None,
    w_razorpayOrderId = None, w_receivedAt = 0, w_processedAt = Some 0\<rparr>"

definition no_body :: webhook_body where
  "no_body = \<lparr>wb_event = None, wb_payment = None, wb_refund = None\<rparr>"

theorem duplicate_webhook_ignored_witness:
  "handleWebhook sample_env (Some sample_gateway) (\<lambda>_. Some no_body) ''{}'' (Some (replicate 64 (CHR ''a''))) (Some ''e1'')
     (empty_db\<lparr>t_webhooks := [sample_webhook]\<rparr>) = (Inr True, empty_db\<lparr>t_webhooks := [sample_webhook]\<rparr>)"
proof -
  have "gw_verifyWebhookSignature sample_gateway ''{}'' (Some (replicate 64 (CHR ''a''))) = Inr True"
    by code_simp
  from duplicate_webhook_ignored[OF this, of "\<lambda>_. Some no_body" no_body sample_env "Some ''e1''"
      "empty_db\<lparr>t_webhooks := [sample_webhook]\<rparr>" sample_webhook]
  show ?thesis by (simp add: webhook_event_def webhook_id_def sample_webhook_def)
qed

text \<open>
  C11. An event is marked processed only when its work succeeded: if the handler fails, the processed
  events are the ones that were processed before, so the gateway's redelivery runs the work again.
\<close>

theorem failed_webhook_stays_open:
  assumes run: "handleWebhook env gw parse rawBody sig header s = (Inl e, t)"
  shows "filter (\<lambda>w. w_processedAt w \<noteq> None) (t_webhooks t) = filter (\<lambda>w. w_processedAt w \<noteq> None) (t_webhooks s)"
proof -
  define processed :: "db \<Rightarrow> payment_webhook_event list" where "processed u = filter (\<lambda>w. w_processedAt w \<noteq> None) (t_webhooks u)" for u
  have "processed t = processed s"
  proof (cases "\<exists>g body. gw = Some g \<and> gw_verifyWebhookSignature g rawBody sig = Inr True \<and> parse rawBody = Some body")
    case False
    then show ?thesis
      using run
      by (auto simp: handleWebhook_def requireGateway_def run_simps split: option.splits sum.splits if_splits)
  next
    case True
    then obtain g body where g: "gw = Some g" "gw_verifyWebhookSignature g rawBody sig = Inr True"
      "parse rawBody = Some body" by blast
    define event where "event = (case wb_event body of None \<Rightarrow> ''unknown'' | Some e \<Rightarrow> take 60 e)"
    define w where "w = \<lparr>w_eventId = take 64 (case header of None \<Rightarrow> sha256Hex env rawBody | Some h \<Rightarrow> h),
      w_event = event,
      w_razorpayPaymentId = or_else (map_option zp_id (wb_payment body)) (map_option zr_payment_id (wb_refund body)),
      w_razorpayOrderId = Option.bind (wb_payment body) zp_order_id,
      w_receivedAt = clock s, w_processedAt = None\<rparr>"
    have w: "w_processedAt w = None" by (simp add: w_def)
    have "handleWebhook env gw parse rawBody sig header s =
      andThen (find_or_create_webhook w) (\<lambda>record.
       if w_processedAt record \<noteq> None then ret True
       else andThen (dispatch_webhook env gw event body) (\<lambda>_.
            andThen (mark_webhook_processed (w_eventId w)) (\<lambda>_. ret False))) s"
      unfolding w_def event_def g(1) payment_webhook_event.select_convs
      by (simp add: handleWebhook_def requireGateway_def run_simps g(2,3) Let_def)
    then have run: "andThen (find_or_create_webhook w) (\<lambda>record.
       if w_processedAt record \<noteq> None then ret True
       else andThen (dispatch_webhook env gw event body) (\<lambda>_.
            andThen (mark_webhook_processed (w_eventId w)) (\<lambda>_. ret False))) s = (Inl e, t)"
      using run by simp
    have found: "leaves processed (find_or_create_webhook w)"
      unfolding find_or_create_webhook_def
      by (intro leaves_rules leaves_modify) (simp add: processed_def w)
    have dispatch: "leaves processed (dispatch_webhook env gw event body)"
      using dispatch_webhooks[of env gw event body] by (simp add: leaves_def processed_def)
    from run show ?thesis
      by (auto simp: andThen_def ret_def mark_webhook_processed_def run_simps
          split: prod.splits sum.splits if_splits
          dest!: leavesD[OF found] leavesD[OF dispatch])
  qed
  then show ?thesis by (simp add: processed_def)
qed

theorem failed_webhook_stays_open_witness:
  "filter (\<lambda>w. w_processedAt w \<noteq> None) (t_webhooks (snd (handleWebhook sample_env None (\<lambda>_. None) ''{}'' None None
     (empty_db\<lparr>t_webhooks := [sample_webhook]\<rparr>)))) = [sample_webhook]"
proof -
  let ?s = "empty_db\<lparr>t_webhooks := [sample_webhook]\<rparr>"
  have "handleWebhook sample_env None (\<lambda>_. None) ''{}'' None None ?s = (Inl (App PAYMENTS_UNAVAILABLE), ?s)"
    by (simp add: handleWebhook_def requireGateway_def run_simps)
  from failed_webhook_stays_open[OF this] show ?thesis by (simp add: \<open>handleWebhook _ _ _ _ _ _ _ = _\<close>) (simp add: sample_webhook_def)
qed

end
