(* ===== verification/Payments_Theorems.thy ===== *)
theory Payments_Theorems
  imports Payments_Samples
begin

text \<open>The properties of the pass shop, each with a concrete instance.\<close>

section \<open>No event is oversold\<close>

text \<open>
  C1. In every state that any interleaving of requests, webhooks, job runs and administrator
  changes can reach, the confirmed passes and the live reservations of an event fit its capacity.
\<close>

theorem passes_never_oversold:
  assumes "shop_start s" "(pass_step env)\<^sup>*\<^sup>* s t" "e \<in> set (t_events t)" "ev_passCapacity e = Some c"
  shows "sold_seats (ev_id e) (t_bookings t) + reserved_seats (ev_id e) (clock t) 0 (t_orders t) \<le> c"
  using shop.reachable_inv[OF assms(1,2)] assms(3,4) by (auto simp: seat_inv_def capacity_kept_def)

theorem passes_never_oversold_witness:
  "reserved_seats 7 0 0 [new_order 1001 1 7 5 2 50000 0] = 2 \<and>
   sold_seats 7 [] + reserved_seats 7 0 0 [new_order 1001 1 7 5 2 50000 0] \<le> 2"
proof
  show "reserved_seats 7 0 0 [new_order 1001 1 7 5 2 50000 0] = 2" by code_simp
  show "sold_seats 7 [] + reserved_seats 7 0 0 [new_order 1001 1 7 5 2 50000 0] \<le> 2"
    using passes_never_oversold[OF shop_db_start shop_ordered_reached, of sample_event 2]
    by (simp add: shop_ordered_orders) (simp add: sample_event_def)
qed

section \<open>The methods of the service are runs of the shop\<close>

text \<open>
  C5. Each method of the payments service, run to its end, does to the state what a sequence of
  shop steps does: so whatever holds in all reachable states holds while requests, webhooks and
  jobs run.
\<close>

theorem payment_methods_are_steps:
  "(pass_step env)\<^sup>*\<^sup>* s (snd (createOrder gw userId eventId quantity key s)) \<and>
   (pass_step env)\<^sup>*\<^sup>* s (snd (verify env gw userId orderId rOrderId rPaymentId signature s)) \<and>
   (pass_step env)\<^sup>*\<^sup>* s (snd (handleWebhook env gw parse rawBody sig eventIdHeader s)) \<and>
   (pass_step env)\<^sup>*\<^sup>* s (snd (refundBooking env gw adminId ip bookingId reason s)) \<and>
   (pass_step env)\<^sup>*\<^sup>* s (snd (expireOrders env gw t s))"
  by (intro conjI method_steps[OF keeps_createOrder surjective_pairing]
      method_steps[OF keeps_verify surjective_pairing]
      method_steps[OF keeps_handleWebhook surjective_pairing]
      method_steps[OF keeps_refundBooking surjective_pairing]
      method_steps[OF keeps_expireOrders surjective_pairing])

section \<open>Orders\<close>

text \<open>
  C6. A new order costs the event's price times the quantity, is made only while passes are on
  sale and fit the capacity, lives 15 minutes, and is the only live order of this member for the
  event: the older ones are released first.
\<close>

theorem new_order_correct:
  assumes "create_order_tx userId eventId quantity key s = (Inr (q, e), t)"
  shows "by_key events_table eventId s = Some e \<and> passesOnSale e (clock s) \<and>
    ev_passPricePaise e = Some (o_unitPricePaise q) \<and>
    o_amountPaise q = o_unitPricePaise q * quantity \<and>
    o_expiresAt q = clock s + 15 * 60 * 1000 \<and>
    filter (\<lambda>r. o_userId r = userId \<and> o_eventId r = ev_id e \<and> o_status r = O_created) (t_orders t) = [q] \<and>
    (\<forall>c. ev_passCapacity e = Some c \<longrightarrow>
      sold_seats (ev_id e) (t_bookings t) + reserved_seats (ev_id e) (clock t) 0 (t_orders t) \<le> c)"
proof -
  from assms[unfolded create_order_tx_iff] obtain price s1 where
    e: "by_key events_table eventId s = Some e" "passesOnSale e (clock s)" "ev_passPricePaise e = Some price" and
    expire: "update_rows orders_table (\<lambda>q. o_userId q = userId \<and> o_eventId q = ev_id e \<and> o_status q = O_created)
        (\<lambda>q. q\<lparr>o_status := O_expired\<rparr>) s = (Inr (), s1)" and
    fits: "case ev_passCapacity e of None \<Rightarrow> True | Some c \<Rightarrow>
         sold_seats (ev_id e) (t_bookings s1) + reserved_seats (ev_id e) (clock s) 0 (t_orders s1) + quantity \<le> c" and
    q: "q = new_order (Suc (rng s1 (drawn s1))) userId (ev_id e) key quantity price (clock s)" and
    new: "insert_row orders_table q (s1\<lparr>drawn := Suc (drawn s1)\<rparr>) = (Inr (), t)" by blast
  let ?mine = "\<lambda>q. o_userId q = userId \<and> o_eventId q = ev_id e \<and> o_status q = O_created"
  have s1: "s1 = s\<lparr>t_orders := update_where ?mine (\<lambda>q. q\<lparr>o_status := O_expired\<rparr>) (t_orders s)\<rparr>"
    using expire by (simp only: update_rows_Inr_iff orders_table_simps)
  have t: "t = s1\<lparr>drawn := Suc (drawn s1), t_orders := t_orders s1 @ [q]\<rparr>"
    using new by (simp add: insert_row_Inr_iff)
  have "filter ?mine (t_orders s1) = []"
    by (simp add: s1 filter_update_where)
  then have live: "filter ?mine (t_orders t) = [q]" by (simp add: t q new_order_def)
  have "sold_seats (ev_id e) (t_bookings t) + reserved_seats (ev_id e) (clock t) 0 (t_orders t) \<le> c"
    if "ev_passCapacity e = Some c" for c
    using fits that by (simp add: t q new_order_def s1 limits)
  with e live show ?thesis by (simp add: q new_order_def limits)
qed

theorem new_order_correct_witness:
  "o_amountPaise (new_order 1001 1 7 5 2 50000 0) = 100000 \<and>
   o_expiresAt (new_order 1001 1 7 5 2 50000 0) = clock shop_db + 15 * 60 * 1000"
proof -
  have "create_order_tx 1 7 2 5 shop_db = (Inr (new_order 1001 1 7 5 2 50000 0, sample_event), shop_ordered)"
    unfolding shop_ordered_def by (rule prod_eqI) (code_simp, simp)
  from new_order_correct[OF this] show ?thesis by (simp add: new_order_def)
qed

text \<open>A request with a key that was used before makes no order.\<close>

definition order_ids :: "db \<Rightarrow> uuid list" where
  "order_ids s = map o_id (t_orders s)"

lemma order_ids_update [leaves_rules]:
  "(\<And>q. o_id (f q) = o_id q) \<Longrightarrow> leaves order_ids (update_rows orders_table P f)"
  by (rule leavesI) (auto simp: update_rows_def Let_def order_ids_def map_update_where split: if_splits)

lemma order_ids_save [leaves_rules]:
  "(\<And>q. o_id (apply_settings cs q' q) = o_id q) \<Longrightarrow> leaves order_ids (save orders_table cs q')"
  unfolding save_def by (intro leaves_rules)

lemma attach_ids: "leaves order_ids (attachRazorpayOrder gw q)"
  unfolding attachRazorpayOrder_def requireGateway_def
  by (intro leaves_rules) (simp_all add: setting_def order_ids_def)

lemma attach_same_order: "attachRazorpayOrder gw q s = (Inr q', t) \<Longrightarrow> o_id q' = o_id q"
  by (auto simp: attachRazorpayOrder_def tryCatch_def returns_iff andThen_def throw_def ret_def
      save_def setting_def split: sum.splits prod.splits)

text \<open>
  C7. Sending a request again with the same idempotency key never makes a second order: a repeat
  returns the order of the first request, and a key used for another event or quantity is refused
  with \<open>IDEMPOTENCY_CONFLICT\<close> and nothing is written.
\<close>

theorem create_order_idempotent:
  assumes "order_by_key userId key s = Some q" "createOrder (Some g) userId eventId quantity key s = (r, t)"
  shows "map o_id (t_orders t) = map o_id (t_orders s) \<and>
    (o_eventId q \<noteq> eventId \<or> o_quantity q \<noteq> quantity \<longrightarrow> r = Inl (App IDEMPOTENCY_CONFLICT) \<and> t = s) \<and>
    (\<forall>x. r = Inr x \<longrightarrow> \<not> co_created x \<and> o_id (od_order (co_order x)) = o_id q)"
proof (cases "o_eventId q = eventId \<and> o_quantity q = quantity")
  case False
  then have "createOrder (Some g) userId eventId quantity key s = (Inl (App IDEMPOTENCY_CONFLICT), s)"
    using assms(1) by (auto simp: createOrder_def requireGateway_def find_or_create_order_def run_simps)
  with False assms(2) show ?thesis by auto
next
  case True
  let ?rest = "\<lambda>e q'. andThen (ensure (o_status q' \<noteq> O_failed) (App PAYMENT_PROVIDER_ERROR)) (\<lambda>_.
        andThen (ensure (truthy (o_razorpayOrderId q')) (App ORDER_EXPIRED)) (\<lambda>_.
        andThen (gets (last_failed (o_id q'))) (\<lambda>lastFailed.
        andThen (gets (booking_of_order (o_id q'))) (\<lambda>b.
        andThen (from_sum (toOrderDto q' (Some e) lastFailed (map_option b_id b))) (\<lambda>dto.
        ret \<lparr>co_created = False, co_order = dto, co_keyId = gw_keyId g,
          co_razorpayOrderId = the (o_razorpayOrderId q'), co_amountPaise = o_amountPaise q'\<rparr>)))))"
  let ?attach = "if o_status q = O_created \<and> \<not> truthy (o_razorpayOrderId q)
      then attachRazorpayOrder (Some g) q else ret q"
  have run: "createOrder (Some g) userId eventId quantity key s =
    (case by_key events_table (o_eventId q) s of
       None \<Rightarrow> (Inl (App NOT_FOUND), s)
     | Some e \<Rightarrow> andThen ?attach (?rest e) s)"
    using assms(1) True
    by (simp add: createOrder_def requireGateway_def find_or_create_order_def event_of_order_def run_simps
        andThen_def[of "gets _"] split: option.split)
  show ?thesis
  proof (cases "by_key events_table (o_eventId q) s")
    case None
    with run assms(2) True show ?thesis by auto
  next
    case (Some e)
    then have run: "andThen ?attach (?rest e) s = (r, t)" using run assms(2) by simp
    have "leaves order_ids (andThen ?attach (?rest e))"
      by (intro leaves_rules attach_ids)
    from leavesD[OF this run] have ids: "map o_id (t_orders t) = map o_id (t_orders s)"
      by (simp add: order_ids_def)
    have "\<not> co_created x \<and> o_id (od_order (co_order x)) = o_id q" if x: "r = Inr x" for x
    proof -
      obtain q' s' where a: "?attach s = (Inr q', s')" and rest: "?rest e q' s' = (Inr x, t)"
        using run unfolding x by (rule andThen_Inr_E)
      have "o_id q' = o_id q"
        using a attach_same_order by (auto simp: ret_def split: if_splits)
      with rest show ?thesis by (auto simp: returns_iff toOrderDto_def)
    qed
    with ids True show ?thesis by blast
  qed
qed

theorem create_order_idempotent_witness:
  "map o_id (t_orders (snd (createOrder (Some sample_gateway) 1 7 2 5 shop_attached))) = [1001] \<and>
   createOrder (Some sample_gateway) 1 7 1 5 shop_attached = (Inl (App IDEMPOTENCY_CONFLICT), shop_attached)"
proof -
  have known: "order_by_key 1 5 shop_attached = Some sample_order"
    by (simp add: order_by_key_def find_row_def shop_attached_orders)
      (simp add: sample_order_def)
  show ?thesis
    using create_order_idempotent[OF known surjective_pairing, of sample_gateway 7 2]
      create_order_idempotent[OF known surjective_pairing, of sample_gateway 7 1]
    by (auto simp: shop_attached_orders sample_order_def intro: prod_eqI)
qed

section \<open>Paid orders and bookings\<close>

text \<open>
  C2. In every reachable state an order is paid exactly when it has a booking, it has at most one,
  and the booking is for the member, event, quantity and amount of the order.
\<close>

theorem paid_iff_booked:
  assumes "shop_start s" "(pass_step env)\<^sup>*\<^sup>* s t" "q \<in> set (t_orders t)"
  shows "(o_status q = O_paid \<longleftrightarrow> (\<exists>b \<in> set (t_bookings t). b_orderId b = o_id q)) \<and>
    (\<forall>b \<in> set (t_bookings t). \<forall>b' \<in> set (t_bookings t).
       b_orderId b = o_id q \<and> b_orderId b' = o_id q \<longrightarrow> b = b') \<and>
    (\<forall>b \<in> set (t_bookings t). b_orderId b = o_id q \<longrightarrow> b_userId b = o_userId q \<and>
       b_eventId b = o_eventId q \<and> b_quantity b = o_quantity q \<and> b_amountPaise b = o_amountPaise q)"
proof -
  have inv: "paid_inv t" by (rule ledger.reachable_inv[OF assms(1,2)])
  then have ok: "table_ok orders_table t" "table_ok bookings_table t" by (auto simp: paid_inv_def)
  have "b = b'" if "b \<in> set (t_bookings t)" "b' \<in> set (t_bookings t)" "b_orderId b = o_id q" "b_orderId b' = o_id q" for b b'
    using bookings.clash_eq[OF ok(2), of b b'] that by (simp add: booking_clash_def)
  moreover have "same_purchase b q" if b: "b \<in> set (t_bookings t)" "b_orderId b = o_id q" for b
  proof -
    obtain q' where q': "q' \<in> set (t_orders t)" "same_purchase b q'" using inv b by (auto simp: paid_inv_def)
    then have "q' = q" using orders.key_eq[OF ok(1)] assms(3) b by (simp add: same_purchase_def)
    with q' show ?thesis by simp
  qed
  ultimately show ?thesis using inv assms(3) by (auto simp: paid_inv_def same_purchase_def)
qed

theorem paid_iff_booked_witness:
  "o_status sample_order \<noteq> O_paid \<and> \<not> (\<exists>b \<in> set (t_bookings shop_attached). b_orderId b = 1001)"
proof -
  have q: "sample_order \<in> set (t_orders shop_attached)" by (simp add: shop_attached_orders)
  show ?thesis
    using paid_iff_booked[OF shop_db_start shop_attached_reached q] by (simp add: sample_order_def)
qed

end
