(* ===== verification/Pii_Guards.thy ===== *)
theory Pii_Guards
  imports Regex
begin

text \<open>
  The guard that keeps identity numbers out of storage (\<open>lib/pii-guards.ts\<close>) and its SQL twin
  (\<open>migrations/20260925100400-create-user-verifications.ts\<close>).
\<close>

section \<open>The checksum\<close>

definition D :: "nat list list" where
  "D = [[0, 1, 2, 3, 4, 5, 6, 7, 8, 9],
    [1, 2, 3, 4, 0, 6, 7, 8, 9, 5],
    [2, 3, 4, 0, 1, 7, 8, 9, 5, 6],
    [3, 4, 0, 1, 2, 8, 9, 5, 6, 7],
    [4, 0, 1, 2, 3, 9, 5, 6, 7, 8],
    [5, 9, 8, 7, 6, 0, 4, 3, 2, 1],
    [6, 5, 9, 8, 7, 1, 0, 4, 3, 2],
    [7, 6, 5, 9, 8, 2, 1, 0, 4, 3],
    [8, 7, 6, 5, 9, 3, 2, 1, 0, 4],
    [9, 8, 7, 6, 5, 4, 3, 2, 1, 0]]"

definition P :: "nat list list" where
  "P = [[0, 1, 2, 3, 4, 5, 6, 7, 8, 9],
    [1, 5, 7, 6, 2, 8, 3, 0, 9, 4],
    [5, 8, 0, 3, 7, 9, 6, 1, 4, 2],
    [8, 9, 1, 6, 0, 4, 3, 5, 2, 7],
    [9, 4, 5, 3, 1, 2, 6, 8, 7, 0],
    [4, 2, 8, 6, 5, 7, 3, 9, 0, 1],
    [2, 7, 9, 3, 8, 0, 6, 4, 1, 5],
    [7, 0, 4, 6, 9, 1, 3, 2, 5, 8]]"

text \<open>\<open>lookup\<close> throws outside the table; the callers never leave it.\<close>

definition lookup :: "nat list list \<Rightarrow> nat \<Rightarrow> nat \<Rightarrow> nat" where
  "lookup table row column = table ! row ! column"

definition digit :: "code_unit \<Rightarrow> nat" where "digit c = nat (c - 48)"

text \<open>The body of the loop over the reversed digits.\<close>

fun checksum :: "nat \<Rightarrow> nat \<Rightarrow> nat list \<Rightarrow> nat" where
  "checksum c index [] = c"
| "checksum c index (d # ds) = checksum (lookup D c (lookup P (index mod 8) d)) (Suc index) ds"

definition isVerhoeffValid :: "js_text \<Rightarrow> bool" where
  "isVerhoeffValid digits \<longleftrightarrow> digits \<noteq> [] \<and> list_all is_digit digits \<and> checksum 0 0 (map digit (rev digits)) = 0"

section \<open>Finding numbers in a text\<close>

definition is_alnum :: "code_unit \<Rightarrow> bool" where
  "is_alnum c \<longleftrightarrow> is_digit c \<or> 65 \<le> c \<and> c \<le> 90 \<or> 97 \<le> c \<and> c \<le> 122"

text \<open>\<open>\d{4}\<close> and \<open>[ -]?\<close>, with the rest of the text.\<close>

fun four_digits :: "js_text \<Rightarrow> (js_text \<times> js_text) option" where
  "four_digits (a # b # c # d # s) =
    (if is_digit a \<and> is_digit b \<and> is_digit c \<and> is_digit d then Some ([a, b, c, d], s) else None)"
| "four_digits _ = None"

fun skip_separator :: "js_text \<Rightarrow> js_text" where
  "skip_separator [] = []"
| "skip_separator (c # s) = (if c = 32 \<or> c = 45 then s else c # s)"

text \<open>A match of \<open>AADHAAR_SHAPED\<close> that starts here: its twelve digits and what follows.\<close>

definition shaped_here :: "js_text \<Rightarrow> (js_text \<times> js_text) option" where
  "shaped_here s =
    (case four_digits s of
       None \<Rightarrow> None
     | Some (g1, s1) \<Rightarrow>
         if hd g1 < 50 then None
         else (case four_digits (skip_separator s1) of
             None \<Rightarrow> None
           | Some (g2, s2) \<Rightarrow>
               (case four_digits (skip_separator s2) of
                  None \<Rightarrow> None
                | Some (g3, s3) \<Rightarrow> if s3 \<noteq> [] \<and> is_alnum (hd s3) then None else Some (g1 @ g2 @ g3, s3))))"

lemma four_digits_shorter: "four_digits s = Some (g, t) \<Longrightarrow> length s = length t + 4"
  by (cases s rule: four_digits.cases) (auto split: if_splits)

lemma skip_separator_length: "length (skip_separator s) \<le> length s"
  by (cases s) auto

lemma shaped_here_shorter: "shaped_here s = Some (ds, t) \<Longrightarrow> length t < length s"
  unfolding shaped_here_def
  by (auto split: option.splits if_splits dest!: four_digits_shorter)
    (metis (no_types, lifting) add.commute add_leD1 le_add2 le_trans less_add_same_cancel1 not_less skip_separator_length
      zero_less_numeral add_less_cancel_left le_less_trans)

text \<open>
  \<open>matchAll\<close>: the matches from left to right, none overlapping another; \<open>before\<close> says whether the unit
  before the text is a letter or digit.
\<close>

function shaped_matches :: "bool \<Rightarrow> js_text \<Rightarrow> js_text list" where
  "shaped_matches before s =
    (case s of
       [] \<Rightarrow> []
     | c # s' \<Rightarrow>
         (case (if before then None else shaped_here s) of
            Some (ds, t) \<Rightarrow> ds # shaped_matches True t
          | None \<Rightarrow> shaped_matches (is_alnum c) s'))"
  by pat_completeness auto
termination
  by (relation "measure (\<lambda>(b, s). length s)") (auto dest: shaped_here_shorter split: if_splits)

definition containsAadhaarLikeNumber :: "js_text \<Rightarrow> bool" where
  "containsAadhaarLikeNumber value \<longleftrightarrow> list_ex isVerhoeffValid (shaped_matches False value)"

end
