(* ===== verification/Pii_Theorems.thy ===== *)
theory Pii_Theorems
  imports Pii_Guards
begin

text \<open>Properties of the identity-number guard: its checksum, its SQL twin, and what it finds.\<close>

section \<open>The tables\<close>

text \<open>\<open>D\<close> is the multiplication table of a group on the digits; the rows of \<open>P\<close> are permutations.\<close>

lemma tables:
  "list_all (\<lambda>c. list_all (\<lambda>x. list_all (\<lambda>y. lookup D c x = lookup D c y \<longrightarrow> x = y) [0..<10]) [0..<10]) [0..<10]"
  "list_all (\<lambda>c. list_all (\<lambda>x. list_all (\<lambda>y. lookup D x c = lookup D y c \<longrightarrow> x = y) [0..<10]) [0..<10]) [0..<10]"
  "list_all (\<lambda>c. list_all (\<lambda>x. list_all (\<lambda>y. lookup D (lookup D c x) y = lookup D c (lookup D x y)) [0..<10]) [0..<10]) [0..<10]"
  "list_all (\<lambda>i. list_all (\<lambda>x. list_all (\<lambda>y. lookup P i x = lookup P i y \<longrightarrow> x = y) [0..<10]) [0..<10]) [0..<8]"
  "list_all (\<lambda>i. list_all (\<lambda>x. list_all (\<lambda>y. lookup D (lookup P i x) (lookup P (Suc i mod 8) y) =
      lookup D (lookup P i y) (lookup P (Suc i mod 8) x) \<longrightarrow> x = y) [0..<10]) [0..<10]) [0..<8]"
  "list_all (\<lambda>c. list_all (\<lambda>x. lookup D c x < 10) [0..<10]) [0..<10]"
  "list_all (\<lambda>i. list_all (\<lambda>x. lookup P i x < 10) [0..<10]) [0..<8]"
  by code_simp+

lemmas digit_tables = tables[unfolded list_all_iff set_upt Ball_def atLeastLessThan_iff, simplified]

lemma D_cancel:
  "c < 10 \<Longrightarrow> x < 10 \<Longrightarrow> y < 10 \<Longrightarrow> lookup D c x = lookup D c y \<longleftrightarrow> x = y"
  "c < 10 \<Longrightarrow> x < 10 \<Longrightarrow> y < 10 \<Longrightarrow> lookup D x c = lookup D y c \<longleftrightarrow> x = y"
  using digit_tables(1,2) by blast+

lemma D_assoc: "c < 10 \<Longrightarrow> x < 10 \<Longrightarrow> y < 10 \<Longrightarrow> lookup D (lookup D c x) y = lookup D c (lookup D x y)"
  using digit_tables(3) by simp

lemma D_range [simp]: "c < 10 \<Longrightarrow> x < 10 \<Longrightarrow> lookup D c x < 10"
  using digit_tables(6) by simp

lemma P_range [simp]: "x < 10 \<Longrightarrow> lookup P (i mod 8) x < 10"
  using digit_tables(7) by simp

lemma P_inj: "x < 10 \<Longrightarrow> y < 10 \<Longrightarrow> lookup P (i mod 8) x = lookup P (i mod 8) y \<longleftrightarrow> x = y"
  using digit_tables(4)[rule_format, of "i mod 8"] by auto

lemma P_swap:
  assumes "x < 10" "y < 10"
    "lookup D (lookup P (i mod 8) x) (lookup P (Suc i mod 8) y) = lookup D (lookup P (i mod 8) y) (lookup P (Suc i mod 8) x)"
  shows "x = y"
proof -
  have "Suc i mod 8 = Suc (i mod 8) mod 8" by (simp add: mod_Suc_eq)
  then show ?thesis using digit_tables(5)[rule_format, of "i mod 8" x y] assms by simp
qed

section \<open>The checksum\<close>

abbreviation digits_ok :: "nat list \<Rightarrow> bool" where "digits_ok ds \<equiv> list_all (\<lambda>d. d < 10) ds"

lemma checksum_append: "checksum c i (xs @ ys) = checksum (checksum c i xs) (i + length xs) ys"
  by (induction xs arbitrary: c i) simp_all

lemma checksum_range: "c < 10 \<Longrightarrow> digits_ok ds \<Longrightarrow> checksum c i ds < 10"
  by (induction ds arbitrary: c i) simp_all

text \<open>A difference in the running value is never lost.\<close>

lemma checksum_inj: "c < 10 \<Longrightarrow> c' < 10 \<Longrightarrow> digits_ok ds \<Longrightarrow> checksum c i ds = checksum c' i ds \<longleftrightarrow> c = c'"
  by (induction ds arbitrary: c c' i) (simp_all add: D_cancel)

lemma checksum_substitution:
  assumes "digits_ok (xs @ a # b # ys)" "checksum 0 0 (xs @ a # ys) = checksum 0 0 (xs @ b # ys)"
  shows "a = b"
  using assms by (simp add: checksum_append checksum_inj checksum_range D_cancel P_inj)

lemma checksum_transposition:
  assumes "digits_ok (xs @ a # b # ys)" "checksum 0 0 (xs @ a # b # ys) = checksum 0 0 (xs @ b # a # ys)"
  shows "a = b"
  using assms by (simp add: checksum_append checksum_inj checksum_range D_assoc D_cancel) (metis P_swap)

lemma digit_range: "is_digit c \<Longrightarrow> digit c < 10"
  by (auto simp: is_digit_def digit_def)

lemma digit_inj: "is_digit a \<Longrightarrow> is_digit b \<Longrightarrow> digit a = digit b \<longleftrightarrow> a = b"
  by (auto simp: is_digit_def digit_def)

lemma digits_ok_map: "list_all is_digit s \<Longrightarrow> digits_ok (map digit s)"
  by (auto simp: list_all_iff digit_range)

text \<open>
  C35. The checksum catches every mistyped digit and every two neighbouring digits that were exchanged: no
  number and its mistyped form are both accepted.
\<close>

theorem verhoeff_detects_typos:
  assumes "is_digit a" "is_digit b" "a \<noteq> b"
  shows "\<not> (isVerhoeffValid (xs @ a # ys) \<and> isVerhoeffValid (xs @ b # ys)) \<and>
    \<not> (isVerhoeffValid (xs @ a # b # ys) \<and> isVerhoeffValid (xs @ b # a # ys))"
proof -
  have ab: "digit a \<noteq> digit b" using assms by (simp add: digit_inj)
  have d: "digit a < 10" "digit b < 10" using assms digit_range by blast+
  have ok: "digits_ok (map digit (rev ys))" "digits_ok (map digit (rev xs))" if "list_all is_digit xs" "list_all is_digit ys"
    using that by (simp_all add: digits_ok_map)
  have "checksum 0 0 (map digit (rev ys) @ digit a # map digit (rev xs)) \<noteq> checksum 0 0 (map digit (rev ys) @ digit b # map digit (rev xs))"
    "checksum 0 0 (map digit (rev ys) @ digit b # digit a # map digit (rev xs)) \<noteq>
      checksum 0 0 (map digit (rev ys) @ digit a # digit b # map digit (rev xs))"
    if "list_all is_digit xs" "list_all is_digit ys"
    using checksum_substitution[of "map digit (rev ys)" "digit a" "digit b" "map digit (rev xs)"]
      checksum_transposition[of "map digit (rev ys)" "digit b" "digit a" "map digit (rev xs)"] ok[OF that] d ab by auto
  then show ?thesis by (auto simp: isVerhoeffValid_def)
qed

theorem verhoeff_detects_typos_witness:
  "isVerhoeffValid (units ''234567890124'') \<and> \<not> isVerhoeffValid (units ''235467890124'')"
proof -
  have valid: "isVerhoeffValid (units ''23'' @ 52 # 53 # units ''67890124'')" by code_simp
  have "is_digit 52" "is_digit 53" "(52 :: int) \<noteq> 53" by code_simp+
  from verhoeff_detects_typos[OF this, of "units ''23''" "units ''67890124''"] valid
  have "\<not> isVerhoeffValid (units ''23'' @ 53 # 52 # units ''67890124'')" by blast
  with valid show ?thesis by (simp add: units_def)
qed


section \<open>The numbers found in a text\<close>

text \<open>A number as people write it: three groups of four digits, each gap empty, a blank or a hyphen.\<close>

definition gap :: "js_text \<Rightarrow> bool" where "gap s \<longleftrightarrow> s = [] \<or> s = [32] \<or> s = [45]"

definition group4 :: "js_text \<Rightarrow> bool" where "group4 s \<longleftrightarrow> length s = 4 \<and> list_all is_digit s"

definition starts_alnum :: "js_text \<Rightarrow> bool" where "starts_alnum s \<longleftrightarrow> s \<noteq> [] \<and> is_alnum (hd s)"

definition ends_alnum :: "js_text \<Rightarrow> bool" where "ends_alnum s \<longleftrightarrow> s \<noteq> [] \<and> is_alnum (last s)"

lemma four_digits_group: "group4 g \<Longrightarrow> four_digits (g @ s) = Some (g, s)"
  by (auto simp: group4_def length_Suc_conv numeral_eq_Suc)

lemma skip_gap: "gap p \<Longrightarrow> group4 g \<Longrightarrow> skip_separator (p @ g @ s) = g @ s"
  by (auto simp: gap_def group4_def length_Suc_conv numeral_eq_Suc is_digit_def)

lemma shaped_here_number:
  assumes "group4 g1" "group4 g2" "group4 g3" "gap p1" "gap p2" "50 \<le> hd g1" "\<not> starts_alnum s"
  shows "shaped_here (g1 @ p1 @ g2 @ p2 @ g3 @ s) = Some (g1 @ g2 @ g3, s)"
  using assms by (auto simp: shaped_here_def four_digits_group skip_gap starts_alnum_def)

lemma shaped_here_digit: "shaped_here (c # s) \<noteq> None \<Longrightarrow> is_digit c"
  by (auto simp: shaped_here_def split: option.splits) (cases "c # s" rule: four_digits.cases; auto split: if_splits)+

declare shaped_matches.simps [simp del]

lemma shaped_matches_skip:
  assumes "list_all (\<lambda>c. \<not> is_digit c) pre"
  shows "shaped_matches before (pre @ s) = shaped_matches (if pre = [] then before else is_alnum (last pre)) s"
  using assms
proof (induction pre arbitrary: before)
  case (Cons c pre)
  have "\<not> is_digit c" using Cons.prems by simp
  then have "shaped_here (c # pre @ s) = None" by (rule contrapos_np) (rule shaped_here_digit)
  then have "shaped_matches before ((c # pre) @ s) = shaped_matches (is_alnum c) (pre @ s)"
    by (simp add: shaped_matches.simps[of before])
  with Cons show ?case by simp
qed simp

lemma shaped_matches_here: "shaped_here s = Some (ds, t) \<Longrightarrow> shaped_matches False s = ds # shaped_matches True t"
  by (subst shaped_matches.simps) (cases s; simp add: shaped_here_def)

text \<open>
  A valid number is found wherever it stands in a text, grouped or not, when no digit comes before it
  and no letter or digit touches it.
\<close>

theorem first_number_is_found:
  assumes "group4 g1" "group4 g2" "group4 g3" "gap p1" "gap p2" "50 \<le> hd g1"
    "isVerhoeffValid (g1 @ g2 @ g3)" "list_all (\<lambda>c. \<not> is_digit c) pre" "\<not> ends_alnum pre" "\<not> starts_alnum post"
  shows "containsAadhaarLikeNumber (pre @ g1 @ p1 @ g2 @ p2 @ g3 @ post)"
proof -
  have here: "shaped_here (g1 @ p1 @ g2 @ p2 @ g3 @ post) = Some (g1 @ g2 @ g3, post)"
    by (rule shaped_here_number) (use assms in auto)
  have "shaped_matches False (pre @ g1 @ p1 @ g2 @ p2 @ g3 @ post) = shaped_matches False (g1 @ p1 @ g2 @ p2 @ g3 @ post)"
    using assms(8,9) by (cases "pre = []") (simp_all add: shaped_matches_skip ends_alnum_def)
  also have "\<dots> = (g1 @ g2 @ g3) # shaped_matches True post"
    by (rule shaped_matches_here[OF here])
  finally show ?thesis using assms(7) by (simp add: containsAadhaarLikeNumber_def)
qed

theorem first_number_is_found_witness:
  "containsAadhaarLikeNumber (units ''ref: '' @ units ''2345'' @ [32] @ units ''6789'' @ [45] @ units ''0124'' @ units ''!'')"
  by (rule first_number_is_found) code_simp+

text \<open>
  Matches do not overlap, so a group of four digits before the number hides it: the match takes that group and
  the first eight digits, fails the checksum, and the search goes on behind them.
\<close>

theorem number_after_digits_is_missed:
  "containsAadhaarLikeNumber (units ''2345 6789 0124'') \<and> \<not> containsAadhaarLikeNumber (units ''2024 2345 6789 0124'')"
  by code_simp

section \<open>The SQL twin\<close>

text \<open>\<open>is_verhoeff_valid\<close> of the migration: flat arrays, counted from 1, over the digits from the end.\<close>

definition sql_d :: "nat list" where
  "sql_d = [
    0,1,2,3,4,5,6,7,8,9, 1,2,3,4,0,6,7,8,9,5, 2,3,4,0,1,7,8,9,5,6, 3,4,0,1,2,8,9,5,6,7,
    4,0,1,2,3,9,5,6,7,8, 5,9,8,7,6,0,4,3,2,1, 6,5,9,8,7,1,0,4,3,2, 7,6,5,9,8,2,1,0,4,3,
    8,7,6,5,9,3,2,1,0,4, 9,8,7,6,5,4,3,2,1,0]"

definition sql_p :: "nat list" where
  "sql_p = [
    0,1,2,3,4,5,6,7,8,9, 1,5,7,6,2,8,3,0,9,4, 5,8,0,3,7,9,6,1,4,2, 8,9,1,6,0,4,3,5,2,7,
    9,4,5,3,1,2,6,8,7,0, 4,2,8,6,5,7,3,9,0,1, 2,7,9,3,8,0,6,4,1,5, 7,0,4,6,9,1,3,2,5,8]"

definition at_1 :: "'a list \<Rightarrow> nat \<Rightarrow> 'a" where "at_1 xs i = xs ! (i - 1)"

fun sql_loop :: "js_text \<Rightarrow> nat \<Rightarrow> nat \<Rightarrow> nat \<Rightarrow> nat" where
  "sql_loop digits i 0 c = c"
| "sql_loop digits i (Suc k) c = sql_loop digits (Suc i) k
    (at_1 sql_d (c * 10 + at_1 sql_p ((i mod 8) * 10 + digit (at_1 digits (length digits - i)) + 1) + 1))"

definition sql_is_verhoeff_valid :: "js_text \<Rightarrow> bool" where
  "sql_is_verhoeff_valid digits \<longleftrightarrow> digits \<noteq> [] \<and> list_all is_digit digits \<and> sql_loop digits 0 (length digits) 0 = 0"

lemma flat_tables:
  "list_all (\<lambda>c. list_all (\<lambda>x. at_1 sql_d (c * 10 + x + 1) = lookup D c x) [0..<10]) [0..<10]"
  "list_all (\<lambda>i. list_all (\<lambda>x. at_1 sql_p (i * 10 + x + 1) = lookup P i x) [0..<10]) [0..<8]"
  by code_simp+

lemmas flat = flat_tables[unfolded list_all_iff set_upt Ball_def atLeastLessThan_iff, simplified, rule_format]

lemma sql_loop_checksum:
  assumes "list_all is_digit digits" "i + k = length digits" "c < 10"
  shows "sql_loop digits i k c = checksum c i (drop i (map digit (rev digits)))"
  using assms
proof (induction digits i k c rule: sql_loop.induct)
  case (2 digits i k c)
  have d: "rev digits ! i = at_1 digits (length digits - i)"
    using "2.prems"(2) by (simp add: rev_nth at_1_def)
  have "is_digit (rev digits ! i)"
    using "2.prems"(1,2) by (metis add_Suc_right length_rev less_add_Suc1 list_all_iff nth_mem set_rev)
  then have digit: "digit (rev digits ! i) < 10" by (rule digit_range)
  have p: "at_1 sql_p ((i mod 8) * 10 + digit (at_1 digits (length digits - i)) + 1) = lookup P (i mod 8) (digit (rev digits ! i))"
    using flat(2)[of "i mod 8" "digit (rev digits ! i)"] digit d by simp
  have q: "at_1 sql_d (c * 10 + lookup P (i mod 8) (digit (rev digits ! i)) + 1) = lookup D c (lookup P (i mod 8) (digit (rev digits ! i)))"
    using flat(1) "2.prems"(3) digit by simp
  have "drop i (map digit (rev digits)) = digit (rev digits ! i) # drop (Suc i) (map digit (rev digits))"
    using "2.prems"(2) by (simp add: Cons_nth_drop_Suc[symmetric])
  then show ?case
    unfolding sql_loop.simps p q using "2.IH"[unfolded p q] "2.prems" digit by simp
qed simp

text \<open>
  The check of the database and the check of the program accept the same digit strings.
\<close>

theorem sql_checksum_is_checksum: "sql_is_verhoeff_valid digits \<longleftrightarrow> isVerhoeffValid digits"
  using sql_loop_checksum[of digits 0 "length digits" 0]
  by (auto simp: sql_is_verhoeff_valid_def isVerhoeffValid_def)

end
