(* ===== verification/Profile_Theorems.thy ===== *)
theory Profile_Theorems
  imports Profile_Service Discovery_Theorems
begin

text \<open>Properties of profiles, each with a concrete instance.\<close>

section \<open>Completion\<close>

lemma count_item_simp:
  "count_item f (field, weight, required) (n, r, q) =
    (if f field then (n + weight, r, q) else if required then (n, r @ [field], q) else (n, r, q @ [field]))"
  by (simp add: count_item_def)

lemma fold_count_item:
  "fold (count_item f) items (n, r, q) =
    (n + sum_list (map (\<lambda>(field, weight, _). if f field then weight else 0) items),
     r @ map fst (filter (\<lambda>(field, _, required). \<not> f field \<and> required) items),
     q @ map fst (filter (\<lambda>(field, _, required). \<not> f field \<and> \<not> required) items))"
proof (induction items arbitrary: n r q)
  case (Cons x items)
  obtain field weight required where x: "x = (field, weight, required)" by (metis prod_cases3)
  show ?case by (simp add: x count_item_simp Cons.IH)
qed simp

abbreviation points :: "(completion_field \<Rightarrow> bool) \<Rightarrow> completion_field \<Rightarrow> int \<Rightarrow> int" where
  "points f field weight \<equiv> if f field then weight else 0"

lemma completion_percentage:
  "co_percentage (computeProfileCompletion (Some f)) =
    points f F_name 10 + points f F_dateOfBirth 10 + points f F_gender 10 + points f F_city 10 + points f F_garbaLevel 10 +
    points f F_profileImage 20 + points f F_bio 10 + points f F_availableDates 10 + points f F_area 5 + points f F_instagramId 5"
  unfolding computeProfileCompletion_def option.case fold_count_item by (simp add: PROFILE_COMPLETION_ITEMS_def)

lemma completion_status:
  "co_status (computeProfileCompletion (Some f)) = Profile_complete \<longleftrightarrow>
    f F_name \<and> f F_dateOfBirth \<and> f F_gender \<and> f F_city \<and> f F_garbaLevel \<and> f F_profileImage"
  unfolding computeProfileCompletion_def option.case fold_count_item by (simp add: PROFILE_COMPLETION_ITEMS_def)

text \<open>
  The percentage of a profile is between 0 and 100, it is 100 exactly when everything is filled in, every
  complete profile has at least 70, and a profile is complete exactly when no required field is missing.
\<close>

theorem completion_is_bounded:
  "0 \<le> co_percentage (computeProfileCompletion input) \<and> co_percentage (computeProfileCompletion input) \<le> 100 \<and>
    (co_percentage (computeProfileCompletion input) = 100 \<longleftrightarrow> (\<exists>f. input = Some f \<and> (\<forall>x. f x))) \<and>
    (co_status (computeProfileCompletion input) = Profile_complete \<longrightarrow> 70 \<le> co_percentage (computeProfileCompletion input)) \<and>
    (co_status (computeProfileCompletion input) = Profile_complete \<longleftrightarrow> co_missingRequired (computeProfileCompletion input) = [])"
proof (cases input)
  case None
  then show ?thesis by (simp add: computeProfileCompletion_def PROFILE_COMPLETION_ITEMS_def)
next
  case (Some f)
  have all: "(\<forall>x. f x) \<longleftrightarrow> f F_name \<and> f F_dateOfBirth \<and> f F_gender \<and> f F_city \<and> f F_garbaLevel \<and> f F_profileImage \<and>
      f F_bio \<and> f F_availableDates \<and> f F_area \<and> f F_instagramId"
    by (metis completion_field.exhaust)
  have missing: "co_status (computeProfileCompletion (Some f)) = Profile_complete \<longleftrightarrow>
      co_missingRequired (computeProfileCompletion (Some f)) = []"
    by (simp add: computeProfileCompletion_def split: prod.split)
  have "co_percentage (computeProfileCompletion (Some f)) = 100 \<longleftrightarrow> (\<forall>x. f x)"
    unfolding completion_percentage all by auto
  moreover have "co_status (computeProfileCompletion (Some f)) = Profile_complete \<longrightarrow>
      70 \<le> co_percentage (computeProfileCompletion (Some f))"
    unfolding completion_percentage completion_status by auto
  moreover have "0 \<le> co_percentage (computeProfileCompletion (Some f))"
    "co_percentage (computeProfileCompletion (Some f)) \<le> 100"
    unfolding completion_percentage by simp_all
  ultimately show ?thesis using missing unfolding Some by blast
qed

text \<open>A missing profile has no missing fields but no progress.\<close>

theorem completion_is_bounded_witness:
  "co_percentage (computeCompletion (Some (sample_profile 1 Woman)) (1970, 1, 1)) = 80 \<and>
    co_percentage (computeCompletion None (1970, 1, 1)) \<le> 100"
proof -
  have "co_percentage (computeCompletion (Some (sample_profile 1 Woman)) (1970, 1, 1)) = 80" by code_simp
  then show ?thesis using completion_is_bounded[of None] by (simp add: computeCompletion_def)
qed


section \<open>Minors\<close>

lemma live_account_row:
  "live_account i s = Some u \<Longrightarrow> u \<in> set (t_users s) \<and> u_id u = i \<and> u_deletedAt u = None"
  by (auto simp: live_account_def find_row_def dest: find_Some_in)

lemma live_account_saved:
  assumes "live_account i s = Some u" "save users_table cs u s = (Inr v, t)"
    and keys: "\<And>a. u_id (apply_settings cs u a) = u_id a \<and> u_deletedAt (apply_settings cs u a) = u_deletedAt a"
  shows "live_account i t = Some (apply_settings cs u u)"
proof -
  have "find (\<lambda>a. u_id a = i \<and> u_deletedAt a = None) (update_where (\<lambda>a. u_id a = i) f rows) =
      map_option f (find (\<lambda>a. u_id a = i \<and> u_deletedAt a = None) rows)"
    if "\<And>a. u_id (f a) = u_id a \<and> u_deletedAt (f a) = u_deletedAt a" for f rows
    using that by (induction rows) auto
  note found = this[OF keys]
  have "t_users t = update_where (\<lambda>a. u_id a = i) (apply_settings cs u) (t_users s)"
    using assms(2) live_account_row[OF assms(1)] by (simp add: save_Inr_iff update_rows_Inr_iff)
  then show ?thesis using found assms(1) by (simp add: live_account_def find_row_def)
qed

text \<open>Whoever is marked stays marked: nothing in the profile service takes the mark away.\<close>

lemma marked_is_refused:
  assumes "live_account i s = Some u" "u_underageRejectedAt u \<noteq> None"
  shows "createProfile i input s = (Inl (App UNDERAGE), s) \<or> createProfile i input s = (Inl (App VALIDATION_ERROR), s)"
proof -
  have tx: "create_profile_tx i input s = (Inr Underage_attempt, s)"
    using assms by (simp add: create_profile_tx_def transaction_def run_simps)
  show ?thesis
    by (auto simp: createProfile_def assertAvailableDates_def andThen_def now_def gets_def ensure_def ret_def tx split: option.split)
qed

lemma save_mark:
  assumes ok: "table_ok users_table s" and u: "live_account i s = Some u" "u_underageRejectedAt u = None"
  shows "\<exists>v t. save users_table [setting u_underageRejectedAt u_underageRejectedAt_update (Some (clock s))] u s = (Inr v, t) \<and>
    t_profiles t = t_profiles s \<and> (\<exists>a. live_account i t = Some a \<and> u_underageRejectedAt a \<noteq> None)"
proof -
  let ?cs = "[setting u_underageRejectedAt u_underageRejectedAt_update (Some (clock s))]"
  let ?f = "apply_settings ?cs u"
  have f: "?f a = a\<lparr>u_underageRejectedAt := Some (clock s)\<rparr>" for a using u(2) by (simp add: setting_def)
  have "update_rows users_table (\<lambda>r. u_id r = u_id u) ?f s = (Inr (), s\<lparr>t_users := update_where (\<lambda>r. u_id r = u_id u) ?f (t_users s)\<rparr>)"
    using users.update_rows_returns[OF ok, of ?f "\<lambda>r. u_id r = u_id u"] users.row_ok[OF ok]
    unfolding f by (simp add: user_clash_def user_ok_def)
  then obtain v t where run: "save users_table ?cs u s = (Inr v, t)" "t_profiles t = t_profiles s"
    by (auto simp: save_Inr_iff simp del: apply_settings_Cons)
  have "live_account i t = Some (?f u)"
    by (rule live_account_saved[OF u(1) run(1)]) (simp only: f, simp)
  then show ?thesis using run unfolding f by auto
qed

text \<open>
  C31. Only adults get a profile. An attempt with a date of birth under 18 is refused and remembered although
  the request fails: no profile is stored, and from then on every further attempt is refused as well, whatever
  date of birth it gives, and changes nothing.
\<close>

theorem no_minor_gets_a_profile:
  assumes ok: "table_ok users_table s" and u: "live_account i s = Some u" and none: "profile_of i s = None"
    and dates: "\<forall>ds. cp_availableDates input = Some ds \<longrightarrow> \<not> availableDatesError ds (todayInIndia (clock s))"
    and run: "createProfile i input s = (r, t)"
  shows "if calculateAge (cp_dateOfBirth input) (todayInIndia (clock s)) < 18
    then r = Inl (App UNDERAGE) \<and> t_profiles t = t_profiles s \<and>
      (\<forall>input'. createProfile i input' t = (Inl (App UNDERAGE), t) \<or> createProfile i input' t = (Inl (App VALIDATION_ERROR), t))
    else \<forall>mp. r = Inr mp \<longrightarrow> calculateAge (cp_dateOfBirth input) (todayInIndia (clock s)) \<le> 100 \<and> u_underageRejectedAt u = None"
proof -
  let ?age = "calculateAge (cp_dateOfBirth input) (todayInIndia (clock s))"
  have "assertAvailableDates (cp_availableDates input) s = (Inr (), s)"
    using dates by (auto simp: assertAvailableDates_def run_simps split: option.split)
  then have run': "andThen (create_profile_tx i input)
      (\<lambda>outcome. andThen (ensure (outcome \<noteq> Underage_attempt) (App UNDERAGE)) (\<lambda>_. my_profile_of i)) s = (r, t)"
    using run by (simp add: createProfile_def andThen_run(1))
  show ?thesis
  proof (cases "u_underageRejectedAt u = None")
    case False
    have "r = Inl (App UNDERAGE) \<and> t = s"
      using run' u False by (auto simp: create_profile_tx_def transaction_def run_simps andThen_def)
    then show ?thesis using marked_is_refused[OF u False] by simp
  next
    case True
    show ?thesis
    proof (cases "?age < 18")
      case young: True
      obtain v s1 where saved: "save users_table [setting u_underageRejectedAt u_underageRejectedAt_update (Some (clock s))] u s = (Inr v, s1)"
        and s1: "t_profiles s1 = t_profiles s" "\<exists>a. live_account i s1 = Some a \<and> u_underageRejectedAt a \<noteq> None"
        using save_mark[OF ok u True] by blast
      have step: "andThen (save users_table [setting u_underageRejectedAt u_underageRejectedAt_update (Some (clock s))] u)
          (\<lambda>_. ret Underage_attempt) s = (Inr Underage_attempt, s1)"
        by (simp add: andThen_def saved ret_def)
      have "create_profile_tx i input s = (Inr Underage_attempt, s1)"
        using u none True young step
        by (simp add: create_profile_tx_def transaction_def run_simps Let_def limits del: calculateAge.simps)
      then have "r = Inl (App UNDERAGE)" "t = s1"
        using run' by (simp_all add: andThen_def ensure_def)
      then show ?thesis using young s1 marked_is_refused by metis
    next
      case old: False
      have "?age \<le> 100" if returned: "r = Inr mp" for mp
      proof -
        obtain outcome s1 where "create_profile_tx i input s = (Inr outcome, s1)"
          using run' unfolding returned andThen_Inr_iff by blast
        then show ?thesis
          using u none True old unfolding create_profile_tx_def transaction_Inr_iff
          by (auto simp: returns_iff Let_def limits)
      qed
      then show ?thesis using old True by simp
    qed
  qed
qed

definition child :: create_profile_input where
  "child = \<lparr>cp_name = ''Kid'', cp_dateOfBirth = (1960, 1, 1), cp_gender = Man, cp_cityId = 1, cp_areaId = None,
    cp_bio = None, cp_instagramId = None, cp_garbaLevel = Beginner, cp_availableDates = None\<rparr>"

definition newcomer_db :: db where
  "newcomer_db = empty_db\<lparr>t_users := [sample_user 1 ''x'']\<rparr>"

text \<open>On 1970-01-01 a nine year old tries, and tries again as a grown-up.\<close>

theorem no_minor_gets_a_profile_witness:
  "fst (createProfile 1 child newcomer_db) = Inl (App UNDERAGE) \<and>
    t_profiles (snd (createProfile 1 (child\<lparr>cp_dateOfBirth := (1940, 1, 1)\<rparr>) (snd (createProfile 1 child newcomer_db)))) = []"
proof -
  have "table_ok users_table newcomer_db" "live_account 1 newcomer_db = Some (sample_user 1 ''x'')" "profile_of 1 newcomer_db = None"
    "calculateAge (cp_dateOfBirth child) (todayInIndia (clock newcomer_db)) < 18" "t_profiles newcomer_db = []"
    by code_simp+
  note facts = this
  have run: "createProfile 1 child newcomer_db = (fst (createProfile 1 child newcomer_db), snd (createProfile 1 child newcomer_db))"
    by simp
  have "\<forall>ds. cp_availableDates child = Some ds \<longrightarrow> \<not> availableDatesError ds (todayInIndia (clock newcomer_db))"
    by (simp add: child_def)
  from no_minor_gets_a_profile[OF facts(1-3) this run] facts(4,5) show ?thesis by (metis snd_conv)
qed

section \<open>Who can be opened\<close>

lemma profile_row:
  assumes ok: "table_ok profiles_table s" and p: "p \<in> set (t_profiles s)"
  shows "profile_of (pf_userId p) s = Some p"
  unfolding profile_of_def find_row_def profiles_table_simps
  by (rule find_only) (use p profiles.clash_eq[OF ok] in \<open>auto simp: profile_clash_def\<close>)

lemma preference_row:
  assumes ok: "table_ok preferences_table s" and p: "p \<in> set (t_preferences s)"
  shows "preference_of (pr_userId p) s = Some p"
  unfolding preference_of_def find_row_def preferences_table_simps
  by (rule find_only) (use p preferences.clash_eq[OF ok] in \<open>auto simp: preference_clash_def\<close>)

lemma not_blocked_either_way:
  "table_ok blocks_table s \<Longrightarrow> \<not> blocked_between a b s \<Longrightarrow> \<not> isBlockedEitherWay a b s"
  by (auto simp: isBlockedEitherWay_def blocked_between_def count_where_pos_iff block_ok_def dest: blocks.row_ok)

text \<open>
  C33. Whoever is shown in discovery can be opened: for an eligible member \<open>getPublicProfile\<close> answers with the
  profile, never with NOT_FOUND, as long as names are not empty and cities exist.
\<close>

theorem eligible_can_be_opened:
  assumes ok: "table_ok users_table s" "table_ok profiles_table s" "table_ok preferences_table s" "table_ok blocks_table s"
    and names: "\<And>p. p \<in> set (t_profiles s) \<Longrightarrow> pf_displayName p \<noteq> [] \<and> by_key cities_table (pf_cityId p) s \<noteq> None"
    and eligible: "isEligible a b s = Inr True"
  shows "case getPublicProfile a b s of Inl e \<Rightarrow> False | Inr dto \<Rightarrow> pp_id dto = b"
proof -
  let ?today = "todayInIndia (clock s)"
  obtain v qa row where v: "loadViewer a ?today s = Inr (v, qa)" "row \<in> set (runQuery (target_query v qa ?today b) s)"
    using eligible by (auto simp: isEligible_def findEligible_def split: if_splits sum.splits list.splits)
      (metis list.set_intros(1))
  obtain u pb qb where c: "(u, pb, qb) \<in> set (joined s)" "Discovery.eligible (target_query v qa ?today b) s (u, pb, qb)"
    using runQuery_in[OF v(2)] by (metis prod.exhaust)
  have "vw_id v = a" using v(1) by (auto simp: loadViewer_def split: option.splits)
  then have rules: "account_rules u pb qb" "separation_rules a b s" "u_id u = b"
    using c(2) by (auto simp: eligible_def target_query_def filter_rules_def)
  have rows: "u \<in> set (t_users s)" "pb \<in> set (t_profiles s)" "profile_of b s = Some pb" "preference_of b s = Some qb"
    using c(1) rules(3) profile_row[OF ok(2), of pb] preference_row[OF ok(3), of qb] by (auto simp: in_joined)
  have "find_row users_table (\<lambda>u. u_id u = b \<and> u_status u = U_active \<and> u_deletedAt u = None) s = Some u"
    unfolding find_row_def users_table_simps
    by (rule find_only) (use rows(1) rules users.key_eq[OF ok(1)] in \<open>auto simp: account_rules_def\<close>)
  moreover have "co_status (computeCompletion (Some pb) ?today) = Profile_complete"
    using rules(1) names[OF rows(2)] by (simp add: computeCompletion_def completion_status account_rules_def)
  moreover have "\<not> isBlockedEitherWay a b s" "may_see a u (Some qb) s"
    using rules not_blocked_either_way[OF ok(4)] by (auto simp: separation_rules_def may_see_def account_rules_def)
  ultimately show ?thesis
    using rows rules(3) names[OF rows(2)] by (auto simp: getPublicProfile_def Let_def toPublicProfileDto_def split: option.splits)
qed

theorem eligible_can_be_opened_witness:
  "case getPublicProfile 1 2 pair_db of Inl e \<Rightarrow> False | Inr dto \<Rightarrow> pp_id dto = 2"
proof -
  have ok: "table_ok users_table pair_db" "table_ok profiles_table pair_db" "table_ok preferences_table pair_db"
    "table_ok blocks_table pair_db" "isEligible 1 2 pair_db = Inr True"
    by code_simp+
  have "pf_displayName p \<noteq> [] \<and> by_key cities_table (pf_cityId p) pair_db \<noteq> None" if "p \<in> set (t_profiles pair_db)" for p
    using that by (auto simp: pair_db_def sample_profile_def by_key_def)
  from eligible_can_be_opened[OF ok(1-4) this ok(5)] show ?thesis .
qed

section \<open>Photos\<close>

text \<open>What is left in the storage: everything that was stored and not destroyed again.\<close>

definition asset_step :: "string set \<Rightarrow> effect \<Rightarrow> string set" where
  "asset_step kept e = (case e of Asset_stored x \<Rightarrow> insert x kept | Asset_destroyed x \<Rightarrow> kept - {x} | _ \<Rightarrow> kept)"

definition kept_assets :: "db \<Rightarrow> string set" where
  "kept_assets s = foldl asset_step {} (outbox s)"

definition photos_in_use :: "db \<Rightarrow> string set" where
  "photos_in_use s = {x. \<exists>p \<in> set (t_profiles s). pf_imagePublicId p = Some x}"

text \<open>The assets whose deletion has failed.\<close>

definition left_assets :: "db \<Rightarrow> string set" where
  "left_assets s = {x. Asset_left x \<in> set (outbox s)}"

definition photos_agree :: "db \<Rightarrow> bool" where
  "photos_agree s \<longleftrightarrow> kept_assets s = photos_in_use s \<union> left_assets s \<and> photos_in_use s \<inter> left_assets s = {} \<and>
    [] \<notin> photos_in_use s"

lemma photo_replaced:
  assumes ok: "table_ok profiles_table s" and p: "p \<in> set (t_profiles s)"
    and rows: "t_profiles t = update_where (\<lambda>r. pf_id r = pf_id p) f (t_profiles s)"
  shows "photos_in_use t = (photos_in_use s - set_option (pf_imagePublicId p)) \<union> set_option (pf_imagePublicId (f p))"
proof -
  have same: "q = p" if "q \<in> set (t_profiles s)" "pf_id q = pf_id p" for q
    using profiles.key_eq[OF ok, of q p] that p by simp
  have other: "q = p" if "q \<in> set (t_profiles s)" "pf_imagePublicId q = Some x" "pf_imagePublicId p = Some x" for q x
    using profiles.clash_eq[OF ok, of q p] that p by (simp add: profile_clash_def sql_eq_def)
  have "x \<in> photos_in_use t \<longleftrightarrow> pf_imagePublicId (f p) = Some x \<or>
      (\<exists>q \<in> set (t_profiles s). q \<noteq> p \<and> pf_imagePublicId q = Some x)" for x
  proof
    assume "x \<in> photos_in_use t"
    then show "pf_imagePublicId (f p) = Some x \<or> (\<exists>q \<in> set (t_profiles s). q \<noteq> p \<and> pf_imagePublicId q = Some x)"
      unfolding photos_in_use_def rows by (auto elim!: in_update_whereE split: if_splits dest: same)
  next
    assume "pf_imagePublicId (f p) = Some x \<or> (\<exists>q \<in> set (t_profiles s). q \<noteq> p \<and> pf_imagePublicId q = Some x)"
    then show "x \<in> photos_in_use t"
    proof
      assume "pf_imagePublicId (f p) = Some x"
      then show ?thesis
        using in_update_whereI[OF p, of "\<lambda>r. pf_id r = pf_id p" f] unfolding photos_in_use_def rows by auto
    next
      assume "\<exists>q \<in> set (t_profiles s). q \<noteq> p \<and> pf_imagePublicId q = Some x"
      then obtain q where q: "q \<in> set (t_profiles s)" "pf_id q \<noteq> pf_id p" "pf_imagePublicId q = Some x"
        using same by blast
      then show ?thesis
        using in_update_whereI[OF q(1), of "\<lambda>r. pf_id r = pf_id p" f] unfolding photos_in_use_def rows by auto
    qed
  qed
  then have "photos_in_use t = {x. \<exists>q \<in> set (t_profiles s). q \<noteq> p \<and> pf_imagePublicId q = Some x} \<union> set_option (pf_imagePublicId (f p))"
    by auto
  moreover have "x \<in> photos_in_use s - set_option (pf_imagePublicId p) \<longleftrightarrow>
      (\<exists>q \<in> set (t_profiles s). q \<noteq> p \<and> pf_imagePublicId q = Some x)" for x
    unfolding photos_in_use_def by (cases "pf_imagePublicId p = Some x") (auto dest: other)
  ultimately show ?thesis by blast
qed

lemma leaves_member_marks:
  assumes "\<And>rs s. v (s\<lparr>t_users := rs\<rparr>) = v s" "\<And>rs s. v (s\<lparr>t_verifications := rs\<rparr>) = v s"
  shows "leaves v (syncOnboarding i)" "leaves v (revokePhotoVerification i)"
  unfolding syncOnboarding_def revokePhotoVerification_def Let_def
  by (intro leaves_rules; simp add: assms)+

definition photo_view :: "db \<Rightarrow> user_profile list \<times> effect list" where
  "photo_view s = (t_profiles s, outbox s)"

lemma marks_leave_photos: "leaves photo_view (syncOnboarding i)" "leaves photo_view (revokePhotoVerification i)"
  by (rule leaves_member_marks; simp add: photo_view_def)+

lemma photo_saved:
  assumes ok: "table_ok profiles_table s" and p: "profile_of i s = Some p"
    and run: "save profiles_table (setting pf_imagePublicId pf_imagePublicId_update new # cs) p s = (Inr v, t)"
    and keeps: "\<And>r. pf_imagePublicId (apply_settings cs p r) = pf_imagePublicId r"
  shows "photos_in_use t = (photos_in_use s - set_option (pf_imagePublicId p)) \<union> set_option new" "outbox t = outbox s"
proof -
  have "p \<in> set (t_profiles s)" using p by (auto simp: profile_of_def find_row_def dest: find_Some_in)
  moreover have "t_profiles t = update_where (\<lambda>r. pf_id r = pf_id p)
      (apply_settings (setting pf_imagePublicId pf_imagePublicId_update new # cs) p) (t_profiles s)" "outbox t = outbox s"
    using run by (auto simp: save_Inr_iff update_rows_Inr_iff simp del: apply_settings_Cons)
  ultimately show "photos_in_use t = (photos_in_use s - set_option (pf_imagePublicId p)) \<union> set_option new" "outbox t = outbox s"
    using photo_replaced[OF ok] by (simp_all add: keeps setting_sets)
qed

lemma photo_view_same:
  "photo_view t = photo_view s \<Longrightarrow> photos_in_use t = photos_in_use s \<and> outbox t = outbox s"
  by (simp add: photo_view_def photos_in_use_def)

lemma image_stored:
  assumes ok: "table_ok profiles_table s" and run: "store_image_tx i (x, w, h) s = (Inr previous, t)"
  shows "photos_in_use t = insert x (photos_in_use s - set_option previous)" "outbox t = outbox s"
    "set_option previous \<subseteq> photos_in_use s"
proof -
  obtain p v s1 a s2 b where p: "profile_of i s = Some p" "previous = pf_imagePublicId p"
    and saved: "save profiles_table
       [setting pf_imagePublicId pf_imagePublicId_update (Some x), setting pf_imageWidth pf_imageWidth_update (Some w),
        setting pf_imageHeight pf_imageHeight_update (Some h), setting pf_imageUploadedAt pf_imageUploadedAt_update (Some (clock s))]
       p s = (Inr v, s1)"
    and marks: "revokePhotoVerification i s1 = (Inr a, s2)" "syncOnboarding i s2 = (Inr b, t)"
    using run by (auto simp: store_image_tx_def returns_iff)
  have "photo_view t = photo_view s1"
    using leavesD[OF marks_leave_photos(2) marks(1)] leavesD[OF marks_leave_photos(1) marks(2)] by simp
  with photo_saved[OF ok p(1) saved] show "photos_in_use t = insert x (photos_in_use s - set_option previous)" "outbox t = outbox s"
    unfolding p(2) by (auto dest!: photo_view_same simp: setting_keeps)
  show "set_option previous \<subseteq> photos_in_use s"
    using p by (auto simp: photos_in_use_def profile_of_def find_row_def dest: find_Some_in)
qed

text \<open>Showing the new profile to its owner changes nothing.\<close>

lemma shown_unchanged: "my_profile_of i s = (r, t) \<Longrightarrow> t = s"
  by (simp add: my_profile_of_def from_sum_def)

lemma destroy_previous_run:
  "destroy_previous md previous s = (Inr (), s\<lparr>outbox := outbox s @
    (case previous of None \<Rightarrow> [] | Some p \<Rightarrow>
      if p \<noteq> [] then [if media_destroy md p then Asset_destroyed p else Asset_left p] else [])\<rparr>)"
  by (simp add: destroy_previous_def destroyQuietly_def run_simps split: option.split)

lemma previous_destroyed:
  assumes "andThen (destroy_previous md previous) (\<lambda>_. my_profile_of i) s = (r, t)" "previous \<noteq> Some []"
  shows "photos_in_use t = photos_in_use s"
    "kept_assets t = kept_assets s - set_option previous \<and> left_assets t = left_assets s \<or>
      kept_assets t = kept_assets s \<and> left_assets t = left_assets s \<union> set_option previous"
proof -
  have t: "t = s\<lparr>outbox := outbox s @ (case previous of None \<Rightarrow> [] | Some p \<Rightarrow>
      if p \<noteq> [] then [if media_destroy md p then Asset_destroyed p else Asset_left p] else [])\<rparr>"
    using assms(1) by (simp add: andThen_def destroy_previous_run shown_unchanged)
  show "photos_in_use t = photos_in_use s" by (simp add: t photos_in_use_def)
  show "kept_assets t = kept_assets s - set_option previous \<and> left_assets t = left_assets s \<or>
      kept_assets t = kept_assets s \<and> left_assets t = left_assets s \<union> set_option previous"
    using assms(2) by (cases previous) (auto simp: t kept_assets_def left_assets_def asset_step_def)
qed

text \<open>
  After the rows have given up \<open>previous\<close> and perhaps taken a new asset, its deletion makes them agree again,
  whether it succeeds or not.
\<close>

lemma agree_after_deletion:
  assumes "photos_agree s" "set_option previous \<subseteq> photos_in_use s" "set_option new \<inter> kept_assets s = {}" "new \<noteq> Some []"
    and "photos_in_use u = photos_in_use s - set_option previous \<union> set_option new"
      "kept_assets u = kept_assets s \<union> set_option new" "left_assets u = left_assets s"
    and "andThen (destroy_previous md previous) (\<lambda>_. my_profile_of i) u = (r, t)"
  shows "photos_agree t"
proof -
  have "previous \<noteq> Some []" using assms(1,2) by (auto simp: photos_agree_def)
  note run = previous_destroyed[OF assms(8) this]
  show ?thesis
    using run(2)
  proof
    assume "kept_assets t = kept_assets u - set_option previous \<and> left_assets t = left_assets u"
    with run(1) assms(1-7) show ?thesis unfolding photos_agree_def by auto
  next
    assume "kept_assets t = kept_assets u \<and> left_assets t = left_assets u \<union> set_option previous"
    with run(1) assms(1-7) show ?thesis unfolding photos_agree_def by auto
  qed
qed

lemma upload_keeps_agreement:
  assumes ok: "table_ok profiles_table s" and agree: "photos_agree s"
    and fresh: "\<And>image x w h. media_upload md image = Some (x, w, h) \<Longrightarrow> x \<notin> kept_assets s \<and> x \<noteq> []"
    and run: "uploadImage md i file s = (r, t)"
  shows "photos_agree t"
proof (cases "\<exists>p image x w h. profile_of i s = Some p \<and> processProfileImage md file = Inr image \<and>
    media_upload md image = Some (x, w, h)")
  case False
  then have "t = s"
    using run by (auto simp: uploadImage_def run_simps split: option.splits sum.splits if_splits)
  then show ?thesis using agree by simp
next
  case True
  then obtain p image x w h where p: "profile_of i s = Some p" "processProfileImage md file = Inr image"
    "media_upload md image = Some (x, w, h)" by blast
  let ?s = "s\<lparr>outbox := outbox s @ [Asset_stored x]\<rparr>"
  have stored: "photos_in_use ?s = photos_in_use s" "kept_assets ?s = insert x (kept_assets s)" "table_ok profiles_table ?s"
    "left_assets ?s = left_assets s"
    using ok by (simp_all add: photos_in_use_def kept_assets_def left_assets_def asset_step_def table_ok_def)
  have run': "andThen (tryCatch (store_image_tx i (x, w, h)) (\<lambda>e. andThen (destroyQuietly md x) (\<lambda>_. throw e)))
      (\<lambda>previous. andThen (destroy_previous md previous) (\<lambda>_. my_profile_of i)) ?s = (r, t)"
    using run by (simp add: uploadImage_def run_simps p)
  show ?thesis
  proof (cases "store_image_tx i (x, w, h) ?s")
    case (Pair outcome u)
    show ?thesis
    proof (cases outcome)
      case (Inl e)
      then have "u = ?s" using Pair by (auto simp: store_image_tx_def dest: transaction_Inl_state)
      then have "t = s\<lparr>outbox := outbox s @ [Asset_stored x, if media_destroy md x then Asset_destroyed x else Asset_left x]\<rparr>"
        using run' by (simp add: Pair Inl tryCatch_def destroyQuietly_def andThen_def emit_def modify_def throw_def)
      then show ?thesis
        using agree fresh[OF p(3)]
        by (auto simp: photos_agree_def photos_in_use_def kept_assets_def left_assets_def asset_step_def)
    next
      case (Inr previous)
      note done' = image_stored[OF stored(3) Pair[unfolded Inr]]
      have "andThen (destroy_previous md previous) (\<lambda>_. my_profile_of i) u = (r, t)"
        using run' by (simp add: Pair Inr tryCatch_def andThen_def[of "tryCatch _ _"])
      moreover have "set_option previous \<subseteq> photos_in_use s" using done'(3) by (simp add: stored)
      moreover have "kept_assets u = kept_assets s \<union> set_option (Some x)" "left_assets u = left_assets s"
        using done'(2) stored(2,4) by (auto simp: kept_assets_def left_assets_def)
      ultimately show ?thesis
        using agree_after_deletion[OF agree, of previous "Some x" u md i r t] fresh[OF p(3)] done'(1)
        by (simp add: stored)
    qed
  qed
qed

lemma delete_keeps_agreement:
  assumes ok: "table_ok profiles_table s" and agree: "photos_agree s" and run: "deleteImage md i s = (r, t)"
  shows "photos_agree t"
proof (cases "profile_of i s")
  case None
  then have "t = s" using run by (simp add: deleteImage_def transaction_def run_simps andThen_def)
  then show ?thesis using agree by simp
next
  case (Some p)
  have used: "set_option (pf_imagePublicId p) \<subseteq> photos_in_use s"
    using Some by (auto simp: photos_in_use_def profile_of_def find_row_def dest: find_Some_in)
  with agree have filled: "pf_imagePublicId p \<noteq> Some []" by (auto simp: photos_agree_def)
  show ?thesis
  proof (cases "pf_imagePublicId p")
    case None
    then have "t = s"
      using run Some by (simp add: deleteImage_def transaction_def run_simps andThen_def destroy_previous_def shown_unchanged)
    then show ?thesis using agree by simp
  next
    case (Some x)
    let ?remove = "andThen (save profiles_table
         [setting pf_imagePublicId pf_imagePublicId_update None, setting pf_imageWidth pf_imageWidth_update None,
          setting pf_imageHeight pf_imageHeight_update None, setting pf_imageUploadedAt pf_imageUploadedAt_update None] p)
         (\<lambda>_. andThen (revokePhotoVerification i) (\<lambda>_. ret (pf_imagePublicId p)))"
    have run': "andThen (transaction ?remove)
        (\<lambda>previous. andThen (destroy_previous md previous) (\<lambda>_. my_profile_of i)) s = (r, t)"
      using run \<open>profile_of i s = Some p\<close> Some filled by (simp add: deleteImage_def transaction_def run_simps andThen_def)
    show ?thesis
    proof (cases "transaction ?remove s")
      case (Pair outcome u)
      show ?thesis
      proof (cases outcome)
        case (Inl e)
        then have "t = s" using run' Pair by (auto simp: andThen_def dest: transaction_Inl_state)
        then show ?thesis using agree by simp
      next
        case (Inr previous)
        obtain v s1 a where saved: "save profiles_table
            [setting pf_imagePublicId pf_imagePublicId_update None, setting pf_imageWidth pf_imageWidth_update None,
             setting pf_imageHeight pf_imageHeight_update None, setting pf_imageUploadedAt pf_imageUploadedAt_update None] p s = (Inr v, s1)"
          and mark: "revokePhotoVerification i s1 = (Inr a, u)" and previous: "previous = pf_imagePublicId p"
          using Pair unfolding Inr by (auto simp: returns_iff)
        have view: "photo_view u = photo_view s1" by (rule leavesD[OF marks_leave_photos(2) mark])
        then have u: "photos_in_use u = photos_in_use s - set_option previous" "outbox u = outbox s"
          using photo_saved[OF ok \<open>profile_of i s = Some p\<close> saved] unfolding previous by (auto dest!: photo_view_same simp: setting_keeps)
        moreover have "andThen (destroy_previous md previous) (\<lambda>_. my_profile_of i) u = (r, t)"
          using run' by (simp add: Pair Inr andThen_def[of "transaction _"])
        ultimately show ?thesis
          using agree_after_deletion[OF agree, of previous None u md i r t] used
          by (simp add: previous kept_assets_def left_assets_def)
      qed
    qed
  qed
qed

text \<open>
  C32. No photo in use is lost, and nothing else stays in the storage unnoticed: uploading and deleting keep the
  storage exactly at the photos that profiles show together with the assets whose deletion the image service
  refused, which are logged and left; also when the upload, the database or the image library fails on the way.
\<close>

theorem photos_agree_with_profiles:
  assumes ok: "table_ok profiles_table s" and agree: "photos_agree s"
    and fresh: "\<And>image x w h. media_upload md image = Some (x, w, h) \<Longrightarrow> x \<notin> kept_assets s \<and> x \<noteq> []"
    and run: "uploadImage md i file s = (r, t) \<or> deleteImage md i s = (r, t)"
  shows "photos_agree t"
  using run
proof
  assume "uploadImage md i file s = (r, t)"
  with ok agree fresh show ?thesis by (rule upload_keeps_agreement)
qed (rule delete_keeps_agreement[OF ok agree])

definition photo_db :: db where
  "photo_db = pair_db\<lparr>t_profiles := [sample_profile 1 Woman], outbox := [Asset_stored ''i'']\<rparr>"

definition sample_media :: media where
  "sample_media = \<lparr>processProfileImage = Inr, media_upload = (\<lambda>image. Some (''new'', 400, 400)),
    media_destroy = (\<lambda>x. x = ''i'')\<rparr>"

text \<open>
  Replacing a photo leaves only the new one; when that is deleted and the image service refuses, it is left over.
\<close>

definition refusing_media :: media where
  "refusing_media = sample_media\<lparr>media_upload := (\<lambda>image. None)\<rparr>"

theorem photos_agree_with_profiles_witness:
  "outbox (snd (uploadImage sample_media 1 ''file'' photo_db)) = [Asset_stored ''i'', Asset_stored ''new'', Asset_destroyed ''i''] \<and>
    photos_in_use (snd (uploadImage sample_media 1 ''file'' photo_db)) = {''new''} \<and>
    photos_agree (snd (uploadImage sample_media 1 ''file'' photo_db)) \<and>
    left_assets (snd (deleteImage refusing_media 1 (snd (uploadImage sample_media 1 ''file'' photo_db)))) = {''new''} \<and>
    photos_agree (snd (deleteImage refusing_media 1 (snd (uploadImage sample_media 1 ''file'' photo_db))))"
proof -
  let ?t = "snd (uploadImage sample_media 1 ''file'' photo_db)"
  let ?u = "snd (deleteImage refusing_media 1 ?t)"
  have facts: "table_ok profiles_table photo_db" "table_ok profiles_table ?t"
    "outbox ?t = [Asset_stored ''i'', Asset_stored ''new'', Asset_destroyed ''i'']"
    "map pf_imagePublicId (t_profiles ?t) = [Some ''new'']"
    "outbox ?u = [Asset_stored ''i'', Asset_stored ''new'', Asset_destroyed ''i'', Asset_left ''new'']"
    by code_simp+
  have start: "photos_in_use photo_db = {''i''}" "kept_assets photo_db = {''i''}" "left_assets photo_db = {}"
    by (simp_all add: photos_in_use_def kept_assets_def left_assets_def asset_step_def photo_db_def sample_profile_def)
  then have "photos_agree photo_db" by (simp add: photos_agree_def)
  moreover have "x \<notin> kept_assets photo_db \<and> x \<noteq> []" if "media_upload sample_media image = Some (x, w, h)" for image x w h
    using that unfolding start by (auto simp: sample_media_def)
  ultimately have first: "photos_agree ?t"
    using photos_agree_with_profiles[OF facts(1)] by (metis prod.collapse)
  have "media_upload refusing_media image \<noteq> Some (x, w, h)" for image x w h
    by (simp add: refusing_media_def)
  then have "photos_agree ?u"
    using photos_agree_with_profiles[OF facts(2) first, of refusing_media 1 _ "fst (deleteImage refusing_media 1 ?t)" ?u]
    by (metis prod.collapse)
  moreover have "left_assets ?u = {''new''}" unfolding left_assets_def facts(5) by auto
  moreover have "photos_in_use ?t = {''new''}" using facts(4) by (auto simp: photos_in_use_def map_eq_Cons_conv)
  ultimately show ?thesis using first facts(3) by simp
qed

end
