(* ===== verification/Server.thy ===== *)
theory Server
  imports Integrity_Admin Discovery_Theorems
begin

text \<open>
  The program on its database: every method of a service that writes, as the routes, jobs, webhooks and sockets
  call it, in one transition relation, and what holds in all its states. The rows of the deliveries over SMS and
  WhatsApp are a state of their own (\<open>Channels\<close>, \<open>Delivery_Reports\<close>), as are the counters of the rate limits.
\<close>

section \<open>Requests\<close>

text \<open>
  One step: a method runs to its end, whatever it answers, with any arguments and any environment, or time passes.
\<close>

inductive server_step :: "db \<Rightarrow> db \<Rightarrow> bool" where
  time_passes: "clock s \<le> t \<Longrightarrow> server_step s (s\<lparr>clock := t\<rparr>)"
| sign_in: "server_step s (snd (loginWithPhoneToken ae idToken client s))"
| refresh: "server_step s (snd (refresh ae token client s))"
| logout: "server_step s (snd (logout i sessionId allDevices s))"
| admin_login: "server_step s (snd (admin_login ae verifyPassword email password client s))"
| admin_refresh: "server_step s (snd (admin_refresh ae token client s))"
| admin_logout: "server_step s (snd (admin_logout ae i sessionId client s))"
| create_profile: "server_step s (snd (createProfile i new s))"
| update_profile: "server_step s (snd (updateProfile i changes s))"
| update_preferences: "server_step s (snd (update_member_preferences i wishes s))"
| upload_image: "server_step s (snd (uploadImage md i file s))"
| delete_image: "server_step s (snd (deleteImage md i s))"
| send_interest: "server_step s (snd (send env i j event ip s))"
| accept_interest: "server_step s (snd (accept env i x s))"
| reject_interest: "server_step s (snd (reject i x s))"
| withdraw_interest: "server_step s (snd (withdraw i x s))"
| unmatch: "server_step s (snd (unmatch i m s))"
| block_member: "server_step s (snd (block_member env i j ip s))"
| unblock_member: "server_step s (snd (unblock_member env i j ip s))"
| report_member: "server_step s (snd (report_member env i report ip s))"
| acknowledge: "server_step s (snd (acknowledgeWarning i x s))"
| sanction: "server_step s (snd (sanction_user env actor i kind data s))"
| lift_sanction: "server_step s (snd (lift_user env actor i kind reason s))"
| restrict_interactions: "server_step s (snd (setInteractionRestriction env actor i reason restricted s))"
| view_conversation: "server_step s (snd (view_conversation env actor r s))"
| assign_report: "server_step s (snd (assign_report env actor r s))"
| resolve_report: "server_step s (snd (resolve_report env actor r decision s))"
| close_match: "server_step s (snd (close_match env actor m reason s))"
| expire_sanctions: "server_step s (snd (expiry_tick env s))"
| send_message: "server_step s (snd (snd (send_message env i m input hits s)))"
| mark_chat_read: "server_step s (snd (mark_chat_read i m x s))"
| mark_read: "server_step s (snd (markRead i x s))"
| mark_all_read: "server_step s (snd (markAllRead i s))"
| notification_preferences: "server_step s (snd (updatePreferences i choices whatsapp s))"
| reminders: "server_step s (snd (createEventReminders t s))"
| purge: "server_step s (snd (purgeOldNotifications t s))"
| create_order: "server_step s (snd (createOrder gw i e quantity key s))"
| verify_payment: "server_step s (snd (verify env gw i x orderId paymentId signature s))"
| webhook: "server_step s (snd (handleWebhook env gw parse body signature' eventId s))"
| refund: "server_step s (snd (admin_refund env gw actor b reason s))"
| expire_orders: "server_step s (snd (expireOrders env gw t s))"
| create_event: "server_step s (snd (create_event_op env actor input s))"
| update_event: "server_step s (snd (update_event_op env actor e input s))"
| update_pass: "server_step s (snd (updatePass env actor e price capacity s))"
| publish: "server_step s (snd (publish env actor e s))"
| unpublish: "server_step s (snd (unpublish env actor e s))"
| verify_event: "server_step s (snd (verify_event env actor e s))"
| unverify_event: "server_step s (snd (unverify_event env actor e s))"
| archive_event: "server_step s (snd (archive_event env actor e s))"
| restore_event: "server_step s (snd (restore_event env actor e s))"
| remove_event: "server_step s (snd (removeEvent md env actor e s))"
| set_event_image: "server_step s (snd (upload_event_image md env actor e file s))"
| delete_event_image: "server_step s (snd (delete_event_image md env actor e s))"
| set_attendance: "server_step s (snd (set_attendance i e choice s))"
| clear_attendance: "server_step s (snd (clear_attendance i e s))"
| create_organizer: "server_step s (snd (create_organizer_op env actor organizer_data s))"
| update_organizer: "server_step s (snd (update_organizer_op env actor g organizer_edit s))"
| verify_organizer: "server_step s (snd (verify_organizer env actor g s))"
| unverify_organizer: "server_step s (snd (unverify_organizer env actor g s))"
| archive_organizer: "server_step s (snd (archive_organizer env actor g s))"
| restore_organizer: "server_step s (snd (restore_organizer env actor g s))"
| export_sales: "server_step s (snd (export_csv env actor q s))"

abbreviation server_reaches :: "db \<Rightarrow> db \<Rightarrow> bool" where
  "server_reaches \<equiv> server_step\<^sup>*\<^sup>*"

section \<open>What no request undoes\<close>

lemma sending_keeps_db: "kept_since s0 s \<Longrightarrow> kept_since s0 (snd (snd (send_message env i m input hits s)))"
  using keepsD[OF chat_keeps_3(1)] by (auto simp: send_message_def Let_def split: option.split sum.split prod.split)

lemma kept: "keeps I m \<Longrightarrow> I s \<Longrightarrow> I (snd (m s))"
  by (simp add: keeps_def)

lemma step_keeps_db: "server_step s t \<Longrightarrow> kept_since s0 s \<Longrightarrow> kept_since s0 t"
proof (induction rule: server_step.induct)
  case (time_passes s t)
  then show ?case by (simp add: kept_since_def db_ok_def table_ok_def)
next
  case send_message
  then show ?case by (rule sending_keeps_db)
qed (rule kept, rule db_keeps, assumption)+

lemma reached_keeps_db: "server_reaches s t \<Longrightarrow> kept_since s0 s \<Longrightarrow> kept_since s0 t"
  by (induction rule: rtranclp_induct) (auto intro: step_keeps_db)

lemma reached_db_ok: "server_reaches s t \<Longrightarrow> db_ok s \<Longrightarrow> db_ok t"
  using reached_keeps_db[of s t s] kept_since_start[of s] by (simp add: kept_since_def)

text \<open>
  C34. Whatever runs in whatever order, nothing on record disappears: the entries of the audit log and of the
  safety log and the messages stay unchanged where they are, and no account, profile, interest, match, report,
  sanction, order, payment or booking is ever deleted.
\<close>

theorem records_are_kept:
  assumes "server_reaches s t" "db_ok s"
  shows "prefix (t_audit_logs s) (t_audit_logs t) \<and> prefix (t_safety_logs s) (t_safety_logs t) \<and>
    prefix (t_messages s) (t_messages t) \<and>
    still_there u_id (t_users s) (t_users t) \<and> still_there pf_id (t_profiles s) (t_profiles t) \<and>
    still_there i_id (t_interests s) (t_interests t) \<and> still_there m_id (t_matches s) (t_matches t) \<and>
    still_there rp_id (t_reports s) (t_reports t) \<and> still_there sn_id (t_sanctions s) (t_sanctions t) \<and>
    still_there o_id (t_orders s) (t_orders t) \<and> still_there p_id (t_payments s) (t_payments t) \<and>
    still_there b_id (t_bookings s) (t_bookings t)"
  using reached_keeps_db[OF assms(1) kept_since_start[OF assms(2)]] by (simp add: kept_since_def)

text \<open>One member blocks another and lifts the block again: what the safety log holds of it stays.\<close>

theorem records_are_kept_witness:
  "length (t_safety_logs (snd (block_member sample_env 1 2 ''ip'' pair_db))) = 1 \<and>
    prefix (t_safety_logs (snd (block_member sample_env 1 2 ''ip'' pair_db)))
      (t_safety_logs (snd (unblock_member sample_env 1 2 ''ip'' (snd (block_member sample_env 1 2 ''ip'' pair_db)))))"
proof -
  let ?s = "snd (block_member sample_env 1 2 ''ip'' pair_db)"
  have "db_ok ?s" "length (t_safety_logs ?s) = 1" by code_simp+
  moreover have "server_reaches ?s (snd (unblock_member sample_env 1 2 ''ip'' ?s))"
    by (rule r_into_rtranclp, rule server_step.unblock_member)
  ultimately show ?thesis using records_are_kept[of ?s "snd (unblock_member sample_env 1 2 ''ip'' ?s)"] by blast
qed

end
