(* ===== verification/Text_Theorems.thy ===== *)
theory Text_Theorems
  imports Text_Patterns
begin

text \<open>Properties of the text patterns.\<close>

lemma step_chain:
  "((\<lambda>i j. i < length s \<and> P (s ! i) \<and> j = Suc i) ^^ n) i j \<longleftrightarrow>
    j = i + n \<and> (n = 0 \<or> i + n \<le> length s) \<and> (\<forall>k < n. P (s ! (i + k)))"
  by (induction n arbitrary: j) (auto simp: relcompp_apply less_Suc_eq)

lemma one_chain:
  "(rx_matches (One P) s ^^ n) i j \<longleftrightarrow> j = i + n \<and> (n = 0 \<or> i + n \<le> length s) \<and> (\<forall>k < n. P (s ! (i + k)))"
  by (simp add: step_chain)

lemma opt_none: "rx_matches (rx_opt r) s i i"
  by (auto intro!: exI[of _ 0])

lemma opt_some: "rx_matches r s i j \<Longrightarrow> rx_matches (rx_opt r) s i j"
  by (auto intro!: exI[of _ 1])

lemma digit_no_separator: "is_digit c \<Longrightarrow> \<not> separator c"
  by (auto simp: is_digit_def separator_def is_white_def any_of_def units_def)

definition phone_item :: rx where
  "phone_item = rx_seq [rx_opt (rx_lit ''+''), rx_digit, rx_star (One separator)]"

lemma phone_item_matches:
  assumes "is_digit d" "list_all separator seps"
  shows "rx_matches phone_item (pre @ d # seps @ rest) (length pre) (length (pre @ d # seps))"
proof -
  let ?s = "pre @ d # seps @ rest"
  have "(rx_matches (One separator) ?s ^^ length seps) (Suc (length pre)) (length (pre @ d # seps))"
    unfolding one_chain using assms(2) by (auto simp: list_all_length nth_append nth_Cons')
  then have "rx_matches (rx_star (One separator)) ?s (Suc (length pre)) (length (pre @ d # seps))"
    by auto
  moreover have "rx_matches rx_digit ?s (length pre) (Suc (length pre))" using assms(1) by simp
  ultimately show ?thesis
    unfolding phone_item_def rx_seq.simps rx_matches.simps(6) using opt_none by (meson relcomppI)
qed

text \<open>Digits with nothing but separators between them are a chain of items.\<close>

lemma phone_items:
  "filter (\<lambda>c. \<not> separator c) rest = ds \<Longrightarrow> list_all is_digit ds \<Longrightarrow> rest = [] \<or> \<not> separator (hd rest) \<Longrightarrow>
    (rx_matches phone_item (pre @ rest) ^^ length ds) (length pre) (length (pre @ rest))"
proof (induction ds arbitrary: pre rest)
  case Nil
  then have "rest = []" by (cases rest) (auto split: if_splits)
  then show ?case by simp
next
  case (Cons d ds)
  then obtain t where rest: "rest = d # t" "filter (\<lambda>c. \<not> separator c) t = ds" "is_digit d"
    by (cases rest) (auto split: if_splits)
  define seps where "seps = takeWhile separator t"
  define t2 where "t2 = dropWhile separator t"
  have t: "t = seps @ t2" by (simp add: seps_def t2_def)
  have seps: "list_all separator seps" by (auto simp: seps_def list_all_iff dest: set_takeWhileD)
  have "filter (\<lambda>c. \<not> separator c) t2 = ds"
    using rest(2) seps by (simp add: t) (auto simp: list_all_iff filter_empty_conv)
  moreover have "t2 = [] \<or> \<not> separator (hd t2)" using hd_dropWhile[of separator t] by (auto simp: t2_def)
  ultimately have "(rx_matches phone_item ((pre @ d # seps) @ t2) ^^ length ds) (length (pre @ d # seps)) (length ((pre @ d # seps) @ t2))"
    using Cons.IH[of t2 "pre @ d # seps"] Cons.prems(2) by simp
  moreover have "rx_matches phone_item (pre @ rest) (length pre) (length (pre @ d # seps))"
    using phone_item_matches[OF rest(3) seps, of pre t2] by (simp add: rest(1) t)
  ultimately show ?case
    by (auto simp: rest(1) t intro: relpowp_Suc_I2 simp del: relpowp.simps)
qed

lemma split_filtered:
  "filter P s = xs @ y # ys \<Longrightarrow> \<exists>pre rest. s = pre @ rest \<and> filter P rest = y # ys \<and> P (hd rest) \<and> rest \<noteq> []"
proof (induction s arbitrary: xs)
  case (Cons c s)
  show ?case
  proof (cases xs)
    case Nil
    show ?thesis
    proof (cases "P c")
      case True
      with Cons.prems Nil show ?thesis by (intro exI[of _ "[]"] exI[of _ "c # s"]) auto
    next
      case False
      with Cons.prems have "filter P s = xs @ y # ys" by simp
      from Cons.IH[OF this] show ?thesis by (metis append_Cons)
    qed
  next
    case (Cons x xs')
    then have "filter P s = (if P c then xs' else xs) @ y # ys" using Cons.prems by (auto split: if_splits)
    from Cons.IH[OF this] show ?thesis by (metis append_Cons)
  qed
qed simp

lemma digits_are_phone_like:
  assumes "filter (\<lambda>c. \<not> separator c) s = xs @ ds" "list_all is_digit ds" "8 \<le> length ds"
  shows "rx_test PHONE_LIKE s"
proof -
  obtain d ds' where ds: "ds = d # ds'" using assms(3) by (cases ds) auto
  obtain pre rest where rest: "s = pre @ rest" "filter (\<lambda>c. \<not> separator c) rest = ds" "\<not> separator (hd rest)"
    using split_filtered[of "\<lambda>c. \<not> separator c" s xs d ds'] assms(1) ds by auto
  have "(rx_matches phone_item s ^^ length ds) (length pre) (length s)"
    using phone_items[OF rest(2) assms(2)] rest(1,3) by simp
  then have "rx_matches PHONE_LIKE s (length pre) (length s)"
    using assms(3) unfolding PHONE_LIKE_def phone_item_def[symmetric] by auto
  moreover have "length pre \<le> length s" using rest(1) by simp
  ultimately show ?thesis by (auto simp: rx_test_iff)
qed

text \<open>What the mobile pattern accepts: an optional prefix, then ten digits from 6 on.\<close>

definition is_mobile :: "js_text \<Rightarrow> bool" where
  "is_mobile ds \<longleftrightarrow> length ds = 10 \<and> list_all is_digit ds \<and> 54 \<le> hd ds"

lemma mobile_pattern:
  assumes "rx_test INDIAN_MOBILE s"
  shows "is_mobile (last_units 10 s) \<and> 10 \<le> length s"
proof -
  obtain i where i: "54 \<le> s ! i" "s ! i \<le> 57" "i < length s"
    and chain: "(rx_matches rx_digit s ^^ 9) (Suc i) (length s)"
    using assms by (auto simp: rx_test_iff INDIAN_MOBILE_def elim!: relcomppE)
  have at: "length s = i + 10" "\<forall>k < 9. is_digit (s ! (Suc i + k))"
    using chain[unfolded one_chain] by simp_all
  have "last_units 10 s = drop i s" by (simp add: last_units_def at)
  moreover have "list_all is_digit (drop i s)"
    unfolding list_all_length
  proof (intro allI impI)
    fix k assume "k < length (drop i s)"
    with at i show "is_digit (drop i s ! k)"
      by (cases k) (auto simp: is_digit_def)
  qed
  ultimately show ?thesis using i at by (simp add: is_mobile_def hd_drop_conv_nth)
qed

lemma mobile_accepted:
  assumes "is_mobile ds"
  shows "rx_test INDIAN_MOBILE (units ''+91'' @ ds)"
proof -
  let ?s = "units ''+91'' @ ds"
  have len: "length ?s = 13" "length ds = 10" using assms by (simp_all add: is_mobile_def units_def)
  have "rx_matches (rx_opt (rx_or (map rx_lit [''+91'', ''91'', ''0'']))) ?s 0 3"
    by (rule opt_some) (auto simp: rx_lit_def units_def relcompp_apply)
  moreover have "rx_matches (One (\<lambda>c. 54 \<le> c \<and> c \<le> 57)) ?s 3 4"
    using assms by (cases ds) (auto simp: is_mobile_def is_digit_def units_def)
  moreover have "(rx_matches rx_digit ?s ^^ 9) 4 13"
    unfolding one_chain using assms len
    by (auto simp: is_mobile_def list_all_length units_def nth_append nth_Cons')
  then have "rx_matches (Many rx_digit 9 (Some 9)) ?s 4 13" by auto
  ultimately have "rx_matches INDIAN_MOBILE ?s 0 13"
    unfolding INDIAN_MOBILE_def rx_seq.simps rx_matches.simps(6) using len
    by (auto simp del: rx_matches.simps(8) simp: relcompp_apply)
  then show ?thesis by (auto simp: rx_test_iff)
qed

text \<open>
  Every text that is accepted as an Indian mobile number, however it is written, is also detected as contact
  information; its normal form is \<open>+91\<close> and ten digits, and normalising that again changes nothing.
\<close>

theorem mobile_numbers_are_detected:
  assumes "normalizeIndianMobile s = Some p"
  shows "looksLikeContactInfo s \<and> looksLikeContactInfo p \<and> normalizeIndianMobile p = Some p \<and>
    (\<exists>ds. p = units ''+91'' @ ds \<and> is_mobile ds)"
proof -
  let ?c = "filter (\<lambda>c. \<not> separator c) s"
  have c: "rx_test INDIAN_MOBILE ?c" "p = units ''+91'' @ last_units 10 ?c"
    using assms by (auto simp: normalizeIndianMobile_def Let_def split: if_splits)
  note m = mobile_pattern[OF c(1)]
  define ds where "ds = last_units 10 ?c"
  have ds: "is_mobile ds" "?c = take (length ?c - 10) ?c @ ds" "p = units ''+91'' @ ds"
    using m c(2) by (simp_all add: ds_def last_units_def)
  have digits: "list_all is_digit ds" "length ds = 10" using ds(1) by (simp_all add: is_mobile_def)
  have clean: "filter (\<lambda>c. \<not> separator c) p = p"
    using digits(1) digit_no_separator
    by (auto simp: ds(3) list_all_iff filter_id_conv units_def separator_def is_white_def any_of_def)
  have "rx_test PHONE_LIKE s" by (rule digits_are_phone_like[OF ds(2) digits(1)]) (simp add: digits)
  moreover have "rx_test PHONE_LIKE p"
    by (rule digits_are_phone_like[of p "units ''+91''" ds]) (simp_all add: clean digits ds(3)[symmetric])
  moreover have "normalizeIndianMobile p = Some p"
    using mobile_accepted[OF ds(1)] digits(2)
    by (simp add: normalizeIndianMobile_def clean) (simp add: ds(3) last_units_def)
  ultimately show ?thesis using ds(1,3) by (auto simp: looksLikeContactInfo_def)
qed

theorem mobile_numbers_are_detected_witness:
  "looksLikeContactInfo (units ''(098) 765-43210'') \<and>
    normalizeIndianMobile (units ''(098) 765-43210'') = Some (units ''+919876543210'')"
proof -
  have "normalizeIndianMobile (units ''(098) 765-43210'') = Some (units ''+919876543210'')" by code_simp
  with mobile_numbers_are_detected[OF this] show ?thesis by simp
qed

end
