(* ===== verification/Spec2Isabelle.thy ===== *)
theory Spec2Isabelle
  imports Access Access_Samples Admin_Auth Admin_Reports Admin_Users Attendance Auth
    Auth_Theorems Back_Office Blocks Calendar Channels Chat Chat_Theorems Connections
    Connections_Steps Connections_Theorems Csv Cursors Dashboard Dashboard_Theorems Dates
    Delivery_Reports Delivery_Theorems Discovery Discovery_Service Discovery_Theorems Domain
    Enums Event_Images Event_Lists Events_Admin Integrity Integrity_Admin Integrity_Services
    Interests Json Locations Log_Sanitize Meta_Client Notifications Organizers Pagination
    Pass_Availability Payments Payments_Finalize Payments_Paid Payments_Refunds
    Payments_Requests Payments_Samples Payments_Seats Payments_Steps Payments_Theorems
    Pii_Guards Pii_Theorems Prelude Profile_Service Profile_Theorems Profiles Rate_Limit
    Razorpay_Gateway Realtime Regex Routes Routing Rows Safety_Theorems Samples Sanctions
    Sanctions_Steps Schema_Fields Schemas Schemas_Admin Server Sql_Text Suspicious Tables
    Text_Patterns Text_Theorems
begin

text \<open>
  A model of the server of Garba Partner (\<open>src/apps/api/src\<close> with the shared package
  \<open>src/packages/shared/src\<close>), an application in which members find dance partners for Garba events, with the
  theorems that make it correct.

  \<^bold>\<open>The program.\<close> HTTP routes and two socket events validate their input with shared schemas, pass
  middlewares (session, account state, permission, rate limit, CSRF header) and call services. A service reads and
  writes PostgreSQL through Sequelize, runs its critical sections in transactions, and talks to the outside
  (Razorpay, Firebase, Socket.IO, Cloudinary, Argon2, Meta) through adapters. The services share the database and
  call each other: interests ask discovery who is eligible, sanctions end matches and sessions, payments,
  interests and sanctions notify, notifications are handed on to SMS and WhatsApp.

  \<^bold>\<open>The state\<close> is the record \<open>db\<close> (\<open>Domain\<close>): one list of rows per table (\<open>Rows\<close>, the columns
  of \<open>src/apps/api/src/models\<close>), the clock, a stream of random numbers, and the list of effects that have
  left the process (socket events, calls of gateways, uploads and deletions of images). A table (\<open>Tables\<close>) knows
  its primary key, its CHECK constraints and its UNIQUE constraints, and a write that violates one fails and changes
  nothing. An operation is a function \<open>db \<Rightarrow> (failure + 'a) \<times> db\<close> (\<open>Prelude\<close>): \<open>Inl\<close> is a thrown
  error, \<open>transaction\<close> rolls the tables back on an error and \<open>tryCatch\<close> is a try block. What the random
  numbers, the gateways and the libraries answer is a parameter, so every theorem holds for all answers. State that
  is not in the database has its own type: the hits of the rate limits (\<open>Rate_Limit\<close>), the sockets
  (\<open>Realtime\<close>) and the deliveries over SMS and WhatsApp (\<open>Channels\<close>).

  \<^bold>\<open>Theories and code.\<close>
  \<^item> Foundations: \<open>Prelude\<close>, \<open>Rows\<close>, \<open>Tables\<close>, \<open>Domain\<close>, \<open>Samples\<close>; \<open>Enums\<close>, \<open>Dates\<close>,
    \<open>Calendar\<close> for \<open>packages/shared/src/constants\<close>, \<open>errors\<close> and \<open>utils/dates.ts\<close>; \<open>Pagination\<close>
    for \<open>lib/pagination.ts\<close>, whose locale \<open>keyset_list\<close> is interpreted for each list, and \<open>Cursors\<close> for
    the texts of the cursors.
  \<^item> Payments: \<open>Payments\<close>, \<open>Pass_Availability\<close>, \<open>Razorpay_Gateway\<close> (\<open>modules/payments\<close>,
    \<open>providers/payments\<close>). \<open>Payments_Steps\<close> is the transition system of the pass shop; \<open>Payments_Seats\<close>,
    \<open>Payments_Paid\<close>, \<open>Payments_Finalize\<close>, \<open>Payments_Refunds\<close>, \<open>Payments_Requests\<close> and
    \<open>Payments_Theorems\<close> hold its theorems.
  \<^item> Events: \<open>Events_Admin\<close>, \<open>Event_Images\<close>, \<open>Event_Lists\<close>, \<open>Organizers\<close>, \<open>Attendance\<close>,
    \<open>Locations\<close> (\<open>modules/admin/events\<close>, \<open>modules/events\<close>, \<open>modules/admin/organizers\<close>,
    \<open>modules/locations\<close>).
  \<^item> Accounts: \<open>Auth\<close>, \<open>Admin_Auth\<close>, \<open>Auth_Theorems\<close> (\<open>modules/auth\<close>, \<open>modules/admin/auth\<close>,
    \<open>middlewares/authenticate.ts\<close>, \<open>authorize.ts\<close>, \<open>lib/crypto.ts\<close>); \<open>Profiles\<close>,
    \<open>Profile_Service\<close>, \<open>Profile_Theorems\<close> (\<open>modules/profiles\<close>, \<open>utils/profile-completion.ts\<close>);
    \<open>Pii_Guards\<close>, \<open>Pii_Theorems\<close> (\<open>lib/pii-guards.ts\<close> and its SQL twin).
  \<^item> Discovery: \<open>Discovery\<close>, \<open>Discovery_Service\<close>, \<open>Discovery_Theorems\<close> (\<open>modules/discovery\<close>,
    \<open>modules/profiles/public-profiles.ts\<close>).
  \<^item> Interests and matches: \<open>Connections\<close>, \<open>Interests\<close>, \<open>Connections_Steps\<close>,
    \<open>Connections_Theorems\<close> (\<open>modules/interests\<close>).
  \<^item> Safety: \<open>Blocks\<close>, \<open>Suspicious\<close>, \<open>Sanctions\<close>, \<open>Sanctions_Steps\<close>, \<open>Safety_Theorems\<close>
    (\<open>modules/safety\<close>); \<open>Admin_Users\<close>, \<open>Admin_Reports\<close> (\<open>modules/admin/users\<close>, \<open>reports\<close>,
    \<open>matches\<close>).
  \<^item> Chat: \<open>Chat\<close>, \<open>Chat_Theorems\<close>, \<open>Realtime\<close>, \<open>Rate_Limit\<close> (\<open>modules/chat\<close>, \<open>realtime\<close>,
    \<open>lib/sliding-window.ts\<close>).
  \<^item> Notifications: \<open>Notifications\<close> (\<open>modules/notifications\<close>, service and jobs); \<open>Channels\<close>,
    \<open>Meta_Client\<close>, \<open>Log_Sanitize\<close>, \<open>Delivery_Reports\<close>, \<open>Delivery_Theorems\<close>
    (\<open>channel-notifier.ts\<close>, \<open>providers/messaging\<close>, \<open>providers/meta\<close>, \<open>lib/log-sanitize.ts\<close>,
    \<open>modules/whatsapp\<close>).
  \<^item> Texts and input: \<open>Regex\<close>, \<open>Text_Patterns\<close>, \<open>Text_Theorems\<close> (\<open>utils/text.ts\<close>,
    \<open>utils/phone.ts\<close>); \<open>Sql_Text\<close> (\<open>lib/sql.ts\<close>); \<open>Json\<close>, \<open>Schema_Fields\<close>, \<open>Schemas\<close>,
    \<open>Schemas_Admin\<close> (\<open>packages/shared/src/schemas\<close>, \<open>lib/validation.ts\<close>).
  \<^item> Back office: \<open>Back_Office\<close>, \<open>Dashboard\<close>, \<open>Csv\<close>, \<open>Dashboard_Theorems\<close>
    (\<open>modules/admin/payments\<close>, \<open>log-viewer\<close>, \<open>notifications\<close>, \<open>dashboard\<close>).
  \<^item> The whole: \<open>Routing\<close>, \<open>Routes\<close>, \<open>Access\<close>, \<open>Access_Samples\<close> (\<open>routes.ts\<close>, the
    \<open>*.routes.ts\<close> files, \<open>middlewares\<close>): which caller reaches which handler; \<open>Integrity\<close>,
    \<open>Integrity_Services\<close>, \<open>Integrity_Admin\<close>, \<open>Server\<close>: all writing methods as one transition system.

  \<^bold>\<open>What the theorems show.\<close>
  \<^item> Payments: passes are never oversold and an order is paid exactly when it is booked, in every state that
    requests, webhooks, jobs and administrators can reach in any order; a captured payment books its order, for
    exactly its amount; a refund starts only once and can be retried only after it failed; keys are idempotent;
    a webhook whose work failed stays open; nothing expires while the gateway cannot be asked.
  \<^item> Accounts: a request is let in only with a live session; a token works once, for one audience; sign-out
    takes effect; five wrong passwords lock an administrator; no minor gets a profile; the photo storage holds what
    profiles show; the checksum of identity numbers finds every single typo.
  \<^item> Members: eligibility is mutual and blocks, reports and sanctions exclude; whoever is listed can be
    opened; a match rests on one accepted interest of the same two members; answered interests and ended matches are
    final; blocks and reports separate completely; account states agree with sanctions, which no automation makes;
    messages are written only in open chats, once, within the limit, over a live session.
  \<^item> Lists and reports: pages list every row exactly once, cursors come back, trends add up to totals, the
    exported file is read back and holds no formula.
  \<^item> The whole: each handler is reached only by callers its policy admits, each address runs its own route,
    nothing on record is deleted or rewritten. Deliveries outside the app are made once and with consent, and
    delivery reports may come in any order.

  \<^bold>\<open>Proofs.\<close> Programs are reasoned about with \<open>keeps\<close> (an invariant survives an operation),
  \<open>leaves\<close> (a view of the state is not written) and the equations of \<open>run_simps\<close>; each has a collection of
  rules, so that a new operation needs one line. The interfaces are locales: \<open>stored_table\<close> and its extensions
  in \<open>Integrity\<close> (interpreted for all tables), \<open>keyset_list\<close>, the transition systems with their invariants.

  \<^bold>\<open>Bounds and fuel.\<close> Loops run over lists or counters; a theorem about a walk through pages takes a number
  of pages and holds for every number above the number of rows, and the CSV reader gets the length of the text, which
  no line or cell exceeds. Identifiers are natural numbers standing for UUIDs (ordered like them), instants are
  milliseconds. A transaction is atomic, so row locks and advisory locks have no counterpart; checks that the code
  makes outside of its transactions read the state before them.

  \<^bold>\<open>Not modelled.\<close> The bodies of the request handlers beyond the services they call (formatting of answers,
  cookies, media URLs) and the web and admin front ends, which hold no rules of their own; the mounting of the
  WhatsApp router, which exists only when that channel is configured; start-up, configuration, scheduling of the
  jobs and logging; foreign keys, triggers and plain indexes of the database. Libraries (JWT, AES, Argon2,
  Firebase, HTTP, HMAC, base64, Unicode, image processing) are parameters; where a theorem needs one of their
  promises, it is a named hypothesis with an instance in its witness.
\<close>

end
